(* ===== verification/Py_Prelude.thy ===== *)
theory Py_Prelude
  imports Complex_Main "HOL-Library.AList" "HOL-Library.Char_ord" "HOL-Library.List_Lexorder"
    "HOL-Library.Product_Lexorder" "HOL-Library.Multiset" "HOL-Library.Sublist"
begin

text \<open>
  Shared vocabulary of the development: the exceptions the modelled code raises, Python's
  insertion-ordered dictionaries as association lists, slices, sorting with a key, and a
  state-and-exception monad in which a raised exception keeps the state changes made before
  it (Python does not roll mutation back). The generic lemmas here are declared as
  simplification rules or collected in \<open>py_simps\<close>, \<open>dict_simps\<close> and \<open>preserves_intros\<close>.
\<close>

named_theorems py_simps \<open>unfolding of the state-and-exception combinators\<close>
named_theorems dict_simps \<open>dictionary lookups after updates and deletions\<close>
named_theorems preserves_intros \<open>a computation keeps an invariant of the state\<close>

section \<open>Exceptions\<close>

text \<open>
  One constructor per exception class the code raises or catches. \<open>Failure\<close> stands for any
  other exception an external call (network, codec, storage back end) may raise.
  \<open>CancelledError\<close> is what a task sees when it is cancelled from outside; it is no
  \<open>Exception\<close>, so that \<open>except Exception\<close> lets it pass.
\<close>

datatype exn =
    StateConflict string
  | ResourceNotFound string
  | InvalidTransition string
  | ExecutionStopped
  | PipelineError string
  | DomainUnavailable string
  | PolicyDenied string
  | PolicyUnavailable string
  | AuditUnavailable string
  | SecretNotFound string
  | WebhookNotFound string
  | AccessNotFound string
  | SurveillanceConflict string
  | SurveillanceNotFound string
  | FeatureStoreError string
  | PortraitNotFound string
  | PortraitConflict string
  | TrajectoryNotFound string
  | TrajectoryConflict string
  | AttributeError string
  | FeedbackNotFound string
  | FeedbackConflict string
  | DatasetNotFound string
  | DatasetConflict string
  | SavedSearchNotFound string
  | SavedSearchConflict string
  | TypeError string
  | IndexError string
  | IndexStoreError string
  | WebhookDeliveryError string
  | UnsafeNetworkTarget string
  | ObjectAlreadyExistsError string
  | ObjectIntegrityError string
  | FileNotFoundError string
  | ValueError string
  | RuntimeError string
  | KeyError
  | ZeroDivisionError
  | TimeoutError
  | CancelledError
  | Failure string

text \<open>The class hierarchy, as far as handlers in the code depend on it.\<close>

fun is_pipeline_error :: "exn \<Rightarrow> bool" where
  "is_pipeline_error (PipelineError _) = True"
| "is_pipeline_error (DomainUnavailable _) = True"
| "is_pipeline_error ExecutionStopped = True"
| "is_pipeline_error _ = False"

section \<open>Dictionaries, slices, sorting\<close>

type_synonym pyfloat = rat

type_synonym ('k, 'v) dict = "('k \<times> 'v) list"

text \<open>
  Assigning to a key keeps its position when the key is present and appends it otherwise:
  this is \<open>AList.update\<close>. Removing a key keeps the order of the others: \<open>AList.delete\<close>.
\<close>

abbreviation dict_get :: "('k, 'v) dict \<Rightarrow> 'k \<Rightarrow> 'v option" where
  "dict_get d k \<equiv> map_of d k"

abbreviation dict_set :: "'k \<Rightarrow> 'v \<Rightarrow> ('k, 'v) dict \<Rightarrow> ('k, 'v) dict" where
  "dict_set k v d \<equiv> AList.update k v d"

abbreviation dict_pop :: "'k \<Rightarrow> ('k, 'v) dict \<Rightarrow> ('k, 'v) dict" where
  "dict_pop k d \<equiv> AList.delete k d"

definition dict_setdefault :: "'k \<Rightarrow> 'v \<Rightarrow> ('k, 'v) dict \<Rightarrow> ('k, 'v) dict" where
  "dict_setdefault k v d = (case dict_get d k of None \<Rightarrow> d @ [(k, v)] | Some _ \<Rightarrow> d)"

abbreviation dict_ok :: "('k, 'v) dict \<Rightarrow> bool" where
  "dict_ok d \<equiv> distinct (map fst d)"

lemma dict_get_set [simp, dict_simps]:
  "dict_get (dict_set k v d) k' = (if k' = k then Some v else dict_get d k')"
  by (simp add: update_conv)

lemma dict_get_pop [simp, dict_simps]:
  "dict_get (dict_pop k d) k' = (if k' = k then None else dict_get d k')"
  by (simp add: delete_conv)

lemma dict_ok_set [simp, intro]: "dict_ok d \<Longrightarrow> dict_ok (dict_set k v d)"
  by (rule distinct_update)

lemma dict_ok_pop [simp, intro]: "dict_ok d \<Longrightarrow> dict_ok (dict_pop k d)"
  by (rule distinct_delete)

lemma dict_ok_filter [simp, intro]: "dict_ok d \<Longrightarrow> dict_ok (filter P d)"
  by (simp add: distinct_map_filter)

lemma dict_ok_map_val [simp]: "map fst (map (\<lambda>(k, v). (k, f k v)) d) = map fst d"
  by (induction d) auto

lemma dict_get_map_val [simp, dict_simps]:
  "dict_get (map (\<lambda>(k, v). (k, f k v)) d) k = map_option (f k) (dict_get d k)"
  by (induction d) auto

lemma dict_set_fresh: "dict_get d k = None \<Longrightarrow> dict_set k v d = d @ [(k, v)]"
  by (induction d) auto

lemma dict_set_split: "dict_set k v (xs @ ys) =
    (if k \<in> fst ` set xs then dict_set k v xs @ ys else xs @ dict_set k v ys)"
  by (induction xs) auto

lemma dict_get_filter:
  "dict_ok d \<Longrightarrow> dict_get (filter P d) k =
    (case dict_get d k of None \<Rightarrow> None | Some v \<Rightarrow> if P (k, v) then Some v else None)"
proof (induction d)
  case (Cons kv d)
  show ?case
  proof (cases "fst kv = k")
    case True
    with Cons.prems have none: "dict_get (filter P d) k = None"
      by (auto simp: map_of_eq_None_iff)
    with True show ?thesis by (cases kv) auto
  next
    case False
    with Cons show ?thesis by (cases kv) auto
  qed
qed simp

lemma dict_get_iff_mem: "dict_ok d \<Longrightarrow> dict_get d k = Some v \<longleftrightarrow> (k, v) \<in> set d"
  by (rule map_of_eq_Some_iff)

lemma set_dict_set:
  "set (dict_set k v d) \<subseteq> insert (k, v) (set d)"
  by (induction d) auto

lemma set_dict_set_ok:
  "dict_ok d \<Longrightarrow> set (dict_set k v d) = insert (k, v) {kv \<in> set d. fst kv \<noteq> k}"
proof (induction d)
  case (Cons kv d)
  then show ?case by (cases kv) (auto simp: image_iff)
qed simp

lemma set_dict_pop: "set (dict_pop k d) = {kv \<in> set d. fst kv \<noteq> k}"
  by (auto simp: AList.delete_eq)

lemma length_dict_set:
  "length (dict_set k v d) = (if dict_get d k = None then Suc (length d) else length d)"
  by (induction d) auto

lemma filter_dict_set_other:
  assumes "\<not> P (k, v)" and "\<And>v'. dict_get d k = Some v' \<Longrightarrow> \<not> P (k, v')" and "dict_ok d"
  shows "filter P (dict_set k v d) = filter P d"
  using assms
proof (induction d)
  case (Cons kv d)
  show ?case
  proof (cases "fst kv = k")
    case True
    with Cons.prems(1,2) show ?thesis by (cases kv) auto
  next
    case False
    with Cons show ?thesis by (cases kv) auto
  qed
qed simp

text \<open>Python slices: negative bounds count from the end, bounds out of range are clamped.\<close>

definition py_bound :: "'a list \<Rightarrow> int \<Rightarrow> nat" where
  "py_bound xs i = (let n = int (length xs) in
     nat (if i < 0 then max 0 (n + i) else min n i))"

definition py_slice :: "'a list \<Rightarrow> int \<Rightarrow> int \<Rightarrow> 'a list" where
  "py_slice xs i j = take (py_bound xs j - py_bound xs i) (drop (py_bound xs i) xs)"

definition py_slice_from :: "'a list \<Rightarrow> int \<Rightarrow> 'a list" where
  "py_slice_from xs i = drop (py_bound xs i) xs"

text \<open>\<open>rows[offset:] if limit is None else rows[offset : offset + limit]\<close>\<close>

definition py_page :: "'a list \<Rightarrow> int \<Rightarrow> int option \<Rightarrow> 'a list" where
  "py_page xs off lmt = (case lmt of
     None \<Rightarrow> py_slice_from xs off
   | Some l \<Rightarrow> py_slice xs off (off + l))"

lemma py_bound_nat [simp]: "py_bound xs (int n) = min (length xs) n"
  by (simp add: py_bound_def Let_def min_def)

lemma py_slice_nat: "py_slice xs (int a) (int b) = take (b - a) (drop a xs)"
  by (auto simp: py_slice_def min_def)

lemma py_slice_from_nat: "py_slice_from xs (int a) = drop a xs"
  by (auto simp: py_slice_from_def min_def)

lemma set_py_page: "set (py_page xs off lmt) \<subseteq> set xs"
  unfolding py_page_def py_slice_def py_slice_from_def
  by (auto split: option.splits dest: in_set_takeD in_set_dropD)

lemma py_page_all [simp]: "py_page xs 0 None = xs"
  by (simp add: py_page_def py_slice_from_def py_bound_def)

lemma py_page_nat: "py_page xs (int a) (Some (int l)) = take l (drop a xs)"
proof -
  have "py_slice xs (int a) (int (a + l)) = take l (drop a xs)"
    by (simp only: py_slice_nat) simp
  then show ?thesis by (simp add: py_page_def)
qed

lemma py_slice_all: "int (length xs) \<le> n \<Longrightarrow> py_slice xs 0 n = xs"
  by (simp add: py_slice_def py_bound_def Let_def)

lemma py_slice_prefix: "0 \<le> n \<Longrightarrow> py_slice xs 0 n = take (nat n) xs"
  using py_slice_nat [of xs 0 "nat n"] by simp

text \<open>
  \<open>sorted(xs, key=k)\<close> is the stable sort; \<open>reverse=True\<close> keeps the original order of
  elements with equal keys.
\<close>

definition py_sorted :: "('a \<Rightarrow> 'k::linorder) \<Rightarrow> 'a list \<Rightarrow> 'a list" where
  "py_sorted k xs = sort_key k xs"

definition py_sorted_desc :: "('a \<Rightarrow> 'k::linorder) \<Rightarrow> 'a list \<Rightarrow> 'a list" where
  "py_sorted_desc k xs = rev (sort_key k (rev xs))"

lemma mset_py_sorted [simp]: "mset (py_sorted k xs) = mset xs"
  by (simp add: py_sorted_def)

lemma mset_py_sorted_desc [simp]: "mset (py_sorted_desc k xs) = mset xs"
  by (simp add: py_sorted_desc_def)

lemma set_py_sorted [simp]: "set (py_sorted k xs) = set xs"
  by (simp add: py_sorted_def)

lemma set_py_sorted_desc [simp]: "set (py_sorted_desc k xs) = set xs"
  by (simp add: py_sorted_desc_def)

lemma length_py_sorted [simp]: "length (py_sorted k xs) = length xs"
  by (simp add: py_sorted_def)

lemma length_py_sorted_desc [simp]: "length (py_sorted_desc k xs) = length xs"
  by (simp add: py_sorted_desc_def)

lemma sorted_py_sorted [simp]: "sorted (map k (py_sorted k xs))"
  by (simp add: py_sorted_def)

lemma sorted_py_sorted_desc: "sorted_wrt (\<lambda>x y. k y \<le> k x) (py_sorted_desc k xs)"
proof -
  have "sorted_wrt (\<lambda>x y. k x \<le> k y) (sort_key k (rev xs))"
    using sorted_sort_key [of k "rev xs"] by (simp add: sorted_map)
  then show ?thesis by (simp add: py_sorted_desc_def sorted_wrt_rev)
qed

lemma distinct_py_sorted [simp]: "distinct (py_sorted k xs) = distinct xs"
  by (simp add: py_sorted_def)

section \<open>Stateful code that may raise\<close>

type_synonym ('s, 'a) py = "'s \<Rightarrow> (exn + 'a) \<times> 's"

definition ret :: "'a \<Rightarrow> ('s, 'a) py" where
  "ret x = (\<lambda>s. (Inr x, s))"

definition throw :: "exn \<Rightarrow> ('s, 'a) py" where
  "throw e = (\<lambda>s. (Inl e, s))"

text \<open>Sequencing: an exception skips the rest and keeps the state reached so far.\<close>

definition andthen :: "('s, 'a) py \<Rightarrow> ('a \<Rightarrow> ('s, 'b) py) \<Rightarrow> ('s, 'b) py" where
  "andthen m f = (\<lambda>s. case m s of
     (Inl e, s') \<Rightarrow> (Inl e, s')
   | (Inr x, s') \<Rightarrow> f x s')"

text \<open>\<open>try: m except Exception as e: h(e)\<close>\<close>

definition catch :: "('s, 'a) py \<Rightarrow> (exn \<Rightarrow> ('s, 'a) py) \<Rightarrow> ('s, 'a) py" where
  "catch m h = (\<lambda>s. case m s of
     (Inl e, s') \<Rightarrow> if e = CancelledError then (Inl e, s') else h e s'
   | (Inr x, s') \<Rightarrow> (Inr x, s'))"

text \<open>\<open>try: m except BaseException as e: h(e)\<close>\<close>

definition catch_base :: "('s, 'a) py \<Rightarrow> (exn \<Rightarrow> ('s, 'a) py) \<Rightarrow> ('s, 'a) py" where
  "catch_base m h = (\<lambda>s. case m s of
     (Inl e, s') \<Rightarrow> h e s'
   | (Inr x, s') \<Rightarrow> (Inr x, s'))"

text \<open>\<open>with suppress(Exception): m\<close>\<close>

definition suppress :: "('s, 'a) py \<Rightarrow> ('s, unit) py" where
  "suppress m = (\<lambda>s. (if fst (m s) = Inl CancelledError then Inl CancelledError else Inr (), snd (m s)))"

definition when_py :: "bool \<Rightarrow> ('s, unit) py \<Rightarrow> ('s, unit) py" where
  "when_py b m = (if b then m else ret ())"

fun for_each :: "'a list \<Rightarrow> ('a \<Rightarrow> ('s, unit) py) \<Rightarrow> ('s, unit) py" where
  "for_each [] f = ret ()"
| "for_each (x # xs) f = andthen (f x) (\<lambda>_. for_each xs f)"

fun map_py :: "('a \<Rightarrow> ('s, 'b) py) \<Rightarrow> 'a list \<Rightarrow> ('s, 'b list) py" where
  "map_py f [] = ret []"
| "map_py f (x # xs) = andthen (f x) (\<lambda>y. andthen (map_py f xs) (\<lambda>ys. ret (y # ys)))"

lemma ret_apply [simp, py_simps]: "ret x s = (Inr x, s)"
  by (simp add: ret_def)

lemma throw_apply [simp, py_simps]: "throw e s = (Inl e, s)"
  by (simp add: throw_def)

lemma andthen_apply [py_simps]:
  "andthen m f s = (case m s of (Inl e, s') \<Rightarrow> (Inl e, s') | (Inr x, s') \<Rightarrow> f x s')"
  by (simp add: andthen_def)

lemma catch_apply [py_simps]:
  "catch m h s = (case m s of
     (Inl e, s') \<Rightarrow> if e = CancelledError then (Inl e, s') else h e s'
   | (Inr x, s') \<Rightarrow> (Inr x, s'))"
  by (simp add: catch_def)

lemma catch_base_apply [py_simps]:
  "catch_base m h s = (case m s of (Inl e, s') \<Rightarrow> h e s' | (Inr x, s') \<Rightarrow> (Inr x, s'))"
  by (simp add: catch_base_def)

lemma suppress_apply [py_simps]:
  "suppress m s = (if fst (m s) = Inl CancelledError then Inl CancelledError else Inr (), snd (m s))"
  by (simp add: suppress_def)

lemma when_py_apply [py_simps]: "when_py b m s = (if b then m s else (Inr (), s))"
  by (simp add: when_py_def)

lemma andthen_ret [simp]: "andthen (ret x) f = f x"
  by (simp add: andthen_def ret_def)

lemma andthen_throw [simp]: "andthen (throw e) f = throw e"
  by (simp add: andthen_def throw_def)

lemma andthen_assoc: "andthen (andthen m f) g = andthen m (\<lambda>x. andthen (f x) g)"
  by (auto simp: andthen_def fun_eq_iff split: prod.splits sum.splits)

lemma andthen_Inr: "m s = (Inr x, s') \<Longrightarrow> andthen m f s = f x s'"
  by (simp add: andthen_def)

lemma andthen_Inl: "m s = (Inl e, s') \<Longrightarrow> andthen m f s = (Inl e, s')"
  by (simp add: andthen_def)

lemma andthen_InrE:
  assumes "andthen m f s = (Inr y, s'')"
  obtains x s' where "m s = (Inr x, s')" and "f x s' = (Inr y, s'')"
  using assms by (auto simp: andthen_def split: prod.splits sum.splits)

subsection \<open>Invariants of computations\<close>

definition preserves :: "('s \<Rightarrow> bool) \<Rightarrow> ('s, 'a) py \<Rightarrow> bool" where
  "preserves I m \<longleftrightarrow> (\<forall>s. I s \<longrightarrow> I (snd (m s)))"

lemma preservesI: "(\<And>s. I s \<Longrightarrow> I (snd (m s))) \<Longrightarrow> preserves I m"
  by (simp add: preserves_def)

lemma preservesD: "preserves I m \<Longrightarrow> I s \<Longrightarrow> I (snd (m s))"
  by (simp add: preserves_def)

lemma preserves_ret [preserves_intros]: "preserves I (ret x)"
  by (simp add: preserves_def)

lemma preserves_throw [preserves_intros]: "preserves I (throw e)"
  by (simp add: preserves_def)

lemma preserves_andthen [preserves_intros]:
  "preserves I m \<Longrightarrow> (\<And>x. preserves I (f x)) \<Longrightarrow> preserves I (andthen m f)"
  unfolding preserves_def andthen_def
  by (auto split: prod.splits sum.splits)

lemma preserves_catch [preserves_intros]:
  "preserves I m \<Longrightarrow> (\<And>e. preserves I (h e)) \<Longrightarrow> preserves I (catch m h)"
  unfolding preserves_def catch_def
  by (auto split: prod.splits sum.splits)

lemma preserves_catch_base [preserves_intros]:
  "preserves I m \<Longrightarrow> (\<And>e. preserves I (h e)) \<Longrightarrow> preserves I (catch_base m h)"
  unfolding preserves_def catch_base_def
  by (auto split: prod.splits sum.splits)

lemma preserves_suppress [preserves_intros]: "preserves I m \<Longrightarrow> preserves I (suppress m)"
  by (simp add: preserves_def suppress_def)

lemma preserves_when_py [preserves_intros]: "preserves I m \<Longrightarrow> preserves I (when_py b m)"
  by (simp add: preserves_def when_py_def)

lemma preserves_if [preserves_intros]:
  "(b \<Longrightarrow> preserves I m) \<Longrightarrow> (\<not> b \<Longrightarrow> preserves I m') \<Longrightarrow> preserves I (if b then m else m')"
  by simp

lemma preserves_option [preserves_intros]:
  "preserves I m \<Longrightarrow> (\<And>x. preserves I (f x)) \<Longrightarrow>
   preserves I (case v of None \<Rightarrow> m | Some x \<Rightarrow> f x)"
  by (cases v) simp_all

lemma preserves_let [preserves_intros]: "preserves I (f v) \<Longrightarrow> preserves I (let x = v in f x)"
  by simp

lemma preserves_pair [preserves_intros]:
  "(\<And>a b. preserves I (f a b)) \<Longrightarrow> preserves I (case p of (a, b) \<Rightarrow> f a b)"
  by (cases p) simp

lemma preserves_for_each [preserves_intros]:
  "(\<And>x. preserves I (f x)) \<Longrightarrow> preserves I (for_each xs f)"
  by (induction xs) (auto intro: preserves_intros)

lemma preserves_map_py [preserves_intros]:
  "(\<And>x. preserves I (f x)) \<Longrightarrow> preserves I (map_py f xs)"
  by (induction xs) (auto intro!: preserves_intros)

text \<open>
  \<open>yields I Q m\<close>: from a state that satisfies \<open>I\<close>, every value \<open>m\<close> returns satisfies \<open>Q\<close>. With it
  the continuation of a sequence may rely on what was returned.
\<close>

definition yields :: "('s \<Rightarrow> bool) \<Rightarrow> ('a \<Rightarrow> bool) \<Rightarrow> ('s, 'a) py \<Rightarrow> bool" where
  "yields I Q m \<longleftrightarrow> (\<forall>s x s'. I s \<longrightarrow> m s = (Inr x, s') \<longrightarrow> Q x)"

lemma yieldsI: "(\<And>s x s'. I s \<Longrightarrow> m s = (Inr x, s') \<Longrightarrow> Q x) \<Longrightarrow> yields I Q m"
  by (auto simp: yields_def)

lemma yieldsD: "yields I Q m \<Longrightarrow> I s \<Longrightarrow> m s = (Inr x, s') \<Longrightarrow> Q x"
  by (auto simp: yields_def)

lemma preserves_andthen_yields:
  assumes "preserves I m" and "yields I Q m" and "\<And>x. Q x \<Longrightarrow> preserves I (f x)"
  shows "preserves I (andthen m f)"
proof (rule preservesI)
  fix s assume s: "I s"
  obtain r s' where m: "m s = (r, s')" by fastforce
  with assms(1) s have s': "I s'" by (auto dest: preservesD)
  show "I (snd (andthen m f s))"
  proof (cases r)
    case (Inl e) with m s' show ?thesis by (simp add: andthen_def)
  next
    case (Inr x)
    with m s assms(2) have "Q x" by (auto dest: yieldsD)
    with assms(3) s' have "I (snd (f x s'))" by (auto dest: preservesD)
    with m Inr show ?thesis by (simp add: andthen_def)
  qed
qed

lemma yields_andthen:
  assumes "preserves I m" and "yields I Q m" and "\<And>x. Q x \<Longrightarrow> yields I R (f x)"
  shows "yields I R (andthen m f)"
proof (rule yieldsI)
  fix s y s''
  assume s: "I s" and run: "andthen m f s = (Inr y, s'')"
  from run obtain x s' where m: "m s = (Inr x, s')" and f: "f x s' = (Inr y, s'')" by (rule andthen_InrE)
  from assms(1) s m have "I s'" by (auto dest: preservesD)
  moreover from assms(2) s m have "Q x" by (rule yieldsD)
  ultimately show "R y" using assms(3) f by (auto dest: yieldsD)
qed

lemma yields_any: "yields I (\<lambda>_. True) m"
  by (simp add: yields_def)

lemma yields_then: "(\<And>x. yields (\<lambda>_. True) R (f x)) \<Longrightarrow> yields (\<lambda>_. True) R (andthen m f)"
  by (rule yields_andthen [OF _ yields_any]) (simp_all add: preserves_def)

lemma yields_use:
  assumes "yields (\<lambda>_. True) Q m" "\<And>x. Q x \<Longrightarrow> yields (\<lambda>_. True) R (f x)"
  shows "yields (\<lambda>_. True) R (andthen m f)"
  by (rule yields_andthen [OF _ assms]) (simp_all add: preserves_def)

lemma yields_ret: "Q x \<Longrightarrow> yields I Q (ret x)"
  by (simp add: yields_def)

lemma yields_throw: "yields I Q (throw e)"
  by (simp add: yields_def)

section \<open>Optional values\<close>

text \<open>A new value where one is given.\<close>

definition or_current :: "'a option \<Rightarrow> 'a \<Rightarrow> 'a" where
  "or_current v current = (case v of None \<Rightarrow> current | Some x \<Rightarrow> x)"

section \<open>Strings\<close>

text \<open>\<open>s.split(sep)\<close> for a one-character separator: never empty.\<close>

fun py_split :: "char \<Rightarrow> string \<Rightarrow> string list" where
  "py_split c [] = [[]]"
| "py_split c (x # xs) =
     (if x = c then [] # py_split c xs
      else case py_split c xs of
        [] \<Rightarrow> [[x]]
      | p # ps \<Rightarrow> (x # p) # ps)"

text \<open>\<open>s.split(sep, 1)[0]\<close>\<close>

definition py_split_head :: "char \<Rightarrow> string \<Rightarrow> string" where
  "py_split_head c s = takeWhile (\<lambda>x. x \<noteq> c) s"

text \<open>\<open>str(n)\<close> for a natural number, and the zero-padded \<open>f"{n:06d}"\<close>.\<close>

fun nat_str :: "nat \<Rightarrow> string" where
  "nat_str n = (if n < 10 then [char_of (48 + n)]
                else nat_str (n div 10) @ [char_of (48 + n mod 10)])"

declare nat_str.simps [simp del]

definition zero_pad :: "nat \<Rightarrow> nat \<Rightarrow> string" where
  "zero_pad w n = (let s = nat_str n in replicate (w - length s) (CHR ''0'') @ s)"

definition py_startswith :: "string \<Rightarrow> string \<Rightarrow> bool" where
  "py_startswith p s \<longleftrightarrow> take (length p) s = p"

definition py_join :: "string \<Rightarrow> string list \<Rightarrow> string" where
  "py_join sep xs = (case xs of [] \<Rightarrow> [] | y # ys \<Rightarrow> y @ concat (map (\<lambda>z. sep @ z) ys))"

text \<open>\<open>p in s\<close>, \<open>s.removeprefix(p)\<close> and \<open>str(i)\<close>.\<close>

fun py_contains :: "string \<Rightarrow> string \<Rightarrow> bool" where
  "py_contains p [] \<longleftrightarrow> p = []"
| "py_contains p (c # cs) \<longleftrightarrow> py_startswith p (c # cs) \<or> py_contains p cs"

definition py_removeprefix :: "string \<Rightarrow> string \<Rightarrow> string" where
  "py_removeprefix p s = (if py_startswith p s then drop (length p) s else s)"

definition int_str :: "int \<Rightarrow> string" where
  "int_str i = (if i < 0 then CHR ''-'' # nat_str (nat (- i)) else nat_str (nat i))"

text \<open>Reading a numeral back, and that padding keeps numbers apart.\<close>

definition str_nat :: "string \<Rightarrow> nat" where
  "str_nat s = foldl (\<lambda>a c. a * 10 + (of_char c - 48)) 0 s"

lemma str_nat_snoc: "str_nat (s @ [c]) = str_nat s * 10 + (of_char c - 48)"
  by (simp add: str_nat_def)

lemma nat_str_roundtrip: "str_nat (nat_str n) = n"
proof (induction n rule: nat_str.induct)
  case (1 n)
  show ?case
  proof (cases "n < 10")
    case True
    then show ?thesis by (simp add: nat_str.simps [of n] str_nat_def of_char_of)
  next
    case False
    have "of_char (char_of (48 + n mod 10) :: char) = 48 + n mod 10"
      by (simp add: of_char_of)
    with False 1 show ?thesis by (simp add: nat_str.simps [of n] str_nat_snoc)
  qed
qed

lemma str_nat_zeros: "str_nat (replicate m (CHR ''0'') @ s) = str_nat s"
proof -
  have "foldl (\<lambda>a c. a * 10 + (of_char c - 48)) 0 (replicate m (CHR ''0'')) = (0 :: nat)"
    by (induction m) auto
  then show ?thesis by (simp add: str_nat_def)
qed

lemma zero_pad_inj: "zero_pad w m = zero_pad w n \<longleftrightarrow> m = n"
proof
  assume "zero_pad w m = zero_pad w n"
  then have "str_nat (zero_pad w m) = str_nat (zero_pad w n)" by simp
  then show "m = n" by (simp add: zero_pad_def Let_def str_nat_zeros nat_str_roundtrip)
qed simp

end
