(* ===== verification/Platform_Models.thy ===== *)
theory Platform_Models
  imports Py_Prelude
begin

text \<open>
  The data the platform exchanges and stores: \<open>scenara/platform/models.py\<close>, the audit event of
  \<open>audit.py\<close>, the model package of \<open>model_runtime.py\<close> and the pipeline definitions of
  \<open>pipeline.py\<close>. A pydantic model or dataclass is a record with every field of the source, an
  enumeration a datatype. Field names carry a prefix per record because HOL record fields are
  global constants. Floats are exact rationals (the modelled code only adds, compares and
  takes minima and maxima of them), Python integers are \<open>int\<close>, free-form JSON values are
  \<open>json\<close>. Records are values, so \<open>model_copy(deep=True)\<close> is the identity.
\<close>

type_synonym key3 = "string \<times> string \<times> string"

datatype json =
    JNull
  | JBool bool
  | JInt int
  | JFloat rat
  | JStr string
  | JList "json list"
  | JObj "(string \<times> json) list"

type_synonym json_dict = "(string \<times> json) list"

section \<open>Enumerations\<close>

datatype media_kind = IMAGE | VIDEO | DOCUMENT | STREAM

fun media_kind_value :: "media_kind \<Rightarrow> string" where
  "media_kind_value IMAGE = ''image''"
| "media_kind_value VIDEO = ''video''"
| "media_kind_value DOCUMENT = ''document''"
| "media_kind_value STREAM = ''stream''"

datatype source_kind = SOURCE_STREAM

datatype sample_strategy = INTERVAL | KEYFRAME | SCENE_CHANGE | UNIFORM

datatype run_status =
    QUEUED | RUNNING | PAUSING | PAUSED | COMPLETED | FAILED | CANCELLING | CANCELLED

fun run_status_value :: "run_status \<Rightarrow> string" where
  "run_status_value QUEUED = ''queued''"
| "run_status_value RUNNING = ''running''"
| "run_status_value PAUSING = ''pausing''"
| "run_status_value PAUSED = ''paused''"
| "run_status_value COMPLETED = ''completed''"
| "run_status_value FAILED = ''failed''"
| "run_status_value CANCELLING = ''cancelling''"
| "run_status_value CANCELLED = ''cancelled''"

definition TERMINAL_RUN_STATUSES :: "run_status set" where
  "TERMINAL_RUN_STATUSES = {COMPLETED, FAILED, CANCELLED}"

lemma terminal_iff [simp]:
  "st \<in> TERMINAL_RUN_STATUSES \<longleftrightarrow> st = COMPLETED \<or> st = FAILED \<or> st = CANCELLED"
  by (auto simp: TERMINAL_RUN_STATUSES_def)

datatype pipeline_status = P_DRAFT | P_VALIDATED | P_APPROVED | P_ACTIVE | P_RETIRED

fun pipeline_status_value :: "pipeline_status \<Rightarrow> string" where
  "pipeline_status_value P_DRAFT = ''draft''"
| "pipeline_status_value P_VALIDATED = ''validated''"
| "pipeline_status_value P_APPROVED = ''approved''"
| "pipeline_status_value P_ACTIVE = ''active''"
| "pipeline_status_value P_RETIRED = ''retired''"

datatype dataset_status = D_DRAFT | D_ACTIVE | D_ARCHIVED

datatype dataset_version_status = DV_DRAFT | DV_VALIDATED | DV_PUBLISHED | DV_RETIRED

datatype saved_search_mode = SEARCH_TEXT | SEARCH_PORTRAIT

datatype delivery_status = PENDING | DELIVERING | DELIVERED | DEAD_LETTER

datatype index_status = INDEX_READY | INDEX_PARTIAL

datatype retention_category =
    RAW_MEDIA | PREVIEW | STRUCTURED_RESULT | BIOMETRIC | ALERT_SNAPSHOT

datatype owner_type = MEDIA_ASSET | RUN_RESULT | PORTRAIT_ENROLLMENT | SURVEILLANCE_ALERT

section \<open>Callers and media\<close>

record principal_context =
  ctx_tenant_id :: string
  ctx_project_id :: string
  ctx_principal_id :: string
  ctx_scopes :: "string set"
  ctx_product_ids :: "string set"
  ctx_request_id :: "string option"
  ctx_traceparent :: "string option"

record media_technical_metadata =
  mtm_format :: "string option"
  mtm_container :: "string option"
  mtm_codec :: "string option"
  mtm_width :: "int option"
  mtm_height :: "int option"
  mtm_fps :: "pyfloat option"
  mtm_frame_count :: "int option"
  mtm_duration_ms :: "int option"
  mtm_page_count :: "int option"
  mtm_sampled_units :: "int option"
  mtm_frames_read :: "int option"
  mtm_sample_interval_ms :: "int option"
  mtm_sample_strategy :: "sample_strategy option"
  mtm_sample_start_ms :: "int option"
  mtm_sample_end_ms :: "int option"
  mtm_keyframe_count :: "int option"
  mtm_scene_change_count :: "int option"
  mtm_frame_max_edge :: "int option"
  mtm_decode_seek_used :: "bool option"
  mtm_reconnect_count :: "int option"
  mtm_elapsed_ms :: "int option"
  mtm_stream_segment_duration_ms :: "int option"
  mtm_stream_segment_index :: "int option"
  mtm_timestamp_source :: "string option"
  mtm_native_text_available :: "bool option"

definition empty_metadata :: media_technical_metadata where
  "empty_metadata = \<lparr>mtm_format = None, mtm_container = None, mtm_codec = None,
     mtm_width = None, mtm_height = None, mtm_fps = None, mtm_frame_count = None,
     mtm_duration_ms = None, mtm_page_count = None, mtm_sampled_units = None,
     mtm_frames_read = None, mtm_sample_interval_ms = None, mtm_sample_strategy = None,
     mtm_sample_start_ms = None, mtm_sample_end_ms = None, mtm_keyframe_count = None,
     mtm_scene_change_count = None, mtm_frame_max_edge = None, mtm_decode_seek_used = None,
     mtm_reconnect_count = None, mtm_elapsed_ms = None, mtm_stream_segment_duration_ms = None,
     mtm_stream_segment_index = None, mtm_timestamp_source = None,
     mtm_native_text_available = None\<rparr>"

record media_asset =
  asset_asset_id :: string
  asset_tenant_id :: string
  asset_project_id :: string
  asset_kind :: media_kind
  asset_domain :: "string option"
  asset_filename :: "string option"
  asset_content_type :: string
  asset_size_bytes :: int
  asset_sha256 :: string
  asset_object_key :: string
  asset_preview_object_key :: "string option"
  asset_preview_content_type :: "string option"
  asset_preview_sha256 :: "string option"
  asset_metadata :: media_technical_metadata
  asset_temporary :: bool
  asset_created_at :: pyfloat
  asset_expires_at :: "pyfloat option"
  asset_original_deleted_at :: "pyfloat option"
  asset_deleted_at :: "pyfloat option"

record media_source =
  source_source_id :: string
  source_tenant_id :: string
  source_project_id :: string
  source_kind_of :: source_kind
  source_name :: string
  source_masked_url :: string
  source_secret_ref :: string
  source_metadata :: json_dict
  source_created_at :: pyfloat

section \<open>Datasets and saved searches\<close>

record dataset_record =
  ds_dataset_id :: string
  ds_tenant_id :: string
  ds_project_id :: string
  ds_name :: string
  ds_description :: string
  ds_status :: dataset_status
  ds_metadata :: json_dict
  ds_created_at :: pyfloat
  ds_updated_at :: pyfloat

record dataset_version =
  dv_version_id :: string
  dv_dataset_id :: string
  dv_tenant_id :: string
  dv_project_id :: string
  dv_version :: string
  dv_status :: dataset_version_status
  dv_manifest_sha256 :: string
  dv_asset_ids :: "string list"
  dv_item_count :: int
  dv_quality_score :: "pyfloat option"
  dv_lineage :: json_dict
  dv_annotation_summary :: json_dict
  dv_created_by :: string
  dv_created_at :: pyfloat
  dv_updated_at :: pyfloat

record saved_search =
  ss_saved_search_id :: string
  ss_tenant_id :: string
  ss_project_id :: string
  ss_name :: string
  ss_description :: string
  ss_mode :: saved_search_mode
  ss_definition :: json_dict
  ss_created_by :: string
  ss_created_at :: pyfloat
  ss_updated_at :: pyfloat
  ss_last_run_at :: "pyfloat option"

section \<open>Webhooks\<close>

record webhook_subscription =
  wh_endpoint_id :: string
  wh_tenant_id :: string
  wh_project_id :: string
  wh_name :: string
  wh_url :: string
  wh_secret_ref :: string
  wh_event_types :: "string set"
  wh_enabled :: bool
  wh_created_at :: pyfloat

record webhook_subscription_view =
  whv_endpoint_id :: string
  whv_name :: string
  whv_url :: string
  whv_event_types :: "string set"
  whv_enabled :: bool
  whv_created_at :: pyfloat

record webhook_delivery_record =
  whd_delivery_id :: string
  whd_tenant_id :: string
  whd_project_id :: string
  whd_endpoint_id :: string
  whd_event_id :: string
  whd_event_type :: string
  whd_payload :: json_dict
  whd_status :: delivery_status
  whd_attempts :: int
  whd_next_attempt_at :: pyfloat
  whd_status_code :: "int option"
  whd_last_error :: "string option"
  whd_created_at :: pyfloat
  whd_updated_at :: pyfloat
  whd_delivered_at :: "pyfloat option"

section \<open>Runs\<close>

record pipeline_ref =
  pref_pipeline_id :: string
  pref_version :: string

record create_run_request =
  crr_domain :: string
  crr_pipeline :: pipeline_ref
  crr_asset_id :: "string option"
  crr_source_id :: "string option"
  crr_parameters :: json_dict
  crr_priority :: int
  crr_wait_ms :: int

record run_record =
  run_run_id :: string
  run_tenant_id :: string
  run_project_id :: string
  run_principal_id :: string
  run_request_id :: "string option"
  run_trace_id :: "string option"
  run_domain :: string
  run_pipeline :: pipeline_ref
  run_asset_id :: "string option"
  run_source_id :: "string option"
  run_stream_session_id :: "string option"
  run_stream_segment_index :: "int option"
  run_previous_run_id :: "string option"
  run_next_run_id :: "string option"
  run_parameters :: json_dict
  run_priority :: int
  run_state :: run_status
  run_revision :: int
  run_progress :: pyfloat
  run_error_code :: "string option"
  run_termination_reason :: "string option"
  run_created_at :: pyfloat
  run_updated_at :: pyfloat
  run_started_at :: "pyfloat option"
  run_completed_at :: "pyfloat option"

record run_event =
  ev_run_id :: string
  ev_event_id :: int
  ev_event_type :: string
  ev_event_version :: string
  ev_occurred_at :: "string option"
  ev_producer :: string
  ev_tenant_id :: "string option"
  ev_project_id :: "string option"
  ev_request_id :: "string option"
  ev_trace_id :: "string option"
  ev_status :: run_status
  ev_payload :: json_dict
  ev_created_at :: pyfloat

datatype session_status = SESSION_ACTIVE | SESSION_COMPLETED | SESSION_FAILED | SESSION_CANCELLED

record stream_session_view =
  ssv_session_id :: string
  ssv_source_id :: string
  ssv_domain :: string
  ssv_pipeline :: pipeline_ref
  ssv_status :: session_status
  ssv_current_run_id :: string
  ssv_segment_count :: int
  ssv_created_at :: pyfloat
  ssv_updated_at :: pyfloat

record result_reference =
  ref_run_id :: string
  ref_schema_version :: string
  ref_object_key :: string
  ref_sha256 :: string
  ref_unit_count :: int
  ref_shard_keys :: "string list"
  ref_shard_sha256 :: "string list"
  ref_shard_unit_counts :: "int list"
  ref_domain :: string
  ref_created_at :: pyfloat
  ref_asset_id :: "string option"
  ref_source_id :: "string option"
  ref_media_kind :: "media_kind option"
  ref_resource_name :: "string option"
  ref_object_count :: int
  ref_person_count :: int
  ref_face_count :: int
  ref_ocr_block_count :: int
  ref_text_length :: int
  ref_warning_count :: int
  ref_index_status :: index_status

record object_retention_record =
  ret_tenant_id :: string
  ret_project_id :: string
  ret_object_key :: string
  ret_category :: retention_category
  ret_owner_type :: owner_type
  ret_owner_id :: string
  ret_created_at :: pyfloat
  ret_expires_at :: "pyfloat option"
  ret_deleted_at :: "pyfloat option"

section \<open>Audit events and model packages\<close>

record audit_event =
  aud_event_id :: string
  aud_tenant_id :: string
  aud_project_id :: string
  aud_principal_id :: string
  aud_action :: string
  aud_resource_type :: string
  aud_resource_id :: "string option"
  aud_outcome :: string
  aud_request_id :: "string option"
  aud_evidence :: json_dict
  aud_created_at :: pyfloat

record model_artifact_file =
  maf_path :: string
  maf_sha256 :: string
  maf_size_bytes :: int
  maf_media_type :: string

record model_package_manifest =
  mpm_schema_version :: string
  mpm_model_id :: string
  mpm_version :: string
  mpm_capability :: string
  mpm_adapter :: string
  mpm_runtime_model_id :: string
  mpm_sha256 :: string
  mpm_source_uri :: string
  mpm_license_id :: string
  mpm_model_card :: string
  mpm_evaluation_evidence :: "string list"
  mpm_vram_mb :: int
  mpm_regression_samples :: "string list"
  mpm_production_ready :: bool
  mpm_domain :: "string option"
  mpm_artifact_format :: string
  mpm_artifact_files :: "model_artifact_file list"
  mpm_input_schema :: "string option"
  mpm_output_schema :: "string option"

section \<open>Pipelines\<close>

datatype failure_policy = FAIL | RETRY

record operator_definition =
  op_operator_id :: string
  op_version :: string
  op_domain :: "string option"
  op_input_types :: "(string, string) dict"
  op_output_types :: "(string, string) dict"
  op_timeout_seconds :: pyfloat
  op_resource_class :: string
  op_resource_budget :: "(string, pyfloat) dict"
  op_batchable :: bool
  op_max_batch_size :: int
  op_failure_policy :: failure_policy
  op_max_attempts :: int

record pipeline_node =
  node_node_id :: string
  node_operator_id :: string
  node_inputs :: "(string, string) dict"
  node_parameters :: json_dict

record pipeline_parameter_definition =
  ppd_label :: string
  ppd_control :: string
  ppd_default :: json
  ppd_minimum :: "pyfloat option"
  ppd_maximum :: "pyfloat option"
  ppd_step :: "pyfloat option"
  ppd_options :: "string list"
  ppd_placeholder :: "string option"
  ppd_advanced :: bool
  ppd_media_kinds :: "string set"
  ppd_description :: "string option"

record pipeline_definition =
  pd_pipeline_id :: string
  pd_version :: string
  pd_domain :: string
  pd_status :: pipeline_status
  pd_nodes :: "pipeline_node list"
  pd_output :: string
  pd_allowed_parameters :: "string set"
  pd_parameter_schema :: "(string, pipeline_parameter_definition) dict"
  pd_pausable :: bool

text \<open>
  \<open>definition_sha256\<close> hashes the JSON dump of every field but the status. The dump and the
  hash are one function \<open>digest\<close> of those fields, a parameter of the operations that use it.
\<close>

type_synonym pipeline_payload =
  "string \<times> string \<times> string \<times> pipeline_node list \<times> string \<times> string set \<times>
   (string, pipeline_parameter_definition) dict \<times> bool"

type_synonym pipeline_digest = "pipeline_payload \<Rightarrow> string"

definition pipeline_payload :: "pipeline_definition \<Rightarrow> pipeline_payload" where
  "pipeline_payload p = (pd_pipeline_id p, pd_version p, pd_domain p, pd_nodes p, pd_output p,
     pd_allowed_parameters p, pd_parameter_schema p, pd_pausable p)"

definition definition_sha256 :: "pipeline_digest \<Rightarrow> pipeline_definition \<Rightarrow> string" where
  "definition_sha256 digest p = digest (pipeline_payload p)"

lemma definition_sha256_status [simp]:
  "definition_sha256 digest (p\<lparr>pd_status := st\<rparr>) = definition_sha256 digest p"
  by (simp add: definition_sha256_def pipeline_payload_def)

end
