(* ===== verification/Memory_State.thy ===== *)
theory Memory_State
  imports Platform_Models
begin

text \<open>
  The state of \<open>MemoryStateStore\<close> (\<open>scenara/infrastructure/memory_state.py\<close>): one dictionary
  per kind of row, each keyed by tenant, project and identifier. Every method of the class
  runs under one lock, so each operation of the store theories is a single atomic step from
  state to state. The locales at the end state the contract that the tables share; the
  theories \<open>Store_Media\<close>, \<open>Store_Catalog\<close>, \<open>Store_Webhooks\<close> and \<open>Store_Runs\<close> interpret them on
  the operations of the class.
\<close>

record memory_state_store =
  mem_assets :: "(key3, media_asset) dict"
  mem_sources :: "(key3, media_source) dict"
  mem_datasets :: "(key3, dataset_record) dict"
  mem_dataset_versions :: "(key3, dataset_version) dict"
  mem_saved_searches :: "(key3, saved_search) dict"
  mem_runs :: "(key3, run_record) dict"
  mem_events :: "(key3, run_event list) dict"
  mem_results :: "(key3, result_reference) dict"
  mem_idempotency :: "(key3, string \<times> string) dict"
  mem_audits :: "audit_event list"
  mem_external_event_hashes :: "(key3, string) dict"
  mem_object_retention :: "(key3, object_retention_record) dict"
  mem_pipelines :: "(string \<times> string, pipeline_definition) dict"
  mem_model_packages :: "(string \<times> string, model_package_manifest) dict"
  mem_webhook_subscriptions :: "(key3, webhook_subscription) dict"
  mem_webhook_deliveries :: "(key3, webhook_delivery_record) dict"

definition memory_state_init :: memory_state_store where
  "memory_state_init = \<lparr>mem_assets = [], mem_sources = [], mem_datasets = [],
     mem_dataset_versions = [], mem_saved_searches = [], mem_runs = [], mem_events = [],
     mem_results = [], mem_idempotency = [], mem_audits = [], mem_external_event_hashes = [],
     mem_object_retention = [], mem_pipelines = [], mem_model_packages = [],
     mem_webhook_subscriptions = [], mem_webhook_deliveries = []\<rparr>"

type_synonym mem = memory_state_store

definition store_key :: "string \<Rightarrow> string \<Rightarrow> string \<Rightarrow> key3" where
  "store_key tenant_id project_id value_id = (tenant_id, project_id, value_id)"

text \<open>\<open>key[:2] == (tenant_id, project_id)\<close>\<close>

definition in_scope :: "string \<Rightarrow> string \<Rightarrow> key3 \<Rightarrow> bool" where
  "in_scope tenant_id project_id k \<longleftrightarrow> fst k = tenant_id \<and> fst (snd k) = project_id"

lemma store_key_eq [simp]: "store_key t p i = store_key t' p' i' \<longleftrightarrow> t = t' \<and> p = p' \<and> i = i'"
  by (simp add: store_key_def)

lemma in_scope_key [simp]: "in_scope t p (store_key t' p' i) \<longleftrightarrow> t' = t \<and> p' = p"
  by (simp add: in_scope_def store_key_def)

text \<open>The rows of one tenant and project, in insertion order.\<close>

definition scoped_rows :: "string \<Rightarrow> string \<Rightarrow> (key3, 'v) dict \<Rightarrow> 'v list" where
  "scoped_rows t p d = map snd (filter (\<lambda>kv. in_scope t p (fst kv)) d)"

lemma scoped_rows_set_other:
  "\<not> in_scope t p k \<Longrightarrow> scoped_rows t p (dict_set k v d) = scoped_rows t p d"
  unfolding scoped_rows_def
  by (induction d) (auto split: if_splits)

lemma scoped_rows_pop_other:
  "\<not> in_scope t p k \<Longrightarrow> scoped_rows t p (dict_pop k d) = scoped_rows t p d"
  unfolding scoped_rows_def by (induction d) auto

text \<open>Every row is filed under the key its own fields name, and under one key only.\<close>

definition keyed :: "('v \<Rightarrow> key3) \<Rightarrow> (key3, 'v) dict \<Rightarrow> bool" where
  "keyed key d \<longleftrightarrow> dict_ok d \<and> (\<forall>(k, v) \<in> set d. k = key v)"

lemma keyed_Nil [simp, intro]: "keyed key []"
  by (simp add: keyed_def)

lemma keyed_ok: "keyed key d \<Longrightarrow> dict_ok d"
  by (simp add: keyed_def)

lemma keyed_get: "keyed key d \<Longrightarrow> dict_get d k = Some v \<Longrightarrow> key v = k"
  unfolding keyed_def by (auto dest!: map_of_SomeD)

lemma keyed_set [intro]: "keyed key d \<Longrightarrow> k = key v \<Longrightarrow> keyed key (dict_set k v d)"
  unfolding keyed_def by (auto simp: set_dict_set_ok)

lemma keyed_pop [intro]: "keyed key d \<Longrightarrow> keyed key (dict_pop k d)"
  unfolding keyed_def by (auto simp: set_dict_pop)

lemma keyed_filter [intro]: "keyed key d \<Longrightarrow> keyed key (filter P d)"
  unfolding keyed_def by auto

lemma keyed_map_val:
  assumes "keyed key d" and "\<And>k v. key (f k v) = key v"
  shows "keyed key (map (\<lambda>(k, v). (k, f k v)) d)"
proof -
  have "dict_ok (map (\<lambda>(k, v). (k, f k v)) d)"
    using assms(1) by (simp only: dict_ok_map_val keyed_def)
  with assms show ?thesis unfolding keyed_def by fastforce
qed

section \<open>The contract of a table\<close>

text \<open>
  \<open>tenant_table\<close>: rows read back by key, created only under a key that is free, with a
  further admission test (\<open>admits\<close>) where the source checks for duplicates.
\<close>

locale tenant_table =
  fixes rows :: "'s \<Rightarrow> (key3, 'v) dict"
    and row_key :: "'v \<Rightarrow> key3"
    and admits :: "'v \<Rightarrow> 's \<Rightarrow> bool"
    and create :: "'v \<Rightarrow> ('s, 'v) py"
    and get :: "string \<Rightarrow> string \<Rightarrow> string \<Rightarrow> 's \<Rightarrow> 'v option"
    and conflict :: "string \<Rightarrow> exn"
  assumes get_rows: "get t p i s = dict_get (rows s) (store_key t p i)"
    and create_ok: "dict_get (rows s) (row_key v) = None \<Longrightarrow> admits v s \<Longrightarrow>
      \<exists>s'. create v s = (Inr v, s') \<and> rows s' = dict_set (row_key v) v (rows s)"
    and create_conflict: "dict_get (rows s) (row_key v) \<noteq> None \<or> \<not> admits v s \<Longrightarrow>
      \<exists>msg. create v s = (Inl (conflict msg), s)"
begin

lemma create_then_get:
  assumes "create v s = (Inr w, s')"
  shows "w = v \<and> dict_get (rows s') k = (if k = row_key v then Some v else dict_get (rows s) k)
    \<and> dict_get (rows s) (row_key v) = None"
proof (cases "dict_get (rows s) (row_key v) = None \<and> admits v s")
  case True
  then obtain s'' where "create v s = (Inr v, s'')"
      and "rows s'' = dict_set (row_key v) v (rows s)"
    using create_ok by blast
  with assms True show ?thesis by auto
next
  case False
  then show ?thesis using create_conflict [of s v] assms by auto
qed

lemma create_again_conflicts:
  assumes "create v s = (Inr w, s')" and "row_key v' = row_key v"
  shows "\<exists>msg. create v' s' = (Inl (conflict msg), s')"
  using create_then_get [OF assms(1), of "row_key v"] assms(2)
  by (intro create_conflict) simp

lemma create_keeps_keyed:
  assumes "keyed row_key (rows s)"
  shows "keyed row_key (rows (snd (create v s)))"
proof (cases "dict_get (rows s) (row_key v) = None \<and> admits v s")
  case True
  then obtain s' where "create v s = (Inr v, s')"
      and "rows s' = dict_set (row_key v) v (rows s)"
    using create_ok by blast
  with assms show ?thesis by auto
next
  case False
  then have "snd (create v s) = s" using create_conflict [of s v] by auto
  with assms show ?thesis by simp
qed

lemma create_isolates:
  assumes "\<not> in_scope t p (row_key v)"
  shows "scoped_rows t p (rows (snd (create v s))) = scoped_rows t p (rows s)"
proof (cases "dict_get (rows s) (row_key v) = None \<and> admits v s")
  case True
  then obtain s' where "create v s = (Inr v, s')"
      and "rows s' = dict_set (row_key v) v (rows s)"
    using create_ok by blast
  with assms show ?thesis by (simp add: scoped_rows_set_other)
next
  case False
  then have "snd (create v s) = s" using create_conflict [of s v] by auto
  then show ?thesis by simp
qed

end

text \<open>A table whose rows can also be removed: the removed row is returned.\<close>

locale deletable_table = tenant_table +
  fixes remove :: "string \<Rightarrow> string \<Rightarrow> string \<Rightarrow> ('s, 'v option) py"
  assumes remove_row: "\<exists>s'. remove t p i s = (Inr (dict_get (rows s) (store_key t p i)), s') \<and>
      rows s' = dict_pop (store_key t p i) (rows s)"
begin

lemma remove_then_get:
  "get t' p' i' (snd (remove t p i s)) =
     (if store_key t' p' i' = store_key t p i then None else get t' p' i' s)"
proof -
  obtain s' where "remove t p i s = (Inr (dict_get (rows s) (store_key t p i)), s')"
      and "rows s' = dict_pop (store_key t p i) (rows s)"
    using remove_row by blast
  then show ?thesis by (simp add: get_rows)
qed

lemma create_remove_roundtrip:
  assumes "create v s = (Inr w, s')" and "row_key v = store_key t p i"
  shows "fst (remove t p i s') = Inr (Some v)"
    and "dict_get (rows (snd (remove t p i s'))) k = dict_get (rows s) k"
proof -
  obtain s'' where r: "remove t p i s' = (Inr (dict_get (rows s') (store_key t p i)), s'')"
      and rs: "rows s'' = dict_pop (store_key t p i) (rows s')"
    using remove_row by blast
  note c = create_then_get [OF assms(1)]
  show "fst (remove t p i s') = Inr (Some v)"
    using r c [of "store_key t p i"] assms(2) by simp
  show "dict_get (rows (snd (remove t p i s'))) k = dict_get (rows s) k"
    using r rs c [of k] assms(2) by auto
qed

lemma remove_keeps_keyed:
  assumes "keyed row_key (rows s)"
  shows "keyed row_key (rows (snd (remove t p i s)))"
proof -
  obtain s' where "remove t p i s = (Inr (dict_get (rows s) (store_key t p i)), s')"
      and "rows s' = dict_pop (store_key t p i) (rows s)"
    using remove_row by blast
  with assms show ?thesis by auto
qed

lemma remove_isolates:
  assumes "\<not> (t' = t \<and> p' = p)"
  shows "scoped_rows t p (rows (snd (remove t' p' i s))) = scoped_rows t p (rows s)"
proof -
  obtain s' where "remove t' p' i s = (Inr (dict_get (rows s) (store_key t' p' i)), s')"
      and "rows s' = dict_pop (store_key t' p' i) (rows s)"
    using remove_row by blast
  with assms show ?thesis by (simp add: scoped_rows_pop_other)
qed

end

section \<open>Listing with pagination\<close>

text \<open>
  The list methods filter the rows, sort them newest first and cut a page. \<open>paged_view\<close> is the
  contract every one of them meets: a page is a window of one fixed ordering, so that a client
  that walks the pages sees every row once.
\<close>

locale paged_view =
  fixes ordered :: "'s \<Rightarrow> 'v list"
    and page :: "int \<Rightarrow> int option \<Rightarrow> 's \<Rightarrow> 'v list"
    and total :: "'s \<Rightarrow> int"
  assumes page_window: "page off lmt s = py_page (ordered s) off lmt"
    and total_ordered: "total s = int (length (ordered s))"
begin

lemma full_page: "page 0 None s = ordered s"
  by (simp add: page_window)

lemma total_is_page_length: "total s = int (length (page 0 None s))"
  by (simp add: full_page total_ordered)

lemma pages_concat:
  "page 0 (Some (int a)) s @ page (int a) (Some (int b)) s = page 0 (Some (int (a + b))) s"
  by (simp only: page_window py_page_nat [of _ 0, simplified] py_page_nat)
     (simp add: take_add)

lemma pages_exhaust:
  assumes "total s \<le> int a"
  shows "page 0 (Some (int a)) s = page 0 None s"
  using assms by (simp only: page_window py_page_nat [of _ 0, simplified] total_ordered) simp

end

end
