(* ===== verification/Sample_Data.thy ===== *)
theory Sample_Data
  imports Memory_State
begin

text \<open>
  Concrete records the witnesses evaluate the model on: one asset with its two stored objects,
  a pipeline with one node, a run, an event, a webhook subscription and a delivery. Nothing
  here models code; no property depends on it.
\<close>

definition sample_retention :: "string \<Rightarrow> retention_category \<Rightarrow> object_retention_record" where
  "sample_retention k c = \<lparr>ret_tenant_id = ''t'', ret_project_id = ''p'', ret_object_key = k,
     ret_category = c, ret_owner_type = MEDIA_ASSET, ret_owner_id = ''a1'', ret_created_at = 0,
     ret_expires_at = Some 5, ret_deleted_at = None\<rparr>"

definition sample_asset :: media_asset where
  "sample_asset = \<lparr>asset_asset_id = ''a1'', asset_tenant_id = ''t'', asset_project_id = ''p'',
     asset_kind = IMAGE, asset_domain = None, asset_filename = None,
     asset_content_type = ''image/png'', asset_size_bytes = 1, asset_sha256 = ''00'',
     asset_object_key = ''raw'', asset_preview_object_key = Some ''prev'',
     asset_preview_content_type = None, asset_preview_sha256 = None,
     asset_metadata = empty_metadata, asset_temporary = False, asset_created_at = 0,
     asset_expires_at = Some 5, asset_original_deleted_at = None, asset_deleted_at = None\<rparr>"

definition sample_media_store :: mem where
  "sample_media_store = memory_state_init\<lparr>
     mem_assets := [(store_key ''t'' ''p'' ''a1'', sample_asset)],
     mem_object_retention :=
       [(store_key ''t'' ''p'' ''raw'', sample_retention ''raw'' RAW_MEDIA),
        (store_key ''t'' ''p'' ''prev'', sample_retention ''prev'' PREVIEW)]\<rparr>"

definition sample_node :: "string \<Rightarrow> string \<Rightarrow> (string, string) dict \<Rightarrow> pipeline_node" where
  "sample_node i opid ins = \<lparr>node_node_id = i, node_operator_id = opid, node_inputs = ins,
     node_parameters = []\<rparr>"

definition sample_pipeline :: "string \<Rightarrow> pipeline_status \<Rightarrow> pipeline_definition" where
  "sample_pipeline v st = \<lparr>pd_pipeline_id = ''ocr'', pd_version = v, pd_domain = ''ocr'',
     pd_status = st, pd_nodes = [sample_node ''n1'' ''op'' [(''media'', ''$media.input'')]],
     pd_output = ''n1.result'', pd_allowed_parameters = {}, pd_parameter_schema = [],
     pd_pausable = True\<rparr>"

definition sample_operator_definition ::
  "string \<Rightarrow> (string, string) dict \<Rightarrow> (string, string) dict \<Rightarrow> operator_definition" where
  "sample_operator_definition i ins outs = \<lparr>op_operator_id = i, op_version = ''1'', op_domain = None,
     op_input_types = ins, op_output_types = outs, op_timeout_seconds = 30, op_resource_class = ''cpu'',
     op_resource_budget = [], op_batchable = False, op_max_batch_size = 1, op_failure_policy = FAIL,
     op_max_attempts = 1\<rparr>"

text \<open>Two nodes that read each other's output.\<close>

definition cyclic_pipeline :: pipeline_definition where
  "cyclic_pipeline = (sample_pipeline ''1.0.0'' P_ACTIVE)\<lparr>
     pd_nodes := [sample_node ''a'' ''mid'' [(''i'', ''b.c'')], sample_node ''b'' ''mid'' [(''i'', ''a.c'')]],
     pd_output := ''a.c''\<rparr>"

definition sample_operators :: "(string, operator_definition) dict" where
  "sample_operators =
     [(''op'', sample_operator_definition ''op'' [(''media'', ''media/input'')] [(''result'', ''t'')]),
      (''mid'', sample_operator_definition ''mid'' [(''i'', ''t'')] [(''c'', ''t'')])]"

definition sample_pipelines :: mem where
  "sample_pipelines = memory_state_init\<lparr>mem_pipelines :=
     [((''ocr'', ''1''), sample_pipeline ''1'' P_ACTIVE),
      ((''ocr'', ''2''), sample_pipeline ''2'' P_APPROVED)]\<rparr>"

text \<open>A digest that tells definitions apart by their output, enough for the examples.\<close>

definition sample_digest :: pipeline_digest where
  "sample_digest = (\<lambda>(_, _, _, _, out, _). out)"

definition sample_run :: "string \<Rightarrow> run_status \<Rightarrow> run_record" where
  "sample_run i st = \<lparr>run_run_id = i, run_tenant_id = ''t'', run_project_id = ''p'',
     run_principal_id = ''u'', run_request_id = None, run_trace_id = None, run_domain = ''ocr'',
     run_pipeline = \<lparr>pref_pipeline_id = ''ocr'', pref_version = ''1''\<rparr>, run_asset_id = Some ''a1'',
     run_source_id = None, run_stream_session_id = None, run_stream_segment_index = None,
     run_previous_run_id = None, run_next_run_id = None, run_parameters = [], run_priority = 0,
     run_state = st, run_revision = 1, run_progress = 0, run_error_code = None,
     run_termination_reason = None, run_created_at = 0, run_updated_at = 0,
     run_started_at = None, run_completed_at = None\<rparr>"

definition sample_event :: "string \<Rightarrow> run_event" where
  "sample_event i = \<lparr>ev_run_id = i, ev_event_id = 0, ev_event_type = ''run.queued'',
     ev_event_version = ''1'', ev_occurred_at = None, ev_producer = ''scenara'',
     ev_tenant_id = None, ev_project_id = None, ev_request_id = None, ev_trace_id = None,
     ev_status = QUEUED, ev_payload = [], ev_created_at = 0\<rparr>"

definition sample_subscription :: webhook_subscription where
  "sample_subscription = \<lparr>wh_endpoint_id = ''e1'', wh_tenant_id = ''t'', wh_project_id = ''p'',
     wh_name = ''hook'', wh_url = ''https://h'', wh_secret_ref = ''s'',
     wh_event_types = {''run.queued''}, wh_enabled = True, wh_created_at = 0\<rparr>"

definition sample_delivery :: webhook_delivery_record where
  "sample_delivery = \<lparr>whd_delivery_id = ''d1'', whd_tenant_id = ''t'', whd_project_id = ''p'',
     whd_endpoint_id = ''e1'', whd_event_id = ''x'', whd_event_type = ''run.queued'',
     whd_payload = [], whd_status = PENDING, whd_attempts = 0, whd_next_attempt_at = 0,
     whd_status_code = None, whd_last_error = None, whd_created_at = 0, whd_updated_at = 0,
     whd_delivered_at = None\<rparr>"

definition sample_outbox :: mem where
  "sample_outbox = memory_state_init\<lparr>
     mem_webhook_subscriptions := [(store_key ''t'' ''p'' ''e1'', sample_subscription)],
     mem_webhook_deliveries := [(store_key ''t'' ''p'' ''d1'', sample_delivery)]\<rparr>"

definition sample_saved_search :: saved_search where
  "sample_saved_search = \<lparr>ss_saved_search_id = ''q1'', ss_tenant_id = ''t'',
     ss_project_id = ''p'', ss_name = ''mine'', ss_description = [], ss_mode = SEARCH_TEXT,
     ss_definition = [], ss_created_by = ''u'', ss_created_at = 0, ss_updated_at = 0,
     ss_last_run_at = None\<rparr>"

definition sample_audit :: audit_event where
  "sample_audit = \<lparr>aud_event_id = ''x1'', aud_tenant_id = ''t'', aud_project_id = ''p'',
     aud_principal_id = ''u'', aud_action = ''external'', aud_resource_type = ''event'',
     aud_resource_id = Some ''x1'', aud_outcome = ''allowed'', aud_request_id = None,
     aud_evidence = [], aud_created_at = 0\<rparr>"

lemmas sample_defs = sample_operator_definition_def cyclic_pipeline_def sample_operators_def
  sample_retention_def sample_asset_def sample_media_store_def sample_node_def
  sample_pipeline_def sample_pipelines_def sample_digest_def sample_run_def sample_event_def
  sample_subscription_def sample_delivery_def sample_outbox_def sample_saved_search_def
  sample_audit_def

end
