(* ===== verification/Store_Media.thy ===== *)
theory Store_Media
  imports Sample_Data
begin

text \<open>
  Media assets, media sources and object retention records of \<open>MemoryStateStore\<close>: creation,
  lookup, listing and removal, and the bookkeeping that ties stored objects to the asset or
  run result that owns them (\<open>track_object\<close>, \<open>protect_object_for_alert\<close>,
  \<open>expired_object_keys\<close>, \<open>mark_objects_deleted\<close>).
\<close>

section \<open>Assets\<close>

definition asset_key :: "media_asset \<Rightarrow> key3" where
  "asset_key a = store_key (asset_tenant_id a) (asset_project_id a) (asset_asset_id a)"

definition create_asset :: "media_asset \<Rightarrow> (mem, media_asset) py" where
  "create_asset asset s =
     (let key = asset_key asset in
      if dict_get (mem_assets s) key \<noteq> None
      then (Inl (StateConflict ''media asset already exists''), s)
      else (Inr asset, s\<lparr>mem_assets := dict_set key asset (mem_assets s)\<rparr>))"

definition get_asset :: "string \<Rightarrow> string \<Rightarrow> string \<Rightarrow> mem \<Rightarrow> media_asset option" where
  "get_asset tenant_id project_id asset_id s =
     dict_get (mem_assets s) (store_key tenant_id project_id asset_id)"

definition asset_matches :: "string \<Rightarrow> string \<Rightarrow> string option \<Rightarrow> bool \<Rightarrow> key3 \<times> media_asset \<Rightarrow> bool" where
  "asset_matches tenant_id project_id domain include_deleted kv \<longleftrightarrow>
     in_scope tenant_id project_id (fst kv) \<and>
     (include_deleted \<or> asset_deleted_at (snd kv) = None) \<and>
     (domain = None \<or> asset_domain (snd kv) = domain)"

definition asset_rows :: "string \<Rightarrow> string \<Rightarrow> string option \<Rightarrow> bool \<Rightarrow> mem \<Rightarrow> media_asset list" where
  "asset_rows tenant_id project_id domain include_deleted s =
     map snd (filter (asset_matches tenant_id project_id domain include_deleted) (mem_assets s))"

definition list_assets ::
  "string \<Rightarrow> string \<Rightarrow> string option \<Rightarrow> bool \<Rightarrow> int \<Rightarrow> int option \<Rightarrow> mem \<Rightarrow> media_asset list" where
  "list_assets tenant_id project_id domain include_deleted off lmt s =
     py_page (py_sorted_desc (\<lambda>a. (asset_created_at a, asset_asset_id a))
        (asset_rows tenant_id project_id domain include_deleted s)) off lmt"

definition count_assets :: "string \<Rightarrow> string \<Rightarrow> string option \<Rightarrow> bool \<Rightarrow> mem \<Rightarrow> int" where
  "count_assets tenant_id project_id domain include_deleted s =
     int (length (filter (asset_matches tenant_id project_id domain include_deleted) (mem_assets s)))"

definition delete_asset :: "string \<Rightarrow> string \<Rightarrow> string \<Rightarrow> (mem, media_asset option) py" where
  "delete_asset tenant_id project_id asset_id s =
     (let key = store_key tenant_id project_id asset_id in
      (Inr (dict_get (mem_assets s) key), s\<lparr>mem_assets := dict_pop key (mem_assets s)\<rparr>))"

section \<open>Sources\<close>

definition source_key :: "media_source \<Rightarrow> key3" where
  "source_key a = store_key (source_tenant_id a) (source_project_id a) (source_source_id a)"

definition create_source :: "media_source \<Rightarrow> (mem, media_source) py" where
  "create_source src s =
     (let key = source_key src in
      if dict_get (mem_sources s) key \<noteq> None
      then (Inl (StateConflict ''media source already exists''), s)
      else (Inr src, s\<lparr>mem_sources := dict_set key src (mem_sources s)\<rparr>))"

definition get_source :: "string \<Rightarrow> string \<Rightarrow> string \<Rightarrow> mem \<Rightarrow> media_source option" where
  "get_source tenant_id project_id source_id s =
     dict_get (mem_sources s) (store_key tenant_id project_id source_id)"

definition list_sources :: "string \<Rightarrow> string \<Rightarrow> int \<Rightarrow> int option \<Rightarrow> mem \<Rightarrow> media_source list" where
  "list_sources tenant_id project_id off lmt s =
     py_page (py_sorted_desc (\<lambda>a. (source_created_at a, source_source_id a))
        (scoped_rows tenant_id project_id (mem_sources s))) off lmt"

definition count_sources :: "string \<Rightarrow> string \<Rightarrow> mem \<Rightarrow> int" where
  "count_sources tenant_id project_id s =
     int (length (filter (\<lambda>kv. in_scope tenant_id project_id (fst kv)) (mem_sources s)))"

definition delete_source :: "string \<Rightarrow> string \<Rightarrow> string \<Rightarrow> (mem, media_source option) py" where
  "delete_source tenant_id project_id source_id s =
     (let key = store_key tenant_id project_id source_id in
      (Inr (dict_get (mem_sources s) key), s\<lparr>mem_sources := dict_pop key (mem_sources s)\<rparr>))"

section \<open>Object retention\<close>

definition retention_key :: "object_retention_record \<Rightarrow> key3" where
  "retention_key r = store_key (ret_tenant_id r) (ret_project_id r) (ret_object_key r)"

definition retention_owner :: "object_retention_record \<Rightarrow> key3" where
  "retention_owner r = (ret_tenant_id r, ret_project_id r, ret_owner_id r)"

definition track_object :: "object_retention_record \<Rightarrow> (mem, unit) py" where
  "track_object rec s =
     (let key = retention_key rec in
      case dict_get (mem_object_retention s) key of
        Some existing \<Rightarrow>
          if existing \<noteq> rec
          then (Inl (StateConflict ''object retention record already exists''), s)
          else (Inr (), s\<lparr>mem_object_retention := dict_set key rec (mem_object_retention s)\<rparr>)
      | None \<Rightarrow> (Inr (), s\<lparr>mem_object_retention := dict_set key rec (mem_object_retention s)\<rparr>))"

text \<open>\<open>max(current.expires_at or 0, expires_at)\<close>: a missing expiry counts as 0.\<close>

definition protect_object_for_alert ::
  "string \<Rightarrow> string \<Rightarrow> string \<Rightarrow> string \<Rightarrow> pyfloat \<Rightarrow> (mem, bool) py" where
  "protect_object_for_alert tenant_id project_id object_key alert_id expires_at s =
     (let key = store_key tenant_id project_id object_key in
      case dict_get (mem_object_retention s) key of
        None \<Rightarrow> (Inr False, s)
      | Some current \<Rightarrow>
          if ret_deleted_at current \<noteq> None then (Inr False, s)
          else
            let effective_expiry =
              max (case ret_expires_at current of None \<Rightarrow> 0 | Some e \<Rightarrow> e) expires_at
            in (Inr True, s\<lparr>mem_object_retention := dict_set key
                  (current\<lparr>ret_category := ALERT_SNAPSHOT, ret_owner_type := SURVEILLANCE_ALERT,
                     ret_owner_id := alert_id, ret_expires_at := Some effective_expiry\<rparr>)
                  (mem_object_retention s)\<rparr>))"

definition retention_expired :: "pyfloat \<Rightarrow> object_retention_record \<Rightarrow> bool" where
  "retention_expired before r \<longleftrightarrow>
     (case ret_expires_at r of None \<Rightarrow> False | Some e \<Rightarrow> e \<le> before) \<and> ret_deleted_at r = None"

definition expired_object_keys :: "pyfloat \<Rightarrow> int \<Rightarrow> mem \<Rightarrow> string list" where
  "expired_object_keys before lmt s =
     py_slice (py_sorted (\<lambda>k. k)
        (map ret_object_key (filter (retention_expired before) (map snd (mem_object_retention s)))))
       0 lmt"

text \<open>
  \<open>mark_objects_deleted\<close>. The first loop stamps the retention rows of the given objects and
  collects their owners; the second updates the owning assets; the third drops the result
  reference of a run none of whose result objects is left.
\<close>

definition owners_of ::
  "string list \<Rightarrow> (object_retention_record \<Rightarrow> bool) \<Rightarrow> mem \<Rightarrow> key3 set" where
  "owners_of object_keys P s =
     set (map retention_owner (filter (\<lambda>r. ret_object_key r \<in> set object_keys \<and> P r)
       (map snd (mem_object_retention s))))"

definition mark_retention ::
  "string list \<Rightarrow> pyfloat \<Rightarrow> object_retention_record \<Rightarrow> object_retention_record" where
  "mark_retention object_keys deleted_at r =
     (if ret_object_key r \<in> set object_keys then r\<lparr>ret_deleted_at := Some deleted_at\<rparr> else r)"

definition mark_asset :: "key3 set \<Rightarrow> key3 set \<Rightarrow> pyfloat \<Rightarrow> key3 \<Rightarrow> media_asset \<Rightarrow> media_asset" where
  "mark_asset raw_asset_owners preview_asset_owners deleted_at key asset =
     (let a1 = (if key \<in> raw_asset_owners
                then asset\<lparr>asset_original_deleted_at := Some deleted_at\<rparr> else asset)
      in if key \<in> preview_asset_owners
         then let a2 = a1\<lparr>asset_preview_object_key := None, asset_preview_content_type := None,
                       asset_preview_sha256 := None\<rparr>
              in if key \<in> raw_asset_owners \<or> asset_original_deleted_at asset \<noteq> None
                 then a2\<lparr>asset_deleted_at := Some deleted_at\<rparr> else a2
         else a1)"

definition has_live_result_object :: "(key3, object_retention_record) dict \<Rightarrow> key3 \<Rightarrow> bool" where
  "has_live_result_object retention owner \<longleftrightarrow>
     (\<exists>r \<in> set (map snd retention).
        ret_owner_type r = RUN_RESULT \<and> retention_owner r = owner \<and> ret_deleted_at r = None)"

definition mark_objects_deleted :: "string list \<Rightarrow> pyfloat \<Rightarrow> (mem, unit) py" where
  "mark_objects_deleted object_keys deleted_at s =
     (let result_owners = owners_of object_keys (\<lambda>r. ret_owner_type r = RUN_RESULT) s;
          raw_asset_owners = owners_of object_keys
            (\<lambda>r. ret_owner_type r = MEDIA_ASSET \<and> ret_category r = RAW_MEDIA) s;
          preview_asset_owners = owners_of object_keys
            (\<lambda>r. ret_owner_type r = MEDIA_ASSET \<and> ret_category r = PREVIEW) s;
          retention = map (\<lambda>(k, r). (k, mark_retention object_keys deleted_at r))
            (mem_object_retention s)
      in (Inr (), s\<lparr>mem_object_retention := retention,
            mem_assets := map (\<lambda>(k, a). (k, mark_asset raw_asset_owners preview_asset_owners
              deleted_at k a)) (mem_assets s),
            mem_results := filter (\<lambda>(k, _). \<not> (k \<in> result_owners \<and>
              \<not> has_live_result_object retention k)) (mem_results s)\<rparr>))"

section \<open>The tables meet the contract\<close>

interpretation assets: deletable_table mem_assets asset_key "\<lambda>_ _. True"
  create_asset get_asset StateConflict delete_asset
  by unfold_locales (auto simp: create_asset_def get_asset_def delete_asset_def Let_def)

interpretation sources: deletable_table mem_sources source_key "\<lambda>_ _. True"
  create_source get_source StateConflict delete_source
  by unfold_locales (auto simp: create_source_def get_source_def delete_source_def Let_def)

definition asset_ordering :: "string \<Rightarrow> string \<Rightarrow> string option \<Rightarrow> bool \<Rightarrow> mem \<Rightarrow> media_asset list" where
  "asset_ordering t p domain incl s = py_sorted_desc (\<lambda>a. (asset_created_at a, asset_asset_id a))
     (asset_rows t p domain incl s)"

interpretation asset_pages: paged_view "asset_ordering t p domain incl"
  "list_assets t p domain incl" "count_assets t p domain incl" for t p domain incl
  by unfold_locales
     (simp_all add: list_assets_def asset_ordering_def count_assets_def asset_rows_def)

definition source_ordering :: "string \<Rightarrow> string \<Rightarrow> mem \<Rightarrow> media_source list" where
  "source_ordering t p s = py_sorted_desc (\<lambda>a. (source_created_at a, source_source_id a))
     (scoped_rows t p (mem_sources s))"

interpretation source_pages: paged_view "source_ordering t p"
  "list_sources t p" "count_sources t p" for t p
  by unfold_locales
     (simp_all add: list_sources_def source_ordering_def count_sources_def scoped_rows_def)

section \<open>Retention bookkeeping\<close>

lemma mark_retention_frame [simp]:
  "ret_object_key (mark_retention ks t r) = ret_object_key r"
  "ret_owner_type (mark_retention ks t r) = ret_owner_type r"
  "ret_expires_at (mark_retention ks t r) = ret_expires_at r"
  "retention_owner (mark_retention ks t r) = retention_owner r"
  "retention_key (mark_retention ks t r) = retention_key r"
  by (simp_all add: mark_retention_def retention_owner_def retention_key_def)

lemma mark_asset_frame [simp]:
  "asset_key (mark_asset R P t k a) = asset_key a"
  by (simp add: mark_asset_def asset_key_def Let_def)

lemma mark_objects_deleted_retention [simp]:
  "mem_object_retention (snd (mark_objects_deleted ks t s)) =
     map (\<lambda>(k, r). (k, mark_retention ks t r)) (mem_object_retention s)"
  by (simp add: mark_objects_deleted_def Let_def)

lemma mark_objects_deleted_rows:
  "map snd (mem_object_retention (snd (mark_objects_deleted ks t s))) =
     map (mark_retention ks t) (map snd (mem_object_retention s))"
  by (simp add: case_prod_beta)

lemma mark_objects_deleted_assets [simp]:
  "mem_assets (snd (mark_objects_deleted ks t s)) =
     map (\<lambda>(k, a). (k, mark_asset
        (owners_of ks (\<lambda>r. ret_owner_type r = MEDIA_ASSET \<and> ret_category r = RAW_MEDIA) s)
        (owners_of ks (\<lambda>r. ret_owner_type r = MEDIA_ASSET \<and> ret_category r = PREVIEW) s)
        t k a)) (mem_assets s)"
  by (simp add: mark_objects_deleted_def Let_def)

lemma expired_keys_set:
  assumes "int (length (mem_object_retention s)) \<le> lmt"
  shows "set (expired_object_keys before lmt s) =
    {ret_object_key r | r. r \<in> set (map snd (mem_object_retention s)) \<and> retention_expired before r}"
proof -
  let ?ks = "map ret_object_key (filter (retention_expired before) (map snd (mem_object_retention s)))"
  have "length ?ks \<le> length (mem_object_retention s)"
    using length_filter_le [of "retention_expired before" "map snd (mem_object_retention s)"]
    by simp
  then have "py_slice (py_sorted (\<lambda>k. k) ?ks) 0 lmt = py_sorted (\<lambda>k. k) ?ks"
    using assms by (intro py_slice_all) (simp only: length_py_sorted)
  then show ?thesis unfolding expired_object_keys_def by (auto simp: image_iff)
qed

lemma expired_keysE:
  assumes "k \<in> set (expired_object_keys before lmt s)"
  obtains r where "r \<in> set (map snd (mem_object_retention s))"
    and "retention_expired before r" and "k = ret_object_key r"
proof -
  let ?ks = "map ret_object_key (filter (retention_expired before) (map snd (mem_object_retention s)))"
  have "set (py_slice (py_sorted (\<lambda>k. k) ?ks) 0 lmt) \<subseteq> set ?ks"
    using set_py_page [of "py_sorted (\<lambda>k. k) ?ks" 0 "Some lmt"] by (simp add: py_page_def)
  then have "k \<in> set ?ks" using assms unfolding expired_object_keys_def by blast
  then show ?thesis using that by auto
qed

lemma expired_after_mark:
  "retention_expired before (mark_retention ks t r) \<longleftrightarrow>
     retention_expired before r \<and> ret_object_key r \<notin> set ks"
  by (auto simp: retention_expired_def mark_retention_def)

text \<open>
  A retention sweep makes progress and never resurrects: once the expired objects are
  marked deleted, none of them is reported as expired again, at any later cutoff, and the
  expired objects that remain were already expired before.
\<close>

lemma sweep_clears_expired:
  "k \<in> set (expired_object_keys cutoff lmt (snd (mark_objects_deleted ks t s))) \<Longrightarrow>
   k \<notin> set ks \<and> (\<exists>r \<in> set (map snd (mem_object_retention s)).
      k = ret_object_key r \<and> retention_expired cutoff r)"
proof (elim expired_keysE)
  fix r
  assume "r \<in> set (map snd (mem_object_retention (snd (mark_objects_deleted ks t s))))"
    and r: "retention_expired cutoff r" "k = ret_object_key r"
  then obtain r0 where "r0 \<in> set (map snd (mem_object_retention s))" "r = mark_retention ks t r0"
    unfolding mark_objects_deleted_rows by auto
  with r show ?thesis by (auto simp: expired_after_mark)
qed

text \<open>
  The two halves of an asset are not treated alike. When the preview of an asset is deleted
  in one call and its original in a later one, the asset ends with both gone and is still not
  marked deleted (\<open>deleted_at\<close> stays empty); only the opposite order marks it.
\<close>

lemma preview_then_original_never_deleted:
  assumes a: "get_asset tn pr i s = Some a"
    and live: "asset_deleted_at a = None" "asset_original_deleted_at a = None"
    and first: "store_key tn pr i \<in> owners_of ks1
        (\<lambda>r. ret_owner_type r = MEDIA_ASSET \<and> ret_category r = PREVIEW) s"
      "store_key tn pr i \<notin> owners_of ks1
        (\<lambda>r. ret_owner_type r = MEDIA_ASSET \<and> ret_category r = RAW_MEDIA) s"
    and s1: "s1 = snd (mark_objects_deleted ks1 t1 s)"
    and second: "store_key tn pr i \<in> owners_of ks2
        (\<lambda>r. ret_owner_type r = MEDIA_ASSET \<and> ret_category r = RAW_MEDIA) s1"
      "store_key tn pr i \<notin> owners_of ks2
        (\<lambda>r. ret_owner_type r = MEDIA_ASSET \<and> ret_category r = PREVIEW) s1"
  shows "\<exists>b. get_asset tn pr i (snd (mark_objects_deleted ks2 t2 s1)) = Some b \<and>
    asset_preview_object_key b = None \<and> asset_original_deleted_at b = Some t2 \<and>
    asset_deleted_at b = None"
proof -
  from a first have "get_asset tn pr i s1 = Some (mark_asset
      (owners_of ks1 (\<lambda>r. ret_owner_type r = MEDIA_ASSET \<and> ret_category r = RAW_MEDIA) s)
      (owners_of ks1 (\<lambda>r. ret_owner_type r = MEDIA_ASSET \<and> ret_category r = PREVIEW) s)
      t1 (store_key tn pr i) a)"
    by (simp add: s1 get_asset_def)
  with second first live show ?thesis
    by (simp add: get_asset_def mark_asset_def Let_def)
qed

end
