(* ===== verification/Store_Catalog.thy ===== *)
theory Store_Catalog
  imports Sample_Data
begin

text \<open>
  The catalogues of \<open>MemoryStateStore\<close>: pipeline definitions with their life cycle, model
  packages, datasets with their versions, and saved searches.
\<close>

section \<open>Pipeline definitions\<close>

abbreviation pipeline_key :: "pipeline_definition \<Rightarrow> string \<times> string" where
  "pipeline_key p \<equiv> (pd_pipeline_id p, pd_version p)"

text \<open>The loop that retires every active version of a pipeline.\<close>

definition retire_active ::
  "string \<Rightarrow> (string \<times> string, pipeline_definition) dict \<Rightarrow> (string \<times> string, pipeline_definition) dict" where
  "retire_active pid d = map (\<lambda>(k, p). (k,
     if pd_pipeline_id p = pid \<and> pd_status p = P_ACTIVE then p\<lparr>pd_status := P_RETIRED\<rparr> else p)) d"

text \<open>\<open>register_pipeline_definition\<close> tests the key's first component instead of the row's field.\<close>

definition retire_active_key ::
  "string \<Rightarrow> (string \<times> string, pipeline_definition) dict \<Rightarrow> (string \<times> string, pipeline_definition) dict" where
  "retire_active_key pid d = map (\<lambda>(k, p). (k,
     if fst k = pid \<and> pd_status p = P_ACTIVE then p\<lparr>pd_status := P_RETIRED\<rparr> else p)) d"

definition register_pipeline_definition ::
  "pipeline_digest \<Rightarrow> pipeline_definition \<Rightarrow> (mem, unit) py" where
  "register_pipeline_definition digest pipeline s =
     (let key = pipeline_key pipeline in
      case dict_get (mem_pipelines s) key of
        Some existing \<Rightarrow>
          if definition_sha256 digest existing \<noteq> definition_sha256 digest pipeline
          then if pd_status pipeline = P_ACTIVE
               then (Inr (), s\<lparr>mem_pipelines := dict_set key pipeline (mem_pipelines s)\<rparr>)
               else (Inl (StateConflict ''pipeline version definition is immutable''), s)
          else (Inr (), s)
      | None \<Rightarrow>
          let others = (if pd_status pipeline = P_ACTIVE
                        then retire_active_key (pd_pipeline_id pipeline) (mem_pipelines s)
                        else mem_pipelines s)
          in (Inr (), s\<lparr>mem_pipelines := dict_set key pipeline others\<rparr>))"

definition get_pipeline_definition :: "string \<Rightarrow> string \<Rightarrow> mem \<Rightarrow> pipeline_definition option" where
  "get_pipeline_definition pipeline_id version s = dict_get (mem_pipelines s) (pipeline_id, version)"

definition list_pipeline_definitions :: "mem \<Rightarrow> pipeline_definition list" where
  "list_pipeline_definitions s = map snd (py_sorted fst (mem_pipelines s))"

text \<open>The table of allowed transitions, which the store and the registry share.\<close>

fun pipeline_transition_allowed :: "pipeline_status \<Rightarrow> pipeline_status \<Rightarrow> bool" where
  "pipeline_transition_allowed P_DRAFT target = (target = P_VALIDATED)"
| "pipeline_transition_allowed P_VALIDATED target = (target = P_APPROVED \<or> target = P_DRAFT)"
| "pipeline_transition_allowed P_APPROVED target = (target = P_ACTIVE \<or> target = P_DRAFT)"
| "pipeline_transition_allowed P_ACTIVE target = (target = P_RETIRED)"
| "pipeline_transition_allowed P_RETIRED target = False"

definition transition_pipeline_definition ::
  "string \<Rightarrow> string \<Rightarrow> pipeline_status \<Rightarrow> (mem, pipeline_definition) py" where
  "transition_pipeline_definition pipeline_id version target s =
     (let key = (pipeline_id, version) in
      case dict_get (mem_pipelines s) key of
        None \<Rightarrow> (Inl (StateConflict ''pipeline version does not exist''), s)
      | Some pipeline \<Rightarrow>
          if \<not> pipeline_transition_allowed (pd_status pipeline) target
          then (Inl (StateConflict (''invalid pipeline transition: '' @
                  pipeline_status_value (pd_status pipeline) @ '' -> '' @
                  pipeline_status_value target)), s)
          else
            let others = (if target = P_ACTIVE then retire_active pipeline_id (mem_pipelines s)
                          else mem_pipelines s);
                updated = pipeline\<lparr>pd_status := target\<rparr>
            in (Inr updated, s\<lparr>mem_pipelines := dict_set key updated others\<rparr>))"

section \<open>Model packages\<close>

definition register_model_package :: "model_package_manifest \<Rightarrow> (mem, unit) py" where
  "register_model_package package s =
     (let key = (mpm_model_id package, mpm_version package) in
      case dict_get (mem_model_packages s) key of
        Some existing \<Rightarrow>
          if existing \<noteq> package
          then (Inl (StateConflict ''model package version is immutable''), s)
          else (Inr (), s\<lparr>mem_model_packages := dict_set key package (mem_model_packages s)\<rparr>)
      | None \<Rightarrow> (Inr (), s\<lparr>mem_model_packages := dict_set key package (mem_model_packages s)\<rparr>))"

definition list_model_packages :: "mem \<Rightarrow> model_package_manifest list" where
  "list_model_packages s = map snd (py_sorted fst (mem_model_packages s))"

section \<open>Datasets\<close>

definition dataset_key :: "dataset_record \<Rightarrow> key3" where
  "dataset_key d = store_key (ds_tenant_id d) (ds_project_id d) (ds_dataset_id d)"

definition create_dataset :: "dataset_record \<Rightarrow> (mem, dataset_record) py" where
  "create_dataset dataset s =
     (let key = dataset_key dataset in
      if dict_get (mem_datasets s) key \<noteq> None
      then (Inl (StateConflict ''dataset already exists''), s)
      else (Inr dataset, s\<lparr>mem_datasets := dict_set key dataset (mem_datasets s)\<rparr>))"

definition get_dataset :: "string \<Rightarrow> string \<Rightarrow> string \<Rightarrow> mem \<Rightarrow> dataset_record option" where
  "get_dataset tenant_id project_id dataset_id s =
     dict_get (mem_datasets s) (store_key tenant_id project_id dataset_id)"

definition list_datasets ::
  "string \<Rightarrow> string \<Rightarrow> int \<Rightarrow> int \<Rightarrow> mem \<Rightarrow> exn + dataset_record list" where
  "list_datasets tenant_id project_id off lmt s =
     (if off < 0 \<or> \<not> (1 \<le> lmt \<and> lmt \<le> 200)
      then Inl (StateConflict ''invalid dataset pagination'')
      else Inr (py_slice (py_sorted_desc (\<lambda>d. (ds_updated_at d, ds_dataset_id d))
             (scoped_rows tenant_id project_id (mem_datasets s))) off (off + lmt)))"

definition count_datasets :: "string \<Rightarrow> string \<Rightarrow> mem \<Rightarrow> int" where
  "count_datasets tenant_id project_id s =
     int (length (filter (\<lambda>kv. in_scope tenant_id project_id (fst kv)) (mem_datasets s)))"

definition save_dataset :: "dataset_record \<Rightarrow> (mem, dataset_record) py" where
  "save_dataset dataset s =
     (let key = dataset_key dataset in
      if dict_get (mem_datasets s) key = None
      then (Inl (StateConflict ''dataset not found''), s)
      else (Inr dataset, s\<lparr>mem_datasets := dict_set key dataset (mem_datasets s)\<rparr>))"

section \<open>Dataset versions\<close>

definition dataset_version_key :: "dataset_version \<Rightarrow> key3" where
  "dataset_version_key v = store_key (dv_tenant_id v) (dv_project_id v) (dv_version_id v)"

definition duplicate_dataset_version :: "dataset_version \<Rightarrow> mem \<Rightarrow> bool" where
  "duplicate_dataset_version version s \<longleftrightarrow>
     (\<exists>item \<in> set (map snd (mem_dataset_versions s)).
        dv_tenant_id item = dv_tenant_id version \<and> dv_project_id item = dv_project_id version \<and>
        dv_dataset_id item = dv_dataset_id version \<and> dv_version item = dv_version version)"

definition create_dataset_version :: "dataset_version \<Rightarrow> (mem, dataset_version) py" where
  "create_dataset_version version s =
     (let key = dataset_version_key version in
      if dict_get (mem_dataset_versions s) key \<noteq> None
      then (Inl (StateConflict ''dataset version already exists''), s)
      else if duplicate_dataset_version version s
      then (Inl (StateConflict ''dataset version already exists''), s)
      else (Inr version,
            s\<lparr>mem_dataset_versions := dict_set key version (mem_dataset_versions s)\<rparr>))"

definition get_dataset_version :: "string \<Rightarrow> string \<Rightarrow> string \<Rightarrow> mem \<Rightarrow> dataset_version option" where
  "get_dataset_version tenant_id project_id version_id s =
     dict_get (mem_dataset_versions s) (store_key tenant_id project_id version_id)"

definition save_dataset_version :: "dataset_version \<Rightarrow> (mem, dataset_version) py" where
  "save_dataset_version version s =
     (let key = dataset_version_key version in
      if dict_get (mem_dataset_versions s) key = None
      then (Inl (StateConflict ''dataset version not found''), s)
      else (Inr version,
            s\<lparr>mem_dataset_versions := dict_set key version (mem_dataset_versions s)\<rparr>))"

definition dataset_version_rows :: "string \<Rightarrow> string \<Rightarrow> string \<Rightarrow> mem \<Rightarrow> dataset_version list" where
  "dataset_version_rows tenant_id project_id dataset_id s =
     filter (\<lambda>v. dv_dataset_id v = dataset_id)
       (scoped_rows tenant_id project_id (mem_dataset_versions s))"

definition list_dataset_versions ::
  "string \<Rightarrow> string \<Rightarrow> string \<Rightarrow> int \<Rightarrow> int \<Rightarrow> mem \<Rightarrow> exn + dataset_version list" where
  "list_dataset_versions tenant_id project_id dataset_id off lmt s =
     (if off < 0 \<or> \<not> (1 \<le> lmt \<and> lmt \<le> 200)
      then Inl (StateConflict ''invalid dataset version pagination'')
      else Inr (py_slice (py_sorted_desc (\<lambda>v. (dv_created_at v, dv_version_id v))
             (dataset_version_rows tenant_id project_id dataset_id s)) off (off + lmt)))"

definition count_dataset_versions :: "string \<Rightarrow> string \<Rightarrow> string \<Rightarrow> mem \<Rightarrow> int" where
  "count_dataset_versions tenant_id project_id dataset_id s =
     int (length (dataset_version_rows tenant_id project_id dataset_id s))"

section \<open>Saved searches\<close>

definition saved_search_key :: "saved_search \<Rightarrow> key3" where
  "saved_search_key v = store_key (ss_tenant_id v) (ss_project_id v) (ss_saved_search_id v)"

definition same_name_in_scope :: "saved_search \<Rightarrow> saved_search \<Rightarrow> bool" where
  "same_name_in_scope item v \<longleftrightarrow> ss_tenant_id item = ss_tenant_id v \<and>
     ss_project_id item = ss_project_id v \<and> ss_name item = ss_name v"

definition create_saved_search :: "saved_search \<Rightarrow> (mem, saved_search) py" where
  "create_saved_search search s =
     (let key = saved_search_key search in
      if dict_get (mem_saved_searches s) key \<noteq> None
      then (Inl (StateConflict ''saved search already exists''), s)
      else if \<exists>item \<in> set (map snd (mem_saved_searches s)). same_name_in_scope item search
      then (Inl (StateConflict ''saved search name already exists''), s)
      else (Inr search, s\<lparr>mem_saved_searches := dict_set key search (mem_saved_searches s)\<rparr>))"

definition get_saved_search :: "string \<Rightarrow> string \<Rightarrow> string \<Rightarrow> mem \<Rightarrow> saved_search option" where
  "get_saved_search tenant_id project_id saved_search_id s =
     dict_get (mem_saved_searches s) (store_key tenant_id project_id saved_search_id)"

definition list_saved_searches ::
  "string \<Rightarrow> string \<Rightarrow> int \<Rightarrow> int \<Rightarrow> mem \<Rightarrow> exn + saved_search list" where
  "list_saved_searches tenant_id project_id off lmt s =
     (if off < 0 \<or> \<not> (1 \<le> lmt \<and> lmt \<le> 200)
      then Inl (StateConflict ''invalid saved search pagination'')
      else Inr (py_slice (py_sorted_desc (\<lambda>v. (ss_updated_at v, ss_saved_search_id v))
             (scoped_rows tenant_id project_id (mem_saved_searches s))) off (off + lmt)))"

definition count_saved_searches :: "string \<Rightarrow> string \<Rightarrow> mem \<Rightarrow> int" where
  "count_saved_searches tenant_id project_id s =
     int (length (filter (\<lambda>kv. in_scope tenant_id project_id (fst kv)) (mem_saved_searches s)))"

definition save_saved_search :: "saved_search \<Rightarrow> (mem, saved_search) py" where
  "save_saved_search search s =
     (let key = saved_search_key search in
      if dict_get (mem_saved_searches s) key = None
      then (Inl (StateConflict ''saved search not found''), s)
      else if \<exists>item \<in> set (map snd (mem_saved_searches s)).
          same_name_in_scope item search \<and> ss_saved_search_id item \<noteq> ss_saved_search_id search
      then (Inl (StateConflict ''saved search name already exists''), s)
      else (Inr search, s\<lparr>mem_saved_searches := dict_set key search (mem_saved_searches s)\<rparr>))"

definition delete_saved_search :: "string \<Rightarrow> string \<Rightarrow> string \<Rightarrow> (mem, saved_search option) py" where
  "delete_saved_search tenant_id project_id saved_search_id s =
     (let key = store_key tenant_id project_id saved_search_id in
      (Inr (dict_get (mem_saved_searches s) key),
       s\<lparr>mem_saved_searches := dict_pop key (mem_saved_searches s)\<rparr>))"

section \<open>The tables meet the contract\<close>

interpretation datasets: tenant_table mem_datasets dataset_key "\<lambda>_ _. True"
  create_dataset get_dataset StateConflict
  by unfold_locales (auto simp: create_dataset_def get_dataset_def Let_def)

interpretation dataset_versions: tenant_table mem_dataset_versions dataset_version_key
  "\<lambda>v s. \<not> duplicate_dataset_version v s" create_dataset_version get_dataset_version StateConflict
  by unfold_locales (auto simp: create_dataset_version_def get_dataset_version_def Let_def)

interpretation saved_searches: deletable_table mem_saved_searches saved_search_key
  "\<lambda>v s. \<not> (\<exists>item \<in> set (map snd (mem_saved_searches s)). same_name_in_scope item v)"
  create_saved_search get_saved_search StateConflict delete_saved_search
  by unfold_locales
     (auto simp: create_saved_search_def get_saved_search_def delete_saved_search_def Let_def)

section \<open>Catalogues of pipeline versions\<close>

text \<open>
  A catalogue is well formed when every row sits under its own pipeline and version and no
  pipeline has two active versions.
\<close>

definition single_active :: "(string \<times> string, pipeline_definition) dict \<Rightarrow> bool" where
  "single_active d \<longleftrightarrow> (\<forall>k p k' p'. (k, p) \<in> set d \<longrightarrow> (k', p') \<in> set d \<longrightarrow>
     pd_status p = P_ACTIVE \<longrightarrow> pd_status p' = P_ACTIVE \<longrightarrow>
     pd_pipeline_id p = pd_pipeline_id p' \<longrightarrow> k = k')"

definition catalog_ok :: "(string \<times> string, pipeline_definition) dict \<Rightarrow> bool" where
  "catalog_ok d \<longleftrightarrow> dict_ok d \<and> (\<forall>(k, p) \<in> set d. k = pipeline_key p) \<and> single_active d"

lemma catalog_ok_Nil [simp]: "catalog_ok []"
  by (simp add: catalog_ok_def single_active_def)

lemma catalog_key: "catalog_ok d \<Longrightarrow> dict_get d k = Some p \<Longrightarrow> pipeline_key p = k"
  unfolding catalog_ok_def by (auto dest!: map_of_SomeD)

lemma retire_active_mem:
  "(k, p) \<in> set (retire_active pid d) \<Longrightarrow> pd_status p = P_ACTIVE \<Longrightarrow> (k, p) \<in> set d"
  unfolding retire_active_def by (auto split: if_splits)

lemma retire_active_ok:
  assumes "catalog_ok d"
  shows "catalog_ok (retire_active pid d)"
proof -
  have "dict_ok (retire_active pid d)"
    using assms unfolding retire_active_def catalog_ok_def by (simp only: dict_ok_map_val)
  moreover have "\<forall>(k, p) \<in> set (retire_active pid d). k = pipeline_key p"
    using assms unfolding retire_active_def catalog_ok_def by auto
  moreover have "single_active (retire_active pid d)"
    using assms unfolding catalog_ok_def single_active_def by (meson retire_active_mem)
  ultimately show ?thesis by (simp add: catalog_ok_def)
qed

lemma retire_active_inactive:
  "\<forall>kp \<in> set (retire_active pid d).
     \<not> (pd_pipeline_id (snd kp) = pid \<and> pd_status (snd kp) = P_ACTIVE)"
  unfolding retire_active_def by (induction d) (auto split: if_splits)

lemma retire_active_none:
  "(k, p) \<in> set (retire_active pid d) \<Longrightarrow> pd_pipeline_id p = pid \<Longrightarrow> pd_status p \<noteq> P_ACTIVE"
  using retire_active_inactive [of pid d] by fastforce

lemma retire_active_key_eq:
  "\<forall>(k, p) \<in> set d. k = pipeline_key p \<Longrightarrow> retire_active_key pid d = retire_active pid d"
  unfolding retire_active_key_def retire_active_def by (fastforce intro: map_cong)

lemma dict_get_retire_active:
  "dict_get (retire_active pid d) k = map_option (\<lambda>p.
     if pd_pipeline_id p = pid \<and> pd_status p = P_ACTIVE then p\<lparr>pd_status := P_RETIRED\<rparr> else p)
     (dict_get d k)"
  unfolding retire_active_def by simp

lemma catalog_set_inactive:
  assumes "catalog_ok d" and "k = pipeline_key q" and "pd_status q \<noteq> P_ACTIVE"
  shows "catalog_ok (dict_set k q d)"
  using assms unfolding catalog_ok_def single_active_def
  by (auto simp: set_dict_set_ok)

lemma catalog_set_active:
  assumes "catalog_ok d" and "k = pipeline_key q"
    and "\<And>k' p. (k', p) \<in> set d \<Longrightarrow> pd_pipeline_id p = pd_pipeline_id q \<Longrightarrow> pd_status p \<noteq> P_ACTIVE"
  shows "catalog_ok (dict_set k q d)"
  using assms unfolding catalog_ok_def single_active_def
  by (auto simp: set_dict_set_ok)

text \<open>
  The contract of a component that keeps pipeline versions and moves them along the life
  cycle: the state store above and the in-process registry both provide it.
\<close>

locale pipeline_catalog =
  fixes table :: "'s \<Rightarrow> (string \<times> string, pipeline_definition) dict"
    and transit :: "string \<Rightarrow> string \<Rightarrow> pipeline_status \<Rightarrow> ('s, pipeline_definition) py"
  assumes transit_ok: "transit pid v target s = (Inr q, s') \<Longrightarrow>
      \<exists>p. dict_get (table s) (pid, v) = Some p \<and>
          pipeline_transition_allowed (pd_status p) target \<and> q = p\<lparr>pd_status := target\<rparr> \<and>
          table s' = dict_set (pid, v) q
            (if target = P_ACTIVE then retire_active pid (table s) else table s)"
    and transit_error: "transit pid v target s = (Inl e, s') \<Longrightarrow> s' = s"
begin

lemma transit_keeps_catalog:
  assumes "catalog_ok (table s)"
  shows "catalog_ok (table (snd (transit pid v target s)))"
proof (cases "transit pid v target s")
  case (Pair r s')
  show ?thesis
  proof (cases r)
    case (Inl e)
    with Pair have "s' = s" by (intro transit_error) simp
    with Pair assms show ?thesis by simp
  next
    case (Inr q)
    then obtain p where p: "dict_get (table s) (pid, v) = Some p" "q = p\<lparr>pd_status := target\<rparr>"
        and t: "table s' = dict_set (pid, v) q
          (if target = P_ACTIVE then retire_active pid (table s) else table s)"
      using transit_ok Pair by blast
    from catalog_key [OF assms p(1)] p(2) have k: "(pid, v) = pipeline_key q" by simp
    show ?thesis
    proof (cases "target = P_ACTIVE")
      case True
      then show ?thesis using Pair t k
        by (auto intro!: catalog_set_active retire_active_ok assms dest: retire_active_none)
    next
      case False
      then show ?thesis using Pair t k p(2) by (auto intro!: catalog_set_inactive assms)
    qed
  qed
qed

lemma transit_activates_only:
  assumes "catalog_ok (table s)" and "transit pid v P_ACTIVE s = (Inr q, s')"
    and "dict_get (table s') k = Some p" and "pd_pipeline_id p = pid" and "pd_status p = P_ACTIVE"
  shows "k = (pid, v) \<and> p = q"
proof -
  obtain p0 where t: "table s' = dict_set (pid, v) q (retire_active pid (table s))"
    using transit_ok [OF assms(2)] by auto
  show ?thesis
  proof (cases "k = (pid, v)")
    case True
    with t assms(3) show ?thesis by simp
  next
    case False
    with t assms(3) have "dict_get (retire_active pid (table s)) k = Some p" by simp
    then have "(k, p) \<in> set (retire_active pid (table s))" by (rule map_of_SomeD)
    with assms(4,5) show ?thesis using retire_active_none by blast
  qed
qed

lemma transit_keeps_definition:
  assumes "transit pid v target s = (Inr q, s')"
  shows "map_option pipeline_payload (dict_get (table s') k) =
         map_option pipeline_payload (dict_get (table s) k)"
proof -
  obtain p where "dict_get (table s) (pid, v) = Some p" "q = p\<lparr>pd_status := target\<rparr>"
      "table s' = dict_set (pid, v) q
         (if target = P_ACTIVE then retire_active pid (table s) else table s)"
    using transit_ok [OF assms] by blast
  then show ?thesis
    by (cases "dict_get (table s) k")
       (auto simp: dict_get_retire_active pipeline_payload_def)
qed

lemma retired_stays:
  assumes "dict_get (table s) (pid, v) = Some p" and "pd_status p = P_RETIRED"
  shows "\<exists>e. transit pid v target s = (Inl e, s)"
proof (cases "transit pid v target s")
  case (Pair r s')
  show ?thesis
  proof (cases r)
    case (Inl e)
    with Pair transit_error show ?thesis by fastforce
  next
    case (Inr q)
    with Pair transit_ok [of pid v target s q s'] assms show ?thesis by auto
  qed
qed

end

interpretation store_catalog: pipeline_catalog mem_pipelines transition_pipeline_definition
proof (unfold_locales, goal_cases)
  case (1 pid v target s q s')
  then show ?case
    unfolding transition_pipeline_definition_def Let_def
    by (cases "dict_get (mem_pipelines s) (pid, v)") (auto split: if_splits)
next
  case (2 pid v target s e s')
  then show ?case
    unfolding transition_pipeline_definition_def Let_def
    by (auto split: if_splits option.splits)
qed

section \<open>Properties\<close>

text \<open>
  Moving a pipeline version along its life cycle keeps the catalogue well formed: rows stay
  under their own key and no pipeline ever has two active versions, whether the call
  succeeds or is refused.
\<close>

lemma transition_keeps_single_active:
  "catalog_ok (mem_pipelines s) \<Longrightarrow>
   catalog_ok (mem_pipelines (snd (transition_pipeline_definition pid v target s)))"
  by (rule store_catalog.transit_keeps_catalog)

text \<open>
  Activating a version leaves it as the only active version of its pipeline, and changes
  no definition: every row keeps the content its digest covers.
\<close>

lemma activation_is_exclusive:
  assumes "catalog_ok (mem_pipelines s)"
    and "transition_pipeline_definition pid v P_ACTIVE s = (Inr q, s')"
  shows "(\<forall>k p. dict_get (mem_pipelines s') k = Some p \<longrightarrow> pd_pipeline_id p = pid \<longrightarrow>
            (pd_status p = P_ACTIVE \<longleftrightarrow> k = (pid, v))) \<and>
         (\<forall>k. map_option pipeline_payload (dict_get (mem_pipelines s') k) =
               map_option pipeline_payload (dict_get (mem_pipelines s) k))"
proof (intro conjI allI impI)
  fix k p
  assume p: "dict_get (mem_pipelines s') k = Some p" "pd_pipeline_id p = pid"
  from store_catalog.transit_ok [OF assms(2)]
  have q: "dict_get (mem_pipelines s') (pid, v) = Some q" "pd_status q = P_ACTIVE" by auto
  show "pd_status p = P_ACTIVE \<longleftrightarrow> k = (pid, v)"
  proof
    assume "pd_status p = P_ACTIVE"
    with store_catalog.transit_activates_only [OF assms p] show "k = (pid, v)" by blast
  next
    assume "k = (pid, v)"
    with p(1) q show "pd_status p = P_ACTIVE" by simp
  qed
next
  fix k
  show "map_option pipeline_payload (dict_get (mem_pipelines s') k) =
        map_option pipeline_payload (dict_get (mem_pipelines s) k)"
    by (rule store_catalog.transit_keeps_definition [OF assms(2)])
qed

text \<open>
  Registering a pipeline version that is new, or already present with the same
  definition, keeps the catalogue well formed; a new active version retires the previous one.
\<close>

lemma register_keeps_catalog:
  assumes ok: "catalog_ok (mem_pipelines s)"
    and same: "\<And>q. dict_get (mem_pipelines s) (pipeline_key p) = Some q \<Longrightarrow>
      definition_sha256 digest q = definition_sha256 digest p"
  shows "catalog_ok (mem_pipelines (snd (register_pipeline_definition digest p s)))"
proof (cases "dict_get (mem_pipelines s) (pipeline_key p)")
  case (Some q)
  with ok same show ?thesis by (simp add: register_pipeline_definition_def)
next
  case None
  have eq: "retire_active_key (pd_pipeline_id p) (mem_pipelines s) =
      retire_active (pd_pipeline_id p) (mem_pipelines s)"
    using ok by (intro retire_active_key_eq) (simp add: catalog_ok_def)
  show ?thesis
  proof (cases "pd_status p = P_ACTIVE")
    case True
    with None ok show ?thesis
      by (auto simp: register_pipeline_definition_def eq
          intro!: catalog_set_active retire_active_ok dest: retire_active_none)
  next
    case False
    with None ok show ?thesis
      by (auto simp: register_pipeline_definition_def intro!: catalog_set_inactive)
  qed
qed

text \<open>
  Re-registering an installed version whose definition changed puts it back as active
  without retiring the version that is active now: the pipeline ends with two active versions.
\<close>

lemma reregister_duplicates_active:
  assumes old: "dict_get (mem_pipelines s) (pipeline_key p) = Some q"
    and changed: "definition_sha256 digest q \<noteq> definition_sha256 digest p"
    and p: "pd_status p = P_ACTIVE"
    and other: "dict_get (mem_pipelines s) (pd_pipeline_id p, w) = Some r" "w \<noteq> pd_version p"
      "pd_status r = P_ACTIVE" "pd_pipeline_id r = pd_pipeline_id p"
  shows "\<not> catalog_ok (mem_pipelines (snd (register_pipeline_definition digest p s)))"
proof -
  let ?d = "mem_pipelines (snd (register_pipeline_definition digest p s))"
  have d: "?d = dict_set (pipeline_key p) p (mem_pipelines s)"
    using old changed p by (simp add: register_pipeline_definition_def)
  then have "dict_get ?d (pipeline_key p) = Some p" "dict_get ?d (pd_pipeline_id p, w) = Some r"
    using other by auto
  then have "(pipeline_key p, p) \<in> set ?d" "((pd_pipeline_id p, w), r) \<in> set ?d"
    by (blast dest: map_of_SomeD)+
  then show ?thesis using p other unfolding catalog_ok_def single_active_def by blast
qed

text \<open>The invariant of saved searches: no two of one project share a name.\<close>

definition names_unique :: "(key3, saved_search) dict \<Rightarrow> bool" where
  "names_unique d \<longleftrightarrow> (\<forall>k v k' v'. (k, v) \<in> set d \<longrightarrow> (k', v') \<in> set d \<longrightarrow>
     same_name_in_scope v v' \<longrightarrow> k = k')"

lemma same_name_sym: "same_name_in_scope a b \<Longrightarrow> same_name_in_scope b a"
  by (simp add: same_name_in_scope_def)

lemma names_unique_pop: "names_unique d \<Longrightarrow> names_unique (dict_pop k d)"
  unfolding names_unique_def set_dict_pop by blast

lemma names_unique_set:
  assumes "names_unique d" and "dict_ok d"
    and "\<And>k' u. (k', u) \<in> set d \<Longrightarrow> same_name_in_scope u v \<Longrightarrow> k' = k"
  shows "names_unique (dict_set k v d)"
  unfolding names_unique_def set_dict_set_ok [OF assms(2)]
proof (intro allI impI)
  fix a u b w
  assume "(a, u) \<in> insert (k, v) {kv \<in> set d. fst kv \<noteq> k}"
    and "(b, w) \<in> insert (k, v) {kv \<in> set d. fst kv \<noteq> k}" and same: "same_name_in_scope u w"
  then consider "(a, u) = (k, v)" "(b, w) = (k, v)" | "(a, u) = (k, v)" "(b, w) \<in> set d"
    | "(a, u) \<in> set d" "(b, w) = (k, v)" | "(a, u) \<in> set d" "(b, w) \<in> set d"
    by blast
  then show "a = b"
  proof cases
    case 1
    then show ?thesis by simp
  next
    case 2
    with assms(3) [OF 2(2)] same same_name_sym show ?thesis by blast
  next
    case 3
    with assms(3) [OF 3(1)] same show ?thesis by blast
  next
    case 4
    with assms(1) same show ?thesis unfolding names_unique_def by blast
  qed
qed

lemma create_saved_search_unique:
  assumes "dict_ok (mem_saved_searches s)" "names_unique (mem_saved_searches s)"
  shows "names_unique (mem_saved_searches (snd (create_saved_search v s)))"
proof (cases "fst (create_saved_search v s)")
  case (Inl e)
  then have "snd (create_saved_search v s) = s"
    by (auto simp: create_saved_search_def Let_def split: if_splits)
  with assms show ?thesis by simp
next
  case (Inr w)
  then have "mem_saved_searches (snd (create_saved_search v s)) =
        dict_set (saved_search_key v) v (mem_saved_searches s)"
    and free: "\<forall>u \<in> set (map snd (mem_saved_searches s)). \<not> same_name_in_scope u v"
    by (simp_all add: create_saved_search_def Let_def split: if_splits)
  moreover have "\<not> same_name_in_scope u v" if "(k, u) \<in> set (mem_saved_searches s)" for k u
    using free that by force
  ultimately show ?thesis using assms by (simp only:) (blast intro: names_unique_set)
qed

lemma save_saved_search_unique:
  assumes k: "keyed saved_search_key (mem_saved_searches s)"
    and u: "names_unique (mem_saved_searches s)"
  shows "names_unique (mem_saved_searches (snd (save_saved_search v s)))"
proof (cases "fst (save_saved_search v s)")
  case (Inl e)
  then have "snd (save_saved_search v s) = s"
    by (auto simp: save_saved_search_def Let_def split: if_splits)
  with u show ?thesis by simp
next
  case (Inr w)
  then have upd: "mem_saved_searches (snd (save_saved_search v s)) =
        dict_set (saved_search_key v) v (mem_saved_searches s)"
    and free: "\<forall>x \<in> set (map snd (mem_saved_searches s)).
        same_name_in_scope x v \<longrightarrow> ss_saved_search_id x = ss_saved_search_id v"
    by (auto simp: save_saved_search_def Let_def split: if_splits)
  have same: "a = saved_search_key v"
    if mem: "(a, x) \<in> set (mem_saved_searches s)" and name: "same_name_in_scope x v" for a x
  proof -
    from mem k have "a = saved_search_key x" unfolding keyed_def by blast
    moreover from mem free name have "ss_saved_search_id x = ss_saved_search_id v" by force
    ultimately show ?thesis
      using name by (simp add: saved_search_key_def same_name_in_scope_def)
  qed
  show ?thesis unfolding upd by (rule names_unique_set [OF u keyed_ok [OF k] same])
qed

text \<open>
  Saved search names stay unique within a tenant and project under every operation that
  writes saved searches: creation, update and deletion.
\<close>

lemma saved_search_names_unique:
  assumes "keyed saved_search_key (mem_saved_searches s)" "names_unique (mem_saved_searches s)"
  shows "names_unique (mem_saved_searches (snd (create_saved_search v s))) \<and>
    names_unique (mem_saved_searches (snd (save_saved_search v s))) \<and>
    names_unique (mem_saved_searches (snd (delete_saved_search t p i s)))"
proof -
  have "mem_saved_searches (snd (delete_saved_search t p i s)) =
      dict_pop (store_key t p i) (mem_saved_searches s)"
    by (simp add: delete_saved_search_def Let_def)
  with assms show ?thesis
    by (simp add: create_saved_search_unique save_saved_search_unique names_unique_pop keyed_ok)
qed

end
