(* ===== verification/Store_Webhooks.thy ===== *)
theory Store_Webhooks
  imports Sample_Data
begin

text \<open>
  Webhook subscriptions and the delivery outbox of \<open>MemoryStateStore\<close>: an event fans out to one
  pending delivery per enabled matching subscription, a worker claims due deliveries under a
  lease, and removing a subscription drops its deliveries. Identifiers drawn with \<open>uuid4\<close> during
  one call are the values \<open>uuids 0, uuids 1, \<dots>\<close> of a parameter.
\<close>

section \<open>Subscriptions\<close>

definition subscription_key :: "webhook_subscription \<Rightarrow> key3" where
  "subscription_key w = store_key (wh_tenant_id w) (wh_project_id w) (wh_endpoint_id w)"

definition delivery_key :: "webhook_delivery_record \<Rightarrow> key3" where
  "delivery_key d = store_key (whd_tenant_id d) (whd_project_id d) (whd_delivery_id d)"

definition create_webhook_subscription :: "webhook_subscription \<Rightarrow> (mem, webhook_subscription) py" where
  "create_webhook_subscription endpoint s =
     (let key = subscription_key endpoint in
      if dict_get (mem_webhook_subscriptions s) key \<noteq> None
      then (Inl (StateConflict ''webhook subscription already exists''), s)
      else (Inr endpoint,
        s\<lparr>mem_webhook_subscriptions := dict_set key endpoint (mem_webhook_subscriptions s)\<rparr>))"

definition get_webhook_subscription :: "string \<Rightarrow> string \<Rightarrow> string \<Rightarrow> mem \<Rightarrow> webhook_subscription option" where
  "get_webhook_subscription tenant_id project_id endpoint_id s =
     dict_get (mem_webhook_subscriptions s) (store_key tenant_id project_id endpoint_id)"

definition list_webhook_subscriptions :: "string \<Rightarrow> string \<Rightarrow> mem \<Rightarrow> webhook_subscription list" where
  "list_webhook_subscriptions tenant_id project_id s =
     map snd (filter (\<lambda>kv. in_scope tenant_id project_id (fst kv))
       (py_sorted fst (mem_webhook_subscriptions s)))"

definition delete_webhook_subscription ::
  "string \<Rightarrow> string \<Rightarrow> string \<Rightarrow> (mem, webhook_subscription option) py" where
  "delete_webhook_subscription tenant_id project_id endpoint_id s =
     (let key = store_key tenant_id project_id endpoint_id in
      (Inr (dict_get (mem_webhook_subscriptions s) key),
       s\<lparr>mem_webhook_subscriptions := dict_pop key (mem_webhook_subscriptions s),
         mem_webhook_deliveries := filter (\<lambda>(k, d).
           \<not> (whd_tenant_id d = tenant_id \<and> whd_project_id d = project_id \<and>
              whd_endpoint_id d = endpoint_id)) (mem_webhook_deliveries s)\<rparr>))"

section \<open>Fan-out\<close>

definition envelope_payload :: "string \<Rightarrow> string \<Rightarrow> json_dict \<Rightarrow> json_dict" where
  "envelope_payload tenant_id project_id payload =
     dict_setdefault ''event_version'' (JStr ''1.0'')
       (dict_setdefault ''producer'' (JStr ''scenara'')
         (dict_setdefault ''project_id'' (JStr project_id)
           (dict_setdefault ''tenant_id'' (JStr tenant_id) payload)))"

definition subscribed :: "string \<Rightarrow> string \<Rightarrow> string \<Rightarrow> webhook_subscription \<Rightarrow> bool" where
  "subscribed tenant_id project_id event_type endpoint \<longleftrightarrow>
     wh_tenant_id endpoint = tenant_id \<and> wh_project_id endpoint = project_id \<and>
     wh_enabled endpoint \<and> event_type \<in> wh_event_types endpoint"

definition new_delivery ::
  "string \<Rightarrow> string \<Rightarrow> string \<Rightarrow> string \<Rightarrow> string \<Rightarrow> string \<Rightarrow> json_dict \<Rightarrow> pyfloat \<Rightarrow>
   webhook_delivery_record" where
  "new_delivery delivery_id tenant_id project_id endpoint_id event_id event_type payload created_at =
     \<lparr>whd_delivery_id = delivery_id, whd_tenant_id = tenant_id, whd_project_id = project_id,
      whd_endpoint_id = endpoint_id, whd_event_id = event_id, whd_event_type = event_type,
      whd_payload = payload, whd_status = PENDING, whd_attempts = 0,
      whd_next_attempt_at = created_at, whd_status_code = None, whd_last_error = None,
      whd_created_at = created_at, whd_updated_at = created_at, whd_delivered_at = None\<rparr>"

lemma new_delivery_simps [simp]:
  "whd_delivery_id (new_delivery d t p e i ty b tm) = d"
  "delivery_key (new_delivery d t p e i ty b tm) = store_key t p d"
  "whd_endpoint_id (new_delivery d t p e i ty b tm) = e"
  "whd_status (new_delivery d t p e i ty b tm) = PENDING"
  by (simp_all add: new_delivery_def delivery_key_def)

definition enqueue_webhook_event ::
  "(nat \<Rightarrow> string) \<Rightarrow> string \<Rightarrow> string \<Rightarrow> string \<Rightarrow> string \<Rightarrow> json_dict \<Rightarrow> pyfloat \<Rightarrow> mem \<Rightarrow> mem" where
  "enqueue_webhook_event uuids tenant_id project_id event_id event_type payload created_at s =
     (let body = envelope_payload tenant_id project_id payload;
          matching = filter (subscribed tenant_id project_id event_type)
            (map snd (mem_webhook_subscriptions s));
          deliveries = map (\<lambda>(i, endpoint). new_delivery (''whd_'' @ uuids i) tenant_id project_id
            (wh_endpoint_id endpoint) event_id event_type body created_at) (enumerate 0 matching)
      in s\<lparr>mem_webhook_deliveries :=
             fold (\<lambda>d. dict_set (store_key tenant_id project_id (whd_delivery_id d)) d) deliveries
               (mem_webhook_deliveries s)\<rparr>)"

section \<open>The outbox\<close>

definition delivery_due :: "pyfloat \<Rightarrow> webhook_delivery_record \<Rightarrow> bool" where
  "delivery_due before d \<longleftrightarrow>
     (whd_status d = PENDING \<or> whd_status d = DELIVERING) \<and> whd_next_attempt_at d \<le> before"

definition due_deliveries :: "pyfloat \<Rightarrow> int \<Rightarrow> mem \<Rightarrow> webhook_delivery_record list" where
  "due_deliveries before lmt s =
     py_slice (py_sorted (\<lambda>d. (whd_next_attempt_at d, whd_created_at d, whd_delivery_id d))
       (filter (delivery_due before) (map snd (mem_webhook_deliveries s)))) 0 lmt"

definition lease :: "pyfloat \<Rightarrow> pyfloat \<Rightarrow> webhook_delivery_record \<Rightarrow> webhook_delivery_record" where
  "lease before lease_until d =
     d\<lparr>whd_status := DELIVERING, whd_next_attempt_at := lease_until, whd_updated_at := before\<rparr>"

definition claim_webhook_deliveries ::
  "pyfloat \<Rightarrow> pyfloat \<Rightarrow> int \<Rightarrow> (mem, webhook_delivery_record list) py" where
  "claim_webhook_deliveries before lease_until lmt s =
     (let claimed = map (lease before lease_until) (due_deliveries before lmt s)
      in (Inr claimed,
          s\<lparr>mem_webhook_deliveries :=
             fold (\<lambda>d. dict_set (delivery_key d) d) claimed (mem_webhook_deliveries s)\<rparr>))"

definition save_webhook_delivery :: "webhook_delivery_record \<Rightarrow> (mem, unit) py" where
  "save_webhook_delivery delivery s =
     (let key = delivery_key delivery in
      if dict_get (mem_webhook_deliveries s) key = None
      then (Inl (StateConflict ''webhook delivery does not exist''), s)
      else (Inr (), s\<lparr>mem_webhook_deliveries := dict_set key delivery (mem_webhook_deliveries s)\<rparr>))"

definition list_webhook_deliveries :: "string \<Rightarrow> string \<Rightarrow> int \<Rightarrow> mem \<Rightarrow> webhook_delivery_record list" where
  "list_webhook_deliveries tenant_id project_id lmt s =
     py_slice (py_sorted_desc (\<lambda>d. (whd_created_at d, whd_delivery_id d))
       (scoped_rows tenant_id project_id (mem_webhook_deliveries s))) 0 lmt"

interpretation webhook_subscriptions: deletable_table mem_webhook_subscriptions subscription_key
  "\<lambda>_ _. True" create_webhook_subscription get_webhook_subscription
  StateConflict delete_webhook_subscription
  by unfold_locales (auto simp: create_webhook_subscription_def get_webhook_subscription_def
      delete_webhook_subscription_def Let_def)

section \<open>Writing several rows\<close>

lemma keyed_fold_set:
  "keyed key d \<Longrightarrow> keyed key (fold (\<lambda>v. dict_set (key v) v) vs d)"
  by (induction vs arbitrary: d) auto

lemma get_fold_set_other:
  "k \<notin> key ` set vs \<Longrightarrow> dict_get (fold (\<lambda>v. dict_set (key v) v) vs d) k = dict_get d k"
  by (induction vs arbitrary: d) auto

lemma get_fold_set:
  "distinct (map key vs) \<Longrightarrow> v \<in> set vs \<Longrightarrow>
   dict_get (fold (\<lambda>v. dict_set (key v) v) vs d) (key v) = Some v"
proof (induction vs arbitrary: d)
  case (Cons w vs)
  then show ?case by (cases "v = w") (auto simp: get_fold_set_other)
qed simp

lemma lease_frame [simp]:
  "delivery_key (lease b l d) = delivery_key d" "whd_status (lease b l d) = DELIVERING"
  "whd_next_attempt_at (lease b l d) = l" "whd_attempts (lease b l d) = whd_attempts d"
  by (simp_all add: lease_def delivery_key_def)

lemma due_deliveries_mem:
  assumes "d \<in> set (due_deliveries before lmt s)"
  shows "d \<in> set (map snd (mem_webhook_deliveries s))" and "delivery_due before d"
proof -
  let ?xs = "py_sorted (\<lambda>d. (whd_next_attempt_at d, whd_created_at d, whd_delivery_id d))
       (filter (delivery_due before) (map snd (mem_webhook_deliveries s)))"
  have "d \<in> set ?xs"
    using assms set_py_page [of ?xs 0 "Some lmt"] unfolding due_deliveries_def
    by (auto simp: py_page_def)
  then show "d \<in> set (map snd (mem_webhook_deliveries s))" and "delivery_due before d"
    by auto
qed

lemma keyed_distinct_keys:
  assumes "keyed key d" shows "distinct (map key (map snd d))"
proof -
  have "map key (map snd d) = map fst d"
    using assms unfolding keyed_def by auto
  then show ?thesis using keyed_ok [OF assms] by (simp only:)
qed

lemma due_deliveries_distinct:
  assumes "keyed delivery_key (mem_webhook_deliveries s)"
  shows "distinct (map delivery_key (due_deliveries before lmt s))"
proof -
  have rows: "distinct (map snd (mem_webhook_deliveries s))"
    "inj_on delivery_key (set (map snd (mem_webhook_deliveries s)))"
    using keyed_distinct_keys [OF assms] by (simp_all only: distinct_map)
  have "distinct (due_deliveries before lmt s)"
    unfolding due_deliveries_def py_slice_def
    by (intro distinct_take distinct_drop) (simp add: rows(1) del: filter_map)
  moreover have "set (due_deliveries before lmt s) \<subseteq> set (map snd (mem_webhook_deliveries s))"
    using due_deliveries_mem(1) by blast
  ultimately show ?thesis using rows(2) by (simp add: distinct_map inj_on_subset)
qed

section \<open>Properties\<close>

text \<open>The deliveries after a claim: leased rows are rewritten, the others are untouched.\<close>

lemma claim_get:
  assumes "keyed delivery_key (mem_webhook_deliveries s)"
    and "claim_webhook_deliveries before lease_until lmt s = (Inr claimed, s')"
  shows "c \<in> set claimed \<Longrightarrow> dict_get (mem_webhook_deliveries s') (delivery_key c) = Some c"
    and "k \<notin> delivery_key ` set claimed \<Longrightarrow>
      dict_get (mem_webhook_deliveries s') k = dict_get (mem_webhook_deliveries s) k"
proof -
  have c: "claimed = map (lease before lease_until) (due_deliveries before lmt s)"
    and s': "mem_webhook_deliveries s' =
      fold (\<lambda>d. dict_set (delivery_key d) d) claimed (mem_webhook_deliveries s)"
    using assms(2) by (auto simp: claim_webhook_deliveries_def Let_def)
  have "map delivery_key claimed = map delivery_key (due_deliveries before lmt s)"
    by (simp add: c)
  then have d: "distinct (map delivery_key claimed)"
    using due_deliveries_distinct [OF assms(1)] by simp
  show "c \<in> set claimed \<Longrightarrow> dict_get (mem_webhook_deliveries s') (delivery_key c) = Some c"
    unfolding s' by (rule get_fold_set [OF d])
  show "k \<notin> delivery_key ` set claimed \<Longrightarrow>
      dict_get (mem_webhook_deliveries s') k = dict_get (mem_webhook_deliveries s) k"
    unfolding s' by (rule get_fold_set_other)
qed

lemma claim_keyed:
  assumes "keyed delivery_key (mem_webhook_deliveries s)"
  shows "keyed delivery_key (mem_webhook_deliveries (snd (claim_webhook_deliveries b l n s)))"
  using assms by (simp add: claim_webhook_deliveries_def Let_def keyed_fold_set)



lemma fold_set_fresh_deliveries:
  assumes "inj uuids"
    and "\<And>i. n \<le> i \<Longrightarrow> dict_get ds (store_key t p (''whd_'' @ uuids i)) = None"
  shows "map snd (fold (\<lambda>d. dict_set (store_key t p (whd_delivery_id d)) d)
      (map (\<lambda>(i, w). new_delivery (''whd_'' @ uuids i) t p (wh_endpoint_id w) eid ety body tm)
        (enumerate n ws)) ds) =
    map snd ds @
    map (\<lambda>(i, w). new_delivery (''whd_'' @ uuids i) t p (wh_endpoint_id w) eid ety body tm)
      (enumerate n ws)"
  using assms(2)
proof (induction ws arbitrary: n ds)
  case (Cons w ws)
  let ?d = "new_delivery (''whd_'' @ uuids n) t p (wh_endpoint_id w) eid ety body tm"
  have here: "dict_set (store_key t p (''whd_'' @ uuids n)) ?d ds =
      ds @ [(store_key t p (''whd_'' @ uuids n), ?d)]"
    using Cons.prems [of n] by (intro dict_set_fresh) simp
  have later: "dict_get (ds @ [(store_key t p (''whd_'' @ uuids n), ?d)])
      (store_key t p (''whd_'' @ uuids i)) = None" if "Suc n \<le> i" for i
    using Cons.prems [of i] that assms(1) by (auto simp: map_add_def inj_eq)
  show ?case using Cons.IH [OF later] here by simp
qed simp

text \<open>
  An event creates exactly one pending delivery for each enabled subscription of its own
  tenant and project that lists the event's type, and none for any other subscription,
  provided the identifiers drawn are new; deliveries already in the outbox are untouched.
\<close>

lemma fan_out_exact:
  assumes inj: "inj uuids"
    and fresh: "\<And>i. dict_get (mem_webhook_deliveries s) (store_key t p (''whd_'' @ uuids i)) = None"
  shows "map snd (mem_webhook_deliveries (enqueue_webhook_event uuids t p eid ety payload tm s)) =
    map snd (mem_webhook_deliveries s) @
    map (\<lambda>(i, w). new_delivery (''whd_'' @ uuids i) t p (wh_endpoint_id w) eid ety
          (envelope_payload t p payload) tm)
      (enumerate 0 (filter (subscribed t p ety) (map snd (mem_webhook_subscriptions s))))"
  unfolding enqueue_webhook_event_def Let_def
  using fold_set_fresh_deliveries [OF inj fresh, where n = 0] by simp

end
