(* ===== verification/Store_Runs.thy ===== *)
theory Store_Runs
  imports Store_Webhooks
begin

text \<open>
  Runs, their events and results, idempotency keys and the audit log of \<open>MemoryStateStore\<close>.
  \<open>save_run\<close> is a compare-and-swap on the run's revision, \<open>append_event\<close> numbers the events of
  a run and fans them out to webhooks, \<open>create_run_idempotent\<close> ties a client's key to one run.
\<close>

section \<open>Runs\<close>

definition run_key :: "run_record \<Rightarrow> key3" where
  "run_key r = store_key (run_tenant_id r) (run_project_id r) (run_run_id r)"

definition create_run_idempotent ::
  "run_record \<Rightarrow> string \<Rightarrow> string \<Rightarrow> (mem, run_record \<times> bool) py" where
  "create_run_idempotent run idempotency_key request_hash s =
     (let idem_key = store_key (run_tenant_id run) (run_project_id run) idempotency_key in
      case dict_get (mem_idempotency s) idem_key of
        Some (existing_hash, existing_run_id) \<Rightarrow>
          if existing_hash \<noteq> request_hash
          then (Inl (StateConflict ''idempotency key was already used for a different request''), s)
          else (case dict_get (mem_runs s)
                  (store_key (run_tenant_id run) (run_project_id run) existing_run_id) of
                  None \<Rightarrow> (Inl KeyError, s)
                | Some existing_run \<Rightarrow> (Inr (existing_run, False), s))
      | None \<Rightarrow>
          let key = run_key run in
          if dict_get (mem_runs s) key \<noteq> None
          then (Inl (StateConflict ''run already exists''), s)
          else (Inr (run, True),
                s\<lparr>mem_runs := dict_set key run (mem_runs s),
                  mem_events := dict_set key [] (mem_events s),
                  mem_idempotency := dict_set idem_key (request_hash, run_run_id run)
                    (mem_idempotency s)\<rparr>))"

definition get_run :: "string \<Rightarrow> string \<Rightarrow> string \<Rightarrow> mem \<Rightarrow> run_record option" where
  "get_run tenant_id project_id run_id s = dict_get (mem_runs s) (store_key tenant_id project_id run_id)"

definition get_runs :: "string \<Rightarrow> string \<Rightarrow> string list \<Rightarrow> mem \<Rightarrow> run_record list" where
  "get_runs tenant_id project_id run_ids s =
     map snd (filter (\<lambda>(k, _). in_scope tenant_id project_id k \<and> snd (snd k) \<in> set run_ids) (mem_runs s))"

definition run_matches :: "string \<Rightarrow> string \<Rightarrow> run_status option \<Rightarrow> string option \<Rightarrow> key3 \<times> run_record \<Rightarrow> bool" where
  "run_matches tenant_id project_id status domain kv \<longleftrightarrow>
     in_scope tenant_id project_id (fst kv) \<and>
     (case status of None \<Rightarrow> True | Some st \<Rightarrow> run_state (snd kv) = st) \<and>
     (case domain of None \<Rightarrow> True | Some d \<Rightarrow> run_domain (snd kv) = d)"

definition list_runs ::
  "string \<Rightarrow> string \<Rightarrow> run_status option \<Rightarrow> string option \<Rightarrow> int \<Rightarrow> int option \<Rightarrow> mem \<Rightarrow> run_record list" where
  "list_runs tenant_id project_id status domain off lmt s =
     py_page (py_sorted_desc (\<lambda>r. (run_created_at r, run_run_id r))
       (map snd (filter (run_matches tenant_id project_id status domain) (mem_runs s)))) off lmt"

definition count_runs :: "string \<Rightarrow> string \<Rightarrow> run_status option \<Rightarrow> string option \<Rightarrow> mem \<Rightarrow> int" where
  "count_runs tenant_id project_id status domain s =
     int (length (filter (run_matches tenant_id project_id status domain) (mem_runs s)))"

definition recoverable_runs :: "mem \<Rightarrow> run_record list" where
  "recoverable_runs s =
     py_sorted (\<lambda>r. (run_created_at r, run_run_id r))
       (filter (\<lambda>r. run_state r \<notin> TERMINAL_RUN_STATUSES) (map snd (mem_runs s)))"

definition has_non_terminal_run ::
  "string \<Rightarrow> string \<Rightarrow> string option \<Rightarrow> string option \<Rightarrow> mem \<Rightarrow> exn + bool" where
  "has_non_terminal_run tenant_id project_id asset_id source_id s =
     (if (asset_id = None) = (source_id = None)
      then Inl (ValueError ''exactly one of asset_id or source_id is required'')
      else Inr (\<exists>(k, item) \<in> set (mem_runs s). in_scope tenant_id project_id k \<and>
             run_state item \<notin> TERMINAL_RUN_STATUSES \<and>
             (asset_id = None \<or> run_asset_id item = asset_id) \<and>
             (source_id = None \<or> run_source_id item = source_id)))"

definition delete_run :: "string \<Rightarrow> string \<Rightarrow> string \<Rightarrow> (mem, run_record option) py" where
  "delete_run tenant_id project_id run_id s =
     (let key = store_key tenant_id project_id run_id in
      (Inr (dict_get (mem_runs s) key),
       s\<lparr>mem_runs := dict_pop key (mem_runs s),
         mem_events := dict_pop key (mem_events s),
         mem_results := dict_pop key (mem_results s),
         mem_idempotency := filter (\<lambda>(k, (_, stored_run_id)).
           \<not> (in_scope tenant_id project_id k \<and> stored_run_id = run_id)) (mem_idempotency s)\<rparr>))"

definition save_run :: "run_record \<Rightarrow> int \<Rightarrow> (mem, run_record) py" where
  "save_run run expected_revision s =
     (let key = run_key run in
      case dict_get (mem_runs s) key of
        None \<Rightarrow> (Inl (StateConflict ''run does not exist''), s)
      | Some current \<Rightarrow>
          if run_revision current \<noteq> expected_revision
          then (Inl (StateConflict ''run revision conflict''), s)
          else let saved = run\<lparr>run_revision := expected_revision + 1\<rparr>
               in (Inr saved, s\<lparr>mem_runs := dict_set key saved (mem_runs s)\<rparr>))"

section \<open>Events\<close>

definition json_opt :: "string option \<Rightarrow> json" where
  "json_opt v = (case v of None \<Rightarrow> JNull | Some x \<Rightarrow> JStr x)"

text \<open>\<open>stored.model_dump(mode="json")\<close>\<close>

definition run_event_json :: "run_event \<Rightarrow> json_dict" where
  "run_event_json e =
     [(''run_id'', JStr (ev_run_id e)), (''event_id'', JInt (ev_event_id e)),
      (''event_type'', JStr (ev_event_type e)), (''event_version'', JStr (ev_event_version e)),
      (''occurred_at'', json_opt (ev_occurred_at e)), (''producer'', JStr (ev_producer e)),
      (''tenant_id'', json_opt (ev_tenant_id e)), (''project_id'', json_opt (ev_project_id e)),
      (''request_id'', json_opt (ev_request_id e)), (''trace_id'', json_opt (ev_trace_id e)),
      (''status'', JStr (run_status_value (ev_status e))), (''payload'', JObj (ev_payload e)),
      (''created_at'', JFloat (ev_created_at e))]"

definition append_event ::
  "(nat \<Rightarrow> string) \<Rightarrow> string \<Rightarrow> string \<Rightarrow> run_event \<Rightarrow> (mem, run_event) py" where
  "append_event uuids tenant_id project_id event s =
     (let key = store_key tenant_id project_id (ev_run_id event) in
      case dict_get (mem_events s) key of
        None \<Rightarrow> (Inl (StateConflict ''run does not exist''), s)
      | Some rows \<Rightarrow>
          let stored = event\<lparr>ev_event_id := int (length rows) + 1\<rparr>;
              s1 = s\<lparr>mem_events := dict_set key (rows @ [stored]) (mem_events s)\<rparr>
          in (Inr stored,
              enqueue_webhook_event uuids tenant_id project_id
                (ev_run_id stored @ '':'' @ nat_str (length rows + 1))
                (ev_event_type stored) (run_event_json stored) (ev_created_at stored) s1))"

definition events_after :: "string \<Rightarrow> string \<Rightarrow> string \<Rightarrow> int \<Rightarrow> mem \<Rightarrow> run_event list" where
  "events_after tenant_id project_id run_id event_id s =
     filter (\<lambda>e. event_id < ev_event_id e)
       (case dict_get (mem_events s) (store_key tenant_id project_id run_id) of
          None \<Rightarrow> [] | Some rows \<Rightarrow> rows)"

section \<open>Results\<close>

definition save_result_reference :: "string \<Rightarrow> string \<Rightarrow> result_reference \<Rightarrow> (mem, unit) py" where
  "save_result_reference tenant_id project_id result s =
     (Inr (), s\<lparr>mem_results := dict_set (store_key tenant_id project_id (ref_run_id result)) result
        (mem_results s)\<rparr>)"

definition get_result_reference :: "string \<Rightarrow> string \<Rightarrow> string \<Rightarrow> mem \<Rightarrow> result_reference option" where
  "get_result_reference tenant_id project_id run_id s =
     dict_get (mem_results s) (store_key tenant_id project_id run_id)"

text \<open>
  The text filter searches the lower-cased JSON dump of the reference; the dump is the
  parameter \<open>dumps\<close>, already lower-cased, and so is the query.
\<close>

definition result_matches ::
  "(result_reference \<Rightarrow> string) \<Rightarrow> string \<Rightarrow> string \<Rightarrow> string option \<Rightarrow> string option \<Rightarrow> string option \<Rightarrow>
   key3 \<times> result_reference \<Rightarrow> bool" where
  "result_matches dumps tenant_id project_id domain media_kind query kv \<longleftrightarrow>
     in_scope tenant_id project_id (fst kv) \<and>
     (case domain of None \<Rightarrow> True | Some d \<Rightarrow> ref_domain (snd kv) = d) \<and>
     (case media_kind of None \<Rightarrow> True
      | Some m \<Rightarrow> (case ref_media_kind (snd kv) of None \<Rightarrow> False | Some k \<Rightarrow> media_kind_value k = m)) \<and>
     (case query of None \<Rightarrow> True | Some q \<Rightarrow> sublist q (dumps (snd kv)))"

definition list_result_references ::
  "(result_reference \<Rightarrow> string) \<Rightarrow> string \<Rightarrow> string \<Rightarrow> string option \<Rightarrow> string option \<Rightarrow> string option \<Rightarrow>
   int \<Rightarrow> int option \<Rightarrow> mem \<Rightarrow> result_reference list" where
  "list_result_references dumps tenant_id project_id domain media_kind query off lmt s =
     py_page (py_sorted_desc (\<lambda>r. (ref_created_at r, ref_run_id r))
       (map snd (filter (result_matches dumps tenant_id project_id domain media_kind query)
         (mem_results s)))) off lmt"

definition count_result_references ::
  "(result_reference \<Rightarrow> string) \<Rightarrow> string \<Rightarrow> string \<Rightarrow> string option \<Rightarrow> string option \<Rightarrow> string option \<Rightarrow>
   mem \<Rightarrow> int" where
  "count_result_references dumps tenant_id project_id domain media_kind query s =
     int (length (list_result_references dumps tenant_id project_id domain media_kind query 0 None s))"

section \<open>Audit log\<close>

definition append_audit :: "audit_event \<Rightarrow> (mem, unit) py" where
  "append_audit event s = (Inr (), s\<lparr>mem_audits := mem_audits s @ [event]\<rparr>)"

text \<open>
  \<open>str(event.evidence.get("event_id", ""))\<close>: the event identifier of the sender, which the
  callers put there as a string.
\<close>

definition external_event_id :: "audit_event \<Rightarrow> string" where
  "external_event_id event =
     (case dict_get (aud_evidence event) ''event_id'' of Some (JStr i) \<Rightarrow> i | _ \<Rightarrow> [])"

definition append_external_event_audit :: "audit_event \<Rightarrow> string \<Rightarrow> (mem, bool) py" where
  "append_external_event_audit event payload_hash s =
     (let key = (aud_tenant_id event, aud_project_id event, external_event_id event) in
      case dict_get (mem_external_event_hashes s) key of
        Some previous \<Rightarrow>
          if previous \<noteq> payload_hash
          then (Inl (StateConflict ''external event id was reused with different content''), s)
          else (Inr False, s)
      | None \<Rightarrow>
          (Inr True, s\<lparr>mem_external_event_hashes := dict_set key payload_hash
             (mem_external_event_hashes s), mem_audits := mem_audits s @ [event]\<rparr>))"

record audit_filter =
  af_action :: "string option"
  af_resource_type :: "string option"
  af_principal_id :: "string option"
  af_outcome :: "string option"
  af_created_after :: "pyfloat option"
  af_created_before :: "pyfloat option"

definition audit_matches :: "string \<Rightarrow> string \<Rightarrow> audit_filter \<Rightarrow> audit_event \<Rightarrow> bool" where
  "audit_matches tenant_id project_id f item \<longleftrightarrow>
     aud_tenant_id item = tenant_id \<and> aud_project_id item = project_id \<and>
     (case af_action f of None \<Rightarrow> True | Some a \<Rightarrow> aud_action item = a) \<and>
     (case af_resource_type f of None \<Rightarrow> True | Some a \<Rightarrow> aud_resource_type item = a) \<and>
     (case af_principal_id f of None \<Rightarrow> True | Some a \<Rightarrow> aud_principal_id item = a) \<and>
     (case af_outcome f of None \<Rightarrow> True | Some a \<Rightarrow> aud_outcome item = a) \<and>
     (case af_created_after f of None \<Rightarrow> True | Some a \<Rightarrow> a \<le> aud_created_at item) \<and>
     (case af_created_before f of None \<Rightarrow> True | Some a \<Rightarrow> aud_created_at item \<le> a)"

definition audit_events ::
  "string \<Rightarrow> string \<Rightarrow> audit_filter \<Rightarrow> int \<Rightarrow> int option \<Rightarrow> mem \<Rightarrow> audit_event list" where
  "audit_events tenant_id project_id f off lmt s =
     py_page (py_sorted_desc (\<lambda>e. (aud_created_at e, aud_event_id e))
       (filter (audit_matches tenant_id project_id f) (mem_audits s))) off lmt"

definition count_audit_events :: "string \<Rightarrow> string \<Rightarrow> audit_filter \<Rightarrow> mem \<Rightarrow> int" where
  "count_audit_events tenant_id project_id f s =
     int (length (audit_events tenant_id project_id f 0 None s))"

definition delete_audit_events_before :: "string \<Rightarrow> string \<Rightarrow> pyfloat \<Rightarrow> (mem, int) py" where
  "delete_audit_events_before tenant_id project_id before s =
     (let retained = filter (\<lambda>e. \<not> (aud_tenant_id e = tenant_id \<and> aud_project_id e = project_id \<and>
            aud_created_at e < before)) (mem_audits s)
      in (Inr (int (length (mem_audits s)) - int (length retained)), s\<lparr>mem_audits := retained\<rparr>))"

section \<open>Pages\<close>

definition run_ordering :: "string \<Rightarrow> string \<Rightarrow> run_status option \<Rightarrow> string option \<Rightarrow> mem \<Rightarrow> run_record list" where
  "run_ordering t p st d s = py_sorted_desc (\<lambda>r. (run_created_at r, run_run_id r))
     (map snd (filter (run_matches t p st d) (mem_runs s)))"

interpretation run_pages: paged_view "run_ordering t p st d" "list_runs t p st d"
  "count_runs t p st d" for t p st d
  by unfold_locales (simp_all add: list_runs_def run_ordering_def count_runs_def)

definition result_ordering ::
  "(result_reference \<Rightarrow> string) \<Rightarrow> string \<Rightarrow> string \<Rightarrow> string option \<Rightarrow> string option \<Rightarrow> string option \<Rightarrow>
   mem \<Rightarrow> result_reference list" where
  "result_ordering dumps t p d m q s = py_sorted_desc (\<lambda>r. (ref_created_at r, ref_run_id r))
     (map snd (filter (result_matches dumps t p d m q) (mem_results s)))"

interpretation result_pages: paged_view "result_ordering dumps t p d m q"
  "list_result_references dumps t p d m q" "count_result_references dumps t p d m q"
  for dumps t p d m q
  by unfold_locales
     (simp_all add: list_result_references_def result_ordering_def count_result_references_def)

definition audit_ordering :: "string \<Rightarrow> string \<Rightarrow> audit_filter \<Rightarrow> mem \<Rightarrow> audit_event list" where
  "audit_ordering t p f s = py_sorted_desc (\<lambda>e. (aud_created_at e, aud_event_id e))
     (filter (audit_matches t p f) (mem_audits s))"

interpretation audit_pages: paged_view "audit_ordering t p f" "audit_events t p f"
  "count_audit_events t p f" for t p f
  by unfold_locales (simp_all add: audit_events_def audit_ordering_def count_audit_events_def)

section \<open>Optimistic concurrency\<close>

text \<open>
  What a client of versioned rows may rely on: a write succeeds only against the revision it
  was computed from, and then moves the revision on by one.
\<close>

locale versioned_rows =
  fixes read :: "'k \<Rightarrow> 's \<Rightarrow> 'v option"
    and row_id :: "'v \<Rightarrow> 'k"
    and revision :: "'v \<Rightarrow> int"
    and cas :: "'v \<Rightarrow> int \<Rightarrow> ('s, 'v) py"
    and conflict :: "string \<Rightarrow> exn"
  assumes cas_ok: "read (row_id v) s = Some cur \<Longrightarrow> revision cur = n \<Longrightarrow>
      \<exists>saved s'. cas v n s = (Inr saved, s') \<and> revision saved = n + 1 \<and> row_id saved = row_id v \<and>
        (\<forall>k. read k s' = (if k = row_id v then Some saved else read k s))"
    and cas_conflict: "read (row_id v) s = None \<or>
        (\<exists>cur. read (row_id v) s = Some cur \<and> revision cur \<noteq> n) \<Longrightarrow>
      \<exists>msg. cas v n s = (Inl (conflict msg), s)"
begin

lemma cas_InrE:
  assumes "cas v n s = (Inr saved, s')"
  obtains cur where "read (row_id v) s = Some cur" and "revision cur = n"
    and "revision saved = n + 1" and "row_id saved = row_id v"
    and "\<And>k. read k s' = (if k = row_id v then Some saved else read k s)"
proof (cases "\<exists>cur. read (row_id v) s = Some cur \<and> revision cur = n")
  case True
  then obtain cur where c: "read (row_id v) s = Some cur" "revision cur = n" by blast
  with cas_ok [OF c] assms show ?thesis by (auto intro: that)
next
  case False
  then have "read (row_id v) s = None \<or>
      (\<exists>cur. read (row_id v) s = Some cur \<and> revision cur \<noteq> n)"
    by (cases "read (row_id v) s") auto
  with cas_conflict [of v s n] assms show ?thesis by auto
qed

text \<open>Of two writers that read the same revision, the second one to write is refused.\<close>

lemma no_lost_update:
  assumes "cas v n s = (Inr saved, s')" and "row_id w = row_id v"
  shows "\<exists>msg. cas w n s' = (Inl (conflict msg), s')"
proof (rule cas_conflict)
  from assms(1) show "read (row_id w) s' = None \<or>
      (\<exists>cur. read (row_id w) s' = Some cur \<and> revision cur \<noteq> n)"
    by (rule cas_InrE) (auto simp: assms(2))
qed

lemma revision_grows:
  assumes "cas v n s = (Inr saved, s')" and "read k s = Some cur"
  shows "\<exists>cur'. read k s' = Some cur' \<and> revision cur \<le> revision cur' \<and>
    (revision cur' = revision cur \<longrightarrow> cur' = cur)"
  using assms(1)
proof (rule cas_InrE)
  fix cur0
  assume "read (row_id v) s = Some cur0" "revision cur0 = n" "revision saved = n + 1"
    and "\<And>k. read k s' = (if k = row_id v then Some saved else read k s)"
  with assms(2) show ?thesis by (cases "k = row_id v") auto
qed

end

interpretation run_rows: versioned_rows "\<lambda>k s. dict_get (mem_runs s) k" run_key run_revision save_run
  StateConflict
proof (unfold_locales, goal_cases)
  case (1 v s cur n)
  then show ?case by (simp add: save_run_def Let_def run_key_def)
next
  case (2 v s n)
  then show ?case by (auto simp: save_run_def Let_def)
qed

end
