(* ===== verification/Store_Invariant.thy ===== *)
theory Store_Invariant
  imports Store_Media Store_Catalog Store_Runs
begin

text \<open>
  The invariant of the whole store and the step relation whose steps are the mutating methods
  of \<open>MemoryStateStore\<close>, in any order and with any arguments: what concurrent tasks can do to
  the store, since every method holds the lock for its whole body.
\<close>

named_theorems store_inv_intros \<open>store operations keep the invariant\<close>

section \<open>The invariant\<close>

definition numbered :: "run_event list \<Rightarrow> bool" where
  "numbered rows \<longleftrightarrow> map ev_event_id rows = map int [1..<Suc (length rows)]"

definition media_inv :: "mem \<Rightarrow> bool" where
  "media_inv s \<longleftrightarrow> keyed asset_key (mem_assets s) \<and> keyed source_key (mem_sources s) \<and>
     keyed retention_key (mem_object_retention s)"

definition catalog_inv :: "mem \<Rightarrow> bool" where
  "catalog_inv s \<longleftrightarrow> keyed dataset_key (mem_datasets s) \<and>
     keyed dataset_version_key (mem_dataset_versions s) \<and>
     keyed saved_search_key (mem_saved_searches s) \<and> names_unique (mem_saved_searches s)"

definition webhook_inv :: "mem \<Rightarrow> bool" where
  "webhook_inv s \<longleftrightarrow> keyed subscription_key (mem_webhook_subscriptions s) \<and>
     keyed delivery_key (mem_webhook_deliveries s)"

text \<open>
  Runs and events exist together; the events of a run are numbered from 1; every idempotency
  entry names a run that exists in its own tenant and project.
\<close>

definition run_inv :: "mem \<Rightarrow> bool" where
  "run_inv s \<longleftrightarrow> keyed run_key (mem_runs s) \<and> dict_ok (mem_idempotency s) \<and>
     (\<forall>k. dict_get (mem_events s) k = None \<longleftrightarrow> dict_get (mem_runs s) k = None) \<and>
     (\<forall>k rows. dict_get (mem_events s) k = Some rows \<longrightarrow> numbered rows) \<and>
     (\<forall>t p i h r. dict_get (mem_idempotency s) (store_key t p i) = Some (h, r) \<longrightarrow>
        dict_get (mem_runs s) (store_key t p r) \<noteq> None)"

definition store_inv :: "mem \<Rightarrow> bool" where
  "store_inv s \<longleftrightarrow> media_inv s \<and> catalog_inv s \<and> webhook_inv s \<and> run_inv s"

lemmas store_inv_defs = store_inv_def media_inv_def catalog_inv_def webhook_inv_def run_inv_def

lemma store_inv_init: "store_inv memory_state_init"
  by (simp add: store_inv_defs memory_state_init_def names_unique_def)

section \<open>Media operations\<close>

lemma create_asset_inv [store_inv_intros]: "store_inv s \<Longrightarrow> store_inv (snd (create_asset a s))"
  by (auto simp: create_asset_def Let_def store_inv_def catalog_inv_def webhook_inv_def run_inv_def
      media_inv_def)

lemma delete_asset_inv [store_inv_intros]: "store_inv s \<Longrightarrow> store_inv (snd (delete_asset t p i s))"
  by (auto simp: delete_asset_def Let_def store_inv_defs)

lemma create_source_inv [store_inv_intros]: "store_inv s \<Longrightarrow> store_inv (snd (create_source a s))"
  by (auto simp: create_source_def Let_def store_inv_defs)

lemma delete_source_inv [store_inv_intros]: "store_inv s \<Longrightarrow> store_inv (snd (delete_source t p i s))"
  by (auto simp: delete_source_def Let_def store_inv_defs)

lemma track_object_inv [store_inv_intros]: "store_inv s \<Longrightarrow> store_inv (snd (track_object r s))"
  by (auto simp: track_object_def Let_def store_inv_defs split: option.splits)

lemma protect_object_inv [store_inv_intros]:
  assumes "store_inv s"
  shows "store_inv (snd (protect_object_for_alert t p ok al e s))"
proof (cases "dict_get (mem_object_retention s) (store_key t p ok)")
  case None
  with assms show ?thesis by (simp add: protect_object_for_alert_def)
next
  case (Some r)
  from assms have "keyed retention_key (mem_object_retention s)"
    by (simp add: store_inv_def media_inv_def)
  from keyed_get [OF this Some] assms Some show ?thesis
    by (auto simp: protect_object_for_alert_def Let_def store_inv_defs retention_key_def)
qed

lemma mark_objects_deleted_inv [store_inv_intros]:
  assumes "store_inv s" shows "store_inv (snd (mark_objects_deleted ks t s))"
proof -
  let ?s = "snd (mark_objects_deleted ks t s)"
  have m: "media_inv s" using assms by (simp add: store_inv_def)
  have "keyed retention_key (mem_object_retention ?s)"
    using m unfolding mark_objects_deleted_retention media_inv_def
    by (intro keyed_map_val [where f = "\<lambda>_. mark_retention ks t"]) auto
  moreover have "keyed asset_key (mem_assets ?s)"
    using m unfolding mark_objects_deleted_assets media_inv_def by (intro keyed_map_val) auto
  moreover have "mem_sources ?s = mem_sources s"
    by (simp add: mark_objects_deleted_def Let_def)
  ultimately have "media_inv ?s" using m by (simp add: media_inv_def)
  moreover have "catalog_inv ?s = catalog_inv s" "webhook_inv ?s = webhook_inv s"
    "run_inv ?s = run_inv s"
    by (simp_all add: mark_objects_deleted_def Let_def catalog_inv_def webhook_inv_def run_inv_def)
  ultimately show ?thesis using assms by (simp add: store_inv_def)
qed

section \<open>Catalogue operations\<close>

lemma register_pipeline_inv [store_inv_intros]:
  "store_inv s \<Longrightarrow> store_inv (snd (register_pipeline_definition dg p s))"
  by (auto simp: register_pipeline_definition_def Let_def store_inv_defs split: option.splits)

lemma transition_pipeline_inv [store_inv_intros]:
  "store_inv s \<Longrightarrow> store_inv (snd (transition_pipeline_definition pid v st s))"
  by (auto simp: transition_pipeline_definition_def Let_def store_inv_defs split: option.splits)

lemma register_model_package_inv [store_inv_intros]:
  "store_inv s \<Longrightarrow> store_inv (snd (register_model_package m s))"
  by (auto simp: register_model_package_def Let_def store_inv_defs split: option.splits)

lemma create_dataset_inv [store_inv_intros]: "store_inv s \<Longrightarrow> store_inv (snd (create_dataset d s))"
  by (auto simp: create_dataset_def Let_def store_inv_defs)

lemma save_dataset_inv [store_inv_intros]: "store_inv s \<Longrightarrow> store_inv (snd (save_dataset d s))"
  by (auto simp: save_dataset_def Let_def store_inv_defs)

lemma create_dataset_version_inv [store_inv_intros]:
  "store_inv s \<Longrightarrow> store_inv (snd (create_dataset_version d s))"
  by (auto simp: create_dataset_version_def Let_def store_inv_defs)

lemma save_dataset_version_inv [store_inv_intros]:
  "store_inv s \<Longrightarrow> store_inv (snd (save_dataset_version d s))"
  by (auto simp: save_dataset_version_def Let_def store_inv_defs)

lemma saved_search_frames:
  "media_inv (snd (create_saved_search v s)) = media_inv s"
  "webhook_inv (snd (create_saved_search v s)) = webhook_inv s"
  "run_inv (snd (create_saved_search v s)) = run_inv s"
  "media_inv (snd (save_saved_search v s)) = media_inv s"
  "webhook_inv (snd (save_saved_search v s)) = webhook_inv s"
  "run_inv (snd (save_saved_search v s)) = run_inv s"
  by (simp_all add: create_saved_search_def save_saved_search_def Let_def media_inv_def
      webhook_inv_def run_inv_def)

lemma create_saved_search_inv [store_inv_intros]:
  assumes "store_inv s" shows "store_inv (snd (create_saved_search v s))"
proof -
  have c: "catalog_inv s" using assms by (simp add: store_inv_def)
  then have "names_unique (mem_saved_searches (snd (create_saved_search v s)))"
    by (intro create_saved_search_unique) (auto simp: catalog_inv_def keyed_ok)
  with c have "catalog_inv (snd (create_saved_search v s))"
    using saved_searches.create_keeps_keyed [of s v]
    by (auto simp: catalog_inv_def create_saved_search_def Let_def)
  with assms show ?thesis by (simp add: store_inv_def saved_search_frames)
qed

lemma save_saved_search_inv [store_inv_intros]:
  assumes "store_inv s" shows "store_inv (snd (save_saved_search v s))"
proof -
  have c: "catalog_inv s" using assms by (simp add: store_inv_def)
  then have "names_unique (mem_saved_searches (snd (save_saved_search v s)))"
    by (intro save_saved_search_unique) (auto simp: catalog_inv_def)
  with c have "catalog_inv (snd (save_saved_search v s))"
    by (auto simp: catalog_inv_def save_saved_search_def Let_def)
  with assms show ?thesis by (simp add: store_inv_def saved_search_frames)
qed

lemma delete_saved_search_inv [store_inv_intros]:
  "store_inv s \<Longrightarrow> store_inv (snd (delete_saved_search t p i s))"
  by (auto simp: delete_saved_search_def Let_def store_inv_defs names_unique_pop)

section \<open>Webhook operations\<close>

lemma create_webhook_subscription_inv [store_inv_intros]:
  "store_inv s \<Longrightarrow> store_inv (snd (create_webhook_subscription w s))"
  by (auto simp: create_webhook_subscription_def Let_def store_inv_defs)

lemma delete_webhook_subscription_inv [store_inv_intros]:
  "store_inv s \<Longrightarrow> store_inv (snd (delete_webhook_subscription t p i s))"
  by (auto simp: delete_webhook_subscription_def Let_def store_inv_defs)

lemma save_webhook_delivery_inv [store_inv_intros]:
  "store_inv s \<Longrightarrow> store_inv (snd (save_webhook_delivery d s))"
  by (auto simp: save_webhook_delivery_def Let_def store_inv_defs)

lemma claim_webhook_deliveries_inv [store_inv_intros]:
  assumes "store_inv s" shows "store_inv (snd (claim_webhook_deliveries b l n s))"
  using assms claim_keyed [of s b l n]
  by (auto simp: claim_webhook_deliveries_def Let_def store_inv_defs)

lemma enqueue_keyed:
  assumes "keyed delivery_key (mem_webhook_deliveries s)"
  shows "keyed delivery_key
    (mem_webhook_deliveries (enqueue_webhook_event uu t p eid ety pl tm s))"
proof -
  have "keyed delivery_key (fold (\<lambda>d. dict_set (store_key t p (whd_delivery_id d)) d) ds d0)"
    if "keyed delivery_key d0" "\<And>d. d \<in> set ds \<Longrightarrow> delivery_key d = store_key t p (whd_delivery_id d)"
    for ds and d0 :: "(key3, webhook_delivery_record) dict"
    using that
  proof (induction ds arbitrary: d0)
    case (Cons d ds)
    have "keyed delivery_key (dict_set (store_key t p (whd_delivery_id d)) d d0)"
      using Cons.prems by (intro keyed_set) simp_all
    with Cons show ?case by simp
  qed simp
  note step = this [OF assms]
  have "mem_webhook_deliveries (enqueue_webhook_event uu t p eid ety pl tm s) =
      fold (\<lambda>d. dict_set (store_key t p (whd_delivery_id d)) d)
        (map (\<lambda>(i, endpoint). new_delivery (''whd_'' @ uu i) t p (wh_endpoint_id endpoint) eid ety
               (envelope_payload t p pl) tm)
          (enumerate 0 (filter (subscribed t p ety) (map snd (mem_webhook_subscriptions s)))))
        (mem_webhook_deliveries s)"
    by (simp add: enqueue_webhook_event_def Let_def)
  then show ?thesis
    by (simp only:) (rule step, auto)
qed

lemma enqueue_webhook_event_inv [store_inv_intros]:
  assumes "store_inv s" shows "store_inv (enqueue_webhook_event uu t p eid ety pl tm s)"
  using assms enqueue_keyed [of s uu t p eid ety pl tm]
  by (auto simp: enqueue_webhook_event_def Let_def store_inv_defs)

section \<open>Run operations\<close>

lemma numbered_snoc:
  "numbered rows \<Longrightarrow> numbered (rows @ [e\<lparr>ev_event_id := int (length rows) + 1\<rparr>])"
  by (simp add: numbered_def)

lemma run_inv_new_run:
  assumes "run_inv s"
  shows "run_inv (s\<lparr>mem_runs := dict_set (run_key r) r (mem_runs s),
    mem_events := dict_set (run_key r) [] (mem_events s),
    mem_idempotency := dict_set (store_key (run_tenant_id r) (run_project_id r) ik)
      (h, run_run_id r) (mem_idempotency s)\<rparr>)"
  using assms unfolding run_inv_def
  by (simp add: keyed_set numbered_def run_key_def del: map_of_eq_Some_iff split_paired_All)

lemma create_run_idempotent_inv [store_inv_intros]:
  assumes "store_inv s" shows "store_inv (snd (create_run_idempotent r ik h s))"
proof -
  have "run_inv (snd (create_run_idempotent r ik h s))"
    using assms
    by (simp add: store_inv_def create_run_idempotent_def Let_def run_inv_new_run
        split: option.split prod.split)
  moreover have "media_inv (snd (create_run_idempotent r ik h s)) = media_inv s"
    "catalog_inv (snd (create_run_idempotent r ik h s)) = catalog_inv s"
    "webhook_inv (snd (create_run_idempotent r ik h s)) = webhook_inv s"
    by (auto simp: create_run_idempotent_def Let_def media_inv_def catalog_inv_def webhook_inv_def
        split: option.splits)
  ultimately show ?thesis using assms by (simp add: store_inv_def)
qed

lemma save_run_inv [store_inv_intros]:
  assumes "store_inv s" shows "store_inv (snd (save_run r n s))"
  using assms unfolding store_inv_defs save_run_def Let_def
  by (auto simp: run_key_def keyed_set split: option.splits)

lemma delete_run_inv [store_inv_intros]:
  assumes "store_inv s" shows "store_inv (snd (delete_run t p i s))"
proof -
  have r: "run_inv s" using assms by (simp add: store_inv_def)
  have "run_inv (snd (delete_run t p i s))"
    using r unfolding run_inv_def delete_run_def Let_def
    by (auto simp: dict_get_filter in_scope_def store_key_def split: option.splits if_splits)
  moreover have "media_inv (snd (delete_run t p i s)) = media_inv s"
    "catalog_inv (snd (delete_run t p i s)) = catalog_inv s"
    "webhook_inv (snd (delete_run t p i s)) = webhook_inv s"
    by (simp_all add: delete_run_def Let_def media_inv_def catalog_inv_def webhook_inv_def)
  ultimately show ?thesis using assms by (simp add: store_inv_def)
qed

lemma enqueue_frame [simp]:
  "mem_runs (enqueue_webhook_event uu t p eid ety pl tm s) = mem_runs s"
  "mem_events (enqueue_webhook_event uu t p eid ety pl tm s) = mem_events s"
  "mem_results (enqueue_webhook_event uu t p eid ety pl tm s) = mem_results s"
  "mem_idempotency (enqueue_webhook_event uu t p eid ety pl tm s) = mem_idempotency s"
  "mem_assets (enqueue_webhook_event uu t p eid ety pl tm s) = mem_assets s"
  "mem_sources (enqueue_webhook_event uu t p eid ety pl tm s) = mem_sources s"
  "mem_pipelines (enqueue_webhook_event uu t p eid ety pl tm s) = mem_pipelines s"
  "mem_audits (enqueue_webhook_event uu t p eid ety pl tm s) = mem_audits s"
  "mem_object_retention (enqueue_webhook_event uu t p eid ety pl tm s) = mem_object_retention s"
  by (simp_all add: enqueue_webhook_event_def Let_def)

lemma append_event_inv [store_inv_intros]:
  assumes "store_inv s" shows "store_inv (snd (append_event uu t p e s))"
proof (cases "dict_get (mem_events s) (store_key t p (ev_run_id e))")
  case None
  with assms show ?thesis by (simp add: append_event_def)
next
  case (Some rows)
  let ?e = "e\<lparr>ev_event_id := int (length rows) + 1\<rparr>"
  let ?s1 = "s\<lparr>mem_events := dict_set (store_key t p (ev_run_id e)) (rows @ [?e]) (mem_events s)\<rparr>"
  have r: "run_inv s" using assms by (simp add: store_inv_def)
  from r Some have num: "numbered rows" unfolding run_inv_def by blast
  from r Some have ex: "dict_get (mem_runs s) (store_key t p (ev_run_id e)) \<noteq> None"
    unfolding run_inv_def by (metis option.distinct(1))
  have "run_inv ?s1"
    using r num ex numbered_snoc [OF num] unfolding run_inv_def
    by (simp del: map_of_eq_Some_iff split_paired_All)
  then have "store_inv ?s1"
    using assms by (simp add: store_inv_def media_inv_def catalog_inv_def webhook_inv_def)
  then show ?thesis using Some by (auto simp: append_event_def Let_def intro: enqueue_webhook_event_inv)
qed

lemma save_result_reference_inv [store_inv_intros]:
  "store_inv s \<Longrightarrow> store_inv (snd (save_result_reference t p r s))"
  by (auto simp: save_result_reference_def store_inv_defs)

lemma append_audit_inv [store_inv_intros]: "store_inv s \<Longrightarrow> store_inv (snd (append_audit e s))"
  by (auto simp: append_audit_def store_inv_defs)

lemma append_external_event_audit_inv [store_inv_intros]:
  "store_inv s \<Longrightarrow> store_inv (snd (append_external_event_audit e h s))"
  by (auto simp: append_external_event_audit_def Let_def store_inv_defs split: option.splits)

lemma delete_audit_events_before_inv [store_inv_intros]:
  "store_inv s \<Longrightarrow> store_inv (snd (delete_audit_events_before t p b s))"
  by (auto simp: delete_audit_events_before_def Let_def store_inv_defs)

section \<open>Steps and reachable stores\<close>

inductive store_step :: "mem \<Rightarrow> mem \<Rightarrow> bool" where
  step_create_asset: "store_step s (snd (create_asset a s))"
| step_delete_asset: "store_step s (snd (delete_asset t p i s))"
| step_create_source: "store_step s (snd (create_source src s))"
| step_delete_source: "store_step s (snd (delete_source t p i s))"
| step_track_object: "store_step s (snd (track_object r s))"
| step_protect_object: "store_step s (snd (protect_object_for_alert t p ok al e s))"
| step_mark_objects_deleted: "store_step s (snd (mark_objects_deleted ks tm s))"
| step_register_pipeline: "store_step s (snd (register_pipeline_definition dg pl s))"
| step_transition_pipeline: "store_step s (snd (transition_pipeline_definition pid v st s))"
| step_register_model: "store_step s (snd (register_model_package m s))"
| step_create_dataset: "store_step s (snd (create_dataset ds s))"
| step_save_dataset: "store_step s (snd (save_dataset ds s))"
| step_create_dataset_version: "store_step s (snd (create_dataset_version dv s))"
| step_save_dataset_version: "store_step s (snd (save_dataset_version dv s))"
| step_create_saved_search: "store_step s (snd (create_saved_search ss s))"
| step_save_saved_search: "store_step s (snd (save_saved_search ss s))"
| step_delete_saved_search: "store_step s (snd (delete_saved_search t p i s))"
| step_create_subscription: "store_step s (snd (create_webhook_subscription w s))"
| step_delete_subscription: "store_step s (snd (delete_webhook_subscription t p i s))"
| step_claim_deliveries: "store_step s (snd (claim_webhook_deliveries b l n s))"
| step_save_delivery: "store_step s (snd (save_webhook_delivery d s))"
| step_enqueue_event: "store_step s (enqueue_webhook_event uu t p eid ety body tm s)"
| step_create_run: "store_step s (snd (create_run_idempotent run ik h s))"
| step_save_run: "store_step s (snd (save_run run n s))"
| step_delete_run: "store_step s (snd (delete_run t p i s))"
| step_append_event: "store_step s (snd (append_event uu t p ev s))"
| step_save_result: "store_step s (snd (save_result_reference t p res s))"
| step_append_audit: "store_step s (snd (append_audit au s))"
| step_external_audit: "store_step s (snd (append_external_event_audit au h s))"
| step_delete_audits: "store_step s (snd (delete_audit_events_before t p tm s))"

inductive_simps store_step_iff: "store_step s s'"

lemma store_step_inv: "store_step s s' \<Longrightarrow> store_inv s \<Longrightarrow> store_inv s'"
  by (induction rule: store_step.induct) (auto intro: store_inv_intros)

inductive store_reachable :: "mem \<Rightarrow> bool" where
  reach_init: "store_reachable memory_state_init"
| reach_step: "store_reachable s \<Longrightarrow> store_step s s' \<Longrightarrow> store_reachable s'"

lemma store_reachable_inv: "store_reachable s \<Longrightarrow> store_inv s"
  by (induction rule: store_reachable.induct) (auto intro: store_inv_init store_step_inv)

section \<open>What one tenant can see\<close>

text \<open>The rows of a tenant and project, over all tables that are filed by tenant and project.\<close>

definition tenant_media where
  "tenant_media t p s = (scoped_rows t p (mem_assets s), scoped_rows t p (mem_sources s),
     scoped_rows t p (mem_object_retention s))"

definition tenant_catalog where
  "tenant_catalog t p s = (scoped_rows t p (mem_datasets s), scoped_rows t p (mem_dataset_versions s),
     scoped_rows t p (mem_saved_searches s))"

definition tenant_runs where
  "tenant_runs t p s = (scoped_rows t p (mem_runs s), scoped_rows t p (mem_events s),
     scoped_rows t p (mem_results s), scoped_rows t p (mem_idempotency s))"

definition tenant_webhooks where
  "tenant_webhooks t p s = (scoped_rows t p (mem_webhook_subscriptions s),
     scoped_rows t p (mem_webhook_deliveries s))"

definition tenant_audits where
  "tenant_audits t p s = filter (\<lambda>e. aud_tenant_id e = t \<and> aud_project_id e = p) (mem_audits s)"

definition tenant_view where
  "tenant_view t p s = (tenant_media t p s, tenant_catalog t p s, tenant_runs t p s,
     tenant_webhooks t p s, tenant_audits t p s)"

lemmas tenant_view_defs = tenant_view_def tenant_media_def tenant_catalog_def tenant_runs_def
  tenant_webhooks_def tenant_audits_def

text \<open>The steps that act in the name of one tenant and project.\<close>

inductive tenant_step :: "string \<Rightarrow> string \<Rightarrow> mem \<Rightarrow> mem \<Rightarrow> bool" where
  "asset_tenant_id a = T \<Longrightarrow> asset_project_id a = P \<Longrightarrow> tenant_step T P s (snd (create_asset a s))"
| "tenant_step T P s (snd (delete_asset T P i s))"
| "source_tenant_id a = T \<Longrightarrow> source_project_id a = P \<Longrightarrow> tenant_step T P s (snd (create_source a s))"
| "tenant_step T P s (snd (delete_source T P i s))"
| "ret_tenant_id r = T \<Longrightarrow> ret_project_id r = P \<Longrightarrow> tenant_step T P s (snd (track_object r s))"
| "tenant_step T P s (snd (protect_object_for_alert T P ok al e s))"
| "ds_tenant_id d = T \<Longrightarrow> ds_project_id d = P \<Longrightarrow> tenant_step T P s (snd (create_dataset d s))"
| "ds_tenant_id d = T \<Longrightarrow> ds_project_id d = P \<Longrightarrow> tenant_step T P s (snd (save_dataset d s))"
| "dv_tenant_id v = T \<Longrightarrow> dv_project_id v = P \<Longrightarrow> tenant_step T P s (snd (create_dataset_version v s))"
| "dv_tenant_id v = T \<Longrightarrow> dv_project_id v = P \<Longrightarrow> tenant_step T P s (snd (save_dataset_version v s))"
| "ss_tenant_id q = T \<Longrightarrow> ss_project_id q = P \<Longrightarrow> tenant_step T P s (snd (create_saved_search q s))"
| "ss_tenant_id q = T \<Longrightarrow> ss_project_id q = P \<Longrightarrow> tenant_step T P s (snd (save_saved_search q s))"
| "tenant_step T P s (snd (delete_saved_search T P i s))"
| "wh_tenant_id w = T \<Longrightarrow> wh_project_id w = P \<Longrightarrow>
     tenant_step T P s (snd (create_webhook_subscription w s))"
| "whd_tenant_id dl = T \<Longrightarrow> whd_project_id dl = P \<Longrightarrow> tenant_step T P s (snd (save_webhook_delivery dl s))"
| "tenant_step T P s (enqueue_webhook_event uu T P eid ety body tm s)"
| "run_tenant_id run = T \<Longrightarrow> run_project_id run = P \<Longrightarrow>
     tenant_step T P s (snd (create_run_idempotent run ik h s))"
| "run_tenant_id run = T \<Longrightarrow> run_project_id run = P \<Longrightarrow> tenant_step T P s (snd (save_run run n s))"
| "tenant_step T P s (snd (delete_run T P i s))"
| "tenant_step T P s (snd (append_event uu T P ev s))"
| "tenant_step T P s (snd (save_result_reference T P res s))"
| "aud_tenant_id au = T \<Longrightarrow> aud_project_id au = P \<Longrightarrow> tenant_step T P s (snd (append_audit au s))"
| "aud_tenant_id au = T \<Longrightarrow> aud_project_id au = P \<Longrightarrow>
     tenant_step T P s (snd (append_external_event_audit au h s))"
| "tenant_step T P s (snd (delete_audit_events_before T P tm s))"

lemma scoped_rows_fold_other:
  "\<not> (T = t \<and> P = p) \<Longrightarrow>
   scoped_rows t p (fold (\<lambda>d. dict_set (store_key T P (f d)) d) ds d0) = scoped_rows t p d0"
  by (induction ds arbitrary: d0) (simp_all add: scoped_rows_set_other)

lemma scoped_rows_drop_idempotency:
  "\<not> (T = t \<and> P = p) \<Longrightarrow> scoped_rows t p (filter (\<lambda>(k, (_, r)). in_scope T P k \<longrightarrow> r \<noteq> i) d) =
     scoped_rows t p d"
  unfolding scoped_rows_def by (induction d) (auto simp: in_scope_def)

lemma tenant_view_enqueue:
  "\<not> (T = t \<and> P = p) \<Longrightarrow>
   tenant_view t p (enqueue_webhook_event uu T P eid ety body tm s) = tenant_view t p s"
  by (simp add: enqueue_webhook_event_def Let_def tenant_view_defs scoped_rows_fold_other)

lemma tenant_view_append_event:
  assumes "\<not> (T = t \<and> P = p)"
  shows "tenant_view t p (snd (append_event uu T P ev s)) = tenant_view t p s"
proof -
  have "tenant_view t p (s\<lparr>mem_events := dict_set (store_key T P i) x (mem_events s)\<rparr>) =
      tenant_view t p s" for i x
    using assms by (simp add: tenant_view_defs scoped_rows_set_other)
  then show ?thesis
    by (simp add: append_event_def Let_def tenant_view_enqueue [OF assms] split: option.split)
qed

lemma filter_not_other:
  "(\<And>x. P x \<Longrightarrow> Q x) \<Longrightarrow> filter P (filter Q xs) = filter P xs"
  by (induction xs) auto

lemma tenant_view_delete_audits:
  assumes "\<not> (T = t \<and> P = p)"
  shows "tenant_view t p (snd (delete_audit_events_before T P tm s)) = tenant_view t p s"
proof -
  have "filter (\<lambda>e. aud_tenant_id e = t \<and> aud_project_id e = p)
      (filter (\<lambda>e. \<not> (aud_tenant_id e = T \<and> aud_project_id e = P \<and> aud_created_at e < tm)) (mem_audits s)) =
      filter (\<lambda>e. aud_tenant_id e = t \<and> aud_project_id e = p) (mem_audits s)"
    using assms by (intro filter_not_other) auto
  then show ?thesis
    by (simp add: delete_audit_events_before_def Let_def tenant_view_defs del: filter_filter)
qed

lemmas tenant_key_defs = asset_key_def source_key_def retention_key_def dataset_key_def
  dataset_version_key_def saved_search_key_def subscription_key_def delivery_key_def run_key_def

lemmas tenant_op_defs = create_asset_def delete_asset_def create_source_def delete_source_def
  track_object_def protect_object_for_alert_def create_dataset_def save_dataset_def
  create_dataset_version_def save_dataset_version_def create_saved_search_def
  save_saved_search_def delete_saved_search_def create_webhook_subscription_def
  save_webhook_delivery_def create_run_idempotent_def save_run_def delete_run_def
  save_result_reference_def append_audit_def append_external_event_audit_def Let_def

lemma tenant_step_frame:
  assumes "tenant_step T P s s'" and "T \<noteq> t \<or> P \<noteq> p"
  shows "tenant_view t p s' = tenant_view t p s"
proof -
  have other: "\<not> (T = t \<and> P = p)" using assms(2) by blast
  note set = scoped_rows_set_other [where t = t and p = p]
    scoped_rows_pop_other [where t = t and p = p]
  from assms(1) other show ?thesis
    by (induction rule: tenant_step.induct)
       (simp_all add: tenant_view_enqueue tenant_view_append_event tenant_view_delete_audits,
        simp_all add: tenant_op_defs tenant_view_defs tenant_key_defs set
          scoped_rows_drop_idempotency split: option.split prod.split)
qed

section \<open>Properties\<close>

text \<open>
  C1: in every state the store can reach by its operations, in any order and interleaving,
  every row is filed under the key its own fields name, saved search names are unique per
  project, runs and event logs exist together, the events of each run are numbered 1, 2, 3,
  and so on, and every idempotency entry names a run that exists.
\<close>

theorem reachable_store_inv: "store_reachable s \<Longrightarrow> store_inv s"
  by (rule store_reachable_inv)

theorem reachable_store_inv_witness:
  "store_inv (snd (create_run_idempotent (sample_run ''r1'' QUEUED) ''k'' ''h'' memory_state_init))"
  by (rule reachable_store_inv) (rule reach_step [OF reach_init step_create_run])



text \<open>
  C3: creating a run is idempotent. After a first creation under a key, a second request with
  the same key and the same hash, whatever run it proposes, returns the run created first and
  changes nothing; the same key with another hash is refused and changes nothing.
\<close>

theorem create_run_idempotent_once:
  assumes "create_run_idempotent run key h s = (Inr (stored, True), s')"
    and scope: "run_tenant_id run2 = run_tenant_id run" "run_project_id run2 = run_project_id run"
  shows "create_run_idempotent run2 key h s' = (Inr (stored, False), s') \<and> stored = run \<and>
    (h2 \<noteq> h \<longrightarrow> create_run_idempotent run2 key h2 s' =
      (Inl (StateConflict ''idempotency key was already used for a different request''), s'))"
  using assms unfolding create_run_idempotent_def Let_def
  by (auto simp: run_key_def split: option.splits if_splits prod.splits)

theorem create_run_idempotent_once_witness:
  "\<exists>s'. create_run_idempotent (sample_run ''r2'' QUEUED) ''k'' ''h'' s' =
      (Inr (sample_run ''r1'' QUEUED, False), s') \<and>
    create_run_idempotent (sample_run ''r2'' QUEUED) ''k'' ''h2'' s' =
      (Inl (StateConflict ''idempotency key was already used for a different request''), s')"
proof -
  let ?s = "snd (create_run_idempotent (sample_run ''r1'' QUEUED) ''k'' ''h'' memory_state_init)"
  have c: "create_run_idempotent (sample_run ''r1'' QUEUED) ''k'' ''h'' memory_state_init =
      (Inr (sample_run ''r1'' QUEUED, True), ?s)"
    by (simp add: create_run_idempotent_def Let_def memory_state_init_def)
  show ?thesis
    using create_run_idempotent_once [OF c, of "sample_run ''r2'' QUEUED" "''h2''"]
    by (intro exI [of _ ?s]) (simp add: sample_run_def)
qed

text \<open>
  In a reachable store the lookup of the run behind an idempotency key cannot fail:
  creating a run never raises \<open>KeyError\<close>.
\<close>

lemma create_run_no_key_error:
  assumes "store_reachable s"
  shows "fst (create_run_idempotent run key h s) \<noteq> Inl KeyError"
proof -
  have "run_inv s" using store_reachable_inv [OF assms] by (simp add: store_inv_def)
  then have live: "dict_get (mem_runs s)
      (store_key (run_tenant_id run) (run_project_id run) r) \<noteq> None"
    if "dict_get (mem_idempotency s)
      (store_key (run_tenant_id run) (run_project_id run) key) = Some (g, r)" for g r
    using that unfolding run_inv_def by blast
  show ?thesis
    unfolding create_run_idempotent_def Let_def
    using live by (auto split: option.split)
qed

text \<open>
  Reading the events of a run after a given event number returns exactly the later events,
  in order: nothing is skipped and nothing repeated when a client resumes its stream.
\<close>

lemma events_after_resumes:
  assumes "store_reachable s"
    and "dict_get (mem_events s) (store_key t p r) = Some rows"
  shows "events_after t p r (int n) s = drop n rows"
proof -
  have "numbered rows"
    using store_reachable_inv [OF assms(1)] assms(2) unfolding store_inv_def run_inv_def by blast
  then have "filter (\<lambda>e. int n < ev_event_id e) rows = drop n rows"
  proof (induction rows rule: rev_induct)
    case (snoc e rows)
    then have "numbered rows" and "ev_event_id e = int (length rows) + 1"
      by (simp_all add: numbered_def)
    with snoc.IH show ?case by auto
  qed simp
  with assms(2) show ?thesis by (simp add: events_after_def)
qed



text \<open>
  An event received from outside is audited once. Repeating it with the same content adds
  nothing and reports so; reusing its identifier with other content is refused.
\<close>

lemma external_event_audited_once:
  assumes "append_external_event_audit e h s = (Inr True, s')"
  shows "mem_audits s' = mem_audits s @ [e] \<and>
    append_external_event_audit e h s' = (Inr False, s') \<and>
    (h' \<noteq> h \<longrightarrow> append_external_event_audit e h' s' =
      (Inl (StateConflict ''external event id was reused with different content''), s'))"
  using assms unfolding append_external_event_audit_def Let_def
  by (auto split: option.splits if_splits)

text \<open>
  Listing runs page by page loses and repeats nothing: consecutive pages join to the page
  that spans them, the count is the length of the whole list, and that list holds exactly the
  runs of the tenant and project that match the filters, newest first.
\<close>

lemma run_pages_complete:
  "list_runs t p st d 0 (Some (int a)) s @ list_runs t p st d (int a) (Some (int b)) s =
     list_runs t p st d 0 (Some (int (a + b))) s \<and>
   count_runs t p st d s = int (length (list_runs t p st d 0 None s)) \<and>
   mset (list_runs t p st d 0 None s) = mset (map snd (filter (run_matches t p st d) (mem_runs s))) \<and>
   sorted_wrt (\<lambda>x y. (run_created_at y, run_run_id y) \<le> (run_created_at x, run_run_id x))
     (list_runs t p st d 0 None s)"
  using sorted_py_sorted_desc [of "\<lambda>r. (run_created_at r, run_run_id r)"]
  by (simp add: run_pages.pages_concat run_pages.total_is_page_length run_pages.full_page
      run_ordering_def)

end
