(* ===== verification/Pipeline_Validation.thy ===== *)
theory Pipeline_Validation
  imports Sample_Data
begin

text \<open>
  \<open>PipelineRegistry._validate\<close>: the checks a pipeline definition passes before it is
  registered, and the execution order they compute. The definitions follow the method from top
  to bottom: the two regular expressions, the scan over the nodes that collects dependencies,
  children and available output types, the queue that sorts the nodes topologically, and the
  type check of every input. The lemmas show what an accepted order guarantees.
\<close>

section \<open>Identifiers\<close>

definition in_range :: "char \<Rightarrow> char \<Rightarrow> char \<Rightarrow> bool" where
  "in_range a b c \<longleftrightarrow> a \<le> c \<and> c \<le> b"

definition is_lower :: "char \<Rightarrow> bool" where
  "is_lower c \<longleftrightarrow> in_range (CHR ''a'') (CHR ''z'') c"

definition is_digit :: "char \<Rightarrow> bool" where
  "is_digit c \<longleftrightarrow> in_range (CHR ''0'') (CHR ''9'') c"

text \<open>\<open>[a-z][a-z0-9_.-]{1,127}\<close>\<close>

definition valid_pipeline_id :: "string \<Rightarrow> bool" where
  "valid_pipeline_id s = (case s of [] \<Rightarrow> False | c # cs \<Rightarrow>
     is_lower c \<and> 1 \<le> length cs \<and> length cs \<le> 127 \<and>
     list_all (\<lambda>x. is_lower x \<or> is_digit x \<or> x \<in> {CHR ''_'', CHR ''.'', CHR ''-''}) cs)"

text \<open>\<open>\d+\.\d+\.\d+(?:-[a-z0-9.-]+)?\<close>: the numbers hold no dash, so the first dash, if there is
  one, opens the suffix.\<close>

definition valid_version :: "string \<Rightarrow> bool" where
  "valid_version s = (let core = takeWhile (\<lambda>c. c \<noteq> CHR ''-'') s;
       suffix = dropWhile (\<lambda>c. c \<noteq> CHR ''-'') s;
       parts = py_split (CHR ''.'') core in
     length parts = 3 \<and> list_all (\<lambda>part. part \<noteq> [] \<and> list_all is_digit part) parts \<and>
     (case suffix of [] \<Rightarrow> True | _ # cs \<Rightarrow> cs \<noteq> [] \<and>
        list_all (\<lambda>x. is_lower x \<or> is_digit x \<or> x \<in> {CHR ''.'', CHR ''-''}) cs))"

section \<open>Collecting dependencies and types\<close>

text \<open>\<open>defaultdict(set)\<close>: a missing key reads as the empty set.\<close>

type_synonym node_sets = "(string, string set) dict"

definition ddict_get :: "node_sets \<Rightarrow> string \<Rightarrow> string set" where
  "ddict_get d k = (case dict_get d k of None \<Rightarrow> {} | Some xs \<Rightarrow> xs)"

definition ddict_add :: "string \<Rightarrow> string \<Rightarrow> node_sets \<Rightarrow> node_sets" where
  "ddict_add k x d = dict_set k (insert x (ddict_get d k)) d"

definition ddict_discard :: "string \<Rightarrow> string \<Rightarrow> node_sets \<Rightarrow> node_sets" where
  "ddict_discard k x d = dict_set k (ddict_get d k - {x}) d"

lemma ddict_get_Nil [simp]: "ddict_get [] k = {}"
  by (simp add: ddict_get_def)

lemma ddict_get_add [simp]:
  "ddict_get (ddict_add k x d) = (ddict_get d)(k := insert x (ddict_get d k))"
  by (simp add: fun_eq_iff ddict_get_def ddict_add_def)

lemma ddict_get_discard [simp]:
  "ddict_get (ddict_discard k x d) = (ddict_get d)(k := ddict_get d k - {x})"
  by (simp add: fun_eq_iff ddict_get_def ddict_discard_def)

type_synonym operator_table = "(string, operator_definition) dict"
type_synonym scan_state = "node_sets \<times> node_sets \<times> (string, string) dict"

definition media_prefix :: string where
  "media_prefix = ''$media.''"

definition output_ref :: "string \<Rightarrow> string \<Rightarrow> string" where
  "output_ref node_id name = node_id @ ''.'' @ name"

fun scan_inputs :: "string set \<Rightarrow> string \<Rightarrow> string list \<Rightarrow> node_sets \<times> node_sets \<Rightarrow>
    exn + (node_sets \<times> node_sets)" where
  "scan_inputs nodes node_id [] st = Inr st"
| "scan_inputs nodes node_id (source # rest) (dependencies, children) =
     (if py_startswith media_prefix source
      then scan_inputs nodes node_id rest (dependencies, children)
      else
        let source_node = py_split_head (CHR ''.'') source in
        if source_node \<notin> nodes
        then Inl (PipelineError (''unknown input source: '' @ source))
        else scan_inputs nodes node_id rest
          (ddict_add node_id source_node dependencies, ddict_add source_node node_id children))"

definition add_types :: "string \<Rightarrow> (string, string) dict \<Rightarrow> (string, string) dict \<Rightarrow> (string, string) dict" where
  "add_types node_id output_types available =
     fold (\<lambda>(name, ty). dict_set (output_ref node_id name) ty) output_types available"

fun scan_nodes :: "operator_table \<Rightarrow> string \<Rightarrow> string set \<Rightarrow> pipeline_node list \<Rightarrow> scan_state \<Rightarrow>
    exn + scan_state" where
  "scan_nodes operators domain nodes [] st = Inr st"
| "scan_nodes operators domain nodes (node # rest) (dependencies, children, available) =
     (case dict_get operators (node_operator_id node) of
        None \<Rightarrow> Inl (PipelineError (''unknown operator: '' @ node_operator_id node))
      | Some definition \<Rightarrow>
          if op_domain definition \<notin> {None, Some domain}
          then Inl (PipelineError (''operator domain mismatch: '' @ node_operator_id node))
          else
            case scan_inputs nodes (node_node_id node) (map snd (node_inputs node))
                (dependencies, children) of
              Inl e \<Rightarrow> Inl e
            | Inr (dependencies', children') \<Rightarrow>
                scan_nodes operators domain nodes rest (dependencies', children',
                  add_types (node_node_id node) (op_output_types definition) available))"

definition media_types :: "(string, string) dict" where
  "media_types = [(''$media.bytes'', ''bytes''), (''$media.input'', ''media/input'')]"

section \<open>Topological order\<close>

text \<open>
  The body of the \<open>while queue\<close> loop. Its inner loop visits the children of the current node in
  sorted order. The loop is given fuel; one step per node and one for the empty queue suffice
  (\<open>kahn_total\<close> below).
\<close>

definition relax :: "string \<Rightarrow> string \<Rightarrow> node_sets \<times> string list \<Rightarrow> node_sets \<times> string list" where
  "relax current child st = (let dependencies = ddict_discard child current (fst st) in
     (dependencies, if ddict_get dependencies child = {} then snd st @ [child] else snd st))"

fun kahn :: "nat \<Rightarrow> node_sets \<Rightarrow> node_sets \<Rightarrow> string list \<Rightarrow> string list \<Rightarrow> string list option" where
  "kahn 0 children dependencies queue order = None"
| "kahn (Suc fuel) children dependencies queue order =
     (case queue of
        [] \<Rightarrow> Some order
      | current # rest \<Rightarrow>
          let (dependencies', queue') =
            fold (relax current) (sorted_list_of_set (ddict_get children current)) (dependencies, rest)
          in kahn fuel children dependencies' queue' (order @ [current]))"

section \<open>Input types\<close>

fun check_inputs :: "string \<Rightarrow> (string, string) dict \<Rightarrow> (string, string) dict \<Rightarrow>
    (string \<times> string) list \<Rightarrow> exn + unit" where
  "check_inputs node_id available input_types [] = Inr ()"
| "check_inputs node_id available input_types ((input_name, source) # rest) =
     (case dict_get input_types input_name of
        None \<Rightarrow> Inl KeyError
      | Some expected \<Rightarrow>
          if dict_get available source \<noteq> Some expected
          then Inl (PipelineError (''type mismatch for '' @ node_id @ ''.'' @ input_name @ '': expected '' @
                 expected @ '', received '' @
                 (case dict_get available source of Some ty \<Rightarrow> if ty = [] then ''unknown'' else ty
                  | None \<Rightarrow> ''unknown'')))
          else check_inputs node_id available input_types rest)"

fun check_nodes :: "operator_table \<Rightarrow> (string, string) dict \<Rightarrow> pipeline_node list \<Rightarrow> exn + unit" where
  "check_nodes operators available [] = Inr ()"
| "check_nodes operators available (node # rest) =
     (case dict_get operators (node_operator_id node) of
        None \<Rightarrow> Inl KeyError
      | Some definition \<Rightarrow>
          if fst ` set (node_inputs node) \<noteq> fst ` set (op_input_types definition)
          then Inl (PipelineError (''operator inputs do not match contract: '' @ node_operator_id node))
          else
            case check_inputs (node_node_id node) available (op_input_types definition)
                (node_inputs node) of
              Inl e \<Rightarrow> Inl e
            | Inr _ \<Rightarrow> check_nodes operators available rest)"

section \<open>The whole validation\<close>

definition validate :: "operator_table \<Rightarrow> pipeline_definition \<Rightarrow> exn + string list" where
  "validate operators pipeline =
     (let ids = map node_node_id (pd_nodes pipeline) in
      if \<not> valid_pipeline_id (pd_pipeline_id pipeline)
      then Inl (PipelineError ''invalid pipeline_id'')
      else if \<not> valid_version (pd_version pipeline)
      then Inl (PipelineError ''pipeline version must be semantic'')
      else if pd_nodes pipeline = [] \<or> 64 < length (pd_nodes pipeline)
      then Inl (PipelineError ''pipeline must contain 1-64 nodes'')
      else if \<not> distinct ids
      then Inl (PipelineError ''pipeline node_id values must be unique'')
      else
        case scan_nodes operators (pd_domain pipeline) (set ids) (pd_nodes pipeline) ([], [], media_types) of
          Inl e \<Rightarrow> Inl e
        | Inr (dependencies, children, available) \<Rightarrow>
            if \<exists>items \<in> set (map snd children). 16 < card items
            then Inl (PipelineError ''pipeline fan-out exceeds 16'')
            else
              case kahn (Suc (length ids)) children dependencies
                  (py_sorted (\<lambda>x. x) (filter (\<lambda>i. ddict_get dependencies i = {}) ids)) [] of
                None \<Rightarrow> Inl TimeoutError
              | Some order \<Rightarrow>
                  if length order \<noteq> length ids
                  then Inl (PipelineError ''pipeline contains a cycle'')
                  else
                    case check_nodes operators available (pd_nodes pipeline) of
                      Inl e \<Rightarrow> Inl e
                    | Inr _ \<Rightarrow>
                        if dict_get available (pd_output pipeline) = None
                        then Inl (PipelineError ''pipeline output reference is invalid'')
                        else Inr order)"

section \<open>What the scan collects\<close>

definition source_nodes :: "string list \<Rightarrow> string set" where
  "source_nodes sources =
     py_split_head (CHR ''.'') ` {src \<in> set sources. \<not> py_startswith media_prefix src}"

definition node_deps :: "pipeline_node \<Rightarrow> string set" where
  "node_deps node = source_nodes (map snd (node_inputs node))"

definition deps_in :: "pipeline_node list \<Rightarrow> string \<Rightarrow> string set" where
  "deps_in nodes i = (\<Union>node \<in> {node \<in> set nodes. node_node_id node = i}. node_deps node)"

lemma source_nodes_simps [simp]:
  "source_nodes [] = {}"
  "source_nodes (src # rest) = (if py_startswith media_prefix src then source_nodes rest
     else insert (py_split_head (CHR ''.'') src) (source_nodes rest))"
  by (auto simp: source_nodes_def)

lemma scan_inputs_collects:
  "scan_inputs nodes i srcs (d, c) = Inr (d', c') \<Longrightarrow>
   source_nodes srcs \<subseteq> nodes \<and>
   (\<forall>k. ddict_get d' k = (if k = i then ddict_get d i \<union> source_nodes srcs else ddict_get d k)) \<and>
   (\<forall>m. ddict_get c' m = ddict_get c m \<union> (if m \<in> source_nodes srcs then {i} else {}))"
proof (induction srcs arbitrary: d c)
  case (Cons src srcs)
  show ?case
  proof (cases "py_startswith media_prefix src")
    case True
    with Cons show ?thesis by simp
  next
    case False
    let ?n = "py_split_head (CHR ''.'') src"
    from False Cons.prems have n: "?n \<in> nodes"
        and rest: "scan_inputs nodes i srcs (ddict_add i ?n d, ddict_add ?n i c) = Inr (d', c')"
      by (simp_all add: Let_def split: if_splits)
    from Cons.IH [OF rest] n False show ?thesis by auto
  qed
qed simp

lemma deps_in_Cons [simp]:
  "deps_in (node # rest) i = (if node_node_id node = i then node_deps node else {}) \<union> deps_in rest i"
  by (auto simp: deps_in_def)

lemma deps_in_Nil [simp]: "deps_in [] i = {}"
  by (simp add: deps_in_def)

lemma deps_in_mem:
  "distinct (map node_node_id nodes) \<Longrightarrow> node \<in> set nodes \<Longrightarrow>
   deps_in nodes (node_node_id node) = node_deps node"
  unfolding deps_in_def by (auto simp: distinct_map dest: inj_onD)

lemma dict_get_add_types:
  "dict_get (add_types i tys a) s \<noteq> None \<longleftrightarrow>
     dict_get a s \<noteq> None \<or> (\<exists>out \<in> fst ` set tys. s = output_ref i out)"
  unfolding add_types_def by (induction tys arbitrary: a) (auto split: if_splits)

text \<open>The names that carry a type once the nodes are scanned.\<close>

definition produced_by :: "operator_table \<Rightarrow> pipeline_node \<Rightarrow> string set" where
  "produced_by operators node = (case dict_get operators (node_operator_id node) of
     None \<Rightarrow> {} | Some definition \<Rightarrow>
       output_ref (node_node_id node) ` fst ` set (op_output_types definition))"

lemma scan_nodes_ConsE:
  assumes "scan_nodes operators domain nodes (x # ns) (d, c, a) = Inr res"
  obtains def d1 c1 where "dict_get operators (node_operator_id x) = Some def"
    and "scan_inputs nodes (node_node_id x) (map snd (node_inputs x)) (d, c) = Inr (d1, c1)"
    and "scan_nodes operators domain nodes ns
      (d1, c1, add_types (node_node_id x) (op_output_types def) a) = Inr res"
  using assms by (auto split: option.splits if_splits sum.splits)

lemma scan_nodes_collects:
  assumes "scan_nodes operators domain nodes ns (d, c, a) = Inr (d', c', a')"
  shows "(\<forall>i. ddict_get d' i = ddict_get d i \<union> deps_in ns i) \<and>
    (\<forall>m. ddict_get c' m = ddict_get c m \<union> {node_node_id x | x. x \<in> set ns \<and> m \<in> node_deps x}) \<and>
    (\<forall>x \<in> set ns. node_deps x \<subseteq> nodes \<and> dict_get operators (node_operator_id x) \<noteq> None) \<and>
    (\<forall>s. dict_get a' s \<noteq> None \<longleftrightarrow> dict_get a s \<noteq> None \<or> (\<exists>x \<in> set ns. s \<in> produced_by operators x))"
  using assms
proof (induction ns arbitrary: d c a)
  case (Cons x ns)
  from Cons.prems obtain def d1 c1 where def: "dict_get operators (node_operator_id x) = Some def"
      and ins: "scan_inputs nodes (node_node_id x) (map snd (node_inputs x)) (d, c) = Inr (d1, c1)"
      and rest: "scan_nodes operators domain nodes ns
        (d1, c1, add_types (node_node_id x) (op_output_types def) a) = Inr (d', c', a')"
    by (rule scan_nodes_ConsE)
  note ins = scan_inputs_collects [OF ins, folded node_deps_def]
  note IH = Cons.IH [OF rest]
  have "\<forall>i. ddict_get d' i = ddict_get d i \<union> deps_in (x # ns) i"
    using IH ins by auto
  moreover have "\<forall>m. ddict_get c' m =
      ddict_get c m \<union> {node_node_id y | y. y \<in> set (x # ns) \<and> m \<in> node_deps y}"
    using IH ins by auto
  moreover have "\<forall>y \<in> set (x # ns). node_deps y \<subseteq> nodes \<and> dict_get operators (node_operator_id y) \<noteq> None"
    using IH ins def by simp
  moreover have "\<forall>s. dict_get a' s \<noteq> None \<longleftrightarrow>
      dict_get a s \<noteq> None \<or> (\<exists>y \<in> set (x # ns). s \<in> produced_by operators y)"
  proof
    fix s
    have "produced_by operators x = output_ref (node_node_id x) ` fst ` set (op_output_types def)"
      using def by (simp add: produced_by_def)
    then have "s \<in> produced_by operators x \<longleftrightarrow>
        (\<exists>out \<in> fst ` set (op_output_types def). s = output_ref (node_node_id x) out)" by blast
    moreover have "dict_get a' s \<noteq> None \<longleftrightarrow> (dict_get a s \<noteq> None \<or>
        (\<exists>out \<in> fst ` set (op_output_types def). s = output_ref (node_node_id x) out)) \<or>
        (\<exists>y \<in> set ns. s \<in> produced_by operators y)"
      using IH unfolding dict_get_add_types by blast
    ultimately show "dict_get a' s \<noteq> None \<longleftrightarrow>
        dict_get a s \<noteq> None \<or> (\<exists>y \<in> set (x # ns). s \<in> produced_by operators y)" by auto
  qed
  ultimately show ?case by blast
qed simp

section \<open>The queue computes a topological order\<close>

lemma relax_children:
  "distinct cs \<Longrightarrow> fold (relax current) cs (d, queue) = (d', queue') \<Longrightarrow>
   (\<forall>i. ddict_get d' i = (if i \<in> set cs then ddict_get d i - {current} else ddict_get d i)) \<and>
   queue' = queue @ filter (\<lambda>i. ddict_get d i - {current} = {}) cs"
proof (induction cs arbitrary: d queue)
  case (Cons child cs)
  let ?d = "ddict_discard child current d"
  let ?q = "if ddict_get d child - {current} = {} then queue @ [child] else queue"
  have "relax current child (d, queue) = (?d, ?q)"
    by (simp add: relax_def Let_def)
  with Cons.prems have dist: "distinct cs" and rest: "fold (relax current) cs (?d, ?q) = (d', queue')"
    by (simp_all del: fun_upd_apply)
  have "filter (\<lambda>i. ddict_get ?d i - {current} = {}) cs = filter (\<lambda>i. ddict_get d i - {current} = {}) cs"
    using Cons.prems(1) by (intro filter_cong) auto
  with Cons.IH [OF dist rest] Cons.prems(1) show ?case by auto
qed simp

text \<open>
  \<open>needs\<close> is the dependency function the scan collected, \<open>ids\<close> the nodes. Nodes in the order or
  in the queue are exactly those whose dependencies are all in the order.
\<close>

definition topological :: "(string \<Rightarrow> string set) \<Rightarrow> string list \<Rightarrow> bool" where
  "topological needs order \<longleftrightarrow> (\<forall>xs i ys. order = xs @ i # ys \<longrightarrow> needs i \<subseteq> set xs)"

definition kahn_inv ::
  "string set \<Rightarrow> (string \<Rightarrow> string set) \<Rightarrow> node_sets \<Rightarrow> string list \<Rightarrow> string list \<Rightarrow> bool" where
  "kahn_inv ids needs d queue order \<longleftrightarrow> distinct (order @ queue) \<and> set (order @ queue) \<subseteq> ids \<and>
     (\<forall>i \<in> ids. ddict_get d i = needs i - set order) \<and>
     (\<forall>i \<in> ids. i \<in> set (order @ queue) \<longleftrightarrow> needs i \<subseteq> set order) \<and> topological needs order"

lemma topological_snoc:
  "topological needs order \<Longrightarrow> needs i \<subseteq> set order \<Longrightarrow> topological needs (order @ [i])"
  unfolding topological_def
  by (auto simp: append_eq_append_conv2 append_eq_Cons_conv Cons_eq_append_conv)

lemma kahn_step:
  assumes inv: "kahn_inv ids needs d (current # rest) order"
    and children: "\<And>i. i \<in> ids \<Longrightarrow> i \<in> ddict_get c current \<longleftrightarrow> current \<in> needs i"
    and sub: "ddict_get c current \<subseteq> ids" and fin: "finite ids"
    and step: "fold (relax current) (sorted_list_of_set (ddict_get c current)) (d, rest) = (d', queue')"
  shows "kahn_inv ids needs d' queue' (order @ [current])"
proof -
  let ?cs = "sorted_list_of_set (ddict_get c current)"
  let ?new = "filter (\<lambda>i. ddict_get d i - {current} = {}) ?cs"
  have set_cs: "set ?cs = ddict_get c current"
    using sub fin finite_subset by fastforce
  from relax_children [OF _ step]
  have d': "ddict_get d' i = (if i \<in> ddict_get c current then ddict_get d i - {current} else ddict_get d i)"
    and queue': "queue' = rest @ ?new" for i
    using set_cs by auto
  have cur: "current \<in> ids" "current \<notin> set order" and dist: "distinct (order @ current # rest)"
    using inv by (auto simp: kahn_inv_def)
  have deps: "ddict_get d i = needs i - set order" if "i \<in> ids" for i
    using inv that by (simp add: kahn_inv_def)
  have new: "i \<in> set ?new \<longleftrightarrow> current \<in> needs i \<and> needs i \<subseteq> insert current (set order)" if "i \<in> ids" for i
    using that children [OF that] deps [OF that] by (auto simp: set_cs)
  have fresh: "i \<notin> set order \<union> insert current (set rest)" if "i \<in> set ?new" for i
  proof -
    have "i \<in> ids" using that set_cs sub by auto
    moreover have "current \<in> needs i" using that new [OF \<open>i \<in> ids\<close>] by simp
    ultimately show ?thesis using inv cur(2) unfolding kahn_inv_def by auto
  qed
  have ready: "i \<in> set (order @ current # rest) \<longleftrightarrow> needs i \<subseteq> set order" if "i \<in> ids" for i
    using inv that unfolding kahn_inv_def by blast
  have "distinct ((order @ [current]) @ queue')"
    using dist fresh unfolding queue' by (auto simp del: set_filter)
  moreover have "set ((order @ [current]) @ queue') \<subseteq> ids"
    using inv sub set_cs unfolding queue' kahn_inv_def by auto
  moreover have "\<forall>i \<in> ids. ddict_get d' i = needs i - set (order @ [current])"
    using deps children by (auto simp: d')
  moreover have "\<forall>i \<in> ids. i \<in> set ((order @ [current]) @ queue') \<longleftrightarrow> needs i \<subseteq> set (order @ [current])"
  proof
    fix i assume "i \<in> ids"
    with ready [OF this] new [OF this]
    show "i \<in> set ((order @ [current]) @ queue') \<longleftrightarrow> needs i \<subseteq> set (order @ [current])"
      unfolding queue' by (auto simp del: set_filter)
  qed
  moreover have "topological needs (order @ [current])"
    using inv ready [OF cur(1)] by (intro topological_snoc) (auto simp: kahn_inv_def)
  ultimately show ?thesis by (simp add: kahn_inv_def)
qed

lemma kahn_total:
  assumes "kahn_inv ids needs d queue order" and "finite ids"
    and "\<And>m i. i \<in> ids \<Longrightarrow> m \<in> ids \<Longrightarrow> i \<in> ddict_get c m \<longleftrightarrow> m \<in> needs i"
    and "\<And>m. ddict_get c m \<subseteq> ids"
    and "card ids < length order + fuel"
  shows "\<exists>order' d'. kahn fuel c d queue order = Some order' \<and> kahn_inv ids needs d' [] order'"
  using assms(1,5)
proof (induction fuel arbitrary: d queue order)
  case 0
  then have "distinct (order @ queue)" "set (order @ queue) \<subseteq> ids" by (simp_all add: kahn_inv_def)
  then have "length (order @ queue) \<le> card ids"
    using assms(2) by (metis card_mono distinct_card)
  with 0 show ?case by simp
next
  case (Suc fuel)
  show ?case
  proof (cases queue)
    case Nil with Suc.prems show ?thesis by auto
  next
    case (Cons current rest)
    obtain d' queue' where step:
      "fold (relax current) (sorted_list_of_set (ddict_get c current)) (d, rest) = (d', queue')"
      by fastforce
    have cur: "current \<in> ids" using Suc.prems Cons by (auto simp: kahn_inv_def)
    have "kahn_inv ids needs d' queue' (order @ [current])"
      using kahn_step [OF Suc.prems(1)[unfolded Cons] _ assms(4,2) step] assms(3) cur by blast
    from Suc.IH [OF this] Suc.prems(2) Cons step show ?thesis by simp
  qed
qed

section \<open>What a validated pipeline guarantees\<close>

lemma kahn_of_scan:
  assumes dist: "distinct (map node_node_id nodes)"
    and scan: "scan_nodes operators domain (set (map node_node_id nodes)) nodes ([], [], a) = Inr (d, c, a')"
  shows "\<exists>order d'. kahn (Suc (length nodes)) c d
      (py_sorted (\<lambda>x. x) (filter (\<lambda>i. ddict_get d i = {}) (map node_node_id nodes))) [] = Some order \<and>
    kahn_inv (set (map node_node_id nodes)) (deps_in nodes) d' [] order"
proof (rule kahn_total)
  let ?ids = "map node_node_id nodes"
  let ?queue = "py_sorted (\<lambda>x. x) (filter (\<lambda>i. ddict_get d i = {}) ?ids)"
  note col = scan_nodes_collects [OF scan]
  have d: "ddict_get d i = deps_in nodes i" for i using col by simp
  show "kahn_inv (set ?ids) (deps_in nodes) d ?queue []"
    using dist by (auto simp: kahn_inv_def topological_def d)
  show "finite (set ?ids)" by simp
  show "i \<in> ddict_get c m \<longleftrightarrow> m \<in> deps_in nodes i" if "i \<in> set ?ids" for m i
    using col by (auto simp: deps_in_def)
  show "ddict_get c m \<subseteq> set ?ids" for m using col by auto
  show "card (set ?ids) < length [] + Suc (length nodes)"
    using distinct_card [OF dist] by simp
qed

lemma validate_InrE:
  assumes "validate operators p = Inr order"
  obtains d c a where "distinct (map node_node_id (pd_nodes p))"
    and "scan_nodes operators (pd_domain p) (set (map node_node_id (pd_nodes p))) (pd_nodes p)
      ([], [], media_types) = Inr (d, c, a)"
    and "kahn (Suc (length (pd_nodes p))) c d
      (py_sorted (\<lambda>x. x) (filter (\<lambda>i. ddict_get d i = {}) (map node_node_id (pd_nodes p)))) [] = Some order"
    and "length order = length (pd_nodes p)"
    and "check_nodes operators a (pd_nodes p) = Inr ()"
    and "dict_get a (pd_output p) \<noteq> None"
  using assms unfolding validate_def Let_def
  by (auto split: if_splits sum.splits option.splits)

text \<open>Errors of the other checks carry other messages.\<close>

lemma scan_inputs_error:
  "scan_inputs nodes i srcs st = Inl e \<Longrightarrow> \<exists>src. e = PipelineError (''unknown input source: '' @ src)"
  by (induction nodes i srcs st rule: scan_inputs.induct) (auto simp: Let_def split: if_splits)

lemma scan_nodes_error:
  "scan_nodes operators domain nodes ns st = Inl e \<Longrightarrow>
   \<exists>m. e = PipelineError (''unknown '' @ m) \<or> e = PipelineError (''operator '' @ m)"
  by (induction operators domain nodes ns st rule: scan_nodes.induct)
     (auto split: option.splits if_splits sum.splits dest!: scan_inputs_error)

lemma check_inputs_error:
  "check_inputs i a tys ins = Inl e \<Longrightarrow> fst ` set ins \<subseteq> fst ` set tys \<Longrightarrow>
   \<exists>m. e = PipelineError (''type mismatch for '' @ m)"
proof (induction i a tys ins rule: check_inputs.induct)
  case (2 i a tys name src rest)
  then have "dict_get tys name \<noteq> None" by (auto simp: map_of_eq_None_iff)
  with 2 show ?case by (auto split: option.splits if_splits)
qed simp

lemma check_nodes_error:
  "check_nodes operators a ns = Inl e \<Longrightarrow>
   \<forall>x \<in> set ns. dict_get operators (node_operator_id x) \<noteq> None \<Longrightarrow>
   \<exists>m. e = PipelineError (''type mismatch for '' @ m) \<or> e = PipelineError (''operator '' @ m)"
  by (induction operators a ns rule: check_nodes.induct)
     (auto split: option.splits if_splits sum.splits dest!: check_inputs_error)

lemma validate_cycleE:
  assumes "validate operators p = Inl (PipelineError ''pipeline contains a cycle'')"
  obtains d c a order where "distinct (map node_node_id (pd_nodes p))"
    and "scan_nodes operators (pd_domain p) (set (map node_node_id (pd_nodes p))) (pd_nodes p)
      ([], [], media_types) = Inr (d, c, a)"
    and "kahn (Suc (length (pd_nodes p))) c d
      (py_sorted (\<lambda>x. x) (filter (\<lambda>i. ddict_get d i = {}) (map node_node_id (pd_nodes p)))) [] = Some order"
    and "length order \<noteq> length (pd_nodes p)"
proof -
  have "check_nodes operators a (pd_nodes p) \<noteq> Inl (PipelineError ''pipeline contains a cycle'')"
    if "scan_nodes operators (pd_domain p) (set (map node_node_id (pd_nodes p))) (pd_nodes p)
      ([], [], media_types) = Inr (d, c, a)" for d c a
    using check_nodes_error [of operators a "pd_nodes p"] scan_nodes_collects [OF that] by force
  with assms that show ?thesis
    unfolding validate_def Let_def
    by (auto split: if_splits sum.splits option.splits dest: scan_nodes_error)
qed

lemma topological_acyclic:
  assumes "distinct order" and "topological needs order" and "\<And>i. i \<notin> set order \<Longrightarrow> needs i = {}"
  shows "acyclic {(m, i). m \<in> needs i}"
proof -
  let ?pos = "\<lambda>x. length (takeWhile (\<lambda>y. y \<noteq> x) order)"
  have "?pos m < ?pos i" if m: "m \<in> needs i" for m i
  proof -
    from assms(3) m have "i \<in> set order" by auto
    then obtain xs ys where o: "order = xs @ i # ys" by (meson split_list)
    with assms(2) m have "m \<in> set xs" unfolding topological_def by blast
    then obtain us vs where xs: "xs = us @ m # vs" "m \<notin> set us" by (meson split_list_first)
    from o assms(1) have "i \<notin> set xs" by simp
    then have "?pos i = length xs" using o by (induction xs arbitrary: order) auto
    moreover have "?pos m \<le> length us" using o xs by (induction us arbitrary: order xs) auto
    ultimately show ?thesis using xs by simp
  qed
  then have "{(m, i). m \<in> needs i} \<subseteq> measure ?pos" by auto
  then show ?thesis by (meson acyclic_subset wf_acyclic wf_measure)
qed

lemma stuck_cyclic:
  assumes "finite ids" and "set order \<subset> ids"
    and "\<And>i. i \<in> ids \<Longrightarrow> i \<notin> set order \<Longrightarrow> \<not> needs i \<subseteq> set order"
    and "\<And>i. needs i \<subseteq> ids"
  shows "\<not> acyclic {(m, i). m \<in> needs i}"
proof
  let ?A = "ids - set order"
  let ?R = "{(m, i). m \<in> needs i} \<inter> (?A \<times> ?A)"
  assume "acyclic {(m, i). m \<in> needs i}"
  then have "acyclic ?R" by (rule acyclic_subset) blast
  moreover have "finite ?R" using assms(1) by simp
  ultimately have "wf ?R" by (rule finite_acyclic_wf [rotated])
  moreover obtain i where "i \<in> ?A" using assms(2) by blast
  ultimately obtain z where z: "z \<in> ?A" "\<And>y. (y, z) \<in> ?R \<Longrightarrow> y \<notin> ?A"
    by (rule wfE_min) blast
  then obtain m where "m \<in> needs z" "m \<notin> set order" using assms(3) [of z] by blast
  with z assms(4) show False by blast
qed

lemma deps_in_ids:
  assumes "\<forall>x \<in> set nodes. node_deps x \<subseteq> ids" shows "deps_in nodes i \<subseteq> ids"
  using assms by (auto simp: deps_in_def)

lemma validated_order:
  assumes "validate operators p = Inr order"
  shows "distinct order \<and> set order = node_node_id ` set (pd_nodes p) \<and>
    topological (deps_in (pd_nodes p)) order"
proof -
  let ?ids = "map node_node_id (pd_nodes p)"
  from assms obtain d c a where dist: "distinct ?ids"
      and scan: "scan_nodes operators (pd_domain p) (set ?ids) (pd_nodes p) ([], [], media_types) = Inr (d, c, a)"
      and k: "kahn (Suc (length (pd_nodes p))) c d
        (py_sorted (\<lambda>x. x) (filter (\<lambda>i. ddict_get d i = {}) ?ids)) [] = Some order"
      and len: "length order = length (pd_nodes p)"
    by (rule validate_InrE)
  from kahn_of_scan [OF dist scan] k obtain d' where
    inv: "kahn_inv (set ?ids) (deps_in (pd_nodes p)) d' [] order" by auto
  then have "distinct order" "set order \<subseteq> set ?ids" by (simp_all add: kahn_inv_def)
  moreover have "card (set order) = card (set ?ids)"
    using dist len \<open>distinct order\<close> by (metis distinct_card length_map)
  ultimately have "set order = set ?ids" by (metis card_subset_eq List.finite_set)
  with inv show ?thesis by (simp add: kahn_inv_def)
qed





text \<open>
  Validation always ends and raises nothing but \<open>PipelineError\<close>: the loop over the queue
  never runs out of steps, and no lookup of an operator or of an input type fails.
\<close>

lemma validate_only_pipeline_errors:
  "(\<exists>order. validate operators p = Inr order) \<or> (\<exists>m. validate operators p = Inl (PipelineError m))"
proof -
  let ?ids = "map node_node_id (pd_nodes p)"
  have kahn: "kahn (Suc (length (pd_nodes p))) c d
      (py_sorted (\<lambda>x. x) (filter (\<lambda>i. ddict_get d i = {}) ?ids)) [] \<noteq> None"
    and check: "check_nodes operators a (pd_nodes p) = Inl e \<Longrightarrow> \<exists>m. e = PipelineError m"
    if "distinct ?ids" "scan_nodes operators (pd_domain p) (set ?ids) (pd_nodes p)
      ([], [], media_types) = Inr (d, c, a)" for d c a e
    using kahn_of_scan [OF that] check_nodes_error [of operators a "pd_nodes p" e]
      scan_nodes_collects [OF that(2)] by auto
  show ?thesis
    unfolding validate_def Let_def
    using kahn check by (auto split: if_splits sum.split option.split dest: scan_nodes_error)
qed

section \<open>Inputs are produced before they are read\<close>

text \<open>
  References to outputs are written \<open>node.output\<close>, and the scan takes the text before the first
  dot as the node. This is right when no node identifier holds a dot or is \<open>$media\<close> itself.
\<close>

definition plain_ids :: "pipeline_definition \<Rightarrow> bool" where
  "plain_ids p \<longleftrightarrow> (\<forall>node \<in> set (pd_nodes p).
     CHR ''.'' \<notin> set (node_node_id node) \<and> node_node_id node \<noteq> ''$media'')"

definition input_ready :: "operator_table \<Rightarrow> pipeline_node list \<Rightarrow> string set \<Rightarrow> string \<Rightarrow> bool" where
  "input_ready operators nodes done_ids src \<longleftrightarrow> dict_get media_types src \<noteq> None \<or>
     (\<exists>m \<in> set nodes. node_node_id m \<in> done_ids \<and> src \<in> produced_by operators m)"

definition runnable :: "operator_table \<Rightarrow> pipeline_definition \<Rightarrow> string list \<Rightarrow> bool" where
  "runnable operators p order \<longleftrightarrow> distinct (map node_node_id (pd_nodes p)) \<and>
     set order = node_node_id ` set (pd_nodes p) \<and>
     (\<forall>x \<in> set (pd_nodes p). dict_get operators (node_operator_id x) \<noteq> None) \<and>
     (\<forall>xs i ys. order = xs @ i # ys \<longrightarrow> (\<forall>x \<in> set (pd_nodes p). node_node_id x = i \<longrightarrow>
        (\<forall>src \<in> snd ` set (node_inputs x). input_ready operators (pd_nodes p) (set xs) src))) \<and>
     input_ready operators (pd_nodes p) (set order) (pd_output p)"

lemma split_head_output_ref:
  "CHR ''.'' \<notin> set i \<Longrightarrow> py_split_head (CHR ''.'') (output_ref i out) = i"
  unfolding py_split_head_def output_ref_def by (induction i) auto

lemma media_output_ref:
  assumes "CHR ''.'' \<notin> set i" "py_startswith media_prefix (output_ref i out)"
  shows "i = ''$media''"
proof -
  from assms(2) obtain rest where "output_ref i out = ''$media'' @ CHR ''.'' # rest"
    unfolding py_startswith_def media_prefix_def
    by (metis append_take_drop_id append.assoc append_Cons append_Nil)
  then have "py_split_head (CHR ''.'') (output_ref i out) = ''$media''"
    by (simp add: py_split_head_def)
  with split_head_output_ref [OF assms(1)] show ?thesis by simp
qed

lemma produced_dependency:
  assumes "plain_ids p" "m \<in> set (pd_nodes p)" "src \<in> produced_by operators m"
    and "src \<in> snd ` set (node_inputs x)"
  shows "node_node_id m \<in> node_deps x"
proof -
  from assms(3) obtain out where src: "src = output_ref (node_node_id m) out"
    by (auto simp: produced_by_def split: option.splits)
  from assms(1,2) have plain: "CHR ''.'' \<notin> set (node_node_id m)" "node_node_id m \<noteq> ''$media''"
    by (simp_all add: plain_ids_def)
  have "\<not> py_startswith media_prefix src"
    using media_output_ref [OF plain(1), of out] plain(2) unfolding src by blast
  with assms(4) src split_head_output_ref [OF plain(1), of out] show ?thesis
    unfolding node_deps_def source_nodes_def by (force simp: image_iff)
qed

lemma check_inputs_ok:
  "check_inputs i a tys ins = Inr u \<Longrightarrow> src \<in> snd ` set ins \<Longrightarrow> dict_get a src \<noteq> None"
  by (induction i a tys ins rule: check_inputs.induct) (auto split: option.splits if_splits)

lemma check_nodes_ok:
  "check_nodes operators a ns = Inr u \<Longrightarrow> x \<in> set ns \<Longrightarrow> src \<in> snd ` set (node_inputs x) \<Longrightarrow>
   dict_get a src \<noteq> None"
  by (induction operators a ns rule: check_nodes.induct)
     (auto split: option.splits if_splits sum.splits dest: check_inputs_ok)

lemma validate_runnable:
  assumes "validate operators p = Inr order" and plain: "plain_ids p"
  shows "runnable operators p order"
proof -
  let ?ids = "map node_node_id (pd_nodes p)"
  from assms(1) obtain d c a where dist: "distinct ?ids"
      and scan: "scan_nodes operators (pd_domain p) (set ?ids) (pd_nodes p) ([], [], media_types) = Inr (d, c, a)"
      and check: "check_nodes operators a (pd_nodes p) = Inr ()"
      and out: "dict_get a (pd_output p) \<noteq> None"
    by (rule validate_InrE)
  note col = scan_nodes_collects [OF scan] and ord = validated_order [OF assms(1)]
  have typed: "dict_get media_types src \<noteq> None \<or> (\<exists>m \<in> set (pd_nodes p). src \<in> produced_by operators m)"
    if "dict_get a src \<noteq> None" for src
    using col that by blast
  have ready: "input_ready operators (pd_nodes p) (set xs) src"
    if "order = xs @ i # ys" "x \<in> set (pd_nodes p)" "node_node_id x = i" "src \<in> snd ` set (node_inputs x)"
    for xs i ys x src
  proof -
    have "node_deps x \<subseteq> set xs"
      using ord that deps_in_mem [OF dist that(2)] unfolding topological_def by blast
    with typed [OF check_nodes_ok [OF check that(2,4)]] produced_dependency [OF plain _ _ that(4)]
    show ?thesis unfolding input_ready_def by blast
  qed
  have final: "input_ready operators (pd_nodes p) (set order) (pd_output p)"
    using typed [OF out] ord unfolding input_ready_def by blast
  have ops: "\<forall>x \<in> set (pd_nodes p). dict_get operators (node_operator_id x) \<noteq> None"
    using col by blast
  show ?thesis
    unfolding runnable_def
    by (intro conjI allI impI ballI dist ready final) (use ord ops in simp_all)
qed

text \<open>Registering further operators keeps a pipeline runnable.\<close>

lemma runnable_mono:
  assumes "runnable operators p order"
    and "\<And>i def. dict_get operators i = Some def \<Longrightarrow> dict_get operators' i = Some def"
  shows "runnable operators' p order"
proof -
  have "produced_by operators x \<subseteq> produced_by operators' x" for x
    using assms(2) by (auto simp: produced_by_def split: option.splits)
  then have ready: "input_ready operators nodes done_ids src \<Longrightarrow> input_ready operators' nodes done_ids src"
    for nodes done_ids src
    unfolding input_ready_def by blast
  have "dict_get operators i \<noteq> None \<Longrightarrow> dict_get operators' i \<noteq> None" for i
    using assms(2) by auto
  with assms(1) show ?thesis
    unfolding runnable_def by (elim conjE) (intro conjI allI impI ballI ready; blast)
qed

end
