(* ===== verification/Execution_Control.thy ===== *)
theory Execution_Control
  imports Platform_Models
begin

text \<open>
  \<open>ExecutionControl\<close>, the pause and cancellation signal of a running operator, and the polling
  loop of \<open>PipelineRegistry._execute_operator\<close> that enforces the operator's time budget.
  Every operation takes the reading of the monotonic clock it sees as an argument.
\<close>

section \<open>The control object\<close>

record execution_control =
  ec_paused :: bool
  ec_cancelled :: bool
  ec_pause_started_at :: "pyfloat option"
  ec_paused_seconds :: pyfloat

definition control_init :: execution_control where
  "control_init = \<lparr>ec_paused = False, ec_cancelled = False, ec_pause_started_at = None,
     ec_paused_seconds = 0\<rparr>"

definition finish_pause :: "pyfloat \<Rightarrow> execution_control \<Rightarrow> execution_control" where
  "finish_pause now c = (case ec_pause_started_at c of
     None \<Rightarrow> c
   | Some t \<Rightarrow> c\<lparr>ec_paused_seconds := ec_paused_seconds c + (now - t), ec_pause_started_at := None\<rparr>)"

definition pause :: "pyfloat \<Rightarrow> execution_control \<Rightarrow> execution_control" where
  "pause now c = (let c' = (if \<not> ec_paused c then c\<lparr>ec_pause_started_at := Some now\<rparr> else c)
     in c'\<lparr>ec_paused := True\<rparr>)"

definition resume :: "pyfloat \<Rightarrow> execution_control \<Rightarrow> execution_control" where
  "resume now c = (finish_pause now c)\<lparr>ec_paused := False\<rparr>"

definition cancel :: "pyfloat \<Rightarrow> execution_control \<Rightarrow> execution_control" where
  "cancel now c = (finish_pause now c)\<lparr>ec_cancelled := True, ec_paused := False\<rparr>"

definition paused_seconds :: "pyfloat \<Rightarrow> execution_control \<Rightarrow> pyfloat" where
  "paused_seconds now c = ec_paused_seconds c +
     (case ec_pause_started_at c of Some t \<Rightarrow> now - t | None \<Rightarrow> 0)"

text \<open>
  \<open>wait_until_runnable\<close> sleeps on the condition variable and looks at the control again at each
  wake-up. The list holds what it sees: on entry and after every wait. The value is \<open>None\<close> when
  the list ends while it would still wait.
\<close>

fun wait_loop :: "execution_control list \<Rightarrow> bool option" where
  "wait_loop [] = None"
| "wait_loop (c # cs) =
     (if ec_paused c \<and> \<not> ec_cancelled c then wait_loop cs else Some (\<not> ec_cancelled c))"

definition wait_until_runnable :: "pyfloat \<Rightarrow> execution_control list \<Rightarrow> bool option" where
  "wait_until_runnable delay_seconds seen = (case seen of
     [] \<Rightarrow> None
   | c # cs \<Rightarrow> if delay_seconds > 0 \<and> \<not> ec_paused c \<and> \<not> ec_cancelled c then wait_loop cs
               else wait_loop (c # cs))"

datatype control_op = Do_pause | Do_resume | Do_cancel

fun control_apply :: "pyfloat \<times> control_op \<Rightarrow> execution_control \<Rightarrow> execution_control" where
  "control_apply (now, Do_pause) c = pause now c"
| "control_apply (now, Do_resume) c = resume now c"
| "control_apply (now, Do_cancel) c = cancel now c"

lemmas control_defs = control_init_def finish_pause_def pause_def resume_def cancel_def Let_def

definition control_ok :: "execution_control \<Rightarrow> bool" where
  "control_ok c \<longleftrightarrow> (ec_paused c \<longleftrightarrow> ec_pause_started_at c \<noteq> None)"

lemma control_ok_fold: "control_ok c \<Longrightarrow> control_ok (fold control_apply ops c)"
proof (induction ops arbitrary: c)
  case (Cons x ops)
  obtain now o1 where x: "x = (now, o1)" by (cases x)
  have "control_ok (control_apply x c)"
    using Cons.prems by (cases o1) (auto simp: x control_ok_def control_defs split: option.split)
  then show ?case using Cons.IH by simp
qed simp

lemma control_ok_init [simp]: "control_ok control_init"
  by (simp add: control_ok_def control_init_def)

lemma cancelled_fold: "ec_cancelled c \<Longrightarrow> ec_cancelled (fold control_apply ops c)"
proof (induction ops arbitrary: c)
  case (Cons x ops)
  obtain now o1 where x: "x = (now, o1)" by (cases x)
  have "ec_cancelled (control_apply x c)"
    using Cons.prems by (cases o1) (auto simp: x control_defs split: option.split)
  then show ?case using Cons.IH by simp
qed simp

text \<open>
  The clock of pauses is exact. Whatever sequence of pause, resume and cancel calls has
  happened, the paused time grows by the time that passes while the control is paused and
  stands still otherwise; and a call at some moment changes nothing in the paused time read
  at that moment.
\<close>

lemma paused_seconds_exact:
  "let c = fold control_apply ops control_init in
     paused_seconds (t + dt) c = paused_seconds t c + (if ec_paused c then dt else 0) \<and>
     paused_seconds t (control_apply (t, op) c) = paused_seconds t c"
proof -
  let ?c = "fold control_apply ops control_init"
  have ok: "ec_paused ?c \<longleftrightarrow> ec_pause_started_at ?c \<noteq> None"
    using control_ok_fold [OF control_ok_init] by (simp add: control_ok_def)
  show ?thesis
    using ok by (cases op) (auto simp: Let_def paused_seconds_def control_defs split: option.split)
qed

section \<open>The polling loop of an operator\<close>

text \<open>
  One poll: what the world looks like after the wait and after the checkpoint, the clock and
  the control's paused time at both moments, and what the operator and other tasks did to the
  world meanwhile.
\<close>

record 'w poll =
  poll_effect :: "'w \<Rightarrow> 'w"
  poll_now :: pyfloat
  poll_paused :: pyfloat
  poll_cp_now :: pyfloat
  poll_cp_paused :: pyfloat

text \<open>
  The course of one operator call: clock and paused time at its start, the polls that find the
  task unfinished, the effect and the outcome of the task, and the effect of stopping it.
\<close>

record ('w, 'r) operator_run =
  or_since :: pyfloat
  or_paused_since :: pyfloat
  or_polls :: "'w poll list"
  or_finish :: "'w \<Rightarrow> 'w"
  or_stopped :: "'w \<Rightarrow> 'w"
  or_result :: "exn + 'r"

definition active_time :: "pyfloat \<Rightarrow> pyfloat \<Rightarrow> pyfloat \<Rightarrow> pyfloat \<Rightarrow> pyfloat" where
  "active_time now since paused_now paused_since = max 0 (now - since - (paused_now - paused_since))"

fun operator_loop :: "pyfloat \<Rightarrow> pyfloat \<Rightarrow> pyfloat \<Rightarrow> pyfloat \<Rightarrow> 'w poll list \<Rightarrow>
    ('w, 'r) py \<Rightarrow> ('w, unit) py \<Rightarrow> ('w, unit) py \<Rightarrow> ('w, 'r) py" where
  "operator_loop timeout running since paused_since [] result checkpoint stop_operator =
     (if timeout - running \<le> 0 then andthen stop_operator (\<lambda>_. throw TimeoutError) else result)"
| "operator_loop timeout running since paused_since (p # ps) result checkpoint stop_operator =
     (if timeout - running \<le> 0 then andthen stop_operator (\<lambda>_. throw TimeoutError)
      else
        let running' = running + active_time (poll_now p) since (poll_paused p) paused_since in
        (\<lambda>w.
          if running' \<ge> timeout
          then andthen stop_operator (\<lambda>_. throw TimeoutError) (poll_effect p w)
          else
            andthen (catch_base checkpoint (\<lambda>e. andthen stop_operator (\<lambda>_. throw e)))
              (\<lambda>_. operator_loop timeout
                 (running' + active_time (poll_cp_now p) (poll_now p) (poll_cp_paused p) (poll_paused p))
                 (poll_cp_now p) (poll_cp_paused p) ps result checkpoint stop_operator)
              (poll_effect p w)))"

definition execute_operator ::
  "('w, 'r) operator_run \<Rightarrow> ('w \<Rightarrow> 'w) \<Rightarrow> ('w, unit) py \<Rightarrow> pyfloat \<Rightarrow> ('w, 'r) py" where
  "execute_operator run cancel_control checkpoint timeout_seconds =
     operator_loop timeout_seconds 0 (or_since run) (or_paused_since run) (or_polls run)
       (\<lambda>w. (or_result run, or_finish run w)) checkpoint
       (\<lambda>w. (Inr (), or_stopped run (cancel_control w)))"

text \<open>The time the operator has run, pauses left out.\<close>

fun active_seconds :: "pyfloat \<Rightarrow> pyfloat \<Rightarrow> 'w poll list \<Rightarrow> pyfloat" where
  "active_seconds since paused_since [] = 0"
| "active_seconds since paused_since (p # ps) =
     active_time (poll_now p) since (poll_paused p) paused_since +
     active_time (poll_cp_now p) (poll_now p) (poll_cp_paused p) (poll_paused p) +
     active_seconds (poll_cp_now p) (poll_cp_paused p) ps"

lemma active_time_nonneg [simp]: "0 \<le> active_time a b c d"
  by (simp add: active_time_def)

lemma active_seconds_nonneg [simp]: "0 \<le> active_seconds a b ps"
  by (induction ps arbitrary: a b) (auto intro: add_nonneg_nonneg)

lemma operator_loop_outcome:
  assumes "\<And>w. fst (checkpoint w) = Inr ()" and "\<And>w. fst (result w) = r" and "\<And>w. fst (stop w) = Inr ()"
  shows "fst (operator_loop timeout running since paused_since polls result checkpoint stop w) =
    (if running + active_seconds since paused_since polls < timeout then r else Inl TimeoutError)"
proof (induction polls arbitrary: running since paused_since w)
  case Nil
  obtain w' where "stop w = (Inr (), w')" using assms(3) [of w] by (metis prod.collapse)
  then show ?case using assms(2) by (simp add: andthen_def)
next
  case (Cons p ps)
  let ?w = "poll_effect p w"
  let ?r = "running + active_time (poll_now p) since (poll_paused p) paused_since"
  have nn: "0 \<le> active_time (poll_now p) since (poll_paused p) paused_since"
    "0 \<le> active_time (poll_cp_now p) (poll_now p) (poll_cp_paused p) (poll_paused p)"
    "0 \<le> active_seconds (poll_cp_now p) (poll_cp_paused p) ps" by simp_all
  have stop: "fst (andthen stop (\<lambda>_. throw TimeoutError) v) = Inl TimeoutError" for v
    using assms(3) [of v] by (auto simp: andthen_def split: prod.split)
  obtain w1 where cp: "checkpoint ?w = (Inr (), w1)" using assms(1) [of ?w] by (metis prod.collapse)
  have le: "running \<le> ?r" "?r \<le> running + active_seconds since paused_since (p # ps)"
    using nn by simp_all
  consider "timeout \<le> running" | "running < timeout" "timeout \<le> ?r" | "running < timeout" "?r < timeout"
    by linarith
  then show ?case
  proof cases
    case 1
    with le have "\<not> running + active_seconds since paused_since (p # ps) < timeout" by linarith
    with 1 stop show ?thesis by (simp del: active_seconds.simps)
  next
    case 2
    with le have "\<not> running + active_seconds since paused_since (p # ps) < timeout" by linarith
    with 2 stop show ?thesis by (simp add: Let_def del: active_seconds.simps)
  next
    case 3
    then show ?thesis by (simp add: Let_def andthen_apply catch_base_apply cp Cons.IH add.assoc)
  qed
qed



text \<open>
  A timed-out operator spoils its own retry. After the loop has given up, the control that
  all attempts of the run share is cancelled for good: whatever is done to it later, it stays
  cancelled, and every wait for permission to run answers that the operator must stop.
\<close>

lemma timeout_cancels_for_good:
  assumes "fst (execute_operator run (cancel now) checkpoint timeout c) = Inl TimeoutError"
    and "\<And>v. fst (checkpoint v) = Inr ()"
    and "or_result run \<noteq> Inl TimeoutError"
    and "\<And>v. or_stopped run v = v"
  shows "let c' = fold control_apply ops (snd (execute_operator run (cancel now) checkpoint timeout c)) in
    ec_cancelled c' \<and> wait_until_runnable 0 [c'] = Some False"
proof -
  have "ec_cancelled (snd (operator_loop timeout running since ps polls result checkpoint
      (\<lambda>w. (Inr (), or_stopped run (cancel now w))) c))"
    if "fst (operator_loop timeout running since ps polls result checkpoint
        (\<lambda>w. (Inr (), or_stopped run (cancel now w))) c) = Inl TimeoutError"
      and "\<And>w. fst (result w) = or_result run"
    for running since ps polls result and c :: execution_control
    using that(1)
  proof (induction polls arbitrary: running since ps c)
    case Nil
    then show ?case using that(2) assms(3) assms(4)
      by (auto simp: andthen_def cancel_def split: if_splits)
  next
    case (Cons p polls)
    obtain c1 where "checkpoint (poll_effect p c) = (Inr (), c1)"
      using assms(2) [of "poll_effect p c"] by (metis prod.collapse)
    with Cons show ?case
      by (auto simp: Let_def andthen_def catch_base_def cancel_def assms(4) split: if_splits)
  qed
  then have "ec_cancelled (snd (execute_operator run (cancel now) checkpoint timeout c))"
    using assms(1) unfolding execute_operator_def by simp
  from cancelled_fold [OF this] show ?thesis
    by (simp add: Let_def wait_until_runnable_def)
qed

end
