(* ===== verification/Pipeline_Registry.thy ===== *)
theory Pipeline_Registry
  imports Pipeline_Validation Execution_Control Store_Catalog
begin

text \<open>
  \<open>PipelineRegistry\<close>: operators and pipeline versions known to the process, their life cycle and
  the execution of a pipeline node by node with retries. Operators are code of the domains and
  a parameter of the model: starting one gives the course of its call (\<open>operator_run\<close>).
  \<open>digest\<close> is the hash of a definition, \<open>'w\<close> the state of the surrounding program and \<open>'v\<close> the
  values that flow along the edges of a pipeline.
\<close>

section \<open>State\<close>

record execution_context =
  xc_run_id :: string
  xc_tenant_id :: string
  xc_project_id :: string
  xc_pipeline_id :: string
  xc_pipeline_version :: string
  xc_asset_id :: "string option"
  xc_source_id :: "string option"
  xc_filename :: "string option"
  xc_content_type :: string
  xc_production :: bool
  xc_model_bindings :: json_dict

record ('w, 'v) operator =
  opr_definition :: operator_definition
  opr_execute :: "execution_context \<Rightarrow> (string, 'v) dict \<Rightarrow> json_dict \<Rightarrow> 'w \<Rightarrow>
    ('w, (string, 'v) dict) operator_run"

record ('w, 'v) pipeline_registry =
  reg_operators :: "(string, ('w, 'v) operator) dict"
  reg_pipelines :: "(string \<times> string, pipeline_definition) dict"
  reg_orders :: "(string \<times> string, string list) dict"
  reg_digests :: "(string \<times> string, string) dict"

definition registry_init :: "('w, 'v) pipeline_registry" where
  "registry_init = \<lparr>reg_operators = [], reg_pipelines = [], reg_orders = [], reg_digests = []\<rparr>"

definition operator_table :: "('w, 'v) pipeline_registry \<Rightarrow> operator_table" where
  "operator_table r = map (\<lambda>(k, x). (k, opr_definition x)) (reg_operators r)"

section \<open>Operations\<close>

definition register_operator :: "('w, 'v) operator \<Rightarrow> (('w, 'v) pipeline_registry, unit) py" where
  "register_operator operator r =
     (let i = op_operator_id (opr_definition operator) in
      if dict_get (reg_operators r) i \<noteq> None
      then (Inl (PipelineError (''operator already registered: '' @ i)), r)
      else (Inr (), r\<lparr>reg_operators := dict_set i operator (reg_operators r)\<rparr>))"

definition register_pipeline ::
  "pipeline_digest \<Rightarrow> pipeline_definition \<Rightarrow> (('w, 'v) pipeline_registry, unit) py" where
  "register_pipeline digest p r =
     (let key = pipeline_key p in
      if dict_get (reg_pipelines r) key \<noteq> None
      then (Inl (PipelineError (''pipeline already registered: '' @ pd_pipeline_id p @ ''@'' @ pd_version p)), r)
      else if pd_status p = P_ACTIVE \<and>
        (\<exists>item \<in> set (map snd (reg_pipelines r)). pd_pipeline_id item = pd_pipeline_id p \<and> pd_status item = P_ACTIVE)
      then (Inl (PipelineError (''pipeline already has an active version: '' @ pd_pipeline_id p)), r)
      else
        case validate (operator_table r) p of
          Inl e \<Rightarrow> (Inl e, r)
        | Inr order \<Rightarrow> (Inr (), r\<lparr>reg_orders := dict_set key order (reg_orders r),
              reg_pipelines := dict_set key p (reg_pipelines r),
              reg_digests := dict_set key (definition_sha256 digest p) (reg_digests r)\<rparr>))"

definition registry_pipeline ::
  "string \<Rightarrow> string \<Rightarrow> bool \<Rightarrow> ('w, 'v) pipeline_registry \<Rightarrow> exn + pipeline_definition" where
  "registry_pipeline pipeline_id version active_only r =
     (case dict_get (reg_pipelines r) (pipeline_id, version) of
        None \<Rightarrow> Inl (PipelineError (''pipeline not found: '' @ pipeline_id @ ''@'' @ version))
      | Some p \<Rightarrow>
          if active_only \<and> pd_status p \<noteq> P_ACTIVE
          then Inl (PipelineError (''pipeline is not active: '' @ pipeline_id @ ''@'' @ version))
          else Inr p)"

definition registry_pipelines :: "('w, 'v) pipeline_registry \<Rightarrow> pipeline_definition list" where
  "registry_pipelines r = map snd (reg_pipelines r)"

definition registry_transition ::
  "pipeline_digest \<Rightarrow> string \<Rightarrow> string \<Rightarrow> pipeline_status \<Rightarrow>
    (('w, 'v) pipeline_registry, pipeline_definition) py" where
  "registry_transition digest pipeline_id version target r =
     (let key = (pipeline_id, version) in
      case dict_get (reg_pipelines r) key of
        None \<Rightarrow> (Inl (PipelineError (''pipeline not found: '' @ pipeline_id @ ''@'' @ version)), r)
      | Some p \<Rightarrow>
          if \<not> pipeline_transition_allowed (pd_status p) target
          then (Inl (PipelineError (''invalid pipeline transition: '' @
                  pipeline_status_value (pd_status p) @ '' -> '' @ pipeline_status_value target)), r)
          else
            case dict_get (reg_digests r) key of
              None \<Rightarrow> (Inl KeyError, r)
            | Some registered \<Rightarrow>
                if definition_sha256 digest p \<noteq> registered
                then (Inl (PipelineError ''pipeline definition was mutated after registration''), r)
                else
                  let others = (if target = P_ACTIVE then retire_active pipeline_id (reg_pipelines r)
                                else reg_pipelines r);
                      updated = p\<lparr>pd_status := target\<rparr>
                  in (Inr updated, r\<lparr>reg_pipelines := dict_set key updated others\<rparr>))"

definition validate_run_parameters :: "pipeline_definition \<Rightarrow> json_dict \<Rightarrow> exn + unit" where
  "validate_run_parameters p parameters =
     (let unexpected = py_sorted (\<lambda>x. x)
        (filter (\<lambda>k. k \<notin> pd_allowed_parameters p) (remdups (map fst parameters))) in
      if unexpected \<noteq> []
      then Inl (PipelineError (''unsupported pipeline parameters: '' @ py_join '', '' unexpected))
      else Inr ())"

section \<open>Execution\<close>

text \<open>One node: its operator is tried until it succeeds, fails for good or runs out of attempts.\<close>

definition attempt_error :: "string \<Rightarrow> bool \<Rightarrow> exn \<Rightarrow> exn option" where
  "attempt_error operator_id is_last e = (case e of
     TimeoutError \<Rightarrow> if is_last then Some (PipelineError (''operator timed out: '' @ operator_id)) else None
   | DomainUnavailable _ \<Rightarrow> Some e
   | ExecutionStopped \<Rightarrow> Some e
   | CancelledError \<Rightarrow> Some e
   | _ \<Rightarrow> if is_last then Some (PipelineError (''operator failed: '' @ operator_id)) else None)"

fun run_attempts :: "string \<Rightarrow> nat \<Rightarrow> ('w, 'r) py \<Rightarrow> ('w, 'r option) py" where
  "run_attempts operator_id 0 call w = (Inr None, w)"
| "run_attempts operator_id (Suc n) call w =
     (case call w of
        (Inr result, w') \<Rightarrow> (Inr (Some result), w')
      | (Inl e, w') \<Rightarrow>
          (case attempt_error operator_id (n = 0) e of
             Some e' \<Rightarrow> (Inl e', w')
           | None \<Rightarrow> run_attempts operator_id n call w'))"

fun gather_inputs :: "(string, 'v) dict \<Rightarrow> (string \<times> string) list \<Rightarrow> (string, 'v) dict option" where
  "gather_inputs outputs [] = Some []"
| "gather_inputs outputs ((name, source) # rest) =
     (case dict_get outputs source of
        None \<Rightarrow> None
      | Some v \<Rightarrow> map_option (\<lambda>vs. (name, v) # vs) (gather_inputs outputs rest))"

definition merge_parameters :: "json_dict \<Rightarrow> json_dict \<Rightarrow> json_dict" where
  "merge_parameters of_node of_run = fold (\<lambda>(k, v). dict_set k v) of_run of_node"

definition operator_attempts :: "operator_definition \<Rightarrow> nat" where
  "operator_attempts d = (if op_failure_policy d = RETRY then nat (op_max_attempts d) else 1)"

definition missing_outputs :: "operator_definition \<Rightarrow> (string, 'v) dict \<Rightarrow> string list" where
  "missing_outputs d result =
     py_sorted (\<lambda>x. x) (filter (\<lambda>n. n \<notin> fst ` set result) (remdups (map fst (op_output_types d))))"

definition record_outputs :: "string \<Rightarrow> (string, 'v) dict \<Rightarrow> (string, 'v) dict \<Rightarrow> (string, 'v) dict" where
  "record_outputs node_id result outputs =
     fold (\<lambda>(name, v). dict_set (output_ref node_id name) v) result outputs"

definition run_node ::
  "(string, ('w, 'v) operator) dict \<Rightarrow> ('w \<Rightarrow> 'w) \<Rightarrow> execution_context \<Rightarrow> json_dict \<Rightarrow> ('w, unit) py \<Rightarrow>
    pipeline_node \<Rightarrow> (string, 'v) dict \<Rightarrow> ('w, (string, 'v) dict) py" where
  "run_node operators cancel_control ctx params checkpoint node outputs =
     (case dict_get operators (node_operator_id node) of
        None \<Rightarrow> throw KeyError
      | Some operator \<Rightarrow>
          case gather_inputs outputs (node_inputs node) of
            None \<Rightarrow> throw KeyError
          | Some inputs \<Rightarrow>
              let parameters = merge_parameters (node_parameters node) params;
                  d = opr_definition operator
              in andthen (run_attempts (node_operator_id node) (operator_attempts d)
                    (\<lambda>w. execute_operator (opr_execute operator ctx inputs parameters w)
                       cancel_control checkpoint (op_timeout_seconds d) w))
                   (\<lambda>res. case res of
                      None \<Rightarrow> throw (PipelineError (''operator did not produce a result: '' @ node_operator_id node))
                    | Some result \<Rightarrow>
                        if missing_outputs d result \<noteq> []
                        then throw (PipelineError (''operator '' @ node_operator_id node @
                               '' omitted outputs: '' @ py_join '', '' (missing_outputs d result)))
                        else ret (record_outputs (node_node_id node) result outputs)))"

definition node_table :: "pipeline_node list \<Rightarrow> (string, pipeline_node) dict" where
  "node_table nodes = fold (\<lambda>node. dict_set (node_node_id node) node) nodes []"

fun run_nodes ::
  "(string, ('w, 'v) operator) dict \<Rightarrow> ('w \<Rightarrow> 'w) \<Rightarrow> execution_context \<Rightarrow> json_dict \<Rightarrow> ('w, unit) py \<Rightarrow>
    (string, pipeline_node) dict \<Rightarrow> string list \<Rightarrow> (string, 'v) dict \<Rightarrow> ('w, (string, 'v) dict) py" where
  "run_nodes operators cancel_control ctx params checkpoint nodes [] outputs = ret outputs"
| "run_nodes operators cancel_control ctx params checkpoint nodes (node_id # rest) outputs =
     andthen checkpoint (\<lambda>_.
       case dict_get nodes node_id of
         None \<Rightarrow> throw KeyError
       | Some node \<Rightarrow>
           andthen (run_node operators cancel_control ctx params checkpoint node outputs)
             (\<lambda>outputs'. run_nodes operators cancel_control ctx params checkpoint nodes rest outputs'))"

definition registry_execute ::
  "pipeline_digest \<Rightarrow> ('w, 'v) pipeline_registry \<Rightarrow> ('w \<Rightarrow> 'w) \<Rightarrow> pipeline_definition \<Rightarrow>
    execution_context \<Rightarrow> (string, 'v) dict \<Rightarrow> json_dict \<Rightarrow> ('w, unit) py \<Rightarrow> ('w, 'v) py" where
  "registry_execute digest r cancel_control p ctx initial_inputs params checkpoint =
     (case validate_run_parameters p params of
        Inl e \<Rightarrow> throw e
      | Inr _ \<Rightarrow>
          let key = pipeline_key p in
          case dict_get (reg_pipelines r) key of
            None \<Rightarrow> throw (PipelineError ''pipeline definition is not immutable'')
          | Some registered \<Rightarrow>
              case dict_get (reg_digests r) key of
                None \<Rightarrow> throw KeyError
              | Some dg \<Rightarrow>
                  if definition_sha256 digest registered \<noteq> dg
                  then throw (PipelineError ''pipeline definition is not immutable'')
                  else
                    case dict_get (reg_orders r) key of
                      None \<Rightarrow> throw KeyError
                    | Some order \<Rightarrow>
                        andthen (run_nodes (reg_operators r) cancel_control ctx params checkpoint
                            (node_table (pd_nodes p)) order initial_inputs)
                          (\<lambda>outputs. case dict_get outputs (pd_output p) of
                             None \<Rightarrow> throw (PipelineError (''pipeline output was not produced: '' @ pd_output p))
                           | Some v \<Rightarrow> ret v))"

section \<open>The registry is a catalogue\<close>

interpretation registry_catalog: pipeline_catalog reg_pipelines "registry_transition digest" for digest
  by unfold_locales
     (auto simp: registry_transition_def Let_def split: option.splits if_splits)

section \<open>The invariant of the registry\<close>

definition registry_inv :: "pipeline_digest \<Rightarrow> ('w, 'v) pipeline_registry \<Rightarrow> bool" where
  "registry_inv digest r \<longleftrightarrow> catalog_ok (reg_pipelines r) \<and>
     (\<forall>key p. dict_get (reg_pipelines r) key = Some p \<longrightarrow>
        dict_get (reg_digests r) key = Some (definition_sha256 digest p) \<and>
        (\<exists>order. dict_get (reg_orders r) key = Some order \<and>
           (plain_ids p \<longrightarrow> runnable (operator_table r) p order)))"

inductive registry_reachable :: "pipeline_digest \<Rightarrow> ('w, 'v) pipeline_registry \<Rightarrow> bool" for digest where
  reg_init: "registry_reachable digest registry_init"
| reg_operator: "registry_reachable digest r \<Longrightarrow> registry_reachable digest (snd (register_operator opr r))"
| reg_pipeline: "registry_reachable digest r \<Longrightarrow> registry_reachable digest (snd (register_pipeline digest p r))"
| reg_transition: "registry_reachable digest r \<Longrightarrow>
    registry_reachable digest (snd (registry_transition digest pid v target r))"

lemma runnable_status [simp]:
  "runnable operators (p\<lparr>pd_status := st\<rparr>) order = runnable operators p order"
  "plain_ids (p\<lparr>pd_status := st\<rparr>) = plain_ids p"
  by (simp_all add: runnable_def plain_ids_def)

lemma operator_table_get [simp]:
  "dict_get (operator_table r) i = map_option opr_definition (dict_get (reg_operators r) i)"
  unfolding operator_table_def by (induction "reg_operators r" arbitrary: r)
    (auto simp: map_of_map [symmetric] dict_get_map_val [where f = "\<lambda>_. opr_definition"])

lemma register_operator_inv:
  assumes "registry_inv digest r" shows "registry_inv digest (snd (register_operator opr r))"
proof (cases "dict_get (reg_operators r) (op_operator_id (opr_definition opr))")
  case None
  let ?r = "r\<lparr>reg_operators := dict_set (op_operator_id (opr_definition opr)) opr (reg_operators r)\<rparr>"
  have "runnable (operator_table ?r) p order" if "runnable (operator_table r) p order" for p order
    using that None by (elim runnable_mono) auto
  then have "registry_inv digest ?r"
    using assms unfolding registry_inv_def by (auto simp del: operator_table_get split_paired_All) blast
  with None show ?thesis by (simp add: register_operator_def)
qed (use assms in \<open>simp add: register_operator_def\<close>)

lemma registry_pipeline_inv:
  assumes inv: "registry_inv digest r" shows "registry_inv digest (snd (register_pipeline digest p r))"
proof (cases "fst (register_pipeline digest p r)")
  case (Inl e)
  then have "snd (register_pipeline digest p r) = r"
    by (auto simp: register_pipeline_def Let_def split: if_splits sum.splits)
  with inv show ?thesis by simp
next
  case (Inr u)
  then obtain order where v: "validate (operator_table r) p = Inr order"
      and new: "dict_get (reg_pipelines r) (pipeline_key p) = None"
      and solo: "pd_status p = P_ACTIVE \<Longrightarrow>
        \<forall>item \<in> set (map snd (reg_pipelines r)). pd_pipeline_id item = pd_pipeline_id p \<longrightarrow> pd_status item \<noteq> P_ACTIVE"
      and s': "snd (register_pipeline digest p r) = r\<lparr>reg_orders := dict_set (pipeline_key p) order (reg_orders r),
          reg_pipelines := dict_set (pipeline_key p) p (reg_pipelines r),
          reg_digests := dict_set (pipeline_key p) (definition_sha256 digest p) (reg_digests r)\<rparr>"
    by (auto simp: register_pipeline_def Let_def split: if_splits sum.splits)
  have "catalog_ok (dict_set (pipeline_key p) p (reg_pipelines r))"
  proof (cases "pd_status p = P_ACTIVE")
    case True
    with inv solo show ?thesis unfolding registry_inv_def by (intro catalog_set_active) force+
  qed (use inv in \<open>auto simp: registry_inv_def intro: catalog_set_inactive\<close>)
  moreover have "operator_table (snd (register_pipeline digest p r)) = operator_table r"
    by (simp add: s' operator_table_def)
  ultimately show ?thesis
    using inv validate_runnable [OF v]
    unfolding registry_inv_def by (simp add: s' del: operator_table_get split_paired_All)
qed

lemma registry_transition_inv:
  assumes inv: "registry_inv digest r"
  shows "registry_inv digest (snd (registry_transition digest pid v target r))"
proof -
  let ?r = "snd (registry_transition digest pid v target r)"
  have frame: "reg_orders ?r = reg_orders r" "reg_digests ?r = reg_digests r"
      "operator_table ?r = operator_table r"
    by (auto simp: registry_transition_def Let_def operator_table_def split: option.splits)
  have old: "\<exists>q st. dict_get (reg_pipelines r) key = Some q \<and> p = q\<lparr>pd_status := st\<rparr>"
    if "dict_get (reg_pipelines ?r) key = Some p" for key p
  proof -
    have same: "\<exists>st. q = q\<lparr>pd_status := st\<rparr>" for q :: pipeline_definition
      by (metis pipeline_definition.surjective pipeline_definition.update_convs(4))
    with that show ?thesis
      by (auto simp: registry_transition_def Let_def dict_get_retire_active split: option.splits if_splits)
  qed
  have "catalog_ok (reg_pipelines ?r)"
    using inv unfolding registry_inv_def by (intro registry_catalog.transit_keeps_catalog) blast
  moreover have "dict_get (reg_digests ?r) key = Some (definition_sha256 digest p) \<and>
      (\<exists>order. dict_get (reg_orders ?r) key = Some order \<and> (plain_ids p \<longrightarrow> runnable (operator_table ?r) p order))"
    if "dict_get (reg_pipelines ?r) key = Some p" for key p
  proof -
    from old [OF that] obtain q st where q: "dict_get (reg_pipelines r) key = Some q" "p = q\<lparr>pd_status := st\<rparr>"
      by blast
    with inv have "dict_get (reg_digests r) key = Some (definition_sha256 digest q) \<and>
        (\<exists>order. dict_get (reg_orders r) key = Some order \<and> (plain_ids q \<longrightarrow> runnable (operator_table r) q order))"
      unfolding registry_inv_def by blast
    with q frame show ?thesis by simp
  qed
  ultimately show ?thesis unfolding registry_inv_def by blast
qed

lemma registry_reachable_inv: "registry_reachable digest r \<Longrightarrow> registry_inv digest r"
proof (induction rule: registry_reachable.induct)
  case reg_init
  then show ?case by (simp add: registry_inv_def registry_init_def)
qed (auto intro: register_operator_inv registry_pipeline_inv registry_transition_inv)

section \<open>Execution of a validated pipeline\<close>

text \<open>The errors an operator call may end with.\<close>

definition operator_error :: "exn \<Rightarrow> bool" where
  "operator_error e = (case e of
     DomainUnavailable _ \<Rightarrow> True
   | ExecutionStopped \<Rightarrow> True
   | CancelledError \<Rightarrow> True
   | PipelineError m \<Rightarrow> py_startswith ''operator '' m
   | _ \<Rightarrow> False)"

lemma operator_error_simps [simp]:
  "operator_error (DomainUnavailable m)" "operator_error ExecutionStopped" "operator_error CancelledError"
  "operator_error (PipelineError (CHR ''o'' # CHR ''p'' # CHR ''e'' # CHR ''r'' # CHR ''a'' # CHR ''t'' #
     CHR ''o'' # CHR ''r'' # CHR '' '' # m))"
  "\<not> operator_error KeyError" "\<not> operator_error (StateConflict m)"
  by (simp_all add: operator_error_def py_startswith_def)

lemma attempt_error_kind: "attempt_error i is_last e = Some e' \<Longrightarrow> operator_error e'"
  by (cases e) (auto simp: attempt_error_def split: if_splits)

lemma attempt_error_last: "attempt_error i True e \<noteq> None"
  by (cases e) (auto simp: attempt_error_def)

lemma run_attempts_error: "run_attempts i n call w = (Inl e, w') \<Longrightarrow> operator_error e"
  by (induction i n call w rule: run_attempts.induct)
     (auto split: prod.splits sum.splits option.splits dest: attempt_error_kind)

lemma gather_inputs_ok:
  "(\<And>src. src \<in> snd ` set ins \<Longrightarrow> dict_get outputs src \<noteq> None) \<Longrightarrow> gather_inputs outputs ins \<noteq> None"
  by (induction outputs ins rule: gather_inputs.induct) (auto split: option.splits)

text \<open>The outputs hold everything that is ready once the nodes in \<open>done_ids\<close> have run.\<close>

definition covers :: "operator_table \<Rightarrow> pipeline_node list \<Rightarrow> string set \<Rightarrow> (string, 'v) dict \<Rightarrow> bool" where
  "covers operators nodes done_ids outputs \<longleftrightarrow>
     (\<forall>src. input_ready operators nodes done_ids src \<longrightarrow> dict_get outputs src \<noteq> None)"

lemma dict_get_record_outputs:
  "dict_get (record_outputs i result outputs) src \<noteq> None \<longleftrightarrow>
     dict_get outputs src \<noteq> None \<or> src \<in> output_ref i ` fst ` set result"
  unfolding record_outputs_def by (induction result arbitrary: outputs) (auto split: if_splits)

lemma missing_outputs_Nil:
  "missing_outputs d result = [] \<Longrightarrow> fst ` set (op_output_types d) \<subseteq> fst ` set result"
proof -
  assume "missing_outputs d result = []"
  then have "set (missing_outputs d result) = {}" by simp
  then show ?thesis unfolding missing_outputs_def set_py_sorted by auto
qed

lemma covers_record:
  assumes cov: "covers (operator_table r) nodes done_ids outputs"
    and x: "x \<in> set nodes" "distinct (map node_node_id nodes)"
    and opr: "dict_get (reg_operators r) (node_operator_id x) = Some opr"
    and full: "missing_outputs (opr_definition opr) result = []"
  shows "covers (operator_table r) nodes (insert (node_node_id x) done_ids)
    (record_outputs (node_node_id x) result outputs)"
  unfolding covers_def
proof (intro allI impI)
  fix src assume ready: "input_ready (operator_table r) nodes (insert (node_node_id x) done_ids) src"
  show "dict_get (record_outputs (node_node_id x) result outputs) src \<noteq> None"
  proof (cases "input_ready (operator_table r) nodes done_ids src")
    case True
    with cov show ?thesis unfolding covers_def dict_get_record_outputs by blast
  next
    case False
    with ready obtain m where "m \<in> set nodes" "node_node_id m = node_node_id x" "src \<in> produced_by (operator_table r) m"
      unfolding input_ready_def by blast
    with x have "src \<in> produced_by (operator_table r) x"
      by (auto simp: distinct_map dest: inj_onD)
    with opr missing_outputs_Nil [OF full] show ?thesis
      unfolding dict_get_record_outputs by (auto simp: produced_by_def)
  qed
qed

lemma run_node_outcome:
  assumes cov: "covers (operator_table r) nodes done_ids outputs"
    and x: "x \<in> set nodes" "distinct (map node_node_id nodes)"
    and opr: "dict_get (reg_operators r) (node_operator_id x) \<noteq> None"
    and ins: "\<forall>src \<in> snd ` set (node_inputs x). input_ready (operator_table r) nodes done_ids src"
    and run: "run_node (reg_operators r) cc ctx params checkpoint x outputs w = (res, w')"
  shows "case res of Inl e \<Rightarrow> operator_error e
    | Inr outputs' \<Rightarrow> covers (operator_table r) nodes (insert (node_node_id x) done_ids) outputs'"
proof -
  from opr obtain operator where o: "dict_get (reg_operators r) (node_operator_id x) = Some operator" by blast
  from ins cov have "gather_inputs outputs (node_inputs x) \<noteq> None"
    by (intro gather_inputs_ok) (auto simp: covers_def)
  then obtain inputs where g: "gather_inputs outputs (node_inputs x) = Some inputs" by blast
  from run show ?thesis
    unfolding run_node_def andthen_def
    by (auto simp: o g Let_def covers_record [OF cov x o]
        split: prod.splits sum.splits option.splits if_splits dest: run_attempts_error)
qed

lemma node_table_get:
  assumes "distinct (map node_node_id nodes)" and "x \<in> set nodes"
  shows "dict_get (node_table nodes) (node_node_id x) = Some x"
proof -
  have "dict_get (fold (\<lambda>n. dict_set (node_node_id n) n) nodes d) (node_node_id x) = Some x" for d
    using assms
  proof (induction nodes arbitrary: d)
    case (Cons y nodes)
    have other: "dict_get (fold (\<lambda>n. dict_set (node_node_id n) n) ns d) k = dict_get d k"
      if "k \<notin> node_node_id ` set ns" for ns d k
      using that by (induction ns arbitrary: d) auto
    show ?case
    proof (cases "x = y")
      case True
      with Cons.prems show ?thesis by (simp add: other)
    next
      case False
      with Cons show ?thesis by simp
    qed
  qed simp
  then show ?thesis by (simp add: node_table_def)
qed

lemma run_nodes_outcome:
  assumes run: "runnable (operator_table r) p order"
    and "order = xs @ rest" and "covers (operator_table r) (pd_nodes p) (set xs) outputs"
    and "run_nodes (reg_operators r) cc ctx params checkpoint (node_table (pd_nodes p)) rest outputs w = (res, w')"
  shows "case res of Inl e \<Rightarrow> operator_error e \<or> (\<exists>v. fst (checkpoint v) = Inl e)
    | Inr outputs' \<Rightarrow> covers (operator_table r) (pd_nodes p) (set order) outputs'"
  using assms(2-4)
proof (induction rest arbitrary: xs outputs w)
  case (Cons i rest)
  have dist: "distinct (map node_node_id (pd_nodes p))" using run by (simp add: runnable_def)
  have "i \<in> node_node_id ` set (pd_nodes p)" using run Cons.prems(1) unfolding runnable_def by auto
  then obtain x where x: "x \<in> set (pd_nodes p)" "node_node_id x = i" by blast
  note tab = node_table_get [OF dist x(1), unfolded x(2)]
  have opr: "dict_get (reg_operators r) (node_operator_id x) \<noteq> None"
    using run x(1) unfolding runnable_def operator_table_get by auto
  have ins: "\<forall>src \<in> snd ` set (node_inputs x). input_ready (operator_table r) (pd_nodes p) (set xs) src"
    using run x Cons.prems(1) unfolding runnable_def by blast
  obtain cres w1 where cp: "checkpoint w = (cres, w1)" by fastforce
  show ?case
  proof (cases cres)
    case (Inl e)
    with cp have "\<exists>v. fst (checkpoint v) = Inl e" by (metis fst_conv)
    moreover from Inl cp Cons.prems(3) have "res = Inl e" by (simp add: andthen_def)
    ultimately show ?thesis by simp
  next
    case (Inr u)
    obtain nres w2 where node: "run_node (reg_operators r) cc ctx params checkpoint x outputs w1 = (nres, w2)"
      by fastforce
    note out = run_node_outcome [OF Cons.prems(2) x(1) dist opr ins node]
    show ?thesis
    proof (cases nres)
      case (Inl e)
      with out Inr cp node tab Cons.prems(3) show ?thesis by (auto simp: andthen_def)
    next
      case (Inr outputs')
      with out x(2) have "covers (operator_table r) (pd_nodes p) (set (xs @ [i])) outputs'" by simp
      moreover from Inr \<open>cres = Inr u\<close> cp node tab Cons.prems(3)
      have "run_nodes (reg_operators r) cc ctx params checkpoint (node_table (pd_nodes p)) rest outputs' w2 = (res, w')"
        by (simp add: andthen_def)
      ultimately show ?thesis using Cons.IH [of "xs @ [i]"] Cons.prems(1) by simp
    qed
  qed
qed (auto simp: covers_def)

lemma pipeline_payload_fields:
  assumes "pipeline_payload q = pipeline_payload p"
  shows "runnable operators q order = runnable operators p order" "plain_ids q = plain_ids p"
    "pd_nodes q = pd_nodes p" "pd_output q = pd_output p"
  using assms by (simp_all add: pipeline_payload_def runnable_def plain_ids_def)


section \<open>Examples\<close>

text \<open>An operator that at once delivers a text under each of its output names.\<close>

definition sample_operator ::
  "string \<Rightarrow> (string, string) dict \<Rightarrow> (string, string) dict \<Rightarrow> (nat, string) operator" where
  "sample_operator i ins outs = \<lparr>opr_definition = sample_operator_definition i ins outs,
     opr_execute = (\<lambda>_ _ _ _. \<lparr>or_since = 0, or_paused_since = 0, or_polls = [], or_finish = (\<lambda>w. Suc w),
       or_stopped = (\<lambda>w. w), or_result = Inr (map (\<lambda>(k, _). (k, ''text'')) outs)\<rparr>)\<rparr>"

definition sample_context :: execution_context where
  "sample_context = \<lparr>xc_run_id = ''r'', xc_tenant_id = ''t'', xc_project_id = ''p'',
     xc_pipeline_id = ''ocr'', xc_pipeline_version = ''1.0.0'', xc_asset_id = None, xc_source_id = None,
     xc_filename = None, xc_content_type = ''image/png'', xc_production = False, xc_model_bindings = []\<rparr>"

definition sample_registry :: "(nat, string) pipeline_registry" where
  "sample_registry = snd (register_operator (sample_operator ''mid'' [(''i'', ''t'')] [(''c'', ''t'')])
     (snd (register_operator (sample_operator ''op'' [(''media'', ''media/input'')] [(''result'', ''t'')])
       registry_init)))"

definition dotted_pipeline :: pipeline_definition where
  "dotted_pipeline = (sample_pipeline ''1.0.0'' P_ACTIVE)\<lparr>
     pd_nodes := [sample_node ''a'' ''op'' [(''media'', ''$media.input'')],
       sample_node ''z'' ''op'' [(''media'', ''$media.input'')],
       sample_node ''a.b'' ''mid'' [(''i'', ''z.result'')],
       sample_node ''0'' ''mid'' [(''i'', ''a.b.c'')]],
     pd_output := ''0.c''\<rparr>"

lemmas sample_registry_defs = sample_operator_def sample_context_def
  sample_registry_def dotted_pipeline_def

definition failing_registry :: "(nat, string) pipeline_registry" where
  "failing_registry = snd (register_pipeline sample_digest (sample_pipeline ''1.0.0'' P_ACTIVE)
     (snd (register_operator (sample_operator ''op'' [(''media'', ''media/input'')] [(''result'', ''t'')]
        \<lparr>opr_execute := (\<lambda>_ _ _ _. \<lparr>or_since = 0, or_paused_since = 0, or_polls = [], or_finish = (\<lambda>w. w),
           or_stopped = (\<lambda>w. w), or_result = Inl KeyError\<rparr>)\<rparr>) registry_init)))"


text \<open>
  A dot in a node identifier defeats the validation. The pipeline below is accepted, but
  the order it is given runs node \<open>0\<close> before node \<open>a.b\<close> whose output it reads, because the scan
  takes \<open>a\<close> as the source of \<open>a.b.c\<close>; executing it raises \<open>KeyError\<close> although every operator
  succeeds.
\<close>

lemma dotted_node_id_breaks_execution:
  "fst (register_pipeline sample_digest dotted_pipeline sample_registry) = Inr () \<and>
   validate (operator_table sample_registry) dotted_pipeline = Inr [''a'', ''z'', ''0'', ''a.b''] \<and>
   fst (registry_execute sample_digest (snd (register_pipeline sample_digest dotted_pipeline sample_registry))
     (\<lambda>w. w) dotted_pipeline sample_context [(''$media.bytes'', ''b''), (''$media.input'', ''m'')] []
     (\<lambda>w. (Inr (), w)) 0) = Inl KeyError"
  by code_simp

end
