(* ===== verification/Object_Store.thy ===== *)
theory Object_Store
  imports Platform_Models
begin

text \<open>
  \<open>LocalObjectStore\<close>, the file-system provider of the object store, and the key and digest
  checks of \<open>objects.py\<close>. A store is a dictionary from paths below its root to file contents;
  each object has a second file with its metadata under the same name with a suffix. The hash
  \<open>sha\<close> and the JSON form of the metadata (\<open>enc\<close>, \<open>dec\<close>) are parameters. The secret store kept
  in memory (\<open>MemorySecretStore\<close>) is here too.
\<close>

section \<open>Keys and digests\<close>

definition is_alnum :: "char \<Rightarrow> bool" where
  "is_alnum c \<longleftrightarrow> (CHR ''a'' \<le> c \<and> c \<le> CHR ''z'') \<or> (CHR ''A'' \<le> c \<and> c \<le> CHR ''Z'') \<or>
     (CHR ''0'' \<le> c \<and> c \<le> CHR ''9'')"

text \<open>\<open>SAFE_COMPONENT\<close>: \<open>[A-Za-z0-9][A-Za-z0-9_.-]{0,127}\<close>\<close>

definition safe_component :: "string \<Rightarrow> bool" where
  "safe_component s = (case s of [] \<Rightarrow> False | c # cs \<Rightarrow> is_alnum c \<and> length cs \<le> 127 \<and>
     list_all (\<lambda>x. is_alnum x \<or> x \<in> {CHR ''_'', CHR ''.'', CHR ''-''}) cs)"

definition valid_object_key :: "string \<Rightarrow> bool" where
  "valid_object_key k \<longleftrightarrow> list_all safe_component (py_split (CHR ''/'') k)"

definition is_sha256 :: "string \<Rightarrow> bool" where
  "is_sha256 s \<longleftrightarrow> length s = 64 \<and>
     list_all (\<lambda>c. (CHR ''0'' \<le> c \<and> c \<le> CHR ''9'') \<or> (CHR ''a'' \<le> c \<and> c \<le> CHR ''f'')) s"

definition py_lower :: "string \<Rightarrow> string" where
  "py_lower = map (\<lambda>c. if CHR ''A'' \<le> c \<and> c \<le> CHR ''Z'' then char_of (of_char c + (32 :: nat)) else c)"

definition py_strip :: "string \<Rightarrow> string" where
  "py_strip s = (let blank = (\<lambda>c. c \<in> {CHR '' '', CHR 0x09, CHR 0x0A, CHR 0x0B, CHR 0x0C, CHR 0x0D}) in
     rev (dropWhile blank (rev (dropWhile blank s))))"

definition validate_sha256 :: "string \<Rightarrow> exn + string" where
  "validate_sha256 v = (let normalized = py_lower (py_strip v) in
     if is_sha256 normalized then Inr normalized
     else Inl (ValueError ''sha256 must contain exactly 64 lowercase hexadecimal characters''))"

section \<open>Operations\<close>

record object_metadata =
  om_object_key :: string
  om_size_bytes :: int
  om_sha256 :: string
  om_content_type :: string
  om_retention_category :: "string option"

type_synonym files = "(string, string) dict"

definition metadata_path :: "string \<Rightarrow> string" where
  "metadata_path k = k @ ''.metadata.json''"

definition read_metadata ::
  "(string \<Rightarrow> string) \<Rightarrow> (string \<Rightarrow> object_metadata option) \<Rightarrow> string \<Rightarrow> string \<Rightarrow> files \<Rightarrow> object_metadata" where
  "read_metadata sha dec k data fs =
     (case Option.bind (dict_get fs (metadata_path k)) dec of
        Some m \<Rightarrow> m\<lparr>om_object_key := k\<rparr>
      | None \<Rightarrow> \<lparr>om_object_key = k, om_size_bytes = int (length data), om_sha256 = sha data,
          om_content_type = ''application/octet-stream'', om_retention_category = None\<rparr>)"

definition write_metadata ::
  "(object_metadata \<Rightarrow> string) \<Rightarrow> object_metadata \<Rightarrow> bool \<Rightarrow> files \<Rightarrow> files" where
  "write_metadata enc m overwrite fs =
     (let path = metadata_path (om_object_key m) in
      if overwrite then dict_set path (enc m) fs
      else if dict_get fs path \<noteq> None then fs
      else dict_set path (enc m) fs)"

definition local_put ::
  "(string \<Rightarrow> string) \<Rightarrow> (object_metadata \<Rightarrow> string) \<Rightarrow> (string \<Rightarrow> object_metadata option) \<Rightarrow>
    string \<Rightarrow> string \<Rightarrow> string \<Rightarrow> string option \<Rightarrow> bool \<Rightarrow> string option \<Rightarrow> (files, object_metadata) py" where
  "local_put sha enc dec k data content_type sha256 overwrite category fs =
     (if \<not> valid_object_key k then (Inl (ValueError ''invalid object key''), fs)
      else
        case (case sha256 of None \<Rightarrow> Inr (sha data)
              | Some d \<Rightarrow> if d = [] then Inr (sha data) else validate_sha256 d) of
          Inl e \<Rightarrow> (Inl e, fs)
        | Inr digest \<Rightarrow>
            if digest \<noteq> sha data
            then (Inl (ObjectIntegrityError (''bytes do not match sha256 for '' @ k)), fs)
            else
              let m = \<lparr>om_object_key = k, om_size_bytes = int (length data), om_sha256 = digest,
                     om_content_type = content_type, om_retention_category = category\<rparr> in
              case dict_get fs k of
                None \<Rightarrow> (Inr m, write_metadata enc m overwrite (dict_set k data fs))
              | Some old \<Rightarrow>
                  if overwrite
                  then (Inr m, write_metadata enc m True (dict_set k data fs))
                  else
                    let existing = read_metadata sha dec k old fs in
                    if om_sha256 existing = digest then (Inr existing, fs)
                    else (Inl (ObjectAlreadyExistsError (''immutable object already exists: '' @ k)), fs))"

text \<open>\<open>if expected_sha256 and digest != validate_sha256(expected_sha256): raise\<close>\<close>

definition check_digest :: "string \<Rightarrow> string \<Rightarrow> string option \<Rightarrow> exn + unit" where
  "check_digest k digest expected = (case expected of
     None \<Rightarrow> Inr ()
   | Some d \<Rightarrow>
       if d = [] then Inr ()
       else case validate_sha256 d of
         Inl e \<Rightarrow> Inl e
       | Inr d' \<Rightarrow> if digest = d' then Inr ()
                  else Inl (ObjectIntegrityError (''object checksum does not match: '' @ k)))"

definition local_stat ::
  "(string \<Rightarrow> string) \<Rightarrow> (string \<Rightarrow> object_metadata option) \<Rightarrow> string \<Rightarrow> string option \<Rightarrow> files \<Rightarrow>
    exn + object_metadata" where
  "local_stat sha dec k expected fs =
     (if \<not> valid_object_key k then Inl (ValueError ''invalid object key'')
      else
        case (case Option.bind (dict_get fs (metadata_path k)) dec of
                Some m \<Rightarrow> Some (m\<lparr>om_object_key := k\<rparr>)
              | None \<Rightarrow> map_option (\<lambda>data. read_metadata sha dec k data fs) (dict_get fs k)) of
          None \<Rightarrow> Inl (FileNotFoundError k)
        | Some m \<Rightarrow> (case check_digest k (om_sha256 m) expected of Inl e \<Rightarrow> Inl e | Inr _ \<Rightarrow> Inr m))"

definition local_get ::
  "(string \<Rightarrow> string) \<Rightarrow> string \<Rightarrow> string option \<Rightarrow> files \<Rightarrow> exn + string" where
  "local_get sha k expected fs =
     (if \<not> valid_object_key k then Inl (ValueError ''invalid object key'')
      else case dict_get fs k of
        None \<Rightarrow> Inl (FileNotFoundError k)
      | Some data \<Rightarrow> (case check_digest k (sha data) expected of Inl e \<Rightarrow> Inl e | Inr _ \<Rightarrow> Inr data))"

definition local_exists :: "string \<Rightarrow> files \<Rightarrow> exn + bool" where
  "local_exists k fs = (if \<not> valid_object_key k then Inl (ValueError ''invalid object key'')
     else Inr (dict_get fs k \<noteq> None))"

definition local_delete :: "string \<Rightarrow> (files, bool) py" where
  "local_delete k fs =
     (if \<not> valid_object_key k then (Inl (ValueError ''invalid object key''), fs)
      else if dict_get fs k = None then (Inr False, fs)
      else (Inr True, dict_pop (metadata_path k) (dict_pop k fs)))"

section \<open>Secrets\<close>

definition secret_object_key :: "string \<Rightarrow> exn + string" where
  "secret_object_key secret_ref =
     (let path = drop (length ''secret://'') secret_ref in
      if \<not> py_startswith ''secret://'' secret_ref then Inl (ValueError ''invalid secret reference'')
      else if path = [] \<or> sublist ''..'' path \<or> \<not> list_all (\<lambda>part. part \<noteq> []) (py_split (CHR ''/'') path)
      then Inl (ValueError ''invalid secret reference'')
      else Inr (''system/secrets/'' @ path @ ''.enc''))"

type_synonym secrets = "(string, string) dict"

definition secret_put :: "string \<Rightarrow> string \<Rightarrow> (secrets, unit) py" where
  "secret_put secret_ref v s =
     (case secret_object_key secret_ref of
        Inl e \<Rightarrow> (Inl e, s)
      | Inr _ \<Rightarrow> if v = [] then (Inl (ValueError ''secret value is empty''), s)
                else (Inr (), dict_set secret_ref v s))"

definition secret_get :: "string \<Rightarrow> secrets \<Rightarrow> exn + string" where
  "secret_get secret_ref s = (case dict_get s secret_ref of
     None \<Rightarrow> Inl (SecretNotFound secret_ref) | Some v \<Rightarrow> Inr v)"

definition secret_delete :: "string \<Rightarrow> (secrets, bool) py" where
  "secret_delete secret_ref s = (Inr (dict_get s secret_ref \<noteq> None), dict_pop secret_ref s)"

section \<open>What callers rely on\<close>

text \<open>
  The contract of a store of immutable objects: an object written without \<open>overwrite\<close> is read
  back, no later write without \<open>overwrite\<close> changes it, and a deleted object is gone.
\<close>

locale immutable_objects =
  fixes get :: "'k \<Rightarrow> 's \<Rightarrow> 'd option"
    and put :: "'k \<Rightarrow> 'd \<Rightarrow> ('s, 'm) py"
    and remove :: "'k \<Rightarrow> ('s, bool) py"
    and usable :: "'k \<Rightarrow> bool"
    and related :: "'k \<Rightarrow> 'k \<Rightarrow> bool"
  assumes put_fresh: "usable k \<Longrightarrow> get k s = None \<Longrightarrow>
      \<exists>m s'. put k d s = (Inr m, s') \<and> get k s' = Some d"
    and put_keeps: "get k s = Some d \<Longrightarrow> \<not> related k k' \<Longrightarrow> get k (snd (put k' d' s)) = Some d"
    and remove_gone: "usable k \<Longrightarrow> get k (snd (remove k s)) = None"
    and remove_keeps: "\<not> related k k' \<Longrightarrow> k \<noteq> k' \<Longrightarrow> get k (snd (remove k' s)) = get k s"
begin

lemma put_sequence_keeps:
  assumes "get k s = Some d" and "\<And>k' d'. (k', d') \<in> set writes \<Longrightarrow> \<not> related k k'"
  shows "get k (fold (\<lambda>(k', d') t. snd (put k' d' t)) writes s) = Some d"
  using assms
proof (induction writes arbitrary: s)
  case (Cons w writes)
  obtain k' d' where w: "w = (k', d')" by (cases w)
  have "get k (snd (put k' d' s)) = Some d"
    using Cons.prems w by (intro put_keeps) auto
  with Cons.IH Cons.prems(2) w show ?case by auto
qed simp

lemma put_then_remove:
  assumes "usable k" and "get k s = None"
  shows "get k (snd (remove k (snd (put k d s)))) = None"
  using assms(1) by (rule remove_gone)

end

text \<open>
  An object and the metadata file of another share one name space: key \<open>k\<close> is \<open>related\<close> to \<open>k'\<close>
  when it is the metadata file of \<open>k'\<close>.
\<close>

lemma metadata_path_inj [simp]: "metadata_path a = metadata_path b \<longleftrightarrow> a = b"
  by (simp add: metadata_path_def)

lemma metadata_path_neq [simp]: "metadata_path k \<noteq> k" "k \<noteq> metadata_path k"
  by (simp_all add: metadata_path_def)

interpretation local_objects: immutable_objects
  "\<lambda>k fs. dict_get fs k"
  "\<lambda>k d. local_put sha enc dec k d content_type None False category"
  local_delete valid_object_key "\<lambda>k k'. k = metadata_path k'"
  for sha enc dec content_type category
proof unfold_locales
  fix k and s :: files and d
  assume "valid_object_key k" "dict_get s k = None"
  then show "\<exists>m s'. local_put sha enc dec k d content_type None False category s = (Inr m, s') \<and>
      dict_get s' k = Some d"
    by (simp add: local_put_def Let_def write_metadata_def)
next
  fix k and s :: files and d k' d'
  assume "dict_get s k = Some d" "k \<noteq> metadata_path k'"
  then show "dict_get (snd (local_put sha enc dec k' d' content_type None False category s)) k = Some d"
    by (auto simp: local_put_def Let_def write_metadata_def split: option.splits)
next
  fix k and s :: files
  assume "valid_object_key k"
  then show "dict_get (snd (local_delete k s)) k = None"
    by (auto simp: local_delete_def)
next
  fix k k' and s :: files
  assume "k \<noteq> metadata_path k'" "k \<noteq> k'"
  then show "dict_get (snd (local_delete k' s)) k = dict_get s k"
    by (auto simp: local_delete_def)
qed

section \<open>Properties\<close>

text \<open>
  Objects are immutable and survive. What was stored under a key is read back unchanged,
  with its digest accepted, after any sequence of writes without \<open>overwrite\<close> to any keys,
  the same key included, that do not name its file as their metadata file.
\<close>

lemma objects_immutable:
  assumes "valid_object_key k" and "dict_get fs k = None" and "validate_sha256 (sha d) = Inr (sha d)"
    and "\<And>k' d'. (k', d') \<in> set writes \<Longrightarrow> k \<noteq> metadata_path k'"
  shows "local_get sha k (Some (sha d)) (fold (\<lambda>(k', d') t.
      snd (local_put sha enc dec k' d' ct None False cat t)) writes
      (snd (local_put sha enc dec k d ct None False cat fs))) = Inr d"
proof -
  from local_objects.put_fresh [OF assms(1,2), of sha enc dec d ct cat]
  have "dict_get (snd (local_put sha enc dec k d ct None False cat fs)) k = Some d" by auto
  from local_objects.put_sequence_keeps [OF this assms(4)] show ?thesis
    using assms(1,3) by (simp add: local_get_def check_digest_def)
qed

text \<open>A digest of the right shape, for the examples: sixty-four times the first digit of the length.\<close>

definition sample_sha :: "string \<Rightarrow> string" where
  "sample_sha d = replicate 64 (hd (nat_str (length d)))"

text \<open>
  Verifying an object does not look at its bytes. Where the metadata file is present,
  \<open>verify\<close> (which is \<open>stat\<close>) compares the expected digest with the one recorded there: it
  accepts the object whatever the file holds, and even when the file is missing.
\<close>

lemma verify_trusts_metadata:
  assumes "dec (enc m) = Some m" and "valid_object_key k"
    and "validate_sha256 (om_sha256 m) = Inr (om_sha256 m)"
    and "dict_get fs (metadata_path k) = Some (enc m)"
  shows "local_stat sha dec k (Some (om_sha256 m)) fs = Inr (m\<lparr>om_object_key := k\<rparr>)"
  using assms by (simp add: local_stat_def check_digest_def)

end
