(* ===== verification/Service_World.thy ===== *)
theory Service_World
  imports Store_Invariant Pipeline_Registry Object_Store
begin

text \<open>
  The world the services act on and the calls they make to it: the state store, the object and
  secret stores, the run queue, the clock and random identifiers, the policy check
  (\<open>policy.py\<close>) and the audit logger (\<open>audit.py\<close>).

  A service method is a sequence of awaited calls. Before each of them other tasks may act on
  the state store (\<open>w_env\<close>), and any of them may fail (\<open>w_fault\<close>). \<open>w_step\<close> numbers the calls, so
  that clock readings, identifiers, interference and failures may differ at each of them.
\<close>

section \<open>Policy\<close>

record policy_decision =
  dec_allowed :: bool
  dec_reason :: string

text \<open>
  The three providers of \<open>policy.py\<close>; \<open>External\<close> stands for a provider from outside, given by
  its two functions.
\<close>

datatype policy_provider =
    DevelopmentPolicyProvider
  | LocalPolicyProvider
  | DenyUnavailablePolicyProvider
  | External "principal_context \<Rightarrow> string \<Rightarrow> string \<Rightarrow> json_dict \<Rightarrow> exn + policy_decision"
      "principal_context \<Rightarrow> string \<Rightarrow> int \<Rightarrow> json_dict \<Rightarrow> exn + unit"

fun authorize ::
  "policy_provider \<Rightarrow> principal_context \<Rightarrow> string \<Rightarrow> string \<Rightarrow> json_dict \<Rightarrow> exn + policy_decision" where
  "authorize DevelopmentPolicyProvider ctx action resource attributes =
     Inr \<lparr>dec_allowed = True, dec_reason = ''development policy''\<rparr>"
| "authorize LocalPolicyProvider ctx action resource attributes =
     Inr \<lparr>dec_allowed = True, dec_reason = ''local self-hosted policy''\<rparr>"
| "authorize DenyUnavailablePolicyProvider ctx action resource attributes =
     Inl (PolicyUnavailable ''enterprise policy provider is required but unavailable'')"
| "authorize (External auth cons) ctx action resource attributes = auth ctx action resource attributes"

fun consume :: "policy_provider \<Rightarrow> principal_context \<Rightarrow> string \<Rightarrow> int \<Rightarrow> json_dict \<Rightarrow> exn + unit" where
  "consume DevelopmentPolicyProvider ctx metric amount attributes = Inr ()"
| "consume LocalPolicyProvider ctx metric amount attributes =
     (if amount < 0 then Inl (ValueError ''usage amount must be non-negative'') else Inr ())"
| "consume DenyUnavailablePolicyProvider ctx metric amount attributes =
     Inl (PolicyUnavailable ''enterprise policy provider is required but unavailable'')"
| "consume (External auth cons) ctx metric amount attributes = cons ctx metric amount attributes"

definition RESOURCE_PRODUCTS :: "(string, string) dict" where
  "RESOURCE_PRODUCTS = [(''audit_event'', ''console''), (''dataset'', ''data''), (''dataset_version'', ''data''),
     (''enterprise_compliance'', ''console''), (''enterprise_incident'', ''console''),
     (''enterprise_sla'', ''console''), (''enterprise_support'', ''console''), (''feedback'', ''data''),
     (''hard-sample-manifest'', ''data''), (''iam'', ''console''), (''media_asset'', ''parse''),
     (''media_source'', ''parse''), (''model_package'', ''model''), (''model-deployment-event'', ''model''),
     (''model-release'', ''model''), (''operations'', ''console''), (''pipeline'', ''parse''),
     (''portrait_camera'', ''parse''), (''portrait_feature'', ''parse''), (''portrait_identity'', ''parse''),
     (''portrait_trajectory'', ''parse''), (''search_index'', ''parse''), (''saved_search'', ''search''),
     (''surveillance_watchlist'', ''parse''), (''surveillance_task'', ''parse''),
     (''surveillance_alert'', ''parse''), (''run'', ''parse''), (''webhook_delivery'', ''api''),
     (''webhook_subscription'', ''api'')]"

definition require_allowed ::
  "policy_provider \<Rightarrow> principal_context \<Rightarrow> string \<Rightarrow> string \<Rightarrow> json_dict \<Rightarrow> exn + policy_decision" where
  "require_allowed provider ctx action resource attributes =
     (let required = {''*'', resource @ '':*'', resource @ '':'' @ action} in
      if required \<inter> ctx_scopes ctx = {}
      then Inl (PolicyDenied (''scope denied: '' @ resource @ '':'' @ action))
      else
        case (case dict_get RESOURCE_PRODUCTS resource of
                None \<Rightarrow> None
              | Some product_id \<Rightarrow>
                  if ''*'' \<notin> ctx_product_ids ctx \<and> product_id \<notin> ctx_product_ids ctx
                  then Some product_id else None) of
          Some product_id \<Rightarrow> Inl (PolicyDenied (''product denied: '' @ product_id))
        | None \<Rightarrow>
            (case authorize provider ctx action resource attributes of
               Inl e \<Rightarrow> Inl e
             | Inr decision \<Rightarrow>
                 if \<not> dec_allowed decision then Inl (PolicyDenied (dec_reason decision))
                 else Inr decision))"

section \<open>The world\<close>

record result_artifact =
  art_artifact_id :: string
  art_artifact_type :: string
  art_object_key :: string
  art_content_type :: string
  art_sha256 :: string

text \<open>The images a run has stored: \<open>RunArtifactSink\<close>.\<close>

record artifact_sink =
  sk_tenant_id :: string
  sk_project_id :: string
  sk_run_id :: string
  sk_artifacts :: "result_artifact list"
  sk_warnings :: "string list"

record world =
  w_step :: nat
  w_clock :: "nat \<Rightarrow> pyfloat"
  w_monotonic :: "nat \<Rightarrow> pyfloat"
  w_uuid :: "nat \<Rightarrow> nat \<Rightarrow> string"
  w_env :: "nat \<Rightarrow> mem \<Rightarrow> mem"
  w_fault :: "nat \<Rightarrow> exn option"
  w_store :: mem
  w_objects :: files
  w_secrets :: secrets
  w_queue :: "key3 list"
  w_control :: execution_control
  w_sink :: artifact_sink

text \<open>The settings of a service, as its constructor takes them, and the functions it is given.\<close>

record 'v service =
  sv_policy :: policy_provider
  sv_audit_fail_closed :: bool
  sv_pipelines :: "(world, 'v) pipeline_registry"
  sv_digest :: pipeline_digest
  sv_sha256 :: "string \<Rightarrow> string"
  sv_isoformat :: "pyfloat \<Rightarrow> string"
  sv_exn_text :: "exn \<Rightarrow> string"
  sv_meta_encode :: "object_metadata \<Rightarrow> string"
  sv_meta_decode :: "string \<Rightarrow> object_metadata option"
  sv_request_json :: "create_run_request \<Rightarrow> string"
  sv_validate_url :: "string \<Rightarrow> exn + unit"
  sv_max_image_bytes :: int
  sv_max_media_bytes :: int
  sv_stream_segment_duration_ms :: int
  sv_result_shard_units :: nat
  sv_raw_media_retention_days :: int
  sv_preview_retention_days :: int
  sv_structured_result_retention_days :: int

section \<open>Calls\<close>

definition tick :: "world \<Rightarrow> world" where
  "tick w = w\<lparr>w_step := Suc (w_step w)\<rparr>"

text \<open>An awaited call of the state store: others act first, then it fails or runs atomically.\<close>

definition store_call :: "(mem, 'a) py \<Rightarrow> (world, 'a) py" where
  "store_call m w =
     (let n = w_step w; s = w_env w n (w_store w) in
      case w_fault w n of
        Some e \<Rightarrow> (Inl e, w\<lparr>w_step := Suc n, w_store := s\<rparr>)
      | None \<Rightarrow> (case m s of (r, s') \<Rightarrow> (r, w\<lparr>w_step := Suc n, w_store := s'\<rparr>)))"

definition store_read :: "(mem \<Rightarrow> 'a) \<Rightarrow> (world, 'a) py" where
  "store_read f = store_call (\<lambda>s. (Inr (f s), s))"

definition object_call :: "(files, 'a) py \<Rightarrow> (world, 'a) py" where
  "object_call m w =
     (case w_fault w (w_step w) of
        Some e \<Rightarrow> (Inl e, tick w)
      | None \<Rightarrow> (case m (w_objects w) of (r, fs) \<Rightarrow> (r, (tick w)\<lparr>w_objects := fs\<rparr>)))"

definition secret_call :: "(secrets, 'a) py \<Rightarrow> (world, 'a) py" where
  "secret_call m w =
     (case w_fault w (w_step w) of
        Some e \<Rightarrow> (Inl e, tick w)
      | None \<Rightarrow> (case m (w_secrets w) of (r, sc) \<Rightarrow> (r, (tick w)\<lparr>w_secrets := sc\<rparr>)))"

text \<open>A call outside the process that changes nothing here and answers \<open>r\<close>.\<close>

definition remote_call :: "exn + 'a \<Rightarrow> (world, 'a) py" where
  "remote_call r w = (case w_fault w (w_step w) of Some e \<Rightarrow> (Inl e, tick w) | None \<Rightarrow> (r, tick w))"

definition enqueue :: "run_record \<Rightarrow> (world, unit) py" where
  "enqueue run w =
     (case w_fault w (w_step w) of
        Some e \<Rightarrow> (Inl e, tick w)
      | None \<Rightarrow> (Inr (), (tick w)\<lparr>w_queue := w_queue w @ [run_key run]\<rparr>))"

definition time_time :: "(world, pyfloat) py" where
  "time_time w = (Inr (w_clock w (w_step w)), tick w)"

text \<open>The monotonic clock of the event loop.\<close>

definition loop_time :: "(world, pyfloat) py" where
  "loop_time w = (Inr (w_monotonic w (w_step w)), tick w)"

definition uuid4_hex :: "(world, string) py" where
  "uuid4_hex w = (Inr (w_uuid w (w_step w) 0), tick w)"

definition of_sum :: "exn + 'a \<Rightarrow> ('s, 'a) py" where
  "of_sum r = (\<lambda>s. (r, s))"

definition allow :: "'v service \<Rightarrow> principal_context \<Rightarrow> string \<Rightarrow> string \<Rightarrow> json_dict \<Rightarrow> (world, unit) py" where
  "allow sv ctx action resource attributes =
     andthen (remote_call (require_allowed (sv_policy sv) ctx action resource attributes)) (\<lambda>_. ret ())"

section \<open>Audit\<close>

definition audit_record ::
  "'v service \<Rightarrow> principal_context \<Rightarrow> string \<Rightarrow> string \<Rightarrow> string option \<Rightarrow> string \<Rightarrow> json_dict \<Rightarrow>
    (world, audit_event) py" where
  "audit_record sv ctx action resource_type resource_id outcome evidence =
     andthen uuid4_hex (\<lambda>u.
     andthen time_time (\<lambda>now.
       let event = \<lparr>aud_event_id = ''aud_'' @ u, aud_tenant_id = ctx_tenant_id ctx,
             aud_project_id = ctx_project_id ctx, aud_principal_id = ctx_principal_id ctx,
             aud_action = action, aud_resource_type = resource_type, aud_resource_id = resource_id,
             aud_outcome = outcome, aud_request_id = None, aud_evidence = evidence,
             aud_created_at = now\<rparr> in
       andthen (catch (store_call (append_audit event))
           (\<lambda>_. if sv_audit_fail_closed sv
                then throw (AuditUnavailable ''audit event could not be persisted'') else ret ()))
         (\<lambda>_. ret event)))"

section \<open>Run events\<close>

definition or_uuid :: "string option \<Rightarrow> (world, string) py" where
  "or_uuid v = (case v of None \<Rightarrow> uuid4_hex | Some t \<Rightarrow> if t = [] then uuid4_hex else ret t)"

definition append_run_event ::
  "string \<Rightarrow> string \<Rightarrow> run_event \<Rightarrow> (world, run_event) py" where
  "append_run_event tenant_id project_id event w =
     store_call (append_event (w_uuid w (w_step w)) tenant_id project_id event) w"

definition event :: "'v service \<Rightarrow> run_record \<Rightarrow> string \<Rightarrow> json_dict \<Rightarrow> (world, run_event) py" where
  "event sv run event_type payload =
     andthen time_time (\<lambda>created_at.
     andthen (or_uuid (run_trace_id run)) (\<lambda>trace_id.
       append_run_event (run_tenant_id run) (run_project_id run)
         \<lparr>ev_run_id = run_run_id run, ev_event_id = 1, ev_event_type = event_type,
          ev_event_version = ''1.0'', ev_occurred_at = Some (sv_isoformat sv created_at),
          ev_producer = ''scenara'', ev_tenant_id = Some (run_tenant_id run),
          ev_project_id = Some (run_project_id run), ev_request_id = run_request_id run,
          ev_trace_id = Some trace_id, ev_status = run_state run, ev_payload = payload,
          ev_created_at = created_at\<rparr>))"

section \<open>Invariants of calls\<close>

text \<open>
  \<open>guarded J w\<close>: the store satisfies \<open>J\<close> and so do the stores that other tasks leave behind. A
  method keeps \<open>guarded J\<close> when each of its store calls keeps \<open>J\<close>.
\<close>

definition guarded :: "(mem \<Rightarrow> bool) \<Rightarrow> world \<Rightarrow> bool" where
  "guarded J w \<longleftrightarrow> J (w_store w) \<and> (\<forall>n s. J s \<longrightarrow> J (w_env w n s))"

lemma preserves_Pair [preserves_intros]: "preserves I (Pair r)"
  by (simp add: preserves_def)

lemma guarded_tick [simp]: "guarded J (tick w) = guarded J w"
  by (simp add: guarded_def tick_def)

lemma store_call_guarded [preserves_intros]:
  "preserves J m \<Longrightarrow> preserves (guarded J) (store_call m)"
  by (auto simp: preserves_def guarded_def store_call_def Let_def split: option.split prod.split)
     (metis snd_conv)

lemma store_read_guarded [preserves_intros]: "preserves (guarded J) (store_read f)"
  unfolding store_read_def by (intro store_call_guarded) (simp add: preserves_def)

lemma store_call_yields:
  assumes "\<And>s x s'. J s \<Longrightarrow> m s = (Inr x, s') \<Longrightarrow> Q x"
  shows "yields (guarded J) Q (store_call m)"
proof (rule yieldsI)
  fix w x w' assume w: "guarded J w" and "store_call m w = (Inr x, w')"
  then obtain s' where "m (w_env w (w_step w) (w_store w)) = (Inr x, s')"
    by (auto simp: store_call_def Let_def split: option.splits prod.splits)
  moreover from w have "J (w_env w (w_step w) (w_store w))" by (simp add: guarded_def)
  ultimately show "Q x" using assms by blast
qed

lemma store_read_yields: "(\<And>s. J s \<Longrightarrow> Q (f s)) \<Longrightarrow> yields (guarded J) Q (store_read f)"
  unfolding store_read_def by (rule store_call_yields) auto

lemma object_call_guarded [preserves_intros]: "preserves (guarded J) (object_call m)"
  by (auto simp: preserves_def guarded_def object_call_def tick_def split: option.split prod.split)

lemma secret_call_guarded [preserves_intros]: "preserves (guarded J) (secret_call m)"
  by (auto simp: preserves_def guarded_def secret_call_def tick_def split: option.split prod.split)

lemma remote_call_guarded [preserves_intros]: "preserves (guarded J) (remote_call r)"
  by (auto simp: preserves_def remote_call_def split: option.split)

lemma enqueue_guarded [preserves_intros]: "preserves (guarded J) (enqueue run)"
  by (auto simp: preserves_def guarded_def enqueue_def tick_def split: option.split)

lemma time_guarded [preserves_intros]: "preserves (guarded J) time_time"
  "preserves (guarded J) uuid4_hex" "preserves (guarded J) loop_time"
  by (simp_all add: preserves_def time_time_def uuid4_hex_def loop_time_def)

lemma of_sum_guarded [preserves_intros]: "preserves I (of_sum r)"
  by (simp add: preserves_def of_sum_def)

lemma allow_guarded [preserves_intros]: "preserves (guarded J) (allow sv ctx action resource attributes)"
  unfolding allow_def by (intro preserves_intros)

lemma or_uuid_guarded [preserves_intros]: "preserves (guarded J) (or_uuid v)"
  unfolding or_uuid_def by (intro preserves_intros)

lemma append_run_event_guarded [preserves_intros]:
  "(\<And>uu. preserves J (append_event uu t p e)) \<Longrightarrow> preserves (guarded J) (append_run_event t p e)"
  using store_call_guarded [of J] unfolding append_run_event_def preserves_def by blast

text \<open>What the methods write to the store: the operations an invariant has to be closed under.\<close>

locale run_invariant =
  fixes J :: "mem \<Rightarrow> bool" and T P :: string
  assumes J_keyed: "J s \<Longrightarrow> keyed run_key (mem_runs s)"
    and J_audit: "aud_tenant_id e = T \<Longrightarrow> aud_project_id e = P \<Longrightarrow> preserves J (append_audit e)"
    and J_event: "preserves J (append_event uu T P ev)"
    and J_save: "run_tenant_id r = T \<Longrightarrow> run_project_id r = P \<Longrightarrow> preserves J (save_run r n)"
    and J_create: "run_tenant_id r = T \<Longrightarrow> run_project_id r = P \<Longrightarrow>
      preserves J (create_run_idempotent r k h)"
    and J_delete: "preserves J (delete_run T P i)"
    and J_pipeline: "preserves J (register_pipeline_definition dg pl)"
begin

lemma audit_record_keeps:
  "ctx_tenant_id ctx = T \<Longrightarrow> ctx_project_id ctx = P \<Longrightarrow>
   preserves (guarded J) (audit_record sv ctx action rt ri outcome evidence)"
  unfolding audit_record_def Let_def by (intro preserves_intros J_audit) simp_all

lemma event_keeps:
  "run_tenant_id run = T \<Longrightarrow> run_project_id run = P \<Longrightarrow> preserves (guarded J) (event sv run ety payload)"
  unfolding event_def by (intro preserves_intros) (use J_event in simp)

end

text \<open>Both the invariant of the store and the view of another tenant are such invariants.\<close>

interpretation store_kept: run_invariant store_inv T P for T P
  by unfold_locales (simp add: store_inv_def run_inv_def, auto simp: preserves_def intro: store_inv_intros)

definition view_inv :: "string \<Rightarrow> string \<Rightarrow> 'a \<Rightarrow> (string \<Rightarrow> string \<Rightarrow> mem \<Rightarrow> 'a) \<Rightarrow> mem \<Rightarrow> bool" where
  "view_inv t p V view s \<longleftrightarrow> store_inv s \<and> view t p s = V"

lemma view_inv_step:
  assumes "T \<noteq> t \<or> P \<noteq> p" and "\<And>s. tenant_step T P s (snd (m s))"
    and "\<And>s. store_inv s \<Longrightarrow> store_inv (snd (m s))"
  shows "preserves (view_inv t p V tenant_view) m"
  using assms(3) tenant_step_frame [OF assms(2) assms(1)] by (simp add: preserves_def view_inv_def)

lemma view_run_invariant:
  assumes "T \<noteq> t \<or> P \<noteq> p"
  shows "run_invariant (view_inv t p V tenant_view) T P"
proof unfold_locales
  note step = view_inv_step [OF assms] tenant_step.intros store_inv_intros
  show "keyed run_key (mem_runs s)" if "view_inv t p V tenant_view s" for s
    using that by (simp add: view_inv_def store_inv_def run_inv_def)
  show "preserves (view_inv t p V tenant_view) (append_audit e)"
    if "aud_tenant_id e = T" "aud_project_id e = P" for e using that by (intro step)
  show "preserves (view_inv t p V tenant_view) (append_event uu T P ev)" for uu ev by (intro step)
  show "preserves (view_inv t p V tenant_view) (save_run r n)"
    if "run_tenant_id r = T" "run_project_id r = P" for r n using that by (intro step)
  show "preserves (view_inv t p V tenant_view) (create_run_idempotent r k h)"
    if "run_tenant_id r = T" "run_project_id r = P" for r k h using that by (intro step)
  show "preserves (view_inv t p V tenant_view) (delete_run T P i)" for i by (intro step)
  have "tenant_view t p (snd (register_pipeline_definition dg pl s)) = tenant_view t p s" for dg pl s
    by (auto simp: register_pipeline_definition_def Let_def tenant_view_defs split: option.split)
  then show "preserves (view_inv t p V tenant_view) (register_pipeline_definition dg pl)" for dg pl
    by (simp add: preserves_def view_inv_def register_pipeline_inv)
qed

end
