(* ===== verification/Sample_World.thy ===== *)
theory Sample_World
  imports Service_World Sample_Data
begin

text \<open>
  A concrete service and a concrete world for the witnesses: no failures, no other tasks, a
  development policy, a digest of the right shape. Nothing here models code; no property
  depends on it.
\<close>

definition sample_principal :: principal_context where
  "sample_principal = \<lparr>ctx_tenant_id = ''t'', ctx_project_id = ''p'', ctx_principal_id = ''u'',
     ctx_scopes = {''*''}, ctx_product_ids = {''*''}, ctx_request_id = None, ctx_traceparent = None\<rparr>"

definition sample_service :: "unit service" where
  "sample_service = \<lparr>sv_policy = DevelopmentPolicyProvider, sv_audit_fail_closed = True,
     sv_pipelines = registry_init, sv_digest = sample_digest, sv_sha256 = sample_sha,
     sv_isoformat = (\<lambda>_. ''2026''), sv_exn_text = (\<lambda>_. ''error''), sv_meta_encode = om_sha256,
     sv_meta_decode = (\<lambda>_. None), sv_request_json = (\<lambda>_. ''{}''), sv_validate_url = (\<lambda>_. Inr ()),
     sv_max_image_bytes = 100, sv_max_media_bytes = 1000, sv_stream_segment_duration_ms = 1000,
     sv_result_shard_units = 1, sv_raw_media_retention_days = 7, sv_preview_retention_days = 30,
     sv_structured_result_retention_days = 90\<rparr>"

definition sample_request :: create_run_request where
  "sample_request = \<lparr>crr_domain = ''ocr'', crr_pipeline = \<lparr>pref_pipeline_id = ''ocr'', pref_version = ''1''\<rparr>,
     crr_asset_id = Some ''a1'', crr_source_id = None, crr_parameters = [], crr_priority = 0, crr_wait_ms = 0\<rparr>"

definition sample_world :: "mem \<Rightarrow> world" where
  "sample_world s = \<lparr>w_step = 0, w_clock = (\<lambda>_. 0), w_monotonic = (\<lambda>_. 0), w_uuid = (\<lambda>_ _. ''u''),
     w_env = (\<lambda>_ s. s), w_fault = (\<lambda>_. None), w_store = s, w_objects = [], w_secrets = [],
     w_queue = [], w_control = control_init,
     w_sink = \<lparr>sk_tenant_id = ''t'', sk_project_id = ''p'', sk_run_id = ''r1'', sk_artifacts = [], sk_warnings = []\<rparr>\<rparr>"

text \<open>A store that holds one run.\<close>

definition sample_run_store :: "run_status \<Rightarrow> mem" where
  "sample_run_store st = memory_state_init\<lparr>
     mem_runs := [(store_key ''t'' ''p'' ''r1'', sample_run ''r1'' st)],
     mem_events := [(store_key ''t'' ''p'' ''r1'', [])]\<rparr>"

lemma nat_str_digit: "\<exists>d < 10. hd (nat_str n) = char_of (48 + d :: nat)"
proof (induction n rule: nat_str.induct)
  case (1 n)
  have "nat_str k \<noteq> []" for k by (subst nat_str.simps) simp
  with 1 show ?case by (cases "n < 10") (auto simp: nat_str.simps [of n])
qed

lemma sample_sha_valid: "validate_sha256 (sample_sha d) = Inr (sample_sha d)"
proof -
  obtain c where c: "c < 10" "hd (nat_str (length d)) = char_of (48 + c :: nat)" using nat_str_digit by blast
  then have "c \<in> {0, 1, 2, 3, 4, 5, 6, 7, 8, 9}" by auto
  then have "validate_sha256 (replicate 64 (char_of (48 + c :: nat))) = Inr (replicate 64 (char_of (48 + c)))"
    by (elim insertE emptyE) (simp_all only:, code_simp+)
  with c show ?thesis by (simp add: sample_sha_def)
qed

lemma store_inv_sample_run: "store_inv (sample_run_store st)"
  by (auto simp: sample_run_store_def store_inv_defs memory_state_init_def names_unique_def keyed_def
      sample_run_def run_key_def numbered_def)

lemmas sample_world_defs = sample_principal_def sample_service_def sample_world_def sample_run_store_def

end
