(* ===== verification/Run_Lifecycle.thy ===== *)
theory Run_Lifecycle
  imports Sample_World
begin

text \<open>
  The part of \<open>RunService\<close> that creates runs, moves them along their life cycle and reports on
  them: the pipeline catalogue kept in step with the installed pipelines, \<open>create_run\<close>,
  \<open>transition\<close>, stream sessions, waiting and listing.
\<close>

section \<open>Pipelines\<close>

definition sync_pipeline_catalog :: "'v service \<Rightarrow> (world, pipeline_definition list) py" where
  "sync_pipeline_catalog sv =
     andthen (for_each (registry_pipelines (sv_pipelines sv))
         (\<lambda>p. store_call (register_pipeline_definition (sv_digest sv) p)))
       (\<lambda>_. store_read list_pipeline_definitions)"

definition pipeline_of :: "'v service \<Rightarrow> string \<Rightarrow> string \<Rightarrow> bool \<Rightarrow> (world, pipeline_definition) py" where
  "pipeline_of sv pipeline_id version active_only =
     andthen (sync_pipeline_catalog sv) (\<lambda>_.
     andthen (store_read (get_pipeline_definition pipeline_id version)) (\<lambda>found.
       case found of
         None \<Rightarrow> throw (PipelineError (''pipeline not found: '' @ pipeline_id @ ''@'' @ version))
       | Some persisted \<Rightarrow>
           andthen (of_sum (registry_pipeline pipeline_id version False (sv_pipelines sv))) (\<lambda>compiled.
             if definition_sha256 (sv_digest sv) compiled \<noteq> definition_sha256 (sv_digest sv) persisted
             then throw (PipelineError ''persisted pipeline does not match the installed implementation'')
             else if active_only \<and> pd_status persisted \<noteq> P_ACTIVE
             then throw (PipelineError (''pipeline is not active: '' @ pipeline_id @ ''@'' @ version))
             else ret persisted)))"

definition resolve_pipeline_ref ::
  "'v service \<Rightarrow> string \<Rightarrow> string option \<Rightarrow> (world, pipeline_ref) py" where
  "resolve_pipeline_ref sv pipeline_id version =
     andthen (case version of
         Some v \<Rightarrow> ret v
       | None \<Rightarrow>
           andthen (sync_pipeline_catalog sv) (\<lambda>rows.
             case filter (\<lambda>p. pd_pipeline_id p = pipeline_id \<and> pd_status p = P_ACTIVE) rows of
               [p] \<Rightarrow> ret (pd_version p)
             | _ \<Rightarrow> throw (PipelineError (''pipeline must have exactly one active version: '' @ pipeline_id))))
       (\<lambda>v. andthen (pipeline_of sv pipeline_id v True)
          (\<lambda>_. ret \<lparr>pref_pipeline_id = pipeline_id, pref_version = v\<rparr>))"

definition transition_pipeline ::
  "'v service \<Rightarrow> principal_context \<Rightarrow> string \<Rightarrow> string \<Rightarrow> pipeline_status \<Rightarrow> (world, pipeline_definition) py" where
  "transition_pipeline sv ctx pipeline_id version target =
     andthen (allow sv ctx ''transition'' ''pipeline'' [(''pipeline_id'', JStr pipeline_id),
         (''version'', JStr version), (''target'', JStr (pipeline_status_value target))]) (\<lambda>_.
     andthen (sync_pipeline_catalog sv) (\<lambda>_.
     andthen (store_read (get_pipeline_definition pipeline_id version)) (\<lambda>found.
       case found of
         None \<Rightarrow> throw (PipelineError (''pipeline not found: '' @ pipeline_id @ ''@'' @ version))
       | Some persisted \<Rightarrow>
           andthen (of_sum (registry_pipeline pipeline_id version False (sv_pipelines sv))) (\<lambda>compiled.
             if definition_sha256 (sv_digest sv) persisted \<noteq> definition_sha256 (sv_digest sv) compiled
             then throw (PipelineError ''persisted pipeline does not match the installed implementation'')
             else
               andthen (store_call (transition_pipeline_definition pipeline_id version target)) (\<lambda>updated.
               andthen (audit_record sv ctx ''pipeline.transition'' ''pipeline''
                   (Some (pipeline_id @ ''@'' @ version)) ''success''
                   [(''from'', JStr (pipeline_status_value (pd_status persisted))),
                    (''to'', JStr (pipeline_status_value target))])
                 (\<lambda>_. ret updated))))))"

section \<open>Reading runs and changing their status\<close>

definition find_run :: "principal_context \<Rightarrow> string \<Rightarrow> (world, run_record) py" where
  "find_run ctx run_id =
     andthen (store_read (get_run (ctx_tenant_id ctx) (ctx_project_id ctx) run_id)) (\<lambda>found.
       case found of None \<Rightarrow> throw (ResourceNotFound ''run not found'') | Some run \<Rightarrow> ret run)"

definition service_get_run :: "'v service \<Rightarrow> principal_context \<Rightarrow> string \<Rightarrow> (world, run_record) py" where
  "service_get_run sv ctx run_id =
     andthen (allow sv ctx ''read'' ''run'' [(''run_id'', JStr run_id)]) (\<lambda>_. find_run ctx run_id)"

text \<open>\<open>_set_status\<close>; \<open>changes\<close> are the further fields the caller updates.\<close>

definition set_status ::
  "'v service \<Rightarrow> run_record \<Rightarrow> run_status \<Rightarrow> (run_record \<Rightarrow> run_record) \<Rightarrow> (world, run_record) py" where
  "set_status sv run status changes =
     andthen time_time (\<lambda>now.
     andthen (store_call (save_run (changes (run\<lparr>run_state := status, run_updated_at := now\<rparr>)) (run_revision run)))
       (\<lambda>saved. andthen (event sv saved (''run.'' @ run_status_value status) []) (\<lambda>_. ret saved)))"

fun wait_for_run :: "nat \<Rightarrow> principal_context \<Rightarrow> string \<Rightarrow> pyfloat \<Rightarrow> (world, run_record) py" where
  "wait_for_run 0 ctx run_id deadline = find_run ctx run_id"
| "wait_for_run (Suc n) ctx run_id deadline =
     andthen loop_time (\<lambda>t.
       if t < deadline
       then andthen (find_run ctx run_id) (\<lambda>run.
         if run_state run \<in> TERMINAL_RUN_STATUSES then ret run else wait_for_run n ctx run_id deadline)
       else find_run ctx run_id)"

text \<open>
  The loop sleeps at least 50 milliseconds between two looks at the clock, so it looks at most
  \<open>wait_ms div 50 + 2\<close> times before the deadline has passed.
\<close>

definition wait :: "principal_context \<Rightarrow> string \<Rightarrow> int \<Rightarrow> (world, run_record) py" where
  "wait ctx run_id wait_ms =
     andthen loop_time (\<lambda>t. wait_for_run (nat (wait_ms div 50) + 2) ctx run_id (t + of_int wait_ms / 1000))"

section \<open>Creating a run\<close>

definition truthy :: "string option \<Rightarrow> bool" where
  "truthy v = (case v of None \<Rightarrow> False | Some s \<Rightarrow> s \<noteq> [])"

definition or_empty :: "string option \<Rightarrow> string" where
  "or_empty v = (case v of None \<Rightarrow> [] | Some s \<Rightarrow> s)"

text \<open>\<open>traceparent.split("-")[1]\<close> when there are four parts, a fresh identifier otherwise.\<close>

definition trace_of :: "string option \<Rightarrow> (world, string) py" where
  "trace_of traceparent = (case traceparent of
     None \<Rightarrow> uuid4_hex
   | Some t \<Rightarrow> (case py_split (CHR ''-'') t of
       [_, trace, _, _] \<Rightarrow> ret trace
     | _ \<Rightarrow> uuid4_hex))"

definition run_media_kind :: "principal_context \<Rightarrow> create_run_request \<Rightarrow> (world, media_kind) py" where
  "run_media_kind ctx request =
     (if truthy (crr_asset_id request)
      then andthen (store_read (get_asset (ctx_tenant_id ctx) (ctx_project_id ctx) (or_empty (crr_asset_id request))))
        (\<lambda>found. case found of
           None \<Rightarrow> throw (ResourceNotFound ''media asset not found'')
         | Some asset \<Rightarrow>
             if asset_deleted_at asset \<noteq> None \<or> asset_original_deleted_at asset \<noteq> None
             then throw (ResourceNotFound ''media asset not found'')
             else ret (asset_kind asset))
      else andthen (store_read (get_source (ctx_tenant_id ctx) (ctx_project_id ctx) (or_empty (crr_source_id request))))
        (\<lambda>found. case found of
           None \<Rightarrow> throw (ResourceNotFound ''media source not found'')
         | Some _ \<Rightarrow> ret STREAM))"

definition effective_parameters :: "'v service \<Rightarrow> media_kind \<Rightarrow> json_dict \<Rightarrow> json_dict" where
  "effective_parameters sv kind parameters =
     (let params = dict_pop ''max_units'' parameters in
      if kind = STREAM
      then dict_setdefault ''stream_segment_duration_ms'' (JInt (sv_stream_segment_duration_ms sv)) params
      else params)"

definition new_run ::
  "principal_context \<Rightarrow> create_run_request \<Rightarrow> json_dict \<Rightarrow> string option \<Rightarrow> int option \<Rightarrow> string option \<Rightarrow>
    pyfloat \<Rightarrow> (world, run_record) py" where
  "new_run ctx request params stream_session_id stream_segment_index previous_run_id now =
     andthen uuid4_hex (\<lambda>u.
     andthen (trace_of (ctx_traceparent ctx)) (\<lambda>trace.
     andthen (if truthy (crr_source_id request)
         then (if truthy stream_session_id then ret stream_session_id
               else andthen uuid4_hex (\<lambda>v. ret (Some (''sts_'' @ v))))
         else ret None) (\<lambda>session.
       ret \<lparr>run_run_id = ''run_'' @ u, run_tenant_id = ctx_tenant_id ctx, run_project_id = ctx_project_id ctx,
         run_principal_id = ctx_principal_id ctx, run_request_id = ctx_request_id ctx,
         run_trace_id = Some trace, run_domain = crr_domain request, run_pipeline = crr_pipeline request,
         run_asset_id = crr_asset_id request, run_source_id = crr_source_id request,
         run_stream_session_id = session,
         run_stream_segment_index = (if truthy (crr_source_id request)
           then Some (case stream_segment_index of None \<Rightarrow> 0 | Some i \<Rightarrow> i) else None),
         run_previous_run_id = previous_run_id, run_next_run_id = None, run_parameters = params,
         run_priority = crr_priority request, run_state = QUEUED, run_revision = 1, run_progress = 0,
         run_error_code = None, run_termination_reason = None, run_created_at = now,
         run_updated_at = now, run_started_at = None, run_completed_at = None\<rparr>)))"

text \<open>What follows when the store has accepted a new run.\<close>

definition announce_run ::
  "'v service \<Rightarrow> principal_context \<Rightarrow> create_run_request \<Rightarrow> run_record \<Rightarrow> (world, run_record) py" where
  "announce_run sv ctx request stored =
     andthen (catch
         (andthen (remote_call (consume (sv_policy sv) ctx ''runs'' 1
             [(''domain'', JStr (crr_domain request)),
              (''pipeline_id'', JStr (pref_pipeline_id (crr_pipeline request)))])) (\<lambda>_.
          andthen (audit_record sv ctx ''run.create'' ''run'' (Some (run_run_id stored)) ''success''
             [(''domain'', JStr (crr_domain request)),
              (''pipeline'', JObj [(''pipeline_id'', JStr (pref_pipeline_id (crr_pipeline request))),
                 (''version'', JStr (pref_version (crr_pipeline request)))])])
            (\<lambda>_. ret ())))
         (\<lambda>e. andthen (suppress (store_call (delete_run (ctx_tenant_id ctx) (ctx_project_id ctx) (run_run_id stored))))
            (\<lambda>_. throw e))) (\<lambda>_.
     andthen (event sv stored ''run.queued'' []) (\<lambda>_.
       catch (andthen (enqueue stored) (\<lambda>_. ret stored))
         (\<lambda>e. andthen time_time (\<lambda>now.
            set_status sv stored FAILED (\<lambda>r. r\<lparr>run_error_code := Some ''QUEUE_UNAVAILABLE'',
              run_termination_reason := Some (take 500 (sv_exn_text sv e)), run_completed_at := Some now\<rparr>)))))"

definition create_run ::
  "'v service \<Rightarrow> principal_context \<Rightarrow> create_run_request \<Rightarrow> string \<Rightarrow> string option \<Rightarrow> int option \<Rightarrow>
    string option \<Rightarrow> (world, run_record \<times> bool) py" where
  "create_run sv ctx request idempotency_key stream_session_id stream_segment_index previous_run_id =
     (if idempotency_key = [] \<or> 128 < length idempotency_key
      then throw (ValueError ''Idempotency-Key is required and must not exceed 128 characters'')
      else if (crr_asset_id request = None) = (crr_source_id request = None)
      then throw (ValueError ''exactly one of asset_id or source_id is required'')
      else
        andthen (allow sv ctx ''create'' ''run'' [(''domain'', JStr (crr_domain request)),
            (''pipeline_id'', JStr (pref_pipeline_id (crr_pipeline request)))]) (\<lambda>_.
        andthen (pipeline_of sv (pref_pipeline_id (crr_pipeline request)) (pref_version (crr_pipeline request)) True)
          (\<lambda>pl.
          if pd_domain pl \<noteq> crr_domain request
          then throw (ValueError ''requested domain does not match pipeline domain'')
          else
            andthen (run_media_kind ctx request) (\<lambda>kind.
              let params = effective_parameters sv kind (crr_parameters request) in
              andthen (of_sum (validate_run_parameters pl params)) (\<lambda>_.
              andthen time_time (\<lambda>now.
              andthen (new_run ctx request params stream_session_id stream_segment_index previous_run_id now) (\<lambda>run.
              andthen (store_call (create_run_idempotent run idempotency_key
                  (sv_sha256 sv (sv_request_json sv (request\<lparr>crr_parameters := params\<rparr>))))) (\<lambda>(stored, created).
              andthen (if created then announce_run sv ctx request stored else ret stored) (\<lambda>stored'.
              andthen (if crr_wait_ms request \<noteq> 0 then wait ctx (run_run_id stored') (crr_wait_ms request)
                       else ret stored')
                (\<lambda>final. ret (final, created)))))))))))"

section \<open>Life-cycle transitions\<close>

definition transition_target :: "bool \<Rightarrow> run_status \<Rightarrow> string \<Rightarrow> exn + run_status" where
  "transition_target pausable status action =
     (if action = ''pause'' then
        if \<not> pausable then Inl (InvalidTransition ''this pipeline does not support pause'')
        else if status \<noteq> RUNNING then Inl (InvalidTransition ''only a running run can be paused'')
        else Inr PAUSING
      else if action = ''resume'' then
        if status \<noteq> PAUSED then Inl (InvalidTransition ''only a paused run can be resumed'')
        else Inr RUNNING
      else if action = ''cancel'' then
        if status \<in> TERMINAL_RUN_STATUSES then Inl (InvalidTransition ''a terminal run cannot be cancelled'')
        else if status \<in> {QUEUED, PAUSED, CANCELLING} then Inr CANCELLED
        else Inr CANCELLING
      else Inl (ValueError ''unknown lifecycle action''))"

definition transition_updates :: "run_status \<Rightarrow> pyfloat \<Rightarrow> pyfloat \<Rightarrow> run_record \<Rightarrow> run_record" where
  "transition_updates target now later run =
     (let r = run\<lparr>run_state := target, run_updated_at := now\<rparr> in
      if target = CANCELLED
      then r\<lparr>run_completed_at := Some later,
             run_termination_reason := (if truthy (run_termination_reason run)
               then run_termination_reason run else Some ''cancelled_by_user'')\<rparr>
      else r)"

fun transition_loop :: "nat \<Rightarrow> 'v service \<Rightarrow> principal_context \<Rightarrow> string \<Rightarrow> string \<Rightarrow> (world, run_record) py" where
  "transition_loop 0 sv ctx run_id action = throw (StateConflict ''run transition could not be applied'')"
| "transition_loop (Suc n) sv ctx run_id action =
     andthen (find_run ctx run_id) (\<lambda>run.
     andthen (pipeline_of sv (pref_pipeline_id (run_pipeline run)) (pref_version (run_pipeline run)) False) (\<lambda>pl.
     andthen (of_sum (transition_target (pd_pausable pl) (run_state run) action)) (\<lambda>target.
     andthen time_time (\<lambda>now.
     andthen (if target = CANCELLED then time_time else ret now) (\<lambda>later.
       catch
         (andthen (store_call (save_run (transition_updates target now later run) (run_revision run))) (\<lambda>saved.
          andthen (audit_record sv ctx (''run.'' @ action) ''run'' (Some run_id) ''success''
              [(''status'', JStr (run_status_value target))]) (\<lambda>_.
          andthen (event sv saved (''run.'' @ run_status_value target) []) (\<lambda>_. ret saved))))
         (\<lambda>e. case e of StateConflict _ \<Rightarrow> transition_loop n sv ctx run_id action | _ \<Rightarrow> throw e))))))"

definition transition :: "'v service \<Rightarrow> principal_context \<Rightarrow> string \<Rightarrow> string \<Rightarrow> (world, run_record) py" where
  "transition sv ctx run_id action =
     andthen (allow sv ctx action ''run'' [(''run_id'', JStr run_id)])
       (\<lambda>_. transition_loop 4 sv ctx run_id action)"

section \<open>Stream sessions\<close>

definition session_segments :: "string \<Rightarrow> run_record list \<Rightarrow> run_record list" where
  "session_segments session_id runs =
     py_sorted (\<lambda>r. (case run_stream_segment_index r of None \<Rightarrow> 0 | Some i \<Rightarrow> i, run_created_at r))
       (filter (\<lambda>r. run_stream_session_id r = Some session_id) runs)"

definition session_view :: "string \<Rightarrow> run_record list \<Rightarrow> stream_session_view" where
  "session_view session_id segments =
     (let current = last segments in
      \<lparr>ssv_session_id = session_id, ssv_source_id = or_empty (run_source_id current),
       ssv_domain = run_domain current, ssv_pipeline = run_pipeline current,
       ssv_status = (if run_state current \<notin> TERMINAL_RUN_STATUSES then SESSION_ACTIVE
         else if run_state current = FAILED then SESSION_FAILED
         else if run_state current = CANCELLED then SESSION_CANCELLED
         else SESSION_COMPLETED),
       ssv_current_run_id = run_run_id current, ssv_segment_count = int (length segments),
       ssv_created_at = run_created_at (hd segments), ssv_updated_at = run_updated_at current\<rparr>)"

definition stream_session ::
  "'v service \<Rightarrow> principal_context \<Rightarrow> string \<Rightarrow> (world, stream_session_view) py" where
  "stream_session sv ctx session_id =
     andthen (allow sv ctx ''read'' ''run'' [(''stream_session_id'', JStr session_id)]) (\<lambda>_.
     andthen (store_read (list_runs (ctx_tenant_id ctx) (ctx_project_id ctx) None None 0 None)) (\<lambda>runs.
       let segments = session_segments session_id runs in
       if segments = [] then throw (ResourceNotFound ''stream session not found'')
       else ret (session_view session_id segments)))"

definition cancel_stream_session ::
  "'v service \<Rightarrow> principal_context \<Rightarrow> string \<Rightarrow> (world, stream_session_view) py" where
  "cancel_stream_session sv ctx session_id =
     andthen (stream_session sv ctx session_id) (\<lambda>session.
     andthen (find_run ctx (ssv_current_run_id session)) (\<lambda>current.
     andthen (if run_state current \<notin> TERMINAL_RUN_STATUSES
              then andthen (transition sv ctx (run_run_id current) ''cancel'') (\<lambda>_. ret ())
              else ret ())
       (\<lambda>_. stream_session sv ctx session_id)))"

section \<open>Listing\<close>

definition service_list_runs ::
  "'v service \<Rightarrow> principal_context \<Rightarrow> run_status option \<Rightarrow> string option \<Rightarrow> int \<Rightarrow> int \<Rightarrow>
    (world, run_record list \<times> int) py" where
  "service_list_runs sv ctx status domain off lmt =
     andthen (allow sv ctx ''list'' ''run'' []) (\<lambda>_.
     andthen (store_read (list_runs (ctx_tenant_id ctx) (ctx_project_id ctx) status domain off (Some lmt))) (\<lambda>rows.
     andthen (store_read (count_runs (ctx_tenant_id ctx) (ctx_project_id ctx) status domain)) (\<lambda>total.
       ret (rows, total))))"

section \<open>What the methods keep\<close>

lemma find_run_guarded [preserves_intros]: "preserves (guarded J) (find_run ctx run_id)"
  unfolding find_run_def by (intro preserves_intros)

lemma wait_for_run_guarded [preserves_intros]: "preserves (guarded J) (wait_for_run n ctx run_id deadline)"
  by (induction n) (auto intro!: preserves_intros)

lemma wait_guarded [preserves_intros]: "preserves (guarded J) (wait ctx run_id ms)"
  unfolding wait_def by (intro preserves_intros)

lemma trace_of_guarded [preserves_intros]: "preserves (guarded J) (trace_of tp)"
  unfolding trace_of_def by (auto intro!: preserves_intros split: option.split list.split)

lemma run_media_kind_guarded [preserves_intros]: "preserves (guarded J) (run_media_kind ctx request)"
  unfolding run_media_kind_def by (intro preserves_intros)

lemma new_run_guarded [preserves_intros]:
  "preserves (guarded J) (new_run ctx request params sid six prev now)"
  unfolding new_run_def by (intro preserves_intros)

lemma new_run_yields:
  "yields I (\<lambda>r. run_tenant_id r = ctx_tenant_id ctx \<and> run_project_id r = ctx_project_id ctx)
     (new_run ctx request params sid six prev now)"
  unfolding new_run_def
  by (rule yieldsI) (auto elim!: andthen_InrE split: if_splits)

lemma stream_session_guarded [preserves_intros]: "preserves (guarded J) (stream_session sv ctx sid)"
  unfolding stream_session_def Let_def by (intro preserves_intros)

context run_invariant
begin

lemma sync_keeps: "preserves (guarded J) (sync_pipeline_catalog sv)"
  unfolding sync_pipeline_catalog_def by (intro preserves_intros J_pipeline)

lemma pipeline_of_keeps: "preserves (guarded J) (pipeline_of sv pid v a)"
  unfolding pipeline_of_def by (intro preserves_intros sync_keeps)

lemma find_run_yields:
  "yields (guarded J) (\<lambda>r. run_tenant_id r = ctx_tenant_id ctx \<and> run_project_id r = ctx_project_id ctx \<and>
     run_run_id r = run_id) (find_run ctx run_id)"
proof -
  have "yields (guarded J) (\<lambda>found. \<forall>r. found = Some r \<longrightarrow> run_tenant_id r = ctx_tenant_id ctx \<and>
      run_project_id r = ctx_project_id ctx \<and> run_run_id r = run_id)
      (store_read (get_run (ctx_tenant_id ctx) (ctx_project_id ctx) run_id))"
    by (rule store_read_yields)
       (auto simp: get_run_def run_key_def store_key_def dest!: J_keyed dest: keyed_get)
  then show ?thesis
    unfolding find_run_def
    by (rule yields_andthen [rotated]) (auto intro: preserves_intros yields_ret yields_throw split: option.split)
qed

lemma set_status_keeps:
  assumes "run_tenant_id run = T" "run_project_id run = P"
    and "\<And>r. run_tenant_id (changes r) = run_tenant_id r \<and> run_project_id (changes r) = run_project_id r"
  shows "preserves (guarded J) (set_status sv run st changes)"
proof -
  have "yields (guarded J) (\<lambda>r. run_tenant_id r = T \<and> run_project_id r = P)
      (store_call (save_run (changes (run\<lparr>run_state := st, run_updated_at := now\<rparr>)) n))" for now n
    by (rule store_call_yields) (auto simp: save_run_def Let_def assms split: option.splits if_splits)
  then show ?thesis
    unfolding set_status_def
    by (intro preserves_andthen preserves_andthen_yields [where Q = "\<lambda>r. run_tenant_id r = T \<and> run_project_id r = P"]
        preserves_intros J_save event_keeps) (auto simp: assms)
qed

lemma announce_run_keeps:
  assumes "ctx_tenant_id ctx = T" "ctx_project_id ctx = P" "run_tenant_id stored = T" "run_project_id stored = P"
  shows "preserves (guarded J) (announce_run sv ctx request stored)"
  unfolding announce_run_def
  by (intro preserves_intros audit_record_keeps event_keeps set_status_keeps) (auto simp: assms J_delete)

lemma create_run_keeps:
  assumes "ctx_tenant_id ctx = T" "ctx_project_id ctx = P"
  shows "preserves (guarded J) (create_run sv ctx request key sid six prev)"
proof -
  have yield: "yields (guarded J) (\<lambda>(stored, created). created \<longrightarrow> stored = run)
      (store_call (create_run_idempotent run key h))" for run h
    by (rule store_call_yields)
       (auto simp: create_run_idempotent_def Let_def split: option.splits if_splits prod.splits)
  have after: "preserves (guarded J) (case x of (stored, created) \<Rightarrow>
      andthen (if created then announce_run sv ctx request stored else ret stored) (\<lambda>stored'.
      andthen (if crr_wait_ms request \<noteq> 0 then wait ctx (run_run_id stored') (crr_wait_ms request)
               else ret stored') (\<lambda>final. ret (final, created))))"
    if "case x of (stored, created) \<Rightarrow> created \<longrightarrow> stored = run"
      and "run_tenant_id run = ctx_tenant_id ctx \<and> run_project_id run = ctx_project_id ctx" for x run
  proof (cases x)
    case (Pair stored created)
    have "created \<Longrightarrow> preserves (guarded J) (announce_run sv ctx request stored)"
      using that Pair assms by (intro announce_run_keeps) auto
    then show ?thesis by (simp only: Pair prod.case) (intro preserves_intros)
  qed
  show ?thesis
    unfolding create_run_def Let_def
    by (intro preserves_intros pipeline_of_keeps preserves_andthen_yields [OF new_run_guarded new_run_yields]
        preserves_andthen_yields [OF store_call_guarded yield] after J_create)
       (auto simp: assms)
qed

lemma transition_loop_keeps:
  assumes "ctx_tenant_id ctx = T" "ctx_project_id ctx = P"
  shows "preserves (guarded J) (transition_loop n sv ctx run_id action)"
proof (induction n)
  case (Suc n)
  have yield: "yields (guarded J) (\<lambda>r. run_tenant_id r = T \<and> run_project_id r = P)
      (store_call (save_run (transition_updates target now later run) m))"
    if "run_tenant_id run = T" "run_project_id run = P" for target now later run m
    by (rule store_call_yields)
       (auto simp: save_run_def Let_def transition_updates_def that split: option.splits if_splits)
  have body: "preserves (guarded J)
      (andthen (store_call (save_run (transition_updates target now later run) m)) (\<lambda>saved.
       andthen (audit_record sv ctx a ''run'' ri ''success'' evd) (\<lambda>_.
       andthen (event sv saved ety []) (\<lambda>_. ret saved))))"
    if "run_tenant_id run = T" "run_project_id run = P" for target now later run m a ri evd ety
    using that assms
    by (intro preserves_andthen_yields [OF store_call_guarded yield] J_save)
       (auto intro!: preserves_andthen audit_record_keeps event_keeps preserves_ret
          simp: transition_updates_def Let_def)
  have again: "preserves (guarded J)
      (case e of StateConflict _ \<Rightarrow> transition_loop n sv ctx run_id action | _ \<Rightarrow> throw e)" for e
    by (cases e) (auto intro: Suc.IH preserves_intros)
  have "preserves (guarded J) (andthen (pipeline_of sv pid v False) (\<lambda>pl.
     andthen (of_sum (transition_target (pd_pausable pl) (run_state run) action)) (\<lambda>target.
     andthen time_time (\<lambda>now.
     andthen (if target = CANCELLED then time_time else ret now) (\<lambda>later.
       catch
         (andthen (store_call (save_run (transition_updates target now later run) (run_revision run))) (\<lambda>saved.
          andthen (audit_record sv ctx (''run.'' @ action) ''run'' (Some run_id) ''success''
              [(''status'', JStr (run_status_value target))]) (\<lambda>_.
          andthen (event sv saved (''run.'' @ run_status_value target) []) (\<lambda>_. ret saved))))
         (\<lambda>e. case e of StateConflict _ \<Rightarrow> transition_loop n sv ctx run_id action | _ \<Rightarrow> throw e))))))"
    if "run_tenant_id run = T" "run_project_id run = P" for pid v run
    by (rule preserves_andthen preserves_catch pipeline_of_keeps of_sum_guarded time_guarded preserves_if
        preserves_ret body [OF that] again)+
  then show ?case
    using assms unfolding transition_loop.simps
    by (intro preserves_andthen_yields [OF find_run_guarded find_run_yields]) auto
qed (simp add: preserves_Pair)

lemma transition_keeps:
  "ctx_tenant_id ctx = T \<Longrightarrow> ctx_project_id ctx = P \<Longrightarrow> preserves (guarded J) (transition sv ctx run_id action)"
  unfolding transition_def by (intro preserves_intros transition_loop_keeps)

lemma cancel_stream_session_keeps:
  "ctx_tenant_id ctx = T \<Longrightarrow> ctx_project_id ctx = P \<Longrightarrow> preserves (guarded J) (cancel_stream_session sv ctx sid)"
  unfolding cancel_stream_session_def by (intro preserves_intros transition_keeps)

end

text \<open>
  Whatever other tasks do to the store and whichever calls fail, creating a run, moving it
  along its life cycle and cancelling a stream session leave the store well formed, when they
  return and when they raise.
\<close>

lemma lifecycle_keeps_store_inv:
  assumes "store_inv (w_store w)" and "\<And>n s. store_inv s \<Longrightarrow> store_inv (w_env w n s)"
  shows "store_inv (w_store (snd (create_run sv ctx request key sid six prev w))) \<and>
    store_inv (w_store (snd (transition sv ctx run_id action w))) \<and>
    store_inv (w_store (snd (cancel_stream_session sv ctx session_id w)))"
proof -
  have g: "guarded store_inv w" using assms by (simp add: guarded_def)
  have use: "store_inv (w_store (snd (m w)))" if "preserves (guarded store_inv) m" for m :: "(world, 'm) py"
    using preservesD [OF that g] by (simp add: guarded_def)
  show ?thesis
    by (intro conjI use store_kept.create_run_keeps store_kept.transition_keeps
        store_kept.cancel_stream_session_keeps) (rule refl)+
qed

text \<open>
  A request made for one tenant and project never shows in the data of another: creating
  runs, transitions and cancelling sessions leave every row the other can see as it was,
  provided other tasks leave them alone too.
\<close>

lemma lifecycle_isolates_tenants:
  assumes inv: "store_inv (w_store w)"
    and env: "\<And>n s. store_inv s \<Longrightarrow> store_inv (w_env w n s) \<and> tenant_view t p (w_env w n s) = tenant_view t p s"
    and other: "ctx_tenant_id ctx \<noteq> t \<or> ctx_project_id ctx \<noteq> p"
  shows "tenant_view t p (w_store (snd (create_run sv ctx request key sid six prev w))) = tenant_view t p (w_store w) \<and>
    tenant_view t p (w_store (snd (transition sv ctx run_id action w))) = tenant_view t p (w_store w) \<and>
    tenant_view t p (w_store (snd (cancel_stream_session sv ctx session_id w))) = tenant_view t p (w_store w)"
proof -
  let ?J = "view_inv t p (tenant_view t p (w_store w)) tenant_view"
  note kept = view_run_invariant [OF other, of "tenant_view t p (w_store w)"]
  have g: "guarded ?J w" using inv env by (simp add: guarded_def view_inv_def)
  have use: "tenant_view t p (w_store (snd (m w))) = tenant_view t p (w_store w)"
    if "preserves (guarded ?J) m" for m :: "(world, 'm) py"
    using preservesD [OF that g] by (simp add: guarded_def view_inv_def)
  show ?thesis
    by (intro conjI use run_invariant.create_run_keeps [OF kept] run_invariant.transition_keeps [OF kept]
        run_invariant.cancel_stream_session_keeps [OF kept]) (rule refl)+
qed

section \<open>Terminal runs\<close>

definition run_fixed :: "key3 \<Rightarrow> run_record \<Rightarrow> mem \<Rightarrow> bool" where
  "run_fixed k r s \<longleftrightarrow> store_inv s \<and> dict_get (mem_runs s) k = Some r"

lemma run_fixed_ops:
  "preserves (run_fixed k r) (append_audit e)"
  "preserves (run_fixed k r) (append_event uu t p ev)"
  "preserves (run_fixed k r) (register_pipeline_definition dg pl)"
  "run_key v \<noteq> k \<Longrightarrow> preserves (run_fixed k r) (save_run v n)"
proof -
  show "preserves (run_fixed k r) (append_audit e)"
    by (simp add: preserves_def run_fixed_def append_audit_inv) (simp add: append_audit_def)
  show "preserves (run_fixed k r) (append_event uu t p ev)"
    by (simp add: preserves_def run_fixed_def append_event_inv)
       (simp add: append_event_def Let_def split: option.split)
  show "preserves (run_fixed k r) (register_pipeline_definition dg pl)"
    by (simp add: preserves_def run_fixed_def register_pipeline_inv)
       (simp add: register_pipeline_definition_def Let_def split: option.split)
  show "run_key v \<noteq> k \<Longrightarrow> preserves (run_fixed k r) (save_run v n)"
    by (simp add: preserves_def run_fixed_def save_run_inv)
       (auto simp: save_run_def Let_def split: option.split)
qed

lemma pipeline_of_fixed: "preserves (guarded (run_fixed k r)) (pipeline_of sv pid v a)"
  unfolding pipeline_of_def sync_pipeline_catalog_def by (intro preserves_intros run_fixed_ops)

lemma audit_event_fixed:
  "preserves (guarded (run_fixed k r)) (audit_record sv ctx action rt ri outcome evidence)"
  "preserves (guarded (run_fixed k r)) (event sv run ety payload)"
  unfolding audit_record_def event_def Let_def by (intro preserves_intros run_fixed_ops)+

lemma find_run_fixed_yields:
  "yields (guarded (run_fixed k r)) (\<lambda>x. run_key x = store_key (ctx_tenant_id ctx) (ctx_project_id ctx) run_id \<and>
     (run_key x = k \<longrightarrow> x = r)) (find_run ctx run_id)"
proof -
  let ?key = "store_key (ctx_tenant_id ctx) (ctx_project_id ctx) run_id"
  have "yields (guarded (run_fixed k r)) (\<lambda>found. \<forall>x. found = Some x \<longrightarrow> run_key x = ?key \<and> (run_key x = k \<longrightarrow> x = r))
      (store_read (get_run (ctx_tenant_id ctx) (ctx_project_id ctx) run_id))"
  proof (rule store_read_yields, intro allI impI)
    fix s x assume s: "run_fixed k r s" and x: "get_run (ctx_tenant_id ctx) (ctx_project_id ctx) run_id s = Some x"
    then have "keyed run_key (mem_runs s)" by (simp add: run_fixed_def store_inv_def run_inv_def)
    with x have "run_key x = ?key" by (auto simp: get_run_def dest: keyed_get)
    with s x show "run_key x = ?key \<and> (run_key x = k \<longrightarrow> x = r)"
      by (auto simp: run_fixed_def get_run_def)
  qed
  then show ?thesis
    unfolding find_run_def
    by (rule yields_andthen [rotated]) (auto intro: preserves_intros yields_ret yields_throw split: option.split)
qed

lemma transition_target_terminal:
  "st \<in> TERMINAL_RUN_STATUSES \<Longrightarrow> \<exists>e. transition_target pausable st action = Inl e"
  by (auto simp: transition_target_def)

lemma transition_loop_fixed:
  assumes "run_state r \<in> TERMINAL_RUN_STATUSES"
  shows "preserves (guarded (run_fixed k r)) (transition_loop n sv ctx run_id action)"
proof (induction n)
  case (Suc n)
  have again: "preserves (guarded (run_fixed k r))
      (case e of StateConflict _ \<Rightarrow> transition_loop n sv ctx run_id action | _ \<Rightarrow> throw e)" for e
    by (cases e) (auto intro: Suc.IH preserves_intros)
  have body: "preserves (guarded (run_fixed k r))
     (andthen (of_sum (transition_target pausable (run_state run) action)) (\<lambda>target.
     andthen time_time (\<lambda>now.
     andthen (if target = CANCELLED then time_time else ret now) (\<lambda>later.
       catch
         (andthen (store_call (save_run (transition_updates target now later run) m)) (\<lambda>saved.
          andthen (audit_record sv ctx (''run.'' @ action) ''run'' (Some run_id) ''success''
              [(''status'', JStr (run_status_value target))]) (\<lambda>_.
          andthen (event sv saved (''run.'' @ run_status_value target) []) (\<lambda>_. ret saved))))
         (\<lambda>e. case e of StateConflict _ \<Rightarrow> transition_loop n sv ctx run_id action | _ \<Rightarrow> throw e)))))"
    if run: "run_key run = k \<longrightarrow> run = r" for run pausable m
  proof (cases "run = r")
    case True
    with transition_target_terminal [OF assms, of pausable action] show ?thesis
      by (auto simp: preserves_def andthen_def of_sum_def)
  next
    case False
    with run have "run_key (transition_updates target now later run) \<noteq> k" for target now later
      by (auto simp: transition_updates_def run_key_def Let_def)
    then show ?thesis
      by (intro preserves_andthen preserves_catch of_sum_guarded time_guarded preserves_if preserves_ret again
          store_call_guarded run_fixed_ops audit_event_fixed)
  qed
  show ?case
    unfolding transition_loop.simps
    by (intro preserves_andthen_yields [OF find_run_guarded find_run_fixed_yields]
        preserves_andthen [OF pipeline_of_fixed] body) blast
qed (simp add: preserves_Pair)

text \<open>
  C37: a finished run stays as it is. No pause, resume or cancel request, on this or any other
  run and however it interleaves with other tasks, changes a run that is completed, failed or
  cancelled, as long as the other tasks do not.
\<close>

theorem transition_keeps_terminal:
  assumes "run_state r \<in> TERMINAL_RUN_STATUSES" and "store_inv (w_store w)"
    and "dict_get (mem_runs (w_store w)) k = Some r"
    and "\<And>n s. store_inv s \<Longrightarrow> dict_get (mem_runs s) k = Some r \<Longrightarrow>
      store_inv (w_env w n s) \<and> dict_get (mem_runs (w_env w n s)) k = Some r"
  shows "dict_get (mem_runs (w_store (snd (transition sv ctx run_id action w)))) k = Some r"
proof -
  have "guarded (run_fixed k r) w" using assms by (auto simp: guarded_def run_fixed_def)
  moreover have "preserves (guarded (run_fixed k r)) (transition sv ctx run_id action)"
    unfolding transition_def by (intro preserves_intros transition_loop_fixed assms(1))
  ultimately have "guarded (run_fixed k r) (snd (transition sv ctx run_id action w))"
    by (rule preservesD [rotated])
  then show ?thesis by (simp add: guarded_def run_fixed_def)
qed

theorem transition_keeps_terminal_witness:
  "dict_get (mem_runs (w_store (snd (transition sample_service sample_principal ''r1'' ''cancel''
      (sample_world (sample_run_store FAILED)))))) (store_key ''t'' ''p'' ''r1'') = Some (sample_run ''r1'' FAILED)"
  by (rule transition_keeps_terminal)
     (simp add: sample_run_def TERMINAL_RUN_STATUSES_def, simp add: sample_world_def store_inv_sample_run,
      simp add: sample_world_def sample_run_store_def, simp add: sample_world_def)

end
