(* ===== verification/Run_Results.thy ===== *)
theory Run_Results
  imports Run_Lifecycle
begin

text \<open>
  Results of runs: how \<open>_store_result\<close> writes a result envelope as an index document and shards
  of units, and how \<open>result\<close> and \<open>result_page\<close> read it back. The JSON forms of units and
  envelopes are parameters (\<open>result_codec\<close>); the index of results is a remote call.
\<close>

section \<open>Result envelopes\<close>

record vision_object =
  vo_object_id :: string
  vo_object_type :: string
  vo_score :: "pyfloat option"
  vo_bbox :: "(pyfloat \<times> pyfloat \<times> pyfloat \<times> pyfloat) option"
  vo_polygon :: "(pyfloat \<times> pyfloat) list option"
  vo_track_id :: "string option"
  vo_attributes :: json_dict
  vo_feature_refs :: "string list"
  vo_crop_artifact_id :: "string option"

record media_unit_result =
  mu_unit_id :: string
  mu_unit_type :: string
  mu_index :: int
  mu_pts_ms :: "int option"
  mu_page_number :: "int option"
  mu_width :: int
  mu_height :: int
  mu_objects :: "vision_object list"
  mu_frame_artifact_id :: "string option"

text \<open>
  The payload of a domain as far as the platform reads it: the four attributes it looks up with
  \<open>getattr\<close> (absent ones are empty) and the rest.
\<close>

record domain_payload =
  dp_domain :: string
  dp_persons :: "vision_object list"
  dp_faces :: "vision_object list"
  dp_blocks :: "json list"
  dp_text :: "string option"
  dp_rest :: json_dict

record result_envelope =
  re_schema_version :: string
  re_run_id :: string
  re_domain :: string
  re_pipeline :: pipeline_ref
  re_asset_id :: "string option"
  re_source_id :: "string option"
  re_units :: "media_unit_result list"
  re_domain_payload :: domain_payload
  re_relations :: "json list"
  re_artifacts :: "result_artifact list"
  re_models :: "json list"
  re_timings :: "(string, pyfloat) dict"
  re_media_metadata :: media_technical_metadata
  re_warnings :: "string list"
  re_provenance :: json_dict
  re_created_at :: pyfloat

record result_page =
  rp_result :: result_envelope
  rp_unit_offset :: int
  rp_unit_limit :: int
  rp_unit_total :: int

record result_codec =
  cd_dump_units :: "media_unit_result list \<Rightarrow> string"
  cd_load_units :: "string \<Rightarrow> exn + media_unit_result list"
  cd_dump_result :: "result_envelope \<Rightarrow> string"
  cd_load_result :: "string \<Rightarrow> exn + result_envelope"

definition retention_records :: "artifact_sink \<Rightarrow> pyfloat \<Rightarrow> pyfloat option \<Rightarrow> object_retention_record list" where
  "retention_records sk created_at expires_at =
     map (\<lambda>a. \<lparr>ret_tenant_id = sk_tenant_id sk, ret_project_id = sk_project_id sk,
       ret_object_key = art_object_key a, ret_category = PREVIEW, ret_owner_type = RUN_RESULT,
       ret_owner_id = sk_run_id sk, ret_created_at = created_at, ret_expires_at = expires_at,
       ret_deleted_at = None\<rparr>) (sk_artifacts sk)"

section \<open>Writing a result\<close>

definition get_object :: "'v service \<Rightarrow> string \<Rightarrow> string option \<Rightarrow> (world, string) py" where
  "get_object sv k expected = object_call (\<lambda>fs. (local_get (sv_sha256 sv) k expected fs, fs))"

definition put_object :: "'v service \<Rightarrow> string \<Rightarrow> string \<Rightarrow> string \<Rightarrow> string \<Rightarrow> (world, unit) py" where
  "put_object sv k data content_type category =
     andthen (object_call (local_put (sv_sha256 sv) (sv_meta_encode sv) (sv_meta_decode sv) k data content_type
         (Some (sv_sha256 sv data)) False (Some category))) (\<lambda>_. ret ())"

definition delete_object :: "string \<Rightarrow> (world, bool) py" where
  "delete_object k = object_call (local_delete k)"

text \<open>\<open>xs[i : i + n]\<close> for \<open>i\<close> in \<open>range(0, len(xs), n)\<close>, \<open>n\<close> at least 1.\<close>

function chunks :: "nat \<Rightarrow> 'a list \<Rightarrow> 'a list list" where
  "chunks n xs = (if n = 0 \<or> xs = [] then [] else take n xs # chunks n (drop n xs))"
  by pat_completeness auto
termination by (relation "measure (\<lambda>(n, xs). length xs)") auto

declare chunks.simps [simp del]

text \<open>
  The body of \<open>_store_result\<close> appends to \<open>written_keys\<close>, which its handler reads: the local list
  is carried beside the world.
\<close>

type_synonym writing = "world \<times> string list"

definition in_world :: "(world, 'a) py \<Rightarrow> (world \<times> 'l, 'a) py" where
  "in_world m = (\<lambda>(w, l). case m w of (r, w') \<Rightarrow> (r, (w', l)))"

definition note_written :: "string \<Rightarrow> (writing, unit) py" where
  "note_written k = (\<lambda>(w, l). (Inr (), (w, l @ [k])))"

definition written_keys :: "(writing, string list) py" where
  "written_keys = (\<lambda>(w, l). (Inr l, (w, l)))"

definition shard_key :: "string \<Rightarrow> nat \<Rightarrow> string" where
  "shard_key base_key i = base_key @ ''/units-'' @ zero_pad 6 i @ ''.json''"

fun put_shards ::
  "'v service \<Rightarrow> result_codec \<Rightarrow> string \<Rightarrow> nat \<Rightarrow> media_unit_result list list \<Rightarrow>
    (writing, (string \<times> string \<times> int) list) py" where
  "put_shards sv cd base_key i [] = ret []"
| "put_shards sv cd base_key i (units # rest) =
     (let doc = cd_dump_units cd units; k = shard_key base_key i in
      andthen (in_world (put_object sv k doc ''application/json'' ''structured_result'')) (\<lambda>_.
      andthen (note_written k) (\<lambda>_.
      andthen (put_shards sv cd base_key (Suc i) rest) (\<lambda>shards.
        ret ((k, sv_sha256 sv doc, int (length units)) # shards)))))"

text \<open>The counts of a manifest that lacks them: full shards, the rest in the last one.\<close>

definition default_counts :: "'v service \<Rightarrow> int \<Rightarrow> nat \<Rightarrow> int list" where
  "default_counts sv n_units n =
     (if n = 0 then [] else replicate (n - 1) (int (sv_result_shard_units sv)) @
        [max 0 (n_units - int (sv_result_shard_units sv) * (int n - 1))])"

definition run_base_key :: "run_record \<Rightarrow> string" where
  "run_base_key run = ''tenants/'' @ run_tenant_id run @ ''/projects/'' @ run_project_id run @
     ''/runs/'' @ run_run_id run"

definition write_shards ::
  "'v service \<Rightarrow> result_codec \<Rightarrow> string \<Rightarrow> result_reference option \<Rightarrow> result_envelope \<Rightarrow> bool \<Rightarrow>
    (writing, (string \<times> string \<times> int) list \<times> result_envelope) py" where
  "write_shards sv cd base_key previous result partial =
     (let n = sv_result_shard_units sv in
      if partial then
        let (old, previous_count) = (case previous of
              Some ref \<Rightarrow>
                if ref_index_status ref = INDEX_PARTIAL
                then (let counts = (if length (ref_shard_unit_counts ref) \<noteq> length (ref_shard_keys ref)
                        then default_counts sv (ref_unit_count ref) (length (ref_shard_keys ref))
                        else ref_shard_unit_counts ref)
                      in zip (ref_shard_keys ref) (zip (ref_shard_sha256 ref) counts), ref_unit_count ref)
                else ([], 0)
            | None \<Rightarrow> ([], 0)) in
        if int (length (re_units result)) < previous_count
        then throw (PipelineError ''partial result unit count must be monotonic'')
        else if n = 0 then throw (ValueError ''range() arg 3 must not be zero'')
        else andthen (put_shards sv cd base_key (length old) (chunks n (drop (nat previous_count) (re_units result))))
          (\<lambda>new. ret (old @ new, result\<lparr>re_units := []\<rparr>))
      else if n < length (re_units result) then
        if n = 0 then throw (ValueError ''range() arg 3 must not be zero'')
        else andthen (put_shards sv cd base_key 0 (chunks n (re_units result)))
          (\<lambda>new. ret (new, result\<lparr>re_units := []\<rparr>))
      else ret ([], result))"

definition result_reference_of ::
  "run_record \<Rightarrow> result_envelope \<Rightarrow> string \<Rightarrow> string \<Rightarrow> (string \<times> string \<times> int) list \<Rightarrow>
    media_asset option \<Rightarrow> media_source option \<Rightarrow> bool \<Rightarrow> result_reference" where
  "result_reference_of run result k digest shards asset source partial =
     \<lparr>ref_run_id = run_run_id run, ref_schema_version = ''1.0'', ref_object_key = k, ref_sha256 = digest,
      ref_unit_count = int (length (re_units result)), ref_shard_keys = map fst shards,
      ref_shard_sha256 = map (fst \<circ> snd) shards, ref_shard_unit_counts = map (snd \<circ> snd) shards,
      ref_domain = re_domain result, ref_created_at = re_created_at result,
      ref_asset_id = run_asset_id run, ref_source_id = run_source_id run,
      ref_media_kind = (case asset of Some a \<Rightarrow> Some (asset_kind a)
        | None \<Rightarrow> (case source of Some _ \<Rightarrow> Some STREAM | None \<Rightarrow> None)),
      ref_resource_name = (case asset of Some a \<Rightarrow> asset_filename a
        | None \<Rightarrow> (case source of Some s \<Rightarrow> Some (source_name s) | None \<Rightarrow> None)),
      ref_object_count = int (sum_list (map (length \<circ> mu_objects) (re_units result))),
      ref_person_count = int (length (dp_persons (re_domain_payload result))),
      ref_face_count = int (length (dp_faces (re_domain_payload result))),
      ref_ocr_block_count = int (length (dp_blocks (re_domain_payload result))),
      ref_text_length = int (length (or_empty (dp_text (re_domain_payload result)))),
      ref_warning_count = int (length (re_warnings result)),
      ref_index_status = (if partial then INDEX_PARTIAL else INDEX_READY)\<rparr>"

definition result_retention :: "'v service \<Rightarrow> run_record \<Rightarrow> string \<Rightarrow> object_retention_record" where
  "result_retention sv run k = \<lparr>ret_tenant_id = run_tenant_id run, ret_project_id = run_project_id run,
     ret_object_key = k, ret_category = STRUCTURED_RESULT, ret_owner_type = RUN_RESULT,
     ret_owner_id = run_run_id run, ret_created_at = run_created_at run,
     ret_expires_at = Some (run_created_at run + of_int (sv_structured_result_retention_days sv) * 86400),
     ret_deleted_at = None\<rparr>"

text \<open>Drop the objects of the reference that is replaced, but not the shards that are reused.\<close>

definition drop_previous :: "result_reference option \<Rightarrow> result_reference \<Rightarrow> (world, unit) py" where
  "drop_previous previous reference = (case previous of
     None \<Rightarrow> ret ()
   | Some prev \<Rightarrow>
       if ref_object_key prev = ref_object_key reference then ret ()
       else
         let previous_keys = ref_object_key prev #
           filter (\<lambda>k. k \<notin> set (ref_shard_keys reference)) (ref_shard_keys prev) in
         andthen (for_each previous_keys (\<lambda>k. suppress (delete_object k))) (\<lambda>_.
         andthen time_time (\<lambda>now. suppress (store_call (mark_objects_deleted previous_keys now)))))"

definition save_result ::
  "'v service \<Rightarrow> result_codec \<Rightarrow> run_record \<Rightarrow> result_envelope \<Rightarrow> artifact_sink option \<Rightarrow> bool \<Rightarrow> bool \<Rightarrow>
    result_reference option \<Rightarrow> (writing, result_reference) py" where
  "save_result sv cd run result sink indexed partial previous =
     (let base_key = (if partial then run_base_key run @ ''/partial'' else run_base_key run) in
      andthen (write_shards sv cd base_key previous result partial) (\<lambda>(shards, index_result).
        let doc = cd_dump_result cd index_result in
        andthen (if partial
            then andthen (in_world uuid4_hex) (\<lambda>u. ret (base_key @ ''/result-'' @
              zero_pad 12 (length (re_units result)) @ ''-'' @ u @ ''.json''))
            else ret (base_key @ ''/result.json'')) (\<lambda>result_key.
        andthen (in_world (put_object sv result_key doc ''application/json'' ''structured_result'')) (\<lambda>_.
        andthen (if (case previous of None \<Rightarrow> True | Some prev \<Rightarrow> ref_object_key prev \<noteq> result_key)
                 then note_written result_key else ret ()) (\<lambda>_.
        andthen (if truthy (run_asset_id run)
                 then in_world (store_read (get_asset (run_tenant_id run) (run_project_id run) (or_empty (run_asset_id run))))
                 else ret None) (\<lambda>asset.
        andthen (if truthy (run_source_id run)
                 then in_world (store_read (get_source (run_tenant_id run) (run_project_id run) (or_empty (run_source_id run))))
                 else ret None) (\<lambda>source.
          let reference = result_reference_of run result result_key (sv_sha256 sv doc) shards asset source partial in
        andthen written_keys (\<lambda>keys.
        andthen (in_world (for_each keys (\<lambda>k. store_call (track_object (result_retention sv run k))))) (\<lambda>_.
        andthen (case sink of None \<Rightarrow> ret () | Some sk \<Rightarrow>
                 if partial then ret () else
                   in_world (for_each (retention_records sk (run_created_at run)
                       (Some (run_created_at run + of_int (sv_preview_retention_days sv) * 86400)))
                     (\<lambda>r. store_call (track_object r)))) (\<lambda>_.
        andthen (if \<not> partial \<and> indexed
                 then catch (andthen (in_world (remote_call (Inr ()))) (\<lambda>_. ret reference))
                        (\<lambda>_. ret (reference\<lparr>ref_index_status := INDEX_PARTIAL\<rparr>))
                 else ret reference) (\<lambda>final.
        andthen (in_world (store_call (save_result_reference (run_tenant_id run) (run_project_id run) final))) (\<lambda>_.
        andthen (in_world (drop_previous previous final)) (\<lambda>_. ret final)))))))))))))"

definition store_result ::
  "'v service \<Rightarrow> result_codec \<Rightarrow> run_record \<Rightarrow> result_envelope \<Rightarrow> artifact_sink option \<Rightarrow> bool \<Rightarrow> bool \<Rightarrow>
    (world, result_reference) py" where
  "store_result sv cd run result sink indexed partial =
     andthen (store_read (get_result_reference (run_tenant_id run) (run_project_id run) (run_run_id run))) (\<lambda>previous w.
       case save_result sv cd run result sink indexed partial previous (w, []) of
         (Inr reference, (w', _)) \<Rightarrow> (Inr reference, w')
       | (Inl e, (w', keys)) \<Rightarrow>
           if e = CancelledError then (Inl e, w')
           else andthen (for_each keys (\<lambda>k. suppress (delete_object k))) (\<lambda>_.
             andthen time_time (\<lambda>now.
             andthen (suppress (store_call (mark_objects_deleted keys now))) (\<lambda>_. throw e))) w')"

section \<open>Reading a result\<close>

definition synthetic_result :: "run_record \<Rightarrow> result_envelope" where
  "synthetic_result run = \<lparr>re_schema_version = ''1.0'', re_run_id = run_run_id run, re_domain = run_domain run,
     re_pipeline = run_pipeline run, re_asset_id = run_asset_id run, re_source_id = run_source_id run,
     re_units = [], re_domain_payload = \<lparr>dp_domain = run_domain run, dp_persons = [], dp_faces = [],
       dp_blocks = [], dp_text = None, dp_rest = []\<rparr>,
     re_relations = [], re_artifacts = [], re_models = [], re_timings = [],
     re_media_metadata = empty_metadata, re_warnings = [],
     re_provenance = [(''source_sha256'', JNull), (''generated_by'', JStr ''scenara''),
       (''development_substitutes'', JList [])],
     re_created_at = run_created_at run\<rparr>"

definition synthetic_reference :: "run_record \<Rightarrow> result_reference" where
  "synthetic_reference run = \<lparr>ref_run_id = run_run_id run, ref_schema_version = ''1.0'', ref_object_key = [],
     ref_sha256 = replicate 64 (CHR ''0''), ref_unit_count = 0, ref_shard_keys = [], ref_shard_sha256 = [],
     ref_shard_unit_counts = [], ref_domain = run_domain run, ref_created_at = run_created_at run,
     ref_asset_id = run_asset_id run, ref_source_id = run_source_id run, ref_media_kind = None,
     ref_resource_name = None, ref_object_count = 0, ref_person_count = 0, ref_face_count = 0,
     ref_ocr_block_count = 0, ref_text_length = 0, ref_warning_count = 0, ref_index_status = INDEX_READY\<rparr>"

definition result_index ::
  "'v service \<Rightarrow> result_codec \<Rightarrow> principal_context \<Rightarrow> string \<Rightarrow> (world, result_envelope \<times> result_reference) py" where
  "result_index sv cd ctx run_id =
     andthen (find_run ctx run_id) (\<lambda>run.
     andthen (store_read (get_result_reference (ctx_tenant_id ctx) (ctx_project_id ctx) run_id)) (\<lambda>found.
       case found of
         None \<Rightarrow>
           if run_state run \<in> {CANCELLED, CANCELLING, QUEUED, RUNNING, FAILED}
           then ret (synthetic_result run, synthetic_reference run)
           else throw (ResourceNotFound ''run result is not available'')
       | Some reference \<Rightarrow>
           if ref_object_key reference = [] \<and> ref_unit_count reference = 0
           then ret (synthetic_result run, reference)
           else
             andthen (get_object sv (ref_object_key reference) (Some (ref_sha256 reference))) (\<lambda>doc.
               if sv_sha256 sv doc \<noteq> ref_sha256 reference
               then throw (PipelineError ''stored result checksum does not match its database reference'')
               else andthen (of_sum (cd_load_result cd doc)) (\<lambda>result. ret (result, reference)))))"

definition load_shard ::
  "'v service \<Rightarrow> result_codec \<Rightarrow> string \<times> string \<Rightarrow> (world, media_unit_result list) py" where
  "load_shard sv cd entry =
     andthen (get_object sv (fst entry) (Some (snd entry))) (\<lambda>doc.
       if sv_sha256 sv doc \<noteq> snd entry
       then throw (PipelineError ''stored result shard checksum does not match its reference'')
       else of_sum (cd_load_units cd doc))"

definition service_result ::
  "'v service \<Rightarrow> result_codec \<Rightarrow> principal_context \<Rightarrow> string \<Rightarrow> (world, result_envelope) py" where
  "service_result sv cd ctx run_id =
     andthen (allow sv ctx ''read'' ''run'' [(''run_id'', JStr run_id)]) (\<lambda>_.
     andthen (result_index sv cd ctx run_id) (\<lambda>(result, reference).
       if ref_shard_keys reference = [] then ret result
       else if length (ref_shard_keys reference) \<noteq> length (ref_shard_sha256 reference)
       then throw (PipelineError ''stored result shard manifest is invalid'')
       else
         andthen (map_py (load_shard sv cd) (zip (ref_shard_keys reference) (ref_shard_sha256 reference))) (\<lambda>shards.
           let units = concat shards in
           if int (length units) \<noteq> ref_unit_count reference
           then throw (PipelineError ''stored result shard count does not match its reference'')
           else ret (result\<lparr>re_units := units\<rparr>))))"

text \<open>The shards that overlap the page, each with its first and last unit number.\<close>

fun select_shards :: "int \<Rightarrow> int \<Rightarrow> int \<Rightarrow> (string \<times> string \<times> int) list \<Rightarrow> (string \<times> string \<times> int \<times> int) list" where
  "select_shards off page_end cursor [] = []"
| "select_shards off page_end cursor ((k, digest, cnt) # rest) =
     (let shard_end = cursor + cnt;
          tail = select_shards off page_end shard_end rest in
      if cursor < page_end \<and> shard_end > off then (k, digest, cursor, shard_end) # tail else tail)"

definition load_selected ::
  "'v service \<Rightarrow> result_codec \<Rightarrow> int \<Rightarrow> int \<Rightarrow> string \<times> string \<times> int \<times> int \<Rightarrow> (world, media_unit_result list) py" where
  "load_selected sv cd off page_end entry = (case entry of (k, digest, shard_start, shard_end) \<Rightarrow>
     andthen (load_shard sv cd (k, digest)) (\<lambda>parsed.
       ret (py_slice parsed (max 0 (off - shard_start)) (min shard_end page_end - shard_start))))"

definition service_result_page ::
  "'v service \<Rightarrow> result_codec \<Rightarrow> principal_context \<Rightarrow> string \<Rightarrow> int \<Rightarrow> int \<Rightarrow> (world, result_page) py" where
  "service_result_page sv cd ctx run_id off lmt =
     andthen (allow sv ctx ''read'' ''run'' [(''run_id'', JStr run_id)]) (\<lambda>_.
     andthen (result_index sv cd ctx run_id) (\<lambda>(result, reference).
       let n_units = ref_unit_count reference; page_end = min n_units (off + lmt) in
       andthen
         (if off \<ge> n_units then ret []
          else if ref_shard_keys reference = [] then ret (py_slice (re_units result) off page_end)
          else if length (ref_shard_keys reference) \<noteq> length (ref_shard_sha256 reference)
          then throw (PipelineError ''stored result shard manifest is invalid'')
          else
            let counts = (if length (ref_shard_unit_counts reference) \<noteq> length (ref_shard_keys reference)
                  then default_counts sv n_units (length (ref_shard_keys reference))
                  else ref_shard_unit_counts reference);
                selected = select_shards off page_end 0
                  (zip (ref_shard_keys reference) (zip (ref_shard_sha256 reference) counts))
            in andthen (map_py (load_selected sv cd off page_end) selected) (\<lambda>pages. ret (concat pages)))
         (\<lambda>units. ret \<lparr>rp_result = result\<lparr>re_units := units\<rparr>, rp_unit_offset = off, rp_unit_limit = lmt,
            rp_unit_total = n_units\<rparr>)))"

definition result_artifact_bytes ::
  "'v service \<Rightarrow> result_codec \<Rightarrow> principal_context \<Rightarrow> string \<Rightarrow> string \<Rightarrow> (world, string \<times> string \<times> string) py" where
  "result_artifact_bytes sv cd ctx run_id artifact_id =
     andthen (allow sv ctx ''read'' ''run'' [(''run_id'', JStr run_id)]) (\<lambda>_.
     andthen (result_index sv cd ctx run_id) (\<lambda>(result, _).
       case filter (\<lambda>a. art_artifact_id a = artifact_id) (re_artifacts result) of
         [] \<Rightarrow> throw (ResourceNotFound ''run artifact not found'')
       | a # _ \<Rightarrow>
           andthen (catch (get_object sv (art_object_key a) (Some (art_sha256 a)))
               (\<lambda>_. throw (ResourceNotFound ''run artifact is no longer stored''))) (\<lambda>data.
             if sv_sha256 sv data \<noteq> art_sha256 a
             then throw (PipelineError ''stored run artifact checksum does not match its result reference'')
             else ret (data, art_content_type a, art_sha256 a))))"

section \<open>Total correctness of reads\<close>

text \<open>\<open>gives I x m\<close>: from every state that satisfies \<open>I\<close>, \<open>m\<close> returns \<open>x\<close> and ends in such a state.\<close>

definition gives :: "('s \<Rightarrow> bool) \<Rightarrow> 'a \<Rightarrow> ('s, 'a) py \<Rightarrow> bool" where
  "gives I x m \<longleftrightarrow> (\<forall>s. I s \<longrightarrow> (\<exists>s'. m s = (Inr x, s') \<and> I s'))"

named_theorems gives_intros \<open>a computation returns a given value\<close>

lemma gives_ret [gives_intros]: "gives I x (ret x)"
  by (simp add: gives_def)

lemma gives_Pair [gives_intros]: "gives I x (Pair (Inr x))"
  by (simp add: gives_def)

lemma gives_andthen [gives_intros]: "gives I x m \<Longrightarrow> gives I y (f x) \<Longrightarrow> gives I y (andthen m f)"
  unfolding gives_def by (metis andthen_Inr)

lemma gives_of_sum [gives_intros]: "r = Inr x \<Longrightarrow> gives I x (of_sum r)"
  by (simp add: gives_def of_sum_def)

lemma gives_map_py: "list_all2 (\<lambda>x y. gives I y (f x)) xs ys \<Longrightarrow> gives I ys (map_py f xs)"
  by (induction rule: list_all2_induct) (auto intro!: gives_intros)

lemma gives_fst: "gives I x m \<Longrightarrow> I w \<Longrightarrow> fst (m w) = Inr x"
  by (auto simp: gives_def)

text \<open>
  A world in which nothing fails, other tasks leave runs and results alone, and the objects,
  runs and results are the given ones.
\<close>

definition reading :: "files \<Rightarrow> (key3, run_record) dict \<Rightarrow> (key3, result_reference) dict \<Rightarrow> world \<Rightarrow> bool" where
  "reading fs runs results w \<longleftrightarrow> w_objects w = fs \<and> mem_runs (w_store w) = runs \<and>
     mem_results (w_store w) = results \<and> (\<forall>n. w_fault w n = None) \<and>
     (\<forall>n s. mem_runs (w_env w n s) = mem_runs s \<and> mem_results (w_env w n s) = mem_results s)"

lemma gives_store_read:
  assumes "\<And>s. mem_runs s = runs \<Longrightarrow> mem_results s = results \<Longrightarrow> f s = x"
  shows "gives (reading fs runs results) x (store_read f)"
  using assms by (auto simp: gives_def reading_def store_read_def store_call_def Let_def)

lemma gives_get_object:
  "local_get (sv_sha256 sv) k expected fs = Inr d \<Longrightarrow>
   gives (reading fs runs results) d (get_object sv k expected)"
  by (auto simp: gives_def reading_def get_object_def object_call_def tick_def)

lemma gives_allow:
  "require_allowed (sv_policy sv) ctx action resource attributes = Inr d \<Longrightarrow>
   gives (reading fs runs results) () (allow sv ctx action resource attributes)"
  by (auto simp: gives_def reading_def allow_def remote_call_def andthen_def tick_def)

section \<open>Documents that hold a result\<close>

definition holds_doc :: "'v service \<Rightarrow> files \<Rightarrow> string \<Rightarrow> string \<Rightarrow> string \<Rightarrow> bool" where
  "holds_doc sv fs k digest doc \<longleftrightarrow>
     local_get (sv_sha256 sv) k (Some digest) fs = Inr doc \<and> sv_sha256 sv doc = digest"

definition holds_shard ::
  "'v service \<Rightarrow> result_codec \<Rightarrow> files \<Rightarrow> string \<times> string \<times> int \<Rightarrow> media_unit_result list \<Rightarrow> bool" where
  "holds_shard sv cd fs shard units \<longleftrightarrow> (case shard of (k, digest, c) \<Rightarrow>
     \<exists>doc. holds_doc sv fs k digest doc \<and> cd_load_units cd doc = Inr units \<and> c = int (length units))"

definition ref_shards :: "result_reference \<Rightarrow> (string \<times> string \<times> int) list" where
  "ref_shards ref = zip (ref_shard_keys ref) (zip (ref_shard_sha256 ref) (ref_shard_unit_counts ref))"

definition manifest_ok :: "result_reference \<Rightarrow> bool" where
  "manifest_ok ref \<longleftrightarrow> length (ref_shard_sha256 ref) = length (ref_shard_keys ref) \<and>
     length (ref_shard_unit_counts ref) = length (ref_shard_keys ref)"

definition holds_result ::
  "'v service \<Rightarrow> result_codec \<Rightarrow> files \<Rightarrow> result_reference \<Rightarrow> result_envelope \<Rightarrow> bool" where
  "holds_result sv cd fs ref res \<longleftrightarrow> ref_object_key ref \<noteq> [] \<and> manifest_ok ref \<and>
     ref_unit_count ref = int (length (re_units res)) \<and>
     (\<exists>doc index parts. holds_doc sv fs (ref_object_key ref) (ref_sha256 ref) doc \<and>
        cd_load_result cd doc = Inr index \<and> list_all2 (holds_shard sv cd fs) (ref_shards ref) parts \<and>
        (if ref_shard_keys ref = [] then index = res
         else index = res\<lparr>re_units := []\<rparr> \<and> concat parts = re_units res))"

lemma gives_result_index:
  assumes run: "dict_get runs (store_key (ctx_tenant_id ctx) (ctx_project_id ctx) run_id) = Some run"
    and ref: "dict_get results (store_key (ctx_tenant_id ctx) (ctx_project_id ctx) run_id) = Some ref"
    and key: "ref_object_key ref \<noteq> []"
    and doc: "holds_doc sv fs (ref_object_key ref) (ref_sha256 ref) doc" "cd_load_result cd doc = Inr index"
  shows "gives (reading fs runs results) (index, ref) (result_index sv cd ctx run_id)"
proof -
  have found: "gives (reading fs runs results) run (find_run ctx run_id)"
    unfolding find_run_def
    by (rule gives_andthen [OF gives_store_read [where x = "Some run"]]) (auto simp: get_run_def run intro: gives_intros)
  have "gives (reading fs runs results) (Some ref)
      (store_read (get_result_reference (ctx_tenant_id ctx) (ctx_project_id ctx) run_id))"
    by (rule gives_store_read) (simp add: get_result_reference_def ref)
  moreover have "gives (reading fs runs results) doc (get_object sv (ref_object_key ref) (Some (ref_sha256 ref)))"
    using doc(1) by (intro gives_get_object) (simp add: holds_doc_def)
  ultimately show ?thesis
    unfolding result_index_def
    by (intro gives_andthen [OF found] gives_andthen [where x = "Some ref"])
       (use key doc in \<open>auto simp: holds_doc_def intro!: gives_andthen [where x = doc] gives_andthen [where x = index] gives_intros\<close>)
qed

lemma gives_load_shard:
  assumes "holds_shard sv cd fs (k, digest, c) units"
  shows "gives (reading fs runs results) units (load_shard sv cd (k, digest))"
proof -
  from assms obtain doc where doc: "holds_doc sv fs k digest doc" "cd_load_units cd doc = Inr units"
    by (auto simp: holds_shard_def)
  then have "gives (reading fs runs results) doc (get_object sv k (Some digest))"
    by (intro gives_get_object) (simp add: holds_doc_def)
  with doc show ?thesis
    unfolding load_shard_def by (intro gives_andthen [where x = doc]) (auto simp: holds_doc_def intro: gives_of_sum)
qed

lemma gives_load_shards:
  assumes "list_all2 (holds_shard sv cd fs) shards parts"
  shows "gives (reading fs runs results) parts (map_py (load_shard sv cd) (map (\<lambda>(k, d, _). (k, d)) shards))"
  using assms by (intro gives_map_py)
    (auto simp: list_all2_map1 intro: gives_load_shard elim!: list_all2_mono)

lemma zip_ref_shards:
  "manifest_ok ref \<Longrightarrow> zip (ref_shard_keys ref) (ref_shard_sha256 ref) = map (\<lambda>(k, d, _). (k, d)) (ref_shards ref)"
  unfolding manifest_ok_def ref_shards_def
  by (rule nth_equalityI) auto

lemma gives_service_result:
  assumes run: "dict_get runs (store_key (ctx_tenant_id ctx) (ctx_project_id ctx) run_id) = Some run"
    and ref: "dict_get results (store_key (ctx_tenant_id ctx) (ctx_project_id ctx) run_id) = Some ref"
    and held: "holds_result sv cd fs ref res"
    and allowed: "require_allowed (sv_policy sv) ctx ''read'' ''run'' [(''run_id'', JStr run_id)] = Inr dec"
  shows "gives (reading fs runs results) res (service_result sv cd ctx run_id)"
proof -
  from held obtain doc index parts where doc: "holds_doc sv fs (ref_object_key ref) (ref_sha256 ref) doc"
      "cd_load_result cd doc = Inr index"
      and parts: "list_all2 (holds_shard sv cd fs) (ref_shards ref) parts"
      and res: "if ref_shard_keys ref = [] then index = res
        else index = res\<lparr>re_units := []\<rparr> \<and> concat parts = re_units res"
      and ok: "manifest_ok ref" "ref_object_key ref \<noteq> []" "ref_unit_count ref = int (length (re_units res))"
    unfolding holds_result_def by blast
  note index = gives_result_index [OF run ref ok(2) doc]
  show ?thesis
  proof (cases "ref_shard_keys ref = []")
    case True
    with res show ?thesis
      unfolding service_result_def
      by (intro gives_andthen [OF gives_allow [OF allowed]] gives_andthen [OF index]) (auto intro: gives_ret)
  next
    case False
    have "res = index\<lparr>re_units := concat parts\<rparr>" using False res by simp
    moreover have "length (ref_shard_keys ref) = length (ref_shard_sha256 ref)" using ok(1) by (simp add: manifest_ok_def)
    ultimately show ?thesis
      using False res ok
      unfolding service_result_def zip_ref_shards [OF ok(1)]
      by (intro gives_andthen [OF gives_allow [OF allowed]] gives_andthen [OF index])
         (auto simp: zip_ref_shards Let_def intro!: gives_andthen [OF gives_load_shards [OF parts]] gives_ret)
  qed
qed

section \<open>Pages\<close>

text \<open>The part of each shard that falls into the page from unit \<open>a\<close> to unit \<open>b\<close>; \<open>c\<close> counts the units before.\<close>

fun page_parts :: "nat \<Rightarrow> nat \<Rightarrow> nat \<Rightarrow> 'a list list \<Rightarrow> 'a list list" where
  "page_parts a b c [] = []"
| "page_parts a b c (u # us) =
     (if c < b \<and> a < c + length u then [take (min (c + length u) b - c - (a - c)) (drop (a - c) u)] else []) @
     page_parts a b (c + length u) us"

lemma concat_page_parts:
  "concat (page_parts a b c us) = take (b - max a c) (drop (a - c) (concat us))"
proof (induction us arbitrary: c)
  case (Cons u us)
  let ?l = "length u"
  consider "b \<le> c" | "c < b" "c + ?l \<le> a" | "c < b" "a < c + ?l" by linarith
  then show ?case
  proof cases
    case 3
    have first: "take (min (c + ?l) b - c - (a - c)) (drop (a - c) u) = take (b - max a c) (drop (a - c) u)"
      using 3 by (cases "c + ?l \<le> b") (auto simp: min_def max_def)
    have rest: "b - max a c - (?l - (a - c)) = b - max a (c + ?l)" "a - c - ?l = a - (c + ?l)"
      using 3 by auto
    show ?thesis using 3 Cons.IH [of "c + ?l"] first rest by simp
  next
    case 2
    then have "max a c = a" "max a (c + ?l) = a" "a - c - ?l = a - (c + ?l)" by auto
    with 2 Cons.IH [of "c + ?l"] show ?thesis by simp
  qed (use Cons.IH [of "c + length u"] in simp)
qed simp

lemma gives_load_selected:
  assumes "list_all2 (holds_shard sv cd fs) shards parts"
  shows "list_all2 (\<lambda>entry pg. gives (reading fs runs results) pg (load_selected sv cd (int a) (int b) entry))
    (select_shards (int a) (int b) (int c) shards) (page_parts a b c parts)"
  using assms
proof (induction arbitrary: c rule: list_all2_induct)
  case (Cons shard shards u us)
  obtain k d n where shard: "shard = (k, d, n)" by (cases shard)
  with Cons have n: "n = int (length u)" by (auto simp: holds_shard_def)
  have end_eq: "int c + n = int (c + length u)" using n by simp
  have here: "gives (reading fs runs results) (take (min (c + length u) b - c - (a - c)) (drop (a - c) u))
      (load_selected sv cd (int a) (int b) (k, d, int c, int (c + length u)))" if "c < b"
  proof -
    have "max 0 (int a - int c) = int (a - c)"
        "min (int (c + length u)) (int b) - int c = int (min (c + length u) b - c)"
      using that by auto
    moreover have "gives (reading fs runs results) u (load_shard sv cd (k, d))"
      using Cons.hyps(1) shard by (auto intro: gives_load_shard)
    ultimately show ?thesis
      unfolding load_selected_def prod.case
      by (intro gives_andthen [where x = u]) (simp_all only: py_slice_nat gives_ret)
  qed
  show ?case using Cons.IH [of "c + length u"] here by (simp add: shard Let_def end_eq)
qed simp

lemma gives_service_result_page:
  assumes run: "dict_get runs (store_key (ctx_tenant_id ctx) (ctx_project_id ctx) run_id) = Some run"
    and ref: "dict_get results (store_key (ctx_tenant_id ctx) (ctx_project_id ctx) run_id) = Some ref"
    and held: "holds_result sv cd fs ref res"
    and allowed: "require_allowed (sv_policy sv) ctx ''read'' ''run'' [(''run_id'', JStr run_id)] = Inr dec"
  shows "gives (reading fs runs results) \<lparr>rp_result = res\<lparr>re_units := take l (drop a (re_units res))\<rparr>,
      rp_unit_offset = int a, rp_unit_limit = int l, rp_unit_total = int (length (re_units res))\<rparr>
    (service_result_page sv cd ctx run_id (int a) (int l))"
proof -
  from held obtain doc index parts where doc: "holds_doc sv fs (ref_object_key ref) (ref_sha256 ref) doc"
      "cd_load_result cd doc = Inr index"
      and parts: "list_all2 (holds_shard sv cd fs) (ref_shards ref) parts"
      and res: "if ref_shard_keys ref = [] then index = res
        else index = res\<lparr>re_units := []\<rparr> \<and> concat parts = re_units res"
      and ok: "manifest_ok ref" "ref_object_key ref \<noteq> []" "ref_unit_count ref = int (length (re_units res))"
    unfolding holds_result_def by blast
  note index = gives_result_index [OF run ref ok(2) doc]
  let ?n = "length (re_units res)"
  let ?e = "min ?n (a + l)"
  have page_end: "min (ref_unit_count ref) (int a + int l) = int ?e" using ok(3) by simp
  have cut: "take (?e - a) (drop a (re_units res)) = take l (drop a (re_units res))" by (simp add: min_def)
  have same: "index\<lparr>re_units := x\<rparr> = res\<lparr>re_units := x\<rparr>" for x using res by (auto split: if_splits)
  have units: "gives (reading fs runs results) (take l (drop a (re_units res)))
      (if int a \<ge> ref_unit_count ref then ret []
       else if ref_shard_keys ref = [] then ret (py_slice (re_units index) (int a) (int ?e))
       else if length (ref_shard_keys ref) \<noteq> length (ref_shard_sha256 ref)
       then throw (PipelineError ''stored result shard manifest is invalid'')
       else
         let counts = (if length (ref_shard_unit_counts ref) \<noteq> length (ref_shard_keys ref)
               then default_counts sv (ref_unit_count ref) (length (ref_shard_keys ref))
               else ref_shard_unit_counts ref);
             selected = select_shards (int a) (int ?e) 0
               (zip (ref_shard_keys ref) (zip (ref_shard_sha256 ref) counts))
         in andthen (map_py (load_selected sv cd (int a) (int ?e)) selected) (\<lambda>pages. ret (concat pages)))"
  proof -
    consider "?n \<le> a" | "a < ?n" "ref_shard_keys ref = []" | "a < ?n" "ref_shard_keys ref \<noteq> []" by linarith
    then show ?thesis
    proof cases
      case 1
      then show ?thesis using ok(3) by (auto intro: gives_ret)
    next
      case 2
      with res ok(3) show ?thesis by (simp add: py_slice_nat cut gives_ret del: of_nat_min)
    next
      case 3
      have "gives (reading fs runs results) (page_parts a ?e 0 parts)
          (map_py (load_selected sv cd (int a) (int ?e)) (select_shards (int a) (int ?e) 0 (ref_shards ref)))"
        using gives_load_selected [OF parts, of runs results a ?e 0] by (intro gives_map_py) simp
      moreover have "concat (page_parts a ?e 0 parts) = take l (drop a (re_units res))"
        using 3 res cut by (simp add: concat_page_parts)
      ultimately show ?thesis
        using 3 ok unfolding manifest_ok_def
        by (simp add: Let_def ref_shards_def del: of_nat_min) (metis gives_andthen gives_ret)
    qed
  qed
  show ?thesis
    unfolding service_result_page_def
    by (intro gives_andthen [OF gives_allow [OF allowed]] gives_andthen [OF index])
       (simp only: Let_def prod.case page_end, rule gives_andthen [OF units [unfolded Let_def]],
        simp add: same ok(3) gives_intros)
qed

end
