(* ===== verification/Result_Storage.thy ===== *)
theory Result_Storage
  imports Run_Results
begin

text \<open>
  That a stored result reads back: total-correctness triples for the calls of \<open>_store_result\<close>,
  the documents it leaves in the object store, and the round trip through \<open>result\<close> and
  \<open>result_page\<close>.
\<close>

section \<open>File names\<close>

lemma shard_key_inj [simp]: "shard_key b i = shard_key b j \<longleftrightarrow> i = j"
  by (simp add: shard_key_def zero_pad_inj)

lemma last_nat_str: "\<exists>s d. nat_str n = s @ [char_of (48 + d)] \<and> d < (10 :: nat)"
proof (cases "n < 10")
  case True
  then show ?thesis by (intro exI [of _ "[]"] exI [of _ n]) (simp add: nat_str.simps)
next
  case False
  then show ?thesis by (intro exI [of _ "nat_str (n div 10)"] exI [of _ "n mod 10"]) (simp add: nat_str.simps [of n])
qed

text \<open>The character before the extension tells metadata files from documents.\<close>

lemma metadata_path_tail: "rev (metadata_path k) ! 5 = CHR ''a''"
  by (simp add: metadata_path_def)

lemma shard_key_tail: "\<exists>d < 10. rev (shard_key b i) ! 5 = char_of (48 + d :: nat)"
proof -
  obtain s d where sd: "nat_str i = s @ [char_of (48 + d)]" "d < (10 :: nat)" using last_nat_str by blast
  have "rev (shard_key b i) ! 5 = char_of (48 + d)"
    by (simp add: shard_key_def zero_pad_def Let_def sd)
  with sd show ?thesis by blast
qed

lemma digit_not_a: "d < (10 :: nat) \<Longrightarrow> char_of (48 + d) \<noteq> CHR ''a''"
proof
  assume "d < 10" and "char_of (48 + d) = CHR ''a''"
  then have "(of_char (char_of (48 + d) :: char) :: nat) = of_char (CHR ''a'')" by simp
  with \<open>d < 10\<close> show False by (simp add: of_char_of)
qed

lemma digit_not_t: "d < (10 :: nat) \<Longrightarrow> char_of (48 + d) \<noteq> CHR ''t''"
proof
  assume "d < 10" and "char_of (48 + d) = CHR ''t''"
  then have "(of_char (char_of (48 + d) :: char) :: nat) = of_char (CHR ''t'')" by simp
  with \<open>d < 10\<close> show False by (simp add: of_char_of)
qed

lemma tail_neq: "rev x ! 5 \<noteq> rev y ! 5 \<Longrightarrow> x \<noteq> y"
  by auto

lemma result_key_tail: "rev (b @ ''/result.json'') ! 5 = CHR ''t''"
  by simp

lemma keys_apart [simp]:
  "shard_key b i \<noteq> metadata_path k"
  "b' @ ''/result.json'' \<noteq> metadata_path k"
  "shard_key b i \<noteq> b' @ ''/result.json''"
proof -
  obtain d where d: "d < 10" "rev (shard_key b i) ! 5 = char_of (48 + d :: nat)" using shard_key_tail by blast
  show "shard_key b i \<noteq> metadata_path k"
    by (rule tail_neq) (simp only: d(2) metadata_path_tail digit_not_a [OF d(1)] not_False_eq_True)
  show "b' @ ''/result.json'' \<noteq> metadata_path k"
    by (rule tail_neq) (simp only: result_key_tail metadata_path_tail, simp)
  show "shard_key b i \<noteq> b' @ ''/result.json''"
    by (rule tail_neq) (simp only: d(2) result_key_tail digit_not_t [OF d(1)] not_False_eq_True)
qed

lemma concat_chunks: "0 < n \<Longrightarrow> concat (chunks n xs) = xs"
proof (induction n xs rule: chunks.induct)
  case (1 n xs)
  then show ?case by (cases "xs = []") (simp_all add: chunks.simps [of n xs] chunks.simps [of n "[]"])
qed

section \<open>Storing a result\<close>

text \<open>Total correctness: from a state with \<open>P\<close>, \<open>m\<close> returns and the value and state satisfy \<open>Q\<close>.\<close>

definition hoare :: "('s \<Rightarrow> bool) \<Rightarrow> ('s, 'a) py \<Rightarrow> ('a \<Rightarrow> 's \<Rightarrow> bool) \<Rightarrow> bool" where
  "hoare P m Q \<longleftrightarrow> (\<forall>s. P s \<longrightarrow> (\<exists>x s'. m s = (Inr x, s') \<and> Q x s'))"

lemma hoare_ret: "(\<And>s. P s \<Longrightarrow> Q x s) \<Longrightarrow> hoare P (ret x) Q"
  by (auto simp: hoare_def)

lemma hoare_andthen:
  "hoare P m R \<Longrightarrow> (\<And>x. hoare (R x) (f x) Q) \<Longrightarrow> hoare P (andthen m f) Q"
  unfolding hoare_def by (metis andthen_Inr)

lemma hoare_pre: "hoare P m Q \<Longrightarrow> (\<And>s. P' s \<Longrightarrow> P s) \<Longrightarrow> hoare P' m Q"
  unfolding hoare_def by blast

lemma hoare_post: "hoare P m Q \<Longrightarrow> (\<And>x s. Q x s \<Longrightarrow> Q' x s) \<Longrightarrow> hoare P m Q'"
  unfolding hoare_def by blast

lemma hoare_exI: "(\<And>a. hoare (P a) m Q) \<Longrightarrow> hoare (\<lambda>s. \<exists>a. P a s) m Q"
  unfolding hoare_def by blast

lemma hoare_conj_pre: "(C \<Longrightarrow> hoare P m Q) \<Longrightarrow> hoare (\<lambda>s. C \<and> P s) m Q"
  unfolding hoare_def by blast

lemma hoare_in_world:
  "hoare P m Q \<Longrightarrow> hoare (\<lambda>(w, l). P w \<and> l = l0) (in_world m) (\<lambda>x (w, l). Q x w \<and> l = l0)"
  unfolding hoare_def in_world_def by (fastforce split: prod.splits)

text \<open>
  A calm world in which the retention keys in \<open>F\<close> are not used yet.
\<close>

definition storing ::
  "files \<Rightarrow> (key3, run_record) dict \<Rightarrow> (key3, result_reference) dict \<Rightarrow> key3 set \<Rightarrow> world \<Rightarrow> bool" where
  "storing fs runs results F w \<longleftrightarrow> reading fs runs results w \<and>
     (\<forall>k \<in> F. dict_get (mem_object_retention (w_store w)) k = None) \<and>
     (\<forall>n s. \<forall>k \<in> F. dict_get (mem_object_retention (w_env w n s)) k = dict_get (mem_object_retention s) k)"

definition stored :: "'v service \<Rightarrow> string \<Rightarrow> string \<Rightarrow> string \<Rightarrow> string \<Rightarrow> files \<Rightarrow> files" where
  "stored sv k data ct cat fs = write_metadata (sv_meta_encode sv)
     \<lparr>om_object_key = k, om_size_bytes = int (length data), om_sha256 = sv_sha256 sv data,
      om_content_type = ct, om_retention_category = Some cat\<rparr> False (dict_set k data fs)"

lemma dict_get_stored:
  "dict_get (stored sv k data ct cat fs) k = Some data"
  "k' \<noteq> k \<Longrightarrow> k' \<noteq> metadata_path k \<Longrightarrow> dict_get (stored sv k data ct cat fs) k' = dict_get fs k'"
  by (auto simp: stored_def write_metadata_def Let_def)

definition digest_ok :: "'v service \<Rightarrow> bool" where
  "digest_ok sv \<longleftrightarrow> (\<forall>d. validate_sha256 (sv_sha256 sv d) = Inr (sv_sha256 sv d))"

lemma digest_nonempty: "digest_ok sv \<Longrightarrow> sv_sha256 sv d \<noteq> []"
proof
  assume "digest_ok sv" "sv_sha256 sv d = []"
  then have "validate_sha256 [] = Inr []" unfolding digest_ok_def by metis
  then show False by (simp add: validate_sha256_def py_lower_def py_strip_def is_sha256_def Let_def split: if_splits)
qed

lemma hoare_put_object:
  assumes "digest_ok sv" "valid_object_key k" "dict_get fs k = None"
  shows "hoare (storing fs runs results F) (put_object sv k data ct cat)
    (\<lambda>_. storing (stored sv k data ct cat fs) runs results F)"
  using assms digest_nonempty [OF assms(1)]
  by (auto simp: hoare_def storing_def reading_def put_object_def object_call_def andthen_def local_put_def
      digest_ok_def Let_def stored_def tick_def)

lemma hoare_store_read: "hoare (storing fs runs results F) (store_read f) (\<lambda>_. storing fs runs results F)"
  by (auto simp: hoare_def storing_def reading_def store_read_def store_call_def Let_def)

lemma hoare_track:
  assumes "retention_key r \<in> F"
  shows "hoare (storing fs runs results F) (store_call (track_object r))
    (\<lambda>_. storing fs runs results (F - {retention_key r}))"
  using assms
  by (auto simp: hoare_def storing_def reading_def store_call_def track_object_def Let_def)

lemma hoare_track_all:
  assumes "distinct (map retention_key rs)" "retention_key ` set rs \<subseteq> F"
  shows "hoare (storing fs runs results F) (for_each rs (\<lambda>r. store_call (track_object r)))
    (\<lambda>_. storing fs runs results (F - retention_key ` set rs))"
  using assms
proof (induction rs arbitrary: F)
  case (Cons r rs)
  have "hoare (storing fs runs results (F - {retention_key r})) (for_each rs (\<lambda>r. store_call (track_object r)))
      (\<lambda>_. storing fs runs results (F - {retention_key r} - retention_key ` set rs))"
    using Cons.prems by (intro Cons.IH) auto
  moreover have "F - {retention_key r} - retention_key ` set rs = F - retention_key ` set (r # rs)" by auto
  moreover have "hoare (storing fs runs results F) (store_call (track_object r))
      (\<lambda>_. storing fs runs results (F - {retention_key r}))"
    using Cons.prems by (intro hoare_track) simp
  ultimately show ?case by (simp only: for_each.simps) (rule hoare_andthen)
qed (simp add: hoare_def)

lemma hoare_save_reference:
  "hoare (storing fs runs results F) (store_call (save_result_reference t p ref))
     (\<lambda>_. storing fs runs (dict_set (store_key t p (ref_run_id ref)) ref results) F)"
  by (auto simp: hoare_def storing_def reading_def store_call_def save_result_reference_def Let_def)

lemma hoare_remote: "hoare (storing fs runs results F) (remote_call (Inr x)) (\<lambda>_. storing fs runs results F)"
  by (auto simp: hoare_def storing_def reading_def remote_call_def tick_def)

lemma holds_doc_stored:
  assumes "digest_ok sv" "valid_object_key k" "dict_get fs k = Some doc"
  shows "holds_doc sv fs k (sv_sha256 sv doc) doc"
  using assms digest_nonempty [OF assms(1)]
  by (simp add: holds_doc_def local_get_def check_digest_def digest_ok_def)

lemma holds_doc_cong:
  "dict_get fs' k = dict_get fs k \<Longrightarrow> holds_doc sv fs' k d doc = holds_doc sv fs k d doc"
  by (simp add: holds_doc_def local_get_def)

text \<open>The shards written from number \<open>i\<close> on.\<close>

abbreviation shard_keys_from :: "string \<Rightarrow> nat \<Rightarrow> nat \<Rightarrow> string list" where
  "shard_keys_from b i n \<equiv> map (shard_key b) [i..<i + n]"

lemma hoare_put_shards:
  assumes dig: "digest_ok sv"
    and fresh: "\<And>k. k \<in> set (shard_keys_from b i (length cs)) \<Longrightarrow> valid_object_key k \<and> dict_get fs k = None"
    and codec: "\<And>us. us \<in> set cs \<Longrightarrow> cd_load_units cd (cd_dump_units cd us) = Inr us"
  shows "hoare (\<lambda>(w, l). storing fs runs results F w \<and> l = acc) (put_shards sv cd b i cs)
    (\<lambda>shards (w, l). \<exists>fs'. storing fs' runs results F w \<and> l = acc @ shard_keys_from b i (length cs) \<and>
       map fst shards = shard_keys_from b i (length cs) \<and> list_all2 (holds_shard sv cd fs') shards cs \<and>
       (\<forall>k. k \<notin> set (shard_keys_from b i (length cs)) \<longrightarrow>
          k \<notin> metadata_path ` set (shard_keys_from b i (length cs)) \<longrightarrow> dict_get fs' k = dict_get fs k))"
  using fresh codec
proof (induction cs arbitrary: i fs acc)
  case Nil
  then show ?case by (auto simp: hoare_def)
next
  case (Cons u cs)
  let ?k = "shard_key b i"
  let ?doc = "cd_dump_units cd u"
  let ?fs = "stored sv ?k ?doc ''application/json'' ''structured_result'' fs"
  let ?rest = "shard_keys_from b (Suc i) (length cs)"
  have keys: "shard_keys_from b i (length (u # cs)) = ?k # ?rest"
    using upt_conv_Cons [of i "i + length (u # cs)"] by simp
  have k: "valid_object_key ?k" "dict_get fs ?k = None" using Cons.prems(1) [of ?k] unfolding keys by auto
  have notin: "?k \<notin> set ?rest" "?k \<notin> metadata_path ` set ?rest" by auto
  have fresh': "valid_object_key x \<and> dict_get ?fs x = None" if "x \<in> set ?rest" for x
    using that Cons.prems(1) [of x] notin(1) unfolding keys by (auto simp: dict_get_stored)
  note IH = Cons.IH [OF fresh' Cons.prems(2), where acc = "acc @ [?k]"]
  have put: "hoare (\<lambda>(w, l). storing fs runs results F w \<and> l = acc)
      (in_world (put_object sv ?k ?doc ''application/json'' ''structured_result''))
      (\<lambda>_ (w, l). storing ?fs runs results F w \<and> l = acc)"
    by (rule hoare_in_world) (rule hoare_put_object [OF dig k])
  have noted: "hoare (\<lambda>(w, l). storing ?fs runs results F w \<and> l = acc) (note_written ?k)
      (\<lambda>_ (w, l). storing ?fs runs results F w \<and> l = acc @ [?k])"
    by (auto simp: hoare_def note_written_def)
  have here: "holds_shard sv cd fs' (?k, sv_sha256 sv ?doc, int (length u)) u"
    if "\<forall>k. k \<notin> set ?rest \<longrightarrow> k \<notin> metadata_path ` set ?rest \<longrightarrow> dict_get fs' k = dict_get ?fs k" for fs'
  proof -
    have "dict_get fs' ?k = Some ?doc" using that notin by (auto simp: dict_get_stored)
    then show ?thesis
      using Cons.prems(2) [of u] holds_doc_stored [OF dig k(1), of fs' ?doc] by (auto simp: holds_shard_def)
  qed
  show ?case
    unfolding put_shards.simps Let_def keys
  proof (intro hoare_andthen [OF put] hoare_andthen [OF noted] hoare_andthen [OF hoare_pre [OF IH]])
    fix shards
    show "hoare (\<lambda>(w, l). \<exists>fs'. storing fs' runs results F w \<and> l = (acc @ [?k]) @ ?rest \<and>
         map fst shards = ?rest \<and> list_all2 (holds_shard sv cd fs') shards cs \<and>
         (\<forall>k. k \<notin> set ?rest \<longrightarrow> k \<notin> metadata_path ` set ?rest \<longrightarrow> dict_get fs' k = dict_get ?fs k))
      (ret ((?k, sv_sha256 sv ?doc, int (length u)) # shards))
      (\<lambda>shards (w, l). \<exists>fs'. storing fs' runs results F w \<and> l = acc @ ?k # ?rest \<and> map fst shards = ?k # ?rest \<and>
         list_all2 (holds_shard sv cd fs') shards (u # cs) \<and>
         (\<forall>k. k \<notin> set (?k # ?rest) \<longrightarrow> k \<notin> metadata_path ` set (?k # ?rest) \<longrightarrow> dict_get fs' k = dict_get fs k))"
    proof (rule hoare_ret, clarsimp simp del: set_map set_upt upt_Suc, goal_cases)
      case (1 w fs')
      then show ?case using here [of fs'] by (intro exI [of _ fs']) (auto simp: dict_get_stored simp del: upt_Suc)
    qed
  qed auto
qed

text \<open>The keys a complete result is stored under: those of its shards and that of its index.\<close>

definition shard_keys_of :: "'v service \<Rightarrow> string \<Rightarrow> result_envelope \<Rightarrow> string list" where
  "shard_keys_of sv b res = (if sv_result_shard_units sv < length (re_units res)
     then shard_keys_from b 0 (length (chunks (sv_result_shard_units sv) (re_units res))) else [])"

definition result_keys :: "'v service \<Rightarrow> run_record \<Rightarrow> result_envelope \<Rightarrow> string list" where
  "result_keys sv run res = shard_keys_of sv (run_base_key run) res @ [run_base_key run @ ''/result.json'']"

text \<open>What \<open>write_shards\<close> leaves: shards that hold the units, or an index that keeps them.\<close>

definition shards_hold ::
  "'v service \<Rightarrow> result_codec \<Rightarrow> files \<Rightarrow> (string \<times> string \<times> int) list \<Rightarrow> result_envelope \<Rightarrow> result_envelope \<Rightarrow> bool" where
  "shards_hold sv cd fs shards index res \<longleftrightarrow> (\<exists>parts. list_all2 (holds_shard sv cd fs) shards parts \<and>
     (if shards = [] then index = res else index = res\<lparr>re_units := []\<rparr> \<and> concat parts = re_units res))"

abbreviation writing_at ::
  "files \<Rightarrow> (key3, run_record) dict \<Rightarrow> (key3, result_reference) dict \<Rightarrow> key3 set \<Rightarrow> string list \<Rightarrow> writing \<Rightarrow> bool" where
  "writing_at fs runs results F acc \<equiv> \<lambda>(w, l). storing fs runs results F w \<and> l = acc"

lemma shards_hold_cong:
  assumes "shards_hold sv cd fs shards index res"
    and "\<And>k. k \<in> fst ` set shards \<Longrightarrow> dict_get fs' k = dict_get fs k"
  shows "shards_hold sv cd fs' shards index res"
proof -
  have same: "holds_shard sv cd fs' s u" if "s \<in> set shards" "holds_shard sv cd fs s u" for s u
    using that assms(2) [of "fst s"] holds_doc_cong [of fs' "fst s" fs sv]
    by (auto simp: holds_shard_def split: prod.splits)
  have "list_all2 (holds_shard sv cd fs') shards parts" if "list_all2 (holds_shard sv cd fs) shards parts" for parts
    using that by (rule list.rel_mono_strong) (rule same)
  with assms(1) show ?thesis unfolding shards_hold_def by blast
qed

lemma chunks_Nil_iff: "0 < n \<Longrightarrow> chunks n xs = [] \<longleftrightarrow> xs = []"
  by (subst chunks.simps) simp

lemma hoare_write_shards:
  assumes dig: "digest_ok sv" and n: "0 < sv_result_shard_units sv"
    and fresh: "\<And>k. k \<in> set (shard_keys_of sv b res) \<Longrightarrow> valid_object_key k \<and> dict_get fs k = None"
    and codec: "\<And>us. us \<in> set (chunks (sv_result_shard_units sv) (re_units res)) \<Longrightarrow>
      cd_load_units cd (cd_dump_units cd us) = Inr us"
  shows "hoare (writing_at fs runs results F []) (write_shards sv cd b None res False)
    (\<lambda>(shards, index) s. \<exists>fs'. (index \<in> {res, res\<lparr>re_units := []\<rparr>} \<and>
       map fst shards = shard_keys_of sv b res \<and> shards_hold sv cd fs' shards index res \<and>
       (\<forall>k. k \<notin> set (shard_keys_of sv b res) \<longrightarrow> k \<notin> metadata_path ` set (shard_keys_of sv b res) \<longrightarrow>
          dict_get fs' k = dict_get fs k)) \<and> writing_at fs' runs results F (shard_keys_of sv b res) s)"
proof (cases "sv_result_shard_units sv < length (re_units res)")
  case True
  let ?cs = "chunks (sv_result_shard_units sv) (re_units res)"
  have keys: "shard_keys_of sv b res = shard_keys_from b 0 (length ?cs)" using True by (simp add: shard_keys_of_def)
  have put: "hoare (\<lambda>(w, l). storing fs runs results F w \<and> l = []) (put_shards sv cd b 0 ?cs)
    (\<lambda>shards (w, l). \<exists>fs'. storing fs' runs results F w \<and> l = [] @ shard_keys_from b 0 (length ?cs) \<and>
       map fst shards = shard_keys_from b 0 (length ?cs) \<and> list_all2 (holds_shard sv cd fs') shards ?cs \<and>
       (\<forall>k. k \<notin> set (shard_keys_from b 0 (length ?cs)) \<longrightarrow>
          k \<notin> metadata_path ` set (shard_keys_from b 0 (length ?cs)) \<longrightarrow> dict_get fs' k = dict_get fs k))"
    by (rule hoare_put_shards [OF dig]) (use fresh codec in \<open>simp_all only: keys\<close>)
  have hold: "shards_hold sv cd fs' shards (res\<lparr>re_units := []\<rparr>) res"
    if "list_all2 (holds_shard sv cd fs') shards ?cs" for fs' shards
    using that True n list_all2_lengthD [OF that] unfolding shards_hold_def
    by (intro exI [of _ ?cs]) (auto simp: concat_chunks chunks_Nil_iff)
  have wr: "write_shards sv cd b None res False =
      andthen (put_shards sv cd b 0 ?cs) (\<lambda>new. ret (new, res\<lparr>re_units := []\<rparr>))"
    using True n by (simp add: write_shards_def)
  show ?thesis
    unfolding wr keys
  proof (rule hoare_andthen [OF put], rule hoare_ret, simp only: prod.case split_beta, elim exE conjE, intro exI conjI)
  qed (simp_all add: hold del: upt_Suc)
next
  case False
  then show ?thesis
    unfolding write_shards_def shards_hold_def by (auto simp: shard_keys_of_def hoare_def)
qed

lemma hoare_catch: "hoare P m Q \<Longrightarrow> hoare P (catch m h) Q"
  unfolding hoare_def catch_def by fastforce

lemma hoare_if: "(c \<Longrightarrow> hoare P m Q) \<Longrightarrow> (\<not> c \<Longrightarrow> hoare P m' Q) \<Longrightarrow> hoare P (if c then m else m') Q"
  by simp

lemma hoare_in_world_keep:
  "hoare (storing fs runs results F) m (\<lambda>_. storing fs' runs' results' F') \<Longrightarrow>
   hoare (writing_at fs runs results F acc) (in_world m) (\<lambda>_. writing_at fs' runs' results' F' acc)"
  by (drule hoare_in_world [where ?l0.0 = acc]) simp

lemma hoare_maybe_read:
  "hoare (writing_at fs runs results F acc)
     (if c then in_world (store_read f) else ret None) (\<lambda>_. writing_at fs runs results F acc)"
  by (intro hoare_if hoare_in_world_keep hoare_store_read hoare_ret)

lemma hoare_written_keys:
  "hoare (writing_at fs runs results F acc) written_keys (\<lambda>ks s. ks = acc \<and> writing_at fs runs results F acc s)"
  by (auto simp: hoare_def written_keys_def)

lemma hoare_note_written:
  "hoare (writing_at fs runs results F acc) (note_written k) (\<lambda>_. writing_at fs runs results F (acc @ [k]))"
  by (auto simp: hoare_def note_written_def)

lemma hoare_track_results:
  assumes "distinct ks" "\<And>k. k \<in> set ks \<Longrightarrow> retention_key (result_retention sv run k) \<in> F"
  shows "hoare (storing fs runs results F) (for_each ks (\<lambda>k. store_call (track_object (result_retention sv run k))))
    (\<lambda>_. storing fs runs results (F - (\<lambda>k. retention_key (result_retention sv run k)) ` set ks))"
proof -
  have "distinct (map retention_key (map (result_retention sv run) ks))"
    using assms(1) by (auto simp: distinct_map inj_on_def retention_key_def result_retention_def store_key_def)
  moreover have "for_each ks (\<lambda>k. store_call (track_object (result_retention sv run k))) =
      for_each (map (result_retention sv run) ks) (\<lambda>r. store_call (track_object r))"
    by (induction ks) auto
  ultimately show ?thesis
    using hoare_track_all [of "map (result_retention sv run) ks" F fs runs results] assms(2)
    by (auto simp: image_image)
qed

lemma hoare_index_call:
  "hoare (writing_at fs runs results F acc)
     (if c then catch (andthen (in_world (remote_call (Inr ()))) (\<lambda>_. ret r)) h else ret r)
     (\<lambda>x s. x = r \<and> writing_at fs runs results F acc s)"
  by (intro hoare_if hoare_catch hoare_andthen [OF hoare_in_world_keep [OF hoare_remote]] hoare_ret) simp_all

definition sink_records :: "'v service \<Rightarrow> run_record \<Rightarrow> artifact_sink option \<Rightarrow> object_retention_record list" where
  "sink_records sv run sink = (case sink of None \<Rightarrow> [] | Some sk \<Rightarrow> retention_records sk (run_created_at run)
     (Some (run_created_at run + of_int (sv_preview_retention_days sv) * 86400)))"

text \<open>
  What storing a complete result needs: fresh keys that are paths inside the store, free retention
  keys, and a codec that reads back the documents of this result.
\<close>

definition storable ::
  "'v service \<Rightarrow> result_codec \<Rightarrow> files \<Rightarrow> key3 set \<Rightarrow> run_record \<Rightarrow> result_envelope \<Rightarrow> artifact_sink option \<Rightarrow> bool" where
  "storable sv cd fs F run res sink \<longleftrightarrow> 0 < sv_result_shard_units sv \<and>
     (\<forall>k \<in> set (result_keys sv run res). valid_object_key k \<and> dict_get fs k = None) \<and>
     distinct (map retention_key (map (result_retention sv run) (result_keys sv run res) @ sink_records sv run sink)) \<and>
     retention_key ` set (map (result_retention sv run) (result_keys sv run res) @ sink_records sv run sink) \<subseteq> F \<and>
     (\<forall>us \<in> set (chunks (sv_result_shard_units sv) (re_units res)). cd_load_units cd (cd_dump_units cd us) = Inr us) \<and>
     (\<forall>index \<in> {res, res\<lparr>re_units := []\<rparr>}. cd_load_result cd (cd_dump_result cd index) = Inr index)"

lemma holds_result_of:
  assumes "digest_ok sv" "valid_object_key k" "dict_get fs k = Some (cd_dump_result cd index)"
    and "cd_load_result cd (cd_dump_result cd index) = Inr index"
    and "shards_hold sv cd fs shards index res"
  shows "holds_result sv cd fs (result_reference_of run res k (sv_sha256 sv (cd_dump_result cd index)) shards asset source False) res"
proof -
  have "zip (map fst shards) (zip (map (fst \<circ> snd) shards) (map (snd \<circ> snd) shards)) = shards"
    by (induction shards) auto
  moreover have "k \<noteq> []" using assms(2) by (auto simp: valid_object_key_def safe_component_def)
  moreover from assms(5) obtain parts where "list_all2 (holds_shard sv cd fs) shards parts"
      "if shards = [] then index = res else index = res\<lparr>re_units := []\<rparr> \<and> concat parts = re_units res"
    unfolding shards_hold_def by blast
  ultimately show ?thesis
    using assms holds_doc_stored [OF assms(1-3)] unfolding holds_result_def
    by (intro conjI exI [of _ "cd_dump_result cd index"] exI [of _ index] exI [of _ parts])
       (simp_all add: manifest_ok_def ref_shards_def result_reference_of_def)
qed

lemma hoare_track_sink:
  assumes "distinct (map retention_key (sink_records sv run sink))" "retention_key ` set (sink_records sv run sink) \<subseteq> F"
  shows "hoare (writing_at fs runs results F acc)
    (case sink of None \<Rightarrow> ret () | Some sk \<Rightarrow>
       if False then ret () else in_world (for_each (retention_records sk (run_created_at run)
         (Some (run_created_at run + of_int (sv_preview_retention_days sv) * 86400))) (\<lambda>r. store_call (track_object r))))
    (\<lambda>_. writing_at fs runs results (F - retention_key ` set (sink_records sv run sink)) acc)"
  using assms
  by (cases sink) (auto simp: sink_records_def intro!: hoare_ret hoare_in_world_keep hoare_track_all)

lemma hoare_finish:
  assumes "holds_result sv cd fs' ref res \<and> ref_index_status ref = INDEX_READY \<and> ref_run_id ref = r"
  shows "hoare (writing_at fs' runs (dict_set (store_key t p (ref_run_id ref)) ref results) F acc)
    (andthen (in_world (drop_previous None ref)) (\<lambda>_. ret ref))
    (\<lambda>ref (w, l). \<exists>fs'. reading fs' runs (dict_set (store_key t p r) ref results) w \<and>
       holds_result sv cd fs' ref res \<and> ref_index_status ref = INDEX_READY)"
  using assms by (auto simp: hoare_def drop_previous_def in_world_def storing_def andthen_def)

lemma hoare_save_result:
  assumes dig: "digest_ok sv" and ok: "storable sv cd fs F run res sink"
  shows "hoare (writing_at fs runs results F []) (save_result sv cd run res sink indexed False None)
    (\<lambda>ref (w, l). \<exists>fs'. reading fs' runs
       (dict_set (store_key (run_tenant_id run) (run_project_id run) (run_run_id run)) ref results) w \<and>
       holds_result sv cd fs' ref res \<and> ref_index_status ref = INDEX_READY)"
proof -
  let ?b = "run_base_key run"
  let ?k = "?b @ ''/result.json''"
  let ?skeys = "shard_keys_of sv ?b res"
  let ?G = "F - (\<lambda>k. retention_key (result_retention sv run k)) ` set (?skeys @ [?k])"
  have fresh: "valid_object_key x \<and> dict_get fs x = None" if "x \<in> set ?skeys" for x
    using ok that by (auto simp: storable_def result_keys_def)
  have k: "valid_object_key ?k" "dict_get fs ?k = None" using ok by (auto simp: storable_def result_keys_def)
  have kk: "?k \<notin> set ?skeys" "?k \<notin> metadata_path ` set ?skeys" "metadata_path ?k \<notin> set ?skeys"
    using keys_apart not_sym [OF keys_apart(1)] not_sym [OF keys_apart(3)] by (auto simp: shard_keys_of_def)
  have dist: "distinct (?skeys @ [?k])"
    using ok by (auto simp: storable_def result_keys_def distinct_map)
  have tracked: "retention_key (result_retention sv run x) \<in> F" if "x \<in> set (?skeys @ [?k])" for x
    using ok that by (auto simp: storable_def result_keys_def)
  have sink: "distinct (map retention_key (sink_records sv run sink))"
      "retention_key ` set (sink_records sv run sink) \<subseteq> ?G"
    using ok by (auto simp: storable_def result_keys_def)
  let ?fs = "\<lambda>fs' index. stored sv ?k (cd_dump_result cd index) ''application/json'' ''structured_result'' fs'"
  have shards: "hoare (writing_at fs runs results F []) (write_shards sv cd ?b None res False)
    (\<lambda>(shards, index) s. \<exists>fs'. (index \<in> {res, res\<lparr>re_units := []\<rparr>} \<and>
       map fst shards = ?skeys \<and> shards_hold sv cd fs' shards index res \<and>
       (\<forall>k. k \<notin> set ?skeys \<longrightarrow> k \<notin> metadata_path ` set ?skeys \<longrightarrow> dict_get fs' k = dict_get fs k)) \<and>
       writing_at fs' runs results F ?skeys s)"
    by (rule hoare_write_shards [OF dig _ fresh]) (use ok in \<open>auto simp: storable_def\<close>)
  have held: "(\<forall>asset source. holds_result sv cd (?fs fs' index)
      (result_reference_of run res ?k (sv_sha256 sv (cd_dump_result cd index)) shards asset source False) res) \<and>
      dict_get fs' ?k = None"
    if "index \<in> {res, res\<lparr>re_units := []\<rparr>} \<and> map fst shards = ?skeys \<and> shards_hold sv cd fs' shards index res \<and>
       (\<forall>k. k \<notin> set ?skeys \<longrightarrow> k \<notin> metadata_path ` set ?skeys \<longrightarrow> dict_get fs' k = dict_get fs k)"
    for fs' shards index
  proof -
    have "set ?skeys = fst ` set shards" using that by (metis set_map)
    moreover have "dict_get (?fs fs' index) x = dict_get fs' x" if "x \<in> set ?skeys" for x
      using kk that by (intro dict_get_stored(2)) metis+
    ultimately have hold: "shards_hold sv cd (?fs fs' index) shards index res"
      using that by - (rule shards_hold_cong [of sv cd fs'], simp_all)
    have codec: "cd_load_result cd (cd_dump_result cd index) = Inr index"
      using ok that unfolding storable_def by blast
    have "dict_get fs' ?k = None" using that kk k(2) by metis
    then show ?thesis
      by (intro conjI allI holds_result_of [OF dig k(1) _ codec hold]) (simp_all add: dict_get_stored)
  qed
  show ?thesis
    unfolding save_result_def Let_def if_False
    apply (rule hoare_andthen [OF shards])
    apply (case_tac x, simp only: prod.case option.case if_True andthen_ret)
    apply (rule hoare_exI, rule hoare_conj_pre, drule held)
    apply (rule hoare_andthen [OF hoare_in_world_keep [OF hoare_put_object [OF dig k(1)]]], erule conjunct2)
      apply (rule hoare_andthen [OF hoare_note_written])
      apply (rule hoare_andthen [OF hoare_maybe_read])
      apply (rule hoare_andthen [OF hoare_maybe_read])
      apply (rule hoare_andthen [OF hoare_written_keys])
      apply (rule hoare_conj_pre)
      apply (simp only:)
      apply (rule hoare_andthen [OF hoare_in_world_keep [OF hoare_track_results [OF dist tracked]]], assumption)
      apply (rule hoare_andthen [OF hoare_track_sink [OF sink, unfolded if_False]])
      apply (rule hoare_andthen [OF hoare_index_call])
      apply (rule hoare_conj_pre)
      apply (simp only:)
      apply (rule hoare_andthen [OF hoare_in_world_keep [OF hoare_save_reference]])
    apply (rule hoare_finish)
    apply (simp_all add: result_reference_of_def)
    done
qed

lemma hoare_store_result:
  assumes dig: "digest_ok sv" and ok: "storable sv cd fs F run res sink"
    and none: "dict_get results (store_key (run_tenant_id run) (run_project_id run) (run_run_id run)) = None"
  shows "hoare (storing fs runs results F) (store_result sv cd run res sink indexed False)
    (\<lambda>ref w. \<exists>fs'. reading fs' runs
       (dict_set (store_key (run_tenant_id run) (run_project_id run) (run_run_id run)) ref results) w \<and>
       holds_result sv cd fs' ref res)"
proof -
  have prev: "hoare (storing fs runs results F)
      (store_read (get_result_reference (run_tenant_id run) (run_project_id run) (run_run_id run)))
      (\<lambda>found w. found = None \<and> storing fs runs results F w)"
    using none by (auto simp: hoare_def storing_def reading_def store_read_def store_call_def Let_def get_result_reference_def)
  show ?thesis
    unfolding store_result_def
  proof (rule hoare_andthen [OF prev], rule hoare_conj_pre, simp only:)
    show "hoare (storing fs runs results F)
        (\<lambda>w. case save_result sv cd run res sink indexed False None (w, []) of
           (Inr reference, (w', _)) \<Rightarrow> (Inr reference, w')
         | (Inl e, (w', keys)) \<Rightarrow>
             if e = CancelledError then (Inl e, w')
             else andthen (for_each keys (\<lambda>k. suppress (delete_object k))) (\<lambda>_.
               andthen time_time (\<lambda>now.
               andthen (suppress (store_call (mark_objects_deleted keys now))) (\<lambda>_. throw e))) w')
        (\<lambda>ref w. \<exists>fs'. reading fs' runs
           (dict_set (store_key (run_tenant_id run) (run_project_id run) (run_run_id run)) ref results) w \<and>
           holds_result sv cd fs' ref res)"
      using hoare_save_result [OF dig ok, of runs results indexed] by (fastforce simp: hoare_def)
  qed
qed

text \<open>
  C7: a page of a result is the slice of the units of that result: for a stored result, whether
  its units are in the index or spread over shards and wherever the shard boundaries fall,
  \<open>result_page\<close> at offset \<open>a\<close> with limit \<open>l\<close> returns the units from \<open>a\<close> to \<open>a + l\<close>
  of what \<open>result\<close> returns, with the total number of units.
\<close>

theorem result_page_is_slice:
  assumes "reading fs runs results w"
    and "dict_get runs (store_key (ctx_tenant_id ctx) (ctx_project_id ctx) run_id) = Some run"
    and "dict_get results (store_key (ctx_tenant_id ctx) (ctx_project_id ctx) run_id) = Some ref"
    and "holds_result sv cd fs ref res"
    and "require_allowed (sv_policy sv) ctx ''read'' ''run'' [(''run_id'', JStr run_id)] = Inr dec"
  shows "fst (service_result sv cd ctx run_id w) = Inr res \<and>
    fst (service_result_page sv cd ctx run_id (int a) (int l) w) =
      Inr \<lparr>rp_result = res\<lparr>re_units := take l (drop a (re_units res))\<rparr>,
        rp_unit_offset = int a, rp_unit_limit = int l, rp_unit_total = int (length (re_units res))\<rparr>"
  using gives_fst [OF gives_service_result [OF assms(2-5)] assms(1)]
    gives_fst [OF gives_service_result_page [OF assms(2-5)] assms(1)] by blast


definition sample_unit :: "int \<Rightarrow> media_unit_result" where
  "sample_unit i = \<lparr>mu_unit_id = ''u'', mu_unit_type = ''frame'', mu_index = i, mu_pts_ms = None,
     mu_page_number = None, mu_width = 1, mu_height = 1, mu_objects = [], mu_frame_artifact_id = None\<rparr>"

definition sample_result :: result_envelope where
  "sample_result = (synthetic_result (sample_run ''r1'' RUNNING))\<lparr>re_units := [sample_unit 0, sample_unit 1]\<rparr>"

text \<open>A codec that tells the two units apart; enough for this one result.\<close>

definition sample_codec :: result_codec where
  "sample_codec = \<lparr>cd_dump_units = (\<lambda>us. if us = [sample_unit 0] then ''[0]'' else ''[1]''),
     cd_load_units = (\<lambda>s. Inr [sample_unit (if s = ''[0]'' then 0 else 1)]),
     cd_dump_result = (\<lambda>r. if re_units r = [] then ''index'' else ''full''),
     cd_load_result = (\<lambda>s. Inr (if s = ''index'' then sample_result\<lparr>re_units := []\<rparr> else sample_result))\<rparr>"

lemma sample_keys:
  "result_keys sample_service (sample_run ''r1'' RUNNING) sample_result =
     [''tenants/t/projects/p/runs/r1/units-000000.json'', ''tenants/t/projects/p/runs/r1/units-000001.json'',
      ''tenants/t/projects/p/runs/r1/result.json'']"
  by code_simp

lemma sample_storable:
  "storable sample_service sample_codec [] UNIV (sample_run ''r1'' RUNNING) sample_result None"
proof -
  have chunks: "chunks (sv_result_shard_units sample_service) (re_units sample_result) = [[sample_unit 0], [sample_unit 1]]"
    by code_simp
  have "list_all valid_object_key (result_keys sample_service (sample_run ''r1'' RUNNING) sample_result)"
    unfolding sample_keys by code_simp
  moreover have "distinct (map retention_key (map (result_retention sample_service (sample_run ''r1'' RUNNING))
      (result_keys sample_service (sample_run ''r1'' RUNNING) sample_result) @ sink_records sample_service (sample_run ''r1'' RUNNING) None))"
    unfolding sample_keys by (simp add: sink_records_def retention_key_def result_retention_def store_key_def)
  moreover have "cd_load_units sample_codec (cd_dump_units sample_codec us) = Inr us" if "us \<in> {[sample_unit 0], [sample_unit 1]}" for us
    using that by (auto simp: sample_codec_def sample_unit_def)
  moreover have "cd_load_result sample_codec (cd_dump_result sample_codec index) = Inr index"
    if "index \<in> {sample_result, sample_result\<lparr>re_units := []\<rparr>}" for index
    using that by (auto simp: sample_codec_def sample_result_def)
  moreover have "0 < sv_result_shard_units sample_service" by (simp add: sample_service_def)
  ultimately show ?thesis
    unfolding storable_def chunks by (simp add: list_all_iff del: map_append map_map)
qed

lemma sample_digest_ok: "digest_ok sample_service"
  by (simp add: digest_ok_def sample_service_def sample_sha_valid)

lemma sample_storing:
  "storing [] [(store_key ''t'' ''p'' ''r1'', sample_run ''r1'' st)] [] UNIV (sample_world (sample_run_store st))"
  by (simp add: storing_def reading_def sample_world_def sample_run_store_def memory_state_init_def)

lemma sample_allowed:
  "require_allowed (sv_policy sample_service) sample_principal action resource attributes =
     Inr \<lparr>dec_allowed = True, dec_reason = ''development policy''\<rparr>"
  by (simp add: require_allowed_def sample_service_def sample_principal_def split: option.split)


definition sample_result_files :: files where
  "sample_result_files = [(''i'', ''index''), (''a'', ''[0]''), (''b'', ''[1]'')]"

definition sample_reference :: result_reference where
  "sample_reference = (synthetic_reference (sample_run ''r1'' RUNNING))\<lparr>ref_object_key := ''i'',
     ref_sha256 := sample_sha ''index'', ref_unit_count := 2, ref_shard_keys := [''a'', ''b''],
     ref_shard_sha256 := [sample_sha ''[0]'', sample_sha ''[1]''], ref_shard_unit_counts := [1, 1]\<rparr>"

lemma sample_holds_doc:
  "holds_doc sample_service sample_result_files ''i'' (sample_sha ''index'') ''index''"
  "holds_doc sample_service sample_result_files ''a'' (sample_sha ''[0]'') ''[0]''"
  "holds_doc sample_service sample_result_files ''b'' (sample_sha ''[1]'') ''[1]''"
  unfolding holds_doc_def by code_simp+

lemma sample_holds_result:
  "holds_result sample_service sample_codec sample_result_files sample_reference sample_result"
proof -
  have "list_all2 (holds_shard sample_service sample_codec sample_result_files)
      [(''a'', sample_sha ''[0]'', 1), (''b'', sample_sha ''[1]'', 1)] [[sample_unit 0], [sample_unit 1]]"
    using sample_holds_doc(2,3) unfolding holds_shard_def list_all2_Cons prod.case
    by (intro conjI exI [of _ "''[0]''"] exI [of _ "''[1]''"] list.rel_intros) (simp_all add: sample_codec_def)
  moreover have "ref_shards sample_reference = [(''a'', sample_sha ''[0]'', 1), (''b'', sample_sha ''[1]'', 1)]"
    by (simp add: ref_shards_def sample_reference_def)
  ultimately show ?thesis
    unfolding holds_result_def
    by (intro conjI exI [of _ "''index''"] exI [of _ "sample_result\<lparr>re_units := []\<rparr>"] exI [of _ "[[sample_unit 0], [sample_unit 1]]"])
       (use sample_holds_doc(1) in \<open>simp_all add: sample_reference_def manifest_ok_def sample_result_def sample_codec_def\<close>)
qed

theorem result_page_is_slice_witness:
  "fst (service_result_page sample_service sample_codec sample_principal ''r1'' 1 5
      ((sample_world ((sample_run_store RUNNING)\<lparr>mem_results := [(store_key ''t'' ''p'' ''r1'', sample_reference)]\<rparr>))
         \<lparr>w_objects := sample_result_files\<rparr>)) =
    Inr \<lparr>rp_result = sample_result\<lparr>re_units := [sample_unit 1]\<rparr>, rp_unit_offset = 1, rp_unit_limit = 5,
      rp_unit_total = 2\<rparr>"
  using result_page_is_slice [OF _ _ _ sample_holds_result sample_allowed, of
      "[(store_key ''t'' ''p'' ''r1'', sample_run ''r1'' RUNNING)]" "[(store_key ''t'' ''p'' ''r1'', sample_reference)]"
      "(sample_world ((sample_run_store RUNNING)\<lparr>mem_results := [(store_key ''t'' ''p'' ''r1'', sample_reference)]\<rparr>))
         \<lparr>w_objects := sample_result_files\<rparr>" "''r1''" "sample_run ''r1'' RUNNING" 1 5]
  by (simp add: reading_def sample_world_def sample_run_store_def sample_principal_def sample_result_def)

end
