(* ===== verification/Run_Execution.thy ===== *)
theory Run_Execution
  imports Run_Results
begin

text \<open>
  \<open>RunExecutionMixin.execute_run\<close>: a worker takes a queued run, fetches its media, drives the
  pipeline with checkpoints, progress reports and partial results, and leaves the run completed,
  failed or cancelled. The pipeline's operators, the registrars and the observation evaluators
  are parameters: functions on the world. A temporary media file is represented by its contents.
\<close>

section \<open>Setup\<close>

record 'v executor =
  ex_codec :: result_codec
  ex_indexed :: bool
  ex_artifacts_enabled :: bool
  ex_production :: bool
  ex_sample_interval_ms :: int
  ex_media_bytes :: "string \<Rightarrow> 'v"
  ex_media_input :: "media_kind \<Rightarrow> string \<Rightarrow> string option \<Rightarrow> string option \<Rightarrow> string option \<Rightarrow>
    string option \<Rightarrow> 'v"
  ex_as_result :: "'v \<Rightarrow> result_envelope option"
  ex_registrars :: "(run_record \<Rightarrow> result_envelope \<Rightarrow> (world, unit) py) list"
  ex_evaluators :: "(run_record \<Rightarrow> result_envelope \<Rightarrow> (world, unit) py) list"
  ex_bindings :: "(string \<Rightarrow> string \<Rightarrow> (world, json_dict) py) option"

definition worker_context :: "run_record \<Rightarrow> principal_context" where
  "worker_context run = \<lparr>ctx_tenant_id = run_tenant_id run, ctx_project_id = run_project_id run,
     ctx_principal_id = run_principal_id run, ctx_scopes = {''*''}, ctx_product_ids = {''*''},
     ctx_request_id = None, ctx_traceparent = None\<rparr>"

section \<open>Artifacts\<close>

definition new_sink :: "run_record \<Rightarrow> artifact_sink" where
  "new_sink run = \<lparr>sk_tenant_id = run_tenant_id run, sk_project_id = run_project_id run,
     sk_run_id = run_run_id run, sk_artifacts = [], sk_warnings = []\<rparr>"

definition set_sink :: "(artifact_sink \<Rightarrow> artifact_sink) \<Rightarrow> (world, unit) py" where
  "set_sink f w = (Inr (), w\<lparr>w_sink := f (w_sink w)\<rparr>)"

definition get_sink :: "(world, artifact_sink) py" where
  "get_sink w = (Inr (w_sink w), w)"

definition warn :: "string \<Rightarrow> artifact_sink \<Rightarrow> artifact_sink" where
  "warn warning sk = (if warning \<in> set (sk_warnings sk) then sk
     else sk\<lparr>sk_warnings := sk_warnings sk @ [warning]\<rparr>)"

definition artifact_prefix :: "string \<Rightarrow> string" where
  "artifact_prefix artifact_type = (if artifact_type = ''object_crop'' then ''crop'' else ''frame'')"

text \<open>\<open>encoded\<close> is the outcome of \<open>encode_jpeg\<close> on the image.\<close>

definition store_image :: "'v service \<Rightarrow> exn + string \<Rightarrow> string \<Rightarrow> (world, string option) py" where
  "store_image sv encoded artifact_type =
     andthen uuid4_hex (\<lambda>u.
     andthen get_sink (\<lambda>sk.
       let artifact_id = artifact_prefix artifact_type @ ''_'' @ u;
           k = ''tenants/'' @ sk_tenant_id sk @ ''/projects/'' @ sk_project_id sk @ ''/runs/'' @ sk_run_id sk @
             ''/artifacts/'' @ artifact_id @ ''.jpg'' in
       catch
         (andthen (of_sum encoded) (\<lambda>data.
          andthen (put_object sv k data ''image/jpeg'' ''preview'') (\<lambda>_.
          andthen (set_sink (\<lambda>s. s\<lparr>sk_artifacts := sk_artifacts s @
              [\<lparr>art_artifact_id = artifact_id, art_artifact_type = artifact_type, art_object_key = k,
                art_content_type = ''image/jpeg'', art_sha256 = sv_sha256 sv data\<rparr>]\<rparr>)) (\<lambda>_.
            ret (Some artifact_id)))))
         (\<lambda>_. andthen (set_sink (warn ''artifact_storage_unavailable'')) (\<lambda>_. ret None))))"

definition discard_artifacts :: "(world, unit) py" where
  "discard_artifacts =
     andthen get_sink (\<lambda>sk.
     andthen (for_each (sk_artifacts sk) (\<lambda>a. suppress (delete_object (art_object_key a)))) (\<lambda>_.
       set_sink (\<lambda>s. s\<lparr>sk_artifacts := []\<rparr>)))"

text \<open>The result with the artifacts and warnings of the sink added.\<close>

definition with_artifacts :: "'v executor \<Rightarrow> result_envelope \<Rightarrow> artifact_sink \<Rightarrow> result_envelope" where
  "with_artifacts ex result sk =
     (if ex_artifacts_enabled ex \<and> (sk_artifacts sk \<noteq> [] \<or> sk_warnings sk \<noteq> [])
      then result\<lparr>re_artifacts := re_artifacts result @ sk_artifacts sk,
                  re_warnings := re_warnings result @ sk_warnings sk\<rparr>
      else result)"

definition sink_of :: "'v executor \<Rightarrow> artifact_sink \<Rightarrow> artifact_sink option" where
  "sink_of ex sk = (if ex_artifacts_enabled ex then Some sk else None)"

section \<open>Starting, checkpoints and progress\<close>

definition read_run :: "run_record \<Rightarrow> (world, run_record option) py" where
  "read_run run = store_read (get_run (run_tenant_id run) (run_project_id run) (run_run_id run))"

definition cancel_by_user :: "'v service \<Rightarrow> run_record \<Rightarrow> (world, run_record) py" where
  "cancel_by_user sv run =
     andthen time_time (\<lambda>now. set_status sv run CANCELLED
       (\<lambda>r. r\<lparr>run_completed_at := Some now, run_termination_reason := Some ''cancelled_by_user''\<rparr>))"

fun begin_loop :: "nat \<Rightarrow> 'v service \<Rightarrow> run_record \<Rightarrow> (world, run_record) py" where
  "begin_loop 0 sv run = throw (StateConflict ''run could not acquire execution state'')"
| "begin_loop (Suc n) sv run =
     (if run_state run \<in> TERMINAL_RUN_STATUSES then ret run
      else if run_state run = CANCELLING then cancel_by_user sv run
      else if run_state run = QUEUED
      then catch
        (andthen time_time (\<lambda>now. set_status sv run RUNNING (\<lambda>r. r\<lparr>run_started_at := Some now\<rparr>)))
        (\<lambda>e. case e of
           StateConflict _ \<Rightarrow>
             andthen (read_run run) (\<lambda>found. case found of
               None \<Rightarrow> throw (ResourceNotFound ''run disappeared before execution'')
             | Some latest \<Rightarrow> begin_loop n sv latest)
         | _ \<Rightarrow> throw e)
      else if run_state run \<in> {RUNNING, PAUSING, PAUSED} then ret run
      else throw (InvalidTransition (''run cannot start from '' @ run_status_value (run_state run))))"

definition begin_execution :: "'v service \<Rightarrow> run_record \<Rightarrow> (world, run_record) py" where
  "begin_execution sv run = begin_loop 4 sv run"

definition on_control :: "(pyfloat \<Rightarrow> execution_control \<Rightarrow> execution_control) \<Rightarrow> (world, unit) py" where
  "on_control f w = (Inr (), (tick w)\<lparr>w_control := f (w_monotonic w (w_step w)) (w_control w)\<rparr>)"

text \<open>
  \<open>_checkpoint\<close>. A paused run is polled until it is resumed; after \<open>n\<close> polls the worker itself is
  cancelled, which ends the loop.
\<close>

fun checkpoint_loop :: "nat \<Rightarrow> 'v service \<Rightarrow> run_record \<Rightarrow> (world, unit) py" where
  "checkpoint_loop 0 sv run = throw CancelledError"
| "checkpoint_loop (Suc n) sv run =
     andthen (read_run run) (\<lambda>found. case found of
       None \<Rightarrow> andthen (on_control cancel) (\<lambda>_. throw ExecutionStopped)
     | Some latest \<Rightarrow>
         if run_state latest = CANCELLING
         then andthen (on_control cancel) (\<lambda>_.
           andthen (cancel_by_user sv latest) (\<lambda>_. throw ExecutionStopped))
         else
           andthen (if run_state latest = PAUSING
               then andthen (on_control pause) (\<lambda>_. set_status sv latest PAUSED (\<lambda>r. r))
               else ret latest) (\<lambda>latest'.
             if run_state latest' = PAUSED
             then andthen (on_control pause) (\<lambda>_. checkpoint_loop n sv run)
             else on_control resume))"

fun report_loop ::
  "nat \<Rightarrow> 'v service \<Rightarrow> run_record \<Rightarrow> pyfloat option \<Rightarrow> json_dict \<Rightarrow> (world, unit) py" where
  "report_loop 0 sv run progress payload = throw (StateConflict ''run progress could not be saved'')"
| "report_loop (Suc n) sv run progress payload =
     andthen (read_run run) (\<lambda>found. case found of
       None \<Rightarrow> throw (ResourceNotFound ''run disappeared while reporting progress'')
     | Some latest \<Rightarrow>
         if run_state latest \<in> TERMINAL_RUN_STATUSES then ret ()
         else case progress of
           None \<Rightarrow> andthen (event sv latest ''run.progress'' (merge_parameters [(''progress'', JNull)] payload)) (\<lambda>_. ret ())
         | Some p \<Rightarrow>
             let next_progress = max (run_progress latest) (min (99 / 100) p) in
             if next_progress \<le> run_progress latest then ret ()
             else
               andthen time_time (\<lambda>now.
               andthen (catch
                   (andthen (store_call (save_run (latest\<lparr>run_progress := next_progress, run_updated_at := now\<rparr>)
                       (run_revision latest))) (\<lambda>saved. ret (Some saved)))
                   (\<lambda>e. case e of StateConflict _ \<Rightarrow> ret None | _ \<Rightarrow> throw e)) (\<lambda>outcome.
                 case outcome of
                   None \<Rightarrow> report_loop n sv run progress payload
                 | Some saved \<Rightarrow>
                     andthen (event sv saved ''run.progress''
                       (merge_parameters [(''progress'', JFloat (run_progress saved))] payload)) (\<lambda>_. ret ()))))"

definition report_progress ::
  "'v service \<Rightarrow> run_record \<Rightarrow> pyfloat option \<Rightarrow> json_dict \<Rightarrow> (world, unit) py" where
  "report_progress sv run progress payload = report_loop 4 sv run progress payload"

section \<open>Partial results\<close>

text \<open>
  \<open>publish_partial_result\<close>; \<open>published\<close> is the closure's \<open>published_unit_count\<close>, whose new value
  is returned. Every failure is logged and swallowed.
\<close>

definition result_url :: "run_record \<Rightarrow> string" where
  "result_url run = ''/api/v1/runs/'' @ run_run_id run @ ''/result''"

text \<open>
  A failure of the last event is swallowed by the handler of \<open>publish_partial_result\<close>, after the
  count has been updated; it is suppressed here so that the new count is returned.
\<close>

definition announce_partial :: "'v service \<Rightarrow> run_record \<Rightarrow> nat \<Rightarrow> nat \<Rightarrow> run_record \<Rightarrow> (world, nat) py" where
  "announce_partial sv run published unit_count latest =
     andthen (let delta = unit_count - published in
         if delta \<noteq> 0
         then andthen (event sv latest ''result.delta''
             [(''sequence'', JInt (int published)), (''unit_offset'', JInt (int published)),
              (''unit_count'', JInt (int delta)), (''unit_total'', JInt (int unit_count)),
              (''result_url'', JStr (result_url run @ ''?unit_offset='' @ nat_str published @
                 ''&unit_limit='' @ nat_str delta))]) (\<lambda>_. ret unit_count)
         else ret published) (\<lambda>published'.
     andthen (suppress (andthen (event sv latest ''result.partial''
         [(''unit_count'', JInt (int unit_count)), (''progress'', JFloat (run_progress latest))]) (\<lambda>_. ret ())))
       (\<lambda>_. ret published'))"

definition publish_partial_result ::
  "'v service \<Rightarrow> 'v executor \<Rightarrow> run_record \<Rightarrow> nat \<Rightarrow> 'v \<Rightarrow> (world, nat) py" where
  "publish_partial_result sv ex run published value =
     (case ex_as_result ex value of
        None \<Rightarrow> throw (PipelineError ''partial pipeline result is not a ResultEnvelope'')
      | Some envelope \<Rightarrow>
          andthen get_sink (\<lambda>sk.
            let result = with_artifacts ex envelope sk in
            catch
              (andthen (store_result sv (ex_codec ex) run result (sink_of ex sk) (ex_indexed ex) True) (\<lambda>_.
               andthen (for_each (ex_evaluators ex) (\<lambda>f. suppress (f run result))) (\<lambda>_.
               andthen (read_run run) (\<lambda>found. case found of
                 None \<Rightarrow> ret published
               | Some latest \<Rightarrow>
                   if run_state latest \<in> TERMINAL_RUN_STATUSES then ret published
                   else announce_partial sv run published (length (re_units result)) latest))))
              (\<lambda>_. ret published)))"

definition discard_partial_result :: "run_record \<Rightarrow> (world, unit) py" where
  "discard_partial_result run =
     andthen (catch (store_read (get_result_reference (run_tenant_id run) (run_project_id run) (run_run_id run)))
         (\<lambda>_. ret None)) (\<lambda>found. case found of
       None \<Rightarrow> ret ()
     | Some reference \<Rightarrow>
         if \<not> py_contains ''/partial/'' (ref_object_key reference) then ret ()
         else
           let object_keys = ref_object_key reference # ref_shard_keys reference in
           andthen (for_each object_keys (\<lambda>k. suppress (delete_object k))) (\<lambda>_.
           andthen time_time (\<lambda>now. suppress (store_call (mark_objects_deleted object_keys now)))))"

section \<open>Stream segments\<close>

definition next_segment_request :: "run_record \<Rightarrow> create_run_request" where
  "next_segment_request run = \<lparr>crr_domain = run_domain run, crr_pipeline = run_pipeline run, crr_asset_id = None,
     crr_source_id = run_source_id run, crr_parameters = run_parameters run, crr_priority = run_priority run,
     crr_wait_ms = 0\<rparr>"

definition segment_index :: "run_record \<Rightarrow> int" where
  "segment_index run = (case run_stream_segment_index run of None \<Rightarrow> 0 | Some i \<Rightarrow> i)"

definition link_next_segment :: "run_record \<Rightarrow> string \<Rightarrow> (world, run_record) py" where
  "link_next_segment run next_run_id =
     andthen (read_run run) (\<lambda>found. case found of
       None \<Rightarrow> ret run
     | Some latest \<Rightarrow>
         if run_next_run_id latest = Some next_run_id then ret latest
         else
           andthen time_time (\<lambda>now.
             catch (store_call (save_run (latest\<lparr>run_next_run_id := Some next_run_id, run_updated_at := now\<rparr>)
                 (run_revision latest)))
               (\<lambda>e. case e of StateConflict _ \<Rightarrow> ret latest | _ \<Rightarrow> throw e)))"

definition rollover_stream_segment :: "'v service \<Rightarrow> run_record \<Rightarrow> (world, unit) py" where
  "rollover_stream_segment sv run =
     (if \<not> truthy (run_source_id run) \<or> \<not> truthy (run_stream_session_id run) then ret ()
      else
        let next_index = segment_index run + 1; session = or_empty (run_stream_session_id run) in
        catch
          (andthen (create_run sv (worker_context run) (next_segment_request run)
              (''stream:'' @ session @ '':'' @ int_str next_index) (run_stream_session_id run) (Some next_index)
              (Some (run_run_id run))) (\<lambda>(created_run, _).
           andthen (link_next_segment run (run_run_id created_run)) (\<lambda>saved.
           andthen (event sv saved ''stream.segment.completed''
               [(''session_id'', JStr session), (''segment_index'', JInt (segment_index run)),
                (''next_run_id'', JStr (run_run_id created_run)), (''next_segment_index'', JInt next_index)])
             (\<lambda>_. ret ()))))
          (\<lambda>e. andthen (event sv run ''stream.session.error''
               [(''session_id'', JStr session), (''message'', JStr (take 500 (sv_exn_text sv e)))]) (\<lambda>_. ret ())))"

section \<open>Executing a run\<close>

text \<open>The media of a run: kind, content type, file name, bytes, source URL and file contents.\<close>

record run_media =
  rm_kind :: media_kind
  rm_content_type :: string
  rm_filename :: "string option"
  rm_data :: "string option"
  rm_source_url :: "string option"
  rm_file :: "string option"

definition load_media :: "'v service \<Rightarrow> run_record \<Rightarrow> (world, run_media) py" where
  "load_media sv run =
     (if truthy (run_asset_id run)
      then
        andthen (store_read (get_asset (run_tenant_id run) (run_project_id run) (or_empty (run_asset_id run)))) (\<lambda>found.
          case found of
            None \<Rightarrow> throw (ResourceNotFound ''media asset disappeared before execution'')
          | Some asset \<Rightarrow>
              if asset_deleted_at asset \<noteq> None \<or> asset_original_deleted_at asset \<noteq> None
              then throw (ResourceNotFound ''media asset disappeared before execution'')
              else
                andthen (get_object sv (asset_object_key asset) (Some (asset_sha256 asset))) (\<lambda>bytes.
                  ret \<lparr>rm_kind = asset_kind asset, rm_content_type = asset_content_type asset,
                    rm_filename = asset_filename asset,
                    rm_data = (if asset_kind asset = VIDEO then None else Some bytes), rm_source_url = None,
                    rm_file = (if asset_kind asset = VIDEO then Some bytes else None)\<rparr>))
      else
        andthen (store_read (get_source (run_tenant_id run) (run_project_id run) (or_empty (run_source_id run)))) (\<lambda>found.
          case found of
            None \<Rightarrow> throw (ResourceNotFound ''media source disappeared before execution'')
          | Some source \<Rightarrow>
              andthen (secret_call (\<lambda>sc. (secret_get (source_secret_ref source) sc, sc))) (\<lambda>url.
              andthen (remote_call (sv_validate_url sv url)) (\<lambda>_.
                ret \<lparr>rm_kind = STREAM, rm_content_type = ''application/octet-stream'', rm_filename = None,
                  rm_data = None, rm_source_url = Some url, rm_file = None\<rparr>))))"

definition execution_parameters :: "'v service \<Rightarrow> 'v executor \<Rightarrow> run_record \<Rightarrow> media_kind \<Rightarrow> json_dict" where
  "execution_parameters sv ex run kind =
     (let params = effective_parameters sv kind
        (merge_parameters [(''sample_interval_ms'', JInt (ex_sample_interval_ms ex))] (run_parameters run))
      in case run_stream_segment_index run of
           None \<Rightarrow> params
         | Some i \<Rightarrow> dict_set ''stream_segment_index'' (JInt i) params)"

definition execution_context_of :: "'v executor \<Rightarrow> run_record \<Rightarrow> run_media \<Rightarrow> json_dict \<Rightarrow> execution_context" where
  "execution_context_of ex run media bindings = \<lparr>xc_run_id = run_run_id run, xc_tenant_id = run_tenant_id run,
     xc_project_id = run_project_id run, xc_pipeline_id = pref_pipeline_id (run_pipeline run),
     xc_pipeline_version = pref_version (run_pipeline run), xc_asset_id = run_asset_id run,
     xc_source_id = run_source_id run, xc_filename = rm_filename media,
     xc_content_type = rm_content_type media, xc_production = ex_production ex, xc_model_bindings = bindings\<rparr>"

text \<open>Drive the pipeline; \<open>polls\<close> bounds the polls of a paused run at each checkpoint.\<close>

definition run_pipeline_of :: "nat \<Rightarrow> 'v service \<Rightarrow> 'v executor \<Rightarrow> run_record \<Rightarrow> (world, result_envelope) py" where
  "run_pipeline_of polls sv ex run =
     andthen (load_media sv run) (\<lambda>media.
     andthen (pipeline_of sv (pref_pipeline_id (run_pipeline run)) (pref_version (run_pipeline run)) False) (\<lambda>pl.
     andthen (case ex_bindings ex of None \<Rightarrow> ret [] | Some resolve \<Rightarrow> resolve (run_tenant_id run) (run_project_id run))
       (\<lambda>bindings.
     andthen (registry_execute (sv_digest sv) (sv_pipelines sv) (\<lambda>w. snd (on_control cancel w)) pl
         (execution_context_of ex run media bindings)
         [(''$media.bytes'', ex_media_bytes ex (or_empty (rm_data media))),
          (''$media.input'', ex_media_input ex (rm_kind media) (rm_content_type media) (rm_data media)
             (rm_source_url media) (rm_file media) (rm_filename media))]
         (execution_parameters sv ex run (rm_kind media)) (checkpoint_loop polls sv run)) (\<lambda>value.
       case ex_as_result ex value of
         None \<Rightarrow> throw (PipelineError ''pipeline did not return a ResultEnvelope'')
       | Some envelope \<Rightarrow> andthen get_sink (\<lambda>sk. ret (with_artifacts ex envelope sk))))))"

definition media_termination :: "result_envelope \<Rightarrow> string option" where
  "media_termination result =
     map_option (py_removeprefix ''media_termination:'')
       (List.find (py_startswith ''media_termination:'') (re_warnings result))"

text \<open>What follows when the result is stored: audit, completion, announcement, next segment.\<close>

definition complete_run :: "'v service \<Rightarrow> run_record \<Rightarrow> result_envelope \<Rightarrow> (world, unit) py" where
  "complete_run sv run result =
     andthen (read_run run) (\<lambda>found. case found of
       None \<Rightarrow> throw (ResourceNotFound ''run disappeared during execution'')
     | Some latest \<Rightarrow>
         andthen (audit_record sv (worker_context run) ''run.complete'' ''run'' (Some (run_run_id run)) ''success''
             [(''unit_count'', JInt (int (length (re_units result)))), (''domain'', JStr (re_domain result))]) (\<lambda>_.
         andthen time_time (\<lambda>now.
         andthen (set_status sv latest COMPLETED (\<lambda>r. r\<lparr>run_progress := 1, run_completed_at := Some now,
             run_termination_reason := media_termination result\<rparr>)) (\<lambda>run'.
         andthen (event sv run' ''result.available''
             [(''result_schema_version'', JStr (re_schema_version result)),
              (''unit_count'', JInt (int (length (re_units result)))), (''result_url'', JStr (result_url run'))]) (\<lambda>_.
           if truthy (run_source_id run') \<and> truthy (run_stream_session_id run') \<and>
             media_termination result = Some ''segment_window_completed''
           then rollover_stream_segment sv run' else ret ())))))"

definition execute_body :: "nat \<Rightarrow> 'v service \<Rightarrow> 'v executor \<Rightarrow> run_record \<Rightarrow> (world, unit) py" where
  "execute_body polls sv ex run =
     andthen (if truthy (run_source_id run) \<and> truthy (run_stream_session_id run)
         then andthen (event sv run ''stream.segment.started''
           [(''session_id'', JStr (or_empty (run_stream_session_id run))),
            (''segment_index'', JInt (segment_index run))]) (\<lambda>_. ret ())
         else ret ()) (\<lambda>_.
     andthen (run_pipeline_of polls sv ex run) (\<lambda>result.
     andthen (for_each (ex_registrars ex) (\<lambda>f. suppress (f run result))) (\<lambda>_.
     andthen get_sink (\<lambda>sk.
     andthen (store_result sv (ex_codec ex) run result (sink_of ex sk) (ex_indexed ex) False) (\<lambda>_.
     andthen (for_each (ex_evaluators ex) (\<lambda>f. suppress (f run result))) (\<lambda>_.
       complete_run sv run result))))))"

text \<open>The handler of \<open>ExecutionStopped\<close>.\<close>

definition finalize_partial :: "'v service \<Rightarrow> 'v executor \<Rightarrow> run_record \<Rightarrow> (world, unit) py" where
  "finalize_partial sv ex run =
     andthen (store_read (get_result_reference (run_tenant_id run) (run_project_id run) (run_run_id run))) (\<lambda>found.
       case found of
         Some reference \<Rightarrow>
           andthen get_sink (\<lambda>sk.
           andthen (if ex_artifacts_enabled ex
               then for_each (retention_records sk (run_created_at run)
                   (Some (run_created_at run + of_int (sv_preview_retention_days sv) * 86400)))
                 (\<lambda>r. store_call (track_object r))
               else ret ()) (\<lambda>_.
           andthen (event sv run ''result.available''
               [(''result_schema_version'', JStr (ref_schema_version reference)),
                (''unit_count'', JInt (ref_unit_count reference)), (''result_url'', JStr (result_url run))])
             (\<lambda>_. ret ())))
       | None \<Rightarrow> if ex_artifacts_enabled ex then discard_artifacts else ret ())"

definition on_stopped :: "'v service \<Rightarrow> 'v executor \<Rightarrow> run_record \<Rightarrow> (world, unit) py" where
  "on_stopped sv ex run =
     andthen (read_run run) (\<lambda>found.
     andthen (case found of
         None \<Rightarrow> ret ()
       | Some latest \<Rightarrow>
           if run_state latest = CANCELLED then ret ()
           else
             andthen (cancel_by_user sv latest) (\<lambda>cancelled.
             andthen (audit_record sv (worker_context run) ''run.cancel'' ''run'' (Some (run_run_id run)) ''success''
                 [(''status'', JStr (run_status_value (run_state cancelled)))]) (\<lambda>_. ret ()))) (\<lambda>_.
       catch (finalize_partial sv ex run) (\<lambda>_. ret ())))"

definition failure_code :: "exn \<Rightarrow> string" where
  "failure_code e = (case e of DomainUnavailable _ \<Rightarrow> ''DOMAIN_UNAVAILABLE'' | _ \<Rightarrow> ''PIPELINE_EXECUTION_FAILED'')"

definition on_failed :: "'v service \<Rightarrow> 'v executor \<Rightarrow> run_record \<Rightarrow> exn \<Rightarrow> (world, unit) py" where
  "on_failed sv ex run e =
     andthen (discard_partial_result run) (\<lambda>_.
     andthen (if ex_artifacts_enabled ex then discard_artifacts else ret ()) (\<lambda>_.
     andthen (read_run run) (\<lambda>found. case found of
       None \<Rightarrow> ret ()
     | Some latest \<Rightarrow>
         if run_state latest \<in> TERMINAL_RUN_STATUSES then ret ()
         else
           let message = take 500 (sv_exn_text sv e) in
           andthen time_time (\<lambda>now.
           andthen (set_status sv latest FAILED (\<lambda>r. r\<lparr>run_completed_at := Some now,
               run_error_code := Some (failure_code e), run_termination_reason := Some message\<rparr>)) (\<lambda>failed.
           andthen (event sv failed ''run.error'' [(''code'', JStr (failure_code e)), (''message'', JStr message)]) (\<lambda>_.
           andthen (audit_record sv (worker_context run) ''run.fail'' ''run'' (Some (run_run_id run)) ''failure''
               [(''code'', JStr (failure_code e)), (''message'', JStr message)])
             (\<lambda>_. ret ())))))))"

text \<open>
  The handlers read the identity, the creation time and the principal of the local variable
  \<open>run\<close>: those of the run that \<open>_begin_execution\<close> returned, or of the queued run when it raised.
\<close>

definition with_handlers :: "'v service \<Rightarrow> 'v executor \<Rightarrow> run_record \<Rightarrow> (world, unit) py \<Rightarrow> (world, unit) py" where
  "with_handlers sv ex run m =
     catch m (\<lambda>e. if e = ExecutionStopped then on_stopped sv ex run else on_failed sv ex run e)"

definition execute_run :: "nat \<Rightarrow> 'v service \<Rightarrow> 'v executor \<Rightarrow> string \<Rightarrow> string \<Rightarrow> string \<Rightarrow> (world, unit) py" where
  "execute_run polls sv ex tenant_id project_id run_id =
     andthen (store_read (get_run tenant_id project_id run_id)) (\<lambda>found. case found of
       None \<Rightarrow> throw (ResourceNotFound ''queued run does not exist'')
     | Some queued \<Rightarrow>
         if run_state queued \<in> TERMINAL_RUN_STATUSES then ret ()
         else
           andthen (set_sink (\<lambda>_. new_sink queued)) (\<lambda>_.
           andthen (catch (andthen (begin_execution sv queued) (\<lambda>run. ret (Some run)))
               (\<lambda>e. andthen (if e = ExecutionStopped then on_stopped sv ex queued else on_failed sv ex queued e)
                 (\<lambda>_. ret None))) (\<lambda>begun.
             case begun of
               None \<Rightarrow> ret ()
             | Some run \<Rightarrow>
                 if run_state run = CANCELLED then ret ()
                 else with_handlers sv ex run (execute_body polls sv ex run))))"

end
