(* ===== verification/Execution_Correct.thy ===== *)
theory Execution_Correct
  imports Run_Execution
begin

text \<open>
  What executing a run keeps: the store stays well formed, and reported progress only grows.
\<close>

section \<open>Driving a pipeline\<close>

text \<open>Operators act on the world; \<open>operators_keep\<close> says that all they do keeps \<open>I\<close>.\<close>

definition operators_keep :: "('w \<Rightarrow> bool) \<Rightarrow> ('w, 'v) pipeline_registry \<Rightarrow> bool" where
  "operators_keep I reg \<longleftrightarrow> (\<forall>x \<in> snd ` set (reg_operators reg). \<forall>ctx ins params w.
     (let run = opr_execute x ctx ins params w in
        (\<forall>p \<in> set (or_polls run). \<forall>v. I v \<longrightarrow> I (poll_effect p v)) \<and>
        (\<forall>v. I v \<longrightarrow> I (or_finish run v)) \<and> (\<forall>v. I v \<longrightarrow> I (or_stopped run v))))"

lemma operator_loop_keeps:
  assumes "\<forall>p \<in> set ps. \<forall>v. I v \<longrightarrow> I (poll_effect p v)"
    and "preserves I result" "preserves I checkpoint" "preserves I stop_operator"
  shows "preserves I (operator_loop timeout running since paused_since ps result checkpoint stop_operator)"
  using assms
proof (induction ps arbitrary: running since paused_since)
  case (Cons p ps)
  let ?after = "\<lambda>running'. andthen (catch_base checkpoint (\<lambda>e. andthen stop_operator (\<lambda>_. throw e)))
    (\<lambda>_. operator_loop timeout running' (poll_cp_now p) (poll_cp_paused p) ps result checkpoint stop_operator)"
  have after: "preserves I (?after running')" for running' :: pyfloat
    using Cons.prems by (intro preserves_intros Cons.IH) auto
  have stop: "preserves I (andthen stop_operator (\<lambda>_. throw TimeoutError))"
    using Cons.prems by (intro preserves_intros)
  have step: "I v \<Longrightarrow> I (poll_effect p v)" for v using Cons.prems by auto
  show ?case
    using after stop step unfolding operator_loop.simps Let_def preserves_def by auto
qed (auto intro!: preserves_intros)

lemma run_attempts_keeps: "preserves I call \<Longrightarrow> preserves I (run_attempts i n call)"
proof (induction n)
  case (Suc n)
  then show ?case by (auto simp: preserves_def split: prod.split sum.split option.split)
qed (simp add: preserves_def)

lemma run_node_keeps:
  assumes "\<And>w. I w \<Longrightarrow> I (cancel_control w)" "preserves I checkpoint" "operators_keep I reg"
  shows "preserves I (run_node (reg_operators reg) cancel_control ctx params checkpoint node outputs)"
proof -
  have call: "preserves I (\<lambda>w. execute_operator (opr_execute x ctx ins ps w) cancel_control checkpoint timeout w)"
    if "dict_get (reg_operators reg) i = Some x" for i x ins ps timeout
  proof (rule preservesI)
    fix w assume "I w"
    let ?run = "opr_execute x ctx ins ps w"
    have x: "x \<in> snd ` set (reg_operators reg)"
      using that by (force dest: map_of_SomeD simp: dict_get_iff_mem)
    have "preserves I (execute_operator ?run cancel_control checkpoint timeout)"
      unfolding execute_operator_def using assms x
      by (intro operator_loop_keeps) (auto simp: operators_keep_def Let_def preserves_def)
    with \<open>I w\<close> show "I (snd (execute_operator ?run cancel_control checkpoint timeout w))" by (simp add: preserves_def)
  qed
  then show ?thesis
    unfolding run_node_def Let_def
    by (auto intro!: preserves_intros run_attempts_keeps split: option.split)
qed

lemma run_nodes_keeps:
  assumes "\<And>w. I w \<Longrightarrow> I (cancel_control w)" "preserves I checkpoint" "operators_keep I reg"
  shows "preserves I (run_nodes (reg_operators reg) cancel_control ctx params checkpoint nodes order outputs)"
  using assms
  by (induction order arbitrary: outputs) (auto intro!: preserves_intros run_node_keeps split: option.split)

lemma registry_execute_keeps:
  assumes "\<And>w. I w \<Longrightarrow> I (cancel_control w)" "preserves I checkpoint" "operators_keep I reg"
  shows "preserves I (registry_execute digest reg cancel_control pl ctx ins params checkpoint)"
  using run_nodes_keeps [OF assms] unfolding registry_execute_def Let_def
  by (auto intro!: preserves_intros split: sum.split option.split)

section \<open>The store stays well formed\<close>

lemma set_sink_guarded [preserves_intros]: "preserves (guarded J) (set_sink f)"
  by (simp add: preserves_def set_sink_def guarded_def)

lemma get_sink_guarded [preserves_intros]: "preserves (guarded J) get_sink"
  by (simp add: preserves_def get_sink_def)

lemma on_control_guarded [preserves_intros]: "preserves (guarded J) (on_control f)"
  by (simp add: preserves_def on_control_def guarded_def tick_def)

lemma read_run_guarded [preserves_intros]: "preserves (guarded J) (read_run run)"
  unfolding read_run_def by (intro preserves_intros)

lemma object_guarded [preserves_intros]:
  "preserves (guarded J) (put_object sv k d ct cat)" "preserves (guarded J) (get_object sv k expected)"
  "preserves (guarded J) (delete_object k)"
  unfolding put_object_def get_object_def delete_object_def by (intro preserves_intros)+

lemma discard_artifacts_guarded [preserves_intros]: "preserves (guarded J) discard_artifacts"
  unfolding discard_artifacts_def by (intro preserves_intros)

lemma load_media_guarded [preserves_intros]: "preserves (guarded J) (load_media sv run)"
  unfolding load_media_def by (intro preserves_intros)

lemma preserves_in_world: "preserves I m \<Longrightarrow> preserves (\<lambda>(w, l). I w) (in_world m)"
  by (auto simp: preserves_def in_world_def split: prod.split)

lemma preserves_written:
  "preserves (\<lambda>(w, l). I w) (note_written k)" "preserves (\<lambda>(w, l). I w) written_keys"
  by (auto simp: preserves_def note_written_def written_keys_def)

text \<open>The calls \<open>_store_result\<close> makes: an invariant of the world closed under them is kept by it.\<close>

locale result_writer =
  fixes I :: "world \<Rightarrow> bool"
  assumes local_put_keeps: "preserves I (object_call (local_put sha enc dec k d ct expected overwrite cat))"
    and delete_keeps: "preserves I (delete_object k)"
    and reference_keeps: "preserves I (store_read (get_result_reference t p r))"
    and asset_keeps: "preserves I (store_read (get_asset t p a))"
    and source_keeps: "preserves I (store_read (get_source t p src))"
    and track_keeps: "preserves I (store_call (track_object rec))"
    and mark_keeps: "preserves I (store_call (mark_objects_deleted ks now))"
    and save_keeps: "preserves I (store_call (save_result_reference t p ref))"
    and index_keeps: "preserves I (remote_call (Inr ()))"
    and uuid_keeps: "preserves I uuid4_hex"
    and time_keeps: "preserves I time_time"
begin

lemma put_keeps: "preserves I (put_object sv k d ct cat)"
  unfolding put_object_def by (intro preserves_intros local_put_keeps)

lemmas call_keeps = put_keeps delete_keeps reference_keeps asset_keeps source_keeps track_keeps mark_keeps
  save_keeps index_keeps uuid_keeps time_keeps

lemma put_shards_keeps: "preserves (\<lambda>(w, l). I w) (put_shards sv cd b i cs)"
  by (induction cs arbitrary: i)
     (auto simp: Let_def intro!: preserves_andthen preserves_in_world put_keeps preserves_written preserves_Pair preserves_ret)

lemma save_result_keeps: "preserves (\<lambda>(w, l). I w) (save_result sv cd run res sink indexed part prev)"
  unfolding save_result_def write_shards_def drop_previous_def Let_def
  by (intro preserves_intros preserves_in_world preserves_written put_shards_keeps call_keeps)

lemma store_result_keeps: "preserves I (store_result sv cd run res sink indexed part)"
proof -
  have kept: "I w \<Longrightarrow> I (fst (snd (save_result sv cd run res sink indexed part prev (w, l))))" for w l prev
    using save_result_keeps [of sv cd run res sink indexed part prev] by (auto simp: preserves_def case_prod_beta)
  have undo: "preserves I (andthen (for_each ks (\<lambda>k. suppress (delete_object k))) (\<lambda>_.
      andthen time_time (\<lambda>now. andthen (suppress (store_call (mark_objects_deleted ks now)))
        (\<lambda>_. throw e))) :: (world, result_reference) py)" for ks e
    by (intro preserves_intros call_keeps)
  show ?thesis
    unfolding store_result_def
  proof (intro preserves_andthen reference_keeps preservesI)
    fix prev w assume w: "I w"
    obtain r w' ks where run: "save_result sv cd run res sink indexed part prev (w, []) = (r, w', ks)"
      by (metis prod_cases3)
    then have "I w'" using kept [OF w, of prev "[]"] by simp
    then show "I (snd (case save_result sv cd run res sink indexed part prev (w, []) of
        (Inr reference, (w', _)) \<Rightarrow> (Inr reference, w')
      | (Inl e, (w', keys)) \<Rightarrow> if e = CancelledError then (Inl e, w')
          else andthen (for_each keys (\<lambda>k. suppress (delete_object k))) (\<lambda>_.
            andthen time_time (\<lambda>now.
            andthen (suppress (store_call (mark_objects_deleted keys now))) (\<lambda>_. throw e))) w'))"
      using preservesD [OF undo] by (simp add: run split: sum.split)
  qed
qed

end

text \<open>The code outside the platform keeps \<open>I\<close>: operators, registrars, evaluators, model resolver.\<close>

definition extensions_keep :: "(world \<Rightarrow> bool) \<Rightarrow> 'v service \<Rightarrow> 'v executor \<Rightarrow> bool" where
  "extensions_keep I sv ex \<longleftrightarrow> operators_keep I (sv_pipelines sv) \<and>
     (\<forall>f \<in> set (ex_registrars ex) \<union> set (ex_evaluators ex). \<forall>run res. preserves I (f run res)) \<and>
     (\<forall>resolve. ex_bindings ex = Some resolve \<longrightarrow> (\<forall>t p. preserves I (resolve t p)))"

lemma for_each_keeps: "(\<And>x. x \<in> set xs \<Longrightarrow> preserves I (f x)) \<Longrightarrow> preserves I (for_each xs f)"
  by (induction xs) (auto intro: preserves_intros)

text \<open>The operations on results and retention that the execution needs beyond those of \<open>run_invariant\<close>.\<close>

locale execution_invariant =
  fixes J :: "mem \<Rightarrow> bool"
  assumes runs: "run_invariant J T P"
    and J_result: "preserves J (save_result_reference t p ref)"
    and J_track: "preserves J (track_object r)"
    and J_mark: "preserves J (mark_objects_deleted ks now)"

sublocale execution_invariant \<subseteq> written: result_writer "guarded J"
  by unfold_locales (intro preserves_intros J_result J_track J_mark)+

context execution_invariant
begin

lemmas set_status_run = run_invariant.set_status_keeps [OF runs refl refl]
lemmas event_run = run_invariant.event_keeps [OF runs refl refl]
lemmas audit_run = run_invariant.audit_record_keeps [OF runs refl refl]
lemmas create_run_run = run_invariant.create_run_keeps [OF runs refl refl]
lemmas pipeline_run = run_invariant.pipeline_of_keeps [OF runs]

lemma save_run_any: "preserves J (save_run r n)"
  by (rule run_invariant.J_save [OF runs refl refl])

lemma cancel_by_user_keeps: "preserves (guarded J) (cancel_by_user sv run)"
  unfolding cancel_by_user_def by (intro preserves_intros set_status_run) simp

lemma begin_loop_keeps: "preserves (guarded J) (begin_loop n sv run)"
proof (induction n arbitrary: run)
  case (Suc n)
  have handler: "preserves (guarded J) (case e of StateConflict _ \<Rightarrow>
        andthen (read_run run) (\<lambda>found. case found of
          None \<Rightarrow> throw (ResourceNotFound m) | Some latest \<Rightarrow> begin_loop n sv latest)
      | _ \<Rightarrow> throw e)" for e m
    by (cases e) (auto intro!: preserves_intros Suc.IH)
  show ?case
    unfolding begin_loop.simps
    by (intro preserves_intros cancel_by_user_keeps set_status_run handler) simp
qed (simp add: preserves_throw)

lemma checkpoint_keeps: "preserves (guarded J) (checkpoint_loop n sv run)"
  by (induction n)
     (auto simp: preserves_Pair intro!: preserves_andthen preserves_if preserves_option preserves_throw preserves_ret
        read_run_guarded on_control_guarded cancel_by_user_keeps set_status_run)

lemma discard_partial_keeps: "preserves (guarded J) (discard_partial_result run)"
  unfolding discard_partial_result_def Let_def by (intro preserves_intros J_mark)

lemma rollover_keeps: "preserves (guarded J) (rollover_stream_segment sv run)"
proof -
  have "preserves (guarded J) (case e of StateConflict _ \<Rightarrow> ret latest | _ \<Rightarrow> throw e)" for e and latest :: run_record
    by (cases e) (auto intro: preserves_intros)
  then show ?thesis
    unfolding rollover_stream_segment_def link_next_segment_def Let_def
    by (intro preserves_intros create_run_run event_run save_run_any)
qed

lemma complete_run_keeps: "preserves (guarded J) (complete_run sv run res)"
  unfolding complete_run_def
  by (intro preserves_intros set_status_run event_run audit_run rollover_keeps) simp

lemma on_failed_keeps: "preserves (guarded J) (on_failed sv ex run e)"
  unfolding on_failed_def Let_def
  by (intro preserves_intros discard_partial_keeps set_status_run event_run audit_run) simp

lemma on_stopped_keeps: "preserves (guarded J) (on_stopped sv ex run)"
  unfolding on_stopped_def finalize_partial_def
  by (intro preserves_intros cancel_by_user_keeps event_run audit_run J_track)

lemma execute_run_keeps:
  assumes "extensions_keep (guarded J) sv ex"
  shows "preserves (guarded J) (execute_run n sv ex t p r)"
proof -
  have resolve: "preserves (guarded J) (case ex_bindings ex of None \<Rightarrow> ret [] | Some f \<Rightarrow> f t p)" for t p
    using assms by (auto simp: extensions_keep_def intro: preserves_intros split: option.split)
  have ops: "operators_keep (guarded J) (sv_pipelines sv)" using assms by (simp add: extensions_keep_def)
  have pipeline: "preserves (guarded J) (run_pipeline_of n sv ex run)" for run
    unfolding run_pipeline_of_def
    by (intro preserves_intros pipeline_run resolve registry_execute_keeps checkpoint_keeps ops preservesD [OF on_control_guarded])
  have hooks: "preserves (guarded J) (for_each fs (\<lambda>f. suppress (f run res)))"
    if "set fs \<subseteq> set (ex_registrars ex) \<union> set (ex_evaluators ex)" for fs run res
    using that assms by (intro for_each_keeps preserves_suppress) (auto simp: extensions_keep_def)
  have body: "preserves (guarded J) (execute_body n sv ex run)" for run
    unfolding execute_body_def
    by (intro preserves_intros event_run pipeline hooks written.store_result_keeps complete_run_keeps) auto
  show ?thesis
    unfolding execute_run_def with_handlers_def begin_execution_def
    by (intro preserves_intros begin_loop_keeps on_stopped_keeps on_failed_keeps body)
qed

lemma publish_partial_keeps:
  assumes "extensions_keep (guarded J) sv ex"
  shows "preserves (guarded J) (publish_partial_result sv ex run published v)"
proof -
  have hooks: "preserves (guarded J) (for_each (ex_evaluators ex) (\<lambda>f. suppress (f run res)))" for res
    using assms by (intro for_each_keeps preserves_suppress) (auto simp: extensions_keep_def)
  show ?thesis
    unfolding publish_partial_result_def announce_partial_def Let_def
    by (intro preserves_intros hooks written.store_result_keeps event_run)
qed

end

interpretation store_results: execution_invariant store_inv
  by unfold_locales
     (use store_kept.run_invariant_axioms in \<open>auto simp: run_invariant_def preserves_def intro: store_inv_intros\<close>)


definition sample_executor :: "unit executor" where
  "sample_executor = \<lparr>ex_codec = \<lparr>cd_dump_units = (\<lambda>_. []), cd_load_units = (\<lambda>_. Inr []), cd_dump_result = (\<lambda>_. []),
       cd_load_result = (\<lambda>_. Inl KeyError)\<rparr>, ex_indexed = False, ex_artifacts_enabled = True,
     ex_production = False, ex_sample_interval_ms = 1000, ex_media_bytes = (\<lambda>_. ()),
     ex_media_input = (\<lambda>_ _ _ _ _ _. ()), ex_as_result = (\<lambda>_. None), ex_registrars = [], ex_evaluators = [],
     ex_bindings = None\<rparr>"

lemma sample_extensions: "extensions_keep I sample_service sample_executor"
  by (simp add: extensions_keep_def operators_keep_def sample_service_def sample_executor_def registry_init_def)


section \<open>Progress\<close>

definition progress_within :: "key3 \<Rightarrow> pyfloat \<Rightarrow> pyfloat \<Rightarrow> mem \<Rightarrow> bool" where
  "progress_within k lo hi s \<longleftrightarrow> store_inv s \<and>
     (\<exists>r. dict_get (mem_runs s) k = Some r \<and> lo \<le> run_progress r \<and> run_progress r \<le> hi)"

lemma progress_event: "preserves (progress_within k lo hi) (append_event uu t p ev)"
  by (simp add: preserves_def progress_within_def append_event_inv)
     (simp add: append_event_def Let_def split: option.split)

lemma progress_save:
  assumes "run_key v = k \<Longrightarrow> lo \<le> run_progress v \<and> run_progress v \<le> hi"
  shows "preserves (progress_within k lo hi) (save_run v n)"
  using assms by (simp add: preserves_def progress_within_def save_run_inv)
     (auto simp: save_run_def Let_def split: option.split)

lemma read_run_progress:
  "yields (guarded (progress_within k lo hi)) (\<lambda>found. \<forall>r. found = Some r \<longrightarrow>
     run_key r = k \<longrightarrow> lo \<le> run_progress r \<and> run_progress r \<le> hi) (read_run run)"
  unfolding read_run_def
proof (rule store_read_yields, intro allI impI)
  fix s r assume s: "progress_within k lo hi s"
    and r: "get_run (run_tenant_id run) (run_project_id run) (run_run_id run) s = Some r" and k: "run_key r = k"
  have "keyed run_key (mem_runs s)" using s by (simp add: progress_within_def store_inv_def run_inv_def)
  with r have "dict_get (mem_runs s) (run_key r) = Some r" by (auto simp: get_run_def dest: keyed_get)
  with s k show "lo \<le> run_progress r \<and> run_progress r \<le> hi" by (auto simp: progress_within_def)
qed

lemma report_loop_progress:
  assumes "99 / 100 \<le> hi"
  shows "preserves (guarded (progress_within k lo hi)) (report_loop n sv run progress payload)"
proof (induction n)
  case (Suc n)
  have conflict: "preserves (guarded (progress_within k lo hi)) (case e of StateConflict _ \<Rightarrow> ret None | _ \<Rightarrow> throw e)"
    for e and x :: "run_record option"
    by (cases e) (auto intro: preserves_intros)
  have event: "preserves (guarded (progress_within k lo hi)) (event sv r ety pl)" for r ety pl
    unfolding event_def by (intro preserves_intros progress_event)
  show ?case
    unfolding report_loop.simps
  proof (rule preserves_andthen_yields [OF read_run_guarded read_run_progress])
    fix found :: "run_record option"
    assume found: "\<forall>r. found = Some r \<longrightarrow> run_key r = k \<longrightarrow> lo \<le> run_progress r \<and> run_progress r \<le> hi"
    show "preserves (guarded (progress_within k lo hi)) (case found of
       None \<Rightarrow> throw (ResourceNotFound ''run disappeared while reporting progress'')
     | Some latest \<Rightarrow>
         if run_state latest \<in> TERMINAL_RUN_STATUSES then ret ()
         else case progress of
           None \<Rightarrow> andthen (event sv latest ''run.progress'' (merge_parameters [(''progress'', JNull)] payload)) (\<lambda>_. ret ())
         | Some p \<Rightarrow>
             let next_progress = max (run_progress latest) (min (99 / 100) p) in
             if next_progress \<le> run_progress latest then ret ()
             else
               andthen time_time (\<lambda>now.
               andthen (catch
                   (andthen (store_call (save_run (latest\<lparr>run_progress := next_progress, run_updated_at := now\<rparr>)
                       (run_revision latest))) (\<lambda>saved. ret (Some saved)))
                   (\<lambda>e. case e of StateConflict _ \<Rightarrow> ret None | _ \<Rightarrow> throw e)) (\<lambda>outcome.
                 case outcome of
                   None \<Rightarrow> report_loop n sv run progress payload
                 | Some saved \<Rightarrow>
                     andthen (event sv saved ''run.progress''
                       (merge_parameters [(''progress'', JFloat (run_progress saved))] payload)) (\<lambda>_. ret ()))))"
    proof (cases found)
      case (Some latest)
      have "preserves (progress_within k lo hi)
          (save_run (latest\<lparr>run_progress := max (run_progress latest) (min (99 / 100) p), run_updated_at := now\<rparr>) m)" for p now m
        using found Some assms by (intro progress_save) (auto simp: run_key_def)
      then show ?thesis
        unfolding Some option.case Let_def
        by (intro preserves_intros event conflict Suc.IH)
    qed (simp add: preserves_throw)
  qed
qed (simp add: preserves_Pair)

text \<open>
  Reported progress only grows and stays below one. However reports of several workers
  interleave with each other and with other tasks, a run whose progress lies between \<open>lo\<close> and
  0.99 keeps it there: a report never lowers it, never lifts it past 0.99 and never makes the
  run disappear, also when it fails.
\<close>

lemma progress_monotone:
  assumes "progress_within k lo (99 / 100) (w_store w)"
    and "\<And>n s. progress_within k lo (99 / 100) s \<Longrightarrow> progress_within k lo (99 / 100) (w_env w n s)"
  shows "progress_within k lo (99 / 100) (w_store (snd (report_progress sv run progress payload w)))"
proof -
  have "guarded (progress_within k lo (99 / 100)) w" using assms by (simp add: guarded_def)
  then have "guarded (progress_within k lo (99 / 100)) (snd (report_progress sv run progress payload w))"
    unfolding report_progress_def by (rule preservesD [OF report_loop_progress [OF order_refl]])
  then show ?thesis by (simp add: guarded_def)
qed

end
