(* ===== verification/Py_Outcomes.thy ===== *)
theory Py_Outcomes
  imports Py_Prelude
begin

text \<open>
  A calculus for the outcome of a computation, returned or raised, used where a proof follows the
  error paths of the code: exception handlers, rollbacks and retries.
\<close>

section \<open>Outcomes\<close>

text \<open>The outcome of a computation: \<open>Q\<close> when it returns, \<open>E\<close> when it raises.\<close>

definition outcome :: "('s \<Rightarrow> bool) \<Rightarrow> ('s, 'a) py \<Rightarrow> ('a \<Rightarrow> 's \<Rightarrow> bool) \<Rightarrow> (exn \<Rightarrow> 's \<Rightarrow> bool) \<Rightarrow> bool" where
  "outcome P m Q E \<longleftrightarrow> (\<forall>s s'. P s \<longrightarrow> (\<forall>x. m s = (Inr x, s') \<longrightarrow> Q x s') \<and> (\<forall>e. m s = (Inl e, s') \<longrightarrow> E e s'))"

lemma outcome_ret: "(\<And>s. P s \<Longrightarrow> Q x s) \<Longrightarrow> outcome P (ret x) Q E"
  by (simp add: outcome_def)

lemma outcome_throw: "(\<And>s. P s \<Longrightarrow> E e s) \<Longrightarrow> outcome P (throw e) Q E"
  by (simp add: outcome_def)

lemma outcome_andthen:
  assumes m: "outcome P m R E" and f: "\<And>x. outcome (R x) (f x) Q E"
  shows "outcome P (andthen m f) Q E"
  unfolding outcome_def
proof (intro allI impI)
  fix s s' assume s: "P s"
  obtain r s1 where r: "m s = (r, s1)" by (cases "m s")
  show "(\<forall>x. andthen m f s = (Inr x, s') \<longrightarrow> Q x s') \<and> (\<forall>e. andthen m f s = (Inl e, s') \<longrightarrow> E e s')"
  proof (cases r)
    case (Inr y)
    with m s r have "R y s1" unfolding outcome_def by blast
    with f [of y] r Inr show ?thesis unfolding outcome_def andthen_def by simp
  qed (use m s r in \<open>auto simp: outcome_def andthen_def\<close>)
qed

lemma outcome_catch:
  assumes m: "outcome P m Q E'" and h: "\<And>e. e \<noteq> CancelledError \<Longrightarrow> outcome (E' e) (h e) Q E"
    and c: "\<And>s. E' CancelledError s \<Longrightarrow> E CancelledError s"
  shows "outcome P (catch m h) Q E"
  unfolding outcome_def
proof (intro allI impI)
  fix s s' assume s: "P s"
  obtain r s1 where r: "m s = (r, s1)" by (cases "m s")
  show "(\<forall>x. catch m h s = (Inr x, s') \<longrightarrow> Q x s') \<and> (\<forall>e. catch m h s = (Inl e, s') \<longrightarrow> E e s')"
  proof (cases r)
    case (Inl e)
    with m s r have "E' e s1" unfolding outcome_def by blast
    with h [of e] c r Inl show ?thesis unfolding outcome_def catch_def by auto
  qed (use m s r in \<open>auto simp: outcome_def catch_def\<close>)
qed

lemma outcome_preserves: "preserves P m \<Longrightarrow> outcome P m (\<lambda>_. P) (\<lambda>_. P)"
  unfolding outcome_def preserves_def by (metis snd_conv)

lemma outcome_suppress: "preserves P m \<Longrightarrow> outcome P (suppress m) (\<lambda>_. P) (\<lambda>e _. e = CancelledError)"
  unfolding outcome_def preserves_def suppress_def by (auto split: if_splits)

lemma outcome_weaken:
  assumes "outcome P m Q E" "\<And>s. P' s \<Longrightarrow> P s" "\<And>x s. Q x s \<Longrightarrow> Q' x s" "\<And>e s. E e s \<Longrightarrow> E' e s"
  shows "outcome P' m Q' E'"
  using assms unfolding outcome_def by metis

lemma outcome_conj: "(C \<Longrightarrow> outcome P m Q E) \<Longrightarrow> outcome (\<lambda>s. C \<and> P s) m Q E"
  unfolding outcome_def by blast

lemma outcome_ex: "(\<And>a. outcome (P a) m Q E) \<Longrightarrow> outcome (\<lambda>s. \<exists>a. P a s) m Q E"
  unfolding outcome_def by blast

lemma outcome_for_each_suppress:
  assumes "\<And>x. x \<in> set xs \<Longrightarrow> preserves P (f x)"
  shows "outcome P (for_each xs (\<lambda>x. suppress (f x))) (\<lambda>_. P) (\<lambda>e _. e = CancelledError)"
  using assms
proof (induction xs)
  case (Cons x xs)
  then show ?case
    by (auto intro!: outcome_andthen [OF outcome_suppress])
qed (simp add: outcome_def)

lemma outcome_sure:
  assumes "outcome P m R (\<lambda>_ _. False)" and "\<And>x. outcome (R x) (f x) Q E"
  shows "outcome P (andthen m f) Q E"
  by (rule outcome_andthen [OF outcome_weaken [OF assms(1)] assms(2)]) auto

end
