(* ===== verification/Execution_Outcome.thy ===== *)
theory Execution_Outcome
  imports Execution_Correct Py_Outcomes
begin

text \<open>
  Where an execution ends: outcomes of the steps of \<open>execute_run\<close> in a world without failures, for
  every way they can end, put together to the statement that the run ends completed, failed or
  cancelled.
\<close>

section \<open>A calm world\<close>

text \<open>
  A calm world for the run stored under \<open>k\<close>, which is one of \<open>R\<close>: no call fails, other tasks
  leave the run alone, and the artifact sink holds only the warning it can produce.
\<close>

definition stored_in :: "key3 \<Rightarrow> run_record set \<Rightarrow> mem \<Rightarrow> bool" where
  "stored_in k R s \<longleftrightarrow> store_inv s \<and> (\<exists>r \<in> R. dict_get (mem_runs s) k = Some r)"

definition calm :: "key3 \<Rightarrow> run_record set \<Rightarrow> world \<Rightarrow> bool" where
  "calm k R w \<longleftrightarrow> (\<forall>n. w_fault w n = None) \<and> stored_in k R (w_store w) \<and>
     (\<forall>n s. stored_in k UNIV s \<longrightarrow> store_inv (w_env w n s) \<and> dict_get (mem_runs (w_env w n s)) k = dict_get (mem_runs s) k) \<and>
     set (sk_warnings (w_sink w)) \<subseteq> {''artifact_storage_unavailable''}"

lemma calm_mono: "calm k R w \<Longrightarrow> R \<subseteq> S \<Longrightarrow> calm k S w"
  by (auto simp: calm_def stored_in_def)

lemma calm_pick: "calm k R w \<Longrightarrow> \<exists>r \<in> R. calm k {r} w"
  by (auto simp: calm_def stored_in_def)

lemma stored_in_env: "calm k R w \<Longrightarrow> stored_in k R s \<Longrightarrow> stored_in k R (w_env w n s)"
  by (force simp: calm_def stored_in_def)

lemma calm_store_call:
  assumes "preserves (stored_in k R) m"
  shows "preserves (calm k R) (store_call m)"
proof (rule preservesI)
  fix w assume w: "calm k R w"
  let ?s = "w_env w (w_step w) (w_store w)"
  have "stored_in k R ?s" using w by (intro stored_in_env) (simp_all add: calm_def)
  then have "stored_in k R (snd (m ?s))" using assms by (simp add: preserves_def)
  with w show "calm k R (snd (store_call m w))"
    by (cases "m ?s") (simp add: calm_def store_call_def Let_def)
qed

lemma calm_calls [preserves_intros]:
  "preserves (calm k R) (store_read f)" "preserves (calm k R) (object_call om)" "preserves (calm k R) (secret_call sm)"
  "preserves (calm k R) (remote_call r)" "preserves (calm k R) time_time" "preserves (calm k R) uuid4_hex"
  "preserves (calm k R) (on_control g)" "preserves (calm k R) get_sink"
  unfolding store_read_def
  by (rule calm_store_call, simp add: preserves_def)
     (auto simp: preserves_def calm_def object_call_def secret_call_def remote_call_def time_time_def uuid4_hex_def
       on_control_def get_sink_def tick_def split: prod.split option.split)

lemma stored_in_ops:
  "preserves (stored_in k R) (append_event uu t p ev)" "preserves (stored_in k R) (append_audit e)"
  "preserves (stored_in k R) (register_pipeline_definition dg pl)" "preserves (stored_in k UNIV) (save_run r n)"
  "preserves (stored_in k R) (track_object rec)" "preserves (stored_in k R) (mark_objects_deleted ks now)"
  "preserves (stored_in k R) (save_result_reference t p ref)"
proof -
  note kept = preserves_def stored_in_def
  show "preserves (stored_in k R) (append_event uu t p ev)"
    by (simp add: kept append_event_inv) (simp add: append_event_def Let_def split: option.split)
  show "preserves (stored_in k R) (append_audit e)"
    by (simp add: kept append_audit_inv) (simp add: append_audit_def)
  show "preserves (stored_in k R) (register_pipeline_definition dg pl)"
    by (simp add: kept register_pipeline_inv) (simp add: register_pipeline_definition_def Let_def split: option.split)
  show "preserves (stored_in k UNIV) (save_run r n)"
    by (simp add: kept save_run_inv) (auto simp: save_run_def Let_def split: option.split)
  show "preserves (stored_in k R) (track_object rec)"
    by (simp add: kept track_object_inv) (simp add: track_object_def Let_def split: option.split)
  show "preserves (stored_in k R) (mark_objects_deleted ks now)"
    by (simp add: kept mark_objects_deleted_inv) (simp add: mark_objects_deleted_def Let_def)
  show "preserves (stored_in k R) (save_result_reference t p ref)"
    by (simp add: kept save_result_reference_inv) (simp add: save_result_reference_def)
qed

lemma calm_or_uuid [preserves_intros]: "preserves (calm k R) (or_uuid v)"
  unfolding or_uuid_def by (intro preserves_intros)

lemma calm_append_run_event: "preserves (calm k R) (append_run_event t p e)"
  using calm_store_call [OF stored_in_ops(1)] unfolding append_run_event_def preserves_def by blast

lemma calm_event [preserves_intros]: "preserves (calm k R) (event sv run ety payload)"
  unfolding event_def by (intro preserves_intros calm_append_run_event)

lemma calm_audit [preserves_intros]: "preserves (calm k R) (audit_record sv ctx action rt ri out evd)"
  unfolding audit_record_def Let_def by (intro preserves_intros calm_store_call stored_in_ops)

lemma calm_set_status [preserves_intros]: "preserves (calm k UNIV) (set_status sv run st f)"
  unfolding set_status_def by (intro preserves_intros calm_store_call stored_in_ops)

lemma calm_read_run [preserves_intros]: "preserves (calm k R) (read_run run)"
  unfolding read_run_def by (intro preserves_intros)

lemma calm_cancel_by_user [preserves_intros]: "preserves (calm k UNIV) (cancel_by_user sv run)"
  unfolding cancel_by_user_def by (intro preserves_intros)

lemma calm_pipeline_of [preserves_intros]: "preserves (calm k R) (pipeline_of sv pid v a)"
  unfolding pipeline_of_def sync_pipeline_catalog_def
  by (intro preserves_intros calm_store_call stored_in_ops of_sum_guarded)

lemma calm_checkpoint [preserves_intros]: "preserves (calm k UNIV) (checkpoint_loop n sv run)"
  by (induction n) (auto simp: preserves_Pair intro!: preserves_intros)

lemma calm_objects [preserves_intros]:
  "preserves (calm k R) (put_object sv ok d ct cat)" "preserves (calm k R) (get_object sv ok expected)"
  "preserves (calm k R) (delete_object ok)"
  unfolding put_object_def get_object_def delete_object_def by (intro preserves_intros)+

lemma calm_load_media [preserves_intros]: "preserves (calm k R) (load_media sv run)"
  unfolding load_media_def by (intro preserves_intros)

interpretation calm_results: result_writer "calm k R" for k R
  by unfold_locales (intro preserves_intros calm_store_call stored_in_ops)+

lemma calm_discard [preserves_intros]: "preserves (calm k R) discard_artifacts"
  unfolding discard_artifacts_def
  by (intro preserves_intros) (simp add: preserves_def set_sink_def calm_def)

lemma calm_finalize: "preserves (calm k R) (finalize_partial sv ex run)"
  unfolding finalize_partial_def by (intro preserves_intros calm_store_call stored_in_ops)

section \<open>The run itself\<close>

lemma outcome_calm:
  assumes "preserves (calm k R) m" and "\<And>w e w'. calm k R w \<Longrightarrow> m w \<noteq> (Inl e, w')"
  shows "outcome (calm k R) m (\<lambda>_. calm k R) (\<lambda>_ _. False)"
  using assms unfolding outcome_def preserves_def by (metis snd_conv)

lemma outcome_time: "outcome (calm k R) time_time (\<lambda>_. calm k R) (\<lambda>_ _. False)"
  by (rule outcome_calm) (auto intro: preserves_intros simp: time_time_def)

lemma outcome_get_run:
  assumes "store_key t p i = k"
  shows "outcome (calm k R) (store_read (get_run t p i))
    (\<lambda>found w. \<exists>r \<in> R. found = Some r \<and> run_key r = k \<and> calm k {r} w) (\<lambda>_ _. False)"
  unfolding outcome_def
proof (intro allI impI)
  fix w w' assume w: "calm k R w"
  let ?s = "w_env w (w_step w) (w_store w)"
  have "stored_in k R ?s" using w by (intro stored_in_env) (simp_all add: calm_def)
  then obtain r where r: "r \<in> R" "dict_get (mem_runs ?s) k = Some r" "store_inv ?s" by (auto simp: stored_in_def)
  then have "run_key r = k" by (auto simp: store_inv_def run_inv_def dest: keyed_get)
  moreover have "calm k {r} (w\<lparr>w_step := Suc (w_step w), w_store := ?s\<rparr>)"
    using w r by (auto simp: calm_def stored_in_def)
  moreover have "store_read (get_run t p i) w = (Inr (Some r), w\<lparr>w_step := Suc (w_step w), w_store := ?s\<rparr>)"
    using w r assms by (simp add: store_read_def store_call_def Let_def calm_def get_run_def)
  ultimately show "(\<forall>found. store_read (get_run t p i) w = (Inr found, w') \<longrightarrow>
        (\<exists>r \<in> R. found = Some r \<and> run_key r = k \<and> calm k {r} w')) \<and>
      (\<forall>e. store_read (get_run t p i) w = (Inl e, w') \<longrightarrow> False)"
    using r by auto
qed

lemma or_uuid_returns: "\<exists>x w'. or_uuid v w = (Inr x, w')"
  by (cases v) (simp_all add: or_uuid_def uuid4_hex_def)

lemma append_run_event_returns:
  assumes "calm k R w" and "store_key t p (ev_run_id ev) = k"
  shows "\<exists>x w'. append_run_event t p ev w = (Inr x, w')"
proof -
  let ?s = "w_env w (w_step w) (w_store w)"
  have "stored_in k R ?s" using assms(1) by (intro stored_in_env) (simp_all add: calm_def)
  then have "dict_get (mem_runs ?s) k \<noteq> None" and "run_inv ?s" by (auto simp: stored_in_def store_inv_def)
  then have "dict_get (mem_events ?s) k \<noteq> None" unfolding run_inv_def by metis
  then obtain rows where "dict_get (mem_events ?s) k = Some rows" by blast
  moreover have "w_fault w (w_step w) = None" using assms(1) by (simp add: calm_def)
  ultimately show ?thesis using assms(2)
    by (simp add: append_run_event_def store_call_def Let_def append_event_def)
qed

lemma outcome_event:
  assumes "run_key run = k"
  shows "outcome (calm k R) (event sv run ety payload) (\<lambda>_. calm k R) (\<lambda>_ _. False)"
proof (rule outcome_calm [OF calm_event])
  fix w e w' assume w: "calm k R w"
  obtain now v where v: "time_time w = (Inr now, v)" by (simp add: time_time_def)
  then have calm_v: "calm k R v" using preservesD [OF calm_calls(5) w] by (metis snd_conv)
  obtain tr u where u: "or_uuid (run_trace_id run) v = (Inr tr, u)" using or_uuid_returns by blast
  then have calm_u: "calm k R u" using preservesD [OF calm_or_uuid calm_v] by (metis snd_conv)
  have "\<exists>x w'. append_run_event (run_tenant_id run) (run_project_id run) ev u = (Inr x, w')"
    if "ev_run_id ev = run_run_id run" for ev
    using that assms by (intro append_run_event_returns [OF calm_u]) (simp add: run_key_def)
  then have "\<exists>x w'. event sv run ety payload w = (Inr x, w')"
    unfolding event_def using v u by (simp add: andthen_Inr [of time_time] andthen_Inr [of "or_uuid (run_trace_id run)"])
  then show "event sv run ety payload w \<noteq> (Inl e, w')" by auto
qed

lemma outcome_audit: "outcome (calm k R) (audit_record sv ctx action rt ri out evd) (\<lambda>_. calm k R) (\<lambda>_ _. False)"
  by (rule outcome_calm [OF calm_audit])
     (simp add: audit_record_def andthen_def uuid4_hex_def time_time_def tick_def catch_def store_call_def Let_def
        append_audit_def calm_def)

lemma outcome_set_status:
  assumes run: "run_key run = k" and f: "\<And>r. run_key (f r) = run_key r \<and> run_state (f r) = run_state r"
  shows "outcome (calm k {run}) (set_status sv run st f)
    (\<lambda>saved w. (run_key saved = k \<and> run_state saved = st) \<and> calm k {r. run_state r = st} w) (\<lambda>_ _. False)"
proof -
  have saved: "outcome (calm k {run}) (store_call (save_run (f (run\<lparr>run_state := st, run_updated_at := now\<rparr>)) (run_revision run)))
      (\<lambda>saved w. (run_key saved = k \<and> run_state saved = st) \<and> calm k {r. run_state r = st} w) (\<lambda>_ _. False)" for now
    unfolding outcome_def
  proof (intro allI impI)
    fix w w' assume w: "calm k {run} w"
    let ?s = "w_env w (w_step w) (w_store w)" and ?v = "f (run\<lparr>run_state := st, run_updated_at := now\<rparr>)"
    let ?saved = "?v\<lparr>run_revision := run_revision run + 1\<rparr>"
    have stored: "stored_in k {run} ?s" using w by (intro stored_in_env) (simp_all add: calm_def)
    have v: "run_key ?v = k" "run_state ?v = st" using f run by (simp_all add: run_key_def)
    have res: "save_run ?v (run_revision run) ?s = (Inr ?saved, ?s\<lparr>mem_runs := dict_set k ?saved (mem_runs ?s)\<rparr>)"
      using stored v by (simp add: save_run_def stored_in_def Let_def)
    have "store_inv (snd (save_run ?v (run_revision run) ?s))" using stored by (simp add: stored_in_def save_run_inv)
    then have "store_inv (?s\<lparr>mem_runs := dict_set k ?saved (mem_runs ?s)\<rparr>)" unfolding res by simp
    moreover have "store_call (save_run ?v (run_revision run)) w =
        (Inr ?saved, w\<lparr>w_step := Suc (w_step w), w_store := ?s\<lparr>mem_runs := dict_set k ?saved (mem_runs ?s)\<rparr>\<rparr>)"
      using w by (simp add: store_call_def Let_def res calm_def)
    ultimately show "(\<forall>x. store_call (save_run ?v (run_revision run)) w = (Inr x, w') \<longrightarrow>
          (run_key x = k \<and> run_state x = st) \<and> calm k {r. run_state r = st} w') \<and>
        (\<forall>e. store_call (save_run ?v (run_revision run)) w = (Inl e, w') \<longrightarrow> False)"
      using w v by (auto simp: calm_def stored_in_def run_key_def)
  qed
  show ?thesis
    unfolding set_status_def
  proof (rule outcome_andthen [OF outcome_time], rule outcome_andthen [OF saved])
    fix saved
    show "outcome (\<lambda>w. (run_key saved = k \<and> run_state saved = st) \<and> calm k {r. run_state r = st} w)
        (andthen (event sv saved (''run.'' @ run_status_value st) []) (\<lambda>_. ret saved))
        (\<lambda>saved w. (run_key saved = k \<and> run_state saved = st) \<and> calm k {r. run_state r = st} w) (\<lambda>_ _. False)"
    proof (cases "run_key saved = k \<and> run_state saved = st")
      case True
      then show ?thesis
        by (intro outcome_andthen [OF outcome_weaken [OF outcome_event]] outcome_ret) auto
    qed (auto simp: outcome_def)
  qed
qed

abbreviation ended :: "run_record set" where
  "ended \<equiv> {r. run_state r \<in> TERMINAL_RUN_STATUSES}"

lemma outcome_get:
  assumes "store_key t p i = k" and "\<And>r. r \<in> R \<Longrightarrow> run_key r = k \<Longrightarrow> outcome (calm k {r}) (f (Some r)) Q E"
  shows "outcome (calm k R) (andthen (store_read (get_run t p i)) f) Q E"
proof (rule outcome_sure [OF outcome_get_run [OF assms(1)]])
  fix found
  show "outcome (\<lambda>w. \<exists>r \<in> R. found = Some r \<and> run_key r = k \<and> calm k {r} w) (f found) Q E"
    using assms(2) unfolding outcome_def by blast
qed

lemma outcome_read:
  assumes "run_key run = k" and "\<And>r. r \<in> R \<Longrightarrow> run_key r = k \<Longrightarrow> outcome (calm k {r}) (f (Some r)) Q E"
  shows "outcome (calm k R) (andthen (read_run run) f) Q E"
  unfolding read_run_def using assms by (intro outcome_get) (simp_all add: run_key_def)

lemma outcome_mono: "outcome (calm k R) m Q E \<Longrightarrow> S \<subseteq> R \<Longrightarrow> outcome (calm k S) m Q E"
  by (erule outcome_weaken) (auto intro: calm_mono)

lemma outcome_status:
  assumes "run_key run = k" and "\<And>r. run_key (f r) = run_key r \<and> run_state (f r) = run_state r"
    and "\<And>saved. run_key saved = k \<and> run_state saved = st \<Longrightarrow> outcome (calm k {r. run_state r = st}) (g saved) Q E"
  shows "outcome (calm k {run}) (andthen (set_status sv run st f) g) Q E"
  by (rule outcome_sure [OF outcome_set_status [OF assms(1,2)]], rule outcome_conj, rule assms(3))

lemmas outcome_steps = outcome_sure [OF outcome_time] outcome_sure [OF outcome_audit] outcome_sure [OF outcome_event]

lemma outcome_cancel_by_user:
  assumes "run_key run = k" and "\<And>saved. run_key saved = k \<and> run_state saved = CANCELLED \<Longrightarrow> outcome (calm k {r. run_state r = CANCELLED}) (g saved) Q E"
  shows "outcome (calm k {run}) (andthen (cancel_by_user sv run) g) Q E"
  unfolding cancel_by_user_def andthen_assoc
  by (intro outcome_steps outcome_status assms) (simp add: run_key_def)

lemma outcome_complete_run:
  assumes run: "run_key run = k" and res: "media_termination res \<noteq> Some ''segment_window_completed''"
  shows "outcome (calm k R) (complete_run sv run res) (\<lambda>_. calm k {r. run_state r = COMPLETED}) (\<lambda>_ _. False)"
  unfolding complete_run_def
proof (rule outcome_read [OF run], unfold option.case)
  fix latest assume "run_key latest = k"
  then show "outcome (calm k {latest})
      (andthen (audit_record sv (worker_context run) ''run.complete'' ''run'' (Some (run_run_id run)) ''success''
             [(''unit_count'', JInt (int (length (re_units res)))), (''domain'', JStr (re_domain res))]) (\<lambda>_.
         andthen time_time (\<lambda>now.
         andthen (set_status sv latest COMPLETED (\<lambda>r. r\<lparr>run_progress := 1, run_completed_at := Some now,
             run_termination_reason := media_termination res\<rparr>)) (\<lambda>run'.
         andthen (event sv run' ''result.available''
             [(''result_schema_version'', JStr (re_schema_version res)),
              (''unit_count'', JInt (int (length (re_units res)))), (''result_url'', JStr (result_url run'))]) (\<lambda>_.
           if truthy (run_source_id run') \<and> truthy (run_stream_session_id run') \<and>
             media_termination res = Some ''segment_window_completed''
           then rollover_stream_segment sv run' else ret ())))))
      (\<lambda>_. calm k {r. run_state r = COMPLETED}) (\<lambda>_ _. False)"
    by (intro outcome_steps outcome_status) (use res in \<open>auto simp: run_key_def intro: outcome_ret\<close>)
qed

lemma outcome_calm_suppress:
  "preserves (calm k R) m \<Longrightarrow> (\<And>x. outcome (calm k R) (f x) Q (\<lambda>e _. e = CancelledError)) \<Longrightarrow>
   outcome (calm k R) (andthen (suppress m) f) Q (\<lambda>e _. e = CancelledError)"
  by (rule outcome_andthen [OF outcome_suppress])

lemma outcome_discard_partial:
  "outcome (calm k R) (discard_partial_result run) (\<lambda>_. calm k R) (\<lambda>e _. e = CancelledError)"
proof -
  have read: "outcome (calm k R) (catch (store_read (get_result_reference t p r)) (\<lambda>_. ret None)) (\<lambda>_. calm k R)
      (\<lambda>e _. e = CancelledError)" for t p r
  proof (rule outcome_weaken [OF outcome_calm])
    show "preserves (calm k R) (catch (store_read (get_result_reference t p r)) (\<lambda>_. ret None))"
      by (intro preserves_intros)
  qed (auto simp: catch_def store_read_def store_call_def Let_def calm_def)
  have drop: "outcome (calm k R) (andthen (for_each ks (\<lambda>k. suppress (delete_object k))) (\<lambda>_.
      andthen time_time (\<lambda>now. suppress (store_call (mark_objects_deleted ks now))))) (\<lambda>_. calm k R)
      (\<lambda>e _. e = CancelledError)" for ks
    by (rule outcome_andthen [OF outcome_for_each_suppress], rule calm_objects(3),
        rule outcome_sure [OF outcome_time], intro outcome_suppress calm_store_call stored_in_ops)
  have same: "outcome (calm k R) (ret ()) (\<lambda>_. calm k R) (\<lambda>e _. e = CancelledError)"
    by (rule outcome_ret)
  show ?thesis
    unfolding discard_partial_result_def Let_def
  proof (rule outcome_andthen [OF read])
    fix found
    show "outcome (calm k R) (case found of None \<Rightarrow> ret ()
       | Some reference \<Rightarrow>
           if \<not> py_contains ''/partial/'' (ref_object_key reference) then ret ()
           else andthen (for_each (ref_object_key reference # ref_shard_keys reference) (\<lambda>k. suppress (delete_object k))) (\<lambda>_.
             andthen time_time (\<lambda>now. suppress (store_call
               (mark_objects_deleted (ref_object_key reference # ref_shard_keys reference) now)))))
       (\<lambda>_. calm k R) (\<lambda>e _. e = CancelledError)"
      using drop same by (cases found) (simp_all del: for_each.simps)
  qed
qed

lemma outcome_discard_artifacts:
  "outcome (calm k R) discard_artifacts (\<lambda>_. calm k R) (\<lambda>e _. e = CancelledError)"
proof -
  have sink: "outcome (calm k R) get_sink (\<lambda>_. calm k R) (\<lambda>_ _. False)"
    by (auto simp: outcome_def get_sink_def)
  have clear: "outcome (calm k R) (set_sink (\<lambda>s. s\<lparr>sk_artifacts := []\<rparr>)) (\<lambda>_. calm k R) (\<lambda>e _. e = CancelledError)"
    by (auto simp: outcome_def set_sink_def calm_def)
  show ?thesis
    unfolding discard_artifacts_def
    by (rule outcome_sure [OF sink], rule outcome_andthen [OF outcome_for_each_suppress clear], rule calm_objects(3))
qed

lemma outcome_on_failed:
  assumes run: "run_key run = k"
  shows "outcome (calm k UNIV) (on_failed sv ex run e) (\<lambda>_. calm k ended) (\<lambda>e _. e = CancelledError)"
proof -
  have artifacts: "outcome (calm k UNIV) (if ex_artifacts_enabled ex then discard_artifacts else ret ()) (\<lambda>_. calm k UNIV)
      (\<lambda>e _. e = CancelledError)"
    by (auto intro: outcome_discard_artifacts outcome_ret)
  have failed: "outcome (calm k {r. run_state r = FAILED}) (ret ()) (\<lambda>_. calm k ended) (\<lambda>e _. e = CancelledError)"
    by (rule outcome_ret, erule calm_mono) (auto simp: TERMINAL_RUN_STATUSES_def)
  have rest: "outcome (calm k {latest}) (if run_state latest \<in> TERMINAL_RUN_STATUSES then ret ()
      else andthen time_time (\<lambda>now.
           andthen (set_status sv latest FAILED (\<lambda>r. r\<lparr>run_completed_at := Some now,
               run_error_code := Some (failure_code e), run_termination_reason := Some message\<rparr>)) (\<lambda>failed.
           andthen (event sv failed ''run.error'' pl) (\<lambda>_.
           andthen (audit_record sv ctx ''run.fail'' ''run'' ri ''failure'' pl) (\<lambda>_. ret ())))))
      (\<lambda>_. calm k ended) (\<lambda>e _. e = CancelledError)" if "run_key latest = k" for latest message pl ctx ri
  proof (cases "run_state latest \<in> TERMINAL_RUN_STATUSES")
    case True
    then show ?thesis by (auto intro!: outcome_ret elim!: calm_mono)
  next
    case False
    with that show ?thesis
      by (simp only: if_False) (intro outcome_steps outcome_status failed, auto simp: run_key_def)
  qed
  show ?thesis
    unfolding on_failed_def Let_def
    by (intro outcome_andthen [OF outcome_discard_partial] outcome_andthen [OF artifacts] outcome_read [OF run])
       (simp only: option.case rest)
qed

lemma outcome_on_stopped:
  assumes run: "run_key run = k"
  shows "outcome (calm k UNIV) (on_stopped sv ex run) (\<lambda>_. calm k ended) (\<lambda>e _. e = CancelledError)"
proof -
  have finish: "outcome (calm k {r. run_state r = CANCELLED}) (catch (finalize_partial sv ex run) (\<lambda>_. ret ()))
      (\<lambda>_. calm k ended) (\<lambda>e _. e = CancelledError)"
    by (rule outcome_catch [OF outcome_weaken [OF outcome_preserves [OF calm_finalize]],
          where E' = "\<lambda>_. calm k {r. run_state r = CANCELLED}"])
       (auto intro!: outcome_ret elim!: calm_mono simp: TERMINAL_RUN_STATUSES_def)
  show ?thesis
    unfolding on_stopped_def
  proof (rule outcome_read [OF run], unfold option.case)
    fix latest assume k: "run_key latest = k"
    show "outcome (calm k {latest})
        (andthen (if run_state latest = CANCELLED then ret ()
           else andthen (cancel_by_user sv latest) (\<lambda>cancelled.
             andthen (audit_record sv (worker_context run) ''run.cancel'' ''run'' (Some (run_run_id run)) ''success''
                 [(''status'', JStr (run_status_value (run_state cancelled)))]) (\<lambda>_. ret ())))
          (\<lambda>_. catch (finalize_partial sv ex run) (\<lambda>_. ret ())))
        (\<lambda>_. calm k ended) (\<lambda>e _. e = CancelledError)"
    proof (cases "run_state latest = CANCELLED")
      case True
      then show ?thesis by (simp only: simp_thms if_True andthen_ret, intro outcome_mono [OF finish]) auto
    next
      case False
      then show ?thesis
        using k by (simp only: simp_thms if_False andthen_assoc andthen_ret)
          (intro outcome_cancel_by_user outcome_steps, (assumption | rule finish)+)
    qed
  qed
qed

lemma outcome_begin:
  assumes k: "run_key run = k" and active: "run_state run \<notin> TERMINAL_RUN_STATUSES"
  shows "outcome (calm k {run}) (begin_execution sv run)
    (\<lambda>r w. run_key r = k \<and> calm k (if run_state r = CANCELLED then ended else UNIV) w) (\<lambda>_ _. False)"
proof -
  let ?Q = "\<lambda>r w. run_key r = k \<and> calm k (if run_state r = CANCELLED then ended else UNIV) w"
  have cancelled: "outcome (calm k {run}) (cancel_by_user sv run) ?Q (\<lambda>_ _. False)"
    unfolding cancel_by_user_def
    by (rule outcome_sure [OF outcome_time], rule outcome_weaken [OF outcome_set_status [OF k]])
       (auto simp: run_key_def elim!: calm_mono)
  have started: "outcome (calm k {run}) (catch
      (andthen time_time (\<lambda>now. set_status sv run RUNNING (\<lambda>r. r\<lparr>run_started_at := Some now\<rparr>))) h) ?Q (\<lambda>_ _. False)" for h
    by (rule outcome_catch [where E' = "\<lambda>_ _. False"], rule outcome_sure [OF outcome_time],
        rule outcome_weaken [OF outcome_set_status [OF k]])
       (auto simp: run_key_def outcome_def elim!: calm_mono)
  have same: "outcome (calm k {run}) (ret run) ?Q (\<lambda>_ _. False)" if "run_state run \<noteq> CANCELLED"
    using that k by (intro outcome_ret) (auto elim!: calm_mono)
  have "4 = Suc 3" by simp
  with active cancelled started same show ?thesis
    unfolding begin_execution_def by (cases "run_state run") (simp_all only: begin_loop.simps, simp_all)
qed

text \<open>No result of this pipeline ends a stream segment.\<close>

definition single_segment :: "'v executor \<Rightarrow> bool" where
  "single_segment ex \<longleftrightarrow> (\<forall>v res. ex_as_result ex v = Some res \<longrightarrow>
     media_termination res \<noteq> Some ''segment_window_completed'')"

lemma media_termination_artifacts:
  assumes "media_termination res \<noteq> Some x" "set (sk_warnings sk) \<subseteq> {''artifact_storage_unavailable''}"
  shows "media_termination (with_artifacts ex res sk) \<noteq> Some x"
proof -
  have "List.find (py_startswith ''media_termination:'') (sk_warnings sk) = None"
    using assms(2) by (auto simp: find_None_iff py_startswith_def)
  then have "List.find (py_startswith ''media_termination:'') (xs @ sk_warnings sk) =
      List.find (py_startswith ''media_termination:'') xs" for xs
    by (induction xs) auto
  with assms(1) show ?thesis by (simp add: media_termination_def with_artifacts_def)
qed

lemma outcome_run_pipeline:
  assumes "extensions_keep (calm k UNIV) sv ex" "single_segment ex"
  shows "outcome (calm k UNIV) (run_pipeline_of n sv ex run)
    (\<lambda>res w. media_termination res \<noteq> Some ''segment_window_completed'' \<and> calm k UNIV w) (\<lambda>_. calm k UNIV)"
proof -
  have resolve: "preserves (calm k UNIV) (case ex_bindings ex of None \<Rightarrow> ret [] | Some f \<Rightarrow> f t p)" for t p
    using assms(1) by (auto simp: extensions_keep_def intro: preserves_intros split: option.split)
  have ops: "operators_keep (calm k UNIV) (sv_pipelines sv)" using assms(1) by (simp add: extensions_keep_def)
  have last: "outcome (calm k UNIV) (case ex_as_result ex v of
         None \<Rightarrow> throw (PipelineError ''pipeline did not return a ResultEnvelope'')
       | Some envelope \<Rightarrow> andthen get_sink (\<lambda>sk. ret (with_artifacts ex envelope sk)))
      (\<lambda>res w. media_termination res \<noteq> Some ''segment_window_completed'' \<and> calm k UNIV w) (\<lambda>_. calm k UNIV)" for v
  proof (cases "ex_as_result ex v")
    case (Some res)
    then have "media_termination res \<noteq> Some ''segment_window_completed''" using assms(2) by (simp add: single_segment_def)
    then have "media_termination (with_artifacts ex res (w_sink w)) \<noteq> Some ''segment_window_completed''"
      if "calm k UNIV w" for w
      using that by (intro media_termination_artifacts) (simp_all add: calm_def)
    with Some show ?thesis by (simp add: outcome_def get_sink_def andthen_def)
  qed (auto intro: outcome_throw)
  show ?thesis
    unfolding run_pipeline_of_def
    by (intro outcome_andthen [OF outcome_preserves] last calm_load_media calm_pipeline_of resolve
        registry_execute_keeps calm_checkpoint ops preservesD [OF calm_calls(7)])
qed

lemma outcome_body:
  assumes run: "run_key run = k" and ext: "extensions_keep (calm k UNIV) sv ex" "single_segment ex"
  shows "outcome (calm k UNIV) (execute_body n sv ex run) (\<lambda>_. calm k ended) (\<lambda>_. calm k UNIV)"
proof -
  have hooks: "preserves (calm k UNIV) (for_each fs (\<lambda>f. suppress (f run res)))"
    if "set fs \<subseteq> set (ex_registrars ex) \<union> set (ex_evaluators ex)" for fs res
    using that ext by (intro for_each_keeps preserves_suppress) (auto simp: extensions_keep_def)
  have finished: "outcome (calm k UNIV) (complete_run sv run res) (\<lambda>_. calm k ended) (\<lambda>_. calm k UNIV)"
    if "media_termination res \<noteq> Some ''segment_window_completed''" for res
    by (rule outcome_weaken [OF outcome_complete_run [OF run that]]) (auto elim!: calm_mono)
  have start: "preserves (calm k UNIV) (if c then andthen (event sv run ety pl) (\<lambda>_. ret ()) else ret ())" for c ety pl
    by (intro preserves_intros)
  show ?thesis
    unfolding execute_body_def
    by (rule outcome_andthen [OF outcome_preserves [OF start]], rule outcome_andthen [OF outcome_run_pipeline [OF ext]],
        rule outcome_conj)
       (intro outcome_andthen [OF outcome_preserves] hooks calm_calls calm_results.store_result_keeps finished; simp)
qed

lemma outcome_execute_run:
  assumes k: "store_key t p r = k" and ext: "extensions_keep (calm k UNIV) sv ex" "single_segment ex"
  shows "outcome (calm k UNIV) (execute_run n sv ex t p r) (\<lambda>_. calm k ended) (\<lambda>e _. e = CancelledError)"
  unfolding execute_run_def
proof (rule outcome_get [OF k], unfold option.case)
  fix queued assume key: "run_key queued = k"
  let ?Q = "\<lambda>begun w. case begun of None \<Rightarrow> calm k ended w
    | Some run \<Rightarrow> run_key run = k \<and> calm k (if run_state run = CANCELLED then ended else UNIV) w"
  let ?E = "\<lambda>(e :: exn) (_ :: world). e = CancelledError"
  have sink: "outcome (calm k {queued}) (set_sink (\<lambda>_. new_sink queued)) (\<lambda>_. calm k {queued}) (\<lambda>_ _. False)"
    by (simp add: outcome_def set_sink_def calm_def new_sink_def)
  have begun: "outcome (calm k {queued}) (catch (andthen (begin_execution sv queued) (\<lambda>run. ret (Some run)))
      (\<lambda>e. andthen (if e = ExecutionStopped then on_stopped sv ex queued else on_failed sv ex queued e) (\<lambda>_. ret None))) ?Q ?E"
    if "run_state queued \<notin> TERMINAL_RUN_STATUSES"
    by (rule outcome_catch [where E' = "\<lambda>_ _. False"], rule outcome_andthen [OF outcome_begin [OF key that]])
       (auto simp: outcome_def)
  have body: "outcome (?Q begun) (case begun of None \<Rightarrow> ret ()
      | Some run \<Rightarrow> if run_state run = CANCELLED then ret () else with_handlers sv ex run (execute_body n sv ex run))
      (\<lambda>_. calm k ended) ?E" for begun
  proof (cases begun)
    case (Some run)
    have "outcome (calm k UNIV) (with_handlers sv ex run (execute_body n sv ex run)) (\<lambda>_. calm k ended) ?E" if "run_key run = k"
      unfolding with_handlers_def
      by (rule outcome_catch [OF outcome_body [OF that ext]])
         (use outcome_on_stopped [OF that] outcome_on_failed [OF that] in \<open>auto intro: outcome_ret\<close>)
    then show ?thesis unfolding Some option.case
      by (intro outcome_conj) (auto intro: outcome_ret)
  qed (auto intro: outcome_ret)
  show "outcome (calm k {queued}) (if run_state queued \<in> TERMINAL_RUN_STATUSES then ret ()
      else andthen (set_sink (\<lambda>_. new_sink queued)) (\<lambda>_.
        andthen (catch (andthen (begin_execution sv queued) (\<lambda>run. ret (Some run)))
          (\<lambda>e. andthen (if e = ExecutionStopped then on_stopped sv ex queued else on_failed sv ex queued e) (\<lambda>_. ret None)))
        (\<lambda>begun. case begun of None \<Rightarrow> ret ()
          | Some run \<Rightarrow> if run_state run = CANCELLED then ret () else with_handlers sv ex run (execute_body n sv ex run))))
      (\<lambda>_. calm k ended) ?E"
  proof (cases "run_state queued \<in> TERMINAL_RUN_STATUSES")
    case True
    then show ?thesis by (simp only: if_True) (auto intro!: outcome_ret elim!: calm_mono)
  next
    case False
    then show ?thesis
      by (simp only: if_False) (intro outcome_sure [OF sink] outcome_andthen [OF begun] body)
  qed
qed


lemma outcome_checkpoint_cancelled:
  assumes "run_key run = k" "run_state r = CANCELLED"
  shows "outcome (calm k {r}) (checkpoint_loop (Suc n) sv run) (\<lambda>_. calm k {r}) (\<lambda>_ _. False)"
proof -
  have "outcome (calm k {r}) (on_control resume) (\<lambda>_. calm k {r}) (\<lambda>_ _. False)"
    by (simp add: outcome_def on_control_def calm_def tick_def)
  with assms(2) show ?thesis
    unfolding checkpoint_loop.simps by (intro outcome_read [OF assms(1)]) simp
qed

text \<open>
  C38: a cancellation can be lost. When a run is set to cancelled directly, as \<open>transition\<close> does for
  a paused run, the worker's next checkpoint does not stop it, and at the end of the pipeline
  the run is set to completed although it was already terminal.
\<close>

theorem cancelled_run_completes:
  assumes "calm k {r} w" and "run_state r = CANCELLED" and "run_key run = k"
    and "media_termination res \<noteq> Some ''segment_window_completed''"
  shows "\<exists>w1 w2 final. checkpoint_loop (Suc n) sv run w = (Inr (), w1) \<and> complete_run sv run res w1 = (Inr (), w2) \<and>
    dict_get (mem_runs (w_store w2)) k = Some final \<and> run_state final = COMPLETED"
proof -
  obtain x w1 where cp: "checkpoint_loop (Suc n) sv run w = (Inr x, w1)" and c1: "calm k {r} w1"
    using outcome_checkpoint_cancelled [OF assms(3,2), of n sv] assms(1) unfolding outcome_def
    by (metis obj_sumE surj_pair)
  obtain y w2 where fin: "complete_run sv run res w1 = (Inr y, w2)" and c2: "calm k {r. run_state r = COMPLETED} w2"
    using outcome_complete_run [OF assms(3,4), of "{r}" sv] c1 unfolding outcome_def
    by (metis obj_sumE surj_pair)
  from c2 show ?thesis using cp fin by (auto simp: calm_def stored_in_def)
qed

lemma sample_calm: "calm (store_key ''t'' ''p'' ''r1'') {sample_run ''r1'' st} (sample_world (sample_run_store st))"
  using store_inv_sample_run [of st]
  by (simp add: calm_def stored_in_def sample_world_def) (simp add: sample_run_store_def)


theorem cancelled_run_completes_witness:
  "\<exists>w1 w2 final. checkpoint_loop 1 sample_service (sample_run ''r1'' RUNNING) (sample_world (sample_run_store CANCELLED)) = (Inr (), w1) \<and>
    complete_run sample_service (sample_run ''r1'' RUNNING) (synthetic_result (sample_run ''r1'' RUNNING)) w1 = (Inr (), w2) \<and>
    dict_get (mem_runs (w_store w2)) (store_key ''t'' ''p'' ''r1'') = Some final \<and> run_state final = COMPLETED"
  using cancelled_run_completes [OF sample_calm [of CANCELLED], of "sample_run ''r1'' RUNNING"
      "synthetic_result (sample_run ''r1'' RUNNING)" 0 sample_service]
  by (simp add: sample_run_def run_key_def synthetic_result_def media_termination_def)

end
