(* ===== verification/Media_Service.thy ===== *)
theory Media_Service
  imports Run_Execution
begin

text \<open>
  The part of \<open>RunService\<close> that registers and deletes media: assets with their original and
  preview objects, and sources whose URL is kept as a secret. Creation is a sequence of calls with
  a rollback; the calls made so far are the local variables the rollback reads. Inspecting media
  (\<open>media.py\<close>, around image and video libraries) is a parameter, and so is the file system that
  \<open>create_asset_from_path\<close> reads.
\<close>

section \<open>Assets\<close>

definition asset_base :: "principal_context \<Rightarrow> string \<Rightarrow> string" where
  "asset_base ctx asset_id = ''tenants/'' @ ctx_tenant_id ctx @ ''/projects/'' @ ctx_project_id ctx @
     ''/assets/'' @ asset_id"

definition original_key :: "principal_context \<Rightarrow> string \<Rightarrow> string" where
  "original_key ctx asset_id = asset_base ctx asset_id @ ''/original''"

definition preview_key :: "principal_context \<Rightarrow> string \<Rightarrow> string" where
  "preview_key ctx asset_id = asset_base ctx asset_id @ ''/preview.jpg''"

text \<open>The parameters of \<open>create_asset\<close>, without the media itself.\<close>

record asset_input =
  ai_filename :: "string option"
  ai_content_type :: string
  ai_kind :: media_kind
  ai_domain :: "string option"
  ai_temporary :: bool

definition check_size :: "'v service \<Rightarrow> media_kind \<Rightarrow> int \<Rightarrow> exn + unit" where
  "check_size sv kind n_bytes =
     (if n_bytes \<le> 0 then Inl (ValueError ''media asset is empty'')
      else if n_bytes > sv_max_media_bytes sv
      then Inl (ValueError (''media exceeds '' @ int_str (sv_max_media_bytes sv) @ '' bytes''))
      else if kind = IMAGE \<and> n_bytes > sv_max_image_bytes sv
      then Inl (ValueError (''image exceeds '' @ int_str (sv_max_image_bytes sv) @ '' bytes''))
      else Inr ())"

text \<open>\<open>except PipelineError as exc: raise ValueError(...)\<close>\<close>

definition inspected :: "'v service \<Rightarrow> media_kind \<Rightarrow> exn + 'b \<Rightarrow> exn + 'b" where
  "inspected sv kind outcome = (case outcome of
     Inl e \<Rightarrow> if is_pipeline_error e
       then Inl (ValueError (''invalid '' @ media_kind_value kind @ '' media: '' @ sv_exn_text sv e)) else Inl e
   | Inr x \<Rightarrow> Inr x)"

definition new_asset ::
  "'v service \<Rightarrow> principal_context \<Rightarrow> asset_input \<Rightarrow> int \<Rightarrow> string \<Rightarrow> media_technical_metadata \<Rightarrow> string \<Rightarrow>
    string \<Rightarrow> pyfloat \<Rightarrow> media_asset" where
  "new_asset sv ctx inp n_bytes digest metadata preview_data asset_id now =
     \<lparr>asset_asset_id = asset_id, asset_tenant_id = ctx_tenant_id ctx, asset_project_id = ctx_project_id ctx,
      asset_kind = ai_kind inp, asset_domain = ai_domain inp, asset_filename = ai_filename inp,
      asset_content_type = (if ai_content_type inp = [] then ''application/octet-stream'' else ai_content_type inp),
      asset_size_bytes = n_bytes, asset_sha256 = digest, asset_object_key = original_key ctx asset_id,
      asset_preview_object_key = Some (preview_key ctx asset_id),
      asset_preview_content_type = Some ''image/jpeg'',
      asset_preview_sha256 = Some (sv_sha256 sv preview_data), asset_metadata = metadata,
      asset_temporary = ai_temporary inp, asset_created_at = now,
      asset_expires_at = Some (now + of_int (if ai_temporary inp then 1 else sv_raw_media_retention_days sv) * 86400),
      asset_original_deleted_at = None, asset_deleted_at = None\<rparr>"

definition original_retention :: "media_asset \<Rightarrow> object_retention_record" where
  "original_retention a = \<lparr>ret_tenant_id = asset_tenant_id a, ret_project_id = asset_project_id a,
     ret_object_key = asset_object_key a, ret_category = RAW_MEDIA, ret_owner_type = MEDIA_ASSET,
     ret_owner_id = asset_asset_id a, ret_created_at = asset_created_at a,
     ret_expires_at = asset_expires_at a, ret_deleted_at = None\<rparr>"

definition preview_retention :: "'v service \<Rightarrow> media_asset \<Rightarrow> string \<Rightarrow> object_retention_record" where
  "preview_retention sv a k = \<lparr>ret_tenant_id = asset_tenant_id a, ret_project_id = asset_project_id a,
     ret_object_key = k, ret_category = PREVIEW, ret_owner_type = MEDIA_ASSET,
     ret_owner_id = asset_asset_id a, ret_created_at = asset_created_at a,
     ret_expires_at = Some (asset_created_at a + of_int (sv_preview_retention_days sv) * 86400),
     ret_deleted_at = None\<rparr>"

text \<open>The local variables of the rollback: whether the row was stored, the keys tracked so far.\<close>

type_synonym rollback = "bool \<times> string list"

definition note_stored :: "(world \<times> rollback, unit) py" where
  "note_stored = (\<lambda>(w, stored, tracked). (Inr (), (w, True, tracked)))"

definition note_tracked :: "string \<Rightarrow> (world \<times> rollback, unit) py" where
  "note_tracked k = (\<lambda>(w, stored, tracked). (Inr (), (w, stored, tracked @ [k])))"

text \<open>\<open>try: m except Exception as e: h(e)\<close> with local variables that start as \<open>l\<close>.\<close>

definition try_with :: "'l \<Rightarrow> (world \<times> 'l, 'a) py \<Rightarrow> (exn \<Rightarrow> 'l \<Rightarrow> (world, 'a) py) \<Rightarrow> (world, 'a) py" where
  "try_with l m h w = (case m (w, l) of
     (Inr x, (w', _)) \<Rightarrow> (Inr x, w')
   | (Inl e, (w', l')) \<Rightarrow> if e = CancelledError then (Inl e, w') else h e l' w')"

definition asset_evidence :: "media_asset \<Rightarrow> json_dict" where
  "asset_evidence a = [(''kind'', JStr (media_kind_value (asset_kind a))), (''size_bytes'', JInt (asset_size_bytes a)),
     (''sha256'', JStr (asset_sha256 a))]"

definition charge_and_audit :: "'v service \<Rightarrow> principal_context \<Rightarrow> media_asset \<Rightarrow> (world \<times> rollback, unit) py" where
  "charge_and_audit sv ctx a =
     andthen (in_world (remote_call (consume (sv_policy sv) ctx ''media_bytes'' (asset_size_bytes a)
         [(''asset_id'', JStr (asset_asset_id a))]))) (\<lambda>_.
     andthen (in_world (audit_record sv ctx ''media.asset.create'' ''media_asset'' (Some (asset_asset_id a)) ''success''
         (asset_evidence a))) (\<lambda>_. ret ()))"

definition register_asset :: "'v service \<Rightarrow> principal_context \<Rightarrow> media_asset \<Rightarrow> string \<Rightarrow> (world \<times> rollback, media_asset) py" where
  "register_asset sv ctx a pk =
     andthen (in_world (store_call (create_asset a))) (\<lambda>stored.
     andthen note_stored (\<lambda>_.
     andthen (in_world (store_call (track_object (original_retention a)))) (\<lambda>_.
     andthen (note_tracked (asset_object_key a)) (\<lambda>_.
     andthen (in_world (store_call (track_object (preview_retention sv a pk)))) (\<lambda>_.
     andthen (note_tracked pk) (\<lambda>_.
     andthen (charge_and_audit sv ctx a) (\<lambda>_. ret stored)))))))"

definition drop_objects :: "string \<Rightarrow> string \<Rightarrow> exn \<Rightarrow> (world, 'a) py" where
  "drop_objects k pk e =
     andthen (suppress (delete_object k)) (\<lambda>_. andthen (suppress (delete_object pk)) (\<lambda>_. throw e))"

definition unregister_asset ::
  "principal_context \<Rightarrow> media_asset \<Rightarrow> string \<Rightarrow> exn \<Rightarrow> rollback \<Rightarrow> (world, media_asset) py" where
  "unregister_asset ctx a pk e l =
     (case l of (stored, tracked) \<Rightarrow>
        andthen (if tracked \<noteq> []
            then andthen time_time (\<lambda>now. suppress (store_call (mark_objects_deleted tracked now))) else ret ()) (\<lambda>_.
        andthen (if stored
            then suppress (store_call (delete_asset (ctx_tenant_id ctx) (ctx_project_id ctx) (asset_asset_id a)))
            else ret ()) (\<lambda>_.
          drop_objects (asset_object_key a) pk e)))"

text \<open>Both objects, then the row, its retention records, the charge and the audit entry.\<close>

definition store_new_asset ::
  "'v service \<Rightarrow> principal_context \<Rightarrow> media_asset \<Rightarrow> string \<Rightarrow> string \<Rightarrow> string \<Rightarrow> (world, media_asset) py" where
  "store_new_asset sv ctx a pk data preview_data =
     andthen (put_object sv (asset_object_key a) data (asset_content_type a) ''raw_media'') (\<lambda>_.
     andthen (catch (put_object sv pk preview_data ''image/jpeg'' ''preview'')
         (\<lambda>e. andthen (suppress (delete_object (asset_object_key a))) (\<lambda>_. throw e))) (\<lambda>_.
       try_with (False, []) (register_asset sv ctx a pk) (unregister_asset ctx a pk)))"

definition create_media_asset ::
  "'v service \<Rightarrow> (media_kind \<Rightarrow> string \<Rightarrow> exn + media_technical_metadata \<times> string) \<Rightarrow> principal_context \<Rightarrow>
    asset_input \<Rightarrow> string \<Rightarrow> (world, media_asset) py" where
  "create_media_asset sv inspect ctx inp data =
     andthen (allow sv ctx ''create'' ''media_asset'' [(''kind'', JStr (media_kind_value (ai_kind inp)))]) (\<lambda>_.
     andthen (of_sum (check_size sv (ai_kind inp) (int (length data)))) (\<lambda>_.
     andthen (of_sum (if ai_kind inp = STREAM
         then Inl (ValueError ''stream inputs must be registered as media sources'') else Inr ())) (\<lambda>_.
     andthen (of_sum (inspected sv (ai_kind inp) (inspect (ai_kind inp) data))) (\<lambda>(metadata, preview_data).
     andthen uuid4_hex (\<lambda>u.
     andthen time_time (\<lambda>now.
       let asset_id = ''ast_'' @ u in
       store_new_asset sv ctx
         (new_asset sv ctx inp (int (length data)) (sv_sha256 sv data) metadata preview_data asset_id now)
         (preview_key ctx asset_id) data preview_data))))))"

text \<open>
  \<open>create_asset_from_path\<close>: \<open>file\<close> is the contents of the file. It keeps no list of tracked keys
  and its rollback does not mark them.
\<close>

definition register_from_path ::
  "'v service \<Rightarrow> principal_context \<Rightarrow> media_asset \<Rightarrow> string \<Rightarrow> string \<Rightarrow> (world \<times> rollback, media_asset) py" where
  "register_from_path sv ctx a pk preview_data =
     andthen (in_world (put_object sv pk preview_data ''image/jpeg'' ''preview'')) (\<lambda>_.
     andthen (in_world (store_call (create_asset a))) (\<lambda>stored.
     andthen note_stored (\<lambda>_.
     andthen (in_world (for_each [original_retention a, preview_retention sv a pk] (\<lambda>r. store_call (track_object r)))) (\<lambda>_.
     andthen (charge_and_audit sv ctx a) (\<lambda>_. ret stored)))))"

definition create_media_asset_from_path ::
  "'v service \<Rightarrow> (media_kind \<Rightarrow> string \<Rightarrow> exn + media_technical_metadata \<times> string) \<Rightarrow> principal_context \<Rightarrow>
    asset_input \<Rightarrow> string \<Rightarrow> (world, media_asset) py" where
  "create_media_asset_from_path sv inspect ctx inp file =
     andthen (allow sv ctx ''create'' ''media_asset'' [(''kind'', JStr (media_kind_value (ai_kind inp)))]) (\<lambda>_.
     andthen (of_sum (check_size sv (ai_kind inp) (int (length file)))) (\<lambda>_.
     andthen (of_sum (inspected sv (ai_kind inp) (inspect (ai_kind inp) file))) (\<lambda>(metadata, preview_data).
     andthen uuid4_hex (\<lambda>u.
     andthen time_time (\<lambda>now.
       let asset_id = ''ast_'' @ u;
           a = new_asset sv ctx inp (int (length file)) (sv_sha256 sv file) metadata preview_data asset_id now;
           pk = preview_key ctx asset_id in
       andthen (put_object sv (asset_object_key a) file (asset_content_type a) ''raw_media'') (\<lambda>_.
         try_with (False, []) (register_from_path sv ctx a pk preview_data)
           (\<lambda>e (stored, _). unregister_asset ctx a pk e (stored, []))))))))"

definition asset_preview :: "'v service \<Rightarrow> principal_context \<Rightarrow> string \<Rightarrow> (world, string \<times> string) py" where
  "asset_preview sv ctx asset_id =
     andthen (allow sv ctx ''read'' ''media_asset'' [(''asset_id'', JStr asset_id)]) (\<lambda>_.
     andthen (store_read (get_asset (ctx_tenant_id ctx) (ctx_project_id ctx) asset_id)) (\<lambda>found.
       case found of
         None \<Rightarrow> throw (ResourceNotFound ''media asset preview not found'')
       | Some asset \<Rightarrow>
           if asset_deleted_at asset \<noteq> None then throw (ResourceNotFound ''media asset preview not found'')
           else case asset_preview_object_key asset of
             None \<Rightarrow> throw (ResourceNotFound ''media asset preview not found'')
           | Some k \<Rightarrow>
               andthen (get_object sv k (asset_preview_sha256 asset)) (\<lambda>data.
                 ret (data, if truthy (asset_preview_content_type asset)
                   then or_empty (asset_preview_content_type asset) else ''image/jpeg''))))"

text \<open>\<open>indexed\<close>: the service has a result index; forgetting the asset there is a remote call.\<close>

definition delete_media_asset :: "'v service \<Rightarrow> bool \<Rightarrow> principal_context \<Rightarrow> string \<Rightarrow> (world, unit) py" where
  "delete_media_asset sv indexed ctx asset_id =
     andthen (allow sv ctx ''delete'' ''media_asset'' [(''asset_id'', JStr asset_id)]) (\<lambda>_.
     andthen (store_read (get_asset (ctx_tenant_id ctx) (ctx_project_id ctx) asset_id)) (\<lambda>found.
       case found of
         None \<Rightarrow> throw (ResourceNotFound ''media asset not found'')
       | Some asset \<Rightarrow>
           andthen (store_call (\<lambda>s. (has_non_terminal_run (ctx_tenant_id ctx) (ctx_project_id ctx) (Some asset_id) None s, s))) (\<lambda>busy.
             if busy then throw (StateConflict ''media asset has a non-terminal run'')
             else
               let object_keys = asset_object_key asset #
                 (case asset_preview_object_key asset of None \<Rightarrow> [] | Some k \<Rightarrow> [k]) in
               andthen (audit_record sv ctx ''media.asset.delete'' ''media_asset'' (Some asset_id) ''success''
                   [(''sha256'', JStr (asset_sha256 asset)), (''object_key'', JStr (asset_object_key asset))]) (\<lambda>_.
               andthen (for_each object_keys (\<lambda>k. andthen (delete_object k) (\<lambda>_. ret ()))) (\<lambda>_.
               andthen time_time (\<lambda>now.
               andthen (store_call (mark_objects_deleted object_keys now)) (\<lambda>_.
               andthen (store_call (delete_asset (ctx_tenant_id ctx) (ctx_project_id ctx) asset_id)) (\<lambda>_.
                 if indexed then remote_call (Inr ()) else ret ()))))))))"

section \<open>Sources\<close>

text \<open>The parts of a URL as \<open>urllib.parse.urlsplit\<close> gives them.\<close>

record url_parts =
  url_scheme :: string
  url_hostname :: "string option"
  url_port :: "int option"
  url_path :: string

definition url_host :: "url_parts \<Rightarrow> string" where
  "url_host u = (case url_port u of
     None \<Rightarrow> or_empty (url_hostname u)
   | Some p \<Rightarrow> if p = 0 then or_empty (url_hostname u) else or_empty (url_hostname u) @ '':'' @ int_str p)"

definition masked_url :: "url_parts \<Rightarrow> string" where
  "masked_url u = url_scheme u @ ''://'' @ url_host u @ url_path u"

definition create_media_source ::
  "'v service \<Rightarrow> (string \<Rightarrow> url_parts) \<Rightarrow> principal_context \<Rightarrow> string \<Rightarrow> string \<Rightarrow> json_dict \<Rightarrow> (world, media_source) py" where
  "create_media_source sv urlsplit ctx name url metadata =
     andthen (allow sv ctx ''create'' ''media_source'' []) (\<lambda>_.
     andthen (remote_call (sv_validate_url sv url)) (\<lambda>_.
       let parsed = urlsplit url in
       if py_lower (url_scheme parsed) \<notin> {''rtsp'', ''rtmp'', ''http'', ''https''} \<or> \<not> truthy (url_hostname parsed)
       then throw (ValueError ''source URL must use rtsp, rtmp, http, or https'')
       else
         andthen uuid4_hex (\<lambda>u.
         andthen time_time (\<lambda>now.
           let source_id = ''src_'' @ u;
               source = \<lparr>source_source_id = source_id, source_tenant_id = ctx_tenant_id ctx,
                 source_project_id = ctx_project_id ctx, source_kind_of = SOURCE_STREAM, source_name = name,
                 source_masked_url = masked_url parsed, source_secret_ref = ''secret://media-sources/'' @ source_id,
                 source_metadata = metadata, source_created_at = now\<rparr> in
           andthen (secret_call (secret_put (source_secret_ref source) url)) (\<lambda>_.
             try_with (False, [])
               (andthen (in_world (store_call (create_source source))) (\<lambda>stored.
                andthen note_stored (\<lambda>_.
                andthen (in_world (audit_record sv ctx ''media.source.create'' ''media_source'' (Some source_id) ''success''
                    [(''scheme'', JStr (py_lower (url_scheme parsed))), (''host'', JStr (url_host parsed))])) (\<lambda>_.
                  ret stored))))
               (\<lambda>e (stored, _).
                 andthen (if stored
                     then suppress (store_call (delete_source (ctx_tenant_id ctx) (ctx_project_id ctx) source_id))
                     else ret ()) (\<lambda>_.
                 andthen (suppress (secret_call (secret_delete (source_secret_ref source)))) (\<lambda>_. throw e))))))))"

definition get_media_source :: "'v service \<Rightarrow> principal_context \<Rightarrow> string \<Rightarrow> (world, media_source) py" where
  "get_media_source sv ctx source_id =
     andthen (allow sv ctx ''read'' ''media_source'' [(''source_id'', JStr source_id)]) (\<lambda>_.
     andthen (store_read (get_source (ctx_tenant_id ctx) (ctx_project_id ctx) source_id)) (\<lambda>found.
       case found of None \<Rightarrow> throw (ResourceNotFound ''media source not found'') | Some source \<Rightarrow> ret source))"

definition delete_media_source :: "'v service \<Rightarrow> principal_context \<Rightarrow> string \<Rightarrow> (world, unit) py" where
  "delete_media_source sv ctx source_id =
     andthen (allow sv ctx ''delete'' ''media_source'' [(''source_id'', JStr source_id)]) (\<lambda>_.
     andthen (store_read (get_source (ctx_tenant_id ctx) (ctx_project_id ctx) source_id)) (\<lambda>found.
       case found of
         None \<Rightarrow> throw (ResourceNotFound ''media source not found'')
       | Some source \<Rightarrow>
           andthen (store_call (\<lambda>s. (has_non_terminal_run (ctx_tenant_id ctx) (ctx_project_id ctx) None (Some source_id) s, s))) (\<lambda>busy.
             if busy then throw (StateConflict ''media source has a non-terminal run'')
             else
               andthen (audit_record sv ctx ''media.source.delete'' ''media_source'' (Some source_id) ''success''
                   [(''masked_url'', JStr (source_masked_url source))]) (\<lambda>_.
               andthen (store_call (delete_source (ctx_tenant_id ctx) (ctx_project_id ctx) source_id)) (\<lambda>_.
               andthen (secret_call (secret_delete (source_secret_ref source))) (\<lambda>_. ret ()))))))"

end
