(* ===== verification/Webhook_Service.thy ===== *)
theory Webhook_Service
  imports Media_Service Py_Outcomes
begin

text \<open>
  \<open>WebhookService\<close>: subscriptions and the delivery of due webhook events with retries, and
  \<open>WebhookDeliveryService\<close>, which posts one event. The HTTP client is a parameter: the answer to
  each attempt.
\<close>

section \<open>Posting an event\<close>

text \<open>\<open>WebhookEndpoint\<close> and the status codes after which \<open>deliver\<close> stops or tries again.\<close>

record webhook_endpoint =
  whe_endpoint_id :: string
  whe_url :: string
  whe_secret :: string
  whe_event_types :: "string set"
  whe_enabled :: bool

definition accepted_status :: "int \<Rightarrow> bool" where
  "accepted_status status \<longleftrightarrow> 200 \<le> status \<and> status < 300"

definition final_status :: "int \<Rightarrow> bool" where
  "final_status status \<longleftrightarrow> 400 \<le> status \<and> status < 500 \<and> status \<notin> {408, 409, 425, 429}"

text \<open>
  The attempts that are left, numbered from \<open>attempt\<close>: \<open>post i\<close> is the status of attempt \<open>i\<close> or
  \<open>None\<close> for an HTTP error. The result is the number and status of the accepted attempt, or the
  last status seen (0 if none) and the last HTTP error.
\<close>

fun post_attempts :: "(nat \<Rightarrow> int option) \<Rightarrow> nat \<Rightarrow> nat \<Rightarrow> int \<Rightarrow> int + nat \<times> int" where
  "post_attempts post attempt 0 last_status = Inl last_status"
| "post_attempts post attempt (Suc n) last_status =
     (case post attempt of
        None \<Rightarrow> post_attempts post (Suc attempt) n last_status
      | Some status \<Rightarrow>
          if accepted_status status then Inr (attempt, status)
          else if final_status status then Inl status
          else post_attempts post (Suc attempt) n status)"

definition deliver ::
  "(string \<Rightarrow> exn + unit) \<Rightarrow> (nat \<Rightarrow> int option) \<Rightarrow> string \<Rightarrow> webhook_endpoint \<Rightarrow> string \<Rightarrow> nat \<Rightarrow> exn + int" where
  "deliver validate_url post error_text endpoint event_type max_attempts =
     (if \<not> whe_enabled endpoint \<or> event_type \<notin> whe_event_types endpoint
      then Inl (WebhookDeliveryError ''webhook endpoint is not subscribed to this event'')
      else case validate_url (whe_url endpoint) of
        Inl e \<Rightarrow> Inl e
      | Inr _ \<Rightarrow>
          (case post_attempts post 1 max_attempts 0 of
             Inr (_, status) \<Rightarrow> Inr status
           | Inl last_status \<Rightarrow> Inl (WebhookDeliveryError (''webhook delivery failed after '' @ nat_str max_attempts @
               '' attempts: '' @ (if last_status \<noteq> 0 then ''HTTP '' @ int_str last_status else error_text)))))"

section \<open>Subscriptions\<close>

definition SUPPORTED_WEBHOOK_EVENTS :: "string set" where
  "SUPPORTED_WEBHOOK_EVENTS = {''result.available'', ''result.delta'', ''alert.triggered'', ''alert.triaged'',
     ''model.deployment.changed'', ''run.cancelled'', ''run.cancelling'', ''run.completed'', ''run.error'',
     ''run.failed'', ''run.paused'', ''run.pausing'', ''run.queued'', ''run.running'',
     ''stream.segment.completed'', ''stream.segment.started'', ''stream.session.error''}"

definition webhook_view :: "webhook_subscription \<Rightarrow> webhook_subscription_view" where
  "webhook_view e = \<lparr>whv_endpoint_id = wh_endpoint_id e, whv_name = wh_name e, whv_url = wh_url e,
     whv_event_types = wh_event_types e, whv_enabled = wh_enabled e, whv_created_at = wh_created_at e\<rparr>"

text \<open>\<open>event_types\<close> lists the requested types; \<open>has_query\<close> tells whether the URL has a query or fragment.\<close>

definition create_webhook ::
  "'v service \<Rightarrow> (string \<Rightarrow> bool) \<Rightarrow> principal_context \<Rightarrow> string \<Rightarrow> string \<Rightarrow> string \<Rightarrow> string list \<Rightarrow>
    (world, webhook_subscription_view) py" where
  "create_webhook sv has_query ctx name url secret event_types =
     andthen (allow sv ctx ''create'' ''webhook_subscription'' []) (\<lambda>_.
     andthen (remote_call (sv_validate_url sv url)) (\<lambda>_.
       let unsupported = py_sorted (\<lambda>x. x) (filter (\<lambda>t. t \<notin> SUPPORTED_WEBHOOK_EVENTS) (remdups event_types)) in
       if has_query url then throw (ValueError ''webhook URL must not contain query credentials or a fragment'')
       else if unsupported \<noteq> []
       then throw (ValueError (''unsupported webhook event types: '' @ py_join '', '' unsupported))
       else
         andthen uuid4_hex (\<lambda>u.
         andthen time_time (\<lambda>now.
           let endpoint_id = ''whk_'' @ u;
               secret_ref = ''secret://webhooks/'' @ ctx_tenant_id ctx @ ''/'' @ ctx_project_id ctx @ ''/'' @ endpoint_id;
               endpoint = \<lparr>wh_endpoint_id = endpoint_id, wh_tenant_id = ctx_tenant_id ctx,
                 wh_project_id = ctx_project_id ctx, wh_name = name, wh_url = url, wh_secret_ref = secret_ref,
                 wh_event_types = set event_types, wh_enabled = True, wh_created_at = now\<rparr> in
           andthen (secret_call (secret_put secret_ref secret)) (\<lambda>_.
             try_with (False, [])
               (andthen (in_world (store_call (create_webhook_subscription endpoint))) (\<lambda>stored.
                andthen note_stored (\<lambda>_.
                andthen (in_world (audit_record sv ctx ''webhook.subscription.create'' ''webhook_subscription''
                    (Some endpoint_id) ''success'' [(''url'', JStr url),
                     (''event_types'', JList (map JStr (py_sorted (\<lambda>x. x) (remdups event_types))))])) (\<lambda>_.
                  ret (webhook_view stored)))))
               (\<lambda>e (stored, _).
                 andthen (if stored
                     then suppress (store_call (delete_webhook_subscription (ctx_tenant_id ctx) (ctx_project_id ctx) endpoint_id))
                     else ret ()) (\<lambda>_.
                 andthen (suppress (secret_call (secret_delete secret_ref))) (\<lambda>_. throw e))))))))"

definition webhook_subscriptions :: "'v service \<Rightarrow> principal_context \<Rightarrow> (world, webhook_subscription_view list) py" where
  "webhook_subscriptions sv ctx =
     andthen (allow sv ctx ''read'' ''webhook_subscription'' []) (\<lambda>_.
     andthen (store_read (list_webhook_subscriptions (ctx_tenant_id ctx) (ctx_project_id ctx))) (\<lambda>rows.
       ret (map webhook_view rows)))"

definition delete_webhook :: "'v service \<Rightarrow> principal_context \<Rightarrow> string \<Rightarrow> (world, unit) py" where
  "delete_webhook sv ctx endpoint_id =
     andthen (allow sv ctx ''delete'' ''webhook_subscription'' [(''endpoint_id'', JStr endpoint_id)]) (\<lambda>_.
     andthen (store_read (get_webhook_subscription (ctx_tenant_id ctx) (ctx_project_id ctx) endpoint_id)) (\<lambda>found.
       case found of
         None \<Rightarrow> throw (WebhookNotFound ''webhook subscription not found'')
       | Some endpoint \<Rightarrow>
           andthen (audit_record sv ctx ''webhook.subscription.delete'' ''webhook_subscription'' (Some endpoint_id)
               ''success'' [(''url'', JStr (wh_url endpoint))]) (\<lambda>_.
           andthen (store_call (delete_webhook_subscription (ctx_tenant_id ctx) (ctx_project_id ctx) endpoint_id)) (\<lambda>_.
           andthen (secret_call (secret_delete (wh_secret_ref endpoint))) (\<lambda>_. ret ())))))"

definition webhook_deliveries :: "'v service \<Rightarrow> principal_context \<Rightarrow> int \<Rightarrow> (world, webhook_delivery_record list) py" where
  "webhook_deliveries sv ctx lmt =
     andthen (allow sv ctx ''read'' ''webhook_delivery'' []) (\<lambda>_.
       store_read (list_webhook_deliveries (ctx_tenant_id ctx) (ctx_project_id ctx) lmt))"

section \<open>Delivering what is due\<close>

text \<open>\<open>except (WebhookDeliveryError, OSError, RuntimeError, ValueError)\<close>\<close>

definition is_delivery_error :: "exn \<Rightarrow> bool" where
  "is_delivery_error e = (case e of KeyError \<Rightarrow> False | CancelledError \<Rightarrow> False | Failure _ \<Rightarrow> False | _ \<Rightarrow> True)"

definition suppress_conflict :: "(world, unit) py \<Rightarrow> (world, unit) py" where
  "suppress_conflict m = catch m (\<lambda>e. case e of StateConflict _ \<Rightarrow> ret () | _ \<Rightarrow> throw e)"

definition unavailable_delivery :: "pyfloat \<Rightarrow> webhook_delivery_record \<Rightarrow> webhook_delivery_record" where
  "unavailable_delivery now row = row\<lparr>whd_status := DEAD_LETTER,
     whd_last_error := Some ''webhook subscription is unavailable'', whd_attempts := whd_attempts row + 1,
     whd_updated_at := now\<rparr>"

definition delivered_row :: "pyfloat \<Rightarrow> int \<Rightarrow> webhook_delivery_record \<Rightarrow> webhook_delivery_record" where
  "delivered_row now status row = row\<lparr>whd_status := DELIVERED, whd_attempts := whd_attempts row + 1,
     whd_status_code := Some status, whd_last_error := None, whd_updated_at := now, whd_delivered_at := Some now\<rparr>"

definition backoff :: "int \<Rightarrow> pyfloat" where
  "backoff attempts = min 3600 (2 ^ nat attempts)"

definition failed_row :: "'v service \<Rightarrow> pyfloat \<Rightarrow> pyfloat \<Rightarrow> exn \<Rightarrow> webhook_delivery_record \<Rightarrow> webhook_delivery_record" where
  "failed_row sv now later e row =
     (let attempts = whd_attempts row + 1 in
      row\<lparr>whd_status := (if attempts \<ge> 8 then DEAD_LETTER else PENDING), whd_attempts := attempts,
          whd_next_attempt_at := now + backoff attempts, whd_last_error := Some (take 500 (sv_exn_text sv e)),
          whd_updated_at := later\<rparr>)"

definition endpoint_of :: "webhook_subscription \<Rightarrow> string \<Rightarrow> webhook_endpoint" where
  "endpoint_of e secret = \<lparr>whe_endpoint_id = wh_endpoint_id e, whe_url = wh_url e, whe_secret = secret,
     whe_event_types = wh_event_types e, whe_enabled = wh_enabled e\<rparr>"

text \<open>The default sender: \<open>WebhookDeliveryService\<close> with one attempt.\<close>

definition sender ::
  "(string \<Rightarrow> exn + unit) \<Rightarrow> (webhook_endpoint \<Rightarrow> webhook_delivery_record \<Rightarrow> nat \<Rightarrow> int option) \<Rightarrow> string \<Rightarrow>
    webhook_endpoint \<Rightarrow> webhook_delivery_record \<Rightarrow> exn + int" where
  "sender validate_url post error_text endpoint row =
     deliver validate_url (post endpoint row) error_text endpoint (whd_event_type row) 1"

text \<open>One claimed row: \<open>send\<close> delivers an event to an endpoint, with one attempt. True when delivered.\<close>

definition deliver_row ::
  "'v service \<Rightarrow> (webhook_endpoint \<Rightarrow> webhook_delivery_record \<Rightarrow> exn + int) \<Rightarrow> webhook_delivery_record \<Rightarrow> (world, bool) py" where
  "deliver_row sv send row =
     andthen (store_read (get_webhook_subscription (whd_tenant_id row) (whd_project_id row) (whd_endpoint_id row))) (\<lambda>found.
       let unavailable =
         andthen time_time (\<lambda>now.
         andthen (suppress_conflict (store_call (save_webhook_delivery (unavailable_delivery now row)))) (\<lambda>_. ret False))
       in case found of
         None \<Rightarrow> unavailable
       | Some endpoint \<Rightarrow>
           if \<not> wh_enabled endpoint then unavailable
           else
             catch
               (andthen (secret_call (\<lambda>sc. (secret_get (wh_secret_ref endpoint) sc, sc))) (\<lambda>secret.
                andthen (remote_call (send (endpoint_of endpoint secret) row)) (\<lambda>status.
                andthen time_time (\<lambda>completed_at.
                andthen (store_call (save_webhook_delivery (delivered_row completed_at status row))) (\<lambda>_. ret True)))))
               (\<lambda>e. if is_delivery_error e
                  then
                    andthen time_time (\<lambda>now.
                    andthen time_time (\<lambda>later.
                    andthen (store_call (save_webhook_delivery (failed_row sv now later e row))) (\<lambda>_. ret False)))
                  else throw e))"

definition deliver_due ::
  "'v service \<Rightarrow> (webhook_endpoint \<Rightarrow> webhook_delivery_record \<Rightarrow> exn + int) \<Rightarrow> int \<Rightarrow> int \<Rightarrow> (world, nat \<times> nat) py" where
  "deliver_due sv send lmt lease_seconds =
     (if \<not> (1 \<le> lmt \<and> lmt \<le> 1000) then throw (ValueError ''webhook delivery limit must be between 1 and 1000'')
      else
        andthen time_time (\<lambda>now.
        andthen (store_call (claim_webhook_deliveries now (now + of_int lease_seconds) lmt)) (\<lambda>rows.
        andthen (map_py (deliver_row sv send) rows) (\<lambda>outcomes.
          ret (length (filter (\<lambda>b. b) outcomes), length (filter Not outcomes))))))"

section \<open>Every claimed delivery is settled\<close>

text \<open>A world where no call fails and other tasks leave subscriptions and deliveries alone.\<close>

definition quiet :: "world \<Rightarrow> bool" where
  "quiet w \<longleftrightarrow> (\<forall>n. w_fault w n = None) \<and>
     (\<forall>n s. mem_webhook_deliveries (w_env w n s) = mem_webhook_deliveries s \<and>
        mem_webhook_subscriptions (w_env w n s) = mem_webhook_subscriptions s)"

definition settled :: "'v service \<Rightarrow> pyfloat \<Rightarrow> webhook_delivery_record \<Rightarrow> webhook_delivery_record \<Rightarrow> bool" where
  "settled sv latest row row' \<longleftrightarrow> delivery_key row' = delivery_key row \<and> whd_attempts row' = whd_attempts row + 1 \<and>
     whd_payload row' = whd_payload row \<and> whd_status row' \<noteq> DELIVERING \<and>
     (whd_status row' = PENDING \<longrightarrow> whd_attempts row' < 8 \<and> whd_next_attempt_at row' \<le> latest + 3600)"

lemma settled_rows:
  "settled sv t row (unavailable_delivery now row)" "settled sv t row (delivered_row now st row)"
  "now \<le> t \<Longrightarrow> settled sv t row (failed_row sv now later e row)"
  by (auto simp: settled_def unavailable_delivery_def delivered_row_def failed_row_def delivery_key_def backoff_def Let_def
      intro: add_mono)

definition ready :: "pyfloat \<Rightarrow> webhook_delivery_record \<Rightarrow> world \<Rightarrow> bool" where
  "ready latest row w \<longleftrightarrow> quiet w \<and> (\<forall>n. w_clock w n \<le> latest) \<and>
     dict_get (mem_webhook_deliveries (w_store w)) (delivery_key row) \<noteq> None"

definition row_settled :: "'v service \<Rightarrow> pyfloat \<Rightarrow> webhook_delivery_record \<Rightarrow> bool \<Rightarrow> world \<Rightarrow> bool" where
  "row_settled sv latest row b w \<longleftrightarrow> (\<exists>row'. dict_get (mem_webhook_deliveries (w_store w)) (delivery_key row) = Some row' \<and>
     settled sv latest row row' \<and> (b \<longleftrightarrow> whd_status row' = DELIVERED))"

lemma outcome_save_row:
  assumes "settled sv latest row row'" "b \<longleftrightarrow> whd_status row' = DELIVERED"
  shows "outcome (ready latest row) (andthen (store_call (save_webhook_delivery row')) (\<lambda>_. ret b))
    (row_settled sv latest row) E"
    and "outcome (ready latest row) (andthen (suppress_conflict (store_call (save_webhook_delivery row'))) (\<lambda>_. ret b))
    (row_settled sv latest row) E"
  using assms
  by (auto simp: outcome_def ready_def quiet_def store_call_def save_webhook_delivery_def Let_def andthen_def settled_def
      row_settled_def suppress_conflict_def catch_def)

lemma outcome_ready_calls:
  "outcome (ready latest row) time_time (\<lambda>now w. now \<le> latest \<and> ready latest row w) E"
  "outcome (ready latest row) (store_read f) (\<lambda>_. ready latest row) E"
  "outcome (ready latest row) (secret_call (\<lambda>sc. (secret_get ref sc, sc))) (\<lambda>_. ready latest row)
     (\<lambda>e w. is_delivery_error e \<and> ready latest row w)"
  "(\<And>e. r = Inl e \<Longrightarrow> is_delivery_error e) \<Longrightarrow> outcome (ready latest row) (remote_call r) (\<lambda>_. ready latest row)
     (\<lambda>e w. is_delivery_error e \<and> ready latest row w)"
  by (auto simp: outcome_def ready_def quiet_def time_time_def store_read_def store_call_def secret_call_def remote_call_def
      tick_def Let_def secret_get_def is_delivery_error_def split: option.splits)

lemma outcome_deliver_row:
  assumes "\<And>endpoint e. send endpoint row = Inl e \<Longrightarrow> is_delivery_error e"
  shows "outcome (ready latest row) (deliver_row sv send row) (row_settled sv latest row) (\<lambda>_ _. False)"
proof -
  let ?Q = "row_settled sv latest row"
  have unavailable: "outcome (ready latest row) (andthen time_time (\<lambda>now.
      andthen (suppress_conflict (store_call (save_webhook_delivery (unavailable_delivery now row)))) (\<lambda>_. ret False))) ?Q (\<lambda>_ _. False)"
    by (rule outcome_andthen [OF outcome_ready_calls(1)], rule outcome_conj, rule outcome_save_row)
       (simp_all add: settled_rows, simp add: unavailable_delivery_def)
  have failed: "outcome (ready latest row) (andthen time_time (\<lambda>now. andthen time_time (\<lambda>later.
      andthen (store_call (save_webhook_delivery (failed_row sv now later e row))) (\<lambda>_. ret False)))) ?Q (\<lambda>_ _. False)" for e
    by (rule outcome_andthen [OF outcome_ready_calls(1)], rule outcome_conj, rule outcome_andthen [OF outcome_ready_calls(1)],
        rule outcome_conj, rule outcome_save_row)
       (simp_all add: settled_rows, simp add: failed_row_def Let_def)
  have sent: "outcome (ready latest row)
      (andthen (secret_call (\<lambda>sc. (secret_get ref sc, sc))) (\<lambda>secret.
       andthen (remote_call (send (endpoint_of endpoint secret) row)) (\<lambda>status.
       andthen time_time (\<lambda>completed_at.
       andthen (store_call (save_webhook_delivery (delivered_row completed_at status row))) (\<lambda>_. ret True)))))
      ?Q (\<lambda>e w. is_delivery_error e \<and> ready latest row w)" for ref endpoint
    by (rule outcome_andthen [OF outcome_ready_calls(3)], rule outcome_andthen [OF outcome_ready_calls(4)], erule assms,
        rule outcome_andthen [OF outcome_ready_calls(1)], rule outcome_conj, rule outcome_save_row)
       (simp_all add: settled_rows, simp add: delivered_row_def)
  have tried: "outcome (ready latest row) (catch
      (andthen (secret_call (\<lambda>sc. (secret_get ref sc, sc))) (\<lambda>secret.
       andthen (remote_call (send (endpoint_of endpoint secret) row)) (\<lambda>status.
       andthen time_time (\<lambda>completed_at.
       andthen (store_call (save_webhook_delivery (delivered_row completed_at status row))) (\<lambda>_. ret True)))))
      (\<lambda>e. if is_delivery_error e
         then andthen time_time (\<lambda>now. andthen time_time (\<lambda>later.
           andthen (store_call (save_webhook_delivery (failed_row sv now later e row))) (\<lambda>_. ret False)))
         else throw e)) ?Q (\<lambda>_ _. False)" for ref endpoint
    by (rule outcome_catch [OF sent], rule outcome_conj, simp add: failed) (simp add: is_delivery_error_def)
  show ?thesis
    unfolding deliver_row_def Let_def
    by (rule outcome_andthen [OF outcome_ready_calls(2)]) (auto intro: unavailable tried split: option.split)
qed



end
