(* ===== verification/Media_Uploads.thy ===== *)
theory Media_Uploads
  imports Media_Service Result_Storage Py_Outcomes
begin

text \<open>
  Uploading an asset takes several stores: two objects, a row, two retention records, a charge and
  an audit entry. This theory follows \<open>create_asset\<close> through every failure of one of its calls and
  shows that the rollback leaves nothing behind.
\<close>

section \<open>Uploads are all or nothing\<close>

text \<open>\<open>same_data w w'\<close>: the two worlds differ at most in the number of calls made.\<close>

definition same_data :: "world \<Rightarrow> world \<Rightarrow> bool" where
  "same_data w w' \<longleftrightarrow> (\<exists>n. w' = w\<lparr>w_step := n\<rparr>)"

lemma same_data_refl: "same_data w w"
  by (cases w) (auto simp: same_data_def)

lemma same_data_trans: "same_data w w' \<Longrightarrow> same_data w' w'' \<Longrightarrow> same_data w w''"
  by (auto simp: same_data_def)

text \<open>At most one call can still fail; none can.\<close>

definition one_fault :: "world \<Rightarrow> bool" where
  "one_fault w \<longleftrightarrow> (\<forall>n \<ge> w_step w. w_fault w n \<noteq> None \<longrightarrow>
     w_fault w n \<noteq> Some CancelledError \<and> (\<forall>m > n. w_fault w m = None))"

definition no_fault :: "world \<Rightarrow> bool" where
  "no_fault w \<longleftrightarrow> (\<forall>n \<ge> w_step w. w_fault w n = None)"

lemma fault_cases:
  assumes "one_fault w"
  obtains "w_fault w (w_step w) = None" "\<And>v. w_fault v = w_fault w \<Longrightarrow> w_step v = Suc (w_step w) \<Longrightarrow> one_fault v"
  | e where "w_fault w (w_step w) = Some e" "e \<noteq> CancelledError"
      "\<And>v. w_fault v = w_fault w \<Longrightarrow> w_step v = Suc (w_step w) \<Longrightarrow> no_fault v"
proof (cases "w_fault w (w_step w)")
  case None
  moreover have "one_fault v" if "w_fault v = w_fault w" "w_step v = Suc (w_step w)" for v
    using assms that unfolding one_fault_def by (metis Suc_leD)
  ultimately show thesis by (rule that(1))
next
  case (Some e)
  moreover have "e \<noteq> CancelledError" using assms Some by (auto simp: one_fault_def)
  moreover have "no_fault v" if "w_fault v = w_fault w" "w_step v = Suc (w_step w)" for v
    using assms Some that by (auto simp: one_fault_def no_fault_def Suc_le_eq)
  ultimately show thesis by (rule that(2))
qed

text \<open>
  What an upload has added to the world \<open>w0\<close> so far: the objects \<open>A\<close> with the contents \<open>D\<close>
  and their metadata files, the
  row of the asset if \<open>b\<close>, the retention records of the keys \<open>T\<close>.
\<close>

definition upload_state ::
  "world \<Rightarrow> 'v service \<Rightarrow> media_asset \<Rightarrow> string \<Rightarrow> (string \<Rightarrow> string) \<Rightarrow> string set \<Rightarrow> bool \<Rightarrow> string set \<Rightarrow> world \<Rightarrow> bool" where
  "upload_state w0 sv a pk D A b T w \<longleftrightarrow>
     w_fault w = w_fault w0 \<and> w_env w = w_env w0 \<and>
     (\<forall>k. k \<notin> A \<union> metadata_path ` A \<longrightarrow> dict_get (w_objects w) k = dict_get (w_objects w0) k) \<and>
     (\<forall>k \<in> A. dict_get (w_objects w) k = Some (D k)) \<and>
     dict_get (mem_assets (w_store w)) = (dict_get (mem_assets (w_store w0)))(asset_key a := if b then Some a else None) \<and>
     (\<forall>e \<in> set (mem_object_retention (w_store w)). e \<in> set (mem_object_retention (w_store w0)) \<or>
        snd e \<in> {original_retention a, preview_retention sv a pk} \<and> fst e = retention_key (snd e) \<and>
        ret_object_key (snd e) \<in> T)"

text \<open>Nothing in \<open>w0\<close> uses the keys of the new asset, and they are valid.\<close>

definition fresh_upload :: "world \<Rightarrow> media_asset \<Rightarrow> string \<Rightarrow> bool" where
  "fresh_upload w0 a pk \<longleftrightarrow> (\<forall>n s. w_env w0 n s = s) \<and>
     (\<forall>k \<in> {asset_object_key a, pk}. valid_object_key k \<and> dict_get (w_objects w0) k = None \<and>
        dict_get (w_objects w0) (metadata_path k) = None \<and>
        (\<forall>(i, r) \<in> set (mem_object_retention (w_store w0)). snd (snd i) \<noteq> k \<and> ret_object_key r \<noteq> k)) \<and>
     asset_object_key a \<noteq> pk \<and> asset_object_key a \<noteq> metadata_path pk \<and> metadata_path (asset_object_key a) \<noteq> pk \<and>
     metadata_path (asset_object_key a) \<noteq> metadata_path pk \<and>
     dict_get (mem_assets (w_store w0)) (asset_key a) = None"

definition uploading ::
  "world \<Rightarrow> 'v service \<Rightarrow> media_asset \<Rightarrow> string \<Rightarrow> (string \<Rightarrow> string) \<Rightarrow> string set \<Rightarrow> bool \<Rightarrow> string set \<Rightarrow> world \<Rightarrow> bool" where
  "uploading w0 sv a pk D A b T w \<longleftrightarrow> one_fault w \<and> upload_state w0 sv a pk D A b T w"

definition upload_failed ::
  "bool \<Rightarrow> world \<Rightarrow> 'v service \<Rightarrow> media_asset \<Rightarrow> string \<Rightarrow> (string \<Rightarrow> string) \<Rightarrow> string set \<Rightarrow> bool \<Rightarrow> string set \<Rightarrow> exn \<Rightarrow> world \<Rightarrow> bool" where
  "upload_failed refused w0 sv a pk D A b T e w \<longleftrightarrow> e \<noteq> CancelledError \<and> no_fault w \<and>
     (refused \<or> (\<exists>n. w_fault w0 n \<noteq> None)) \<and> upload_state w0 sv a pk D A b T w"

lemmas upload_defs = uploading_def upload_failed_def upload_state_def

lemma put_fresh:
  assumes "digest_ok sv" "valid_object_key k" "dict_get fs k = None"
  shows "local_put (sv_sha256 sv) (sv_meta_encode sv) (sv_meta_decode sv) k d ct (Some (sv_sha256 sv d)) False cat fs =
    (Inr \<lparr>om_object_key = k, om_size_bytes = int (length d), om_sha256 = sv_sha256 sv d, om_content_type = ct,
       om_retention_category = cat\<rparr>,
     write_metadata (sv_meta_encode sv) \<lparr>om_object_key = k, om_size_bytes = int (length d), om_sha256 = sv_sha256 sv d,
       om_content_type = ct, om_retention_category = cat\<rparr> False (dict_set k d fs))"
  using assms digest_nonempty [OF assms(1)] by (simp add: local_put_def digest_ok_def Let_def)

text \<open>A call that fails with the fault of its step, or does what it does.\<close>

lemma outcome_upload_call:
  assumes fault: "\<And>w e. upload_state w0 sv a pk D A b T w \<Longrightarrow> w_fault w (w_step w) = Some e \<Longrightarrow>
      \<exists>v. c w = (Inl e, v) \<and> w_step v = Suc (w_step w) \<and> upload_state w0 sv a pk D A b T v"
    and call: "\<And>w. upload_state w0 sv a pk D A b T w \<Longrightarrow> w_fault w (w_step w) = None \<Longrightarrow>
      \<exists>x v. c w = (Inr x, v) \<and> w_step v = Suc (w_step w) \<and> upload_state w0 sv a pk D A' b' T' v \<and> Q x"
  shows "outcome (uploading w0 sv a pk D A b T) c (\<lambda>x w. Q x \<and> uploading w0 sv a pk D A' b' T' w)
    (upload_failed refused w0 sv a pk D A b T)"
  unfolding outcome_def
proof (intro allI impI)
  fix w w' assume w: "uploading w0 sv a pk D A b T w"
  then have st: "upload_state w0 sv a pk D A b T w" by (simp add: uploading_def)
  have F: "upload_state w0 sv a pk D B c E v \<Longrightarrow> w_fault v = w_fault w" for B c E v using st by (simp add: upload_state_def)
  have "one_fault w" using w by (simp add: uploading_def)
  then show "(\<forall>x. c w = (Inr x, w') \<longrightarrow> Q x \<and> uploading w0 sv a pk D A' b' T' w') \<and>
      (\<forall>e. c w = (Inl e, w') \<longrightarrow> upload_failed refused w0 sv a pk D A b T e w')"
  proof (cases rule: fault_cases)
    case 1
    from call [OF st 1(1)] 1(2) F show ?thesis by (auto simp: uploading_def)
  next
    case (2 e)
    moreover have "\<exists>n. w_fault w0 n \<noteq> None" using 2(1) st by (auto simp: upload_state_def)
    ultimately show ?thesis using fault [OF st 2(1)] F by (auto simp: upload_failed_def)
  qed
qed

lemma outcome_put:
  assumes "fresh_upload w0 a pk" "digest_ok sv" "k \<in> {asset_object_key a, pk}" "A \<subseteq> {asset_object_key a, pk} - {k}"
  shows "outcome (uploading w0 sv a pk D A b T) (put_object sv k (D k) ct cat) (\<lambda>x w. True \<and> uploading w0 sv a pk D (insert k A) b T w)
    (upload_failed refused w0 sv a pk D A b T)"
proof (rule outcome_upload_call)
  fix w assume w: "upload_state w0 sv a pk D A b T w" "w_fault w (w_step w) = None"
  have k: "valid_object_key k" "k \<notin> A \<union> metadata_path ` A" "metadata_path k \<notin> A \<union> metadata_path ` A" "k \<noteq> metadata_path k"
    using assms by (auto simp: fresh_upload_def metadata_path_def)
  have "dict_get (w_objects w) k = None"
    using assms(1,3) k w by (auto simp: upload_state_def fresh_upload_def)
  from put_fresh [OF assms(2) k(1) this] w k
  show "\<exists>x v. put_object sv k (D k) ct cat w = (Inr x, v) \<and> w_step v = Suc (w_step w) \<and> upload_state w0 sv a pk D (insert k A) b T v \<and> True"
    by (auto simp: upload_state_def put_object_def object_call_def andthen_def tick_def write_metadata_def Let_def)
qed (auto simp: upload_state_def put_object_def object_call_def andthen_def tick_def)

lemma outcome_create_row:
  assumes "fresh_upload w0 a pk"
  shows "outcome (uploading w0 sv a pk D A False T) (store_call (create_asset a)) (\<lambda>x w. x = a \<and> uploading w0 sv a pk D A True T w)
    (upload_failed refused w0 sv a pk D A False T)"
  by (rule outcome_upload_call)
     (use assms in \<open>auto simp: upload_state_def fresh_upload_def store_call_def create_asset_def Let_def fun_upd_def\<close>)

lemma outcome_track:
  assumes "fresh_upload w0 a pk" "r \<in> {original_retention a, preview_retention sv a pk}" "ret_object_key r \<notin> T"
  shows "outcome (uploading w0 sv a pk D A b T) (store_call (track_object r))
    (\<lambda>x w. True \<and> uploading w0 sv a pk D A b (insert (ret_object_key r) T) w) (upload_failed refused w0 sv a pk D A b T)"
proof (rule outcome_upload_call)
  fix w assume w: "upload_state w0 sv a pk D A b T w" "w_fault w (w_step w) = None"
  have "dict_get (mem_object_retention (w_store w)) (retention_key r) = None"
  proof (rule ccontr)
    assume "dict_get (mem_object_retention (w_store w)) (retention_key r) \<noteq> None"
    then obtain r' where "(retention_key r, r') \<in> set (mem_object_retention (w_store w))"
      by (auto dest: map_of_SomeD)
    then have "(retention_key r, r') \<in> set (mem_object_retention (w_store w0)) \<or>
        retention_key r = retention_key r' \<and> ret_object_key r' \<in> T"
      using w by (force simp: upload_state_def)
    moreover have "snd (snd (retention_key r)) \<in> {asset_object_key a, pk}"
      using assms(2) by (auto simp: retention_key_def store_key_def original_retention_def preview_retention_def)
    ultimately show False using assms(1,3) by (force simp: fresh_upload_def retention_key_def store_key_def)
  qed
  then show "\<exists>x v. store_call (track_object r) w = (Inr x, v) \<and> w_step v = Suc (w_step w) \<and>
      upload_state w0 sv a pk D A b (insert (ret_object_key r) T) v \<and> True"
    using w assms by (auto simp: upload_state_def fresh_upload_def store_call_def track_object_def Let_def dict_set_fresh)
qed (use assms in \<open>auto simp: upload_state_def fresh_upload_def store_call_def Let_def\<close>)


lemma outcome_upload_tick:
  "outcome (uploading w0 sv a pk D A b T) uuid4_hex (\<lambda>_. uploading w0 sv a pk D A b T) E"
  "outcome (uploading w0 sv a pk D A b T) time_time (\<lambda>_. uploading w0 sv a pk D A b T) E"
proof -
  have "uploading w0 sv a pk D A b T (tick w)" if "uploading w0 sv a pk D A b T w" for w
    using that unfolding uploading_def one_fault_def tick_def upload_state_def by (auto dest: Suc_leD)
  then show "outcome (uploading w0 sv a pk D A b T) uuid4_hex (\<lambda>_. uploading w0 sv a pk D A b T) E"
    "outcome (uploading w0 sv a pk D A b T) time_time (\<lambda>_. uploading w0 sv a pk D A b T) E"
    by (simp_all add: outcome_def uuid4_hex_def time_time_def)
qed

lemma outcome_remote:
  assumes "\<And>e. r = Inl e \<Longrightarrow> e \<noteq> CancelledError \<and> refused \<and> (\<forall>n. w_fault w0 n = None)"
  shows "outcome (uploading w0 sv a pk D A b T) (remote_call r) (\<lambda>_. uploading w0 sv a pk D A b T)
    (upload_failed refused w0 sv a pk D A b T)"
proof (cases r)
  case (Inl e)
  with assms show ?thesis
    by (auto simp: outcome_def remote_call_def upload_defs no_fault_def tick_def)
next
  case (Inr x)
  have "outcome (uploading w0 sv a pk D A b T) (remote_call r) (\<lambda>x w. True \<and> uploading w0 sv a pk D A b T w)
      (upload_failed refused w0 sv a pk D A b T)"
    by (rule outcome_upload_call) (auto simp: Inr remote_call_def upload_state_def tick_def)
  then show ?thesis by simp
qed

lemma outcome_upload_audit:
  assumes "fresh_upload w0 a pk"
  shows "outcome (uploading w0 sv a pk D A b T) (audit_record sv ctx action rt ri out evd) (\<lambda>_. uploading w0 sv a pk D A b T)
    (upload_failed refused w0 sv a pk D A b T)"
proof -
  have append: "outcome (uploading w0 sv a pk D A b T) (store_call (append_audit e))
      (\<lambda>x w. True \<and> uploading w0 sv a pk D A b T w) (upload_failed refused w0 sv a pk D A b T)" for e
    by (rule outcome_upload_call)
       (use assms in \<open>auto simp: upload_state_def fresh_upload_def store_call_def append_audit_def Let_def\<close>)
  have spent: "outcome (upload_failed refused w0 sv a pk D A b T e) (if c then throw (AuditUnavailable m) else ret ())
      (\<lambda>_. uploading w0 sv a pk D A b T) (upload_failed refused w0 sv a pk D A b T)" for c e m
    by (auto simp: outcome_def upload_failed_def uploading_def no_fault_def one_fault_def)
  show ?thesis
    unfolding audit_record_def Let_def
    by (rule outcome_andthen [OF outcome_upload_tick(1)], rule outcome_andthen [OF outcome_upload_tick(2)],
        rule outcome_andthen [OF outcome_catch [OF append [simplified] spent]], simp add: upload_failed_def)
       (auto intro: outcome_ret)
qed

lemma outcome_in_world:
  assumes "outcome P m Q E"
  shows "outcome (\<lambda>(w, l). P w \<and> l = l') (in_world m) (\<lambda>x (w, l). Q x w \<and> l = l') (\<lambda>e (w, l). E e w \<and> l = l')"
  using assms by (auto simp: outcome_def in_world_def split: prod.split)

text \<open>The state of the rollback and of the world agree.\<close>

definition registering ::
  "world \<Rightarrow> 'v service \<Rightarrow> media_asset \<Rightarrow> string \<Rightarrow> (string \<Rightarrow> string) \<Rightarrow> bool \<Rightarrow> string list \<Rightarrow> world \<times> rollback \<Rightarrow> bool" where
  "registering w0 sv a pk D b T = (\<lambda>(w, l). uploading w0 sv a pk D {asset_object_key a, pk} b (set T) w \<and> l = (b, T))"

definition register_failed ::
  "bool \<Rightarrow> world \<Rightarrow> 'v service \<Rightarrow> media_asset \<Rightarrow> string \<Rightarrow> (string \<Rightarrow> string) \<Rightarrow> exn \<Rightarrow> world \<times> rollback \<Rightarrow> bool" where
  "register_failed refused w0 sv a pk D e = (\<lambda>(w, l). set (snd l) \<subseteq> {asset_object_key a, pk} \<and>
     upload_failed refused w0 sv a pk D {asset_object_key a, pk} (fst l) (set (snd l)) e w)"

lemma outcome_registering:
  assumes "outcome (uploading w0 sv a pk D {asset_object_key a, pk} b (set T)) m
      (\<lambda>x w. Q x \<and> uploading w0 sv a pk D {asset_object_key a, pk} b' (set T') w)
      (upload_failed refused w0 sv a pk D {asset_object_key a, pk} b (set T))"
    and "set T \<subseteq> {asset_object_key a, pk}"
  shows "outcome (registering w0 sv a pk D b T) (in_world m)
    (\<lambda>x (w, l). Q x \<and> uploading w0 sv a pk D {asset_object_key a, pk} b' (set T') w \<and> l = (b, T)) (register_failed refused w0 sv a pk D)"
  unfolding registering_def
  by (rule outcome_weaken [OF outcome_in_world [OF assms(1)]]) (use assms(2) in \<open>auto simp: register_failed_def\<close>)

lemma outcome_registering_same:
  assumes "outcome (uploading w0 sv a pk D {asset_object_key a, pk} b (set T)) m
      (\<lambda>_. uploading w0 sv a pk D {asset_object_key a, pk} b (set T))
      (upload_failed refused w0 sv a pk D {asset_object_key a, pk} b (set T))"
    and "set T \<subseteq> {asset_object_key a, pk}"
  shows "outcome (registering w0 sv a pk D b T) (in_world m) (\<lambda>_. registering w0 sv a pk D b T) (register_failed refused w0 sv a pk D)"
  unfolding registering_def
  by (rule outcome_weaken [OF outcome_in_world [OF assms(1)]]) (use assms(2) in \<open>auto simp: register_failed_def\<close>)

lemma outcome_register:
  assumes "fresh_upload w0 a pk"
    and consumed: "\<And>e. consume (sv_policy sv) ctx ''media_bytes'' (asset_size_bytes a) [(''asset_id'', JStr (asset_asset_id a))] = Inl e \<Longrightarrow>
      e \<noteq> CancelledError \<and> refused \<and> (\<forall>n. w_fault w0 n = None)"
  shows "outcome (registering w0 sv a pk D False []) (register_asset sv ctx a pk)
    (\<lambda>x s. x = a \<and> registering w0 sv a pk D True [asset_object_key a, pk] s) (register_failed refused w0 sv a pk D)"
proof -
  let ?K = "asset_object_key a"
  have differ: "?K \<noteq> pk" using assms(1) by (simp add: fresh_upload_def)
  have row: "outcome (registering w0 sv a pk D False []) (in_world (store_call (create_asset a)))
      (\<lambda>x (w, l). x = a \<and> uploading w0 sv a pk D {?K, pk} True (set []) w \<and> l = (False, [])) (register_failed refused w0 sv a pk D)"
    by (rule outcome_registering [OF outcome_create_row [OF assms(1)]]) simp
  have raw: "outcome (registering w0 sv a pk D True []) (in_world (store_call (track_object (original_retention a))))
      (\<lambda>x (w, l). True \<and> uploading w0 sv a pk D {?K, pk} True (set [?K]) w \<and> l = (True, [])) (register_failed refused w0 sv a pk D)"
    by (rule outcome_registering, rule outcome_track [OF assms(1), THEN outcome_weaken]) (auto simp: original_retention_def)
  have prev: "outcome (registering w0 sv a pk D True [?K]) (in_world (store_call (track_object (preview_retention sv a pk))))
      (\<lambda>x (w, l). True \<and> uploading w0 sv a pk D {?K, pk} True (set [?K, pk]) w \<and> l = (True, [?K])) (register_failed refused w0 sv a pk D)"
    by (rule outcome_registering, rule outcome_track [OF assms(1), THEN outcome_weaken])
       (use differ in \<open>auto simp: preview_retention_def insert_commute\<close>)
  have charge: "outcome (registering w0 sv a pk D True [?K, pk]) (charge_and_audit sv ctx a)
      (\<lambda>_. registering w0 sv a pk D True [?K, pk]) (register_failed refused w0 sv a pk D)"
    unfolding charge_and_audit_def
    by (rule outcome_andthen [OF outcome_registering_same [OF outcome_remote [OF consumed]]], assumption, simp,
        rule outcome_andthen [OF outcome_registering_same [OF outcome_upload_audit [OF assms(1)]]], simp)
       (auto intro: outcome_ret)
  have noted: "outcome (\<lambda>(w, l). x = a \<and> uploading w0 sv a pk D {?K, pk} True (set []) w \<and> l = (False, [])) note_stored
      (\<lambda>_ s. x = a \<and> registering w0 sv a pk D True [] s) (register_failed refused w0 sv a pk D)" for x
    by (auto simp: outcome_def note_stored_def registering_def)
  have tracked: "outcome (\<lambda>(w, l). True \<and> uploading w0 sv a pk D {?K, pk} True (set T') w \<and> l = (True, T)) (note_tracked k)
      (\<lambda>_. registering w0 sv a pk D True T') (register_failed refused w0 sv a pk D)" if "T' = T @ [k]" for T T' k
    using that by (auto simp: outcome_def note_tracked_def registering_def)
  show ?thesis
    unfolding register_asset_def
    by (rule outcome_andthen [OF row], rule outcome_andthen [OF noted], rule outcome_conj, rule outcome_andthen [OF raw],
        rule outcome_andthen [OF tracked], simp, rule outcome_andthen [OF prev], rule outcome_andthen [OF tracked], simp,
        rule outcome_andthen [OF charge], rule outcome_ret) simp
qed


text \<open>The stages of the rollback: the objects \<open>A\<close> and perhaps the row of the asset are left.\<close>

definition undoing :: "world \<Rightarrow> media_asset \<Rightarrow> string set \<Rightarrow> world \<Rightarrow> bool" where
  "undoing w0 a A w \<longleftrightarrow> no_fault w \<and> w_env w = w_env w0 \<and>
     (\<forall>k. k \<notin> A \<union> metadata_path ` A \<longrightarrow> dict_get (w_objects w) k = dict_get (w_objects w0) k) \<and>
     (\<forall>k \<in> A. dict_get (w_objects w) k \<noteq> None) \<and>
     (\<forall>k. k \<noteq> asset_key a \<longrightarrow> dict_get (mem_assets (w_store w)) k = dict_get (mem_assets (w_store w0)) k) \<and>
     (\<forall>e \<in> set (mem_object_retention (w_store w)). e \<in> set (mem_object_retention (w_store w0)) \<or> ret_deleted_at (snd e) \<noteq> None)"

definition row_gone :: "media_asset \<Rightarrow> world \<Rightarrow> bool" where
  "row_gone a w \<longleftrightarrow> dict_get (mem_assets (w_store w)) (asset_key a) = None"

lemma outcome_mark:
  assumes fresh: "fresh_upload w0 a pk" and T: "set T \<subseteq> {asset_object_key a, pk}"
  shows "outcome (upload_failed refused w0 sv a pk D A b (set T) e)
    (if T \<noteq> [] then andthen time_time (\<lambda>now. suppress (store_call (mark_objects_deleted T now))) else ret ())
    (\<lambda>_ w. undoing w0 a A w \<and> (b \<or> row_gone a w)) (\<lambda>_ _. False)"
proof -
  have marked: "undoing w0 a A (w\<lparr>w_step := n, w_store := snd (mark_objects_deleted T now (w_store w))\<rparr>) \<and>
      (b \<or> row_gone a (w\<lparr>w_step := n, w_store := snd (mark_objects_deleted T now (w_store w))\<rparr>))"
    if w: "upload_failed refused w0 sv a pk D A b (set T) e w" and n: "w_step w \<le> n" for w n now
  proof -
    let ?s = "w_store w"
    have rows: "x \<in> set (mem_object_retention (w_store w0)) \<and> ret_object_key (snd x) \<notin> set T \<or>
        ret_object_key (snd x) \<in> set T \<and> retention_owner (snd x) = asset_key a"
      if "x \<in> set (mem_object_retention ?s)" for x
    proof (cases "x \<in> set (mem_object_retention (w_store w0))")
      case True
      then show ?thesis using fresh T by (fastforce simp: fresh_upload_def)
    next
      case False
      then show ?thesis using that w
        by (auto simp: upload_defs retention_owner_def asset_key_def store_key_def original_retention_def preview_retention_def)
    qed
    have owners: "owners_of T P ?s \<subseteq> {asset_key a}" for P
      using rows by (fastforce simp: owners_of_def)
    have other: "mark_asset R V now k x = x" if "k \<noteq> asset_key a" "R \<subseteq> {asset_key a}" "V \<subseteq> {asset_key a}" for R V k x
      using that by (auto simp: mark_asset_def)
    have assets: "dict_get (mem_assets (snd (mark_objects_deleted T now ?s))) k = dict_get (mem_assets ?s) k"
      if "k \<noteq> asset_key a" for k
      using other [OF that owners owners] by (simp add: option.map_id0 [unfolded id_def] cong: option.map_cong)
    have ret: "y \<in> set (mem_object_retention (w_store w0)) \<or> ret_deleted_at (snd y) \<noteq> None"
      if "y \<in> set (mem_object_retention (snd (mark_objects_deleted T now ?s)))" for y
    proof -
      from that obtain x where x: "x \<in> set (mem_object_retention ?s)" "y = (fst x, mark_retention T now (snd x))"
        by (auto simp: mark_objects_deleted_def Let_def)
      from rows [OF x(1)] show ?thesis unfolding x(2) by (auto simp: mark_retention_def)
    qed
    have "b \<or> dict_get (mem_assets ?s) (asset_key a) = None" using w by (auto simp: upload_defs)
    with w n assets ret show ?thesis
      by (auto simp: undoing_def row_gone_def upload_defs no_fault_def)
  qed
  have env: "w_env w n s = s" if "upload_failed refused w0 sv a pk D A b (set T) e w" for w n s
    using that fresh by (simp add: upload_defs fresh_upload_def)
  show ?thesis
  proof (cases "T = []")
    case True
    then show ?thesis by (auto simp: outcome_def upload_defs undoing_def row_gone_def)
  next
    case False
    have "suppress (store_call (mark_objects_deleted T now)) (tick w) =
        (Inr (), w\<lparr>w_step := Suc (Suc (w_step w)), w_store := snd (mark_objects_deleted T now (w_store w))\<rparr>)"
      if w: "upload_failed refused w0 sv a pk D A b (set T) e w" for w now
      using w env [OF w]
      by (auto simp: suppress_def store_call_def tick_def upload_failed_def no_fault_def Let_def mark_objects_deleted_def)
    with False marked show ?thesis
      by (auto simp: outcome_def andthen_def time_time_def)
  qed
qed


lemma outcome_delete_row:
  assumes "fresh_upload w0 a pk" "asset_tenant_id a = ctx_tenant_id ctx" "asset_project_id a = ctx_project_id ctx"
  shows "outcome (\<lambda>w. undoing w0 a A w \<and> (b \<or> row_gone a w))
    (if b then suppress (store_call (delete_asset (ctx_tenant_id ctx) (ctx_project_id ctx) (asset_asset_id a))) else ret ())
    (\<lambda>_ w. undoing w0 a A w \<and> row_gone a w) (\<lambda>_ _. False)"
  using assms
  by (auto simp: outcome_def suppress_def store_call_def delete_asset_def undoing_def row_gone_def fresh_upload_def
      no_fault_def asset_key_def Let_def)

lemma undoing_delete:
  assumes w: "undoing w0 a A w" and k: "dict_get (w_objects w0) k = None" "dict_get (w_objects w0) (metadata_path k) = None"
    "k \<notin> metadata_path ` A" "metadata_path k \<notin> A" "k \<in> A"
  shows "undoing w0 a (A - {k}) ((tick w)\<lparr>w_objects := dict_pop (metadata_path k) (dict_pop k (w_objects w))\<rparr>)"
proof -
  have "dict_get (dict_pop (metadata_path k) (dict_pop k (w_objects w))) x = dict_get (w_objects w0) x"
    if "x \<notin> (A - {k}) \<union> metadata_path ` (A - {k})" for x
  proof (cases "x = k \<or> x = metadata_path k")
    case False
    with that have "x \<notin> A \<union> metadata_path ` A" by blast
    with w False show ?thesis unfolding undoing_def by simp
  qed (use k(1,2) in auto)
  moreover have "dict_get (dict_pop (metadata_path k) (dict_pop k (w_objects w))) x \<noteq> None" if "x \<in> A - {k}" for x
  proof -
    have "x \<noteq> k" "x \<noteq> metadata_path k" "dict_get (w_objects w) x \<noteq> None" using that k(4) w unfolding undoing_def by blast+
    then show ?thesis by simp
  qed
  ultimately show ?thesis using w unfolding undoing_def no_fault_def tick_def by simp
qed

lemma undoing_tick: "undoing w0 a A w \<Longrightarrow> undoing w0 a A ((tick w)\<lparr>w_objects := w_objects w\<rparr>)"
  by (simp add: undoing_def no_fault_def tick_def)

lemma outcome_delete_upload:
  assumes "fresh_upload w0 a pk" "k \<in> {asset_object_key a, pk}" "A \<subseteq> {asset_object_key a, pk}"
  shows "outcome (\<lambda>w. undoing w0 a A w \<and> row_gone a w) (suppress (delete_object k))
    (\<lambda>_ w. undoing w0 a (A - {k}) w \<and> row_gone a w) (\<lambda>_ _. False)"
proof -
  have k: "valid_object_key k" "dict_get (w_objects w0) k = None" "dict_get (w_objects w0) (metadata_path k) = None"
    "k \<notin> metadata_path ` A" "metadata_path k \<notin> A"
    using assms by (auto simp: fresh_upload_def metadata_path_def)
  have deleted: "\<exists>x v. delete_object k w = (Inr x, v) \<and> undoing w0 a (A - {k}) v \<and> row_gone a v"
    if w: "undoing w0 a A w" "row_gone a w" for w
  proof -
    have F: "w_fault w (w_step w) = None" using w by (simp add: undoing_def no_fault_def)
    have gone: "row_gone a ((tick w)\<lparr>w_objects := fs\<rparr>)" for fs using w(2) by (simp add: row_gone_def tick_def)
    show ?thesis
    proof (cases "k \<in> A")
      case True
      then obtain d where "dict_get (w_objects w) k = Some d" using w(1) by (auto simp: undoing_def)
      then show ?thesis using undoing_delete [OF w(1) k(2-5) True] F k(1) gone
        by (auto simp: delete_object_def object_call_def local_delete_def)
    next
      case False
      then have "dict_get (w_objects w) k = None" "A - {k} = A" using w(1) k by (auto simp: undoing_def)
      then show ?thesis using undoing_tick [OF w(1)] F k(1) gone
        by (auto simp: delete_object_def object_call_def local_delete_def)
    qed
  qed
  show ?thesis
    unfolding outcome_def
  proof (intro allI impI)
    fix w w' assume "undoing w0 a A w \<and> row_gone a w"
    with deleted obtain x v where "delete_object k w = (Inr x, v)" "undoing w0 a (A - {k}) v" "row_gone a v" by blast
    then show "(\<forall>x. suppress (delete_object k) w = (Inr x, w') \<longrightarrow> undoing w0 a (A - {k}) w' \<and> row_gone a w') \<and>
        (\<forall>e. suppress (delete_object k) w = (Inl e, w') \<longrightarrow> False)"
      by (auto simp: suppress_def)
  qed
qed

text \<open>Everything an upload adds is gone, but for retention records marked as deleted.\<close>

definition rolled_back :: "world \<Rightarrow> world \<Rightarrow> bool" where
  "rolled_back w0 w \<longleftrightarrow> dict_get (w_objects w) = dict_get (w_objects w0) \<and>
     dict_get (mem_assets (w_store w)) = dict_get (mem_assets (w_store w0)) \<and>
     (\<forall>e \<in> set (mem_object_retention (w_store w)). e \<in> set (mem_object_retention (w_store w0)) \<or> ret_deleted_at (snd e) \<noteq> None)"

lemma undone:
  assumes "fresh_upload w0 a pk" "undoing w0 a {} w" "row_gone a w"
  shows "rolled_back w0 w"
proof -
  have "dict_get (mem_assets (w_store w)) k = dict_get (mem_assets (w_store w0)) k" for k
    using assms unfolding undoing_def row_gone_def fresh_upload_def by metis
  with assms(2) show ?thesis by (auto simp: rolled_back_def undoing_def)
qed

lemma outcome_unregister:
  assumes fresh: "fresh_upload w0 a pk" and "set T \<subseteq> {asset_object_key a, pk}"
    and ctx: "asset_tenant_id a = ctx_tenant_id ctx" "asset_project_id a = ctx_project_id ctx"
  shows "outcome (upload_failed refused w0 sv a pk D {asset_object_key a, pk} b (set T) e) (unregister_asset ctx a pk e (b, T))
    Q (\<lambda>_. rolled_back w0)"
proof -
  let ?A = "{asset_object_key a, pk}"
  have none: "?A - {asset_object_key a} - {pk} = {}" by auto
  have last: "outcome (\<lambda>w. undoing w0 a (?A - {asset_object_key a} - {pk}) w \<and> row_gone a w) (throw e) Q (\<lambda>_. rolled_back w0)"
    unfolding none by (rule outcome_throw) (blast intro: undone [OF fresh])
  have drop: "outcome (\<lambda>w. undoing w0 a ?A w \<and> row_gone a w) (drop_objects (asset_object_key a) pk e) Q (\<lambda>_. rolled_back w0)"
    unfolding drop_objects_def
    by (intro outcome_sure [OF outcome_delete_upload [OF fresh]] last) blast+
  show ?thesis
    unfolding unregister_asset_def prod.case
    by (intro outcome_sure [OF outcome_mark [OF assms(1,2)]] outcome_sure [OF outcome_delete_row [OF fresh ctx]] drop)
qed


lemma outcome_const:
  assumes "outcome P m Q E" "\<And>s. P s \<Longrightarrow> C"
  shows "outcome P m Q (\<lambda>e s. C \<and> E e s)"
  using assms unfolding outcome_def by blast

text \<open>The identifier a new asset may get is not in use.\<close>

definition unused_asset_id :: "world \<Rightarrow> principal_context \<Rightarrow> string \<Rightarrow> bool" where
  "unused_asset_id w ctx i \<longleftrightarrow>
     (\<forall>k \<in> {original_key ctx i, preview_key ctx i}. valid_object_key k \<and> dict_get (w_objects w) k = None \<and>
        dict_get (w_objects w) (metadata_path k) = None \<and>
        (\<forall>(j, r) \<in> set (mem_object_retention (w_store w)). snd (snd j) \<noteq> k \<and> ret_object_key r \<noteq> k)) \<and>
     dict_get (mem_assets (w_store w)) (store_key (ctx_tenant_id ctx) (ctx_project_id ctx) i) = None"

lemma fresh_new_asset:
  assumes "unused_asset_id w ctx i" "\<And>n s. w_env w n s = s"
  shows "fresh_upload w (new_asset sv ctx inp n digest metadata preview_data i now) (preview_key ctx i)"
  using assms
  by (simp add: fresh_upload_def unused_asset_id_def new_asset_def asset_key_def original_key_def preview_key_def metadata_path_def)

text \<open>The policy, the size limits, the media and the quota admit the upload.\<close>

definition upload_accepted ::
  "'v service \<Rightarrow> (media_kind \<Rightarrow> string \<Rightarrow> exn + media_technical_metadata \<times> string) \<Rightarrow> principal_context \<Rightarrow>
    asset_input \<Rightarrow> string \<Rightarrow> bool" where
  "upload_accepted sv inspect ctx inp data \<longleftrightarrow>
     (\<exists>d. require_allowed (sv_policy sv) ctx ''create'' ''media_asset'' [(''kind'', JStr (media_kind_value (ai_kind inp)))] = Inr d) \<and>
     check_size sv (ai_kind inp) (int (length data)) = Inr () \<and> ai_kind inp \<noteq> STREAM \<and>
     (\<exists>md. inspected sv (ai_kind inp) (inspect (ai_kind inp) data) = Inr md) \<and>
     (\<forall>i. consume (sv_policy sv) ctx ''media_bytes'' (int (length data)) [(''asset_id'', JStr i)] = Inr ())"

definition asset_complete :: "'v service \<Rightarrow> string \<Rightarrow> media_asset \<Rightarrow> world \<Rightarrow> bool" where
  "asset_complete sv data a w \<longleftrightarrow> dict_get (mem_assets (w_store w)) (asset_key a) = Some a \<and>
     dict_get (w_objects w) (asset_object_key a) = Some data \<and> asset_sha256 a = sv_sha256 sv data \<and>
     (\<exists>pk pd. asset_preview_object_key a = Some pk \<and> dict_get (w_objects w) pk = Some pd \<and>
        asset_preview_sha256 a = Some (sv_sha256 sv pd))"

lemma rolled_back_empty: "upload_state w0 sv a pk D {} False {} w \<Longrightarrow> fresh_upload w0 a pk \<Longrightarrow> rolled_back w0 w"
  by (auto simp: upload_state_def rolled_back_def fresh_upload_def fun_eq_iff)

lemma outcome_try_with:
  assumes m: "outcome P' m (\<lambda>x s. Q x (fst s)) E'" and P: "\<And>w. P w \<Longrightarrow> P' (w, l)"
    and h: "\<And>e l'. e \<noteq> CancelledError \<Longrightarrow> outcome (\<lambda>v. E' e (v, l')) (h e l') Q E" and "\<And>v l'. \<not> E' CancelledError (v, l')"
  shows "outcome P (try_with l m h) Q E"
  unfolding outcome_def
proof (intro allI impI)
  fix w w' assume "P w"
  then have start: "P' (w, l)" by (rule P)
  obtain r v l' where run: "m (w, l) = (r, v, l')" by (metis prod_cases3)
  show "(\<forall>x. try_with l m h w = (Inr x, w') \<longrightarrow> Q x w') \<and> (\<forall>e. try_with l m h w = (Inl e, w') \<longrightarrow> E e w')"
  proof (cases r)
    case (Inr x)
    with m start run have "Q x v" unfolding outcome_def by fastforce
    with Inr run show ?thesis by (auto simp: try_with_def)
  next
    case (Inl e)
    with m start run have e: "E' e (v, l')" unfolding outcome_def by blast
    with assms(4) have "e \<noteq> CancelledError" by metis
    with h [OF this, of l'] e Inl run show ?thesis unfolding outcome_def by (auto simp: try_with_def)
  qed
qed

lemma outcome_store_upload:
  assumes fresh: "fresh_upload w0 a pk" and dig: "digest_ok sv"
    and ctx: "asset_tenant_id a = ctx_tenant_id ctx" "asset_project_id a = ctx_project_id ctx"
    and consumed: "\<And>e. consume (sv_policy sv) ctx ''media_bytes'' (asset_size_bytes a) [(''asset_id'', JStr (asset_asset_id a))] = Inl e \<Longrightarrow>
      e \<noteq> CancelledError \<and> refused \<and> (\<forall>n. w_fault w0 n = None)"
  shows "outcome (uploading w0 sv a pk D {} False {})
    (store_new_asset sv ctx a pk (D (asset_object_key a)) (D pk))
    (\<lambda>x w. x = a \<and> upload_state w0 sv a pk D {asset_object_key a, pk} True {asset_object_key a, pk} w)
    (\<lambda>_ w. (refused \<or> (\<exists>n. w_fault w0 n \<noteq> None)) \<and> rolled_back w0 w)"
    (is "outcome ?P _ ?Q ?E")
proof -
  let ?K = "asset_object_key a"
  have differ: "?K \<noteq> pk" using fresh by (simp add: fresh_upload_def)
  have first: "outcome ?P (put_object sv ?K (D ?K) (asset_content_type a) ''raw_media'') (\<lambda>x w. uploading w0 sv a pk D {?K} False {} w) ?E"
    by (rule outcome_weaken [OF outcome_put [OF fresh dig, of ?K "{}" D False "{}" "asset_content_type a" "''raw_media''" refused]])
       (auto simp: upload_failed_def intro: rolled_back_empty [OF _ fresh])
  have undo: "outcome (upload_failed refused w0 sv a pk D {?K} False {} e) (andthen (suppress (delete_object ?K)) (\<lambda>_. throw e)) Q' ?E" for e and Q' :: "unit \<Rightarrow> world \<Rightarrow> bool"
  proof (rule outcome_const)
    have "outcome (\<lambda>w. undoing w0 a {?K} w \<and> row_gone a w) (andthen (suppress (delete_object ?K)) (\<lambda>_. throw e)) Q' (\<lambda>_. rolled_back w0)"
      by (intro outcome_sure [OF outcome_delete_upload [OF fresh]] outcome_throw) (auto intro: undone [OF fresh])
    then show "outcome (upload_failed refused w0 sv a pk D {?K} False {} e) (andthen (suppress (delete_object ?K)) (\<lambda>_. throw e)) Q' (\<lambda>_. rolled_back w0)"
      by (rule outcome_weaken) (auto simp: upload_defs undoing_def row_gone_def)
  qed (simp add: upload_failed_def)
  have second: "outcome (uploading w0 sv a pk D {?K} False {}) (catch (put_object sv pk (D pk) ''image/jpeg'' ''preview'')
      (\<lambda>e. andthen (suppress (delete_object ?K)) (\<lambda>_. throw e))) (\<lambda>_. uploading w0 sv a pk D {?K, pk} False {}) ?E"
    by (rule outcome_catch [OF _ undo], rule outcome_weaken [OF outcome_put [OF fresh dig, of pk "{?K}" D False "{}" "''image/jpeg''" "''preview''" refused]])
       (use differ in \<open>auto simp: insert_commute upload_failed_def\<close>)
  have rollback: "outcome (\<lambda>v. register_failed refused w0 sv a pk D e (v, l)) (unregister_asset ctx a pk e l) ?Q ?E" for e l
  proof (rule outcome_const)
    obtain b T where l: "l = (b, T)" by (cases l)
    show "outcome (\<lambda>v. register_failed refused w0 sv a pk D e (v, l)) (unregister_asset ctx a pk e l) ?Q (\<lambda>_. rolled_back w0)"
      unfolding l register_failed_def prod.case fst_conv snd_conv
      by (rule outcome_conj) (rule outcome_unregister [OF fresh _ ctx])
  qed (simp add: register_failed_def upload_failed_def case_prod_beta)
  have third: "outcome (uploading w0 sv a pk D {?K, pk} False {}) (try_with (False, []) (register_asset sv ctx a pk) (unregister_asset ctx a pk)) ?Q ?E"
  proof (rule outcome_try_with [OF _ _ rollback])
    show "outcome (registering w0 sv a pk D False []) (register_asset sv ctx a pk)
        (\<lambda>x s. x = a \<and> upload_state w0 sv a pk D {?K, pk} True {?K, pk} (fst s)) (register_failed refused w0 sv a pk D)"
      by (rule outcome_weaken [OF outcome_register [OF fresh consumed]]) (auto simp: registering_def uploading_def)
  qed (auto simp: registering_def register_failed_def upload_failed_def)
  show ?thesis
    unfolding store_new_asset_def by (rule outcome_andthen [OF first], rule outcome_andthen [OF second], rule third)
qed


lemma rolled_back_same: "same_data w w' \<Longrightarrow> rolled_back w w'"
  by (auto simp: same_data_def rolled_back_def)

lemma same_data_tick: "same_data w w' \<Longrightarrow> same_data w (tick w')"
  by (auto simp: same_data_def tick_def)

lemma one_fault_tick: "one_fault w \<Longrightarrow> one_fault (tick w)"
  unfolding one_fault_def tick_def by (auto dest: Suc_leD)

lemma same_data_inputs: "same_data w w' \<Longrightarrow> w_fault w' = w_fault w \<and> w_uuid w' = w_uuid w"
  by (auto simp: same_data_def)

lemma outcome_store_new:
  assumes env: "\<And>n s. w_env w0 n s = s" and dig: "digest_ok sv" and unused: "unused_asset_id w0 ctx i"
    and quota: "\<And>e. consume (sv_policy sv) ctx ''media_bytes'' (int (length data)) [(''asset_id'', JStr i)] = Inl e \<Longrightarrow>
      e \<noteq> CancelledError \<and> refused \<and> (\<forall>n. w_fault w0 n = None)"
  shows "outcome (\<lambda>w. same_data w0 w \<and> one_fault w) (store_new_asset sv ctx
      (new_asset sv ctx inp (int (length data)) (sv_sha256 sv data) metadata preview_data i now) (preview_key ctx i) data preview_data)
    (asset_complete sv data) (\<lambda>_ w. (refused \<or> (\<exists>n. w_fault w0 n \<noteq> None)) \<and> rolled_back w0 w)"
proof -
  let ?a = "new_asset sv ctx inp (int (length data)) (sv_sha256 sv data) metadata preview_data i now"
  let ?pk = "preview_key ctx i"
  let ?D = "\<lambda>k. if k = ?pk then preview_data else data"
  have fresh: "fresh_upload w0 ?a ?pk" using unused env by (rule fresh_new_asset)
  then have differ: "asset_object_key ?a \<noteq> ?pk" by (simp add: fresh_upload_def)
  have stored: "outcome (uploading w0 sv ?a ?pk ?D {} False {}) (store_new_asset sv ctx ?a ?pk data preview_data)
      (\<lambda>x w. x = ?a \<and> upload_state w0 sv ?a ?pk ?D {asset_object_key ?a, ?pk} True {asset_object_key ?a, ?pk} w)
      (\<lambda>_ w. (refused \<or> (\<exists>n. w_fault w0 n \<noteq> None)) \<and> rolled_back w0 w)"
    using outcome_store_upload [OF fresh dig, of ctx refused ?D] differ quota by (simp add: new_asset_def)
  show ?thesis
  proof (rule outcome_weaken [OF stored])
    fix w assume "same_data w0 w \<and> one_fault w"
    then show "uploading w0 sv ?a ?pk ?D {} False {} w"
      using fresh by (auto simp: same_data_def uploading_def upload_state_def fresh_upload_def fun_eq_iff)
  next
    fix x w assume "x = ?a \<and> upload_state w0 sv ?a ?pk ?D {asset_object_key ?a, ?pk} True {asset_object_key ?a, ?pk} w"
    then show "asset_complete sv data x w" using differ
      by (simp add: asset_complete_def upload_state_def) (simp add: new_asset_def)
  qed
qed

lemma outcome_upload:
  assumes env: "\<And>n s. w_env w0 n s = s" and dig: "digest_ok sv"
    and unused: "\<And>n. unused_asset_id w0 ctx (''ast_'' @ w_uuid w0 n 0)"
    and quota: "\<And>i e. consume (sv_policy sv) ctx ''media_bytes'' (int (length data)) [(''asset_id'', JStr i)] = Inl e \<Longrightarrow>
      e \<noteq> CancelledError \<and> (\<forall>n. w_fault w0 n = None)"
  shows "outcome (\<lambda>w. same_data w0 w \<and> one_fault w) (create_media_asset sv inspect ctx inp data) (asset_complete sv data)
    (\<lambda>_ w. (\<not> upload_accepted sv inspect ctx inp data \<or> (\<exists>n. w_fault w0 n \<noteq> None)) \<and> rolled_back w0 w)"
    (is "outcome ?S _ ?Q ?E")
proof -
  let ?refused = "\<not> upload_accepted sv inspect ctx inp data"
  have refuse: "outcome ?S (of_sum r) (\<lambda>x w. r = Inr x \<and> ?S w) ?E" if "\<And>e. r = Inl e \<Longrightarrow> ?refused" for r :: "exn + 'y"
    using that by (auto simp: outcome_def of_sum_def intro: rolled_back_same)
  have allowed: "outcome ?S (allow sv ctx ''create'' ''media_asset'' [(''kind'', JStr (media_kind_value (ai_kind inp)))]) (\<lambda>_. ?S) ?E"
    by (auto simp: outcome_def allow_def remote_call_def andthen_def upload_accepted_def
        intro: rolled_back_same same_data_tick one_fault_tick dest: same_data_inputs split: option.splits sum.splits)
  have uuid: "outcome ?S uuid4_hex (\<lambda>u w. unused_asset_id w0 ctx (''ast_'' @ u) \<and> ?S w) ?E"
    using unused by (auto simp: outcome_def uuid4_hex_def same_data_inputs intro: same_data_tick one_fault_tick)
  have clock: "outcome ?S time_time (\<lambda>_. ?S) ?E"
    by (simp add: outcome_def time_time_def same_data_tick one_fault_tick)
  have store: "outcome ?S (store_new_asset sv ctx
      (new_asset sv ctx inp (int (length data)) (sv_sha256 sv data) metadata preview_data i now) (preview_key ctx i) data preview_data) ?Q ?E"
    if "unused_asset_id w0 ctx i" for i metadata preview_data now
    by (rule outcome_store_new [OF env dig that]) (use quota in \<open>auto simp: upload_accepted_def\<close>)
  have inspect: "outcome (\<lambda>w. r = Inr md \<and> ?S w) (case md of (metadata, preview_data) \<Rightarrow>
      andthen uuid4_hex (\<lambda>u. andthen time_time (\<lambda>now. let asset_id = ''ast_'' @ u in store_new_asset sv ctx
         (new_asset sv ctx inp (int (length data)) (sv_sha256 sv data) metadata preview_data asset_id now)
         (preview_key ctx asset_id) data preview_data))) ?Q ?E" for md and r :: "exn + _"
    unfolding Let_def case_prod_beta
    by (intro outcome_conj outcome_andthen [OF uuid] outcome_andthen [OF clock] store)
  show ?thesis
    unfolding create_media_asset_def
    by (intro outcome_andthen [OF allowed] outcome_andthen [OF refuse] outcome_conj inspect)
       (auto simp: upload_accepted_def)
qed

text \<open>
  C10: an upload is all or nothing. When at most one of the calls of \<open>create_asset\<close> fails, whichever
  it is, or the quota refuses the charge at the end, the request either returns an asset whose row
  and both objects are stored with the contents its digests describe, or it raises and the
  objects and rows are those from before: what had been written is deleted again, and the only
  trace are retention records already marked deleted. It raises only if a call failed or the
  policy, the limits, the media or the quota refused the upload.
\<close>

theorem upload_all_or_nothing:
  assumes "\<And>n s. w_env w n s = s" and "one_fault w" and "digest_ok sv"
    and "\<And>n. unused_asset_id w ctx (''ast_'' @ w_uuid w n 0)"
    and "\<And>i e. consume (sv_policy sv) ctx ''media_bytes'' (int (length data)) [(''asset_id'', JStr i)] = Inl e \<Longrightarrow>
      e \<noteq> CancelledError \<and> (\<forall>n. w_fault w n = None)"
  shows "case create_media_asset sv inspect ctx inp data w of
      (Inr a, w') \<Rightarrow> asset_complete sv data a w'
    | (Inl e, w') \<Rightarrow> rolled_back w w' \<and> (\<not> upload_accepted sv inspect ctx inp data \<or> (\<exists>n. w_fault w n \<noteq> None))"
  using outcome_upload [OF assms(1,3,4,5)] assms(2) same_data_refl [of w]
  unfolding outcome_def by (auto split: prod.split sum.split)

text \<open>The charge is refused after the objects and the row have been stored.\<close>

definition sample_quota_service :: "unit service" where
  "sample_quota_service = sample_service\<lparr>sv_policy := External (\<lambda>_ _ _ _. Inr \<lparr>dec_allowed = True, dec_reason = []\<rparr>)
     (\<lambda>_ _ _ _. Inl (PolicyDenied ''quota''))\<rparr>"

definition sample_upload :: asset_input where
  "sample_upload = \<lparr>ai_filename = None, ai_content_type = [], ai_kind = IMAGE, ai_domain = None, ai_temporary = False\<rparr>"

theorem upload_all_or_nothing_witness:
  "(case create_media_asset sample_service (\<lambda>_ _. Inr (empty_metadata, ''jpg'')) sample_principal sample_upload ''png'' (sample_world memory_state_init) of
      (Inr a, w') \<Rightarrow> asset_complete sample_service ''png'' a w' | (Inl e, w') \<Rightarrow> False) \<and>
   (case create_media_asset sample_quota_service (\<lambda>_ _. Inr (empty_metadata, ''jpg'')) sample_principal sample_upload ''png'' (sample_world memory_state_init) of
      (Inr a, w') \<Rightarrow> asset_complete sample_quota_service ''png'' a w' | (Inl e, w') \<Rightarrow> rolled_back (sample_world memory_state_init) w')"
proof -
  let ?w = "sample_world memory_state_init"
  have w: "\<And>n s. w_env ?w n s = s" "one_fault ?w" "\<And>n. w_fault ?w n = None" by (simp_all add: sample_world_def one_fault_def)
  have dig: "digest_ok sample_service" "digest_ok sample_quota_service"
    by (simp_all add: digest_ok_def sample_quota_service_def sample_service_def sample_sha_valid)
  have "valid_object_key (original_key sample_principal ''ast_u'') \<and> valid_object_key (preview_key sample_principal ''ast_u'')"
    by code_simp
  then have unused: "\<And>n. unused_asset_id ?w sample_principal (''ast_'' @ w_uuid ?w n 0)"
    by (simp add: unused_asset_id_def sample_world_def memory_state_init_def)
  have ok: "upload_accepted sample_service (\<lambda>_ _. Inr (empty_metadata, ''jpg'')) sample_principal sample_upload ''png''"
    by (simp add: upload_accepted_def sample_service_def sample_principal_def require_allowed_def RESOURCE_PRODUCTS_def
        check_size_def sample_upload_def inspected_def)
  have "case create_media_asset sample_service (\<lambda>_ _. Inr (empty_metadata, ''jpg'')) sample_principal sample_upload ''png'' ?w of
      (Inr a, w') \<Rightarrow> asset_complete sample_service ''png'' a w' | (Inl e, w') \<Rightarrow> False"
    using upload_all_or_nothing [OF w(1,2) dig(1) unused, of "''png''" "\<lambda>_ _. Inr (empty_metadata, ''jpg'')" sample_upload] ok w(3)
    by (simp add: sample_service_def split: prod.splits sum.splits)
  moreover have "case create_media_asset sample_quota_service (\<lambda>_ _. Inr (empty_metadata, ''jpg'')) sample_principal sample_upload ''png'' ?w of
      (Inr a, w') \<Rightarrow> asset_complete sample_quota_service ''png'' a w' | (Inl e, w') \<Rightarrow> rolled_back ?w w'"
    using upload_all_or_nothing [OF w(1,2) dig(2) unused, of "''png''" "\<lambda>_ _. Inr (empty_metadata, ''jpg'')" sample_upload] w(3)
    by (simp add: sample_quota_service_def split: prod.splits sum.splits)
  ultimately show ?thesis by blast
qed

end
