(* ===== verification/Maintenance.thy ===== *)
theory Maintenance
  imports Media_Uploads
begin

text \<open>
  Background work on the store: the retention policy and its sweep (\<open>retention.py\<close>), and the
  recovery of the run queue after it lost its data (\<open>queue_recovery.py\<close> with
  \<open>RedisRunQueue.rebuild_empty\<close>, whose two streams are lists of run keys here).
\<close>

section \<open>Retention\<close>

record retention_policy =
  rtp_raw_media_days :: int
  rtp_preview_days :: int
  rtp_structured_result_days :: int
  rtp_biometric_days :: "int option"
  rtp_alert_snapshot_days :: "int option"

definition days_ok :: "int \<Rightarrow> bool" where
  "days_ok d \<longleftrightarrow> 1 \<le> d \<and> d \<le> 3650"

definition validate_policy :: "retention_policy \<Rightarrow> exn + unit" where
  "validate_policy rp =
     (if \<not> days_ok (rtp_raw_media_days rp) then Inl (ValueError ''raw_media_days must be between 1 and 3650'')
      else if \<not> days_ok (rtp_preview_days rp) then Inl (ValueError ''preview_days must be between 1 and 3650'')
      else if \<not> days_ok (rtp_structured_result_days rp)
      then Inl (ValueError ''structured_result_days must be between 1 and 3650'')
      else if (case rtp_biometric_days rp of None \<Rightarrow> False | Some d \<Rightarrow> \<not> days_ok d)
      then Inl (ValueError ''biometric_days must be null or between 1 and 3650'')
      else if (case rtp_alert_snapshot_days rp of None \<Rightarrow> False | Some d \<Rightarrow> \<not> days_ok d)
      then Inl (ValueError ''alert_snapshot_days must be null or between 1 and 3650'')
      else Inr ())"

definition retention_days :: "retention_policy \<Rightarrow> (string, int option) dict" where
  "retention_days rp = [(''raw_media'', Some (rtp_raw_media_days rp)), (''preview'', Some (rtp_preview_days rp)),
     (''structured_result'', Some (rtp_structured_result_days rp)), (''biometric'', rtp_biometric_days rp),
     (''alert_snapshot'', rtp_alert_snapshot_days rp)]"

text \<open>\<open>base\<close> is the given creation time or the clock.\<close>

definition expires_at :: "retention_policy \<Rightarrow> string \<Rightarrow> pyfloat \<Rightarrow> exn + pyfloat option" where
  "expires_at rp category base = (case validate_policy rp of
     Inl e \<Rightarrow> Inl e
   | Inr _ \<Rightarrow> (case dict_get (retention_days rp) category of
       None \<Rightarrow> Inl (ValueError (''unknown retention category: '' @ category))
     | Some days \<Rightarrow> Inr (map_option (\<lambda>d. base + of_int d * 86400) days)))"

fun delete_all :: "string list \<Rightarrow> (world, string list) py" where
  "delete_all [] = ret []"
| "delete_all (k # ks) =
     andthen (delete_object k) (\<lambda>gone.
     andthen (delete_all ks) (\<lambda>rest. ret (if gone then k # rest else rest)))"

definition sweep :: "pyfloat option \<Rightarrow> int \<Rightarrow> (world, nat) py" where
  "sweep before lmt =
     (if \<not> (1 \<le> lmt \<and> lmt \<le> 10000) then throw (ValueError ''retention sweep limit must be between 1 and 10000'')
      else
        andthen (case before of None \<Rightarrow> time_time | Some t \<Rightarrow> ret t) (\<lambda>cutoff.
        andthen (store_read (expired_object_keys cutoff lmt)) (\<lambda>keys.
        andthen (delete_all keys) (\<lambda>deleted.
        andthen (if deleted \<noteq> []
            then andthen time_time (\<lambda>now. store_call (mark_objects_deleted deleted now)) else ret ()) (\<lambda>_.
          ret (length deleted))))))"

section \<open>Queue recovery\<close>

record recovery_summary =
  rec_recoverable_runs :: nat
  rec_enqueued_runs :: nat
  rec_assets_verified :: nat
  rec_sources_verified :: nat

datatype verified_media = Asset_verified | Source_verified

definition verify_object :: "'v service \<Rightarrow> string \<Rightarrow> string \<Rightarrow> (world, unit) py" where
  "verify_object sv k digest =
     andthen (object_call (\<lambda>fs. (local_stat (sv_sha256 sv) (sv_meta_decode sv) k (Some digest) fs, fs))) (\<lambda>_. ret ())"

definition verify_run_media :: "'v service \<Rightarrow> run_record \<Rightarrow> (world, verified_media) py" where
  "verify_run_media sv run =
     (case run_asset_id run of
        Some asset_id \<Rightarrow>
          andthen (store_read (get_asset (run_tenant_id run) (run_project_id run) asset_id)) (\<lambda>found.
            let absent = RuntimeError (''recoverable Run '' @ run_run_id run @ '' has no retained media asset'') in
            case found of
              None \<Rightarrow> throw absent
            | Some asset \<Rightarrow>
                if asset_original_deleted_at asset \<noteq> None then throw absent
                else
                  andthen (catch (verify_object sv (asset_object_key asset) (asset_sha256 asset))
                      (\<lambda>_. throw (RuntimeError (''recoverable Run '' @ run_run_id run @
                         '' media object is missing or corrupt''))))
                    (\<lambda>_. ret Asset_verified))
      | None \<Rightarrow>
          (case run_source_id run of
             Some source_id \<Rightarrow>
               andthen (store_read (get_source (run_tenant_id run) (run_project_id run) source_id)) (\<lambda>found.
                 case found of
                   None \<Rightarrow> throw (RuntimeError (''recoverable Run '' @ run_run_id run @ '' media source is missing''))
                 | Some _ \<Rightarrow> ret Source_verified)
           | None \<Rightarrow> throw (RuntimeError (''recoverable Run '' @ run_run_id run @ '' has no media reference''))))"

text \<open>
  \<open>rebuild_empty\<close>: the transaction adds all runs or none. The two streams are one list in the world,
  the batch lane before the stream lane. \<open>trim\<close> is what Redis does to a stream that gets an entry
  with an approximate length limit.
\<close>

definition RUN_STREAM_MAXLEN :: nat where
  "RUN_STREAM_MAXLEN = 100000"

definition on_stream_lane :: "run_record \<Rightarrow> bool" where
  "on_stream_lane run = truthy (run_source_id run)"

definition rebuild_empty :: "(nat \<Rightarrow> key3 list \<Rightarrow> key3 list) \<Rightarrow> run_record list \<Rightarrow> (world, nat) py" where
  "rebuild_empty trim runs w =
     (case w_fault w (w_step w) of
        Some e \<Rightarrow> (Inl e, tick w)
      | None \<Rightarrow>
          if w_queue w \<noteq> []
          then (Inl (RuntimeError ''Redis run streams must be empty before queue recovery''), tick w)
          else (Inr (length runs), (tick w)\<lparr>w_queue :=
            trim RUN_STREAM_MAXLEN (map run_key (filter (\<lambda>r. \<not> on_stream_lane r) runs)) @
            trim RUN_STREAM_MAXLEN (map run_key (filter on_stream_lane runs))\<rparr>))"

definition rebuild_redis_run_queue ::
  "(nat \<Rightarrow> key3 list \<Rightarrow> key3 list) \<Rightarrow> 'v service \<Rightarrow> (world, recovery_summary) py" where
  "rebuild_redis_run_queue trim sv =
     andthen (store_read recoverable_runs) (\<lambda>runs.
     andthen (map_py (verify_run_media sv) runs) (\<lambda>media.
     andthen (rebuild_empty trim runs) (\<lambda>enqueued.
       ret \<lparr>rec_recoverable_runs = length runs, rec_enqueued_runs = enqueued,
         rec_assets_verified = length (filter (\<lambda>v. v = Asset_verified) media),
         rec_sources_verified = length (filter (\<lambda>v. v = Source_verified) media)\<rparr>)))"

section \<open>Correctness\<close>

text \<open>A world where no call fails and no other task touches the store.\<close>

definition undisturbed :: "world \<Rightarrow> bool" where
  "undisturbed w \<longleftrightarrow> (\<forall>n. w_fault w n = None) \<and> (\<forall>n s. w_env w n s = s)"

lemma delete_all_missing:
  assumes "\<And>n. w_fault w n = None" "\<And>k. k \<in> set ks \<Longrightarrow> valid_object_key k \<and> dict_get (w_objects w) k = None"
  shows "delete_all ks w = (Inr [], w\<lparr>w_step := w_step w + length ks\<rparr>)"
  using assms
  by (induction ks arbitrary: w)
     (simp_all add: andthen_def delete_object_def object_call_def local_delete_def tick_def)

text \<open>
  An expired object that is already gone blocks the sweep. When the first \<open>lmt\<close> expired keys
  have no object left, for instance because a deletion was interrupted before the records were
  marked, the sweep deletes and marks nothing, so that the next one meets the same keys
  again and never reaches the expired objects behind them.
\<close>

lemma sweep_stuck_on_missing:
  assumes "undisturbed w" and "1 \<le> lmt" and "lmt \<le> 10000"
    and "\<And>k. k \<in> set (expired_object_keys t lmt (w_store w)) \<Longrightarrow> valid_object_key k \<and> dict_get (w_objects w) k = None"
  shows "\<exists>w'. sweep (Some t) lmt w = (Inr 0, w') \<and> w_store w' = w_store w \<and> w_objects w' = w_objects w"
proof -
  let ?ks = "expired_object_keys t lmt (w_store w)"
  let ?v = "w\<lparr>w_step := Suc (w_step w)\<rparr>"
  from assms(1) have keys: "store_read (expired_object_keys t lmt) w = (Inr ?ks, ?v)"
    by (simp add: store_read_def store_call_def undisturbed_def Let_def)
  have "delete_all ?ks ?v = (Inr [], ?v\<lparr>w_step := w_step ?v + length ?ks\<rparr>)"
    by (rule delete_all_missing) (use assms(1,4) in \<open>auto simp: undisturbed_def\<close>)
  with keys assms(2,3) show ?thesis by (simp add: sweep_def andthen_def)
qed

text \<open>One expired record whose object is missing, and behind it one whose object exists.\<close>

definition sample_stuck_world :: world where
  "sample_stuck_world = (sample_world sample_media_store)\<lparr>w_objects := [(''raw'', ''bytes'')]\<rparr>"

text \<open>What recovery requires of the media of a run.\<close>

definition media_retained :: "'v service \<Rightarrow> mem \<Rightarrow> files \<Rightarrow> run_record \<Rightarrow> bool" where
  "media_retained sv s fs run =
     (case run_asset_id run of
        Some a \<Rightarrow> (case get_asset (run_tenant_id run) (run_project_id run) a s of
            None \<Rightarrow> False
          | Some asset \<Rightarrow> asset_original_deleted_at asset = None \<and>
              (case local_stat (sv_sha256 sv) (sv_meta_decode sv) (asset_object_key asset) (Some (asset_sha256 asset)) fs of
                 Inl _ \<Rightarrow> False | Inr _ \<Rightarrow> True))
      | None \<Rightarrow> (case run_source_id run of
            None \<Rightarrow> False
          | Some i \<Rightarrow> get_source (run_tenant_id run) (run_project_id run) i s \<noteq> None))"

lemma same_data_simps:
  "same_data w w' \<Longrightarrow> w_store w' = w_store w \<and> w_objects w' = w_objects w \<and> w_queue w' = w_queue w \<and>
     (undisturbed w' \<longleftrightarrow> undisturbed w)"
  by (auto simp: same_data_def undisturbed_def)

lemma local_stat_error: "local_stat sha dec k expected fs \<noteq> Inl CancelledError"
  by (auto simp: local_stat_def check_digest_def validate_sha256_def Let_def split: option.split sum.split if_splits)

lemma same_data_step: "same_data w (w\<lparr>w_step := n\<rparr>)" "same_data w (w\<lparr>w_step := n, w_store := w_store w\<rparr>)"
  "same_data w (w\<lparr>w_step := n, w_objects := w_objects w\<rparr>)"
  "same_data w (w\<lparr>w_step := n, w_store := w_store w, w_objects := w_objects w\<rparr>)"
  by (cases w; auto simp: same_data_def)+

lemma verify_run_media_exact:
  assumes "undisturbed w"
  shows "\<exists>r w'. verify_run_media sv run w = (r, w') \<and> same_data w w' \<and>
    (if media_retained sv (w_store w) (w_objects w) run
     then r = Inr (if run_asset_id run = None then Source_verified else Asset_verified)
     else \<exists>m. r = Inl (RuntimeError m))"
  using assms
  by (auto simp: verify_run_media_def media_retained_def verify_object_def andthen_def store_read_def store_call_def
      object_call_def catch_def undisturbed_def same_data_refl tick_def Let_def local_stat_error same_data_step split: option.split sum.split)

lemma verify_all_exact:
  assumes "undisturbed w"
  shows "\<exists>r w'. map_py (verify_run_media sv) runs w = (r, w') \<and> same_data w w' \<and>
    (if \<forall>run \<in> set runs. media_retained sv (w_store w) (w_objects w) run
     then r = Inr (map (\<lambda>run. if run_asset_id run = None then Source_verified else Asset_verified) runs)
     else \<exists>m. r = Inl (RuntimeError m))"
  using assms
proof (induction runs arbitrary: w)
  case (Cons run runs)
  obtain r w1 where first: "verify_run_media sv run w = (r, w1)" "same_data w w1"
    "if media_retained sv (w_store w) (w_objects w) run
     then r = Inr (if run_asset_id run = None then Source_verified else Asset_verified)
     else \<exists>m. r = Inl (RuntimeError m)"
    using verify_run_media_exact [OF Cons.prems] by blast
  note kept = same_data_simps [OF first(2)]
  from Cons.prems kept have "undisturbed w1" by simp
  from Cons.IH [OF this] obtain r' w2 where rest: "map_py (verify_run_media sv) runs w1 = (r', w2)" "same_data w1 w2"
    "if \<forall>run \<in> set runs. media_retained sv (w_store w) (w_objects w) run
     then r' = Inr (map (\<lambda>run. if run_asset_id run = None then Source_verified else Asset_verified) runs)
     else \<exists>m. r' = Inl (RuntimeError m)"
    using kept by auto
  from first rest same_data_trans [OF first(2) rest(2)] show ?case
    by (cases "media_retained sv (w_store w) (w_objects w) run") (auto simp: andthen_def split: if_splits)
qed (simp add: same_data_refl)

lemma count_verified:
  "length (filter ((\<lambda>v. v = Asset_verified) \<circ> (\<lambda>run. if P run then Source_verified else Asset_verified)) runs) +
   length (filter ((\<lambda>v. v = Source_verified) \<circ> (\<lambda>run. if P run then Source_verified else Asset_verified)) runs) = length runs"
  by (induction runs) auto

lemma lanes_complete: "image_mset f {#x \<in># M. \<not> P x#} + image_mset f (filter_mset P M) = image_mset f M"
  by (induction M) auto

text \<open>
  C12: queue recovery is all or nothing. When the streams are empty and the media of every run
  that is not finished are still there, recovery queues each of these runs exactly once and
  accounts for each as an asset or a source; otherwise it raises and the queue is as it was.
\<close>

theorem recovery_all_or_nothing:
  assumes "undisturbed w" and "\<And>n xs. length xs \<le> n \<Longrightarrow> trim n xs = xs"
    and "length (recoverable_runs (w_store w)) \<le> RUN_STREAM_MAXLEN"
  shows "if w_queue w = [] \<and> (\<forall>run \<in> set (recoverable_runs (w_store w)). media_retained sv (w_store w) (w_objects w) run)
    then \<exists>sm w'. rebuild_redis_run_queue trim sv w = (Inr sm, w') \<and>
      mset (w_queue w') = mset (map run_key (recoverable_runs (w_store w))) \<and>
      rec_enqueued_runs sm = length (recoverable_runs (w_store w)) \<and>
      rec_assets_verified sm + rec_sources_verified sm = length (recoverable_runs (w_store w))
    else \<exists>e w'. rebuild_redis_run_queue trim sv w = (Inl e, w') \<and> w_queue w' = w_queue w"
proof -
  let ?runs = "recoverable_runs (w_store w)"
  let ?v = "w\<lparr>w_step := Suc (w_step w)\<rparr>"
  have runs: "store_read recoverable_runs w = (Inr ?runs, ?v)"
    using assms(1) by (simp add: store_read_def store_call_def undisturbed_def Let_def)
  have v: "undisturbed ?v" using assms(1) by (simp add: undisturbed_def)
  obtain r w1 where checked: "map_py (verify_run_media sv) ?runs ?v = (r, w1)" "same_data ?v w1"
    "if \<forall>run \<in> set ?runs. media_retained sv (w_store w) (w_objects w) run
     then r = Inr (map (\<lambda>run. if run_asset_id run = None then Source_verified else Asset_verified) ?runs)
     else \<exists>m. r = Inl (RuntimeError m)"
    using verify_all_exact [OF v, of sv ?runs] by auto
  note kept = same_data_simps [OF checked(2)]
  have lanes: "trim RUN_STREAM_MAXLEN (map run_key (filter P ?runs)) = map run_key (filter P ?runs)" for P
    using assms(3) by (intro assms(2)) (metis length_filter_le length_map order_trans)
  show ?thesis
  proof (cases "\<forall>run \<in> set ?runs. media_retained sv (w_store w) (w_objects w) run")
    case True
    with checked kept v show ?thesis
      by (auto simp: rebuild_redis_run_queue_def andthen_def runs rebuild_empty_def undisturbed_def lanes tick_def
          count_verified lanes_complete)
  next
    case False
    with checked kept show ?thesis
      by (auto simp: rebuild_redis_run_queue_def andthen_def runs)
  qed
qed

text \<open>A queued run on a registered source.\<close>

definition sample_source_world :: world where
  "sample_source_world = sample_world (memory_state_init\<lparr>
     mem_runs := [(store_key ''t'' ''p'' ''r1'', (sample_run ''r1'' QUEUED)\<lparr>run_asset_id := None, run_source_id := Some ''s1''\<rparr>)],
     mem_sources := [(store_key ''t'' ''p'' ''s1'', \<lparr>source_source_id = ''s1'', source_tenant_id = ''t'',
       source_project_id = ''p'', source_kind_of = SOURCE_STREAM, source_name = ''cam'', source_masked_url = ''rtsp://h'',
       source_secret_ref = ''secret://s1'', source_metadata = [], source_created_at = 0\<rparr>)]\<rparr>)"

theorem recovery_all_or_nothing_witness:
  "\<exists>sm w'. rebuild_redis_run_queue (\<lambda>n xs. drop (length xs - n) xs) sample_service sample_source_world = (Inr sm, w') \<and>
     mset (w_queue w') = {#store_key ''t'' ''p'' ''r1''#} \<and> rec_enqueued_runs sm = 1"
proof -
  let ?run = "(sample_run ''r1'' QUEUED)\<lparr>run_asset_id := None, run_source_id := Some ''s1''\<rparr>"
  have runs: "recoverable_runs (w_store sample_source_world) = [?run]" by code_simp
  have key: "run_key ?run = store_key ''t'' ''p'' ''r1''" by code_simp
  have "media_retained sample_service (w_store sample_source_world) (w_objects sample_source_world) ?run" by code_simp
  moreover have "undisturbed sample_source_world" "w_queue sample_source_world = []"
    by (simp_all add: undisturbed_def sample_source_world_def sample_world_def)
  ultimately show ?thesis
    using recovery_all_or_nothing [of sample_source_world "\<lambda>n xs. drop (length xs - n) xs" sample_service]
    by (simp add: runs key RUN_STREAM_MAXLEN_def) blast
qed

end
