(* ===== verification/Access_Store.thy ===== *)
theory Access_Store
  imports Memory_State
begin

text \<open>
  Identity and access records (\<open>platform/models.py\<close>) and \<open>MemoryAccessRepository\<close> (\<open>access.py\<close>): users,
  roles, memberships, service accounts, API keys found by the digest of their token, and product
  entitlements. Each method runs without awaiting anything, so it is atomic.
\<close>

section \<open>Records\<close>

datatype principal_type = USER | SERVICE_ACCOUNT

datatype entitlement_status = ENT_ACTIVE | ENT_SUSPENDED

record organization =
  org_tenant_id :: string
  org_display_name :: string
  org_created_at :: pyfloat
  org_updated_at :: pyfloat

record iam_project =
  prj_tenant_id :: string
  prj_project_id :: string
  prj_display_name :: string
  prj_created_at :: pyfloat
  prj_updated_at :: pyfloat

record user_account =
  usr_tenant_id :: string
  usr_user_id :: string
  usr_display_name :: string
  usr_email :: "string option"
  usr_phone :: "string option"
  usr_disabled :: bool
  usr_created_at :: pyfloat
  usr_updated_at :: pyfloat

record user_credential =
  crd_tenant_id :: string
  crd_user_id :: string
  crd_password_hash :: string
  crd_created_at :: pyfloat
  crd_updated_at :: pyfloat

record iam_role =
  rol_tenant_id :: string
  rol_role_id :: string
  rol_display_name :: string
  rol_scopes :: "string set"
  rol_product_ids :: "string set"
  rol_created_at :: pyfloat
  rol_updated_at :: pyfloat

record membership =
  mbr_tenant_id :: string
  mbr_project_id :: string
  mbr_principal_id :: string
  mbr_principal_type :: principal_type
  mbr_role_ids :: "string set"
  mbr_created_at :: pyfloat
  mbr_updated_at :: pyfloat

record service_account =
  sva_tenant_id :: string
  sva_project_id :: string
  sva_service_account_id :: string
  sva_display_name :: string
  sva_scopes :: "string set"
  sva_product_ids :: "string set"
  sva_disabled :: bool
  sva_created_at :: pyfloat
  sva_updated_at :: pyfloat

record api_key_record =
  apk_tenant_id :: string
  apk_project_id :: string
  apk_key_id :: string
  apk_service_account_id :: string
  apk_name :: string
  apk_token_prefix :: string
  apk_scopes :: "string set"
  apk_product_ids :: "string set"
  apk_expires_at :: "pyfloat option"
  apk_revoked_at :: "pyfloat option"
  apk_last_used_at :: "pyfloat option"
  apk_created_at :: pyfloat

record product_entitlement =
  ent_tenant_id :: string
  ent_project_id :: string
  ent_product_id :: string
  ent_status :: entitlement_status
  ent_source :: string
  ent_created_at :: pyfloat
  ent_updated_at :: pyfloat

section \<open>The repository\<close>

record access_repository =
  acc_organizations :: "(string, organization) dict"
  acc_projects :: "(string \<times> string, iam_project) dict"
  acc_users :: "(string \<times> string, user_account) dict"
  acc_user_credentials :: "(string \<times> string, user_credential) dict"
  acc_roles :: "(string \<times> string, iam_role) dict"
  acc_memberships :: "(key3, membership) dict"
  acc_service_accounts :: "(key3, service_account) dict"
  acc_api_keys :: "(key3, api_key_record) dict"
  acc_api_key_hashes :: "(string, key3) dict"
  acc_product_entitlements :: "(key3, product_entitlement) dict"

definition access_init :: access_repository where
  "access_init = \<lparr>acc_organizations = [], acc_projects = [], acc_users = [], acc_user_credentials = [], acc_roles = [],
     acc_memberships = [], acc_service_accounts = [], acc_api_keys = [], acc_api_key_hashes = [],
     acc_product_entitlements = []\<rparr>"

text \<open>The rows of one tenant in a table keyed by tenant and identifier.\<close>

definition tenant_rows :: "string \<Rightarrow> (string \<times> string, 'v) dict \<Rightarrow> 'v list" where
  "tenant_rows tenant_id d = map snd (filter (\<lambda>kv. fst (fst kv) = tenant_id) d)"

definition create_organization :: "organization \<Rightarrow> (access_repository, organization) py" where
  "create_organization record s =
     (if dict_get (acc_organizations s) (org_tenant_id record) \<noteq> None
      then (Inl (StateConflict ''organization already exists''), s)
      else (Inr record, s\<lparr>acc_organizations := dict_set (org_tenant_id record) record (acc_organizations s)\<rparr>))"

definition list_organizations :: "string \<Rightarrow> access_repository \<Rightarrow> organization list" where
  "list_organizations tenant_id s = (case dict_get (acc_organizations s) tenant_id of None \<Rightarrow> [] | Some r \<Rightarrow> [r])"

definition create_project :: "iam_project \<Rightarrow> (access_repository, iam_project) py" where
  "create_project record s =
     (let key = (prj_tenant_id record, prj_project_id record) in
      if dict_get (acc_projects s) key \<noteq> None then (Inl (StateConflict ''project already exists''), s)
      else (Inr record, s\<lparr>acc_projects := dict_set key record (acc_projects s)\<rparr>))"

definition list_projects :: "string \<Rightarrow> access_repository \<Rightarrow> iam_project list" where
  "list_projects tenant_id s =
     py_sorted_desc (\<lambda>r. (prj_created_at r, prj_project_id r)) (tenant_rows tenant_id (acc_projects s))"

definition create_user :: "user_account \<Rightarrow> (access_repository, user_account) py" where
  "create_user record s =
     (let key = (usr_tenant_id record, usr_user_id record) in
      if dict_get (acc_users s) key \<noteq> None then (Inl (StateConflict ''user already exists''), s)
      else (Inr record, s\<lparr>acc_users := dict_set key record (acc_users s)\<rparr>))"

definition list_users :: "string \<Rightarrow> access_repository \<Rightarrow> user_account list" where
  "list_users tenant_id s =
     py_sorted_desc (\<lambda>r. (usr_created_at r, usr_user_id r)) (tenant_rows tenant_id (acc_users s))"

definition save_user :: "user_account \<Rightarrow> (access_repository, user_account) py" where
  "save_user record s =
     (let key = (usr_tenant_id record, usr_user_id record) in
      if dict_get (acc_users s) key = None then (Inl (AccessNotFound ''user not found''), s)
      else (Inr record, s\<lparr>acc_users := dict_set key record (acc_users s)\<rparr>))"

definition create_user_credential :: "user_credential \<Rightarrow> (access_repository, user_credential) py" where
  "create_user_credential record s =
     (let key = (crd_tenant_id record, crd_user_id record) in
      if dict_get (acc_user_credentials s) key \<noteq> None
      then (Inl (StateConflict ''user credential already exists''), s)
      else (Inr record, s\<lparr>acc_user_credentials := dict_set key record (acc_user_credentials s)\<rparr>))"

definition get_user_credential :: "string \<Rightarrow> string \<Rightarrow> access_repository \<Rightarrow> user_credential option" where
  "get_user_credential tenant_id user_id s = dict_get (acc_user_credentials s) (tenant_id, user_id)"

definition create_role :: "iam_role \<Rightarrow> (access_repository, iam_role) py" where
  "create_role record s =
     (let key = (rol_tenant_id record, rol_role_id record) in
      if dict_get (acc_roles s) key \<noteq> None then (Inl (StateConflict ''role already exists''), s)
      else (Inr record, s\<lparr>acc_roles := dict_set key record (acc_roles s)\<rparr>))"

definition list_roles :: "string \<Rightarrow> access_repository \<Rightarrow> iam_role list" where
  "list_roles tenant_id s =
     py_sorted_desc (\<lambda>r. (rol_created_at r, rol_role_id r)) (tenant_rows tenant_id (acc_roles s))"

definition create_membership :: "membership \<Rightarrow> (access_repository, membership) py" where
  "create_membership record s =
     (let key = store_key (mbr_tenant_id record) (mbr_project_id record) (mbr_principal_id record) in
      if dict_get (acc_memberships s) key \<noteq> None then (Inl (StateConflict ''membership already exists''), s)
      else (Inr record, s\<lparr>acc_memberships := dict_set key record (acc_memberships s)\<rparr>))"

definition list_memberships :: "string \<Rightarrow> string \<Rightarrow> access_repository \<Rightarrow> membership list" where
  "list_memberships tenant_id project_id s =
     py_sorted_desc (\<lambda>r. (mbr_created_at r, mbr_principal_id r)) (scoped_rows tenant_id project_id (acc_memberships s))"

definition create_service_account :: "service_account \<Rightarrow> (access_repository, service_account) py" where
  "create_service_account record s =
     (let key = store_key (sva_tenant_id record) (sva_project_id record) (sva_service_account_id record) in
      if dict_get (acc_service_accounts s) key \<noteq> None
      then (Inl (StateConflict ''service account already exists''), s)
      else (Inr record, s\<lparr>acc_service_accounts := dict_set key record (acc_service_accounts s)\<rparr>))"

definition get_service_account :: "string \<Rightarrow> string \<Rightarrow> string \<Rightarrow> access_repository \<Rightarrow> service_account option" where
  "get_service_account tenant_id project_id service_account_id s =
     dict_get (acc_service_accounts s) (store_key tenant_id project_id service_account_id)"

definition list_service_accounts :: "string \<Rightarrow> string \<Rightarrow> access_repository \<Rightarrow> service_account list" where
  "list_service_accounts tenant_id project_id s =
     py_sorted_desc (\<lambda>r. (sva_created_at r, sva_service_account_id r))
       (scoped_rows tenant_id project_id (acc_service_accounts s))"

definition save_service_account :: "service_account \<Rightarrow> (access_repository, service_account) py" where
  "save_service_account record s =
     (let key = store_key (sva_tenant_id record) (sva_project_id record) (sva_service_account_id record) in
      if dict_get (acc_service_accounts s) key = None
      then (Inl (AccessNotFound ''service account not found''), s)
      else (Inr record, s\<lparr>acc_service_accounts := dict_set key record (acc_service_accounts s)\<rparr>))"

definition api_key_key :: "api_key_record \<Rightarrow> key3" where
  "api_key_key record = store_key (apk_tenant_id record) (apk_project_id record) (apk_key_id record)"

definition create_api_key :: "api_key_record \<Rightarrow> string \<Rightarrow> (access_repository, api_key_record) py" where
  "create_api_key record token_sha256 s =
     (let key = api_key_key record in
      if dict_get (acc_api_keys s) key \<noteq> None \<or> dict_get (acc_api_key_hashes s) token_sha256 \<noteq> None
      then (Inl (StateConflict ''API key already exists''), s)
      else (Inr record, s\<lparr>acc_api_keys := dict_set key record (acc_api_keys s),
        acc_api_key_hashes := dict_set token_sha256 key (acc_api_key_hashes s)\<rparr>))"

definition get_api_key_by_sha256 :: "string \<Rightarrow> access_repository \<Rightarrow> api_key_record option" where
  "get_api_key_by_sha256 token_sha256 s = (case dict_get (acc_api_key_hashes s) token_sha256 of
     None \<Rightarrow> None | Some key \<Rightarrow> dict_get (acc_api_keys s) key)"

definition list_api_keys :: "string \<Rightarrow> string \<Rightarrow> access_repository \<Rightarrow> api_key_record list" where
  "list_api_keys tenant_id project_id s =
     py_sorted_desc (\<lambda>r. (apk_created_at r, apk_key_id r)) (scoped_rows tenant_id project_id (acc_api_keys s))"

definition record_api_key_used :: "string \<Rightarrow> string \<Rightarrow> string \<Rightarrow> pyfloat \<Rightarrow> (access_repository, unit) py" where
  "record_api_key_used tenant_id project_id key_id used_at s =
     (let key = store_key tenant_id project_id key_id in
      case dict_get (acc_api_keys s) key of
        None \<Rightarrow> (Inr (), s)
      | Some record \<Rightarrow> (Inr (), s\<lparr>acc_api_keys :=
          dict_set key (record\<lparr>apk_last_used_at := Some used_at\<rparr>) (acc_api_keys s)\<rparr>))"

definition revoke_api_key :: "string \<Rightarrow> string \<Rightarrow> string \<Rightarrow> pyfloat \<Rightarrow> (access_repository, api_key_record) py" where
  "revoke_api_key tenant_id project_id key_id revoked_at s =
     (let key = store_key tenant_id project_id key_id in
      case dict_get (acc_api_keys s) key of
        None \<Rightarrow> (Inl (AccessNotFound ''API key not found''), s)
      | Some record \<Rightarrow>
          let updated = record\<lparr>apk_revoked_at := Some revoked_at\<rparr> in
          (Inr updated, s\<lparr>acc_api_keys := dict_set key updated (acc_api_keys s)\<rparr>))"

definition create_product_entitlement :: "product_entitlement \<Rightarrow> (access_repository, product_entitlement) py" where
  "create_product_entitlement record s =
     (let key = store_key (ent_tenant_id record) (ent_project_id record) (ent_product_id record) in
      if dict_get (acc_product_entitlements s) key \<noteq> None
      then (Inl (StateConflict ''product entitlement already exists''), s)
      else (Inr record, s\<lparr>acc_product_entitlements := dict_set key record (acc_product_entitlements s)\<rparr>))"

definition get_product_entitlement :: "string \<Rightarrow> string \<Rightarrow> string \<Rightarrow> access_repository \<Rightarrow> product_entitlement option" where
  "get_product_entitlement tenant_id project_id product_id s =
     dict_get (acc_product_entitlements s) (store_key tenant_id project_id product_id)"

definition save_product_entitlement :: "product_entitlement \<Rightarrow> (access_repository, product_entitlement) py" where
  "save_product_entitlement record s =
     (let key = store_key (ent_tenant_id record) (ent_project_id record) (ent_product_id record) in
      if dict_get (acc_product_entitlements s) key = None
      then (Inl (AccessNotFound ''product entitlement not found''), s)
      else (Inr record, s\<lparr>acc_product_entitlements := dict_set key record (acc_product_entitlements s)\<rparr>))"

definition list_product_entitlements :: "string \<Rightarrow> string \<Rightarrow> access_repository \<Rightarrow> product_entitlement list" where
  "list_product_entitlements tenant_id project_id s =
     py_sorted_desc (\<lambda>r. (ent_created_at r, ent_product_id r))
       (scoped_rows tenant_id project_id (acc_product_entitlements s))"

section \<open>The tables of the repository\<close>

definition service_account_key :: "service_account \<Rightarrow> key3" where
  "service_account_key r = store_key (sva_tenant_id r) (sva_project_id r) (sva_service_account_id r)"

definition entitlement_key :: "product_entitlement \<Rightarrow> key3" where
  "entitlement_key r = store_key (ent_tenant_id r) (ent_project_id r) (ent_product_id r)"

interpretation service_accounts: tenant_table acc_service_accounts service_account_key "\<lambda>_ _. True"
  create_service_account get_service_account StateConflict
  by unfold_locales (auto simp: get_service_account_def create_service_account_def service_account_key_def Let_def)

interpretation entitlements: tenant_table acc_product_entitlements entitlement_key "\<lambda>_ _. True"
  create_product_entitlement get_product_entitlement StateConflict
  by unfold_locales (auto simp: get_product_entitlement_def create_product_entitlement_def entitlement_key_def Let_def)

section \<open>Steps of the repository\<close>

text \<open>Every operation that changes the repository, whoever calls it and however it ends.\<close>

inductive access_step :: "access_repository \<Rightarrow> access_repository \<Rightarrow> bool" where
  organization: "access_step s (snd (create_organization org s))"
| project: "access_step s (snd (create_project prj s))"
| user: "access_step s (snd (create_user usr s))"
| saved_user: "access_step s (snd (save_user usr s))"
| credential: "access_step s (snd (create_user_credential crd s))"
| role: "access_step s (snd (create_role rol s))"
| membership: "access_step s (snd (create_membership mbr s))"
| account: "access_step s (snd (create_service_account sva s))"
| saved_account: "access_step s (snd (save_service_account sva s))"
| key_created: "access_step s (snd (create_api_key apk h s))"
| key_used: "access_step s (snd (record_api_key_used t p k now s))"
| key_revoked: "access_step s (snd (revoke_api_key t p k now s))"
| entitlement: "access_step s (snd (create_product_entitlement ent s))"
| saved_entitlement: "access_step s (snd (save_product_entitlement ent s))"

lemmas access_defs = create_organization_def create_project_def create_user_def save_user_def create_user_credential_def
  create_role_def create_membership_def create_service_account_def save_service_account_def create_api_key_def
  record_api_key_used_def revoke_api_key_def create_product_entitlement_def save_product_entitlement_def

text \<open>The token digest \<open>h\<close> leads to a key that has been revoked.\<close>

definition digest_revoked :: "string \<Rightarrow> access_repository \<Rightarrow> bool" where
  "digest_revoked h s = (case get_api_key_by_sha256 h s of None \<Rightarrow> False | Some r \<Rightarrow> apk_revoked_at r \<noteq> None)"

lemma digest_revoked_step:
  assumes "access_step s s'" "digest_revoked h s"
  shows "digest_revoked h s'"
  using assms
  by (induction rule: access_step.induct)
     (auto simp: digest_revoked_def get_api_key_by_sha256_def access_defs Let_def split: option.splits if_splits)

lemma digest_revoked_steps: "access_step\<^sup>*\<^sup>* s s' \<Longrightarrow> digest_revoked h s \<Longrightarrow> digest_revoked h s'"
  by (induction rule: rtranclp_induct) (auto intro: digest_revoked_step)

end
