(* ===== verification/Repository_World.thy ===== *)
theory Repository_World
  imports Service_World Py_Outcomes
begin

text \<open>
  Services with a repository of their own beside the state store (access, surveillance): the
  world together with that repository and what other tasks may do to it before each call.
\<close>

record 'r beside =
  bs_world :: world
  bs_repo :: 'r
  bs_env :: "nat \<Rightarrow> 'r \<Rightarrow> 'r"

text \<open>A call of the world: store, audit, clock, policy.\<close>

definition on_world :: "(world, 'a) py \<Rightarrow> ('r beside, 'a) py" where
  "on_world m b = (case m (bs_world b) of (r, w) \<Rightarrow> (r, b\<lparr>bs_world := w\<rparr>))"

text \<open>An awaited call of the repository: others act first, then it fails or runs atomically.\<close>

definition repo_call :: "('r, 'a) py \<Rightarrow> ('r beside, 'a) py" where
  "repo_call m b =
     (let w = bs_world b; s = bs_env b (w_step w) (bs_repo b) in
      case w_fault w (w_step w) of
        Some e \<Rightarrow> (Inl e, b\<lparr>bs_world := tick w, bs_repo := s\<rparr>)
      | None \<Rightarrow> (case m s of (r, s') \<Rightarrow> (r, b\<lparr>bs_world := tick w, bs_repo := s'\<rparr>)))"

definition repo_read :: "('r \<Rightarrow> 'a) \<Rightarrow> ('r beside, 'a) py" where
  "repo_read f = repo_call (\<lambda>s. (Inr (f s), s))"

section \<open>Invariants of the repository\<close>

text \<open>\<open>J\<close> holds of the repository and other tasks keep it.\<close>

definition repo_guarded :: "('r \<Rightarrow> bool) \<Rightarrow> 'r beside \<Rightarrow> bool" where
  "repo_guarded J b \<longleftrightarrow> J (bs_repo b) \<and> (\<forall>n s. J s \<longrightarrow> J (bs_env b n s))"

lemma repo_guarded_call [preserves_intros]:
  assumes "preserves J m"
  shows "preserves (repo_guarded J) (repo_call m)"
  using assms by (auto simp: preserves_def repo_guarded_def repo_call_def Let_def case_prod_beta split: option.split)

lemma repo_guarded_read [preserves_intros]: "preserves (repo_guarded J) (repo_read f)"
  unfolding repo_read_def by (rule repo_guarded_call) (simp add: preserves_def)

lemma repo_guarded_world [preserves_intros]: "preserves (repo_guarded J) (on_world m)"
  by (auto simp: preserves_def repo_guarded_def on_world_def split: prod.split)

text \<open>A world in which no call fails and nobody else acts on the repository.\<close>

definition alone :: "'r beside \<Rightarrow> bool" where
  "alone b \<longleftrightarrow> (\<forall>n. w_fault (bs_world b) n = None) \<and> (\<forall>n s. bs_env b n s = s)"

lemma repo_call_alone:
  "alone b \<Longrightarrow> repo_call m b = (case m (bs_repo b) of (r, s) \<Rightarrow> (r, b\<lparr>bs_world := tick (bs_world b), bs_repo := s\<rparr>))"
  by (simp add: repo_call_def alone_def Let_def)

lemma repo_read_alone: "alone b \<Longrightarrow> repo_read f b = (Inr (f (bs_repo b)), b\<lparr>bs_world := tick (bs_world b)\<rparr>)"
  by (cases b) (simp add: repo_read_def repo_call_alone)

lemma alone_update [simp]:
  "alone (b\<lparr>bs_world := tick (bs_world b)\<rparr>) = alone b" "alone (b\<lparr>bs_repo := s\<rparr>) = alone b"
  "alone (b\<lparr>bs_world := tick (bs_world b), bs_repo := s\<rparr>) = alone b"
  by (simp_all add: alone_def tick_def)

lemma andthen_read_alone:
  "alone b \<Longrightarrow> andthen (repo_read f) g b = g (f (bs_repo b)) (b\<lparr>bs_world := tick (bs_world b)\<rparr>)"
  by (simp add: andthen_def repo_read_alone)

lemma andthen_time:
  "andthen (on_world time_time) g b = g (w_clock (bs_world b) (w_step (bs_world b))) (b\<lparr>bs_world := tick (bs_world b)\<rparr>)"
  by (simp add: andthen_def on_world_def time_time_def)

lemma andthen_call_alone:
  assumes "alone b" "m (bs_repo b) = (Inr x, s)"
  shows "andthen (repo_call m) g b = g x (b\<lparr>bs_world := tick (bs_world b), bs_repo := s\<rparr>)"
  using assms by (simp add: andthen_def repo_call_alone)

lemma andthen_of_sum: "andthen (of_sum r) g b = (case r of Inl e \<Rightarrow> (Inl e, b) | Inr x \<Rightarrow> g x b)"
  by (simp add: andthen_def of_sum_def split: sum.split)

lemmas alone_simps = andthen_read_alone andthen_time andthen_of_sum

text \<open>Calls of the world leave the repository alone and cause no failures.\<close>

lemma faults_kept:
  "preserves (\<lambda>w. w_fault w = F) (store_call m)" "preserves (\<lambda>w. w_fault w = F) (remote_call r)"
  "preserves (\<lambda>w. w_fault w = F) time_time" "preserves (\<lambda>w. w_fault w = F) uuid4_hex"
  by (auto simp: preserves_def store_call_def remote_call_def time_time_def uuid4_hex_def tick_def Let_def case_prod_beta
      split: option.split)

lemma allow_faults_kept: "preserves (\<lambda>w. w_fault w = F) (allow sv ctx action resource attributes)"
  unfolding allow_def by (intro preserves_intros faults_kept)

lemma audit_faults_kept: "preserves (\<lambda>w. w_fault w = F) (audit_record sv ctx action rt ri out evd)"
  unfolding audit_record_def Let_def by (intro preserves_intros faults_kept)

definition holding :: "'r \<Rightarrow> 'r beside \<Rightarrow> bool" where
  "holding s b \<longleftrightarrow> alone b \<and> bs_repo b = s"

lemma outcome_on_world:
  assumes "\<And>F. preserves (\<lambda>w. w_fault w = F) m"
  shows "outcome (holding s) (on_world m) (\<lambda>_. holding s) (\<lambda>_ _. True)"
proof -
  have "w_fault w' = w_fault w" if "m w = (r, w')" for w r w'
    using assms [of "w_fault w"] that unfolding preserves_def by (metis snd_conv)
  then show ?thesis by (auto simp: outcome_def holding_def on_world_def alone_def split: prod.splits)
qed

lemma outcome_repo_read: "outcome (holding s) (repo_read f) (\<lambda>x b. x = f s \<and> holding s b) E"
  by (auto simp: outcome_def holding_def repo_read_alone)

lemma outcome_repo_call:
  assumes "\<And>e s'. m s = (Inl e, s') \<Longrightarrow> E'"
  shows "outcome (holding s) (repo_call m) (\<lambda>x b. fst (m s) = Inr x \<and> holding (snd (m s)) b) (\<lambda>_ _. E')"
  using assms by (cases "m s") (auto simp: outcome_def holding_def repo_call_alone)

end
