(* ===== verification/Access_Service.thy ===== *)
theory Access_Service
  imports Access_Store Repository_World Run_Lifecycle
begin

text \<open>
  \<open>AccessService\<close> (\<open>access.py\<close>): authentication of API keys and users, the bootstrap administrator, and
  the requests that manage identities, roles, keys and product entitlements. Hashing a token is
  the service's digest; password hashing, checking (\<open>credentials.py\<close>, around scrypt) and random
  tokens are parameters.
\<close>

type_synonym access_world = "access_repository beside"

section \<open>Scopes\<close>

text \<open>\<open>_scopes_within\<close>: \<open>scope.partition(":")\<close> gives the part before the first colon.\<close>

definition scope_covered :: "string set \<Rightarrow> string \<Rightarrow> bool" where
  "scope_covered granted scope \<longleftrightarrow> scope \<in> granted \<or>
     CHR '':'' \<in> set scope \<and> py_split_head CHR '':'' scope @ '':*'' \<in> granted"

definition scopes_within :: "string set \<Rightarrow> string set \<Rightarrow> bool" where
  "scopes_within requested granted \<longleftrightarrow> ''*'' \<in> granted \<or> (\<forall>scope \<in> requested. scope_covered granted scope)"

section \<open>Authentication\<close>

definition new_context :: "string \<Rightarrow> string \<Rightarrow> string \<Rightarrow> string set \<Rightarrow> string set \<Rightarrow> principal_context" where
  "new_context tenant_id project_id principal_id scopes product_ids = \<lparr>ctx_tenant_id = tenant_id,
     ctx_project_id = project_id, ctx_principal_id = principal_id, ctx_scopes = scopes, ctx_product_ids = product_ids,
     ctx_request_id = None, ctx_traceparent = None\<rparr>"

definition active_products :: "product_entitlement list \<Rightarrow> string set" where
  "active_products entitlements = ent_product_id ` {e \<in> set entitlements. ent_status e = ENT_ACTIVE}"

definition authenticate_api_key :: "'v service \<Rightarrow> string \<Rightarrow> (access_world, principal_context option) py" where
  "authenticate_api_key sv token =
     andthen (repo_read (get_api_key_by_sha256 (sv_sha256 sv token))) (\<lambda>found.
     andthen (on_world time_time) (\<lambda>now.
       case found of
         None \<Rightarrow> ret None
       | Some record \<Rightarrow>
           if apk_revoked_at record \<noteq> None then ret None
           else if (case apk_expires_at record of None \<Rightarrow> False | Some t \<Rightarrow> t \<le> now) then ret None
           else
             andthen (repo_read (get_service_account (apk_tenant_id record) (apk_project_id record)
                 (apk_service_account_id record))) (\<lambda>account.
               case account of
                 None \<Rightarrow> ret None
               | Some service_account \<Rightarrow>
                   if sva_disabled service_account then ret None
                   else
                     andthen (repo_call (record_api_key_used (apk_tenant_id record) (apk_project_id record)
                         (apk_key_id record) now)) (\<lambda>_.
                     andthen (repo_read (list_product_entitlements (apk_tenant_id record) (apk_project_id record)))
                       (\<lambda>entitlements.
                       let scopes = {scope \<in> apk_scopes record. scopes_within {scope} (sva_scopes service_account)};
                           product_ids = apk_product_ids record \<inter> sva_product_ids service_account \<inter>
                             active_products entitlements in
                       if scopes = {} then ret None
                       else ret (Some (new_context (apk_tenant_id record) (apk_project_id record)
                         (apk_service_account_id record) scopes product_ids)))))))"

definition find_user :: "string \<Rightarrow> user_account list \<Rightarrow> user_account option" where
  "find_user user_id users = List.find (\<lambda>u. usr_user_id u = user_id) users"

definition is_user_disabled :: "string \<Rightarrow> string \<Rightarrow> (access_world, bool) py" where
  "is_user_disabled tenant_id user_id =
     andthen (repo_read (list_users tenant_id)) (\<lambda>users.
       ret (case find_user user_id users of None \<Rightarrow> False | Some user \<Rightarrow> usr_disabled user))"

text \<open>
  The membership of a user. \<open>next\<close> without a default raises \<open>StopIteration\<close> when no membership
  matches, which a coroutine turns into \<open>RuntimeError\<close>.
\<close>

definition user_membership :: "string \<Rightarrow> membership list \<Rightarrow> exn + membership option" where
  "user_membership user_id memberships =
     (if memberships = [] then Inr None
      else case List.find (\<lambda>m. mbr_principal_id m = user_id \<and> mbr_principal_type m = USER) memberships of
        None \<Rightarrow> Inl (RuntimeError ''coroutine raised StopIteration'')
      | Some m \<Rightarrow> Inr (Some m))"

text \<open>\<open>{item.role_id: item for item in ...}\<close>: a later role with the same identifier wins.\<close>

definition role_table :: "iam_role list \<Rightarrow> (string, iam_role) dict" where
  "role_table roles = fold (\<lambda>r. dict_set (rol_role_id r) r) roles []"

definition granted_by :: "(iam_role \<Rightarrow> string set) \<Rightarrow> (string, iam_role) dict \<Rightarrow> string set \<Rightarrow> string set" where
  "granted_by f roles role_ids = (\<Union>i \<in> role_ids. case dict_get roles i of None \<Rightarrow> {} | Some r \<Rightarrow> f r)"

definition resolve_user_context :: "string \<Rightarrow> string \<Rightarrow> string \<Rightarrow> (access_world, principal_context option) py" where
  "resolve_user_context tenant_id project_id user_id =
     andthen (repo_read (list_users tenant_id)) (\<lambda>users.
       case find_user user_id users of
         None \<Rightarrow> ret None
       | Some user \<Rightarrow>
           if usr_disabled user then ret None
           else
             andthen (repo_read (list_memberships tenant_id project_id)) (\<lambda>memberships.
             andthen (of_sum (user_membership user_id memberships)) (\<lambda>found.
               case found of
                 None \<Rightarrow> ret None
               | Some m \<Rightarrow>
                   andthen (repo_read (list_roles tenant_id)) (\<lambda>rows.
                     let roles = role_table rows in
                     ret (Some (new_context tenant_id project_id user_id
                       (granted_by rol_scopes roles (mbr_role_ids m))
                       (granted_by rol_product_ids roles (mbr_role_ids m))))))))"

definition authenticate_user ::
  "(string \<Rightarrow> string \<Rightarrow> bool) \<Rightarrow> string \<Rightarrow> string \<Rightarrow> string \<Rightarrow> string \<Rightarrow> (access_world, principal_context option) py" where
  "authenticate_user verify_password username password tenant_id project_id =
     andthen (repo_read (list_users tenant_id)) (\<lambda>users.
       case find_user username users of
         None \<Rightarrow> ret None
       | Some user \<Rightarrow>
           if usr_disabled user then ret None
           else
             andthen (repo_read (get_user_credential tenant_id username)) (\<lambda>credential.
               case credential of
                 None \<Rightarrow> ret None
               | Some c \<Rightarrow>
                   if \<not> verify_password password (crd_password_hash c) then ret None
                   else resolve_user_context tenant_id project_id username))"

section \<open>Management\<close>

definition iam_allow :: "'v service \<Rightarrow> principal_context \<Rightarrow> string \<Rightarrow> (access_world, unit) py" where
  "iam_allow sv ctx action = on_world (allow sv ctx action ''iam'' [])"

definition iam_record :: "'v service \<Rightarrow> principal_context \<Rightarrow> string \<Rightarrow> string \<Rightarrow> string \<Rightarrow> (access_world, unit) py" where
  "iam_record sv ctx action resource_type resource_id =
     andthen (on_world (audit_record sv ctx action resource_type (Some resource_id) ''success'' [])) (\<lambda>_. ret ())"

definition require_organization :: "string \<Rightarrow> (access_world, unit) py" where
  "require_organization tenant_id =
     andthen (repo_read (list_organizations tenant_id)) (\<lambda>rows.
       if rows = [] then throw (AccessNotFound ''organization not found'') else ret ())"

definition require_project :: "string \<Rightarrow> string \<Rightarrow> (access_world, unit) py" where
  "require_project tenant_id project_id =
     andthen (repo_read (list_projects tenant_id)) (\<lambda>rows.
       if list_ex (\<lambda>r. prj_project_id r = project_id) rows then ret ()
       else throw (AccessNotFound ''project not found''))"

definition context_project_id :: "principal_context \<Rightarrow> string option \<Rightarrow> exn + string" where
  "context_project_id ctx requested =
     (if requested \<noteq> None \<and> requested \<noteq> Some (ctx_project_id ctx)
      then Inl (PolicyDenied ''resource project must match the credential project'')
      else Inr (ctx_project_id ctx))"

text \<open>\<open>body.x or _new_id(prefix)\<close>\<close>

definition or_new_id :: "string \<Rightarrow> string option \<Rightarrow> (access_world, string) py" where
  "or_new_id id_prefix requested =
     (if truthy requested then ret (or_empty requested)
      else andthen (on_world uuid4_hex) (\<lambda>u. ret (id_prefix @ ''-'' @ take 24 u)))"

definition iam_create_organization :: "'v service \<Rightarrow> principal_context \<Rightarrow> string \<Rightarrow> (access_world, organization) py" where
  "iam_create_organization sv ctx display_name =
     andthen (iam_allow sv ctx ''create'') (\<lambda>_.
     andthen (on_world time_time) (\<lambda>now.
     andthen (repo_call (create_organization \<lparr>org_tenant_id = ctx_tenant_id ctx, org_display_name = display_name,
         org_created_at = now, org_updated_at = now\<rparr>)) (\<lambda>created.
     andthen (iam_record sv ctx ''iam.organization.create'' ''organization'' (org_tenant_id created)) (\<lambda>_. ret created))))"

definition iam_list_organizations :: "'v service \<Rightarrow> principal_context \<Rightarrow> (access_world, organization list) py" where
  "iam_list_organizations sv ctx =
     andthen (iam_allow sv ctx ''read'') (\<lambda>_. repo_read (list_organizations (ctx_tenant_id ctx)))"

definition iam_create_project ::
  "'v service \<Rightarrow> principal_context \<Rightarrow> string option \<Rightarrow> string \<Rightarrow> (access_world, iam_project) py" where
  "iam_create_project sv ctx project_id display_name =
     andthen (iam_allow sv ctx ''create'') (\<lambda>_.
     andthen (require_organization (ctx_tenant_id ctx)) (\<lambda>_.
     andthen (on_world time_time) (\<lambda>now.
     andthen (repo_call (create_project \<lparr>prj_tenant_id = ctx_tenant_id ctx,
         prj_project_id = (if truthy project_id then or_empty project_id else ctx_project_id ctx),
         prj_display_name = display_name, prj_created_at = now, prj_updated_at = now\<rparr>)) (\<lambda>created.
     andthen (iam_record sv ctx ''iam.project.create'' ''project'' (prj_project_id created)) (\<lambda>_. ret created)))))"

definition iam_list_projects :: "'v service \<Rightarrow> principal_context \<Rightarrow> (access_world, iam_project list) py" where
  "iam_list_projects sv ctx =
     andthen (iam_allow sv ctx ''read'') (\<lambda>_. repo_read (list_projects (ctx_tenant_id ctx)))"

text \<open>\<open>hash_password\<close> draws a fresh salt: it is a function of the number of the call.\<close>

definition iam_create_user ::
  "'v service \<Rightarrow> (nat \<Rightarrow> string \<Rightarrow> string) \<Rightarrow> principal_context \<Rightarrow> string option \<Rightarrow> string \<Rightarrow> string option \<Rightarrow>
    string option \<Rightarrow> string option \<Rightarrow> (access_world, user_account) py" where
  "iam_create_user sv hash_password ctx user_id display_name email phone password =
     andthen (iam_allow sv ctx ''create'') (\<lambda>_.
     andthen (require_organization (ctx_tenant_id ctx)) (\<lambda>_.
     andthen (on_world time_time) (\<lambda>now.
     andthen (or_new_id ''usr'' user_id) (\<lambda>uid.
     andthen (repo_call (create_user \<lparr>usr_tenant_id = ctx_tenant_id ctx, usr_user_id = uid,
         usr_display_name = display_name, usr_email = email, usr_phone = (if truthy phone then phone else email),
         usr_disabled = False, usr_created_at = now, usr_updated_at = now\<rparr>)) (\<lambda>created.
     andthen (if truthy password
         then
           andthen (on_world time_time) (\<lambda>now'.
           andthen (\<lambda>b. (Inr (w_step (bs_world b)), b)) (\<lambda>n.
           andthen (repo_call (create_user_credential \<lparr>crd_tenant_id = usr_tenant_id created,
               crd_user_id = usr_user_id created, crd_password_hash = hash_password n (or_empty password),
               crd_created_at = now', crd_updated_at = now'\<rparr>)) (\<lambda>_. ret ())))
         else ret ()) (\<lambda>_.
     andthen (iam_record sv ctx ''iam.user.create'' ''user'' (usr_user_id created)) (\<lambda>_. ret created)))))))"

definition iam_list_users :: "'v service \<Rightarrow> principal_context \<Rightarrow> (access_world, user_account list) py" where
  "iam_list_users sv ctx =
     andthen (iam_allow sv ctx ''read'') (\<lambda>_. repo_read (list_users (ctx_tenant_id ctx)))"

definition set_user_disabled :: "'v service \<Rightarrow> principal_context \<Rightarrow> string \<Rightarrow> bool \<Rightarrow> (access_world, user_account) py" where
  "set_user_disabled sv ctx user_id disabled =
     andthen (iam_allow sv ctx ''write'') (\<lambda>_.
     andthen (repo_read (list_users (ctx_tenant_id ctx))) (\<lambda>users.
       case find_user user_id users of
         None \<Rightarrow> throw (AccessNotFound ''user not found'')
       | Some user \<Rightarrow>
           andthen (on_world time_time) (\<lambda>now.
           andthen (repo_call (save_user (user\<lparr>usr_disabled := disabled, usr_updated_at := now\<rparr>))) (\<lambda>saved.
           andthen (iam_record sv ctx (if disabled then ''iam.user.disable'' else ''iam.user.restore'') ''user'' user_id)
             (\<lambda>_. ret saved)))))"

definition iam_create_role ::
  "'v service \<Rightarrow> principal_context \<Rightarrow> string option \<Rightarrow> string \<Rightarrow> string set \<Rightarrow> string set \<Rightarrow> (access_world, iam_role) py" where
  "iam_create_role sv ctx role_id display_name scopes product_ids =
     andthen (iam_allow sv ctx ''create'') (\<lambda>_.
     andthen (require_organization (ctx_tenant_id ctx)) (\<lambda>_.
     andthen (on_world time_time) (\<lambda>now.
     andthen (or_new_id ''role'' role_id) (\<lambda>rid.
     andthen (repo_call (create_role \<lparr>rol_tenant_id = ctx_tenant_id ctx, rol_role_id = rid,
         rol_display_name = display_name, rol_scopes = scopes, rol_product_ids = product_ids,
         rol_created_at = now, rol_updated_at = now\<rparr>)) (\<lambda>created.
     andthen (iam_record sv ctx ''iam.role.create'' ''role'' (rol_role_id created)) (\<lambda>_. ret created))))))"

definition iam_list_roles :: "'v service \<Rightarrow> principal_context \<Rightarrow> (access_world, iam_role list) py" where
  "iam_list_roles sv ctx =
     andthen (iam_allow sv ctx ''read'') (\<lambda>_. repo_read (list_roles (ctx_tenant_id ctx)))"

definition iam_create_membership ::
  "'v service \<Rightarrow> principal_context \<Rightarrow> string option \<Rightarrow> string \<Rightarrow> principal_type \<Rightarrow> string set \<Rightarrow> (access_world, membership) py" where
  "iam_create_membership sv ctx project_id principal_id ptype role_ids =
     andthen (iam_allow sv ctx ''create'') (\<lambda>_.
     andthen (on_world time_time) (\<lambda>now.
     andthen (of_sum (context_project_id ctx project_id)) (\<lambda>pid.
     andthen (require_project (ctx_tenant_id ctx) pid) (\<lambda>_.
     andthen (case ptype of
         USER \<Rightarrow> andthen (repo_read (list_users (ctx_tenant_id ctx))) (\<lambda>users.
           ret (list_ex (\<lambda>u. usr_user_id u = principal_id) users))
       | SERVICE_ACCOUNT \<Rightarrow> andthen (repo_read (get_service_account (ctx_tenant_id ctx) pid principal_id)) (\<lambda>account.
           ret (account \<noteq> None))) (\<lambda>principal_exists.
       if \<not> principal_exists then throw (AccessNotFound ''membership principal not found'')
       else
         andthen (repo_read (list_roles (ctx_tenant_id ctx))) (\<lambda>roles.
           if \<not> role_ids \<subseteq> set (map rol_role_id roles) then throw (AccessNotFound ''membership role not found'')
           else
             andthen (repo_call (create_membership \<lparr>mbr_tenant_id = ctx_tenant_id ctx, mbr_project_id = pid,
                 mbr_principal_id = principal_id, mbr_principal_type = ptype, mbr_role_ids = role_ids,
                 mbr_created_at = now, mbr_updated_at = now\<rparr>)) (\<lambda>created.
             andthen (iam_record sv ctx ''iam.membership.create'' ''membership'' (mbr_principal_id created))
               (\<lambda>_. ret created))))))))"

definition iam_list_memberships :: "'v service \<Rightarrow> principal_context \<Rightarrow> (access_world, membership list) py" where
  "iam_list_memberships sv ctx =
     andthen (iam_allow sv ctx ''read'') (\<lambda>_. repo_read (list_memberships (ctx_tenant_id ctx) (ctx_project_id ctx)))"

definition iam_create_service_account ::
  "'v service \<Rightarrow> principal_context \<Rightarrow> string option \<Rightarrow> string \<Rightarrow> string set \<Rightarrow> string set \<Rightarrow> (access_world, service_account) py" where
  "iam_create_service_account sv ctx account_id display_name scopes product_ids =
     andthen (iam_allow sv ctx ''create'') (\<lambda>_.
     andthen (require_project (ctx_tenant_id ctx) (ctx_project_id ctx)) (\<lambda>_.
     andthen (on_world time_time) (\<lambda>now.
     andthen (or_new_id ''svc'' account_id) (\<lambda>aid.
     andthen (repo_call (create_service_account \<lparr>sva_tenant_id = ctx_tenant_id ctx, sva_project_id = ctx_project_id ctx,
         sva_service_account_id = aid, sva_display_name = display_name, sva_scopes = scopes,
         sva_product_ids = product_ids, sva_disabled = False, sva_created_at = now, sva_updated_at = now\<rparr>)) (\<lambda>created.
     andthen (iam_record sv ctx ''iam.service-account.create'' ''service_account'' (sva_service_account_id created))
       (\<lambda>_. ret created))))))"

definition iam_list_service_accounts :: "'v service \<Rightarrow> principal_context \<Rightarrow> (access_world, service_account list) py" where
  "iam_list_service_accounts sv ctx =
     andthen (iam_allow sv ctx ''read'') (\<lambda>_. repo_read (list_service_accounts (ctx_tenant_id ctx) (ctx_project_id ctx)))"

definition set_service_account_disabled ::
  "'v service \<Rightarrow> principal_context \<Rightarrow> string \<Rightarrow> bool \<Rightarrow> (access_world, service_account) py" where
  "set_service_account_disabled sv ctx account_id disabled =
     andthen (iam_allow sv ctx ''write'') (\<lambda>_.
     andthen (repo_read (get_service_account (ctx_tenant_id ctx) (ctx_project_id ctx) account_id)) (\<lambda>found.
       case found of
         None \<Rightarrow> throw (AccessNotFound ''service account not found'')
       | Some account \<Rightarrow>
           andthen (on_world time_time) (\<lambda>now.
           andthen (repo_call (save_service_account (account\<lparr>sva_disabled := disabled, sva_updated_at := now\<rparr>))) (\<lambda>saved.
           andthen (iam_record sv ctx
               (if disabled then ''iam.service-account.disable'' else ''iam.service-account.restore'')
               ''service_account'' account_id) (\<lambda>_. ret saved)))))"

section \<open>API keys\<close>

text \<open>\<open>token_urlsafe\<close> draws random text: a function of the number of the call.\<close>

definition iam_create_api_key ::
  "'v service \<Rightarrow> (nat \<Rightarrow> string) \<Rightarrow> principal_context \<Rightarrow> string \<Rightarrow> string \<Rightarrow> string set option \<Rightarrow> string set option \<Rightarrow>
    pyfloat option \<Rightarrow> (access_world, api_key_record \<times> string) py" where
  "iam_create_api_key sv token_urlsafe ctx account_id name requested_scopes requested_products expires_at =
     andthen (iam_allow sv ctx ''create'') (\<lambda>_.
     andthen (repo_read (get_service_account (ctx_tenant_id ctx) (ctx_project_id ctx) account_id)) (\<lambda>found.
       case found of
         None \<Rightarrow> throw (AccessNotFound ''service account not found'')
       | Some account \<Rightarrow>
           andthen (on_world time_time) (\<lambda>now.
           andthen (or_new_id ''key'' None) (\<lambda>key_id.
           andthen (\<lambda>b. (Inr (w_step (bs_world b)), b)) (\<lambda>n.
             let token = ''sk_scenara_'' @ key_id @ ''_'' @ token_urlsafe n;
                 scopes = (case requested_scopes of None \<Rightarrow> sva_scopes account
                   | Some sc \<Rightarrow> if sc = {} then sva_scopes account else sc);
                 product_ids = (case requested_products of None \<Rightarrow> sva_product_ids account | Some ps \<Rightarrow> ps) in
             if \<not> scopes_within scopes (sva_scopes account)
             then throw (PolicyDenied ''API key scopes must be a subset of service account scopes'')
             else if \<not> product_ids \<subseteq> sva_product_ids account
             then throw (PolicyDenied ''API key products must be a subset of service account products'')
             else
               andthen (repo_call (create_api_key \<lparr>apk_tenant_id = ctx_tenant_id ctx, apk_project_id = ctx_project_id ctx,
                   apk_key_id = key_id, apk_service_account_id = account_id, apk_name = name,
                   apk_token_prefix = take 24 token, apk_scopes = scopes, apk_product_ids = product_ids,
                   apk_expires_at = expires_at, apk_revoked_at = None, apk_last_used_at = None,
                   apk_created_at = now\<rparr> (sv_sha256 sv token))) (\<lambda>created.
               andthen (iam_record sv ctx ''iam.api-key.create'' ''api_key'' (apk_key_id created)) (\<lambda>_.
                 ret (created, token))))))))"

definition iam_list_api_keys :: "'v service \<Rightarrow> principal_context \<Rightarrow> (access_world, api_key_record list) py" where
  "iam_list_api_keys sv ctx =
     andthen (iam_allow sv ctx ''read'') (\<lambda>_. repo_read (list_api_keys (ctx_tenant_id ctx) (ctx_project_id ctx)))"

definition iam_revoke_api_key :: "'v service \<Rightarrow> principal_context \<Rightarrow> string \<Rightarrow> (access_world, api_key_record) py" where
  "iam_revoke_api_key sv ctx key_id =
     andthen (iam_allow sv ctx ''delete'') (\<lambda>_.
     andthen (on_world time_time) (\<lambda>now.
     andthen (repo_call (revoke_api_key (ctx_tenant_id ctx) (ctx_project_id ctx) key_id now)) (\<lambda>revoked.
     andthen (iam_record sv ctx ''iam.api-key.revoke'' ''api_key'' (apk_key_id revoked)) (\<lambda>_. ret revoked))))"

section \<open>Product entitlements\<close>

definition iam_create_product_entitlement ::
  "'v service \<Rightarrow> principal_context \<Rightarrow> string option \<Rightarrow> string \<Rightarrow> entitlement_status \<Rightarrow> string \<Rightarrow> (access_world, product_entitlement) py" where
  "iam_create_product_entitlement sv ctx project_id product_id status source =
     andthen (iam_allow sv ctx ''create'') (\<lambda>_.
     andthen (on_world time_time) (\<lambda>now.
     andthen (of_sum (context_project_id ctx project_id)) (\<lambda>pid.
     andthen (require_project (ctx_tenant_id ctx) pid) (\<lambda>_.
     andthen (repo_call (create_product_entitlement \<lparr>ent_tenant_id = ctx_tenant_id ctx, ent_project_id = pid,
         ent_product_id = product_id, ent_status = status, ent_source = source, ent_created_at = now,
         ent_updated_at = now\<rparr>)) (\<lambda>created.
     andthen (iam_record sv ctx ''iam.product-entitlement.create'' ''product_entitlement'' (ent_product_id created))
       (\<lambda>_. ret created))))))"

definition iam_list_product_entitlements :: "'v service \<Rightarrow> principal_context \<Rightarrow> (access_world, product_entitlement list) py" where
  "iam_list_product_entitlements sv ctx =
     andthen (iam_allow sv ctx ''read'') (\<lambda>_.
       repo_read (list_product_entitlements (ctx_tenant_id ctx) (ctx_project_id ctx)))"

definition update_product_entitlement ::
  "'v service \<Rightarrow> principal_context \<Rightarrow> string \<Rightarrow> entitlement_status \<Rightarrow> string \<Rightarrow> (access_world, product_entitlement) py" where
  "update_product_entitlement sv ctx product_id status source =
     andthen (iam_allow sv ctx ''update'') (\<lambda>_.
     andthen (repo_read (get_product_entitlement (ctx_tenant_id ctx) (ctx_project_id ctx) product_id)) (\<lambda>found.
       case found of
         None \<Rightarrow> throw (AccessNotFound ''product entitlement not found'')
       | Some current \<Rightarrow>
           andthen (on_world time_time) (\<lambda>now.
           andthen (repo_call (save_product_entitlement
               (current\<lparr>ent_status := status, ent_source := source, ent_updated_at := now\<rparr>))) (\<lambda>saved.
           andthen (iam_record sv ctx ''iam.product-entitlement.update'' ''product_entitlement'' (ent_product_id saved))
             (\<lambda>_. ret saved)))))"

section \<open>The bootstrap administrator\<close>

definition ADMIN_SCOPES :: "string set" where
  "ADMIN_SCOPES = {''*'', ''iam:*'', ''platform:*''}"

definition ADMIN_PRODUCT_IDS :: "string set" where
  "ADMIN_PRODUCT_IDS = {''agent'', ''api'', ''console'', ''data'', ''edge'', ''flow'', ''index'', ''model'', ''parse'',
     ''sdk'', ''search''}"

text \<open>\<open>if not any(...): await create(...)\<close>\<close>

definition ensure :: "(access_world, bool) py \<Rightarrow> (access_repository, 'a) py \<Rightarrow> (access_world, unit) py" where
  "ensure present create =
     andthen present (\<lambda>p. if p then ret () else andthen (repo_call create) (\<lambda>_. ret ()))"

definition ensure_bootstrap_admin ::
  "(nat \<Rightarrow> string \<Rightarrow> string) \<Rightarrow> string \<Rightarrow> string \<Rightarrow> string \<Rightarrow> string \<Rightarrow> (access_world, unit) py" where
  "ensure_bootstrap_admin hash_password tenant_id project_id username password =
     (if username = [] \<or> password = [] then ret ()
      else
        andthen (on_world time_time) (\<lambda>now.
        andthen (ensure (andthen (repo_read (list_organizations tenant_id)) (\<lambda>rows. ret (rows \<noteq> [])))
            (create_organization \<lparr>org_tenant_id = tenant_id, org_display_name = ''Scenara'', org_created_at = now,
               org_updated_at = now\<rparr>)) (\<lambda>_.
        andthen (ensure (andthen (repo_read (list_projects tenant_id)) (\<lambda>rows.
              ret (list_ex (\<lambda>r. prj_project_id r = project_id) rows)))
            (create_project \<lparr>prj_tenant_id = tenant_id, prj_project_id = project_id,
               prj_display_name = ''Scenara Console'', prj_created_at = now, prj_updated_at = now\<rparr>)) (\<lambda>_.
        andthen (ensure (andthen (repo_read (list_users tenant_id)) (\<lambda>rows.
              ret (list_ex (\<lambda>r. usr_user_id r = username) rows)))
            (create_user \<lparr>usr_tenant_id = tenant_id, usr_user_id = username, usr_display_name = username,
               usr_email = None, usr_phone = None, usr_disabled = False, usr_created_at = now, usr_updated_at = now\<rparr>)) (\<lambda>_.
        andthen (\<lambda>b. (Inr (w_step (bs_world b)), b)) (\<lambda>n.
        andthen (ensure (andthen (repo_read (get_user_credential tenant_id username)) (\<lambda>c. ret (c \<noteq> None)))
            (create_user_credential \<lparr>crd_tenant_id = tenant_id, crd_user_id = username,
               crd_password_hash = hash_password n password, crd_created_at = now, crd_updated_at = now\<rparr>)) (\<lambda>_.
        andthen (ensure (andthen (repo_read (list_roles tenant_id)) (\<lambda>rows.
              ret (list_ex (\<lambda>r. rol_role_id r = ''console-admin'') rows)))
            (create_role \<lparr>rol_tenant_id = tenant_id, rol_role_id = ''console-admin'',
               rol_display_name = ''Console Administrator'', rol_scopes = ADMIN_SCOPES,
               rol_product_ids = ADMIN_PRODUCT_IDS, rol_created_at = now, rol_updated_at = now\<rparr>)) (\<lambda>_.
          ensure (andthen (repo_read (list_memberships tenant_id project_id)) (\<lambda>rows.
              ret (list_ex (\<lambda>r. mbr_principal_id r = username) rows)))
            (create_membership \<lparr>mbr_tenant_id = tenant_id, mbr_project_id = project_id, mbr_principal_id = username,
               mbr_principal_type = USER, mbr_role_ids = {''console-admin''}, mbr_created_at = now,
               mbr_updated_at = now\<rparr>)))))))))"

section \<open>Summary\<close>

record iam_inventory =
  inv_organizations :: nat
  inv_projects :: nat
  inv_users :: nat
  inv_roles :: nat
  inv_memberships :: nat
  inv_service_accounts :: nat
  inv_api_keys :: nat
  inv_product_entitlements :: nat

definition iam_summary :: "'v service \<Rightarrow> principal_context \<Rightarrow> (access_world, iam_inventory) py" where
  "iam_summary sv ctx =
     (let t = ctx_tenant_id ctx; p = ctx_project_id ctx in
      andthen (iam_allow sv ctx ''read'') (\<lambda>_.
      andthen (repo_read (list_organizations t)) (\<lambda>organizations.
      andthen (repo_read (list_projects t)) (\<lambda>projects.
      andthen (repo_read (list_users t)) (\<lambda>users.
      andthen (repo_read (list_roles t)) (\<lambda>roles.
      andthen (repo_read (list_memberships t p)) (\<lambda>memberships.
      andthen (repo_read (list_service_accounts t p)) (\<lambda>accounts.
      andthen (repo_read (list_api_keys t p)) (\<lambda>keys.
      andthen (repo_read (list_product_entitlements t p)) (\<lambda>entitlements.
        ret \<lparr>inv_organizations = length organizations, inv_projects = length projects, inv_users = length users,
          inv_roles = length roles, inv_memberships = length memberships, inv_service_accounts = length accounts,
          inv_api_keys = length keys, inv_product_entitlements = length entitlements\<rparr>))))))))))"

end
