(* ===== verification/Sample_Beside.thy ===== *)
theory Sample_Beside
  imports Repository_World Sample_World
begin

text \<open>
  The sample world with a repository beside the state store, for the witnesses of services that
  have one: nobody else acts on it and no call fails.
\<close>

definition sample_beside :: "'r \<Rightarrow> 'r beside" where
  "sample_beside r = \<lparr>bs_world = sample_world memory_state_init, bs_repo = r, bs_env = (\<lambda>_ s. s)\<rparr>"

lemma sample_beside_alone: "alone (sample_beside r)"
  by (simp add: alone_def sample_beside_def sample_world_def)

lemma sample_beside_repo [simp]: "bs_repo (sample_beside r) = r"
  by (simp add: sample_beside_def)

end
