(* ===== verification/Access_Correct.thy ===== *)
theory Access_Correct
  imports Access_Service Sample_Beside
begin

text \<open>
  What authentication guarantees: the comparison of scopes means what authorisation makes of
  them, an API key never grants more than its service account has, a new key works, and a
  revoked key never works again.
\<close>

section \<open>Scopes\<close>

text \<open>The test of scopes in \<open>require_allowed\<close>.\<close>

definition scope_allows :: "string set \<Rightarrow> string \<Rightarrow> string \<Rightarrow> bool" where
  "scope_allows scopes resource action \<longleftrightarrow> {''*'', resource @ '':*'', resource @ '':'' @ action} \<inter> scopes \<noteq> {}"

lemma require_allowed_scope:
  "require_allowed provider ctx action resource attributes = Inr d \<Longrightarrow> scope_allows (ctx_scopes ctx) resource action"
  by (auto simp: require_allowed_def scope_allows_def Let_def split: if_splits)

lemma split_head_append: "CHR '':'' \<notin> set r \<Longrightarrow> py_split_head CHR '':'' (r @ CHR '':'' # a) = r"
  by (induction r) (auto simp: py_split_head_def)

lemma scope_parts:
  assumes "CHR '':'' \<in> set scope"
  obtains r a where "scope = r @ CHR '':'' # a" "CHR '':'' \<notin> set r" "py_split_head CHR '':'' scope = r"
proof -
  from assms obtain r a where "scope = r @ CHR '':'' # a" "CHR '':'' \<notin> set r" by (meson split_list_first)
  then show thesis using that split_head_append by blast
qed

lemma covered_scope_allows:
  assumes "CHR '':'' \<notin> set r" "s \<in> {''*'', r @ '':*'', r @ '':'' @ a}" "''*'' \<in> granted \<or> scope_covered granted s"
  shows "scope_allows granted r a"
proof -
  have "py_split_head CHR '':'' (r @ CHR '':'' # x) = r" for x using assms(1) by (rule split_head_append)
  then show ?thesis using assms(2,3) by (auto simp: scope_covered_def scope_allows_def)
qed

lemma fresh_resource:
  assumes "finite granted" "''*'' \<notin> granted"
  obtains r where "CHR '':'' \<notin> set r" "\<not> scope_allows granted r []"
proof -
  obtain n where n: "\<forall>s \<in> granted. length s < n"
    using finite_nat_set_iff_bounded [of "length ` granted"] assms(1) by auto
  have "CHR '':'' \<notin> set (replicate n CHR ''a'')" by simp
  moreover have "\<not> scope_allows granted (replicate n CHR ''a'') []"
    using n assms(2) by (force simp: scope_allows_def)
  ultimately show thesis by (rule that)
qed

lemma scopes_within_sound:
  assumes "scopes_within requested granted" "CHR '':'' \<notin> set r" "scope_allows requested r a"
  shows "scope_allows granted r a"
proof -
  from assms(3) obtain s where "s \<in> requested" "s \<in> {''*'', r @ '':*'', r @ '':'' @ a}" by (auto simp: scope_allows_def)
  with assms(1) covered_scope_allows [OF assms(2)] show ?thesis by (auto simp: scopes_within_def)
qed

text \<open>
  Comparing scopes is exact. For requested scopes that name a resource or are the wildcard,
  \<open>_scopes_within\<close> accepts them if and only if every action on every resource that they
  authorise is authorised by the granted scopes as well.
\<close>

lemma scopes_within_exact:
  assumes "finite granted" and "\<And>s. s \<in> requested \<Longrightarrow> s = ''*'' \<or> CHR '':'' \<in> set s"
  shows "scopes_within requested granted \<longleftrightarrow>
    (\<forall>r a. CHR '':'' \<notin> set r \<longrightarrow> scope_allows requested r a \<longrightarrow> scope_allows granted r a)"
proof
  assume "scopes_within requested granted"
  then show "\<forall>r a. CHR '':'' \<notin> set r \<longrightarrow> scope_allows requested r a \<longrightarrow> scope_allows granted r a"
    by (blast intro: scopes_within_sound)
next
  assume all: "\<forall>r a. CHR '':'' \<notin> set r \<longrightarrow> scope_allows requested r a \<longrightarrow> scope_allows granted r a"
  show "scopes_within requested granted"
  proof (rule ccontr)
    assume "\<not> scopes_within requested granted"
    then obtain s where wild: "''*'' \<notin> granted" and s: "s \<in> requested" "\<not> scope_covered granted s"
      by (auto simp: scopes_within_def)
    show False
    proof (cases "s = ''*''")
      case True
      obtain r where "CHR '':'' \<notin> set r" "\<not> scope_allows granted r []"
        using fresh_resource [OF assms(1) wild] .
      with all True s(1) show False by (auto simp: scope_allows_def)
    next
      case False
      with assms(2) s(1) obtain r a where ra: "s = r @ CHR '':'' # a" "CHR '':'' \<notin> set r" "py_split_head CHR '':'' s = r"
        using scope_parts [of s] by auto
      then have "scope_allows requested r a" using s(1) by (auto simp: scope_allows_def)
      with all ra(2) have "scope_allows granted r a" by blast
      with wild s(2) ra show False by (auto simp: scope_covered_def scope_allows_def)
    qed
  qed
qed

section \<open>API keys\<close>

text \<open>The key and the account behind an authenticated context.\<close>

definition key_backs :: "pyfloat \<Rightarrow> api_key_record \<Rightarrow> service_account \<Rightarrow> access_repository \<Rightarrow> principal_context \<Rightarrow> bool" where
  "key_backs now row account s ctx \<longleftrightarrow>
     apk_revoked_at row = None \<and> (\<forall>t. apk_expires_at row = Some t \<longrightarrow> now < t) \<and>
     get_service_account (apk_tenant_id row) (apk_project_id row) (apk_service_account_id row) s = Some account \<and>
     \<not> sva_disabled account \<and> ctx_tenant_id ctx = apk_tenant_id row \<and> ctx_project_id ctx = apk_project_id row \<and>
     ctx_scopes ctx \<subseteq> apk_scopes row \<and> scopes_within (ctx_scopes ctx) (sva_scopes account) \<and>
     ctx_product_ids ctx \<subseteq> apk_product_ids row \<inter> sva_product_ids account \<and>
     (\<forall>i \<in> ctx_product_ids ctx. \<exists>e \<in> set (scoped_rows (apk_tenant_id row) (apk_project_id row) (acc_product_entitlements s)).
        ent_product_id e = i \<and> ent_status e = ENT_ACTIVE)"

text \<open>What a token digest grants at a moment: authentication without its bookkeeping.\<close>

definition key_context :: "pyfloat \<Rightarrow> string \<Rightarrow> access_repository \<Rightarrow> principal_context option" where
  "key_context now h s = (case get_api_key_by_sha256 h s of
     None \<Rightarrow> None
   | Some row \<Rightarrow>
       if apk_revoked_at row \<noteq> None \<or> (case apk_expires_at row of None \<Rightarrow> False | Some t \<Rightarrow> t \<le> now) then None
       else case get_service_account (apk_tenant_id row) (apk_project_id row) (apk_service_account_id row) s of
         None \<Rightarrow> None
       | Some account \<Rightarrow>
           let scopes = {scope \<in> apk_scopes row. scopes_within {scope} (sva_scopes account)} in
           if sva_disabled account \<or> scopes = {} then None
           else Some (new_context (apk_tenant_id row) (apk_project_id row) (apk_service_account_id row) scopes
             (apk_product_ids row \<inter> sva_product_ids account \<inter>
              active_products (list_product_entitlements (apk_tenant_id row) (apk_project_id row) s))))"

lemma used_key:
  "record_api_key_used t p k now s = (Inr (), snd (record_api_key_used t p k now s))"
  "list_product_entitlements t' p' (snd (record_api_key_used t p k now s)) = list_product_entitlements t' p' s"
  by (simp_all add: record_api_key_used_def list_product_entitlements_def Let_def split: option.split)

lemma authenticate_alone:
  assumes "alone b"
  shows "fst (authenticate_api_key sv token b) =
    Inr (key_context (w_clock (bs_world b) (Suc (w_step (bs_world b)))) (sv_sha256 sv token) (bs_repo b))"
proof -
  have clock: "w_clock (tick w) (w_step (tick w)) = w_clock w (Suc (w_step w))" for w by (simp add: tick_def)
  have used: "andthen (repo_call (record_api_key_used t p k now)) g c =
      g () (c\<lparr>bs_world := tick (bs_world c), bs_repo := snd (record_api_key_used t p k now (bs_repo c))\<rparr>)"
    if "alone c" for t p k now c and g :: "unit \<Rightarrow> (access_world, principal_context option) py"
    by (rule andthen_call_alone [OF that used_key(1)])
  have more: "alone (b\<lparr>bs_world := tick (tick (bs_world b))\<rparr>)" "alone (b\<lparr>bs_world := tick (tick (tick (bs_world b)))\<rparr>)"
      "alone (b\<lparr>bs_world := tick (tick (tick (tick (bs_world b)))), bs_repo := s\<rparr>)" for s
    using assms by (simp_all add: alone_def tick_def)
  show ?thesis
    using assms more
    by (auto simp: authenticate_api_key_def key_context_def alone_simps clock used used_key(2) Let_def
        split: option.split)
qed

lemma key_context_backs:
  assumes "key_context now h s = Some ctx"
  shows "\<exists>row account. get_api_key_by_sha256 h s = Some row \<and> key_backs now row account s ctx"
  using assms
  by (fastforce simp: key_context_def key_backs_def new_context_def scopes_within_def active_products_def
      list_product_entitlements_def Let_def split: option.splits if_splits)

text \<open>
  C13: an API key never grants more than it may. A context returned by \<open>authenticate_api_key\<close> comes
  from a key that is neither revoked nor expired, of a service account that exists and is
  enabled; every action it authorises is authorised by the scopes the account has now, its
  scopes are among those of the key, and each of its products is granted to the key, to the
  account and actively to the project.
\<close>

theorem api_key_within_account:
  assumes "alone b" and "authenticate_api_key sv token b = (Inr (Some ctx), b')"
  shows "\<exists>row account. get_api_key_by_sha256 (sv_sha256 sv token) (bs_repo b) = Some row \<and>
    key_backs (w_clock (bs_world b) (Suc (w_step (bs_world b)))) row account (bs_repo b) ctx \<and>
    (\<forall>r a. CHR '':'' \<notin> set r \<longrightarrow> scope_allows (ctx_scopes ctx) r a \<longrightarrow> scope_allows (sva_scopes account) r a)"
proof -
  let ?now = "w_clock (bs_world b) (Suc (w_step (bs_world b)))"
  have "key_context ?now (sv_sha256 sv token) (bs_repo b) = Some ctx"
    using authenticate_alone [OF assms(1), of sv token] assms(2) by simp
  from key_context_backs [OF this] obtain row account where
    "get_api_key_by_sha256 (sv_sha256 sv token) (bs_repo b) = Some row" and k: "key_backs ?now row account (bs_repo b) ctx"
    by blast
  moreover from k have "scopes_within (ctx_scopes ctx) (sva_scopes account)" by (simp add: key_backs_def)
  ultimately show ?thesis by (blast intro: scopes_within_sound)
qed

text \<open>The row \<open>create_api_key\<close> adds.\<close>

definition key_added :: "'v service \<Rightarrow> principal_context \<Rightarrow> string \<Rightarrow> pyfloat option \<Rightarrow> service_account \<Rightarrow> access_repository \<Rightarrow>
    api_key_record \<Rightarrow> string \<Rightarrow> access_repository \<Rightarrow> bool" where
  "key_added sv ctx aid expires account s row token s' \<longleftrightarrow>
     s' = snd (create_api_key row (sv_sha256 sv token) s) \<and> fst (create_api_key row (sv_sha256 sv token) s) = Inr row \<and>
     apk_tenant_id row = ctx_tenant_id ctx \<and> apk_project_id row = ctx_project_id ctx \<and> apk_service_account_id row = aid \<and>
     apk_revoked_at row = None \<and> apk_expires_at row = expires \<and> scopes_within (apk_scopes row) (sva_scopes account) \<and>
     (sva_scopes account \<noteq> {} \<longrightarrow> apk_scopes row \<noteq> {}) \<and> apk_product_ids row \<subseteq> sva_product_ids account"

lemma outcome_create_key:
  assumes "get_service_account (ctx_tenant_id ctx) (ctx_project_id ctx) aid s = Some account"
  shows "outcome (holding s) (iam_create_api_key sv random ctx aid name scopes products expires)
    (\<lambda>(row, token) b. key_added sv ctx aid expires account s row token (bs_repo b) \<and> alone b) (\<lambda>_ _. True)"
proof -
  let ?E = "\<lambda>(_ :: exn) (_ :: access_world). True"
  have step: "outcome (holding s) (\<lambda>b. (Inr (w_step (bs_world b)), b)) (\<lambda>_. holding s) ?E"
    by (simp add: outcome_def)
  have ident: "outcome (holding s) (or_new_id x None) (\<lambda>_. holding s) ?E" for x
    unfolding or_new_id_def truthy_def
    by (simp, rule outcome_andthen [OF outcome_on_world [OF faults_kept(4)]]) (auto intro: outcome_ret)
  have audited: "outcome (holding s') (andthen (iam_record sv ctx action rt ri) (\<lambda>_. ret x)) (\<lambda>y b. y = x \<and> holding s' b) ?E"
    for s' action rt ri and x :: "api_key_record \<times> string"
  proof (rule outcome_andthen)
    show "outcome (holding s') (iam_record sv ctx action rt ri) (\<lambda>_. holding s') ?E"
      unfolding iam_record_def by (rule outcome_andthen [OF outcome_on_world [OF audit_faults_kept]]) (auto intro: outcome_ret)
  qed (auto intro: outcome_ret)
  have stored: "outcome (holding s) (andthen (repo_call (create_api_key row h)) (\<lambda>created.
      andthen (iam_record sv ctx action rt (apk_key_id created)) (\<lambda>_. ret (created, token))))
      (\<lambda>(row', token') b. row' = row \<and> token' = token \<and> bs_repo b = snd (create_api_key row h s) \<and>
         fst (create_api_key row h s) = Inr row \<and> alone b) ?E" for row h action rt and token :: string
  proof (rule outcome_andthen [OF outcome_repo_call], simp, rule outcome_conj)
    fix created assume c: "fst (create_api_key row h s) = Inr created"
    then have "created = row" by (auto simp: create_api_key_def Let_def split: if_splits)
    with c show "outcome (holding (snd (create_api_key row h s)))
        (andthen (iam_record sv ctx action rt (apk_key_id created)) (\<lambda>_. ret (created, token)))
        (\<lambda>(row', token') b. row' = row \<and> token' = token \<and> bs_repo b = snd (create_api_key row h s) \<and>
           fst (create_api_key row h s) = Inr row \<and> alone b) ?E"
      by - (rule outcome_weaken [OF audited], auto simp: holding_def)
  qed
  show ?thesis
    unfolding iam_create_api_key_def iam_allow_def
    apply (rule outcome_andthen [OF outcome_on_world [OF allow_faults_kept]])
    apply (rule outcome_andthen [OF outcome_repo_read], rule outcome_conj)
    apply (simp add: assms)
    apply (rule outcome_andthen [OF outcome_on_world [OF faults_kept(3)]])
    apply (rule outcome_andthen [OF ident], rule outcome_andthen [OF step])
    apply (auto simp: Let_def intro!: outcome_throw outcome_weaken [OF stored] simp: key_added_def split: option.splits)
    done
qed


text \<open>
  C14: revocation is final. Once a key has been revoked, its token never authenticates again,
  whatever operations the repository sees afterwards, before the request and between the calls
  of the request, and whichever calls fail.
\<close>

theorem revoked_key_never_authenticates:
  assumes "revoke_api_key t p k now s = (Inr row, s1)"
    and "dict_get (acc_api_key_hashes s) (sv_sha256 sv token) = Some (store_key t p k)"
    and "access_step\<^sup>*\<^sup>* s1 (bs_repo b)" and "\<And>n r. access_step\<^sup>*\<^sup>* r (bs_env b n r)"
  shows "fst (authenticate_api_key sv token b) \<in> insert (Inr None) (range Inl)"
proof -
  let ?s = "bs_env b (w_step (bs_world b)) (bs_repo b)"
  have "digest_revoked (sv_sha256 sv token) s1"
    using assms(1,2)
    by (auto simp: digest_revoked_def get_api_key_by_sha256_def revoke_api_key_def store_key_def Let_def split: option.splits)
  then have "digest_revoked (sv_sha256 sv token) ?s"
    by (rule digest_revoked_steps [OF rtranclp_trans [OF assms(3,4)]])
  then obtain r where "get_api_key_by_sha256 (sv_sha256 sv token) ?s = Some r" "apk_revoked_at r \<noteq> None"
    by (auto simp: digest_revoked_def split: option.splits)
  then show ?thesis
    by (auto simp: authenticate_api_key_def andthen_def repo_read_def repo_call_def on_world_def time_time_def Let_def
        split: option.split)
qed

section \<open>Users\<close>

text \<open>
  A user without a membership gets an error instead of a refusal. When the project has
  members but the user is not one of them, logging in with the right password raises a
  \<open>RuntimeError\<close>; in a project without members the same login is refused with \<open>None\<close>.
\<close>

lemma stranger_login_raises:
  assumes "alone b" and "find_user u (list_users t (bs_repo b)) = Some user" and "\<not> usr_disabled user"
    and "get_user_credential t u (bs_repo b) = Some c" and "verify pw (crd_password_hash c)"
    and "\<And>m. m \<in> set (list_memberships t p (bs_repo b)) \<Longrightarrow> mbr_principal_id m \<noteq> u"
  shows "fst (authenticate_user verify u pw t p b) =
    (if list_memberships t p (bs_repo b) = [] then Inr None else Inl (RuntimeError ''coroutine raised StopIteration''))"
proof -
  have none: "List.find (\<lambda>m. mbr_principal_id m = u \<and> mbr_principal_type m = USER) (list_memberships t p (bs_repo b)) = None"
    using assms(6) by (auto simp: find_None_iff)
  have more: "alone (b\<lparr>bs_world := tick (tick (bs_world b))\<rparr>)" "alone (b\<lparr>bs_world := tick (tick (tick (bs_world b)))\<rparr>)"
    using assms(1) by (simp_all add: alone_def tick_def)
  show ?thesis
    using assms(1-5) more none
    by (simp add: authenticate_user_def resolve_user_context_def alone_simps user_membership_def)
qed

section \<open>Examples\<close>

definition sample_account :: service_account where
  "sample_account = \<lparr>sva_tenant_id = ''t'', sva_project_id = ''p'', sva_service_account_id = ''svc'', sva_display_name = ''s'',
     sva_scopes = {''run:*''}, sva_product_ids = {''parse''}, sva_disabled = False, sva_created_at = 0, sva_updated_at = 0\<rparr>"

definition sample_key :: api_key_record where
  "sample_key = \<lparr>apk_tenant_id = ''t'', apk_project_id = ''p'', apk_key_id = ''k1'', apk_service_account_id = ''svc'',
     apk_name = ''key'', apk_token_prefix = ''sk'', apk_scopes = {''run:read'', ''iam:read''}, apk_product_ids = {''parse''},
     apk_expires_at = None, apk_revoked_at = None, apk_last_used_at = None, apk_created_at = 0\<rparr>"

definition sample_access :: access_repository where
  "sample_access = access_init\<lparr>
     acc_users := [((''t'', ''u1''), \<lparr>usr_tenant_id = ''t'', usr_user_id = ''u1'', usr_display_name = ''U'', usr_email = None,
       usr_phone = None, usr_disabled = False, usr_created_at = 0, usr_updated_at = 0\<rparr>)],
     acc_user_credentials := [((''t'', ''u1''), \<lparr>crd_tenant_id = ''t'', crd_user_id = ''u1'', crd_password_hash = ''pw'',
       crd_created_at = 0, crd_updated_at = 0\<rparr>)],
     acc_memberships := [(store_key ''t'' ''p'' ''u2'', \<lparr>mbr_tenant_id = ''t'', mbr_project_id = ''p'', mbr_principal_id = ''u2'',
       mbr_principal_type = USER, mbr_role_ids = {''r''}, mbr_created_at = 0, mbr_updated_at = 0\<rparr>)],
     acc_service_accounts := [(store_key ''t'' ''p'' ''svc'', sample_account)],
     acc_api_keys := [(store_key ''t'' ''p'' ''k1'', sample_key)],
     acc_api_key_hashes := [(sample_sha ''tok'', store_key ''t'' ''p'' ''k1'')],
     acc_product_entitlements := [(store_key ''t'' ''p'' ''parse'', \<lparr>ent_tenant_id = ''t'', ent_project_id = ''p'',
       ent_product_id = ''parse'', ent_status = ENT_ACTIVE, ent_source = ''manual'', ent_created_at = 0, ent_updated_at = 0\<rparr>)]\<rparr>"

theorem api_key_within_account_witness:
  "\<exists>row account ctx b'. authenticate_api_key sample_service ''tok'' (sample_beside sample_access) = (Inr (Some ctx), b') \<and>
    get_api_key_by_sha256 (sample_sha ''tok'') sample_access = Some row \<and> key_backs 0 row account sample_access ctx"
proof -
  have "key_context 0 (sample_sha ''tok'') sample_access \<noteq> None" by code_simp
  then obtain ctx where ctx: "key_context 0 (sample_sha ''tok'') sample_access = Some ctx" by blast
  have "fst (authenticate_api_key sample_service ''tok'' (sample_beside sample_access)) = Inr (Some ctx)"
    unfolding authenticate_alone [OF sample_beside_alone]
    using ctx by (simp add: sample_beside_def sample_world_def sample_service_def)
  then obtain b' where "authenticate_api_key sample_service ''tok'' (sample_beside sample_access) = (Inr (Some ctx), b')"
    by (metis prod.collapse)
  from api_key_within_account [OF sample_beside_alone this] this show ?thesis
    by (auto simp: sample_beside_def sample_world_def sample_service_def)
qed

theorem revoked_key_never_authenticates_witness:
  "fst (authenticate_api_key sample_service ''tok'' (sample_beside (snd (revoke_api_key ''t'' ''p'' ''k1'' 3 sample_access)))) = Inr None"
proof -
  have "fst (authenticate_api_key sample_service ''tok'' (sample_beside (snd (revoke_api_key ''t'' ''p'' ''k1'' 3 sample_access))))
      \<in> insert (Inr None) (range Inl)"
  proof (rule revoked_key_never_authenticates)
    show "revoke_api_key ''t'' ''p'' ''k1'' 3 sample_access =
        (Inr (sample_key\<lparr>apk_revoked_at := Some 3\<rparr>), snd (revoke_api_key ''t'' ''p'' ''k1'' 3 sample_access))"
      by (simp add: revoke_api_key_def sample_access_def Let_def)
  qed (simp_all add: sample_beside_def, simp add: sample_access_def sample_service_def)
  then show ?thesis unfolding authenticate_alone [OF sample_beside_alone] by auto
qed


end
