(* ===== verification/Feature_Store.thy ===== *)
theory Feature_Store
  imports Memory_State
begin

text \<open>
  \<open>MemoryFeatureStore\<close> (\<open>platform/features.py\<close>): feature spaces and the embeddings enrolled in them,
  compared and searched by similarity. Numbers are rationals, so every value is finite and the
  test for infinities never fails; \<open>math.sqrt\<close>, whose result is rounded, is a parameter. Each method
  runs without awaiting anything, so it is atomic.
\<close>

section \<open>Records\<close>

datatype distance_metric = COSINE | L2 | INNER_PRODUCT

record feature_space =
  fsp_feature_space_id :: string
  fsp_domain :: string
  fsp_modality :: string
  fsp_model_id :: string
  fsp_model_version :: string
  fsp_dimension :: int
  fsp_distance_metric :: distance_metric
  fsp_threshold :: "pyfloat option"
  fsp_created_at :: pyfloat

record feature_record =
  ftr_feature_id :: string
  ftr_tenant_id :: string
  ftr_project_id :: string
  ftr_feature_space_id :: string
  ftr_subject_type :: string
  ftr_subject_id :: string
  ftr_embedding :: "pyfloat list"
  ftr_created_at :: pyfloat
  ftr_expires_at :: "pyfloat option"

record feature_match =
  fmt_feature_id :: string
  fmt_subject_type :: string
  fmt_subject_id :: string
  fmt_score :: pyfloat
  fmt_distance :: pyfloat

section \<open>Comparing embeddings\<close>

definition normalize_embedding :: "pyfloat list \<Rightarrow> int \<Rightarrow> exn + pyfloat list" where
  "normalize_embedding v dimension =
     (if int (length v) \<noteq> dimension then Inl (FeatureStoreError ''embedding dimension must be '') else Inr v)"

definition inner :: "pyfloat list \<Rightarrow> pyfloat list \<Rightarrow> pyfloat" where
  "inner a b = sum_list (map (\<lambda>(x, y). x * y) (zip a b))"

definition clamp :: "pyfloat \<Rightarrow> pyfloat" where
  "clamp score = max (-1) (min 1 score)"

definition compare_embeddings ::
  "(pyfloat \<Rightarrow> pyfloat) \<Rightarrow> feature_space \<Rightarrow> pyfloat list \<Rightarrow> pyfloat list \<Rightarrow> exn + pyfloat \<times> pyfloat" where
  "compare_embeddings math_sqrt sp a b =
     (case normalize_embedding a (fsp_dimension sp) of
        Inl e \<Rightarrow> Inl e
      | Inr x \<Rightarrow> (case normalize_embedding b (fsp_dimension sp) of
          Inl e \<Rightarrow> Inl e
        | Inr y \<Rightarrow> (case fsp_distance_metric sp of
            COSINE \<Rightarrow>
              let left_norm = math_sqrt (inner x x); right_norm = math_sqrt (inner y y) in
              if left_norm = 0 \<or> right_norm = 0
              then Inl (FeatureStoreError ''cosine comparison rejects a zero vector'')
              else let score = clamp (inner x y / (left_norm * right_norm)) in Inr (score, 1 - score)
          | L2 \<Rightarrow>
              let distance = math_sqrt (sum_list (map (\<lambda>(x, y). (x - y) ^ 2) (zip x y))) in
              Inr (1 / (1 + distance), distance)
          | INNER_PRODUCT \<Rightarrow> let score = inner x y in Inr (score, - score))))"

section \<open>The store\<close>

record feature_store =
  fst_spaces :: "(string, feature_space) dict"
  fst_features :: "(key3, feature_record) dict"

definition feature_store_init :: feature_store where
  "feature_store_init = \<lparr>fst_spaces = [], fst_features = []\<rparr>"

text \<open>\<open>model_dump(exclude={"created_at"})\<close>\<close>

definition same_contract :: "feature_space \<Rightarrow> feature_space \<Rightarrow> bool" where
  "same_contract a b \<longleftrightarrow> a\<lparr>fsp_created_at := 0\<rparr> = b\<lparr>fsp_created_at := 0\<rparr>"

definition create_space :: "feature_space \<Rightarrow> (feature_store, feature_space) py" where
  "create_space sp s =
     (case dict_get (fst_spaces s) (fsp_feature_space_id sp) of
        Some existing \<Rightarrow>
          if \<not> same_contract existing sp
          then (Inl (FeatureStoreError ''feature space already exists with a different contract''), s)
          else (Inr sp, s\<lparr>fst_spaces := dict_set (fsp_feature_space_id sp) sp (fst_spaces s)\<rparr>)
      | None \<Rightarrow> (Inr sp, s\<lparr>fst_spaces := dict_set (fsp_feature_space_id sp) sp (fst_spaces s)\<rparr>))"

definition get_space :: "string \<Rightarrow> feature_store \<Rightarrow> feature_space option" where
  "get_space feature_space_id s = dict_get (fst_spaces s) feature_space_id"

definition feature_key :: "feature_record \<Rightarrow> key3" where
  "feature_key f = store_key (ftr_tenant_id f) (ftr_project_id f) (ftr_feature_id f)"

definition add_feature :: "feature_record \<Rightarrow> (feature_store, feature_record) py" where
  "add_feature f s =
     (case dict_get (fst_spaces s) (ftr_feature_space_id f) of
        None \<Rightarrow> (Inl (FeatureStoreError ''feature space does not exist''), s)
      | Some sp \<Rightarrow> (case normalize_embedding (ftr_embedding f) (fsp_dimension sp) of
          Inl e \<Rightarrow> (Inl e, s)
        | Inr _ \<Rightarrow>
            if dict_get (fst_features s) (feature_key f) \<noteq> None
            then (Inl (FeatureStoreError ''feature already exists''), s)
            else (Inr f, s\<lparr>fst_features := dict_set (feature_key f) f (fst_features s)\<rparr>)))"

definition enroll_feature ::
  "string \<Rightarrow> pyfloat \<Rightarrow> string \<Rightarrow> string \<Rightarrow> string \<Rightarrow> string \<Rightarrow> string \<Rightarrow> pyfloat list \<Rightarrow> pyfloat option \<Rightarrow>
    (feature_store, feature_record) py" where
  "enroll_feature uuid now tenant_id project_id feature_space_id subject_type subject_id embedding expires_at =
     add_feature \<lparr>ftr_feature_id = ''feat_'' @ uuid, ftr_tenant_id = tenant_id, ftr_project_id = project_id,
       ftr_feature_space_id = feature_space_id, ftr_subject_type = subject_type, ftr_subject_id = subject_id,
       ftr_embedding = embedding, ftr_created_at = now, ftr_expires_at = expires_at\<rparr>"

text \<open>A row that a search at time \<open>now\<close> compares.\<close>

definition searchable :: "pyfloat \<Rightarrow> string \<Rightarrow> string \<Rightarrow> string \<Rightarrow> key3 \<times> feature_record \<Rightarrow> bool" where
  "searchable now tenant_id project_id feature_space_id kv \<longleftrightarrow>
     in_scope tenant_id project_id (fst kv) \<and> ftr_feature_space_id (snd kv) = feature_space_id \<and>
     (case ftr_expires_at (snd kv) of None \<Rightarrow> True | Some t \<Rightarrow> now < t)"

definition as_match :: "feature_record \<Rightarrow> pyfloat \<Rightarrow> pyfloat \<Rightarrow> feature_match" where
  "as_match f score distance = \<lparr>fmt_feature_id = ftr_feature_id f, fmt_subject_type = ftr_subject_type f,
     fmt_subject_id = ftr_subject_id f, fmt_score = score, fmt_distance = distance\<rparr>"

text \<open>The loop over the rows: the first comparison that raises ends it.\<close>

fun collect_matches ::
  "(pyfloat \<Rightarrow> pyfloat) \<Rightarrow> feature_space \<Rightarrow> pyfloat list \<Rightarrow> pyfloat option \<Rightarrow> feature_record list \<Rightarrow>
    exn + feature_match list" where
  "collect_matches math_sqrt sp embedding cutoff [] = Inr []"
| "collect_matches math_sqrt sp embedding cutoff (f # fs) =
     (case compare_embeddings math_sqrt sp embedding (ftr_embedding f) of
        Inl e \<Rightarrow> Inl e
      | Inr (score, distance) \<Rightarrow> (case collect_matches math_sqrt sp embedding cutoff fs of
          Inl e \<Rightarrow> Inl e
        | Inr ms \<Rightarrow> Inr (if (case cutoff of None \<Rightarrow> True | Some c \<Rightarrow> c \<le> score)
                        then as_match f score distance # ms else ms)))"

definition match_order :: "feature_match \<Rightarrow> pyfloat \<times> pyfloat \<times> string" where
  "match_order m = (- fmt_score m, fmt_distance m, fmt_feature_id m)"

definition search_features ::
  "(pyfloat \<Rightarrow> pyfloat) \<Rightarrow> pyfloat \<Rightarrow> string \<Rightarrow> string \<Rightarrow> string \<Rightarrow> pyfloat list \<Rightarrow> int \<Rightarrow> pyfloat option \<Rightarrow>
    feature_store \<Rightarrow> exn + feature_match list" where
  "search_features math_sqrt now tenant_id project_id feature_space_id embedding lmt threshold s =
     (if \<not> (1 \<le> lmt \<and> lmt \<le> 1000)
      then Inl (FeatureStoreError ''feature search limit must be between 1 and 1000'')
      else case dict_get (fst_spaces s) feature_space_id of
        None \<Rightarrow> Inl (FeatureStoreError ''feature space does not exist'')
      | Some sp \<Rightarrow>
          let cutoff = (case threshold of None \<Rightarrow> fsp_threshold sp | Some c \<Rightarrow> Some c) in
          (case collect_matches math_sqrt sp embedding cutoff
              (map snd (filter (searchable now tenant_id project_id feature_space_id) (fst_features s))) of
             Inl e \<Rightarrow> Inl e
           | Inr matches \<Rightarrow> Inr (py_slice (py_sorted match_order matches) 0 lmt)))"

definition of_subject :: "string \<Rightarrow> string \<Rightarrow> string \<Rightarrow> string \<Rightarrow> key3 \<times> feature_record \<Rightarrow> bool" where
  "of_subject tenant_id project_id subject_type subject_id kv \<longleftrightarrow> in_scope tenant_id project_id (fst kv) \<and>
     ftr_subject_type (snd kv) = subject_type \<and> ftr_subject_id (snd kv) = subject_id"

definition delete_subject :: "string \<Rightarrow> string \<Rightarrow> string \<Rightarrow> string \<Rightarrow> (feature_store, int) py" where
  "delete_subject tenant_id project_id subject_type subject_id s =
     (let keys = map fst (filter (of_subject tenant_id project_id subject_type subject_id) (fst_features s)) in
      (Inr (int (length keys)), s\<lparr>fst_features := fold dict_pop keys (fst_features s)\<rparr>))"

definition delete_expired :: "pyfloat \<Rightarrow> int \<Rightarrow> (feature_store, int) py" where
  "delete_expired before lmt s =
     (if \<not> (1 \<le> lmt \<and> lmt \<le> 10000)
      then (Inl (FeatureStoreError ''feature retention limit must be between 1 and 10000''), s)
      else
        let keys = py_slice (py_sorted (\<lambda>k. k) (map fst (filter (\<lambda>kv. case ftr_expires_at (snd kv) of
              None \<Rightarrow> False | Some t \<Rightarrow> t \<le> before) (fst_features s)))) 0 lmt in
        (Inr (int (length keys)), s\<lparr>fst_features := fold dict_pop keys (fst_features s)\<rparr>))"

definition get_feature :: "string \<Rightarrow> string \<Rightarrow> string \<Rightarrow> feature_store \<Rightarrow> feature_record option" where
  "get_feature tenant_id project_id feature_id s =
     dict_get (fst_features s) (store_key tenant_id project_id feature_id)"

definition list_subject_features ::
  "string \<Rightarrow> string \<Rightarrow> string \<Rightarrow> string \<Rightarrow> string \<Rightarrow> feature_store \<Rightarrow> feature_record list" where
  "list_subject_features tenant_id project_id feature_space_id subject_type subject_id s =
     py_sorted (\<lambda>f. (ftr_created_at f, ftr_feature_id f))
       (map snd (filter (\<lambda>kv. of_subject tenant_id project_id subject_type subject_id kv \<and>
          ftr_feature_space_id (snd kv) = feature_space_id) (fst_features s)))"

definition delete_feature :: "string \<Rightarrow> string \<Rightarrow> string \<Rightarrow> (feature_store, bool) py" where
  "delete_feature tenant_id project_id feature_id s =
     (let key = store_key tenant_id project_id feature_id in
      (Inr (dict_get (fst_features s) key \<noteq> None), s\<lparr>fst_features := dict_pop key (fst_features s)\<rparr>))"

end
