(* ===== verification/Index_Store.thy ===== *)
theory Index_Store
  imports Feature_Store
begin

text \<open>
  \<open>MemoryIndexStore\<close> (\<open>platform/index.py\<close>): index definitions and the vector and text records filed
  under them. A vector is scored by the metric its index names; queries read the records page by
  page. \<open>math.sqrt\<close> and \<open>str.casefold\<close> are parameters. Each method runs without giving way to another
  task, so it is atomic.
\<close>

section \<open>Records\<close>

datatype index_record_kind = IDX_VECTOR | IDX_TEXT | IDX_MULTIMODAL

datatype index_record_status = IDX_READY | IDX_PENDING | IDX_FAILED | IDX_DELETED

record index_definition =
  ixd_index_id :: string
  ixd_schema_version :: string
  ixd_domain :: string
  ixd_record_kind :: index_record_kind
  ixd_vector_dimension :: "int option"
  ixd_vector_model_id :: "string option"
  ixd_vector_model_version :: "string option"
  ixd_distance_metric :: "string option"
  ixd_threshold :: "pyfloat option"
  ixd_text_analyzer :: "string option"
  ixd_created_at :: pyfloat

record index_source_ref =
  src_source_type :: string
  src_source_id :: string
  src_asset_id :: "string option"
  src_run_id :: "string option"
  src_unit_id :: "string option"
  src_object_id :: "string option"
  src_artifact_id :: "string option"
  src_page_number :: "int option"
  src_pts_ms :: "int option"

record index_record =
  ixr_record_id :: string
  ixr_tenant_id :: string
  ixr_project_id :: string
  ixr_index_id :: string
  ixr_domain :: string
  ixr_kind :: index_record_kind
  ixr_source :: index_source_ref
  ixr_feature_id :: "string option"
  ixr_text :: "string option"
  ixr_vector :: "pyfloat list option"
  ixr_metadata :: json_dict
  ixr_status :: index_record_status
  ixr_created_at :: pyfloat
  ixr_expires_at :: "pyfloat option"
  ixr_deleted_at :: "pyfloat option"

record index_hit =
  hit_record_id :: string
  hit_index_id :: string
  hit_domain :: string
  hit_source :: index_source_ref
  hit_feature_id :: "string option"
  hit_score :: "pyfloat option"
  hit_distance :: "pyfloat option"
  hit_text_snippet :: "string option"
  hit_metadata :: json_dict

record index_store =
  ixs_indexes :: "(string, index_definition) dict"
  ixs_records :: "(key3, index_record) dict"

definition index_store_init :: index_store where
  "index_store_init = \<lparr>ixs_indexes = [], ixs_records = []\<rparr>"

section \<open>Scores\<close>

text \<open>\<open>definition.distance_metric or "cosine"\<close>: an empty name counts as absent.\<close>

definition metric_name :: "index_definition \<Rightarrow> string" where
  "metric_name d = (case ixd_distance_metric d of None \<Rightarrow> ''cosine'' | Some m \<Rightarrow> if m = [] then ''cosine'' else m)"

definition score_vector ::
  "(pyfloat \<Rightarrow> pyfloat) \<Rightarrow> index_definition \<Rightarrow> pyfloat list \<Rightarrow> pyfloat list \<Rightarrow> exn + pyfloat \<times> pyfloat" where
  "score_vector math_sqrt d query candidate =
     (if ixd_vector_dimension d \<noteq> Some (int (length query)) \<or> ixd_vector_dimension d \<noteq> Some (int (length candidate))
      then Inl (IndexStoreError ''vector dimension does not match index contract'')
      else if metric_name d = ''cosine'' then
        let query_norm = math_sqrt (inner query query); candidate_norm = math_sqrt (inner candidate candidate) in
        if query_norm = 0 \<or> candidate_norm = 0 then Inl (IndexStoreError ''cosine query rejects a zero vector'')
        else let score = clamp (inner query candidate / (query_norm * candidate_norm)) in Inr (score, 1 - score)
      else if metric_name d = ''l2'' then
        let distance = math_sqrt (sum_list (map (\<lambda>(a, b). (a - b) ^ 2) (zip query candidate))) in
        Inr (1 / (1 + distance), distance)
      else if metric_name d = ''inner_product'' then
        let score = inner query candidate in Inr (score, - score)
      else Inl (IndexStoreError (''unsupported index distance metric: '' @ metric_name d)))"

definition validate_vector :: "index_definition \<Rightarrow> pyfloat list \<Rightarrow> exn + unit" where
  "validate_vector d v =
     (if ixd_vector_dimension d \<noteq> Some (int (length v))
      then Inl (IndexStoreError ''index vector dimension does not match its contract'') else Inr ())"

section \<open>Definitions and records\<close>

definition same_index_contract :: "index_definition \<Rightarrow> index_definition \<Rightarrow> bool" where
  "same_index_contract a b \<longleftrightarrow> a\<lparr>ixd_created_at := 0\<rparr> = b\<lparr>ixd_created_at := 0\<rparr>"

definition create_index :: "index_definition \<Rightarrow> (index_store, index_definition) py" where
  "create_index d s =
     (case dict_get (ixs_indexes s) (ixd_index_id d) of
        Some existing \<Rightarrow>
          if \<not> same_index_contract existing d
          then (Inl (IndexStoreError ''index contract conflicts with an existing definition''), s)
          else (Inr d, s\<lparr>ixs_indexes := dict_set (ixd_index_id d) d (ixs_indexes s)\<rparr>)
      | None \<Rightarrow> (Inr d, s\<lparr>ixs_indexes := dict_set (ixd_index_id d) d (ixs_indexes s)\<rparr>))"

definition get_index :: "string \<Rightarrow> index_store \<Rightarrow> index_definition option" where
  "get_index index_id s = dict_get (ixs_indexes s) index_id"

definition list_indexes :: "string option \<Rightarrow> index_store \<Rightarrow> index_definition list" where
  "list_indexes domain s = py_sorted ixd_index_id
     (filter (\<lambda>d. domain = None \<or> domain = Some (ixd_domain d)) (map snd (ixs_indexes s)))"

text \<open>\<open>str.isspace\<close> on the characters up to 255, and \<open>str.split()\<close> and \<open>strip\<close> on it.\<close>

definition py_space :: "char \<Rightarrow> bool" where
  "py_space c \<longleftrightarrow> (let n = (of_char c :: nat) in n \<in> {9, 10, 11, 12, 13, 28, 29, 30, 31, 32, 133, 160})"

function (sequential) split_words :: "string \<Rightarrow> string list" where
  "split_words [] = []"
| "split_words (c # cs) =
     (if py_space c then split_words cs
      else (c # takeWhile (\<lambda>x. \<not> py_space x) cs) # split_words (dropWhile (\<lambda>x. \<not> py_space x) cs))"
  by pat_completeness auto

termination
  by (relation "measure length") (auto simp: le_imp_less_Suc length_dropWhile_le)

definition blank :: "string \<Rightarrow> bool" where
  "blank s \<longleftrightarrow> list_all py_space s"

definition record_error :: "index_definition \<Rightarrow> index_record \<Rightarrow> exn option" where
  "record_error d r =
     (if ixr_domain r \<noteq> ixd_domain d \<or> ixr_kind r \<noteq> ixd_record_kind d
      then Some (IndexStoreError ''index record does not match its contract'')
      else case (if ixd_vector_dimension d = None then None
          else case ixr_vector r of
            Some v \<Rightarrow> (case validate_vector d v of Inl e \<Rightarrow> Some e | Inr _ \<Rightarrow> None)
          | None \<Rightarrow>
              if ixd_record_kind d = IDX_VECTOR \<and> ixr_feature_id r = None
              then Some (IndexStoreError ''vector index records require a vector or feature reference'') else None) of
        Some e \<Rightarrow> Some e
      | None \<Rightarrow>
          if ixd_record_kind d = IDX_TEXT \<and> blank (case ixr_text r of None \<Rightarrow> [] | Some t \<Rightarrow> t)
          then Some (IndexStoreError ''text index records require text'') else None)"

definition index_record_key :: "index_record \<Rightarrow> key3" where
  "index_record_key r = store_key (ixr_tenant_id r) (ixr_project_id r) (ixr_record_id r)"

definition upsert :: "index_record \<Rightarrow> (index_store, index_record) py" where
  "upsert r s =
     (case dict_get (ixs_indexes s) (ixr_index_id r) of
        None \<Rightarrow> (Inl (IndexStoreError ''index definition does not exist''), s)
      | Some d \<Rightarrow> (case record_error d r of
          Some e \<Rightarrow> (Inl e, s)
        | None \<Rightarrow> (Inr r, s\<lparr>ixs_records := dict_set (index_record_key r) r (ixs_records s)\<rparr>)))"

definition upsert_many :: "index_record list \<Rightarrow> (index_store, index_record list) py" where
  "upsert_many records = map_py upsert records"

definition get_index_record :: "string \<Rightarrow> string \<Rightarrow> string \<Rightarrow> index_store \<Rightarrow> index_record option" where
  "get_index_record tenant_id project_id record_id s = dict_get (ixs_records s) (store_key tenant_id project_id record_id)"

definition live_records ::
  "string \<Rightarrow> string \<Rightarrow> string option \<Rightarrow> string option \<Rightarrow> string option \<Rightarrow> index_store \<Rightarrow> index_record list" where
  "live_records tenant_id project_id index_id source_type source_id s =
     py_sorted_desc (\<lambda>r. (ixr_created_at r, ixr_record_id r))
       (filter (\<lambda>r. ixr_status r \<noteq> IDX_DELETED \<and> (index_id = None \<or> index_id = Some (ixr_index_id r)) \<and>
          (source_type = None \<or> source_type = Some (src_source_type (ixr_source r))) \<and>
          (source_id = None \<or> source_id = Some (src_source_id (ixr_source r))))
        (scoped_rows tenant_id project_id (ixs_records s)))"

definition list_records ::
  "string \<Rightarrow> string \<Rightarrow> string option \<Rightarrow> string option \<Rightarrow> string option \<Rightarrow> int \<Rightarrow> int \<Rightarrow> index_store \<Rightarrow>
    exn + index_record list" where
  "list_records tenant_id project_id index_id source_type source_id off lmt s =
     (if off < 0 \<or> \<not> (1 \<le> lmt \<and> lmt \<le> 1000) then Inl (IndexStoreError ''invalid index pagination'')
      else Inr (py_slice (live_records tenant_id project_id index_id source_type source_id s) off (off + lmt)))"

section \<open>Queries\<close>

lemma list_records_page:
  "list_records t p i st si (int off) 1000 s = Inr (take 1000 (drop off (live_records t p i st si s)))"
proof -
  have "py_slice xs (int off) (int off + 1000) = take 1000 (drop off xs)" for xs :: "index_record list"
    using py_slice_nat [of xs off "off + 1000"] by simp
  then show ?thesis by (simp add: list_records_def)
qed

text \<open>
  The loop \<open>while True\<close> of the queries and of \<open>rebuild\<close>: it asks for pages of 1000 records until one
  comes back short. The offset is the number of records read, so the recursion ends.
\<close>

function (sequential) read_pages :: "string \<Rightarrow> string \<Rightarrow> string \<Rightarrow> nat \<Rightarrow> index_store \<Rightarrow> exn + index_record list" where
  "read_pages tenant_id project_id index_id off s =
     (case list_records tenant_id project_id (Some index_id) None None (int off) 1000 s of
        Inl e \<Rightarrow> Inl e
      | Inr page \<Rightarrow>
          if length page < 1000 then Inr page
          else (case read_pages tenant_id project_id index_id (off + length page) s of
            Inl e \<Rightarrow> Inl e
          | Inr rest \<Rightarrow> Inr (page @ rest)))"
  by pat_completeness auto

termination
proof (relation "measure (\<lambda>(t, p, i, off, s). length (live_records t p (Some i) None None s) - off)", goal_cases)
  case (2 t p i off s page)
  then have "page = take 1000 (drop off (live_records t p (Some i) None None s))" by (simp add: list_records_page)
  with 2(2) show ?case by simp
qed simp

declare read_pages.simps [simp del]

fun score_records ::
  "(pyfloat \<Rightarrow> pyfloat) \<Rightarrow> index_definition \<Rightarrow> pyfloat list \<Rightarrow> pyfloat option \<Rightarrow> index_record list \<Rightarrow> exn + index_hit list" where
  "score_records math_sqrt d query threshold [] = Inr []"
| "score_records math_sqrt d query threshold (r # rs) =
     (case ixr_vector r of
        None \<Rightarrow> score_records math_sqrt d query threshold rs
      | Some v \<Rightarrow> (case score_vector math_sqrt d query v of
          Inl e \<Rightarrow> Inl e
        | Inr (score, distance) \<Rightarrow> (case score_records math_sqrt d query threshold rs of
            Inl e \<Rightarrow> Inl e
          | Inr hits \<Rightarrow>
              let cutoff = (case threshold of None \<Rightarrow> ixd_threshold d | Some c \<Rightarrow> Some c) in
              Inr (if (case cutoff of None \<Rightarrow> True | Some c \<Rightarrow> c \<le> score)
                   then \<lparr>hit_record_id = ixr_record_id r, hit_index_id = ixd_index_id d, hit_domain = ixr_domain r,
                     hit_source = ixr_source r, hit_feature_id = ixr_feature_id r, hit_score = Some score,
                     hit_distance = Some distance, hit_text_snippet = None, hit_metadata = ixr_metadata r\<rparr> # hits
                   else hits))))"

definition or_zero :: "pyfloat option \<Rightarrow> pyfloat" where
  "or_zero v = (case v of None \<Rightarrow> 0 | Some x \<Rightarrow> x)"

definition query_vector ::
  "(pyfloat \<Rightarrow> pyfloat) \<Rightarrow> string \<Rightarrow> string \<Rightarrow> string \<Rightarrow> pyfloat list \<Rightarrow> int \<Rightarrow> pyfloat option \<Rightarrow> index_store \<Rightarrow>
    exn + index_hit list" where
  "query_vector math_sqrt tenant_id project_id index_id query lmt threshold s =
     (if \<not> (1 \<le> lmt \<and> lmt \<le> 200) then Inl (IndexStoreError ''index query limit must be between 1 and 200'')
      else case dict_get (ixs_indexes s) index_id of
        None \<Rightarrow> Inl (IndexStoreError ''vector index definition does not exist'')
      | Some d \<Rightarrow>
          if ixd_vector_dimension d = None then Inl (IndexStoreError ''vector index definition does not exist'')
          else (case read_pages tenant_id project_id index_id 0 s of
            Inl e \<Rightarrow> Inl e
          | Inr rows \<Rightarrow> (case score_records math_sqrt d query threshold rows of
              Inl e \<Rightarrow> Inl e
            | Inr hits \<Rightarrow> Inr (py_slice (py_sorted
                (\<lambda>h. (- or_zero (hit_score h), or_zero (hit_distance h), hit_record_id h)) hits) 0 lmt))))"

text \<open>The distinct terms of a text query, folded; their number that occurs in a text.\<close>

definition query_terms :: "(string \<Rightarrow> string) \<Rightarrow> string \<Rightarrow> string list" where
  "query_terms casefold query = remdups (map casefold (split_words query))"

definition text_hit :: "(string \<Rightarrow> string) \<Rightarrow> string \<Rightarrow> string list \<Rightarrow> index_record \<Rightarrow> index_hit option" where
  "text_hit casefold index_id terms r =
     (let text = (case ixr_text r of None \<Rightarrow> [] | Some t \<Rightarrow> t);
          matched = length (filter (\<lambda>term. py_contains term (casefold text)) terms) in
      if matched = 0 then None
      else Some \<lparr>hit_record_id = ixr_record_id r, hit_index_id = index_id, hit_domain = ixr_domain r,
        hit_source = ixr_source r, hit_feature_id = ixr_feature_id r,
        hit_score = Some (of_nat matched / of_nat (max 1 (length terms))), hit_distance = None,
        hit_text_snippet = Some (take 240 text), hit_metadata = ixr_metadata r\<rparr>)"

definition query_text ::
  "(string \<Rightarrow> string) \<Rightarrow> string \<Rightarrow> string \<Rightarrow> string \<Rightarrow> string \<Rightarrow> int \<Rightarrow> index_store \<Rightarrow> exn + index_hit list" where
  "query_text casefold tenant_id project_id index_id query lmt s =
     (if blank query then Inr []
      else case dict_get (ixs_indexes s) index_id of
        None \<Rightarrow> Inl (IndexStoreError ''text index definition does not exist'')
      | Some d \<Rightarrow>
          if ixd_record_kind d = IDX_VECTOR then Inl (IndexStoreError ''text index definition does not exist'')
          else (case read_pages tenant_id project_id index_id 0 s of
            Inl e \<Rightarrow> Inl e
          | Inr rows \<Rightarrow> Inr (py_slice (py_sorted (\<lambda>h. (- or_zero (hit_score h), hit_record_id h))
              (List.map_filter (text_hit casefold index_id (query_terms casefold query)) rows)) 0 lmt)))"

section \<open>Deleting\<close>

text \<open>\<open>now k\<close> is the clock when the record under key \<open>k\<close> is marked.\<close>

definition mark_index_record :: "pyfloat \<Rightarrow> index_record \<Rightarrow> index_record" where
  "mark_index_record now r = r\<lparr>ixr_status := IDX_DELETED, ixr_deleted_at := Some now\<rparr>"

definition mark_records :: "(key3 \<Rightarrow> pyfloat) \<Rightarrow> (key3 \<times> index_record \<Rightarrow> bool) \<Rightarrow> (index_store, int) py" where
  "mark_records now P s =
     (Inr (int (length (filter P (ixs_records s)))),
      s\<lparr>ixs_records := map (\<lambda>(k, r). (k, if P (k, r) then mark_index_record (now k) r else r)) (ixs_records s)\<rparr>)"

definition delete_source_records :: "(key3 \<Rightarrow> pyfloat) \<Rightarrow> string \<Rightarrow> string \<Rightarrow> string \<Rightarrow> string \<Rightarrow> (index_store, int) py" where
  "delete_source_records now tenant_id project_id source_type source_id =
     mark_records now (\<lambda>kr. in_scope tenant_id project_id (fst kr) \<and>
       src_source_type (ixr_source (snd kr)) = source_type \<and> src_source_id (ixr_source (snd kr)) = source_id)"

definition delete_asset_records :: "(key3 \<Rightarrow> pyfloat) \<Rightarrow> string \<Rightarrow> string \<Rightarrow> string \<Rightarrow> (index_store, int) py" where
  "delete_asset_records now tenant_id project_id asset_id =
     mark_records now (\<lambda>kr. in_scope tenant_id project_id (fst kr) \<and>
       src_asset_id (ixr_source (snd kr)) = Some asset_id \<and> ixr_status (snd kr) \<noteq> IDX_DELETED)"

definition delete_expired_records :: "pyfloat \<Rightarrow> int \<Rightarrow> (index_store, int) py" where
  "delete_expired_records before lmt s =
     (if \<not> (1 \<le> lmt \<and> lmt \<le> 10000)
      then (Inl (IndexStoreError ''index retention limit must be between 1 and 10000''), s)
      else
        let due = py_slice (py_sorted (\<lambda>kr. (or_zero (ixr_expires_at (snd kr)), fst kr))
              (filter (\<lambda>kr. ixr_status (snd kr) \<noteq> IDX_DELETED \<and>
                 (case ixr_expires_at (snd kr) of None \<Rightarrow> False | Some t \<Rightarrow> t \<le> before)) (ixs_records s))) 0 lmt in
        mark_records (\<lambda>_. before) (\<lambda>kr. fst kr \<in> fst ` set due) s)"

fun validate_records :: "index_definition \<Rightarrow> index_record list \<Rightarrow> exn + int" where
  "validate_records d [] = Inr 0"
| "validate_records d (r # rs) =
     (case (case ixr_vector r of Some v \<Rightarrow> if ixd_vector_dimension d = None then Inr () else validate_vector d v
            | None \<Rightarrow> Inr ()) of
        Inl e \<Rightarrow> Inl e
      | Inr _ \<Rightarrow> (case validate_records d rs of Inl e \<Rightarrow> Inl e | Inr n \<Rightarrow> Inr (1 + n)))"

definition rebuild :: "string \<Rightarrow> string \<Rightarrow> string \<Rightarrow> index_store \<Rightarrow> exn + int \<times> int" where
  "rebuild tenant_id project_id index_id s =
     (case dict_get (ixs_indexes s) index_id of
        None \<Rightarrow> Inl (IndexStoreError ''index definition does not exist'')
      | Some d \<Rightarrow> (case read_pages tenant_id project_id index_id 0 s of
          Inl e \<Rightarrow> Inl e
        | Inr records \<Rightarrow> (case validate_records d records of
            Inl e \<Rightarrow> Inl e
          | Inr rebuilt \<Rightarrow> Inr (int (length records), rebuilt))))"

end
