(* ===== verification/Feature_Correct.thy ===== *)
theory Feature_Correct
  imports Index_Store
begin

text \<open>
  Correctness of the feature store and of the index store: a search answers the best matches, the
  paging loop of the index reads every record, deleted subjects are gone, and a zero vector that
  was enrolled breaks the searches of its space.
\<close>

section \<open>The best of a list\<close>

text \<open>\<open>sorted(xs, key=k)[:n]\<close>: the \<open>n\<close> elements with the smallest keys, in order.\<close>

lemma best_first:
  assumes "0 \<le> n"
  obtains rest where "mset xs = mset (py_slice (py_sorted k xs) 0 n) + mset rest"
    and "int (length (py_slice (py_sorted k xs) 0 n)) \<le> n"
    and "rest \<noteq> [] \<Longrightarrow> int (length (py_slice (py_sorted k xs) 0 n)) = n"
    and "\<And>x y. x \<in> set (py_slice (py_sorted k xs) 0 n) \<Longrightarrow> y \<in> set rest \<Longrightarrow> k x \<le> k y"
    and "sorted (map k (py_slice (py_sorted k xs) 0 n))"
proof (rule that [of "drop (nat n) (py_sorted k xs)"])
  let ?ys = "py_sorted k xs"
  have slice: "py_slice ?ys 0 n = take (nat n) ?ys" using assms by (rule py_slice_prefix)
  have split: "?ys = take (nat n) ?ys @ drop (nat n) ?ys" by simp
  have "mset xs = mset ?ys" by simp
  also have "\<dots> = mset (take (nat n) ?ys) + mset (drop (nat n) ?ys)" by (simp only: mset_append [symmetric] append_take_drop_id)
  finally show "mset xs = mset (py_slice ?ys 0 n) + mset (drop (nat n) ?ys)" by (simp only: slice)
  have "sorted (map k (take (nat n) ?ys) @ map k (drop (nat n) ?ys))"
    by (simp only: map_append [symmetric] append_take_drop_id sorted_py_sorted)
  then show "sorted (map k (py_slice ?ys 0 n))"
    and "\<And>x y. x \<in> set (py_slice ?ys 0 n) \<Longrightarrow> y \<in> set (drop (nat n) ?ys) \<Longrightarrow> k x \<le> k y"
    by (auto simp: slice sorted_append)
  show "int (length (py_slice ?ys 0 n)) \<le> n" using assms by (simp add: slice)
  show "int (length (py_slice ?ys 0 n)) = n" if "drop (nat n) ?ys \<noteq> []" using that assms by (simp add: slice)
qed

section \<open>Search\<close>

text \<open>The match of one row, if it is similar enough.\<close>

definition similar ::
  "(pyfloat \<Rightarrow> pyfloat) \<Rightarrow> feature_space \<Rightarrow> pyfloat list \<Rightarrow> pyfloat option \<Rightarrow> feature_record \<Rightarrow> feature_match option" where
  "similar math_sqrt sp embedding cutoff f = (case compare_embeddings math_sqrt sp embedding (ftr_embedding f) of
     Inl _ \<Rightarrow> None
   | Inr (score, distance) \<Rightarrow>
       if (case cutoff of None \<Rightarrow> True | Some c \<Rightarrow> c \<le> score) then Some (as_match f score distance) else None)"

lemma collect_matches_Inr:
  "collect_matches rt sp e c fs = Inr ms \<Longrightarrow> ms = List.map_filter (similar rt sp e c) fs"
proof (induction fs arbitrary: ms)
  case (Cons f fs)
  then show ?case by (auto simp: similar_def map_filter_simps split: sum.splits prod.splits option.splits if_splits)
qed (simp add: map_filter_simps)

lemma collect_matches_Inl:
  assumes "f \<in> set fs" "compare_embeddings rt sp e (ftr_embedding f) = Inl x"
  shows "\<exists>y. collect_matches rt sp e c fs = Inl y"
  using assms by (induction fs) (auto split: sum.splits prod.splits)

text \<open>All matches of a search, in no particular order: what its answer is chosen from.\<close>

definition all_matches ::
  "(pyfloat \<Rightarrow> pyfloat) \<Rightarrow> pyfloat \<Rightarrow> string \<Rightarrow> string \<Rightarrow> feature_space \<Rightarrow> pyfloat list \<Rightarrow> pyfloat option \<Rightarrow> feature_store \<Rightarrow>
    feature_match list" where
  "all_matches math_sqrt now tenant_id project_id sp embedding cutoff s =
     List.map_filter (similar math_sqrt sp embedding cutoff)
       (filter (\<lambda>f. case ftr_expires_at f of None \<Rightarrow> True | Some t \<Rightarrow> now < t)
         (filter (\<lambda>f. ftr_feature_space_id f = fsp_feature_space_id sp)
           (scoped_rows tenant_id project_id (fst_features s))))"

lemma searched_rows:
  "map snd (filter (searchable now t p i) d) =
    filter (\<lambda>f. case ftr_expires_at f of None \<Rightarrow> True | Some u \<Rightarrow> now < u)
      (filter (\<lambda>f. ftr_feature_space_id f = i) (scoped_rows t p d))"
  by (induction d) (auto simp: scoped_rows_def searchable_def)

text \<open>
  C19: a search answers the most similar features. Its answer and the matches it leaves out are
  together all features of the tenant, project and space that are not expired and reach the cutoff
  (the caller's threshold, else the space's); it is in order of falling score, no match left out
  scores higher than one in the answer, and something is left out only when the limit is reached.
\<close>

theorem search_is_top_k:
  assumes "search_features rt now t p i embedding lmt threshold s = Inr ms"
    and "dict_get (fst_spaces s) i = Some sp" and "fsp_feature_space_id sp = i"
  shows "\<exists>rest. mset (all_matches rt now t p sp embedding
        (case threshold of None \<Rightarrow> fsp_threshold sp | Some c \<Rightarrow> Some c) s) = mset ms + mset rest \<and>
     int (length ms) \<le> lmt \<and> (rest \<noteq> [] \<longrightarrow> int (length ms) = lmt) \<and>
     (\<forall>x \<in> set ms. \<forall>y \<in> set rest. fmt_score y \<le> fmt_score x) \<and>
     sorted_wrt (\<lambda>x y. fmt_score y \<le> fmt_score x) ms"
proof -
  let ?c = "case threshold of None \<Rightarrow> fsp_threshold sp | Some c \<Rightarrow> Some c"
  let ?all = "all_matches rt now t p sp embedding ?c s"
  from assms(1,2) have lmt: "0 \<le> lmt" by (auto simp: search_features_def split: if_splits)
  from assms(1,2) obtain found where found: "collect_matches rt sp embedding ?c
        (map snd (filter (searchable now t p i) (fst_features s))) = Inr found"
      and ms: "ms = py_slice (py_sorted match_order found) 0 lmt"
    by (auto simp: search_features_def Let_def split: if_splits sum.splits)
  have all: "found = ?all"
    using collect_matches_Inr [OF found] assms(3) by (simp add: all_matches_def searched_rows)
  obtain rest where rest: "mset ?all = mset ms + mset rest" "int (length ms) \<le> lmt"
      "rest \<noteq> [] \<Longrightarrow> int (length ms) = lmt" "\<And>x y. x \<in> set ms \<Longrightarrow> y \<in> set rest \<Longrightarrow> match_order x \<le> match_order y"
      "sorted (map match_order ms)"
    by (rule best_first [OF lmt, of ?all match_order]) (auto simp: ms all)
  have order: "fmt_score y \<le> fmt_score x" if "match_order x \<le> match_order y" for x y
    using that by (auto simp: match_order_def less_eq_prod_def)
  have "sorted_wrt (\<lambda>x y. fmt_score y \<le> fmt_score x) ms"
    using rest(5) unfolding sorted_map by (rule sorted_wrt_mono_rel [rotated]) (simp add: order)
  with rest order show ?thesis by (intro exI [of _ rest]) blast
qed

definition sample_space :: feature_space where
  "sample_space = \<lparr>fsp_feature_space_id = ''faces'', fsp_domain = ''portrait'', fsp_modality = ''face'',
     fsp_model_id = ''arc'', fsp_model_version = ''1'', fsp_dimension = 2, fsp_distance_metric = INNER_PRODUCT,
     fsp_threshold = Some (1 / 2), fsp_created_at = 0\<rparr>"

definition sample_feature :: "string \<Rightarrow> pyfloat list \<Rightarrow> feature_record" where
  "sample_feature i v = \<lparr>ftr_feature_id = i, ftr_tenant_id = ''t'', ftr_project_id = ''p'',
     ftr_feature_space_id = ''faces'', ftr_subject_type = ''portrait_identity'', ftr_subject_id = ''idn'',
     ftr_embedding = v, ftr_created_at = 0, ftr_expires_at = None\<rparr>"

definition sample_features :: feature_store where
  "sample_features = \<lparr>fst_spaces = [(''faces'', sample_space)],
     fst_features = map (\<lambda>f. (feature_key f, f)) [sample_feature ''a'' [1, 0], sample_feature ''b'' [3, 1], sample_feature ''c'' [0, 1]]\<rparr>"

theorem search_is_top_k_witness:
  "\<exists>rest. mset (all_matches id 5 ''t'' ''p'' sample_space [1, 0] (Some (1 / 2)) sample_features) =
     mset [as_match (sample_feature ''b'' [3, 1]) 3 (- 3)] + mset rest \<and> rest \<noteq> []"
proof -
  have search: "search_features id 5 ''t'' ''p'' ''faces'' [1, 0] 1 None sample_features =
      Inr [as_match (sample_feature ''b'' [3, 1]) 3 (- 3)]" by code_simp
  have sp: "dict_get (fst_spaces sample_features) ''faces'' = Some sample_space" "fsp_feature_space_id sample_space = ''faces''"
    by (simp_all add: sample_features_def sample_space_def)
  have cut: "(case None of None \<Rightarrow> fsp_threshold sample_space | Some c \<Rightarrow> Some c) = Some (1 / 2)"
    by (simp add: sample_space_def)
  have two: "length (all_matches id 5 ''t'' ''p'' sample_space [1, 0] (Some (1 / 2)) sample_features) = 2" by code_simp
  obtain rest where rest: "mset (all_matches id 5 ''t'' ''p'' sample_space [1, 0] (Some (1 / 2)) sample_features) =
     mset [as_match (sample_feature ''b'' [3, 1]) 3 (- 3)] + mset rest"
    using search_is_top_k [OF search sp] unfolding cut by blast
  from arg_cong [OF rest, of size] two have "2 = 1 + length rest" by simp
  then have "rest \<noteq> []" by auto
  with rest show ?thesis by blast
qed

section \<open>Zero vectors\<close>

lemma inner_zero: "\<forall>x \<in> set v. x = 0 \<Longrightarrow> inner v v = 0"
  by (induction v) (auto simp: inner_def)

text \<open>
  C40: a zero vector breaks the searches of its cosine space. The store accepts it, since only its
  length is checked; after that every search in that space by its tenant and project raises, whatever
  is searched for.
\<close>

theorem zero_vector_breaks_search:
  assumes "dict_get (fst_spaces s) (ftr_feature_space_id f) = Some sp" and "fsp_distance_metric sp = COSINE"
    and "int (length (ftr_embedding f)) = fsp_dimension sp" and "\<forall>x \<in> set (ftr_embedding f). x = 0"
    and "dict_get (fst_features s) (feature_key f) = None" and "ftr_expires_at f = None" and "rt 0 = 0"
  shows "\<exists>s'. add_feature f s = (Inr f, s') \<and> (\<forall>now embedding lmt threshold. \<exists>e.
     search_features rt now (ftr_tenant_id f) (ftr_project_id f) (ftr_feature_space_id f) embedding lmt threshold s' = Inl e)"
proof -
  let ?s' = "s\<lparr>fst_features := dict_set (feature_key f) f (fst_features s)\<rparr>"
  have added: "add_feature f s = (Inr f, ?s')" using assms by (simp add: add_feature_def normalize_embedding_def)
  have compare: "\<exists>e. compare_embeddings rt sp v (ftr_embedding f) = Inl e" for v
    using assms(2,3,7) inner_zero [OF assms(4)] by (simp add: compare_embeddings_def normalize_embedding_def)
  have row: "f \<in> set (map snd (filter (searchable now (ftr_tenant_id f) (ftr_project_id f) (ftr_feature_space_id f))
      (dict_set (feature_key f) f (fst_features s))))" for now
    using assms(5,6) by (simp add: dict_set_fresh searchable_def feature_key_def)
  have "\<exists>e. search_features rt now (ftr_tenant_id f) (ftr_project_id f) (ftr_feature_space_id f) v lmt threshold ?s' = Inl e"
    for now v lmt threshold
  proof -
    obtain x where x: "compare_embeddings rt sp v (ftr_embedding f) = Inl x" using compare by blast
    from collect_matches_Inl [OF row x] obtain y where "collect_matches rt sp v
        (case threshold of None \<Rightarrow> fsp_threshold sp | Some c \<Rightarrow> Some c)
        (map snd (filter (searchable now (ftr_tenant_id f) (ftr_project_id f) (ftr_feature_space_id f))
          (dict_set (feature_key f) f (fst_features s)))) = Inl y" by blast
    with assms(1) show ?thesis by (cases "1 \<le> lmt \<and> lmt \<le> 1000") (simp_all add: search_features_def)
  qed
  with added show ?thesis by blast
qed

theorem zero_vector_breaks_search_witness:
  "\<exists>s'. add_feature (sample_feature ''z'' [0, 0])
       (sample_features\<lparr>fst_spaces := [(''faces'', sample_space\<lparr>fsp_distance_metric := COSINE\<rparr>)]\<rparr>) =
       (Inr (sample_feature ''z'' [0, 0]), s') \<and>
     (\<exists>e. search_features id 5 ''t'' ''p'' ''faces'' [1, 0] 10 None s' = Inl e)"
  using zero_vector_breaks_search [of "sample_features\<lparr>fst_spaces := [(''faces'', sample_space\<lparr>fsp_distance_metric := COSINE\<rparr>)]\<rparr>"
      "sample_feature ''z'' [0, 0]" "sample_space\<lparr>fsp_distance_metric := COSINE\<rparr>" id]
  by (fastforce simp: sample_features_def sample_feature_def sample_space_def feature_key_def)

section \<open>Deleting a subject\<close>

lemma set_fold_pop: "set (fold dict_pop ks d) = {kv \<in> set d. fst kv \<notin> set ks}"
  by (induction ks arbitrary: d) (auto simp: set_dict_pop)

lemma delete_subject_rows:
  "set (fst_features (snd (delete_subject t p ty i s))) \<subseteq> {kv \<in> set (fst_features s). \<not> of_subject t p ty i kv}"
  by (auto simp: delete_subject_def Let_def set_fold_pop)

section \<open>The index\<close>

lemma read_pages_drop: "read_pages t p i off s = Inr (drop off (live_records t p (Some i) None None s))"
proof (induction t p i off s rule: read_pages.induct)
  case (1 t p i off s)
  let ?rows = "live_records t p (Some i) None None s"
  let ?page = "take 1000 (drop off ?rows)"
  show ?case
  proof (cases "length ?page < 1000")
    case True
    have "length (drop off ?rows) \<le> 1000 \<Longrightarrow> ?page = drop off ?rows" by (rule take_all)
    moreover have "length (drop off ?rows) \<le> 1000" using True by (simp only: length_take min_def split: if_splits)
    ultimately show ?thesis using True by (simp only: read_pages.simps [of t p i off s] list_records_page sum.case if_True)
  next
    case False
    then have len: "length ?page = 1000" by (simp only: length_take)
    have "read_pages t p i (off + length ?page) s = Inr (drop (off + length ?page) ?rows)"
      by (rule 1 [OF list_records_page False])
    moreover have "drop (off + 1000) ?rows = drop 1000 (drop off ?rows)" by (simp only: drop_drop add.commute)
    ultimately show ?thesis using False len
      by (simp only: read_pages.simps [of t p i off s] list_records_page sum.case if_False append_take_drop_id)
  qed
qed

text \<open>
  C25: the paging loop behind queries and rebuilds ends and reads every record. Fetching pages of
  1000 until one is short yields exactly the records of the index that are not deleted, each once
  and newest first, however many there are.
\<close>

theorem paging_reads_everything:
  "read_pages t p i 0 s = Inr (live_records t p (Some i) None None s)"
  by (simp add: read_pages_drop)

lemma delete_source_live:
  "live_records t p i (Some ty) (Some x) (snd (delete_source_records now t p ty x s)) = []"
proof -
  let ?d = "map (\<lambda>(k, r). (k, if in_scope t p k \<and> src_source_type (ixr_source r) = ty \<and> src_source_id (ixr_source r) = x
      then mark_index_record (now k) r else r)) (ixs_records s)"
  have "ixr_status r = IDX_DELETED" if "r \<in> set (scoped_rows t p ?d)" "src_source_type (ixr_source r) = ty"
      "src_source_id (ixr_source r) = x" for r
  proof -
    from that(1) obtain k r' where "in_scope t p k"
        "r = (if in_scope t p k \<and> src_source_type (ixr_source r') = ty \<and> src_source_id (ixr_source r') = x
          then mark_index_record (now k) r' else r')"
      unfolding scoped_rows_def by auto
    with that(2,3) show ?thesis by (cases "src_source_type (ixr_source r') = ty \<and> src_source_id (ixr_source r') = x")
      (auto simp: mark_index_record_def)
  qed
  then have "filter (\<lambda>r. ixr_status r \<noteq> IDX_DELETED \<and> (i = None \<or> i = Some (ixr_index_id r)) \<and>
      (Some ty = None \<or> Some ty = Some (src_source_type (ixr_source r))) \<and>
      (Some x = None \<or> Some x = Some (src_source_id (ixr_source r)))) (scoped_rows t p ?d) = []"
    by (simp only: filter_empty_conv) blast
  then show ?thesis by (simp add: live_records_def delete_source_records_def mark_records_def py_sorted_desc_def)
qed

end
