(* ===== verification/Surveillance_Models.thy ===== *)
theory Surveillance_Models
  imports Memory_State
begin

text \<open>
  The records of portrait surveillance (\<open>platform/surveillance.py\<close>): watchlists and their members,
  tasks with a schedule and thresholds, alerts, their events and the state of debouncing.

  Validators of pydantic run when a model is constructed, not when \<open>model_copy(update=...)\<close> replaces
  its fields. A field of model type can therefore hold an instance of the model or, after an update
  with the output of \<open>model_dump\<close>, the dictionary dumped from one: \<open>'a attr\<close>.
\<close>

datatype 'a attr = Instance 'a | Dumped 'a

text \<open>Access to an attribute of the model: a dictionary has none.\<close>

definition of_attr :: "'a attr \<Rightarrow> exn + 'a" where
  "of_attr v = (case v of Instance x \<Rightarrow> Inr x | Dumped _ \<Rightarrow> Inl (AttributeError ''dict object has no such attribute''))"

datatype watchlist_category = BLACKLIST | WHITELIST | CUSTOM

datatype watchlist_status = WL_ACTIVE | WL_PAUSED | WL_ARCHIVED

datatype member_status = MEMBER_ACTIVE | MEMBER_PAUSED | MEMBER_REMOVED

datatype task_status = TASK_DRAFT | TASK_ACTIVE | TASK_PAUSED | TASK_EXPIRED | TASK_FAILED

datatype match_policy = ALERT_ON_MATCH | SUPPRESS_ON_MATCH | OBSERVE_ONLY

datatype alert_level = CRITICAL | WARNING | INFO

datatype alert_status = ALERT_PENDING | CONFIRMED | FALSE_POSITIVE | IGNORED

datatype alert_modality = FACE | BODY | FUSED

fun alert_status_value :: "alert_status \<Rightarrow> string" where
  "alert_status_value ALERT_PENDING = ''pending''"
| "alert_status_value CONFIRMED = ''confirmed''"
| "alert_status_value FALSE_POSITIVE = ''false_positive''"
| "alert_status_value IGNORED = ''ignored''"

fun modality_value :: "alert_modality \<Rightarrow> string" where
  "modality_value FACE = ''face''"
| "modality_value BODY = ''body''"
| "modality_value FUSED = ''fused''"

section \<open>Schedules\<close>

record schedule_window =
  win_weekday :: int
  win_start :: string
  win_end :: string

record schedule_exception =
  sex_date :: string
  sex_enabled :: bool

record surveillance_schedule =
  sch_timezone :: string
  sch_weekly :: "schedule_window list"
  sch_exceptions :: "schedule_exception list"

text \<open>
  A moment on the wall clock of a time zone: the date in ISO form, the ISO weekday and the time of
  day in microseconds, the resolution of \<open>datetime\<close>. The conversion is a parameter (\<open>zoneinfo\<close>).
\<close>

record local_moment =
  lm_date :: string
  lm_isoweekday :: int
  lm_time :: int

definition digit :: "char \<Rightarrow> int option" where
  "digit c = (if CHR ''0'' \<le> c \<and> c \<le> CHR ''9'' then Some (int (of_char c) - 48) else None)"

text \<open>\<open>time.fromisoformat\<close> on the form \<open>HH:MM\<close>, the only one that the fields' patterns admit.\<close>

definition fromisoformat :: "string \<Rightarrow> exn + int" where
  "fromisoformat s = (case s of
     [a, b, sep, c, d] \<Rightarrow> (case (digit a, digit b, digit c, digit d) of
         (Some h, Some i, Some j, Some k) \<Rightarrow>
           if sep = CHR '':'' \<and> 10 * h + i < 24 \<and> 10 * j + k < 60
           then Inr (60000000 * (60 * (10 * h + i) + 10 * j + k))
           else Inl (ValueError ''Invalid isoformat string'')
       | _ \<Rightarrow> Inl (ValueError ''Invalid isoformat string''))
   | _ \<Rightarrow> Inl (ValueError ''Invalid isoformat string''))"

text \<open>\<open>time.max\<close> is 23:59:59.999999.\<close>

definition CLOCK_MAX :: int where
  "CLOCK_MAX = 86399999999"

definition window_end :: "schedule_window \<Rightarrow> exn + int" where
  "window_end w = (if win_end w = ''24:00'' then Inr CLOCK_MAX else fromisoformat (win_end w))"

fun in_some_window :: "int \<Rightarrow> int \<Rightarrow> schedule_window list \<Rightarrow> exn + bool" where
  "in_some_window weekday current [] = Inr False"
| "in_some_window weekday current (w # ws) =
     (if win_weekday w \<noteq> weekday then in_some_window weekday current ws
      else case fromisoformat (win_start w) of
        Inl e \<Rightarrow> Inl e
      | Inr a \<Rightarrow> (case window_end w of
          Inl e \<Rightarrow> Inl e
        | Inr b \<Rightarrow> if a \<le> current \<and> current < b then Inr True else in_some_window weekday current ws))"

definition is_active :: "(string \<Rightarrow> pyfloat \<Rightarrow> local_moment) \<Rightarrow> pyfloat \<Rightarrow> surveillance_schedule \<Rightarrow> exn + bool" where
  "is_active local_time moment sch =
     (let here = local_time (sch_timezone sch) moment in
      case List.find (\<lambda>x. sex_date x = lm_date here) (sch_exceptions sch) of
        Some x \<Rightarrow> Inr (sex_enabled x)
      | None \<Rightarrow>
          if sch_weekly sch = [] then Inr True
          else in_some_window (lm_isoweekday here) (lm_time here) (sch_weekly sch))"

text \<open>The validators of a window: patterns of both ends and their order (\<open>valid_window\<close>).\<close>

definition valid_window :: "schedule_window \<Rightarrow> bool" where
  "valid_window w \<longleftrightarrow> 1 \<le> win_weekday w \<and> win_weekday w \<le> 7 \<and>
     (\<exists>a. fromisoformat (win_start w) = Inr a) \<and> (win_end w = ''24:00'' \<or> (\<exists>b. fromisoformat (win_end w) = Inr b)) \<and>
     win_start w \<noteq> win_end w \<and> win_start w \<noteq> ''24:00'' \<and> (win_end w \<noteq> ''24:00'' \<longrightarrow> \<not> win_end w < win_start w)"

section \<open>Watchlists and tasks\<close>

record threshold_policy =
  thp_policy_version :: string
  thp_face_threshold :: "pyfloat option"
  thp_body_threshold :: "pyfloat option"
  thp_min_face_quality :: pyfloat
  thp_min_body_quality :: pyfloat
  thp_face_weight :: pyfloat
  thp_body_weight :: pyfloat

record task_binding =
  tbd_binding_id :: string
  tbd_source_id :: string
  tbd_camera_id :: string
  tbd_active_run_id :: "string option"
  tbd_stream_session_id :: "string option"
  tbd_last_error :: "string option"

record watchlist =
  wl_watchlist_id :: string
  wl_tenant_id :: string
  wl_project_id :: string
  wl_name :: string
  wl_category :: watchlist_category
  wl_description :: string
  wl_status :: watchlist_status
  wl_created_by :: string
  wl_created_at :: pyfloat
  wl_updated_at :: pyfloat
  wl_revision :: int

record watchlist_member =
  wm_member_id :: string
  wm_tenant_id :: string
  wm_project_id :: string
  wm_watchlist_id :: string
  wm_portrait_identity_id :: string
  wm_status :: member_status
  wm_display_label :: string
  wm_valid_from :: "pyfloat option"
  wm_valid_until :: "pyfloat option"
  wm_created_by :: string
  wm_created_at :: pyfloat
  wm_updated_at :: pyfloat
  wm_revision :: int

definition active_at :: "watchlist_member \<Rightarrow> pyfloat \<Rightarrow> bool" where
  "active_at m moment \<longleftrightarrow> wm_status m = MEMBER_ACTIVE \<and>
     (case wm_valid_from m of None \<Rightarrow> True | Some a \<Rightarrow> a \<le> moment) \<and>
     (case wm_valid_until m of None \<Rightarrow> True | Some b \<Rightarrow> moment < b)"

record surveillance_task =
  tsk_task_id :: string
  tsk_tenant_id :: string
  tsk_project_id :: string
  tsk_name :: string
  tsk_status :: task_status
  tsk_watchlist_ids :: "string list"
  tsk_bindings :: "task_binding list"
  tsk_schedule :: "surveillance_schedule attr"
  tsk_match_policy :: match_policy
  tsk_threshold_policy :: "threshold_policy attr"
  tsk_cooldown_seconds :: int
  tsk_alert_level :: alert_level
  tsk_created_by :: string
  tsk_created_at :: pyfloat
  tsk_updated_at :: pyfloat
  tsk_revision :: int

section \<open>Alerts\<close>

record alert_record =
  alr_alert_id :: string
  alr_tenant_id :: string
  alr_project_id :: string
  alr_task_id :: string
  alr_binding_id :: string
  alr_watchlist_id :: string
  alr_member_id :: string
  alr_portrait_identity_id :: string
  alr_source_id :: string
  alr_camera_id :: string
  alr_run_id :: string
  alr_unit_id :: string
  alr_track_id :: string
  alr_trajectory_identity_id :: "string option"
  alr_trajectory_segment_id :: "string option"
  alr_match_score :: pyfloat
  alr_max_score :: pyfloat
  alr_modality :: alert_modality
  alr_threshold_policy_version :: string
  alr_model_bindings :: "(string, (string, string) dict) dict"
  alr_snapshot_artifact_id :: "string option"
  alr_snapshot_retention_expires_at :: "pyfloat option"
  alr_status :: alert_status
  alr_first_seen_at :: pyfloat
  alr_last_seen_at :: pyfloat
  alr_triggered_at :: pyfloat
  alr_occurrence_count :: int
  alr_idempotency_key :: string
  alr_created_at :: pyfloat
  alr_updated_at :: pyfloat
  alr_revision :: int
  alr_triaged_by :: "string option"
  alr_triaged_at :: "pyfloat option"
  alr_triage_reason :: string
  alr_triage_notes :: string

record alert_event =
  ale_event_id :: string
  ale_event_cursor :: int
  ale_event_type :: string
  ale_event_version :: string
  ale_occurred_at :: string
  ale_producer :: string
  ale_tenant_id :: string
  ale_project_id :: string
  ale_trace_id :: "string option"
  ale_alert_id :: string
  ale_task_id :: string
  ale_camera_id :: string
  ale_portrait_identity_id :: string
  ale_match_score :: pyfloat
  ale_modality :: alert_modality
  ale_snapshot_artifact_id :: "string option"
  ale_deduplication_key :: string
  ale_status :: alert_status
  ale_created_at :: pyfloat

record debounce_state =
  dbs_debounce_key :: string
  dbs_tenant_id :: string
  dbs_project_id :: string
  dbs_task_id :: string
  dbs_binding_id :: string
  dbs_watchlist_id :: string
  dbs_portrait_identity_id :: string
  dbs_first_seen_at :: pyfloat
  dbs_last_seen_at :: pyfloat
  dbs_last_alert_id :: "string option"
  dbs_occurrence_count :: int
  dbs_max_score :: pyfloat
  dbs_modality :: alert_modality
  dbs_cooldown_until :: pyfloat
  dbs_revision :: int

datatype evidence_modality = EVIDENCE_FACE | EVIDENCE_BODY

record observation_evidence =
  obe_modality :: evidence_modality
  obe_embedding :: "pyfloat list"
  obe_quality :: pyfloat
  obe_model_id :: string
  obe_model_version :: string

record observation_batch =
  obs_run_id :: string
  obs_source_id :: string
  obs_camera_id :: string
  obs_unit_id :: string
  obs_track_id :: string
  obs_first_seen_at :: pyfloat
  obs_last_seen_at :: pyfloat
  obs_pts_ms :: "int option"
  obs_timestamp_source :: string
  obs_evidence :: "observation_evidence list"
  obs_snapshot_artifact_id :: "string option"
  obs_snapshot_object_key :: "string option"
  obs_trajectory_identity_id :: "string option"
  obs_trajectory_segment_id :: "string option"
  obs_trace_id :: "string option"

record alert_candidate =
  cnd_alert :: alert_record
  cnd_event :: alert_event
  cnd_debounce :: debounce_state

record alert_write_result =
  awr_alert :: alert_record
  awr_event :: "alert_event option"
  awr_emitted :: bool

end
