(* ===== verification/Surveillance_Store.thy ===== *)
theory Surveillance_Store
  imports Surveillance_Models Store_Runs
begin

text \<open>
  \<open>MemorySurveillanceRepository\<close> (\<open>infrastructure/memory_surveillance.py\<close>): one definition per method,
  each atomic under the repository's lock. The locales of tables and of versioned rows are
  interpreted on its watchlists, members, tasks and alerts.
\<close>

record surveillance_repository =
  srv_watchlists :: "(key3, watchlist) dict"
  srv_members :: "(key3, watchlist_member) dict"
  srv_tasks :: "(key3, surveillance_task) dict"
  srv_alerts :: "(key3, alert_record) dict"
  srv_events :: "(string \<times> string, alert_event list) dict"
  srv_debounce :: "(key3, debounce_state) dict"
  srv_idempotency :: "(key3, string) dict"

definition surveillance_init :: surveillance_repository where
  "surveillance_init = \<lparr>srv_watchlists = [], srv_members = [], srv_tasks = [], srv_alerts = [], srv_events = [],
     srv_debounce = [], srv_idempotency = []\<rparr>"

type_synonym srv = surveillance_repository

definition watchlist_key :: "watchlist \<Rightarrow> key3" where
  "watchlist_key w = store_key (wl_tenant_id w) (wl_project_id w) (wl_watchlist_id w)"

definition member_key :: "watchlist_member \<Rightarrow> key3" where
  "member_key m = store_key (wm_tenant_id m) (wm_project_id m) (wm_member_id m)"

definition task_key :: "surveillance_task \<Rightarrow> key3" where
  "task_key t = store_key (tsk_tenant_id t) (tsk_project_id t) (tsk_task_id t)"

definition alert_key :: "alert_record \<Rightarrow> key3" where
  "alert_key a = store_key (alr_tenant_id a) (alr_project_id a) (alr_alert_id a)"

section \<open>Watchlists\<close>

definition create_watchlist :: "watchlist \<Rightarrow> (srv, watchlist) py" where
  "create_watchlist w s =
     (if dict_get (srv_watchlists s) (watchlist_key w) \<noteq> None
      then (Inl (SurveillanceConflict ''watchlist already exists''), s)
      else (Inr w, s\<lparr>srv_watchlists := dict_set (watchlist_key w) w (srv_watchlists s)\<rparr>))"

definition get_watchlist :: "string \<Rightarrow> string \<Rightarrow> string \<Rightarrow> srv \<Rightarrow> watchlist option" where
  "get_watchlist tenant_id project_id watchlist_id s =
     dict_get (srv_watchlists s) (store_key tenant_id project_id watchlist_id)"

definition list_watchlists :: "string \<Rightarrow> string \<Rightarrow> int \<Rightarrow> int \<Rightarrow> srv \<Rightarrow> watchlist list \<times> int" where
  "list_watchlists tenant_id project_id off lmt s =
     (let rows = py_sorted (\<lambda>w. (- wl_updated_at w, wl_watchlist_id w)) (scoped_rows tenant_id project_id (srv_watchlists s)) in
      (py_slice rows off (off + lmt), int (length rows)))"

definition save_watchlist :: "watchlist \<Rightarrow> int \<Rightarrow> (srv, watchlist) py" where
  "save_watchlist w expected_revision s =
     (case dict_get (srv_watchlists s) (watchlist_key w) of
        None \<Rightarrow> (Inl (SurveillanceConflict ''watchlist does not exist''), s)
      | Some current \<Rightarrow>
          if wl_revision current \<noteq> expected_revision
          then (Inl (SurveillanceConflict ''watchlist revision conflict''), s)
          else let stored = w\<lparr>wl_revision := expected_revision + 1\<rparr> in
            (Inr stored, s\<lparr>srv_watchlists := dict_set (watchlist_key w) stored (srv_watchlists s)\<rparr>))"

definition in_watchlist :: "string \<Rightarrow> string \<Rightarrow> string \<Rightarrow> watchlist_member \<Rightarrow> bool" where
  "in_watchlist tenant_id project_id watchlist_id m \<longleftrightarrow>
     wm_tenant_id m = tenant_id \<and> wm_project_id m = project_id \<and> wm_watchlist_id m = watchlist_id"

definition delete_watchlist :: "string \<Rightarrow> string \<Rightarrow> string \<Rightarrow> (srv, bool) py" where
  "delete_watchlist tenant_id project_id watchlist_id s =
     (let key = store_key tenant_id project_id watchlist_id in
      if dict_get (srv_watchlists s) key = None then (Inr False, s)
      else (Inr True, s\<lparr>srv_watchlists := dict_pop key (srv_watchlists s),
        srv_members := filter (\<lambda>kv. \<not> in_watchlist tenant_id project_id watchlist_id (snd kv)) (srv_members s)\<rparr>))"

section \<open>Members\<close>

definition same_membership :: "watchlist_member \<Rightarrow> watchlist_member \<Rightarrow> bool" where
  "same_membership m item \<longleftrightarrow> wm_tenant_id item = wm_tenant_id m \<and> wm_project_id item = wm_project_id m \<and>
     wm_watchlist_id item = wm_watchlist_id m \<and> wm_portrait_identity_id item = wm_portrait_identity_id m"

definition create_member :: "watchlist_member \<Rightarrow> (srv, watchlist_member) py" where
  "create_member m s =
     (if dict_get (srv_members s) (member_key m) \<noteq> None
      then (Inl (SurveillanceConflict ''watchlist member already exists''), s)
      else if list_ex (same_membership m) (map snd (srv_members s))
      then (Inl (SurveillanceConflict ''portrait identity is already a member of this watchlist''), s)
      else (Inr m, s\<lparr>srv_members := dict_set (member_key m) m (srv_members s)\<rparr>))"

definition get_member :: "string \<Rightarrow> string \<Rightarrow> string \<Rightarrow> srv \<Rightarrow> watchlist_member option" where
  "get_member tenant_id project_id member_id s = dict_get (srv_members s) (store_key tenant_id project_id member_id)"

definition list_members :: "string \<Rightarrow> string \<Rightarrow> string \<Rightarrow> int \<Rightarrow> int \<Rightarrow> srv \<Rightarrow> watchlist_member list \<times> int" where
  "list_members tenant_id project_id watchlist_id off lmt s =
     (let rows = py_sorted (\<lambda>m. (- wm_updated_at m, wm_member_id m))
        (filter (in_watchlist tenant_id project_id watchlist_id) (map snd (srv_members s))) in
      (py_slice rows off (off + lmt), int (length rows)))"

definition list_active_members :: "string \<Rightarrow> string \<Rightarrow> string list \<Rightarrow> pyfloat \<Rightarrow> srv \<Rightarrow> watchlist_member list" where
  "list_active_members tenant_id project_id watchlist_ids moment s =
     filter (\<lambda>m. wm_tenant_id m = tenant_id \<and> wm_project_id m = project_id \<and> wm_watchlist_id m \<in> set watchlist_ids \<and>
       active_at m moment) (map snd (srv_members s))"

definition save_member :: "watchlist_member \<Rightarrow> int \<Rightarrow> (srv, watchlist_member) py" where
  "save_member m expected_revision s =
     (case dict_get (srv_members s) (member_key m) of
        None \<Rightarrow> (Inl (SurveillanceConflict ''watchlist member does not exist''), s)
      | Some current \<Rightarrow>
          if wm_revision current \<noteq> expected_revision
          then (Inl (SurveillanceConflict ''watchlist member revision conflict''), s)
          else let stored = m\<lparr>wm_revision := expected_revision + 1\<rparr> in
            (Inr stored, s\<lparr>srv_members := dict_set (member_key m) stored (srv_members s)\<rparr>))"

definition delete_member :: "string \<Rightarrow> string \<Rightarrow> string \<Rightarrow> (srv, bool) py" where
  "delete_member tenant_id project_id member_id s =
     (let key = store_key tenant_id project_id member_id in
      (Inr (dict_get (srv_members s) key \<noteq> None), s\<lparr>srv_members := dict_pop key (srv_members s)\<rparr>))"

section \<open>Tasks\<close>

definition create_task :: "surveillance_task \<Rightarrow> (srv, surveillance_task) py" where
  "create_task t s =
     (if dict_get (srv_tasks s) (task_key t) \<noteq> None
      then (Inl (SurveillanceConflict ''surveillance task already exists''), s)
      else (Inr t, s\<lparr>srv_tasks := dict_set (task_key t) t (srv_tasks s)\<rparr>))"

definition get_task :: "string \<Rightarrow> string \<Rightarrow> string \<Rightarrow> srv \<Rightarrow> surveillance_task option" where
  "get_task tenant_id project_id task_id s = dict_get (srv_tasks s) (store_key tenant_id project_id task_id)"

definition list_tasks :: "string \<Rightarrow> string \<Rightarrow> int \<Rightarrow> int \<Rightarrow> srv \<Rightarrow> surveillance_task list \<times> int" where
  "list_tasks tenant_id project_id off lmt s =
     (let rows = py_sorted (\<lambda>t. (- tsk_updated_at t, tsk_task_id t)) (scoped_rows tenant_id project_id (srv_tasks s)) in
      (py_slice rows off (off + lmt), int (length rows)))"

definition list_all_active_tasks :: "srv \<Rightarrow> surveillance_task list" where
  "list_all_active_tasks s = filter (\<lambda>t. tsk_status t = TASK_ACTIVE) (map snd (srv_tasks s))"

definition list_active_tasks :: "string \<Rightarrow> string \<Rightarrow> srv \<Rightarrow> surveillance_task list" where
  "list_active_tasks tenant_id project_id s =
     filter (\<lambda>t. tsk_tenant_id t = tenant_id \<and> tsk_project_id t = project_id \<and> tsk_status t = TASK_ACTIVE)
       (map snd (srv_tasks s))"

definition list_active_tasks_for_source :: "string \<Rightarrow> string \<Rightarrow> string \<Rightarrow> srv \<Rightarrow> surveillance_task list" where
  "list_active_tasks_for_source tenant_id project_id source_id s =
     filter (\<lambda>t. tsk_tenant_id t = tenant_id \<and> tsk_project_id t = project_id \<and> tsk_status t = TASK_ACTIVE \<and>
         list_ex (\<lambda>b. tbd_source_id b = source_id) (tsk_bindings t))
       (map snd (srv_tasks s))"

definition save_task :: "surveillance_task \<Rightarrow> int \<Rightarrow> (srv, surveillance_task) py" where
  "save_task t expected_revision s =
     (case dict_get (srv_tasks s) (task_key t) of
        None \<Rightarrow> (Inl (SurveillanceConflict ''surveillance task does not exist''), s)
      | Some current \<Rightarrow>
          if tsk_revision current \<noteq> expected_revision
          then (Inl (SurveillanceConflict ''surveillance task revision conflict''), s)
          else let stored = t\<lparr>tsk_revision := expected_revision + 1\<rparr> in
            (Inr stored, s\<lparr>srv_tasks := dict_set (task_key t) stored (srv_tasks s)\<rparr>))"

section \<open>Alerts\<close>

definition events_of :: "string \<times> string \<Rightarrow> srv \<Rightarrow> alert_event list" where
  "events_of key s = (case dict_get (srv_events s) key of None \<Rightarrow> [] | Some es \<Rightarrow> es)"

text \<open>An event appended to the log of its tenant and project, with the next cursor.\<close>

definition numbered_event :: "string \<times> string \<Rightarrow> alert_event \<Rightarrow> srv \<Rightarrow> alert_event" where
  "numbered_event key ev s = ev\<lparr>ale_event_cursor := int (length (events_of key s)) + 1\<rparr>"

definition push_event :: "string \<times> string \<Rightarrow> alert_event \<Rightarrow> srv \<Rightarrow> srv" where
  "push_event key ev s = s\<lparr>srv_events := dict_set key (events_of key s @ [numbered_event key ev s]) (srv_events s)\<rparr>"

definition debounce_key :: "alert_candidate \<Rightarrow> key3" where
  "debounce_key c = store_key (alr_tenant_id (cnd_alert c)) (alr_project_id (cnd_alert c)) (dbs_debounce_key (cnd_debounce c))"

definition alert_idempotency_key :: "alert_record \<Rightarrow> key3" where
  "alert_idempotency_key a = store_key (alr_tenant_id a) (alr_project_id a) (alr_idempotency_key a)"

definition scope_of :: "alert_record \<Rightarrow> string \<times> string" where
  "scope_of a = (alr_tenant_id a, alr_project_id a)"

text \<open>The alert a sighting within the cooldown is merged into.\<close>

definition cooling_alert :: "alert_candidate \<Rightarrow> srv \<Rightarrow> (debounce_state \<times> alert_record) option" where
  "cooling_alert c s = (case dict_get (srv_debounce s) (debounce_key c) of
     None \<Rightarrow> None
   | Some st \<Rightarrow>
       if alr_triggered_at (cnd_alert c) < dbs_cooldown_until st
       then (case dbs_last_alert_id st of
           None \<Rightarrow> None
         | Some i \<Rightarrow> map_option (Pair st) (dict_get (srv_alerts s)
             (store_key (alr_tenant_id (cnd_alert c)) (alr_project_id (cnd_alert c)) i)))
       else None)"

definition merged_alert :: "alert_record \<Rightarrow> alert_record \<Rightarrow> alert_record" where
  "merged_alert a existing = existing\<lparr>
     alr_last_seen_at := max (alr_last_seen_at existing) (alr_last_seen_at a),
     alr_match_score := alr_match_score a,
     alr_max_score := max (alr_max_score existing) (alr_max_score a),
     alr_occurrence_count := alr_occurrence_count existing + 1,
     alr_updated_at := alr_updated_at a,
     alr_revision := alr_revision existing + 1\<rparr>"

definition merged_debounce :: "alert_record \<Rightarrow> debounce_state \<Rightarrow> debounce_state" where
  "merged_debounce a st = st\<lparr>
     dbs_last_seen_at := max (dbs_last_seen_at st) (alr_last_seen_at a),
     dbs_max_score := max (dbs_max_score st) (alr_max_score a),
     dbs_occurrence_count := dbs_occurrence_count st + 1,
     dbs_revision := dbs_revision st + 1\<rparr>"

definition duplicate_alert :: "alert_record \<Rightarrow> srv \<Rightarrow> alert_record option" where
  "duplicate_alert a s = (case dict_get (srv_idempotency s) (alert_idempotency_key a) of
     None \<Rightarrow> None
   | Some i \<Rightarrow> dict_get (srv_alerts s) (store_key (alr_tenant_id a) (alr_project_id a) i))"

definition record_alert :: "alert_candidate \<Rightarrow> (srv, alert_write_result) py" where
  "record_alert c s =
     (let a = cnd_alert c in
      case cooling_alert c s of
        Some (st, existing) \<Rightarrow>
          let updated = merged_alert a existing in
          (Inr \<lparr>awr_alert = updated, awr_event = None, awr_emitted = False\<rparr>,
           s\<lparr>srv_alerts := dict_set (store_key (alr_tenant_id a) (alr_project_id a) (alr_alert_id updated)) updated
               (srv_alerts s),
             srv_debounce := dict_set (debounce_key c) (merged_debounce a st) (srv_debounce s)\<rparr>)
      | None \<Rightarrow> (case duplicate_alert a s of
          Some d \<Rightarrow> (Inr \<lparr>awr_alert = d, awr_event = None, awr_emitted = False\<rparr>, s)
        | None \<Rightarrow>
            (Inr \<lparr>awr_alert = a, awr_event = Some (numbered_event (scope_of a) (cnd_event c) s), awr_emitted = True\<rparr>,
             (push_event (scope_of a) (cnd_event c) s)
               \<lparr>srv_alerts := dict_set (alert_key a) a (srv_alerts s),
                srv_idempotency := dict_set (alert_idempotency_key a) (alr_alert_id a) (srv_idempotency s),
                srv_debounce := dict_set (debounce_key c) ((cnd_debounce c)\<lparr>dbs_last_alert_id := Some (alr_alert_id a)\<rparr>)
                  (srv_debounce s)\<rparr>)))"

definition get_alert :: "string \<Rightarrow> string \<Rightarrow> string \<Rightarrow> srv \<Rightarrow> alert_record option" where
  "get_alert tenant_id project_id alert_id s = dict_get (srv_alerts s) (store_key tenant_id project_id alert_id)"

record alert_filter =
  flt_status :: "alert_status option"
  flt_task_id :: "string option"
  flt_camera_id :: "string option"
  flt_watchlist_id :: "string option"
  flt_portrait_identity_id :: "string option"
  flt_since :: "pyfloat option"
  flt_until :: "pyfloat option"

definition matches_filter :: "alert_filter \<Rightarrow> alert_record \<Rightarrow> bool" where
  "matches_filter f a \<longleftrightarrow>
     (flt_status f = None \<or> flt_status f = Some (alr_status a)) \<and>
     (flt_task_id f = None \<or> flt_task_id f = Some (alr_task_id a)) \<and>
     (flt_camera_id f = None \<or> flt_camera_id f = Some (alr_camera_id a)) \<and>
     (flt_watchlist_id f = None \<or> flt_watchlist_id f = Some (alr_watchlist_id a)) \<and>
     (flt_portrait_identity_id f = None \<or> flt_portrait_identity_id f = Some (alr_portrait_identity_id a)) \<and>
     (case flt_since f of None \<Rightarrow> True | Some t \<Rightarrow> t \<le> alr_last_seen_at a) \<and>
     (case flt_until f of None \<Rightarrow> True | Some t \<Rightarrow> alr_first_seen_at a \<le> t)"

definition alert_ordering :: "string \<Rightarrow> string \<Rightarrow> alert_filter \<Rightarrow> srv \<Rightarrow> alert_record list" where
  "alert_ordering tenant_id project_id f s =
     py_sorted (\<lambda>a. (- alr_triggered_at a, alr_alert_id a))
       (filter (\<lambda>a. alr_tenant_id a = tenant_id \<and> alr_project_id a = project_id \<and> matches_filter f a)
         (map snd (srv_alerts s)))"

definition list_alerts :: "string \<Rightarrow> string \<Rightarrow> alert_filter \<Rightarrow> int \<Rightarrow> int \<Rightarrow> srv \<Rightarrow> alert_record list \<times> int" where
  "list_alerts tenant_id project_id f off lmt s =
     (let rows = alert_ordering tenant_id project_id f s in (py_slice rows off (off + lmt), int (length rows)))"

definition triage_alert :: "alert_record \<Rightarrow> alert_event \<Rightarrow> int \<Rightarrow> (srv, alert_write_result) py" where
  "triage_alert a ev expected_revision s =
     (case dict_get (srv_alerts s) (alert_key a) of
        None \<Rightarrow> (Inl (SurveillanceConflict ''alert does not exist''), s)
      | Some current \<Rightarrow>
          if alr_revision current \<noteq> expected_revision
          then (Inl (SurveillanceConflict ''alert revision conflict''), s)
          else if alr_status current \<noteq> ALERT_PENDING
          then (Inl (SurveillanceConflict ''alert has already been triaged''), s)
          else
            let stored = a\<lparr>alr_revision := expected_revision + 1\<rparr>;
                stored_event = numbered_event (scope_of stored) ev s in
            (Inr \<lparr>awr_alert = stored, awr_event = Some stored_event, awr_emitted = True\<rparr>,
             (push_event (scope_of stored) ev s)\<lparr>srv_alerts := dict_set (alert_key a) stored (srv_alerts s)\<rparr>))"

text \<open>Looking up a missing log in the \<open>defaultdict\<close> creates an empty one.\<close>

definition alert_events_after :: "string \<Rightarrow> string \<Rightarrow> int \<Rightarrow> int \<Rightarrow> (srv, alert_event list) py" where
  "alert_events_after tenant_id project_id cursor lmt s =
     (let key = (tenant_id, project_id) in
      (Inr (py_slice (filter (\<lambda>ev. cursor < ale_event_cursor ev) (events_of key s)) 0 lmt),
       s\<lparr>srv_events := dict_setdefault key [] (srv_events s)\<rparr>))"

section \<open>The tables of the repository\<close>

lemma keys_of_copies [simp]:
  "watchlist_key (w\<lparr>wl_revision := n\<rparr>) = watchlist_key w" "member_key (m\<lparr>wm_revision := n\<rparr>) = member_key m"
  "task_key (t\<lparr>tsk_revision := n\<rparr>) = task_key t" "alert_key (a\<lparr>alr_revision := n\<rparr>) = alert_key a"
  "alert_key (merged_alert b existing) = alert_key existing" "scope_of (a\<lparr>alr_revision := n\<rparr>) = scope_of a"
  by (simp_all add: watchlist_key_def member_key_def task_key_def alert_key_def merged_alert_def scope_of_def)

interpretation watchlists: tenant_table srv_watchlists watchlist_key "\<lambda>_ _. True"
  create_watchlist get_watchlist SurveillanceConflict
  by unfold_locales (auto simp: create_watchlist_def get_watchlist_def)

interpretation watchlist_members: tenant_table srv_members member_key
  "\<lambda>m s. \<not> list_ex (same_membership m) (map snd (srv_members s))" create_member get_member SurveillanceConflict
  by unfold_locales (auto simp: create_member_def get_member_def)

interpretation surveillance_tasks: tenant_table srv_tasks task_key "\<lambda>_ _. True"
  create_task get_task SurveillanceConflict
  by unfold_locales (auto simp: create_task_def get_task_def)

interpretation watchlist_rows: versioned_rows "\<lambda>k s. dict_get (srv_watchlists s) k" watchlist_key wl_revision
  save_watchlist SurveillanceConflict
  by unfold_locales (auto simp: save_watchlist_def Let_def)

interpretation member_rows: versioned_rows "\<lambda>k s. dict_get (srv_members s) k" member_key wm_revision
  save_member SurveillanceConflict
  by unfold_locales (auto simp: save_member_def Let_def)

interpretation task_rows: versioned_rows "\<lambda>k s. dict_get (srv_tasks s) k" task_key tsk_revision
  save_task SurveillanceConflict
  by unfold_locales (auto simp: save_task_def Let_def)

end
