(* ===== verification/Portrait_Service.thy ===== *)
theory Portrait_Service
  imports Index_Store Repository_World Run_Lifecycle
begin

text \<open>
  Portrait identities (\<open>domains/portrait/service.py\<close>): \<open>MemoryPortraitRepository\<close> and \<open>PortraitService\<close>,
  which enrols biometric vectors in the feature store and, when there is one, in the index store,
  searches and compares them, and deletes them with the identity. Decoding an image and
  computing the embedding of a face is a parameter.
\<close>

section \<open>The repository\<close>

record portrait_identity =
  idn_identity_id :: string
  idn_tenant_id :: string
  idn_project_id :: string
  idn_display_name :: string
  idn_metadata :: json_dict
  idn_created_at :: pyfloat
  idn_updated_at :: pyfloat

record portrait_enrollment =
  enr_enrollment_id :: string
  enr_tenant_id :: string
  enr_project_id :: string
  enr_identity_id :: string
  enr_feature_id :: string
  enr_feature_space_id :: string
  enr_modality :: string
  enr_quality :: pyfloat
  enr_created_at :: pyfloat
  enr_expires_at :: "pyfloat option"
  enr_index_record_id :: "string option"

record portrait_repository =
  por_identities :: "(key3, portrait_identity) dict"
  por_enrollments :: "(key3, portrait_enrollment) dict"

definition portrait_init :: portrait_repository where
  "portrait_init = \<lparr>por_identities = [], por_enrollments = []\<rparr>"

definition identity_key :: "portrait_identity \<Rightarrow> key3" where
  "identity_key r = store_key (idn_tenant_id r) (idn_project_id r) (idn_identity_id r)"

definition enrollment_key :: "portrait_enrollment \<Rightarrow> key3" where
  "enrollment_key r = store_key (enr_tenant_id r) (enr_project_id r) (enr_feature_id r)"

definition create_identity :: "portrait_identity \<Rightarrow> (portrait_repository, portrait_identity) py" where
  "create_identity r s =
     (if dict_get (por_identities s) (identity_key r) \<noteq> None
      then (Inl (PortraitConflict ''portrait identity already exists''), s)
      else (Inr r, s\<lparr>por_identities := dict_set (identity_key r) r (por_identities s)\<rparr>))"

definition get_identity :: "string \<Rightarrow> string \<Rightarrow> string \<Rightarrow> portrait_repository \<Rightarrow> portrait_identity option" where
  "get_identity tenant_id project_id identity_id s = dict_get (por_identities s) (store_key tenant_id project_id identity_id)"

definition list_identities :: "string \<Rightarrow> string \<Rightarrow> portrait_repository \<Rightarrow> portrait_identity list" where
  "list_identities tenant_id project_id s =
     py_sorted_desc (\<lambda>r. (idn_created_at r, idn_identity_id r)) (scoped_rows tenant_id project_id (por_identities s))"

definition enrolled_for :: "string \<Rightarrow> string \<Rightarrow> string \<Rightarrow> portrait_enrollment \<Rightarrow> bool" where
  "enrolled_for tenant_id project_id identity_id r \<longleftrightarrow>
     (enr_tenant_id r, enr_project_id r, enr_identity_id r) = (tenant_id, project_id, identity_id)"

definition delete_identity :: "string \<Rightarrow> string \<Rightarrow> string \<Rightarrow> (portrait_repository, bool) py" where
  "delete_identity tenant_id project_id identity_id s =
     (let key = store_key tenant_id project_id identity_id in
      if dict_get (por_identities s) key = None then (Inr False, s)
      else (Inr True, s\<lparr>por_identities := dict_pop key (por_identities s),
        por_enrollments := filter (\<lambda>kv. \<not> enrolled_for tenant_id project_id identity_id (snd kv)) (por_enrollments s)\<rparr>))"

definition create_enrollment :: "portrait_enrollment \<Rightarrow> (portrait_repository, portrait_enrollment) py" where
  "create_enrollment r s =
     (if dict_get (por_enrollments s) (enrollment_key r) \<noteq> None
      then (Inl (PortraitConflict ''portrait enrollment already exists''), s)
      else (Inr r, s\<lparr>por_enrollments := dict_set (enrollment_key r) r (por_enrollments s)\<rparr>))"

definition get_enrollment_by_feature :: "string \<Rightarrow> string \<Rightarrow> string \<Rightarrow> portrait_repository \<Rightarrow> portrait_enrollment option" where
  "get_enrollment_by_feature tenant_id project_id feature_id s =
     dict_get (por_enrollments s) (store_key tenant_id project_id feature_id)"

definition list_enrollments :: "string \<Rightarrow> string \<Rightarrow> string \<Rightarrow> portrait_repository \<Rightarrow> portrait_enrollment list" where
  "list_enrollments tenant_id project_id identity_id s =
     py_sorted (\<lambda>r. (enr_created_at r, enr_enrollment_id r))
       (filter (enrolled_for tenant_id project_id identity_id) (map snd (por_enrollments s)))"

interpretation identities: tenant_table por_identities identity_key "\<lambda>_ _. True"
  create_identity get_identity PortraitConflict
  by unfold_locales (auto simp: create_identity_def get_identity_def)

interpretation enrollments: tenant_table por_enrollments enrollment_key "\<lambda>_ _. True"
  create_enrollment get_enrollment_by_feature PortraitConflict
  by unfold_locales (auto simp: create_enrollment_def get_enrollment_by_feature_def)

section \<open>The three stores behind the service\<close>

record portrait_backends =
  pbk_portraits :: portrait_repository
  pbk_features :: feature_store
  pbk_indexes :: index_store

definition in_portraits :: "(portrait_repository, 'a) py \<Rightarrow> ('z portrait_backends_scheme, 'a) py" where
  "in_portraits m b = (case m (pbk_portraits b) of (r, s) \<Rightarrow> (r, b\<lparr>pbk_portraits := s\<rparr>))"

definition in_features :: "(feature_store, 'a) py \<Rightarrow> ('z portrait_backends_scheme, 'a) py" where
  "in_features m b = (case m (pbk_features b) of (r, s) \<Rightarrow> (r, b\<lparr>pbk_features := s\<rparr>))"

definition in_indexes :: "(index_store, 'a) py \<Rightarrow> ('z portrait_backends_scheme, 'a) py" where
  "in_indexes m b = (case m (pbk_indexes b) of (r, s) \<Rightarrow> (r, b\<lparr>pbk_indexes := s\<rparr>))"

text \<open>A query of a store that may raise and changes nothing.\<close>

definition asking :: "('s \<Rightarrow> exn + 'a) \<Rightarrow> ('s, 'a) py" where
  "asking f s = (f s, s)"

record portrait_embedding =
  emb_embedding :: "pyfloat list"
  emb_feature_space_id :: string
  emb_model_id :: string
  emb_model_version :: string
  emb_face_count :: int
  emb_selected_face_index :: int
  emb_selected_face_box :: "pyfloat list option"
  emb_quality_score :: "pyfloat option"
  emb_fallback :: bool
  emb_metadata :: json_dict

text \<open>The settings of the service: whether it has an index store, the encoder and \<open>math.sqrt\<close>.\<close>

record portrait_settings =
  pts_indexed :: bool
  pts_encode :: "string \<Rightarrow> exn + portrait_embedding"
  pts_sqrt :: "pyfloat \<Rightarrow> pyfloat"

section \<open>Identities\<close>

definition portrait_allow ::
  "'v service \<Rightarrow> principal_context \<Rightarrow> string \<Rightarrow> string \<Rightarrow> json_dict \<Rightarrow> ('r beside, unit) py" where
  "portrait_allow sv ctx action resource attributes = on_world (allow sv ctx action resource attributes)"

definition portrait_record ::
  "'v service \<Rightarrow> principal_context \<Rightarrow> string \<Rightarrow> string \<Rightarrow> string option \<Rightarrow> json_dict \<Rightarrow> ('r beside, unit) py" where
  "portrait_record sv ctx action resource_type resource_id evidence =
     andthen (on_world (audit_record sv ctx action resource_type resource_id ''success'' evidence)) (\<lambda>_. ret ())"

type_synonym 'z portrait_world = "'z portrait_backends_scheme beside"

definition ps_create_identity ::
  "'v service \<Rightarrow> principal_context \<Rightarrow> string \<Rightarrow> json_dict \<Rightarrow> ('z portrait_world, portrait_identity) py" where
  "ps_create_identity sv ctx display_name metadata =
     andthen (portrait_allow sv ctx ''create'' ''portrait_identity'' []) (\<lambda>_.
     andthen (on_world time_time) (\<lambda>now.
     andthen (on_world uuid4_hex) (\<lambda>u.
     andthen (repo_call (in_portraits (create_identity \<lparr>idn_identity_id = ''idn_'' @ u, idn_tenant_id = ctx_tenant_id ctx,
         idn_project_id = ctx_project_id ctx, idn_display_name = display_name, idn_metadata = metadata,
         idn_created_at = now, idn_updated_at = now\<rparr>))) (\<lambda>stored.
     andthen (portrait_record sv ctx ''portrait.identity.create'' ''portrait_identity'' (Some (''idn_'' @ u)) [])
       (\<lambda>_. ret stored)))))"

definition ps_get_identity ::
  "'v service \<Rightarrow> principal_context \<Rightarrow> string \<Rightarrow> ('z portrait_world, portrait_identity) py" where
  "ps_get_identity sv ctx identity_id =
     andthen (portrait_allow sv ctx ''read'' ''portrait_identity'' [(''identity_id'', JStr identity_id)]) (\<lambda>_.
     andthen (repo_read (\<lambda>b. get_identity (ctx_tenant_id ctx) (ctx_project_id ctx) identity_id (pbk_portraits b))) (\<lambda>found.
       case found of None \<Rightarrow> throw (PortraitNotFound ''portrait identity not found'') | Some r \<Rightarrow> ret r))"

definition ps_list_identities ::
  "'v service \<Rightarrow> principal_context \<Rightarrow> int \<Rightarrow> int \<Rightarrow> ('z portrait_world, portrait_identity list \<times> int) py" where
  "ps_list_identities sv ctx off lmt =
     andthen (portrait_allow sv ctx ''list'' ''portrait_identity'' []) (\<lambda>_.
     andthen (repo_read (\<lambda>b. list_identities (ctx_tenant_id ctx) (ctx_project_id ctx) (pbk_portraits b))) (\<lambda>rows.
       ret (py_slice rows off (off + lmt), int (length rows))))"

definition ps_delete_identity ::
  "'v service \<Rightarrow> portrait_settings \<Rightarrow> principal_context \<Rightarrow> string \<Rightarrow> (key3 \<Rightarrow> pyfloat) \<Rightarrow> ('z portrait_world, unit) py" where
  "ps_delete_identity sv ps ctx identity_id marked_at =
     andthen (portrait_allow sv ctx ''delete'' ''portrait_identity'' [(''identity_id'', JStr identity_id)]) (\<lambda>_.
     andthen (repo_read (\<lambda>b. get_identity (ctx_tenant_id ctx) (ctx_project_id ctx) identity_id (pbk_portraits b))) (\<lambda>found.
       case found of
         None \<Rightarrow> throw (PortraitNotFound ''portrait identity not found'')
       | Some _ \<Rightarrow>
           andthen (portrait_record sv ctx ''portrait.identity.delete'' ''portrait_identity'' (Some identity_id)
             [(''biometric_deletion'', JBool True)]) (\<lambda>_.
           andthen (repo_call (in_features (delete_subject (ctx_tenant_id ctx) (ctx_project_id ctx)
             ''portrait_identity'' identity_id))) (\<lambda>_.
           andthen (if pts_indexed ps
               then andthen (repo_call (in_indexes (delete_source_records marked_at (ctx_tenant_id ctx) (ctx_project_id ctx)
                 ''portrait_identity'' identity_id))) (\<lambda>_. ret ())
               else ret ()) (\<lambda>_.
           andthen (repo_call (in_portraits (delete_identity (ctx_tenant_id ctx) (ctx_project_id ctx) identity_id)))
             (\<lambda>removed. if removed then ret ()
               else throw (PortraitConflict ''portrait identity changed during deletion'')))))))"

section \<open>Enrolment\<close>

record enroll_request =
  enq_feature_space_id :: string
  enq_modality :: string
  enq_model_id :: string
  enq_model_version :: string
  enq_distance_metric :: distance_metric
  enq_threshold :: "pyfloat option"
  enq_embedding :: "pyfloat list"
  enq_quality :: pyfloat
  enq_expires_at :: "pyfloat option"

definition portrait_index_id :: "string \<Rightarrow> string" where
  "portrait_index_id feature_space_id = ''portrait.identity.'' @ feature_space_id"

text \<open>
  \<open>_index_enrollment\<close>. The model \<open>IndexDefinition\<close> admits identifiers of 2 to 128 characters; its
  constructor raises otherwise.
\<close>

definition index_enrollment ::
  "portrait_settings \<Rightarrow> principal_context \<Rightarrow> portrait_enrollment \<Rightarrow> pyfloat list \<Rightarrow> string \<Rightarrow> string \<Rightarrow>
    ('z portrait_world, unit) py" where
  "index_enrollment ps ctx enr embedding model_id model_version =
     (if \<not> pts_indexed ps \<or> enr_index_record_id enr = None then ret ()
      else
        let index_id = portrait_index_id (enr_feature_space_id enr) in
        if 128 < length index_id then throw (ValueError ''String should have at most 128 characters'')
        else
          andthen (on_world time_time) (\<lambda>now.
          andthen (repo_call (in_indexes (create_index \<lparr>ixd_index_id = index_id, ixd_schema_version = ''1.0'',
              ixd_domain = ''portrait'', ixd_record_kind = IDX_VECTOR,
              ixd_vector_dimension = Some (int (length embedding)), ixd_vector_model_id = Some model_id,
              ixd_vector_model_version = Some model_version, ixd_distance_metric = Some ''cosine'',
              ixd_threshold = Some (8 / 10), ixd_text_analyzer = None, ixd_created_at = now\<rparr>))) (\<lambda>_.
          andthen (on_world time_time) (\<lambda>now'.
          andthen (repo_call (in_indexes (upsert \<lparr>ixr_record_id = or_empty (enr_index_record_id enr),
              ixr_tenant_id = ctx_tenant_id ctx, ixr_project_id = ctx_project_id ctx, ixr_index_id = index_id,
              ixr_domain = ''portrait'', ixr_kind = IDX_VECTOR,
              ixr_source = \<lparr>src_source_type = ''portrait_identity'', src_source_id = enr_identity_id enr,
                src_asset_id = None, src_run_id = None, src_unit_id = None, src_object_id = None,
                src_artifact_id = None, src_page_number = None, src_pts_ms = None\<rparr>,
              ixr_feature_id = Some (enr_feature_id enr), ixr_text = None, ixr_vector = Some embedding,
              ixr_metadata = [(''enrollment_id'', JStr (enr_enrollment_id enr)),
                (''feature_space_id'', JStr (enr_feature_space_id enr)), (''modality'', JStr (enr_modality enr)),
                (''quality'', JFloat (enr_quality enr))],
              ixr_status = IDX_READY, ixr_created_at = now', ixr_expires_at = enr_expires_at enr,
              ixr_deleted_at = None\<rparr>))) (\<lambda>_. ret ())))))"

definition ps_enroll ::
  "'v service \<Rightarrow> portrait_settings \<Rightarrow> principal_context \<Rightarrow> string \<Rightarrow> enroll_request \<Rightarrow>
    ('z portrait_world, portrait_enrollment) py" where
  "ps_enroll sv ps ctx identity_id request =
     andthen (portrait_allow sv ctx ''enroll'' ''portrait_identity''
       [(''identity_id'', JStr identity_id), (''modality'', JStr (enq_modality request))]) (\<lambda>_.
     andthen (ps_get_identity sv ctx identity_id) (\<lambda>_.
     andthen (on_world time_time) (\<lambda>t1.
     andthen (repo_call (in_features (create_space \<lparr>fsp_feature_space_id = enq_feature_space_id request,
         fsp_domain = ''portrait'', fsp_modality = enq_modality request, fsp_model_id = enq_model_id request,
         fsp_model_version = enq_model_version request, fsp_dimension = int (length (enq_embedding request)),
         fsp_distance_metric = enq_distance_metric request, fsp_threshold = enq_threshold request,
         fsp_created_at = t1\<rparr>))) (\<lambda>_.
     andthen (on_world uuid4_hex) (\<lambda>u1.
     andthen (on_world uuid4_hex) (\<lambda>u2.
     andthen (on_world uuid4_hex) (\<lambda>u3.
     andthen (on_world time_time) (\<lambda>t2.
       let feature_id = ''feat_'' @ u1;
           enr = \<lparr>enr_enrollment_id = ''enr_'' @ u3, enr_tenant_id = ctx_tenant_id ctx,
             enr_project_id = ctx_project_id ctx, enr_identity_id = identity_id, enr_feature_id = feature_id,
             enr_feature_space_id = enq_feature_space_id request, enr_modality = enq_modality request,
             enr_quality = enq_quality request, enr_created_at = t2, enr_expires_at = enq_expires_at request,
             enr_index_record_id = Some (''idxr_'' @ u2)\<rparr> in
       andthen (on_world time_time) (\<lambda>t3.
       andthen (repo_call (in_features (add_feature \<lparr>ftr_feature_id = feature_id, ftr_tenant_id = ctx_tenant_id ctx,
           ftr_project_id = ctx_project_id ctx, ftr_feature_space_id = enq_feature_space_id request,
           ftr_subject_type = ''portrait_identity'', ftr_subject_id = identity_id,
           ftr_embedding = enq_embedding request, ftr_created_at = t3, ftr_expires_at = enq_expires_at request\<rparr>))) (\<lambda>_.
       andthen (index_enrollment ps ctx enr (enq_embedding request) (enq_model_id request) (enq_model_version request)) (\<lambda>_.
       andthen (repo_call (in_portraits (create_enrollment enr))) (\<lambda>stored.
       andthen (portrait_record sv ctx ''portrait.enrollment.create'' ''portrait_enrollment''
           (Some (enr_enrollment_id enr))
           [(''identity_id'', JStr identity_id), (''feature_space_id'', JStr (enq_feature_space_id request)),
            (''modality'', JStr (enq_modality request)), (''quality'', JFloat (enq_quality request))])
         (\<lambda>_. ret stored)))))))))))))"

definition ps_list_enrollments ::
  "'v service \<Rightarrow> principal_context \<Rightarrow> string \<Rightarrow> ('z portrait_world, portrait_enrollment list) py" where
  "ps_list_enrollments sv ctx identity_id =
     andthen (portrait_allow sv ctx ''read'' ''portrait_identity'' [(''identity_id'', JStr identity_id)]) (\<lambda>_.
     andthen (ps_get_identity sv ctx identity_id) (\<lambda>_.
       repo_read (\<lambda>b. list_enrollments (ctx_tenant_id ctx) (ctx_project_id ctx) identity_id (pbk_portraits b))))"

definition encoding_error :: "portrait_embedding \<Rightarrow> feature_space \<Rightarrow> exn + unit" where
  "encoding_error encoded sp =
     (if fsp_domain sp \<noteq> ''portrait'' \<or> fsp_dimension sp \<noteq> int (length (emb_embedding encoded)) \<or>
         fsp_model_id sp \<noteq> emb_model_id encoded \<or> fsp_model_version sp \<noteq> emb_model_version encoded
      then Inl (PortraitConflict ''image embedding does not match the feature space contract'') else Inr ())"

definition ensure_space ::
  "string \<Rightarrow> string \<Rightarrow> string \<Rightarrow> int \<Rightarrow> pyfloat option \<Rightarrow> ('z portrait_world, unit) py" where
  "ensure_space feature_space_id model_id model_version dimension threshold =
     andthen (on_world time_time) (\<lambda>now.
     andthen (repo_call (in_features (create_space \<lparr>fsp_feature_space_id = feature_space_id, fsp_domain = ''portrait'',
         fsp_modality = ''face'', fsp_model_id = model_id, fsp_model_version = model_version,
         fsp_dimension = dimension, fsp_distance_metric = COSINE, fsp_threshold = threshold,
         fsp_created_at = now\<rparr>))) (\<lambda>_. ret ()))"

text \<open>\<open>feature_space_id or encoded.feature_space_id\<close>\<close>

definition chosen_space :: "string option \<Rightarrow> portrait_embedding \<Rightarrow> string" where
  "chosen_space feature_space_id encoded =
     (if truthy feature_space_id then or_empty feature_space_id else emb_feature_space_id encoded)"

definition enroll_contract ::
  "string \<Rightarrow> portrait_embedding \<Rightarrow> feature_space option \<Rightarrow> exn + string \<times> string" where
  "enroll_contract selected encoded sp =
     (if selected \<noteq> emb_feature_space_id encoded
      then (case sp of
          None \<Rightarrow> Inl (PortraitConflict ''image embedding does not match the requested feature space'')
        | Some x \<Rightarrow> (case encoding_error encoded x of
            Inl e \<Rightarrow> Inl e | Inr _ \<Rightarrow> Inr (fsp_model_id x, fsp_model_version x)))
      else (case sp of
          None \<Rightarrow> Inr (emb_model_id encoded, emb_model_version encoded)
        | Some x \<Rightarrow> (case encoding_error encoded x of
            Inl e \<Rightarrow> Inl e | Inr _ \<Rightarrow> Inr (emb_model_id encoded, emb_model_version encoded))))"

definition encode_image :: "portrait_settings \<Rightarrow> string \<Rightarrow> ('r beside, portrait_embedding) py" where
  "encode_image ps data = on_world (remote_call (pts_encode ps data))"

definition ps_enroll_image ::
  "'v service \<Rightarrow> portrait_settings \<Rightarrow> principal_context \<Rightarrow> string \<Rightarrow> string \<Rightarrow> string option \<Rightarrow> pyfloat option \<Rightarrow>
    pyfloat option \<Rightarrow> ('z portrait_world, portrait_enrollment) py" where
  "ps_enroll_image sv ps ctx identity_id data feature_space_id quality_override expires_at =
     andthen (portrait_allow sv ctx ''enroll'' ''portrait_identity''
       [(''identity_id'', JStr identity_id), (''modality'', JStr ''face'')]) (\<lambda>_.
     andthen (ps_get_identity sv ctx identity_id) (\<lambda>_.
     andthen (encode_image ps data) (\<lambda>encoded.
       let selected = chosen_space feature_space_id encoded in
       andthen (repo_read (\<lambda>b. get_space selected (pbk_features b))) (\<lambda>sp.
       andthen (of_sum (enroll_contract selected encoded sp)) (\<lambda>(model_id, model_version).
       andthen (ensure_space selected model_id model_version (int (length (emb_embedding encoded))) (Some (8 / 10))) (\<lambda>_.
       andthen (ps_enroll sv ps ctx identity_id \<lparr>enq_feature_space_id = selected, enq_modality = ''face'',
           enq_model_id = model_id, enq_model_version = model_version, enq_distance_metric = COSINE,
           enq_threshold = Some (8 / 10), enq_embedding = emb_embedding encoded,
           enq_quality = (case quality_override of Some q \<Rightarrow> q
             | None \<Rightarrow> max 0 (min 1 (or_zero (emb_quality_score encoded)))),
           enq_expires_at = expires_at\<rparr>) (\<lambda>stored.
       andthen (portrait_record sv ctx ''portrait.enrollment.image'' ''portrait_enrollment''
           (Some (enr_enrollment_id stored))
           [(''identity_id'', JStr identity_id), (''feature_space_id'', JStr selected),
            (''face_count'', JInt (emb_face_count encoded)),
            (''selected_face_index'', JInt (emb_selected_face_index encoded)),
            (''fallback'', JBool (emb_fallback encoded))])
         (\<lambda>_. ret stored))))))))"

section \<open>Search\<close>

record portrait_search_match =
  psm_identity :: portrait_identity
  psm_enrollment_id :: string
  psm_modality :: string
  psm_score :: pyfloat
  psm_distance :: pyfloat

definition match_found :: "portrait_identity \<Rightarrow> portrait_enrollment \<Rightarrow> pyfloat \<Rightarrow> pyfloat \<Rightarrow> portrait_search_match" where
  "match_found r enr score distance = \<lparr>psm_identity = r, psm_enrollment_id = enr_enrollment_id enr,
     psm_modality = enr_modality enr, psm_score = score, psm_distance = distance\<rparr>"

text \<open>\<open>_resolve_match\<close>, and \<open>_resolve_index_match\<close> for a hit that names a feature.\<close>

definition resolve_feature ::
  "principal_context \<Rightarrow> string \<Rightarrow> pyfloat \<Rightarrow> pyfloat \<Rightarrow> ('z portrait_world, portrait_search_match option) py" where
  "resolve_feature ctx feature_id score distance =
     andthen (repo_read (\<lambda>b. get_enrollment_by_feature (ctx_tenant_id ctx) (ctx_project_id ctx) feature_id (pbk_portraits b)))
       (\<lambda>enrolled. case enrolled of
          None \<Rightarrow> ret None
        | Some enr \<Rightarrow>
            andthen (repo_read (\<lambda>b. get_identity (ctx_tenant_id ctx) (ctx_project_id ctx) (enr_identity_id enr)
                (pbk_portraits b)))
              (\<lambda>found. ret (map_option (\<lambda>r. match_found r enr score distance) found)))"

definition resolve_match ::
  "principal_context \<Rightarrow> feature_match \<Rightarrow> ('z portrait_world, portrait_search_match option) py" where
  "resolve_match ctx m = resolve_feature ctx (fmt_feature_id m) (fmt_score m) (fmt_distance m)"

definition resolve_index_match ::
  "principal_context \<Rightarrow> index_hit \<Rightarrow> ('z portrait_world, portrait_search_match option) py" where
  "resolve_index_match ctx hit = (case hit_feature_id hit of
     None \<Rightarrow> ret None
   | Some feature_id \<Rightarrow> resolve_feature ctx feature_id (or_zero (hit_score hit)) (or_zero (hit_distance hit)))"

definition present :: "'a option list \<Rightarrow> 'a list" where
  "present xs = List.map_filter id xs"

definition ps_search ::
  "'v service \<Rightarrow> portrait_settings \<Rightarrow> principal_context \<Rightarrow> string \<Rightarrow> pyfloat list \<Rightarrow> int \<Rightarrow> pyfloat option \<Rightarrow>
    ('z portrait_world, portrait_search_match list) py" where
  "ps_search sv ps ctx feature_space_id embedding lmt threshold =
     andthen (portrait_allow sv ctx ''search'' ''portrait_feature'' [(''feature_space_id'', JStr feature_space_id)]) (\<lambda>_.
     andthen (on_world time_time) (\<lambda>now.
     andthen (repo_call (in_features (asking (search_features (pts_sqrt ps) now (ctx_tenant_id ctx) (ctx_project_id ctx)
         feature_space_id embedding lmt threshold)))) (\<lambda>matches.
     andthen (map_py (resolve_match ctx) matches) (\<lambda>found.
       let resolved = present found in
       andthen (portrait_record sv ctx ''portrait.search'' ''portrait_feature'' None
           [(''feature_space_id'', JStr feature_space_id), (''match_count'', JInt (int (length resolved)))])
         (\<lambda>_. ret resolved)))))"

definition ps_search_image ::
  "'v service \<Rightarrow> portrait_settings \<Rightarrow> principal_context \<Rightarrow> string \<Rightarrow> string option \<Rightarrow> int \<Rightarrow> pyfloat option \<Rightarrow>
    ('z portrait_world, portrait_search_match list) py" where
  "ps_search_image sv ps ctx data feature_space_id lmt threshold =
     andthen (encode_image ps data) (\<lambda>encoded.
       let selected = chosen_space feature_space_id encoded in
       andthen (repo_read (\<lambda>b. get_space selected (pbk_features b))) (\<lambda>found. case found of
         None \<Rightarrow> throw (PortraitNotFound ''portrait feature space is not enrolled'')
       | Some sp \<Rightarrow>
           andthen (of_sum (encoding_error encoded sp)) (\<lambda>_.
           andthen (if \<not> pts_indexed ps
               then ps_search sv ps ctx selected (emb_embedding encoded) lmt threshold
               else
                 andthen (repo_read (\<lambda>b. get_index (portrait_index_id selected) (pbk_indexes b))) (\<lambda>d.
                   if d = None then throw (PortraitNotFound ''portrait image index is not enrolled'')
                   else
                     andthen (repo_call (in_indexes (asking (query_vector (pts_sqrt ps) (ctx_tenant_id ctx)
                         (ctx_project_id ctx) (portrait_index_id selected) (emb_embedding encoded) lmt threshold)))) (\<lambda>hits.
                     andthen (map_py (resolve_index_match ctx) hits) (\<lambda>resolved. ret (present resolved))))) (\<lambda>result.
           andthen (portrait_record sv ctx ''portrait.search.image'' ''portrait_feature'' None
               [(''feature_space_id'', JStr selected), (''face_count'', JInt (emb_face_count encoded)),
                (''selected_face_index'', JInt (emb_selected_face_index encoded)),
                (''fallback'', JBool (emb_fallback encoded)), (''match_count'', JInt (int (length result)))])
             (\<lambda>_. ret result)))))"

section \<open>Comparison\<close>

record portrait_input_summary =
  pis_face_count :: int
  pis_selected_face_index :: int
  pis_selected_face_box :: "pyfloat list option"
  pis_quality_score :: "pyfloat option"
  pis_model_id :: string
  pis_model_version :: string
  pis_embedding_dimension :: int
  pis_fallback :: bool
  pis_metadata :: json_dict

record portrait_compare_response =
  pcr_feature_space_id :: string
  pcr_score :: pyfloat
  pcr_distance :: pyfloat
  pcr_threshold :: "pyfloat option"
  pcr_matched :: "bool option"
  pcr_mode :: string
  pcr_comparison_id :: "string option"
  pcr_left :: "portrait_input_summary option"
  pcr_right :: "portrait_input_summary option"

definition input_summary :: "portrait_embedding \<Rightarrow> portrait_input_summary" where
  "input_summary v = \<lparr>pis_face_count = emb_face_count v, pis_selected_face_index = emb_selected_face_index v,
     pis_selected_face_box = emb_selected_face_box v, pis_quality_score = emb_quality_score v,
     pis_model_id = emb_model_id v, pis_model_version = emb_model_version v,
     pis_embedding_dimension = int (length (emb_embedding v)), pis_fallback = emb_fallback v,
     pis_metadata = emb_metadata v\<rparr>"

definition matched_at :: "pyfloat option \<Rightarrow> pyfloat \<Rightarrow> bool option" where
  "matched_at threshold score = map_option (\<lambda>t. t \<le> score) threshold"

definition json_of_match :: "bool option \<Rightarrow> json" where
  "json_of_match m = (case m of None \<Rightarrow> JNull | Some b \<Rightarrow> JBool b)"

definition ps_compare ::
  "'v service \<Rightarrow> portrait_settings \<Rightarrow> principal_context \<Rightarrow> string \<Rightarrow> pyfloat list \<Rightarrow> pyfloat list \<Rightarrow>
    ('z portrait_world, portrait_compare_response) py" where
  "ps_compare sv ps ctx feature_space_id a b =
     andthen (portrait_allow sv ctx ''compare'' ''portrait_feature'' [(''feature_space_id'', JStr feature_space_id)]) (\<lambda>_.
     andthen (repo_read (\<lambda>r. get_space feature_space_id (pbk_features r))) (\<lambda>found. case found of
       None \<Rightarrow> throw (PortraitNotFound ''portrait feature space not found'')
     | Some sp \<Rightarrow>
         if fsp_domain sp \<noteq> ''portrait'' then throw (PortraitNotFound ''portrait feature space not found'')
         else
           andthen (of_sum (compare_embeddings (pts_sqrt ps) sp a b)) (\<lambda>(score, distance).
             let matched = matched_at (fsp_threshold sp) score in
             andthen (portrait_record sv ctx ''portrait.compare'' ''portrait_feature'' None
                 [(''feature_space_id'', JStr feature_space_id), (''matched'', json_of_match matched)])
               (\<lambda>_. ret \<lparr>pcr_feature_space_id = feature_space_id, pcr_score = score, pcr_distance = distance,
                  pcr_threshold = fsp_threshold sp, pcr_matched = matched, pcr_mode = ''vector'',
                  pcr_comparison_id = None, pcr_left = None, pcr_right = None\<rparr>))))"

text \<open>The space that a comparison of images uses; one that the caller did not name is created.\<close>

definition comparison_space ::
  "string option \<Rightarrow> string \<Rightarrow> portrait_embedding \<Rightarrow> pyfloat option \<Rightarrow> ('z portrait_world, feature_space option) py" where
  "comparison_space feature_space_id selected a threshold =
     andthen (repo_read (\<lambda>r. get_space selected (pbk_features r))) (\<lambda>found. case found of
       Some sp \<Rightarrow> ret (Some sp)
     | None \<Rightarrow>
         if feature_space_id \<noteq> None then throw (PortraitNotFound ''portrait feature space is not enrolled'')
         else
           andthen (ensure_space selected (emb_model_id a) (emb_model_version a) (int (length (emb_embedding a)))
               (Some (case threshold of None \<Rightarrow> 8 / 10 | Some t \<Rightarrow> t)))
             (\<lambda>_. repo_read (\<lambda>r. get_space selected (pbk_features r))))"

definition ps_compare_images ::
  "'v service \<Rightarrow> portrait_settings \<Rightarrow> principal_context \<Rightarrow> string \<Rightarrow> string \<Rightarrow> string option \<Rightarrow> pyfloat option \<Rightarrow> string \<Rightarrow>
    ('z portrait_world, portrait_compare_response) py" where
  "ps_compare_images sv ps ctx left_data right_data feature_space_id threshold mode =
     andthen (portrait_allow sv ctx ''compare'' ''portrait_feature''
       [(''feature_space_id'', case feature_space_id of None \<Rightarrow> JNull | Some i \<Rightarrow> JStr i)]) (\<lambda>_.
     andthen (encode_image ps left_data) (\<lambda>a.
     andthen (encode_image ps right_data) (\<lambda>b.
       if emb_feature_space_id a \<noteq> emb_feature_space_id b
       then throw (PortraitConflict ''the two images were encoded by different feature contracts'')
       else
         let selected = chosen_space feature_space_id a in
         andthen (comparison_space feature_space_id selected a threshold) (\<lambda>found. case found of
           None \<Rightarrow> throw (PortraitConflict ''image embedding does not match the feature space'')
         | Some sp \<Rightarrow>
             if fsp_domain sp \<noteq> ''portrait'' \<or> fsp_dimension sp \<noteq> int (length (emb_embedding a))
             then throw (PortraitConflict ''image embedding does not match the feature space'')
             else
               andthen (of_sum (encoding_error a sp)) (\<lambda>_.
               andthen (of_sum (encoding_error b sp)) (\<lambda>_.
               andthen (of_sum (compare_embeddings (pts_sqrt ps) sp (emb_embedding a) (emb_embedding b))) (\<lambda>(score, distance).
                 let effective = (case threshold of None \<Rightarrow> fsp_threshold sp | Some t \<Rightarrow> Some t);
                     matched = matched_at effective score in
                 andthen (portrait_record sv ctx ''portrait.compare.image'' ''portrait_feature'' None
                     [(''feature_space_id'', JStr selected), (''left_face_count'', JInt (emb_face_count a)),
                      (''right_face_count'', JInt (emb_face_count b)),
                      (''left_selected_face_index'', JInt (emb_selected_face_index a)),
                      (''right_selected_face_index'', JInt (emb_selected_face_index b)),
                      (''matched'', json_of_match matched), (''fallback'', JBool (emb_fallback a \<or> emb_fallback b))]) (\<lambda>_.
                 andthen (on_world uuid4_hex) (\<lambda>u.
                   ret \<lparr>pcr_feature_space_id = selected, pcr_score = score, pcr_distance = distance,
                     pcr_threshold = effective, pcr_matched = matched, pcr_mode = mode,
                     pcr_comparison_id = Some (''cmp_'' @ u), pcr_left = Some (input_summary a),
                     pcr_right = Some (input_summary b)\<rparr>)))))))))"

end
