(* ===== verification/Surveillance_Matching.thy ===== *)
theory Surveillance_Matching
  imports Surveillance_Store Portrait_Service
begin

text \<open>
  \<open>PortraitSurveillanceMatcher\<close> (\<open>domains/portrait/surveillance.py\<close>): it compares the evidence of an
  observation with the enrolments of the members' identities, space by space, and answers one
  score per member: the face's, the body's, or their weighted mean. The dictionaries of the
  code, and with them the order of its loops, are kept.
\<close>

section \<open>Enrolments of the members\<close>

text \<open>\<open>d.setdefault(k, []).append(v)\<close>\<close>

definition dict_append :: "'k \<Rightarrow> 'v \<Rightarrow> ('k, 'v list) dict \<Rightarrow> ('k, 'v list) dict" where
  "dict_append k v d = dict_set k ((case dict_get d k of None \<Rightarrow> [] | Some vs \<Rightarrow> vs) @ [v]) d"

text \<open>\<open>d.setdefault(k, set()).add(v)\<close>\<close>

definition dict_insert :: "'k \<Rightarrow> 'v \<Rightarrow> ('k, 'v set) dict \<Rightarrow> ('k, 'v set) dict" where
  "dict_insert k v d = dict_set k (insert v (case dict_get d k of None \<Rightarrow> {} | Some vs \<Rightarrow> vs)) d"

definition members_by_identity :: "watchlist_member list \<Rightarrow> (string, watchlist_member list) dict" where
  "members_by_identity members = fold (\<lambda>m. dict_append (wm_portrait_identity_id m) m) members []"

type_synonym enrolled_spaces = "(string \<times> string, string set) dict"

definition unexpired :: "pyfloat \<Rightarrow> portrait_enrollment \<Rightarrow> bool" where
  "unexpired seen enr \<longleftrightarrow> (case enr_expires_at enr of None \<Rightarrow> True | Some t \<Rightarrow> seen < t)"

definition add_enrollments :: "pyfloat \<Rightarrow> string \<Rightarrow> portrait_enrollment list \<Rightarrow> enrolled_spaces \<Rightarrow> enrolled_spaces" where
  "add_enrollments seen identity_id rows spaces =
     fold (\<lambda>enr. dict_insert (enr_feature_space_id enr, enr_modality enr) identity_id) (filter (unexpired seen) rows) spaces"

fun collect_enrollments ::
  "string \<Rightarrow> string \<Rightarrow> pyfloat \<Rightarrow> string list \<Rightarrow> enrolled_spaces \<Rightarrow> ('z portrait_world, enrolled_spaces) py" where
  "collect_enrollments tenant_id project_id seen [] spaces = ret spaces"
| "collect_enrollments tenant_id project_id seen (i # is) spaces =
     andthen (repo_read (\<lambda>b. list_enrollments tenant_id project_id i (pbk_portraits b)))
       (\<lambda>rows. collect_enrollments tenant_id project_id seen is (add_enrollments seen i rows spaces))"

section \<open>Scores\<close>

fun evidence_value :: "evidence_modality \<Rightarrow> string" where
  "evidence_value EVIDENCE_FACE = ''face''"
| "evidence_value EVIDENCE_BODY = ''body''"

type_synonym score_table = "(string, (string, pyfloat) dict) dict"
type_synonym binding_table = "(string, (string, (string, string) dict) dict) dict"

definition evidence_threshold :: "threshold_policy \<Rightarrow> evidence_modality \<Rightarrow> pyfloat option" where
  "evidence_threshold p m = (if m = EVIDENCE_FACE then thp_face_threshold p else thp_body_threshold p)"

definition quality_floor :: "threshold_policy \<Rightarrow> evidence_modality \<Rightarrow> pyfloat" where
  "quality_floor p m = (if m = EVIDENCE_FACE then thp_min_face_quality p else thp_min_body_quality p)"

definition or_empty_list :: "'a list option \<Rightarrow> 'a list" where
  "or_empty_list d = (case d of None \<Rightarrow> [] | Some x \<Rightarrow> x)"

text \<open>The best score so far, as \<open>bucket.get(modality, -1.0)\<close>.\<close>

definition best_score :: "(string, pyfloat) dict \<Rightarrow> string \<Rightarrow> pyfloat" where
  "best_score bucket modality = (case dict_get bucket modality of None \<Rightarrow> - 1 | Some x \<Rightarrow> x)"

definition note_match ::
  "observation_evidence \<Rightarrow> string \<Rightarrow> string set \<Rightarrow> feature_match \<Rightarrow> score_table \<times> binding_table \<Rightarrow>
    score_table \<times> binding_table" where
  "note_match evd space_id identities m tables =
     (let (scores, bindings) = tables; i = fmt_subject_id m; modality = evidence_value (obe_modality evd) in
      if fmt_subject_type m \<noteq> ''portrait_identity'' \<or> i \<notin> identities then tables
      else
        let bucket = or_empty_list (dict_get scores i) in
        if best_score bucket modality < fmt_score m
        then (dict_set i (dict_set modality (fmt_score m) bucket) scores,
              dict_set i (dict_set modality [(''feature_space_id'', space_id), (''model_id'', obe_model_id evd),
                  (''model_version'', obe_model_version evd)] (or_empty_list (dict_get bindings i))) bindings)
        else (dict_set i bucket scores, bindings))"

definition usable_space :: "observation_evidence \<Rightarrow> feature_space option \<Rightarrow> bool" where
  "usable_space evd sp = (case sp of None \<Rightarrow> False
   | Some x \<Rightarrow> fsp_domain x = ''portrait'' \<and> fsp_model_id x = obe_model_id evd \<and>
       fsp_model_version x = obe_model_version evd \<and> fsp_dimension x = int (length (obe_embedding evd)))"

fun match_spaces ::
  "(pyfloat \<Rightarrow> pyfloat) \<Rightarrow> string \<Rightarrow> string \<Rightarrow> observation_evidence \<Rightarrow> pyfloat \<Rightarrow>
    ((string \<times> string) \<times> string set) list \<Rightarrow> score_table \<times> binding_table \<Rightarrow>
    ('z portrait_world, score_table \<times> binding_table) py" where
  "match_spaces math_sqrt tenant_id project_id evd threshold [] tables = ret tables"
| "match_spaces math_sqrt tenant_id project_id evd threshold (((space_id, modality), identities) # rest) tables =
     (if modality \<noteq> evidence_value (obe_modality evd)
      then match_spaces math_sqrt tenant_id project_id evd threshold rest tables
      else
        andthen (repo_read (\<lambda>b. get_space space_id (pbk_features b))) (\<lambda>sp.
          if \<not> usable_space evd sp then match_spaces math_sqrt tenant_id project_id evd threshold rest tables
          else
            andthen (on_world time_time) (\<lambda>now.
            andthen (repo_call (in_features (asking (search_features math_sqrt now tenant_id project_id space_id
                (obe_embedding evd) 1000 (Some threshold))))) (\<lambda>matches.
              match_spaces math_sqrt tenant_id project_id evd threshold rest
                (fold (note_match evd space_id identities) matches tables)))))"

fun match_evidence ::
  "(pyfloat \<Rightarrow> pyfloat) \<Rightarrow> string \<Rightarrow> string \<Rightarrow> threshold_policy \<Rightarrow> enrolled_spaces \<Rightarrow> observation_evidence list \<Rightarrow>
    score_table \<times> binding_table \<Rightarrow> ('z portrait_world, score_table \<times> binding_table) py" where
  "match_evidence math_sqrt tenant_id project_id p spaces [] tables = ret tables"
| "match_evidence math_sqrt tenant_id project_id p spaces (evd # rest) tables =
     (if obe_quality evd < quality_floor p (obe_modality evd)
      then match_evidence math_sqrt tenant_id project_id p spaces rest tables
      else case evidence_threshold p (obe_modality evd) of
        None \<Rightarrow> match_evidence math_sqrt tenant_id project_id p spaces rest tables
      | Some threshold \<Rightarrow>
          andthen (match_spaces math_sqrt tenant_id project_id evd threshold spaces tables)
            (match_evidence math_sqrt tenant_id project_id p spaces rest))"

section \<open>The answer\<close>

text \<open>The weights sum to a positive number: \<open>ThresholdPolicy\<close> is validated when it is constructed.\<close>

definition fused_score :: "threshold_policy \<Rightarrow> (string, pyfloat) dict \<Rightarrow> (pyfloat \<times> alert_modality) option" where
  "fused_score p scores = (case (dict_get scores ''face'', dict_get scores ''body'') of
     (Some face, Some body) \<Rightarrow> Some ((thp_face_weight p * face + thp_body_weight p * body) /
        (thp_face_weight p + thp_body_weight p), FUSED)
   | (Some face, None) \<Rightarrow> Some (face, FACE)
   | (None, Some body) \<Rightarrow> Some (body, BODY)
   | (None, None) \<Rightarrow> None)"

type_synonym surveillance_match =
  "watchlist_member \<times> pyfloat \<times> alert_modality \<times> (string, (string, string) dict) dict"

definition resolved_matches ::
  "threshold_policy \<Rightarrow> (string, watchlist_member list) dict \<Rightarrow> score_table \<times> binding_table \<Rightarrow> surveillance_match list" where
  "resolved_matches p by_identity tables =
     concat (map (\<lambda>(i, scores). case fused_score p scores of
         None \<Rightarrow> []
       | Some (score, modality) \<Rightarrow> map (\<lambda>m. (m, score, modality, or_empty_list (dict_get (snd tables) i)))
           (or_empty_list (dict_get by_identity i))) (fst tables))"

definition match_members ::
  "(pyfloat \<Rightarrow> pyfloat) \<Rightarrow> string \<Rightarrow> string \<Rightarrow> watchlist_member list \<Rightarrow> observation_batch \<Rightarrow> threshold_policy attr \<Rightarrow>
    ('z portrait_world, surveillance_match list) py" where
  "match_members math_sqrt tenant_id project_id members obs policy =
     (let by_identity = members_by_identity members in
      andthen (collect_enrollments tenant_id project_id (obs_last_seen_at obs) (map fst by_identity) []) (\<lambda>spaces.
      andthen (of_sum (of_attr policy)) (\<lambda>p.
      andthen (match_evidence math_sqrt tenant_id project_id p spaces (obs_evidence obs) ([], [])) (\<lambda>tables.
        ret (py_sorted (\<lambda>(m, score, _). (- score, wm_member_id m)) (resolved_matches p by_identity tables))))))"

end
