(* ===== verification/Trajectory_Store.thy ===== *)
theory Trajectory_Store
  imports Memory_State
begin

text \<open>
  The records of trajectories and \<open>MemoryTrajectoryRepository\<close> (\<open>domains/portrait/trajectory.py\<close>):
  long-term identities, the segments assigned to them, cameras and the travel times between them.
  Each method runs without awaiting anything, so it is atomic. Three of the tables have the same
  contract, an unconditional write of a row under its key, stated once as a locale.
\<close>

section \<open>Records\<close>

datatype trajectory_status = STATUS_AUTO | STATUS_CONFIRMED | STATUS_REJECTED

fun trajectory_status_value :: "trajectory_status \<Rightarrow> string" where
  "trajectory_status_value STATUS_AUTO = ''auto''"
| "trajectory_status_value STATUS_CONFIRMED = ''confirmed''"
| "trajectory_status_value STATUS_REJECTED = ''rejected''"

datatype match_method = NEW_IDENTITY | REID | MANUAL

fun match_method_value :: "match_method \<Rightarrow> string" where
  "match_method_value NEW_IDENTITY = ''new_identity''"
| "match_method_value REID = ''reid''"
| "match_method_value MANUAL = ''manual''"

definition SUBJECT_TYPE :: string where
  "SUBJECT_TYPE = ''portrait_long_term_identity''"

definition MODALITY_MODELS :: "(string, string \<times> string) dict" where
  "MODALITY_MODELS = [(''body'', (''person_reid_default'', ''v1'')), (''face'', (''face_embedding_default'', ''v1''))]"

definition FUSION_WEIGHTS :: "(string, pyfloat) dict" where
  "FUSION_WEIGHTS = [(''face'', 65 / 100), (''body'', 35 / 100)]"

record camera_transition =
  ctr_from_camera_id :: string
  ctr_to_camera_id :: string
  ctr_min_seconds :: pyfloat
  ctr_max_seconds :: "pyfloat option"

record camera_record =
  cam_camera_id :: string
  cam_tenant_id :: string
  cam_project_id :: string
  cam_display_name :: string
  cam_location :: string
  cam_auto_registered :: bool
  cam_metadata :: json_dict
  cam_created_at :: pyfloat
  cam_updated_at :: pyfloat

record long_term_identity =
  lti_identity_id :: string
  lti_tenant_id :: string
  lti_project_id :: string
  lti_display_name :: string
  lti_status :: trajectory_status
  lti_modalities :: "string list"
  lti_feature_space_ids :: "(string, string) dict"
  lti_camera_ids :: "string list"
  lti_segment_count :: int
  lti_first_seen_at :: pyfloat
  lti_last_seen_at :: pyfloat
  lti_last_camera_id :: string
  lti_metadata :: json_dict
  lti_created_at :: pyfloat
  lti_updated_at :: pyfloat

record trajectory_segment =
  seg_segment_id :: string
  seg_identity_id :: string
  seg_tenant_id :: string
  seg_project_id :: string
  seg_run_id :: string
  seg_source_id :: string
  seg_asset_id :: string
  seg_camera_id :: string
  seg_track_id :: string
  seg_frame_count :: int
  seg_track_quality :: pyfloat
  seg_first_seen_at :: pyfloat
  seg_last_seen_at :: pyfloat
  seg_first_pts_ms :: "pyfloat option"
  seg_last_pts_ms :: "pyfloat option"
  seg_match_method :: match_method
  seg_match_score :: pyfloat
  seg_match_scores :: "(string, pyfloat) dict"
  seg_feature_ids :: "(string, string) dict"
  seg_metadata :: json_dict
  seg_created_at :: pyfloat

record reachability_observation =
  rob_camera_id :: string
  rob_first_seen_at :: pyfloat
  rob_last_seen_at :: pyfloat

record reachability_probe =
  rpr_overlapping :: bool
  rpr_previous :: "reachability_observation option"
  rpr_following :: "reachability_observation option"

type_synonym key4 = "string \<times> string \<times> string \<times> string"

record trajectory_repository =
  trj_identities :: "(key3, long_term_identity) dict"
  trj_segments :: "(key3, trajectory_segment) dict"
  trj_cameras :: "(key3, camera_record) dict"
  trj_transitions :: "(key4, camera_transition) dict"

definition trajectory_init :: trajectory_repository where
  "trajectory_init = \<lparr>trj_identities = [], trj_segments = [], trj_cameras = [], trj_transitions = []\<rparr>"

type_synonym trj = trajectory_repository

section \<open>Tables that are written unconditionally\<close>

locale put_table =
  fixes rows :: "'s \<Rightarrow> (key3, 'v) dict"
    and row_key :: "'v \<Rightarrow> key3"
    and put :: "'v \<Rightarrow> ('s, unit) py"
    and get :: "string \<Rightarrow> string \<Rightarrow> string \<Rightarrow> 's \<Rightarrow> 'v option"
  assumes get_rows: "get t p i s = dict_get (rows s) (store_key t p i)"
    and put_rows: "\<exists>s'. put v s = (Inr (), s') \<and> rows s' = dict_set (row_key v) v (rows s)"
begin

lemma put_returns: "fst (put v s) = Inr ()" and put_sets: "rows (snd (put v s)) = dict_set (row_key v) v (rows s)"
  using put_rows [of v s] by auto

lemma get_put: "get t p i (snd (put v s)) = (if store_key t p i = row_key v then Some v else get t p i s)"
  by (simp add: get_rows put_sets)

lemma put_keeps_keyed: "keyed row_key (rows s) \<Longrightarrow> keyed row_key (rows (snd (put v s)))"
  by (simp add: put_sets keyed_set)

lemma put_keeps_others: "\<not> in_scope t p (row_key v) \<Longrightarrow> scoped_rows t p (rows (snd (put v s))) = scoped_rows t p (rows s)"
  by (simp add: put_sets scoped_rows_set_other)

end

section \<open>Identities\<close>

definition lti_key :: "long_term_identity \<Rightarrow> key3" where
  "lti_key r = store_key (lti_tenant_id r) (lti_project_id r) (lti_identity_id r)"

definition put_lti :: "long_term_identity \<Rightarrow> (trj, unit) py" where
  "put_lti r s = (Inr (), s\<lparr>trj_identities := dict_set (lti_key r) r (trj_identities s)\<rparr>)"

definition get_lti :: "string \<Rightarrow> string \<Rightarrow> string \<Rightarrow> trj \<Rightarrow> long_term_identity option" where
  "get_lti tenant_id project_id identity_id s = dict_get (trj_identities s) (store_key tenant_id project_id identity_id)"

definition in_window :: "pyfloat \<Rightarrow> pyfloat option \<Rightarrow> pyfloat option \<Rightarrow> bool" where
  "in_window v since until \<longleftrightarrow>
     \<not> ((case since of None \<Rightarrow> False | Some a \<Rightarrow> v < a) \<or> (case until of None \<Rightarrow> False | Some b \<Rightarrow> b < v))"

definition list_ltis ::
  "string \<Rightarrow> string \<Rightarrow> trajectory_status option \<Rightarrow> string option \<Rightarrow> pyfloat option \<Rightarrow> pyfloat option \<Rightarrow> int \<Rightarrow> int \<Rightarrow>
    trj \<Rightarrow> long_term_identity list \<times> int" where
  "list_ltis tenant_id project_id status camera_id since until off lmt s =
     (let rows = py_sorted (\<lambda>r. (- lti_last_seen_at r, lti_identity_id r))
        (filter (\<lambda>r. (status = None \<or> status = Some (lti_status r)) \<and>
            (case camera_id of None \<Rightarrow> True | Some c \<Rightarrow> c \<in> set (lti_camera_ids r)) \<and>
            in_window (lti_last_seen_at r) since None \<and> in_window (lti_first_seen_at r) None until)
          (scoped_rows tenant_id project_id (trj_identities s))) in
      (py_slice rows off (off + lmt), int (length rows)))"

definition delete_lti :: "string \<Rightarrow> string \<Rightarrow> string \<Rightarrow> (trj, bool) py" where
  "delete_lti tenant_id project_id identity_id s =
     (let key = store_key tenant_id project_id identity_id in
      (Inr (dict_get (trj_identities s) key \<noteq> None), s\<lparr>trj_identities := dict_pop key (trj_identities s)\<rparr>))"

interpretation ltis: put_table trj_identities lti_key put_lti get_lti
  by unfold_locales (simp_all add: put_lti_def get_lti_def)

section \<open>Segments\<close>

definition segment_key :: "trajectory_segment \<Rightarrow> key3" where
  "segment_key r = store_key (seg_tenant_id r) (seg_project_id r) (seg_segment_id r)"

definition put_segment :: "trajectory_segment \<Rightarrow> (trj, unit) py" where
  "put_segment r s = (Inr (), s\<lparr>trj_segments := dict_set (segment_key r) r (trj_segments s)\<rparr>)"

definition get_segment :: "string \<Rightarrow> string \<Rightarrow> string \<Rightarrow> trj \<Rightarrow> trajectory_segment option" where
  "get_segment tenant_id project_id segment_id s = dict_get (trj_segments s) (store_key tenant_id project_id segment_id)"

definition segments_of ::
  "string \<Rightarrow> string \<Rightarrow> string option \<Rightarrow> string option \<Rightarrow> pyfloat option \<Rightarrow> pyfloat option \<Rightarrow> trj \<Rightarrow> trajectory_segment list" where
  "segments_of tenant_id project_id identity_id camera_id since until s =
     py_sorted (\<lambda>r. (seg_first_seen_at r, seg_segment_id r))
       (filter (\<lambda>r. (identity_id = None \<or> identity_id = Some (seg_identity_id r)) \<and>
          (camera_id = None \<or> camera_id = Some (seg_camera_id r)) \<and>
          in_window (seg_last_seen_at r) since None \<and> in_window (seg_first_seen_at r) None until)
        (scoped_rows tenant_id project_id (trj_segments s)))"

definition list_segments ::
  "string \<Rightarrow> string \<Rightarrow> string option \<Rightarrow> string option \<Rightarrow> pyfloat option \<Rightarrow> pyfloat option \<Rightarrow> int \<Rightarrow> int \<Rightarrow> trj \<Rightarrow>
    trajectory_segment list \<times> int" where
  "list_segments tenant_id project_id identity_id camera_id since until off lmt s =
     (let rows = segments_of tenant_id project_id identity_id camera_id since until s in
      (py_slice rows off (off + lmt), int (length rows)))"

definition of_identity :: "string \<Rightarrow> string \<Rightarrow> string \<Rightarrow> key3 \<times> trajectory_segment \<Rightarrow> bool" where
  "of_identity tenant_id project_id identity_id kv \<longleftrightarrow>
     in_scope tenant_id project_id (fst kv) \<and> seg_identity_id (snd kv) = identity_id"

definition delete_segments_for_identity :: "string \<Rightarrow> string \<Rightarrow> string \<Rightarrow> (trj, int) py" where
  "delete_segments_for_identity tenant_id project_id identity_id s =
     (let keys = map fst (filter (of_identity tenant_id project_id identity_id) (trj_segments s)) in
      (Inr (int (length keys)), s\<lparr>trj_segments := fold dict_pop keys (trj_segments s)\<rparr>))"

interpretation segments: put_table trj_segments segment_key put_segment get_segment
  by unfold_locales (simp_all add: put_segment_def get_segment_def)

section \<open>Reachability\<close>

definition windows_overlap :: "pyfloat \<times> pyfloat \<Rightarrow> pyfloat \<times> pyfloat \<Rightarrow> bool" where
  "windows_overlap a b \<longleftrightarrow> fst a \<le> snd b \<and> fst b \<le> snd a"

definition seg_window :: "trajectory_segment \<Rightarrow> pyfloat \<times> pyfloat" where
  "seg_window r = (seg_first_seen_at r, seg_last_seen_at r)"

definition sighting_of :: "trajectory_segment \<Rightarrow> reachability_observation" where
  "sighting_of r = \<lparr>rob_camera_id = seg_camera_id r, rob_first_seen_at = seg_first_seen_at r,
     rob_last_seen_at = seg_last_seen_at r\<rparr>"

text \<open>The loop over the segments of the identity: a time conflict with another camera ends it.\<close>

fun probe_rows ::
  "string \<Rightarrow> pyfloat \<times> pyfloat \<Rightarrow> trajectory_segment list \<Rightarrow> reachability_observation option \<Rightarrow>
    reachability_observation option \<Rightarrow> reachability_probe" where
  "probe_rows camera_id window [] previous following =
     \<lparr>rpr_overlapping = False, rpr_previous = previous, rpr_following = following\<rparr>"
| "probe_rows camera_id window (r # rs) previous following =
     (if seg_camera_id r = [] then probe_rows camera_id window rs previous following
      else if windows_overlap (seg_window r) window then
        (if seg_camera_id r \<noteq> camera_id then \<lparr>rpr_overlapping = True, rpr_previous = None, rpr_following = None\<rparr>
         else probe_rows camera_id window rs previous following)
      else if seg_last_seen_at r \<le> fst window then
        (if (case previous of None \<Rightarrow> True | Some o1 \<Rightarrow> rob_last_seen_at o1 < seg_last_seen_at r)
         then probe_rows camera_id window rs (Some (sighting_of r)) following
         else probe_rows camera_id window rs previous following)
      else if (case following of None \<Rightarrow> True | Some o1 \<Rightarrow> seg_first_seen_at r < rob_first_seen_at o1)
        then probe_rows camera_id window rs previous (Some (sighting_of r))
      else probe_rows camera_id window rs previous following)"

definition probe_reachability ::
  "string \<Rightarrow> string \<Rightarrow> string \<Rightarrow> string \<Rightarrow> pyfloat \<times> pyfloat \<Rightarrow> trj \<Rightarrow> reachability_probe" where
  "probe_reachability tenant_id project_id identity_id camera_id window s =
     probe_rows camera_id window (map snd (filter (of_identity tenant_id project_id identity_id) (trj_segments s))) None None"

section \<open>Cameras and transitions\<close>

definition camera_key :: "camera_record \<Rightarrow> key3" where
  "camera_key r = store_key (cam_tenant_id r) (cam_project_id r) (cam_camera_id r)"

definition put_camera :: "camera_record \<Rightarrow> (trj, unit) py" where
  "put_camera r s = (Inr (), s\<lparr>trj_cameras := dict_set (camera_key r) r (trj_cameras s)\<rparr>)"

definition find_camera :: "string \<Rightarrow> string \<Rightarrow> string \<Rightarrow> trj \<Rightarrow> camera_record option" where
  "find_camera tenant_id project_id camera_id s = dict_get (trj_cameras s) (store_key tenant_id project_id camera_id)"

definition list_cameras :: "string \<Rightarrow> string \<Rightarrow> trj \<Rightarrow> camera_record list" where
  "list_cameras tenant_id project_id s = py_sorted cam_camera_id (scoped_rows tenant_id project_id (trj_cameras s))"

interpretation cameras: put_table trj_cameras camera_key put_camera find_camera
  by unfold_locales (simp_all add: put_camera_def find_camera_def)

fun leaves :: "string \<Rightarrow> string \<Rightarrow> string \<Rightarrow> key4 \<Rightarrow> bool" where
  "leaves tenant_id project_id camera_id (t, p, a, b) \<longleftrightarrow> t = tenant_id \<and> p = project_id \<and> a = camera_id"

fun touches :: "string \<Rightarrow> string \<Rightarrow> string \<Rightarrow> key4 \<Rightarrow> bool" where
  "touches tenant_id project_id camera_id (t, p, a, b) \<longleftrightarrow>
     t = tenant_id \<and> p = project_id \<and> (camera_id = a \<or> camera_id = b)"

definition remove_camera :: "string \<Rightarrow> string \<Rightarrow> string \<Rightarrow> (trj, bool) py" where
  "remove_camera tenant_id project_id camera_id s =
     (let key = store_key tenant_id project_id camera_id in
      (Inr (dict_get (trj_cameras s) key \<noteq> None),
       s\<lparr>trj_cameras := dict_pop key (trj_cameras s),
         trj_transitions := filter (\<lambda>kv. \<not> touches tenant_id project_id camera_id (fst kv)) (trj_transitions s)\<rparr>))"

definition transition_key :: "string \<Rightarrow> string \<Rightarrow> camera_transition \<Rightarrow> key4" where
  "transition_key tenant_id project_id tr = (tenant_id, project_id, ctr_from_camera_id tr, ctr_to_camera_id tr)"

definition replace_transitions ::
  "string \<Rightarrow> string \<Rightarrow> string \<Rightarrow> camera_transition list \<Rightarrow> (trj, unit) py" where
  "replace_transitions tenant_id project_id from_camera_id trs s =
     (Inr (), s\<lparr>trj_transitions := fold (\<lambda>tr. dict_set (transition_key tenant_id project_id tr) tr) trs
        (filter (\<lambda>kv. \<not> leaves tenant_id project_id from_camera_id (fst kv)) (trj_transitions s))\<rparr>)"

definition list_transitions :: "string \<Rightarrow> string \<Rightarrow> string option \<Rightarrow> trj \<Rightarrow> camera_transition list" where
  "list_transitions tenant_id project_id from_camera_id s =
     py_sorted (\<lambda>tr. (ctr_from_camera_id tr, ctr_to_camera_id tr))
       (map snd (filter (\<lambda>((t, p, a, b), tr). t = tenant_id \<and> p = project_id \<and>
          (from_camera_id = None \<or> from_camera_id = Some a)) (trj_transitions s)))"

end
