(* ===== verification/Json_Values.thy ===== *)
theory Json_Values
  imports Run_Results
begin

text \<open>
  JSON values as the code reads them from result payloads: dictionary access with \<open>get\<close>, truth
  values, tests with \<open>isinstance\<close> and the conversions \<open>float\<close>, \<open>int\<close> and \<open>str\<close>. What the conversions do
  with strings, and \<open>str\<close> of other values, is a parameter.
\<close>

record json_text =
  jt_str :: "json \<Rightarrow> string"
  jt_float :: "string \<Rightarrow> exn + pyfloat"
  jt_int :: "string \<Rightarrow> exn + int"

definition json_get :: "string \<Rightarrow> json \<Rightarrow> json" where
  "json_get k v = (case v of JObj d \<Rightarrow> (case dict_get d k of None \<Rightarrow> JNull | Some x \<Rightarrow> x) | _ \<Rightarrow> JNull)"

fun json_true :: "json \<Rightarrow> bool" where
  "json_true JNull \<longleftrightarrow> False"
| "json_true (JBool b) \<longleftrightarrow> b"
| "json_true (JInt i) \<longleftrightarrow> i \<noteq> 0"
| "json_true (JFloat q) \<longleftrightarrow> q \<noteq> 0"
| "json_true (JStr s) \<longleftrightarrow> s \<noteq> []"
| "json_true (JList xs) \<longleftrightarrow> xs \<noteq> []"
| "json_true (JObj d) \<longleftrightarrow> d \<noteq> []"

fun is_object :: "json \<Rightarrow> bool" where
  "is_object (JObj _) = True"
| "is_object _ = False"

text \<open>\<open>isinstance(v, int | float)\<close>, which a bool satisfies, and the value; without bools.\<close>

fun json_number :: "json \<Rightarrow> pyfloat option" where
  "json_number (JBool b) = Some (if b then 1 else 0)"
| "json_number (JInt i) = Some (of_int i)"
| "json_number (JFloat q) = Some q"
| "json_number _ = None"

fun json_real :: "json \<Rightarrow> pyfloat option" where
  "json_real (JInt i) = Some (of_int i)"
| "json_real (JFloat q) = Some q"
| "json_real _ = None"

fun json_float :: "json_text \<Rightarrow> json \<Rightarrow> exn + pyfloat" where
  "json_float jt (JStr s) = jt_float jt s"
| "json_float jt v = (case json_number v of
     Some q \<Rightarrow> Inr q | None \<Rightarrow> Inl (Failure ''float() argument must be a string or a real number''))"

fun json_floats :: "json_text \<Rightarrow> json list \<Rightarrow> exn + pyfloat list" where
  "json_floats jt [] = Inr []"
| "json_floats jt (v # vs) = (case json_float jt v of
     Inl e \<Rightarrow> Inl e
   | Inr x \<Rightarrow> (case json_floats jt vs of Inl e \<Rightarrow> Inl e | Inr xs \<Rightarrow> Inr (x # xs)))"

text \<open>\<open>int(x)\<close> truncates towards zero; \<open>str(v or "")\<close>; \<open>str(v) if v else None\<close>.\<close>

definition truncated :: "pyfloat \<Rightarrow> int" where
  "truncated q = (if q < 0 then - \<lfloor>- q\<rfloor> else \<lfloor>q\<rfloor>)"

fun json_int :: "json_text \<Rightarrow> json \<Rightarrow> exn + int" where
  "json_int jt (JStr s) = jt_int jt s"
| "json_int jt v = (case json_number v of
     Some q \<Rightarrow> Inr (truncated q) | None \<Rightarrow> Inl (Failure ''int() argument must be a string or a real number''))"

definition str_or_empty :: "json_text \<Rightarrow> json \<Rightarrow> string" where
  "str_or_empty jt v = (if json_true v then jt_str jt v else [])"

definition str_or_none :: "json_text \<Rightarrow> json \<Rightarrow> string option" where
  "str_or_none jt v = (if json_true v then Some (jt_str jt v) else None)"

definition text_field :: "string \<Rightarrow> json \<Rightarrow> string" where
  "text_field k v = (case json_get k v of JStr s \<Rightarrow> s | _ \<Rightarrow> [])"

definition recording_start :: "json_dict \<Rightarrow> pyfloat option" where
  "recording_start params = (case dict_get params ''recording_started_at'' of
     Some v \<Rightarrow> json_real v | None \<Rightarrow> None)"

definition nullable :: "string option \<Rightarrow> json" where
  "nullable v = (case v of None \<Rightarrow> JNull | Some s \<Rightarrow> JStr s)"

section \<open>Private attributes of a result\<close>

text \<open>\<open>ResultIndexVector\<close> and the two private attributes of a result that are never serialised.\<close>

record index_vector =
  ivc_object_id :: string
  ivc_feature_space_id :: string
  ivc_model_id :: string
  ivc_model_version :: string
  ivc_vector :: "pyfloat list"
  ivc_quality :: "pyfloat option"
  ivc_modality :: string

record private_evidence =
  pev_trajectory_tracks :: "json list"
  pev_index_vectors :: "index_vector list"

end
