(* ===== verification/Trajectory_Service.thy ===== *)
theory Trajectory_Service
  imports Trajectory_Store Json_Values Portrait_Service
begin

text \<open>
  \<open>TrajectoryService\<close> (\<open>domains/portrait/trajectory.py\<close>): the tracks of a run are assigned to
  long-term identities by re-identification over the feature store, subject to simultaneous tracks
  and travel times; cameras and their travel times are managed.
\<close>

record trajectory_backends = portrait_backends +
  tjb_trajectories :: trajectory_repository

type_synonym 'z trajectory_world = "'z trajectory_backends_scheme beside"

definition in_trajectories :: "(trj, 'a) py \<Rightarrow> ('z trajectory_backends_scheme, 'a) py" where
  "in_trajectories m b = (case m (tjb_trajectories b) of (r, s) \<Rightarrow> (r, b\<lparr>tjb_trajectories := s\<rparr>))"

definition trj_call :: "(trj, 'a) py \<Rightarrow> ('z trajectory_world, 'a) py" where
  "trj_call m = repo_call (in_trajectories m)"

definition trj_read :: "(trj \<Rightarrow> 'a) \<Rightarrow> ('z trajectory_world, 'a) py" where
  "trj_read f = repo_read (\<lambda>b. f (tjb_trajectories b))"

definition feat_call :: "(feature_store, 'a) py \<Rightarrow> ('z trajectory_world, 'a) py" where
  "feat_call m = repo_call (in_features m)"

definition feat_read :: "(feature_store \<Rightarrow> 'a) \<Rightarrow> ('z trajectory_world, 'a) py" where
  "feat_read f = repo_read (\<lambda>b. f (pbk_features b))"

text \<open>The arguments of the constructor, \<open>math.sqrt\<close>, the conversions of JSON values and \<open>round(x, 6)\<close>.\<close>

record trajectory_settings =
  tjs_body_threshold :: pyfloat
  tjs_face_threshold :: pyfloat
  tjs_min_track_quality :: pyfloat
  tjs_min_frame_count :: int
  tjs_max_templates :: int
  tjs_default_transition_seconds :: pyfloat
  tjs_sqrt :: "pyfloat \<Rightarrow> pyfloat"
  tjs_text :: json_text
  tjs_round6 :: "pyfloat \<Rightarrow> pyfloat"

definition threshold_for :: "trajectory_settings \<Rightarrow> string \<Rightarrow> pyfloat" where
  "threshold_for ts modality = (if modality = ''body'' then tjs_body_threshold ts else tjs_face_threshold ts)"

section \<open>Reading a track\<close>

fun real_items :: "json list \<Rightarrow> pyfloat list option" where
  "real_items [] = Some []"
| "real_items (v # vs) = (case (json_real v, real_items vs) of (Some x, Some xs) \<Rightarrow> Some (x # xs) | _ \<Rightarrow> None)"

definition coerce_vector :: "json \<Rightarrow> pyfloat list option" where
  "coerce_vector v = (case v of JList xs \<Rightarrow> if xs = [] then None else real_items xs | _ \<Rightarrow> None)"

definition track_embeddings :: "json \<Rightarrow> (string, pyfloat list) dict" where
  "track_embeddings track = List.map_filter (\<lambda>(modality, key).
       map_option (Pair modality) (coerce_vector (json_get ''embedding'' (json_get key track))))
     [(''body'', ''template''), (''face'', ''face_template'')]"

definition quality_gate :: "trajectory_settings \<Rightarrow> json \<Rightarrow> string option" where
  "quality_gate ts track =
     (if (case json_real (json_get ''tracklet_quality_score'' track) of None \<Rightarrow> False | Some q \<Rightarrow> q < tjs_min_track_quality ts)
      then Some ''low_quality''
      else if (case json_get ''frame_count'' track of JInt n \<Rightarrow> n < tjs_min_frame_count ts | _ \<Rightarrow> False)
      then Some ''too_few_frames'' else None)"

definition observation_window :: "json \<Rightarrow> pyfloat \<Rightarrow> pyfloat \<times> pyfloat" where
  "observation_window track base_time =
     (case (json_number (json_get ''first_pts_ms'' track), json_number (json_get ''last_pts_ms'' track)) of
        (Some a, Some b) \<Rightarrow> (min (base_time + a / 1000) (base_time + b / 1000), max (base_time + a / 1000) (base_time + b / 1000))
      | _ \<Rightarrow> (base_time, base_time))"

section \<open>Candidates\<close>

text \<open>The model \<open>FeatureSpace\<close> admits dimensions up to 65536; its constructor raises otherwise.\<close>

definition trajectory_space :: "string \<Rightarrow> int \<Rightarrow> pyfloat \<Rightarrow> feature_space" where
  "trajectory_space modality dimension now =
     (let (model_id, model_version) = (case dict_get MODALITY_MODELS modality of None \<Rightarrow> ([], []) | Some m \<Rightarrow> m) in
      \<lparr>fsp_feature_space_id = ''portrait.trajectory.'' @ modality @ ''.'' @ int_str dimension @ ''.v1'', fsp_domain = ''portrait'',
       fsp_modality = modality, fsp_model_id = model_id, fsp_model_version = model_version, fsp_dimension = dimension,
       fsp_distance_metric = COSINE, fsp_threshold = None, fsp_created_at = now\<rparr>)"

definition ts_ensure_space :: "string \<Rightarrow> int \<Rightarrow> ('z trajectory_world, feature_space) py" where
  "ts_ensure_space modality dimension =
     andthen (on_world time_time) (\<lambda>now.
       if 65536 < dimension then throw (ValueError ''Input should be less than or equal to 65536'')
       else
         let sp = trajectory_space modality dimension now in
         andthen (feat_read (get_space (fsp_feature_space_id sp))) (\<lambda>existing. case existing of
           Some found \<Rightarrow> ret found
         | None \<Rightarrow> feat_call (create_space sp)))"

text \<open>\<open>bucket.get(modality, -1.0)\<close>\<close>

definition best_in :: "(string, pyfloat) dict \<Rightarrow> string \<Rightarrow> pyfloat" where
  "best_in bucket modality = (case dict_get bucket modality of None \<Rightarrow> - 1 | Some x \<Rightarrow> x)"

type_synonym candidate_scores = "(string, (string, pyfloat) dict) dict"

definition note_candidate :: "string \<Rightarrow> feature_match \<Rightarrow> candidate_scores \<Rightarrow> candidate_scores" where
  "note_candidate modality m per_identity =
     (if fmt_subject_type m \<noteq> SUBJECT_TYPE then per_identity
      else
        let bucket = (case dict_get per_identity (fmt_subject_id m) of None \<Rightarrow> [] | Some d \<Rightarrow> d) in
        dict_set (fmt_subject_id m)
          (if best_in bucket modality < fmt_score m then dict_set modality (fmt_score m) bucket else bucket) per_identity)"

fun candidates ::
  "trajectory_settings \<Rightarrow> principal_context \<Rightarrow> (string, pyfloat list) dict \<Rightarrow> candidate_scores \<Rightarrow> (string, string) dict \<Rightarrow>
    ('z trajectory_world, candidate_scores \<times> (string, string) dict) py" where
  "candidates ts ctx [] per_identity spaces = ret (per_identity, spaces)"
| "candidates ts ctx ((modality, vector) # rest) per_identity spaces =
     andthen (ts_ensure_space modality (int (length vector))) (\<lambda>sp.
     andthen (on_world time_time) (\<lambda>now.
     andthen (feat_call (asking (search_features (tjs_sqrt ts) now (ctx_tenant_id ctx) (ctx_project_id ctx)
         (fsp_feature_space_id sp) vector 16 (Some (threshold_for ts modality))))) (\<lambda>matches.
       candidates ts ctx rest (fold (note_candidate modality) matches per_identity)
         (dict_set modality (fsp_feature_space_id sp) spaces))))"

definition weight_of :: "string \<Rightarrow> pyfloat" where
  "weight_of modality = (case dict_get FUSION_WEIGHTS modality of None \<Rightarrow> 0 | Some w \<Rightarrow> w)"

text \<open>The scores of one candidate fused; without scores the division raises (\<open>ranked\<close>).\<close>

definition fuse :: "(string, pyfloat) dict \<Rightarrow> pyfloat" where
  "fuse scores = (case scores of [(_, score)] \<Rightarrow> score
     | _ \<Rightarrow> sum_list (map (\<lambda>(m, score). weight_of m * score) scores) / sum_list (map (\<lambda>(m, _). weight_of m) scores))"

definition ranked :: "candidate_scores \<Rightarrow> exn + (string \<times> (string, pyfloat) dict) list" where
  "ranked per_identity =
     (if list_ex (\<lambda>(_, scores). scores = []) per_identity then Inl ZeroDivisionError
      else Inr (py_sorted (\<lambda>(i, scores). (- fuse scores, i)) per_identity))"

section \<open>Travel times\<close>

type_synonym travel_bounds = "(string \<times> string, pyfloat \<times> pyfloat option) dict"

definition travel_bounds_of :: "camera_transition list \<Rightarrow> travel_bounds" where
  "travel_bounds_of trs = fold (\<lambda>tr. dict_set (ctr_from_camera_id tr, ctr_to_camera_id tr)
     (ctr_min_seconds tr, ctr_max_seconds tr)) trs []"

definition gap_allows :: "trajectory_settings \<Rightarrow> travel_bounds \<Rightarrow> string \<times> string \<Rightarrow> pyfloat \<Rightarrow> bool" where
  "gap_allows ts bounds key gap =
     (let (minimum, maximum) = (case dict_get bounds key of
          None \<Rightarrow> (tjs_default_transition_seconds ts, None) | Some b \<Rightarrow> b) in
      minimum \<le> gap \<and> (case maximum of None \<Rightarrow> True | Some m \<Rightarrow> gap \<le> m))"

definition neighbours_allow ::
  "trajectory_settings \<Rightarrow> travel_bounds \<Rightarrow> string \<Rightarrow> pyfloat \<times> pyfloat \<Rightarrow> reachability_probe \<Rightarrow> bool" where
  "neighbours_allow ts bounds camera_id window pr \<longleftrightarrow>
     (case rpr_previous pr of None \<Rightarrow> True | Some p \<Rightarrow> rob_camera_id p = camera_id \<or>
        gap_allows ts bounds (rob_camera_id p, camera_id) (fst window - rob_last_seen_at p)) \<and>
     (case rpr_following pr of None \<Rightarrow> True | Some f \<Rightarrow> rob_camera_id f = camera_id \<or>
        gap_allows ts bounds (camera_id, rob_camera_id f) (rob_first_seen_at f - snd window))"

definition transition_allows ::
  "trajectory_settings \<Rightarrow> principal_context \<Rightarrow> string \<Rightarrow> string \<Rightarrow> pyfloat \<times> pyfloat \<Rightarrow> ('z trajectory_world, bool) py" where
  "transition_allows ts ctx identity_id camera_id window =
     andthen (trj_read (probe_reachability (ctx_tenant_id ctx) (ctx_project_id ctx) identity_id camera_id window)) (\<lambda>pr.
       if rpr_overlapping pr then ret False
       else if rpr_previous pr = None \<and> rpr_following pr = None then ret True
       else
         andthen (trj_read (list_transitions (ctx_tenant_id ctx) (ctx_project_id ctx) None)) (\<lambda>trs.
           ret (neighbours_allow ts (travel_bounds_of trs) camera_id window pr)))"

section \<open>Ingesting a track\<close>

type_synonym claims = "(string, (pyfloat \<times> pyfloat) list) dict"

definition taken_windows :: "claims \<Rightarrow> string \<Rightarrow> (pyfloat \<times> pyfloat) list" where
  "taken_windows claimed i = (case dict_get claimed i of None \<Rightarrow> [] | Some ws \<Rightarrow> ws)"

text \<open>What the tracks of one run have in common.\<close>

record ingest_frame =
  igf_run_id :: string
  igf_source_id :: string
  igf_asset_id :: string
  igf_camera_id :: string
  igf_has_absolute_time :: bool

fun choose_identity ::
  "trajectory_settings \<Rightarrow> principal_context \<Rightarrow> ingest_frame \<Rightarrow> pyfloat \<times> pyfloat \<Rightarrow> claims \<Rightarrow>
    (string \<times> (string, pyfloat) dict) list \<Rightarrow> ('z trajectory_world, (string \<times> (string, pyfloat) dict) option) py" where
  "choose_identity ts ctx fr window claimed [] = ret None"
| "choose_identity ts ctx fr window claimed ((i, scores) # rest) =
     andthen (trj_read (get_lti (ctx_tenant_id ctx) (ctx_project_id ctx) i)) (\<lambda>found. case found of
       None \<Rightarrow> choose_identity ts ctx fr window claimed rest
     | Some r \<Rightarrow>
         if lti_status r = STATUS_REJECTED then choose_identity ts ctx fr window claimed rest
         else if list_ex (windows_overlap window) (taken_windows claimed i)
         then choose_identity ts ctx fr window claimed rest
         else if igf_camera_id fr \<noteq> [] \<and> igf_has_absolute_time fr then
           andthen (transition_allows ts ctx i (igf_camera_id fr) window) (\<lambda>ok.
             if ok then ret (Some (i, scores)) else choose_identity ts ctx fr window claimed rest)
         else ret (Some (i, scores)))"

definition space_of :: "(string, string) dict \<Rightarrow> string \<Rightarrow> string" where
  "space_of spaces modality = (case dict_get spaces modality of None \<Rightarrow> [] | Some sp \<Rightarrow> sp)"

definition new_lti ::
  "principal_context \<Rightarrow> ingest_frame \<Rightarrow> pyfloat \<times> pyfloat \<Rightarrow> (string, pyfloat list) dict \<Rightarrow> (string, string) dict \<Rightarrow> string \<Rightarrow>
    pyfloat \<Rightarrow> long_term_identity" where
  "new_lti ctx fr window embeddings spaces i now = \<lparr>lti_identity_id = i, lti_tenant_id = ctx_tenant_id ctx,
     lti_project_id = ctx_project_id ctx, lti_display_name = i, lti_status = STATUS_AUTO,
     lti_modalities = py_sorted (\<lambda>m. m) (map fst embeddings),
     lti_feature_space_ids = map (\<lambda>(m, _). (m, space_of spaces m)) embeddings,
     lti_camera_ids = (if igf_camera_id fr = [] then [] else [igf_camera_id fr]), lti_segment_count = 0,
     lti_first_seen_at = fst window, lti_last_seen_at = snd window, lti_last_camera_id = igf_camera_id fr,
     lti_metadata = [], lti_created_at = now, lti_updated_at = now\<rparr>"

definition store_template ::
  "principal_context \<Rightarrow> string \<Rightarrow> (string, string) dict \<Rightarrow> string \<times> pyfloat list \<Rightarrow>
    ('z trajectory_world, string \<times> string) py" where
  "store_template ctx i spaces mv =
     andthen (on_world uuid4_hex) (\<lambda>u.
     andthen (on_world time_time) (\<lambda>now.
     andthen (feat_call (add_feature \<lparr>ftr_feature_id = ''ltf_'' @ u, ftr_tenant_id = ctx_tenant_id ctx,
         ftr_project_id = ctx_project_id ctx,
         ftr_feature_space_id = space_of spaces (fst mv),
         ftr_subject_type = SUBJECT_TYPE, ftr_subject_id = i, ftr_embedding = snd mv, ftr_created_at = now,
         ftr_expires_at = None\<rparr>)) (\<lambda>f. ret (fst mv, ftr_feature_id f))))"

definition store_templates ::
  "principal_context \<Rightarrow> string \<Rightarrow> (string, pyfloat list) dict \<Rightarrow> (string, string) dict \<Rightarrow>
    ('z trajectory_world, (string, string) dict) py" where
  "store_templates ctx i embeddings spaces = map_py (store_template ctx i spaces) embeddings"

definition merged_spaces :: "(string, string) dict \<Rightarrow> (string, string) dict \<Rightarrow> (string, pyfloat list) dict \<Rightarrow> (string, string) dict" where
  "merged_spaces own spaces embeddings =
     fold (\<lambda>(m, _). dict_set m (space_of spaces m)) embeddings own"

definition union_sorted :: "string list \<Rightarrow> string list \<Rightarrow> string list" where
  "union_sorted xs ys = py_sorted (\<lambda>m. m) (remdups (xs @ ys))"

definition apply_segment ::
  "long_term_identity \<Rightarrow> trajectory_segment \<Rightarrow> (string, string) dict \<Rightarrow> (string, pyfloat list) dict \<Rightarrow> pyfloat \<Rightarrow>
    long_term_identity" where
  "apply_segment r sg spaces embeddings now =
     (let last_seen = max (lti_last_seen_at r) (seg_last_seen_at sg) in
      r\<lparr>lti_modalities := union_sorted (lti_modalities r) (map fst embeddings),
        lti_feature_space_ids := merged_spaces (lti_feature_space_ids r) spaces embeddings,
        lti_camera_ids := (if seg_camera_id sg \<noteq> [] \<and> seg_camera_id sg \<notin> set (lti_camera_ids r)
          then lti_camera_ids r @ [seg_camera_id sg] else lti_camera_ids r),
        lti_segment_count := lti_segment_count r + 1,
        lti_first_seen_at := min (lti_first_seen_at r) (seg_first_seen_at sg), lti_last_seen_at := last_seen,
        lti_last_camera_id := (if last_seen = seg_last_seen_at sg then seg_camera_id sg else lti_last_camera_id r),
        lti_updated_at := now\<rparr>)"

text \<open>Templates above the limit go, those of the worst tracks first.\<close>

definition template_quality :: "trajectory_segment list \<Rightarrow> string \<Rightarrow> pyfloat" where
  "template_quality sgs feature_id =
     (case dict_get (fold (\<lambda>sg d. fold (\<lambda>(_, f). dict_set f (seg_track_quality sg)) (seg_feature_ids sg) d) sgs []) feature_id of
        None \<Rightarrow> 0 | Some q \<Rightarrow> q)"

definition prune_space ::
  "trajectory_settings \<Rightarrow> principal_context \<Rightarrow> string \<Rightarrow> string \<Rightarrow> ('z trajectory_world, unit) py" where
  "prune_space ts ctx i space_id =
     andthen (feat_read (list_subject_features (ctx_tenant_id ctx) (ctx_project_id ctx) space_id SUBJECT_TYPE i)) (\<lambda>stored.
       if int (length stored) \<le> tjs_max_templates ts then ret ()
       else
         andthen (trj_read (list_segments (ctx_tenant_id ctx) (ctx_project_id ctx) (Some i) None None None 0 1000)) (\<lambda>(sgs, _).
           for_each (py_slice (py_sorted (\<lambda>f. (template_quality sgs (ftr_feature_id f), ftr_created_at f)) stored) 0
               (int (length stored) - tjs_max_templates ts))
             (\<lambda>f. andthen (feat_call (delete_feature (ctx_tenant_id ctx) (ctx_project_id ctx) (ftr_feature_id f))) (\<lambda>_. ret ()))))"

definition prune_templates ::
  "trajectory_settings \<Rightarrow> principal_context \<Rightarrow> string \<Rightarrow> (string, string) dict \<Rightarrow> ('z trajectory_world, unit) py" where
  "prune_templates ts ctx i space_ids = for_each (remdups (map snd space_ids)) (prune_space ts ctx i)"

definition new_segment ::
  "principal_context \<Rightarrow> ingest_frame \<Rightarrow> json \<Rightarrow> string \<Rightarrow> string \<Rightarrow> string \<Rightarrow> int \<Rightarrow> pyfloat \<Rightarrow> pyfloat \<times> pyfloat \<Rightarrow>
    match_method \<Rightarrow> pyfloat \<Rightarrow> (string, pyfloat) dict \<Rightarrow> (string, string) dict \<Rightarrow> pyfloat \<Rightarrow> trajectory_segment" where
  "new_segment ctx fr track track_id segment_id i frames quality window meth score scores feature_ids now =
     \<lparr>seg_segment_id = segment_id, seg_identity_id = i, seg_tenant_id = ctx_tenant_id ctx,
      seg_project_id = ctx_project_id ctx, seg_run_id = igf_run_id fr, seg_source_id = igf_source_id fr,
      seg_asset_id = igf_asset_id fr, seg_camera_id = igf_camera_id fr, seg_track_id = track_id,
      seg_frame_count = frames, seg_track_quality = max 0 (min 1 quality), seg_first_seen_at = fst window,
      seg_last_seen_at = snd window, seg_first_pts_ms = json_number (json_get ''first_pts_ms'' track),
      seg_last_pts_ms = json_number (json_get ''last_pts_ms'' track), seg_match_method = meth,
      seg_match_score = score, seg_match_scores = scores, seg_feature_ids = feature_ids, seg_metadata = [],
      seg_created_at = now\<rparr>"

record trajectory_ingest_result =
  tir_track_id :: string
  tir_registered :: bool
  tir_skip_reason :: "string option"
  tir_created_identity :: bool
  tir_identity :: "long_term_identity option"
  tir_segment :: "trajectory_segment option"

definition skipped :: "string \<Rightarrow> string \<Rightarrow> trajectory_ingest_result" where
  "skipped track_id reason = \<lparr>tir_track_id = track_id, tir_registered = False, tir_skip_reason = Some reason,
     tir_created_identity = False, tir_identity = None, tir_segment = None\<rparr>"

text \<open>The identity a track goes to: a new one, or the chosen one as it is stored now.\<close>

definition target_identity ::
  "principal_context \<Rightarrow> ingest_frame \<Rightarrow> pyfloat \<times> pyfloat \<Rightarrow> (string, pyfloat list) dict \<Rightarrow> (string, string) dict \<Rightarrow> pyfloat \<Rightarrow>
    (string \<times> (string, pyfloat) dict) option \<Rightarrow> ('z trajectory_world, long_term_identity) py" where
  "target_identity ctx fr window embeddings spaces now chosen = (case chosen of
     None \<Rightarrow> andthen (on_world uuid4_hex) (\<lambda>u. ret (new_lti ctx fr window embeddings spaces (''lti_'' @ u) now))
   | Some (i, _) \<Rightarrow>
       andthen (trj_read (get_lti (ctx_tenant_id ctx) (ctx_project_id ctx) i)) (\<lambda>stored. case stored of
         None \<Rightarrow> throw (TrajectoryNotFound ''long-term identity disappeared during ingest'')
       | Some r \<Rightarrow> ret r))"

definition identity_name :: "(string \<times> (string, pyfloat) dict) option \<Rightarrow> long_term_identity \<Rightarrow> string" where
  "identity_name chosen r = (case chosen of None \<Rightarrow> lti_identity_id r | Some (i, _) \<Rightarrow> i)"

definition chosen_scores :: "(string \<times> (string, pyfloat) dict) option \<Rightarrow> (string, pyfloat) dict" where
  "chosen_scores chosen = (case chosen of None \<Rightarrow> [] | Some (_, scores) \<Rightarrow> scores)"

definition claim_window :: "string \<Rightarrow> pyfloat \<times> pyfloat \<Rightarrow> claims \<Rightarrow> claims" where
  "claim_window i window claimed = dict_set i (taken_windows claimed i @ [window]) claimed"

text \<open>A number of the track that may be missing: \<open>int(track.get(k) or 0)\<close> and the same with \<open>float\<close>.\<close>

definition track_int :: "json_text \<Rightarrow> string \<Rightarrow> json \<Rightarrow> exn + int" where
  "track_int jt k track = (let v = json_get k track in if json_true v then json_int jt v else Inr 0)"

definition track_float :: "json_text \<Rightarrow> string \<Rightarrow> json \<Rightarrow> exn + pyfloat" where
  "track_float jt k track = (let v = json_get k track in if json_true v then json_float jt v else Inr 0)"

definition ingest_one ::
  "'v service \<Rightarrow> trajectory_settings \<Rightarrow> principal_context \<Rightarrow> ingest_frame \<Rightarrow> json \<Rightarrow> string \<Rightarrow> (string, pyfloat list) dict \<Rightarrow>
    pyfloat \<times> pyfloat \<Rightarrow> claims \<Rightarrow> ('z trajectory_world, trajectory_ingest_result \<times> claims) py" where
  "ingest_one sv ts ctx fr track track_id embeddings window claimed =
     andthen (candidates ts ctx embeddings [] []) (\<lambda>(per_identity, spaces).
     andthen (of_sum (ranked per_identity)) (\<lambda>order.
     andthen (choose_identity ts ctx fr window claimed order) (\<lambda>chosen.
     andthen (on_world time_time) (\<lambda>now.
     andthen (target_identity ctx fr window embeddings spaces now chosen) (\<lambda>r.
       let i = identity_name chosen r;
           meth = (if chosen = None then NEW_IDENTITY else REID);
           score = (if chosen = None then 1 else fuse (chosen_scores chosen)) in
       andthen (store_templates ctx i embeddings spaces) (\<lambda>feature_ids.
       andthen (on_world uuid4_hex) (\<lambda>u.
       andthen (of_sum (track_int (tjs_text ts) ''frame_count'' track)) (\<lambda>frames.
       andthen (of_sum (track_float (tjs_text ts) ''tracklet_quality_score'' track)) (\<lambda>quality.
         let sg = new_segment ctx fr track track_id (''lts_'' @ u) i frames quality window meth score
               (chosen_scores chosen) feature_ids now in
         andthen (trj_call (put_segment sg)) (\<lambda>_.
         let r' = apply_segment r sg spaces embeddings now in
         andthen (trj_call (put_lti r')) (\<lambda>_.
         andthen (prune_templates ts ctx i (lti_feature_space_ids r')) (\<lambda>_.
         andthen (portrait_record sv ctx ''portrait.trajectory.ingest'' ''portrait_trajectory'' (Some i)
             [(''segment_id'', JStr (seg_segment_id sg)), (''run_id'', JStr (igf_run_id fr)),
              (''camera_id'', JStr (igf_camera_id fr)), (''match_method'', JStr (match_method_value meth)),
              (''match_score'', JFloat (tjs_round6 ts score)),
              (''modalities'', JList (map JStr (py_sorted (\<lambda>m. m) (map fst embeddings)))),
              (''created_identity'', JBool (chosen = None))]) (\<lambda>_.
           ret (\<lparr>tir_track_id = track_id, tir_registered = True, tir_skip_reason = None,
               tir_created_identity = (chosen = None), tir_identity = Some r', tir_segment = Some sg\<rparr>,
             claim_window i window claimed))))))))))))))"

fun ingest_loop ::
  "'v service \<Rightarrow> trajectory_settings \<Rightarrow> principal_context \<Rightarrow> ingest_frame \<Rightarrow> pyfloat \<Rightarrow> json list \<Rightarrow> claims \<Rightarrow>
    ('z trajectory_world, trajectory_ingest_result list) py" where
  "ingest_loop sv ts ctx fr base_time [] claimed = ret []"
| "ingest_loop sv ts ctx fr base_time (track # tracks) claimed =
     (let track_id = str_or_empty (tjs_text ts) (json_get ''track_id'' track); embeddings = track_embeddings track;
          skip = (case quality_gate ts track of Some reason \<Rightarrow> Some reason
            | None \<Rightarrow> if embeddings = [] then Some ''missing_embedding'' else None) in
      case skip of
        Some reason \<Rightarrow> andthen (ingest_loop sv ts ctx fr base_time tracks claimed) (\<lambda>rs. ret (skipped track_id reason # rs))
      | None \<Rightarrow>
          andthen (ingest_one sv ts ctx fr track track_id embeddings (observation_window track base_time) claimed)
            (\<lambda>(r, claimed'). andthen (ingest_loop sv ts ctx fr base_time tracks claimed') (\<lambda>rs. ret (r # rs))))"

section \<open>Cameras\<close>

definition new_camera :: "principal_context \<Rightarrow> string \<Rightarrow> pyfloat \<Rightarrow> camera_record" where
  "new_camera ctx camera_id now = \<lparr>cam_camera_id = camera_id, cam_tenant_id = ctx_tenant_id ctx,
     cam_project_id = ctx_project_id ctx, cam_display_name = camera_id, cam_location = [], cam_auto_registered = True,
     cam_metadata = [], cam_created_at = now, cam_updated_at = now\<rparr>"

definition ensure_camera :: "principal_context \<Rightarrow> string \<Rightarrow> ('z trajectory_world, camera_record) py" where
  "ensure_camera ctx camera_id =
     andthen (trj_read (find_camera (ctx_tenant_id ctx) (ctx_project_id ctx) camera_id)) (\<lambda>existing. case existing of
       Some c \<Rightarrow> ret c
     | None \<Rightarrow>
         andthen (on_world time_time) (\<lambda>now.
           let c = new_camera ctx camera_id now in andthen (trj_call (put_camera c)) (\<lambda>_. ret c)))"

definition ingest_run_tracks ::
  "'v service \<Rightarrow> trajectory_settings \<Rightarrow> principal_context \<Rightarrow> string \<Rightarrow> json list \<Rightarrow> string \<Rightarrow> string \<Rightarrow> string \<Rightarrow> pyfloat option \<Rightarrow>
    ('z trajectory_world, trajectory_ingest_result list) py" where
  "ingest_run_tracks sv ts ctx run_id tracks source_id asset_id camera_id recording_started_at =
     andthen (portrait_allow sv ctx ''write'' ''portrait_trajectory'' []) (\<lambda>_.
     andthen (if camera_id = [] then ret () else andthen (ensure_camera ctx camera_id) (\<lambda>_. ret ())) (\<lambda>_.
     andthen (case recording_started_at of Some t \<Rightarrow> ret t | None \<Rightarrow> on_world time_time) (\<lambda>base_time.
       ingest_loop sv ts ctx \<lparr>igf_run_id = run_id, igf_source_id = source_id, igf_asset_id = asset_id,
         igf_camera_id = camera_id, igf_has_absolute_time = (recording_started_at \<noteq> None)\<rparr> base_time tracks [])))"

record register_camera_request =
  rcq_camera_id :: string
  rcq_display_name :: string
  rcq_location :: string
  rcq_metadata :: json_dict

definition register_camera ::
  "'v service \<Rightarrow> principal_context \<Rightarrow> register_camera_request \<Rightarrow> ('z trajectory_world, camera_record) py" where
  "register_camera sv ctx q =
     andthen (portrait_allow sv ctx ''write'' ''portrait_camera'' []) (\<lambda>_.
     andthen (on_world time_time) (\<lambda>now.
     andthen (trj_read (find_camera (ctx_tenant_id ctx) (ctx_project_id ctx) (rcq_camera_id q))) (\<lambda>existing.
       let c = \<lparr>cam_camera_id = rcq_camera_id q, cam_tenant_id = ctx_tenant_id ctx, cam_project_id = ctx_project_id ctx,
           cam_display_name = (if rcq_display_name q = [] then rcq_camera_id q else rcq_display_name q),
           cam_location = rcq_location q, cam_auto_registered = False, cam_metadata = rcq_metadata q,
           cam_created_at = (case existing of None \<Rightarrow> now | Some e \<Rightarrow> cam_created_at e), cam_updated_at = now\<rparr> in
       andthen (trj_call (put_camera c)) (\<lambda>_.
       andthen (portrait_record sv ctx ''portrait.camera.register'' ''portrait_camera'' (Some (cam_camera_id c)) [])
         (\<lambda>_. ret c)))))"

definition ts_list_cameras :: "'v service \<Rightarrow> principal_context \<Rightarrow> ('z trajectory_world, camera_record list) py" where
  "ts_list_cameras sv ctx =
     andthen (portrait_allow sv ctx ''read'' ''portrait_camera'' [])
       (\<lambda>_. trj_read (list_cameras (ctx_tenant_id ctx) (ctx_project_id ctx)))"

definition get_camera :: "'v service \<Rightarrow> principal_context \<Rightarrow> string \<Rightarrow> ('z trajectory_world, camera_record) py" where
  "get_camera sv ctx camera_id =
     andthen (portrait_allow sv ctx ''read'' ''portrait_camera'' []) (\<lambda>_.
     andthen (trj_read (find_camera (ctx_tenant_id ctx) (ctx_project_id ctx) camera_id)) (\<lambda>found.
       case found of None \<Rightarrow> throw (TrajectoryNotFound ''camera not found'') | Some c \<Rightarrow> ret c))"

record update_camera_request =
  ucq_display_name :: "string option"
  ucq_location :: "string option"
  ucq_metadata :: "json_dict option"

definition update_camera ::
  "'v service \<Rightarrow> principal_context \<Rightarrow> string \<Rightarrow> update_camera_request \<Rightarrow> ('z trajectory_world, camera_record) py" where
  "update_camera sv ctx camera_id q =
     andthen (portrait_allow sv ctx ''write'' ''portrait_camera'' []) (\<lambda>_.
     andthen (get_camera sv ctx camera_id) (\<lambda>c.
     andthen (on_world time_time) (\<lambda>now.
       let c' = c\<lparr>cam_updated_at := now, cam_auto_registered := False,
           cam_display_name := or_current (ucq_display_name q) (cam_display_name c),
           cam_location := or_current (ucq_location q) (cam_location c),
           cam_metadata := or_current (ucq_metadata q) (cam_metadata c)\<rparr> in
       andthen (trj_call (put_camera c')) (\<lambda>_.
       andthen (portrait_record sv ctx ''portrait.camera.update'' ''portrait_camera'' (Some camera_id) [])
         (\<lambda>_. ret c')))))"

definition ts_delete_camera :: "'v service \<Rightarrow> principal_context \<Rightarrow> string \<Rightarrow> ('z trajectory_world, unit) py" where
  "ts_delete_camera sv ctx camera_id =
     andthen (portrait_allow sv ctx ''delete'' ''portrait_camera'' []) (\<lambda>_.
     andthen (trj_call (remove_camera (ctx_tenant_id ctx) (ctx_project_id ctx) camera_id)) (\<lambda>removed.
       if \<not> removed then throw (TrajectoryNotFound ''camera not found'')
       else portrait_record sv ctx ''portrait.camera.delete'' ''portrait_camera'' (Some camera_id) []))"

record camera_transition_entry =
  cte_to_camera_id :: string
  cte_min_seconds :: pyfloat
  cte_max_seconds :: "pyfloat option"

definition set_camera_transitions ::
  "'v service \<Rightarrow> principal_context \<Rightarrow> string \<Rightarrow> camera_transition_entry list \<Rightarrow>
    ('z trajectory_world, camera_transition list) py" where
  "set_camera_transitions sv ctx camera_id entries =
     andthen (portrait_allow sv ctx ''write'' ''portrait_camera'' []) (\<lambda>_.
     andthen (ensure_camera ctx camera_id) (\<lambda>_.
       let trs = map (\<lambda>e. \<lparr>ctr_from_camera_id = camera_id, ctr_to_camera_id = cte_to_camera_id e,
           ctr_min_seconds = cte_min_seconds e, ctr_max_seconds = cte_max_seconds e\<rparr>) entries in
       andthen (for_each trs (\<lambda>tr. andthen (ensure_camera ctx (ctr_to_camera_id tr)) (\<lambda>_. ret ()))) (\<lambda>_.
       andthen (trj_call (replace_transitions (ctx_tenant_id ctx) (ctx_project_id ctx) camera_id trs)) (\<lambda>_.
       andthen (portrait_record sv ctx ''portrait.camera.transitions'' ''portrait_camera'' (Some camera_id)
           [(''transition_count'', JInt (int (length trs)))])
         (\<lambda>_. ret trs)))))"

definition list_camera_transitions ::
  "'v service \<Rightarrow> principal_context \<Rightarrow> string \<Rightarrow> ('z trajectory_world, camera_transition list) py" where
  "list_camera_transitions sv ctx camera_id =
     andthen (portrait_allow sv ctx ''read'' ''portrait_camera'' []) (\<lambda>_.
     andthen (get_camera sv ctx camera_id)
       (\<lambda>_. trj_read (list_transitions (ctx_tenant_id ctx) (ctx_project_id ctx) (Some camera_id))))"

end
