(* ===== verification/Trajectory_Review.thy ===== *)
theory Trajectory_Review
  imports Trajectory_Service
begin

text \<open>
  The second half of \<open>TrajectoryService\<close> (\<open>domains/portrait/trajectory.py\<close>): queries of identities and
  their timelines, the corrections a reviewer makes (update, delete, merge, split), and
  \<open>TrajectoryRegistrar\<close>, which ingests the tracks of a run's result.
\<close>

section \<open>Queries\<close>

definition ts_list_identities ::
  "'v service \<Rightarrow> principal_context \<Rightarrow> trajectory_status option \<Rightarrow> string option \<Rightarrow> pyfloat option \<Rightarrow> pyfloat option \<Rightarrow> int \<Rightarrow>
    int \<Rightarrow> ('z trajectory_world, long_term_identity list \<times> int) py" where
  "ts_list_identities sv ctx status camera_id since until off lmt =
     andthen (portrait_allow sv ctx ''read'' ''portrait_trajectory'' [])
       (\<lambda>_. trj_read (list_ltis (ctx_tenant_id ctx) (ctx_project_id ctx) status camera_id since until off lmt))"

definition ts_get_identity ::
  "'v service \<Rightarrow> principal_context \<Rightarrow> string \<Rightarrow> ('z trajectory_world, long_term_identity) py" where
  "ts_get_identity sv ctx identity_id =
     andthen (portrait_allow sv ctx ''read'' ''portrait_trajectory'' []) (\<lambda>_.
     andthen (trj_read (get_lti (ctx_tenant_id ctx) (ctx_project_id ctx) identity_id)) (\<lambda>found.
       case found of None \<Rightarrow> throw (TrajectoryNotFound ''long-term identity not found'') | Some r \<Rightarrow> ret r))"

definition ts_list_segments ::
  "'v service \<Rightarrow> principal_context \<Rightarrow> string \<Rightarrow> string option \<Rightarrow> pyfloat option \<Rightarrow> pyfloat option \<Rightarrow> int \<Rightarrow> int \<Rightarrow>
    ('z trajectory_world, trajectory_segment list \<times> int) py" where
  "ts_list_segments sv ctx identity_id camera_id since until off lmt =
     andthen (ts_get_identity sv ctx identity_id)
       (\<lambda>_. trj_read (list_segments (ctx_tenant_id ctx) (ctx_project_id ctx) (Some identity_id) camera_id since until off lmt))"

text \<open>At most 1000 segments are read, wherever all of an identity's are meant.\<close>

definition own_segments :: "principal_context \<Rightarrow> string \<Rightarrow> ('z trajectory_world, trajectory_segment list) py" where
  "own_segments ctx i =
     andthen (trj_read (list_segments (ctx_tenant_id ctx) (ctx_project_id ctx) (Some i) None None None 0 1000))
       (\<lambda>(sgs, _). ret sgs)"

record timeline_entry =
  tle_segment_id :: string
  tle_camera_id :: string
  tle_camera_name :: string
  tle_run_id :: string
  tle_first_seen_at :: pyfloat
  tle_last_seen_at :: pyfloat
  tle_duration_seconds :: pyfloat
  tle_match_method :: match_method
  tle_match_score :: pyfloat
  tle_transition_seconds :: "pyfloat option"

fun timeline_entries :: "(string, string) dict \<Rightarrow> pyfloat option \<Rightarrow> trajectory_segment list \<Rightarrow> timeline_entry list" where
  "timeline_entries names previous_end [] = []"
| "timeline_entries names previous_end (sg # sgs) =
     \<lparr>tle_segment_id = seg_segment_id sg, tle_camera_id = seg_camera_id sg,
      tle_camera_name = (case dict_get names (seg_camera_id sg) of None \<Rightarrow> seg_camera_id sg | Some n \<Rightarrow> n),
      tle_run_id = seg_run_id sg, tle_first_seen_at = seg_first_seen_at sg, tle_last_seen_at = seg_last_seen_at sg,
      tle_duration_seconds = max 0 (seg_last_seen_at sg - seg_first_seen_at sg), tle_match_method = seg_match_method sg,
      tle_match_score = seg_match_score sg,
      tle_transition_seconds = map_option (\<lambda>e. max 0 (seg_first_seen_at sg - e)) previous_end\<rparr>
     # timeline_entries names (Some (seg_last_seen_at sg)) sgs"

definition timeline :: "'v service \<Rightarrow> principal_context \<Rightarrow> string \<Rightarrow> ('z trajectory_world, timeline_entry list) py" where
  "timeline sv ctx identity_id =
     andthen (ts_get_identity sv ctx identity_id) (\<lambda>_.
     andthen (own_segments ctx identity_id) (\<lambda>sgs.
     andthen (trj_read (list_cameras (ctx_tenant_id ctx) (ctx_project_id ctx))) (\<lambda>cs.
       ret (timeline_entries (fold (\<lambda>c. dict_set (cam_camera_id c) (cam_display_name c)) cs []) None sgs))))"

section \<open>Updating and deleting\<close>

record update_identity_request =
  uiq_display_name :: "string option"
  uiq_status :: "trajectory_status option"
  uiq_metadata :: "json_dict option"

definition ts_update_identity ::
  "'v service \<Rightarrow> principal_context \<Rightarrow> string \<Rightarrow> update_identity_request \<Rightarrow> ('z trajectory_world, long_term_identity) py" where
  "ts_update_identity sv ctx identity_id q =
     andthen (portrait_allow sv ctx ''write'' ''portrait_trajectory'' []) (\<lambda>_.
     andthen (ts_get_identity sv ctx identity_id) (\<lambda>r.
     andthen (on_world time_time) (\<lambda>now.
       let r' = r\<lparr>lti_updated_at := now, lti_display_name := or_current (uiq_display_name q) (lti_display_name r),
           lti_status := or_current (uiq_status q) (lti_status r), lti_metadata := or_current (uiq_metadata q) (lti_metadata r)\<rparr> in
       andthen (trj_call (put_lti r')) (\<lambda>_.
       andthen (portrait_record sv ctx ''portrait.trajectory.update'' ''portrait_trajectory'' (Some identity_id)
           [(''status'', JStr (trajectory_status_value (lti_status r')))])
         (\<lambda>_. ret r')))))"

definition ts_delete_identity :: "'v service \<Rightarrow> principal_context \<Rightarrow> string \<Rightarrow> ('z trajectory_world, unit) py" where
  "ts_delete_identity sv ctx identity_id =
     andthen (portrait_allow sv ctx ''delete'' ''portrait_trajectory'' []) (\<lambda>_.
     andthen (ts_get_identity sv ctx identity_id) (\<lambda>_.
     andthen (portrait_record sv ctx ''portrait.trajectory.delete'' ''portrait_trajectory'' (Some identity_id)
       [(''biometric_deletion'', JBool True)]) (\<lambda>_.
     andthen (feat_call (delete_subject (ctx_tenant_id ctx) (ctx_project_id ctx) SUBJECT_TYPE identity_id)) (\<lambda>_.
     andthen (trj_call (delete_segments_for_identity (ctx_tenant_id ctx) (ctx_project_id ctx) identity_id)) (\<lambda>_.
     andthen (trj_call (delete_lti (ctx_tenant_id ctx) (ctx_project_id ctx) identity_id)) (\<lambda>removed.
       if removed then ret () else throw (TrajectoryConflict ''long-term identity changed during deletion'')))))))"

section \<open>Moving segments\<close>

fun move_features ::
  "principal_context \<Rightarrow> string \<Rightarrow> (string, string) dict \<Rightarrow> (string, string) dict \<Rightarrow> ('z trajectory_world, (string, string) dict) py" where
  "move_features ctx target [] moved = ret moved"
| "move_features ctx target ((modality, feature_id) # rest) moved =
     andthen (feat_read (get_feature (ctx_tenant_id ctx) (ctx_project_id ctx) feature_id)) (\<lambda>found. case found of
       None \<Rightarrow> move_features ctx target rest moved
     | Some f \<Rightarrow>
         andthen (on_world uuid4_hex) (\<lambda>u.
         andthen (feat_call (add_feature (f\<lparr>ftr_feature_id := ''ltf_'' @ u, ftr_subject_id := target\<rparr>))) (\<lambda>created.
         andthen (feat_call (delete_feature (ctx_tenant_id ctx) (ctx_project_id ctx) feature_id)) (\<lambda>_.
           move_features ctx target rest (dict_set modality (ftr_feature_id created) moved)))))"

definition rehome_segment ::
  "principal_context \<Rightarrow> string \<Rightarrow> trajectory_segment \<Rightarrow> ('z trajectory_world, trajectory_segment) py" where
  "rehome_segment ctx target sg =
     andthen (move_features ctx target (seg_feature_ids sg) []) (\<lambda>moved.
       let sg' = sg\<lparr>seg_identity_id := target, seg_match_method := MANUAL, seg_feature_ids := moved\<rparr> in
       andthen (trj_call (put_segment sg')) (\<lambda>_. ret sg'))"

definition cameras_of :: "trajectory_segment list \<Rightarrow> string list" where
  "cameras_of sgs = rev (remdups (rev (filter (\<lambda>c. c \<noteq> []) (map seg_camera_id sgs))))"

definition list_min :: "pyfloat list \<Rightarrow> pyfloat" where
  "list_min xs = (case xs of [] \<Rightarrow> 0 | y # ys \<Rightarrow> fold min ys y)"

definition list_max :: "pyfloat list \<Rightarrow> pyfloat" where
  "list_max xs = (case xs of [] \<Rightarrow> 0 | y # ys \<Rightarrow> fold max ys y)"

definition recomputed :: "long_term_identity \<Rightarrow> trajectory_segment list \<Rightarrow> pyfloat \<Rightarrow> long_term_identity" where
  "recomputed r sgs now =
     (if sgs = [] then r\<lparr>lti_segment_count := 0, lti_camera_ids := [], lti_updated_at := now\<rparr>
      else
        let ordered = py_sorted seg_last_seen_at sgs in
        r\<lparr>lti_segment_count := int (length ordered), lti_camera_ids := cameras_of ordered,
          lti_first_seen_at := list_min (map seg_first_seen_at ordered),
          lti_last_seen_at := seg_last_seen_at (last ordered), lti_last_camera_id := seg_camera_id (last ordered),
          lti_updated_at := now\<rparr>)"

definition put_recomputed ::
  "long_term_identity \<Rightarrow> trajectory_segment list \<Rightarrow> ('z trajectory_world, long_term_identity) py" where
  "put_recomputed r sgs =
     andthen (on_world time_time) (\<lambda>now.
       let r' = recomputed r sgs now in andthen (trj_call (put_lti r')) (\<lambda>_. ret r'))"

section \<open>Merging\<close>

text \<open>\<open>list(dict.fromkeys(ids))\<close> keeps the first of equal items.\<close>

definition first_occurrences :: "'a list \<Rightarrow> 'a list" where
  "first_occurrences xs = rev (remdups (rev xs))"

fun merge_sources ::
  "'v service \<Rightarrow> principal_context \<Rightarrow> long_term_identity \<Rightarrow> string list \<Rightarrow> ('z trajectory_world, long_term_identity) py" where
  "merge_sources sv ctx target [] = ret target"
| "merge_sources sv ctx target (i # rest) =
     andthen (ts_get_identity sv ctx i) (\<lambda>source.
     andthen (own_segments ctx i) (\<lambda>sgs.
     andthen (map_py (rehome_segment ctx (lti_identity_id target)) sgs) (\<lambda>_.
     andthen (feat_call (delete_subject (ctx_tenant_id ctx) (ctx_project_id ctx) SUBJECT_TYPE i)) (\<lambda>_.
     andthen (trj_call (delete_lti (ctx_tenant_id ctx) (ctx_project_id ctx) i)) (\<lambda>_.
       merge_sources sv ctx (target\<lparr>lti_modalities := union_sorted (lti_modalities target) (lti_modalities source)\<rparr>) rest)))))"

definition merge_identities ::
  "'v service \<Rightarrow> principal_context \<Rightarrow> string \<Rightarrow> string list \<Rightarrow> ('z trajectory_world, long_term_identity) py" where
  "merge_identities sv ctx target_id source_ids =
     andthen (portrait_allow sv ctx ''write'' ''portrait_trajectory'' []) (\<lambda>_.
     andthen (ts_get_identity sv ctx target_id) (\<lambda>target.
       let sources = filter (\<lambda>i. i \<noteq> lti_identity_id target) (first_occurrences source_ids) in
       if sources = [] then throw (TrajectoryConflict ''merge requires at least one distinct source identity'')
       else
         andthen (merge_sources sv ctx target sources) (\<lambda>target'.
         andthen (own_segments ctx (lti_identity_id target')) (\<lambda>sgs.
         andthen (put_recomputed target' sgs) (\<lambda>merged.
         andthen (portrait_record sv ctx ''portrait.trajectory.merge'' ''portrait_trajectory'' (Some (lti_identity_id merged))
             [(''source_identity_ids'', JList (map JStr sources))])
           (\<lambda>_. ret merged))))))"

section \<open>Splitting\<close>

definition split_off ::
  "principal_context \<Rightarrow> long_term_identity \<Rightarrow> trajectory_segment list \<Rightarrow> string \<Rightarrow> string \<Rightarrow> pyfloat \<Rightarrow> long_term_identity" where
  "split_off ctx r moving new_id display_name now = \<lparr>lti_identity_id = new_id, lti_tenant_id = ctx_tenant_id ctx,
     lti_project_id = ctx_project_id ctx, lti_display_name = (if display_name = [] then new_id else display_name),
     lti_status = STATUS_CONFIRMED, lti_modalities = lti_modalities r,
     lti_feature_space_ids = lti_feature_space_ids r, lti_camera_ids = [], lti_segment_count = 0,
     lti_first_seen_at = list_min (map seg_first_seen_at moving),
     lti_last_seen_at = list_max (map seg_last_seen_at moving), lti_last_camera_id = [], lti_metadata = [],
     lti_created_at = now, lti_updated_at = now\<rparr>"

definition split_identity ::
  "'v service \<Rightarrow> principal_context \<Rightarrow> string \<Rightarrow> string list \<Rightarrow> string \<Rightarrow> ('z trajectory_world, long_term_identity) py" where
  "split_identity sv ctx identity_id segment_ids display_name =
     andthen (portrait_allow sv ctx ''write'' ''portrait_trajectory'' []) (\<lambda>_.
     andthen (ts_get_identity sv ctx identity_id) (\<lambda>r.
     andthen (own_segments ctx identity_id) (\<lambda>sgs.
       let wanted = remdups segment_ids; moving = filter (\<lambda>sg. seg_segment_id sg \<in> set wanted) sgs in
       if length moving \<noteq> length wanted
       then throw (TrajectoryNotFound ''one or more segments do not belong to this identity'')
       else if length moving = length sgs
       then throw (TrajectoryConflict ''split must leave at least one segment on the source identity'')
       else
         andthen (on_world time_time) (\<lambda>now.
         andthen (on_world uuid4_hex) (\<lambda>u.
           let new_id = ''lti_'' @ u in
           andthen (map_py (rehome_segment ctx new_id) moving) (\<lambda>rehomed.
           andthen (put_recomputed (split_off ctx r moving new_id display_name now) rehomed) (\<lambda>_.
           andthen (put_recomputed r (filter (\<lambda>sg. seg_segment_id sg \<notin> set wanted) sgs)) (\<lambda>_.
           andthen (portrait_record sv ctx ''portrait.trajectory.split'' ''portrait_trajectory'' (Some identity_id)
               [(''new_identity_id'', JStr new_id), (''segment_ids'', JList (map JStr (py_sorted (\<lambda>i. i) wanted)))]) (\<lambda>_.
             ts_get_identity sv ctx new_id)))))))))"

section \<open>The registrar of run results\<close>

text \<open>The fields added to a public track for its outcome.\<close>

definition track_fields :: "trajectory_ingest_result \<Rightarrow> (string \<times> json) list" where
  "track_fields r =
     (if \<not> tir_registered r then [(''trajectory_skip_reason'', nullable (tir_skip_reason r))]
      else case tir_segment r of
        None \<Rightarrow> []
      | Some sg \<Rightarrow> [(''long_term_identity_id'', JStr (seg_identity_id sg)),
          (''trajectory_segment_id'', JStr (seg_segment_id sg)), (''trajectory_match_score'', JFloat (seg_match_score sg)),
          (''trajectory_match_method'', JStr (match_method_value (seg_match_method sg))),
          (''trajectory_first_seen_at'', JFloat (seg_first_seen_at sg)),
          (''trajectory_last_seen_at'', JFloat (seg_last_seen_at sg))])"

definition fill_track :: "json_text \<Rightarrow> (string, trajectory_ingest_result) dict \<Rightarrow> json \<Rightarrow> json" where
  "fill_track jt by_track track = (case track of
     JObj d \<Rightarrow> (case dict_get by_track (str_or_empty jt (json_get ''track_id'' track)) of
         None \<Rightarrow> track
       | Some r \<Rightarrow> JObj (fold (\<lambda>(k, v). dict_set k v) (track_fields r) d))
   | _ \<Rightarrow> track)"

definition outcomes_by_track :: "trajectory_ingest_result list \<Rightarrow> (string, trajectory_ingest_result) dict" where
  "outcomes_by_track rs = fold (\<lambda>r. dict_set (tir_track_id r) r) (filter (\<lambda>r. tir_track_id r \<noteq> []) rs) []"

definition registrar_context :: "run_record \<Rightarrow> principal_context" where
  "registrar_context run = \<lparr>ctx_tenant_id = run_tenant_id run, ctx_project_id = run_project_id run,
     ctx_principal_id = run_principal_id run, ctx_scopes = {''*''}, ctx_product_ids = {''*''}, ctx_request_id = None,
     ctx_traceparent = None\<rparr>"

text \<open>The public tracks of the result are changed in place; here the changed result is returned.\<close>

definition register_run_result ::
  "'v service \<Rightarrow> trajectory_settings \<Rightarrow> bool \<Rightarrow> run_record \<Rightarrow> result_envelope \<Rightarrow> private_evidence \<Rightarrow>
    ('z trajectory_world, result_envelope) py" where
  "register_run_result sv ts enabled run result pev =
     (let payload = re_domain_payload result in
      case dict_get (dp_rest payload) ''tracks'' of
        Some (JList tracks) \<Rightarrow>
          if \<not> enabled \<or> tracks = [] \<or> pev_trajectory_tracks pev = [] then ret result
          else
            andthen (ingest_run_tracks sv ts (registrar_context run) (run_run_id run) (pev_trajectory_tracks pev)
                (or_empty (run_source_id run)) (or_empty (run_asset_id run)) (text_field ''camera_id'' (JObj (run_parameters run)))
                (recording_start (run_parameters run))) (\<lambda>outcomes.
              ret (result\<lparr>re_domain_payload := payload\<lparr>dp_rest := dict_set ''tracks''
                (JList (map (fill_track (tjs_text ts) (outcomes_by_track outcomes)) tracks)) (dp_rest payload)\<rparr>\<rparr>))
      | _ \<Rightarrow> ret result)"

end
