(* ===== verification/Surveillance_Service.thy ===== *)
theory Surveillance_Service
  imports Surveillance_Matching Trajectory_Review
begin

text \<open>
  \<open>SurveillanceService\<close> (\<open>domains/portrait/surveillance.py\<close>): watchlists, members and tasks, the streams a
  task runs on its bindings, the evaluation of observations into alerts, and triage. Runs are
  those of \<open>Run_Lifecycle\<close>, webhooks and retention those of the state store. Metrics, which only
  count, are left out; so are the two loggers.
\<close>

record surveillance_backends = trajectory_backends +
  sbk_srv :: surveillance_repository

type_synonym surveillance_world = "surveillance_backends beside"

definition in_srv :: "(srv, 'a) py \<Rightarrow> (surveillance_backends, 'a) py" where
  "in_srv m b = (case m (sbk_srv b) of (r, s) \<Rightarrow> (r, b\<lparr>sbk_srv := s\<rparr>))"

definition srv_call :: "(srv, 'a) py \<Rightarrow> (surveillance_world, 'a) py" where
  "srv_call m = repo_call (in_srv m)"

definition srv_read :: "(srv \<Rightarrow> 'a) \<Rightarrow> (surveillance_world, 'a) py" where
  "srv_read f = repo_read (\<lambda>b. f (sbk_srv b))"

record surveillance_settings =
  sst_snapshot_retention_days :: int
  sst_runs_bound :: bool
  sst_local_time :: "string \<Rightarrow> pyfloat \<Rightarrow> local_moment"
  sst_rfc3339 :: "pyfloat \<Rightarrow> string"
  sst_sqrt :: "pyfloat \<Rightarrow> pyfloat"

section \<open>Watchlists\<close>

definition watchlist_attributes :: "string \<Rightarrow> json_dict" where
  "watchlist_attributes watchlist_id = [(''watchlist_id'', JStr watchlist_id)]"

definition ss_create_watchlist ::
  "'v service \<Rightarrow> principal_context \<Rightarrow> string \<Rightarrow> watchlist_category \<Rightarrow> string \<Rightarrow> (surveillance_world, watchlist) py" where
  "ss_create_watchlist sv ctx name category description =
     andthen (portrait_allow sv ctx ''create'' ''surveillance_watchlist'' []) (\<lambda>_.
     andthen (on_world time_time) (\<lambda>now.
     andthen (on_world uuid4_hex) (\<lambda>u.
     andthen (srv_call (create_watchlist \<lparr>wl_watchlist_id = ''wsl_'' @ u, wl_tenant_id = ctx_tenant_id ctx,
         wl_project_id = ctx_project_id ctx, wl_name = name, wl_category = category, wl_description = description,
         wl_status = WL_ACTIVE, wl_created_by = ctx_principal_id ctx, wl_created_at = now, wl_updated_at = now,
         wl_revision = 1\<rparr>)) (\<lambda>stored.
     andthen (portrait_record sv ctx ''surveillance.watchlist.create'' ''surveillance_watchlist''
       (Some (wl_watchlist_id stored)) []) (\<lambda>_. ret stored)))))"

definition ss_list_watchlists ::
  "'v service \<Rightarrow> principal_context \<Rightarrow> int \<Rightarrow> int \<Rightarrow> (surveillance_world, watchlist list \<times> int) py" where
  "ss_list_watchlists sv ctx off lmt =
     andthen (portrait_allow sv ctx ''list'' ''surveillance_watchlist'' [])
       (\<lambda>_. srv_read (list_watchlists (ctx_tenant_id ctx) (ctx_project_id ctx) off lmt))"

definition ss_get_watchlist :: "'v service \<Rightarrow> principal_context \<Rightarrow> string \<Rightarrow> (surveillance_world, watchlist) py" where
  "ss_get_watchlist sv ctx watchlist_id =
     andthen (portrait_allow sv ctx ''read'' ''surveillance_watchlist'' (watchlist_attributes watchlist_id)) (\<lambda>_.
     andthen (srv_read (get_watchlist (ctx_tenant_id ctx) (ctx_project_id ctx) watchlist_id)) (\<lambda>found.
       case found of None \<Rightarrow> throw (SurveillanceNotFound ''watchlist not found'') | Some w \<Rightarrow> ret w))"

record update_watchlist_request =
  uwl_expected_revision :: int
  uwl_name :: "string option"
  uwl_category :: "watchlist_category option"
  uwl_description :: "string option"
  uwl_status :: "watchlist_status option"

definition updated_watchlist :: "update_watchlist_request \<Rightarrow> pyfloat \<Rightarrow> watchlist \<Rightarrow> watchlist" where
  "updated_watchlist q now w = w\<lparr>wl_name := or_current (uwl_name q) (wl_name w),
     wl_category := or_current (uwl_category q) (wl_category w),
     wl_description := or_current (uwl_description q) (wl_description w),
     wl_status := or_current (uwl_status q) (wl_status w), wl_updated_at := now\<rparr>"

definition ss_update_watchlist ::
  "'v service \<Rightarrow> principal_context \<Rightarrow> string \<Rightarrow> update_watchlist_request \<Rightarrow> (surveillance_world, watchlist) py" where
  "ss_update_watchlist sv ctx watchlist_id request =
     andthen (portrait_allow sv ctx ''write'' ''surveillance_watchlist'' (watchlist_attributes watchlist_id)) (\<lambda>_.
     andthen (ss_get_watchlist sv ctx watchlist_id) (\<lambda>current.
     andthen (on_world time_time) (\<lambda>now.
     andthen (srv_call (save_watchlist (updated_watchlist request now current) (uwl_expected_revision request))) (\<lambda>stored.
     andthen (portrait_record sv ctx ''surveillance.watchlist.update'' ''surveillance_watchlist'' (Some watchlist_id)
       [(''revision'', JInt (wl_revision stored))]) (\<lambda>_. ret stored)))))"

definition ss_delete_watchlist :: "'v service \<Rightarrow> principal_context \<Rightarrow> string \<Rightarrow> (surveillance_world, unit) py" where
  "ss_delete_watchlist sv ctx watchlist_id =
     andthen (portrait_allow sv ctx ''delete'' ''surveillance_watchlist'' (watchlist_attributes watchlist_id)) (\<lambda>_.
     andthen (ss_get_watchlist sv ctx watchlist_id) (\<lambda>_.
     andthen (srv_call (delete_watchlist (ctx_tenant_id ctx) (ctx_project_id ctx) watchlist_id)) (\<lambda>removed.
       if \<not> removed then throw (SurveillanceConflict ''watchlist changed during deletion'')
       else portrait_record sv ctx ''surveillance.watchlist.delete'' ''surveillance_watchlist'' (Some watchlist_id) [])))"

section \<open>Members\<close>

definition valid_period :: "watchlist_member \<Rightarrow> bool" where
  "valid_period m \<longleftrightarrow> (case (wm_valid_from m, wm_valid_until m) of (Some a, Some b) \<Rightarrow> a < b | _ \<Rightarrow> True)"

record create_member_request =
  cmq_portrait_identity_id :: string
  cmq_display_label :: string
  cmq_valid_from :: "pyfloat option"
  cmq_valid_until :: "pyfloat option"

definition ss_create_member ::
  "'v service \<Rightarrow> principal_context \<Rightarrow> string \<Rightarrow> create_member_request \<Rightarrow> (surveillance_world, watchlist_member) py" where
  "ss_create_member sv ctx watchlist_id request =
     andthen (portrait_allow sv ctx ''create'' ''surveillance_watchlist'' (watchlist_attributes watchlist_id)) (\<lambda>_.
     andthen (ss_get_watchlist sv ctx watchlist_id) (\<lambda>_.
     andthen (repo_read (\<lambda>b. get_identity (ctx_tenant_id ctx) (ctx_project_id ctx) (cmq_portrait_identity_id request)
         (pbk_portraits b))) (\<lambda>identity.
       if identity = None then throw (SurveillanceNotFound ''portrait identity not found'')
       else
         andthen (on_world time_time) (\<lambda>now.
         andthen (on_world uuid4_hex) (\<lambda>u.
           let m = \<lparr>wm_member_id = ''wsm_'' @ u, wm_tenant_id = ctx_tenant_id ctx, wm_project_id = ctx_project_id ctx,
               wm_watchlist_id = watchlist_id, wm_portrait_identity_id = cmq_portrait_identity_id request,
               wm_status = MEMBER_ACTIVE, wm_display_label = cmq_display_label request,
               wm_valid_from = cmq_valid_from request, wm_valid_until = cmq_valid_until request,
               wm_created_by = ctx_principal_id ctx, wm_created_at = now, wm_updated_at = now, wm_revision = 1\<rparr> in
           if \<not> valid_period m then throw (ValueError ''member valid_until must be later than valid_from'')
           else
             andthen (srv_call (create_member m)) (\<lambda>stored.
             andthen (portrait_record sv ctx ''surveillance.member.create'' ''surveillance_watchlist''
                 (Some (wm_member_id stored))
                 [(''watchlist_id'', JStr watchlist_id), (''portrait_identity_id'', JStr (wm_portrait_identity_id stored))])
               (\<lambda>_. ret stored)))))))"

definition ss_list_members ::
  "'v service \<Rightarrow> principal_context \<Rightarrow> string \<Rightarrow> int \<Rightarrow> int \<Rightarrow> (surveillance_world, watchlist_member list \<times> int) py" where
  "ss_list_members sv ctx watchlist_id off lmt =
     andthen (ss_get_watchlist sv ctx watchlist_id)
       (\<lambda>_. srv_read (list_members (ctx_tenant_id ctx) (ctx_project_id ctx) watchlist_id off lmt))"

text \<open>The member, if it belongs to the watchlist of the request.\<close>

definition find_member :: "principal_context \<Rightarrow> string \<Rightarrow> string \<Rightarrow> (surveillance_world, watchlist_member) py" where
  "find_member ctx watchlist_id member_id =
     andthen (srv_read (get_member (ctx_tenant_id ctx) (ctx_project_id ctx) member_id)) (\<lambda>found. case found of
         None \<Rightarrow> throw (SurveillanceNotFound ''watchlist member not found'')
       | Some m \<Rightarrow> if wm_watchlist_id m \<noteq> watchlist_id
           then throw (SurveillanceNotFound ''watchlist member not found'') else ret m)"

record update_member_request =
  umq_expected_revision :: int
  umq_status :: "member_status option"
  umq_display_label :: "string option"
  umq_valid_from :: "pyfloat option"
  umq_valid_until :: "pyfloat option"

definition updated_member :: "update_member_request \<Rightarrow> pyfloat \<Rightarrow> watchlist_member \<Rightarrow> watchlist_member" where
  "updated_member q now m = m\<lparr>wm_status := or_current (umq_status q) (wm_status m),
     wm_display_label := or_current (umq_display_label q) (wm_display_label m),
     wm_valid_from := (if umq_valid_from q = None then wm_valid_from m else umq_valid_from q),
     wm_valid_until := (if umq_valid_until q = None then wm_valid_until m else umq_valid_until q),
     wm_updated_at := now\<rparr>"

definition ss_update_member ::
  "'v service \<Rightarrow> principal_context \<Rightarrow> string \<Rightarrow> string \<Rightarrow> update_member_request \<Rightarrow>
    (surveillance_world, watchlist_member) py" where
  "ss_update_member sv ctx watchlist_id member_id request =
     andthen (portrait_allow sv ctx ''write'' ''surveillance_watchlist'' (watchlist_attributes watchlist_id)) (\<lambda>_.
     andthen (find_member ctx watchlist_id member_id) (\<lambda>current.
     andthen (on_world time_time) (\<lambda>now.
     andthen (srv_call (save_member (updated_member request now current) (umq_expected_revision request))) (\<lambda>stored.
     andthen (portrait_record sv ctx ''surveillance.member.update'' ''surveillance_watchlist'' (Some member_id)
         [(''watchlist_id'', JStr watchlist_id), (''revision'', JInt (wm_revision stored))])
       (\<lambda>_. ret stored)))))"

definition ss_delete_member ::
  "'v service \<Rightarrow> principal_context \<Rightarrow> string \<Rightarrow> string \<Rightarrow> (surveillance_world, unit) py" where
  "ss_delete_member sv ctx watchlist_id member_id =
     andthen (portrait_allow sv ctx ''delete'' ''surveillance_watchlist'' (watchlist_attributes watchlist_id)) (\<lambda>_.
     andthen (find_member ctx watchlist_id member_id) (\<lambda>_.
     andthen (srv_call (delete_member (ctx_tenant_id ctx) (ctx_project_id ctx) member_id)) (\<lambda>removed.
       if \<not> removed then throw (SurveillanceConflict ''watchlist member changed during deletion'')
       else portrait_record sv ctx ''surveillance.member.delete'' ''surveillance_watchlist'' (Some member_id)
         [(''watchlist_id'', JStr watchlist_id)])))"

section \<open>Tasks\<close>

definition task_attributes :: "string \<Rightarrow> json_dict" where
  "task_attributes task_id = [(''task_id'', JStr task_id)]"

definition check_watchlist :: "principal_context \<Rightarrow> string \<Rightarrow> (surveillance_world, unit) py" where
  "check_watchlist ctx watchlist_id =
     andthen (srv_read (get_watchlist (ctx_tenant_id ctx) (ctx_project_id ctx) watchlist_id)) (\<lambda>found.
       if (case found of None \<Rightarrow> True | Some w \<Rightarrow> wl_status w = WL_ARCHIVED)
       then throw (SurveillanceNotFound (''watchlist is unavailable: '' @ watchlist_id)) else ret ())"

text \<open>A binding may be an instance or, from an update, the dictionary dumped from one.\<close>

definition check_binding ::
  "'v service \<Rightarrow> principal_context \<Rightarrow> task_binding attr \<Rightarrow> (surveillance_world, unit) py" where
  "check_binding sv ctx value =
     andthen (of_sum (of_attr value)) (\<lambda>binding.
     andthen (on_world (store_read (get_source (ctx_tenant_id ctx) (ctx_project_id ctx) (tbd_source_id binding)))) (\<lambda>source.
       if source = None then throw (SurveillanceNotFound (''media source not found: '' @ tbd_source_id binding))
       else andthen (get_camera sv ctx (tbd_camera_id binding)) (\<lambda>_. ret ())))"

definition validate_task_references ::
  "'v service \<Rightarrow> principal_context \<Rightarrow> string list \<Rightarrow> task_binding attr list \<Rightarrow> (surveillance_world, unit) py" where
  "validate_task_references sv ctx watchlist_ids bindings =
     andthen (for_each watchlist_ids (check_watchlist ctx)) (\<lambda>_. for_each bindings (check_binding sv ctx))"

record create_task_request =
  ctq_name :: string
  ctq_watchlist_ids :: "string list"
  ctq_bindings :: "task_binding list"
  ctq_schedule :: surveillance_schedule
  ctq_match_policy :: match_policy
  ctq_threshold_policy :: threshold_policy
  ctq_cooldown_seconds :: int
  ctq_alert_level :: alert_level

text \<open>The validators of \<open>SurveillanceTask\<close>.\<close>

definition valid_task :: "surveillance_task \<Rightarrow> bool" where
  "valid_task t \<longleftrightarrow> distinct (tsk_watchlist_ids t) \<and> distinct (map tbd_binding_id (tsk_bindings t)) \<and>
     distinct (map (\<lambda>b. (tbd_source_id b, tbd_camera_id b)) (tsk_bindings t))"

definition ss_create_task ::
  "'v service \<Rightarrow> principal_context \<Rightarrow> create_task_request \<Rightarrow> (surveillance_world, surveillance_task) py" where
  "ss_create_task sv ctx request =
     andthen (portrait_allow sv ctx ''create'' ''surveillance_task'' []) (\<lambda>_.
     andthen (validate_task_references sv ctx (ctq_watchlist_ids request) (map Instance (ctq_bindings request))) (\<lambda>_.
     andthen (on_world time_time) (\<lambda>now.
     andthen (on_world uuid4_hex) (\<lambda>u.
       let t = \<lparr>tsk_task_id = ''st_'' @ u, tsk_tenant_id = ctx_tenant_id ctx, tsk_project_id = ctx_project_id ctx,
           tsk_name = ctq_name request, tsk_status = TASK_DRAFT, tsk_watchlist_ids = ctq_watchlist_ids request,
           tsk_bindings = ctq_bindings request, tsk_schedule = Instance (ctq_schedule request),
           tsk_match_policy = ctq_match_policy request, tsk_threshold_policy = Instance (ctq_threshold_policy request),
           tsk_cooldown_seconds = ctq_cooldown_seconds request, tsk_alert_level = ctq_alert_level request,
           tsk_created_by = ctx_principal_id ctx, tsk_created_at = now, tsk_updated_at = now, tsk_revision = 1\<rparr> in
       if \<not> valid_task t then throw (ValueError ''task watchlist_ids, binding_ids and bindings must be unique'')
       else
         andthen (srv_call (create_task t)) (\<lambda>stored.
         andthen (portrait_record sv ctx ''surveillance.task.create'' ''surveillance_task'' (Some (tsk_task_id stored)) [])
           (\<lambda>_. ret stored))))))"

definition ss_list_tasks ::
  "'v service \<Rightarrow> principal_context \<Rightarrow> int \<Rightarrow> int \<Rightarrow> (surveillance_world, surveillance_task list \<times> int) py" where
  "ss_list_tasks sv ctx off lmt =
     andthen (portrait_allow sv ctx ''list'' ''surveillance_task'' [])
       (\<lambda>_. srv_read (list_tasks (ctx_tenant_id ctx) (ctx_project_id ctx) off lmt))"

definition ss_get_task :: "'v service \<Rightarrow> principal_context \<Rightarrow> string \<Rightarrow> (surveillance_world, surveillance_task) py" where
  "ss_get_task sv ctx task_id =
     andthen (portrait_allow sv ctx ''read'' ''surveillance_task'' (task_attributes task_id)) (\<lambda>_.
     andthen (srv_read (get_task (ctx_tenant_id ctx) (ctx_project_id ctx) task_id)) (\<lambda>found.
       case found of None \<Rightarrow> throw (SurveillanceNotFound ''surveillance task not found'') | Some t \<Rightarrow> ret t))"

record update_task_request =
  utq_expected_revision :: int
  utq_name :: "string option"
  utq_watchlist_ids :: "string list option"
  utq_bindings :: "task_binding list option"
  utq_schedule :: "surveillance_schedule option"
  utq_match_policy :: "match_policy option"
  utq_threshold_policy :: "threshold_policy option"
  utq_cooldown_seconds :: "int option"
  utq_alert_level :: "alert_level option"

text \<open>
  \<open>request.model_dump(exclude_none=True)\<close> dumps nested models too, so the schedule and the thresholds
  that \<open>model_copy\<close> puts into the task are dictionaries. The bindings of a request have been checked
  by then, which no dictionary passes; a list of them is not empty (\<open>min_length=1\<close>).
\<close>

definition updated_task :: "update_task_request \<Rightarrow> pyfloat \<Rightarrow> surveillance_task \<Rightarrow> surveillance_task" where
  "updated_task q now t = t\<lparr>tsk_name := or_current (utq_name q) (tsk_name t),
     tsk_watchlist_ids := or_current (utq_watchlist_ids q) (tsk_watchlist_ids t),
     tsk_bindings := or_current (utq_bindings q) (tsk_bindings t),
     tsk_schedule := or_current (map_option Dumped (utq_schedule q)) (tsk_schedule t),
     tsk_match_policy := or_current (utq_match_policy q) (tsk_match_policy t),
     tsk_threshold_policy := or_current (map_option Dumped (utq_threshold_policy q)) (tsk_threshold_policy t),
     tsk_cooldown_seconds := or_current (utq_cooldown_seconds q) (tsk_cooldown_seconds t),
     tsk_alert_level := or_current (utq_alert_level q) (tsk_alert_level t), tsk_updated_at := now\<rparr>"

definition target_bindings :: "update_task_request \<Rightarrow> surveillance_task \<Rightarrow> task_binding attr list" where
  "target_bindings q t = (case utq_bindings q of None \<Rightarrow> map Instance (tsk_bindings t) | Some bs \<Rightarrow> map Dumped bs)"

definition ss_update_task ::
  "'v service \<Rightarrow> principal_context \<Rightarrow> string \<Rightarrow> update_task_request \<Rightarrow> (surveillance_world, surveillance_task) py" where
  "ss_update_task sv ctx task_id request =
     andthen (portrait_allow sv ctx ''write'' ''surveillance_task'' (task_attributes task_id)) (\<lambda>_.
     andthen (ss_get_task sv ctx task_id) (\<lambda>current.
     andthen (validate_task_references sv ctx (or_current (utq_watchlist_ids request) (tsk_watchlist_ids current))
       (target_bindings request current)) (\<lambda>_.
     andthen (on_world time_time) (\<lambda>now.
     andthen (srv_call (save_task (updated_task request now current) (utq_expected_revision request))) (\<lambda>stored.
     andthen (portrait_record sv ctx ''surveillance.task.update'' ''surveillance_task'' (Some task_id)
       [(''revision'', JInt (tsk_revision stored))]) (\<lambda>_. ret stored))))))"

section \<open>The streams of a task\<close>

definition stop_binding ::
  "'v service \<Rightarrow> principal_context \<Rightarrow> task_binding \<Rightarrow> (surveillance_world, unit) py" where
  "stop_binding sv ctx binding =
     (if truthy (tbd_stream_session_id binding)
      then catch (andthen (on_world (cancel_stream_session sv ctx (or_empty (tbd_stream_session_id binding)))) (\<lambda>_. ret ()))
        (\<lambda>_. ret ())
      else ret ())"

definition stop_bindings ::
  "'v service \<Rightarrow> surveillance_settings \<Rightarrow> principal_context \<Rightarrow> surveillance_task \<Rightarrow> (surveillance_world, unit) py" where
  "stop_bindings sv st ctx t =
     (if \<not> sst_runs_bound st then ret () else for_each (tsk_bindings t) (stop_binding sv ctx))"

definition stream_request :: "task_binding \<Rightarrow> create_run_request" where
  "stream_request binding = \<lparr>crr_domain = ''portrait'',
     crr_pipeline = \<lparr>pref_pipeline_id = ''portrait.analysis'', pref_version = ''0.4.0''\<rparr>, crr_asset_id = None,
     crr_source_id = Some (tbd_source_id binding), crr_parameters = [(''camera_id'', JStr (tbd_camera_id binding))],
     crr_priority = 0, crr_wait_ms = 0\<rparr>"

definition stream_key :: "surveillance_task \<Rightarrow> task_binding \<Rightarrow> string" where
  "stream_key t binding = ''surveillance:'' @ tsk_task_id t @ '':'' @ tbd_binding_id binding @ '':'' @ int_str (tsk_revision t)"

text \<open>One binding: what it becomes and whether it changed.\<close>

definition start_binding ::
  "'v service \<Rightarrow> principal_context \<Rightarrow> surveillance_task \<Rightarrow> task_binding \<Rightarrow> (surveillance_world, task_binding \<times> bool) py" where
  "start_binding sv ctx t binding =
     (if truthy (tbd_stream_session_id binding) then ret (binding, False)
      else catch
        (andthen (on_world (create_run sv ctx (stream_request binding) (stream_key t binding) None None None)) (\<lambda>(run, _).
          ret (binding\<lparr>tbd_active_run_id := Some (run_run_id run), tbd_stream_session_id := run_stream_session_id run,
            tbd_last_error := None\<rparr>, True)))
        (\<lambda>e. ret (binding\<lparr>tbd_last_error := Some (take 500 (sv_exn_text sv e))\<rparr>, True)))"

definition reconcile_task ::
  "'v service \<Rightarrow> surveillance_settings \<Rightarrow> principal_context \<Rightarrow> surveillance_task \<Rightarrow> pyfloat option \<Rightarrow>
    (surveillance_world, surveillance_task) py" where
  "reconcile_task sv st ctx t moment =
     (if \<not> sst_runs_bound st \<or> tsk_status t \<noteq> TASK_ACTIVE then ret t
      else
        andthen (of_sum (of_attr (tsk_schedule t))) (\<lambda>sch.
        andthen (case moment of None \<Rightarrow> on_world time_time | Some m \<Rightarrow> ret m) (\<lambda>now.
        andthen (of_sum (is_active (sst_local_time st) now sch)) (\<lambda>open.
          if \<not> open then andthen (stop_bindings sv st ctx t) (\<lambda>_. ret t)
          else
            andthen (map_py (start_binding sv ctx t) (tsk_bindings t)) (\<lambda>results.
              if \<not> list_ex snd results then ret t
              else
                andthen (on_world time_time) (\<lambda>now'.
                  catch (srv_call (save_task (t\<lparr>tsk_bindings := map fst results, tsk_updated_at := now'\<rparr>) (tsk_revision t)))
                    (\<lambda>e. case e of SurveillanceConflict _ \<Rightarrow> ss_get_task sv ctx (tsk_task_id t) | _ \<Rightarrow> throw e)))))))"

definition ss_start_task ::
  "'v service \<Rightarrow> surveillance_settings \<Rightarrow> principal_context \<Rightarrow> string \<Rightarrow> (surveillance_world, surveillance_task) py" where
  "ss_start_task sv st ctx task_id =
     andthen (portrait_allow sv ctx ''start'' ''surveillance_task'' (task_attributes task_id)) (\<lambda>_.
     andthen (ss_get_task sv ctx task_id) (\<lambda>current.
       if tsk_status current = TASK_ACTIVE then ret current
       else if tsk_status current = TASK_EXPIRED
       then throw (SurveillanceConflict ''expired surveillance task cannot be started'')
       else
         andthen (validate_task_references sv ctx (tsk_watchlist_ids current) (map Instance (tsk_bindings current))) (\<lambda>_.
         andthen (on_world time_time) (\<lambda>now.
         andthen (srv_call (save_task (current\<lparr>tsk_status := TASK_ACTIVE, tsk_updated_at := now\<rparr>) (tsk_revision current)))
           (\<lambda>stored.
         andthen (portrait_record sv ctx ''surveillance.task.start'' ''surveillance_task'' (Some task_id) []) (\<lambda>_.
           reconcile_task sv st ctx stored None))))))"

definition ss_resume_task ::
  "'v service \<Rightarrow> surveillance_settings \<Rightarrow> principal_context \<Rightarrow> string \<Rightarrow> (surveillance_world, surveillance_task) py" where
  "ss_resume_task = ss_start_task"

definition ss_pause_task ::
  "'v service \<Rightarrow> surveillance_settings \<Rightarrow> principal_context \<Rightarrow> string \<Rightarrow> (surveillance_world, surveillance_task) py" where
  "ss_pause_task sv st ctx task_id =
     andthen (portrait_allow sv ctx ''pause'' ''surveillance_task'' (task_attributes task_id)) (\<lambda>_.
     andthen (ss_get_task sv ctx task_id) (\<lambda>current.
       if tsk_status current = TASK_PAUSED then ret current
       else
         andthen (on_world time_time) (\<lambda>now.
         andthen (srv_call (save_task (current\<lparr>tsk_status := TASK_PAUSED, tsk_updated_at := now\<rparr>) (tsk_revision current)))
           (\<lambda>stored.
         andthen (stop_bindings sv st ctx stored) (\<lambda>_.
         andthen (portrait_record sv ctx ''surveillance.task.pause'' ''surveillance_task'' (Some task_id) []) (\<lambda>_.
           ss_get_task sv ctx task_id))))))"

definition creator_context :: "string \<Rightarrow> string \<Rightarrow> string \<Rightarrow> principal_context" where
  "creator_context tenant_id project_id principal_id = \<lparr>ctx_tenant_id = tenant_id, ctx_project_id = project_id,
     ctx_principal_id = principal_id, ctx_scopes = {''*''}, ctx_product_ids = {''*''}, ctx_request_id = None,
     ctx_traceparent = None\<rparr>"

definition ss_reconcile ::
  "'v service \<Rightarrow> surveillance_settings \<Rightarrow> pyfloat option \<Rightarrow> (surveillance_world, int) py" where
  "ss_reconcile sv st moment =
     andthen (srv_read list_all_active_tasks) (\<lambda>tasks.
     andthen (for_each tasks (\<lambda>t. andthen (reconcile_task sv st
         (creator_context (tsk_tenant_id t) (tsk_project_id t) (tsk_created_by t)) t moment) (\<lambda>_. ret ())))
       (\<lambda>_. ret (int (length tasks))))"

end
