(* ===== verification/Surveillance_Alerts.thy ===== *)
theory Surveillance_Alerts
  imports Surveillance_Store
begin

text \<open>
  What the surveillance repository promises: its step relation, the invariant of reachable
  repositories, the spacing of alerts by their cooldown, triage as a final decision, and the log
  of alert events that clients resume from a cursor.
\<close>

section \<open>Steps\<close>

text \<open>
  What the service puts into a candidate: an alert with a fresh identifier (\<open>uuid4\<close>) whose cooldown
  ends after the moment that triggered it (\<open>cooldown_seconds\<close> is at least 1).
\<close>

definition admissible :: "alert_candidate \<Rightarrow> srv \<Rightarrow> bool" where
  "admissible c s \<longleftrightarrow> dict_get (srv_alerts s) (alert_key (cnd_alert c)) = None \<and>
     alr_triggered_at (cnd_alert c) < dbs_cooldown_until (cnd_debounce c)"

inductive srv_step :: "srv \<Rightarrow> srv \<Rightarrow> bool" where
  watchlist_created: "srv_step s (snd (create_watchlist w s))"
| watchlist_saved: "srv_step s (snd (save_watchlist w n s))"
| watchlist_deleted: "srv_step s (snd (delete_watchlist t p i s))"
| member_created: "srv_step s (snd (create_member m s))"
| member_saved: "srv_step s (snd (save_member m n s))"
| member_deleted: "srv_step s (snd (delete_member t p i s))"
| task_created: "srv_step s (snd (create_task tk s))"
| task_saved: "srv_step s (snd (save_task tk n s))"
| alert_recorded: "admissible c s \<Longrightarrow> srv_step s (snd (record_alert c s))"
| alert_triaged: "alr_status a \<noteq> ALERT_PENDING \<Longrightarrow> srv_step s (snd (triage_alert a ev n s))"
| log_read: "srv_step s (snd (alert_events_after t p cursor lmt s))"

definition srv_reachable :: "srv \<Rightarrow> bool" where
  "srv_reachable s \<longleftrightarrow> srv_step\<^sup>*\<^sup>* surveillance_init s"

lemmas table_step_defs = create_watchlist_def save_watchlist_def delete_watchlist_def create_member_def
  save_member_def delete_member_def create_task_def save_task_def Let_def

section \<open>The invariant\<close>

definition log_numbered :: "alert_event list \<Rightarrow> bool" where
  "log_numbered es \<longleftrightarrow> map ale_event_cursor es = map (\<lambda>i. int i + 1) [0..<length es]"

text \<open>Alerts that the debouncing and idempotency tables point at exist.\<close>

definition alerts_linked :: "srv \<Rightarrow> bool" where
  "alerts_linked s \<longleftrightarrow>
     (\<forall>t p k st. dict_get (srv_debounce s) (store_key t p k) = Some st \<longrightarrow>
        (\<exists>i. dbs_last_alert_id st = Some i \<and> dict_get (srv_alerts s) (store_key t p i) \<noteq> None)) \<and>
     (\<forall>t p k i. dict_get (srv_idempotency s) (store_key t p k) = Some i \<longrightarrow>
        dict_get (srv_alerts s) (store_key t p i) \<noteq> None)"

definition srv_inv :: "srv \<Rightarrow> bool" where
  "srv_inv s \<longleftrightarrow> keyed watchlist_key (srv_watchlists s) \<and> keyed member_key (srv_members s) \<and>
     keyed task_key (srv_tasks s) \<and> keyed alert_key (srv_alerts s) \<and>
     (\<forall>k es. dict_get (srv_events s) k = Some es \<longrightarrow> log_numbered es) \<and> alerts_linked s"

lemma log_numbered_events_of: "srv_inv s \<Longrightarrow> log_numbered (events_of k s)"
  by (cases k; cases "dict_get (srv_events s) k") (auto simp: srv_inv_def events_of_def, simp add: log_numbered_def)

lemma log_numbered_push: "log_numbered (events_of k s) \<Longrightarrow> log_numbered (events_of k s @ [numbered_event k ev s])"
  by (simp add: log_numbered_def numbered_event_def)

text \<open>Alerts are replaced under their key, never removed, so links stay good.\<close>

lemma alerts_linkedI:
  assumes "alerts_linked s" "\<And>k. dict_get (srv_alerts s) k \<noteq> None \<Longrightarrow> dict_get (srv_alerts s') k \<noteq> None"
    and "\<And>t p k st. dict_get (srv_debounce s') (store_key t p k) = Some st \<Longrightarrow>
      dict_get (srv_debounce s) (store_key t p k) = Some st \<or>
      (\<exists>i. dbs_last_alert_id st = Some i \<and> dict_get (srv_alerts s') (store_key t p i) \<noteq> None)"
    and "\<And>t p k i. dict_get (srv_idempotency s') (store_key t p k) = Some i \<Longrightarrow>
      dict_get (srv_idempotency s) (store_key t p k) = Some i \<or> dict_get (srv_alerts s') (store_key t p i) \<noteq> None"
  shows "alerts_linked s'"
  unfolding alerts_linked_def
proof (intro conjI allI impI)
  fix t p k st assume "dict_get (srv_debounce s') (store_key t p k) = Some st"
  from assms(3) [OF this]
  show "\<exists>i. dbs_last_alert_id st = Some i \<and> dict_get (srv_alerts s') (store_key t p i) \<noteq> None"
  proof
    assume "dict_get (srv_debounce s) (store_key t p k) = Some st"
    with assms(1) obtain i where i: "dbs_last_alert_id st = Some i" "dict_get (srv_alerts s) (store_key t p i) \<noteq> None"
      unfolding alerts_linked_def by blast
    from i(1) assms(2) [OF i(2)] show ?thesis by blast
  qed
next
  fix t p k i assume "dict_get (srv_idempotency s') (store_key t p k) = Some i"
  from assms(4) [OF this]
  show "dict_get (srv_alerts s') (store_key t p i) \<noteq> None"
  proof
    assume "dict_get (srv_idempotency s) (store_key t p k) = Some i"
    with assms(1) have "dict_get (srv_alerts s) (store_key t p i) \<noteq> None"
      unfolding alerts_linked_def by blast
    then show ?thesis by (rule assms(2))
  qed
qed

lemma cooling_alert_SomeD:
  assumes "cooling_alert c s = Some (st, existing)"
  obtains i where "dict_get (srv_debounce s) (debounce_key c) = Some st" "dbs_last_alert_id st = Some i"
    and "dict_get (srv_alerts s) (store_key (alr_tenant_id (cnd_alert c)) (alr_project_id (cnd_alert c)) i) = Some existing"
    and "alr_triggered_at (cnd_alert c) < dbs_cooldown_until st"
  using assms by (auto simp: cooling_alert_def split: option.splits if_splits)

lemma cooling_alert_key:
  assumes "keyed alert_key (srv_alerts s)" "cooling_alert c s = Some (st, existing)"
  shows "store_key (alr_tenant_id (cnd_alert c)) (alr_project_id (cnd_alert c)) (alr_alert_id existing) = alert_key existing"
  using assms(2)
proof (rule cooling_alert_SomeD)
  fix i assume "dict_get (srv_alerts s) (store_key (alr_tenant_id (cnd_alert c)) (alr_project_id (cnd_alert c)) i) = Some existing"
  from keyed_get [OF assms(1) this] show ?thesis by (simp add: alert_key_def)
qed

text \<open>The three ways in which \<open>record_alert\<close> ends.\<close>

lemma record_alert_cases:
  assumes "srv_inv s"
  obtains (merged) st existing where "cooling_alert c s = Some (st, existing)"
      "record_alert c s = (Inr \<lparr>awr_alert = merged_alert (cnd_alert c) existing, awr_event = None, awr_emitted = False\<rparr>,
         s\<lparr>srv_alerts := dict_set (alert_key existing) (merged_alert (cnd_alert c) existing) (srv_alerts s),
           srv_debounce := dict_set (debounce_key c) (merged_debounce (cnd_alert c) st) (srv_debounce s)\<rparr>)"
  | (repeated) d where "cooling_alert c s = None" "record_alert c s =
      (Inr \<lparr>awr_alert = d, awr_event = None, awr_emitted = False\<rparr>, s)"
  | (emitted) "cooling_alert c s = None" "fst (record_alert c s) = Inr \<lparr>awr_alert = cnd_alert c,
        awr_event = Some (numbered_event (scope_of (cnd_alert c)) (cnd_event c) s), awr_emitted = True\<rparr>"
      "snd (record_alert c s) = (push_event (scope_of (cnd_alert c)) (cnd_event c) s)
         \<lparr>srv_alerts := dict_set (alert_key (cnd_alert c)) (cnd_alert c) (srv_alerts s),
          srv_idempotency := dict_set (alert_idempotency_key (cnd_alert c)) (alr_alert_id (cnd_alert c)) (srv_idempotency s),
          srv_debounce := dict_set (debounce_key c)
            ((cnd_debounce c)\<lparr>dbs_last_alert_id := Some (alr_alert_id (cnd_alert c))\<rparr>) (srv_debounce s)\<rparr>"
proof (cases "cooling_alert c s")
  case None
  then show ?thesis
    by (cases "duplicate_alert (cnd_alert c) s") (auto simp: record_alert_def Let_def intro: that)
next
  case (Some x)
  then obtain st existing where x: "cooling_alert c s = Some (st, existing)" by (cases x) auto
  have "keyed alert_key (srv_alerts s)" using assms by (simp add: srv_inv_def)
  from cooling_alert_key [OF this x] x show ?thesis
    by (intro merged [OF x]) (simp add: record_alert_def Let_def merged_alert_def)
qed

lemma record_alert_keeps_inv:
  assumes "srv_inv s"
  shows "srv_inv (snd (record_alert c s))"
  using assms
proof (cases rule: record_alert_cases [where c = c])
  case (merged st existing)
  from merged(1) obtain i where i: "dict_get (srv_debounce s) (debounce_key c) = Some st" "dbs_last_alert_id st = Some i"
      "dict_get (srv_alerts s) (store_key (alr_tenant_id (cnd_alert c)) (alr_project_id (cnd_alert c)) i) = Some existing"
    by (rule cooling_alert_SomeD)
  have "alerts_linked s" using assms by (simp add: srv_inv_def)
  then have "alerts_linked (snd (record_alert c s))"
    by (rule alerts_linkedI)
       (use i in \<open>auto simp: merged(2) debounce_key_def merged_debounce_def split: if_splits\<close>)
  with assms show ?thesis unfolding merged(2) srv_inv_def by (auto simp: keyed_set)
next
  case (repeated d)
  with assms show ?thesis by simp
next
  case emitted
  have "alerts_linked s" using assms by (simp add: srv_inv_def)
  then have "alerts_linked (snd (record_alert c s))"
    by (rule alerts_linkedI)
       (auto simp: emitted(3) push_event_def debounce_key_def alert_idempotency_key_def alert_key_def split: if_splits)
  moreover have "log_numbered (events_of k s)" for k by (rule log_numbered_events_of [OF assms])
  ultimately show ?thesis using assms unfolding emitted(3) srv_inv_def push_event_def
    by (auto simp: keyed_set log_numbered_push)
qed

lemma triage_alert_cases:
  obtains (refused) msg where "triage_alert a ev n s = (Inl (SurveillanceConflict msg), s)"
  | (settled) current where "dict_get (srv_alerts s) (alert_key a) = Some current" "alr_revision current = n"
      "alr_status current = ALERT_PENDING" "fst (triage_alert a ev n s) = Inr \<lparr>awr_alert = a\<lparr>alr_revision := n + 1\<rparr>,
         awr_event = Some (numbered_event (scope_of a) ev s), awr_emitted = True\<rparr>"
      "snd (triage_alert a ev n s) = (push_event (scope_of a) ev s)
         \<lparr>srv_alerts := dict_set (alert_key a) (a\<lparr>alr_revision := n + 1\<rparr>) (srv_alerts s)\<rparr>"
proof (cases "\<exists>current. dict_get (srv_alerts s) (alert_key a) = Some current \<and> alr_revision current = n \<and>
    alr_status current = ALERT_PENDING")
  case True
  then obtain current where c: "dict_get (srv_alerts s) (alert_key a) = Some current" "alr_revision current = n"
      "alr_status current = ALERT_PENDING" by blast
  then show ?thesis by (intro settled [OF c]) (simp_all add: triage_alert_def Let_def)
next
  case False
  then have "\<exists>msg. triage_alert a ev n s = (Inl (SurveillanceConflict msg), s)"
    by (auto simp: triage_alert_def split: option.split)
  then show ?thesis by (blast intro: refused)
qed

lemma triage_alert_keeps_inv:
  assumes "srv_inv s"
  shows "srv_inv (snd (triage_alert a ev n s))"
proof (cases rule: triage_alert_cases [of a ev n s])
  case (refused msg)
  with assms show ?thesis by simp
next
  case (settled current)
  have "alerts_linked s" using assms by (simp add: srv_inv_def)
  then have "alerts_linked (snd (triage_alert a ev n s))"
    by (rule alerts_linkedI) (auto simp: settled(5) push_event_def)
  moreover have "log_numbered (events_of k s)" for k by (rule log_numbered_events_of [OF assms])
  ultimately show ?thesis using assms unfolding settled(5) srv_inv_def push_event_def
    by (auto simp: keyed_set log_numbered_push)
qed

lemma alerts_linked_tables:
  assumes "alerts_linked s" "srv_alerts s' = srv_alerts s" "srv_debounce s' = srv_debounce s"
    "srv_idempotency s' = srv_idempotency s"
  shows "alerts_linked s'"
  using assms by (simp add: alerts_linked_def)

text \<open>Operations on watchlists, members and tasks leave the alerts alone.\<close>

definition same_alerts :: "srv \<Rightarrow> srv \<Rightarrow> bool" where
  "same_alerts s s' \<longleftrightarrow> srv_alerts s' = srv_alerts s \<and> srv_debounce s' = srv_debounce s \<and>
     srv_idempotency s' = srv_idempotency s \<and> srv_events s' = srv_events s"

lemma tables_same_alerts:
  "same_alerts s (snd (create_watchlist w s))" "same_alerts s (snd (save_watchlist w n s))"
  "same_alerts s (snd (delete_watchlist t p i s))" "same_alerts s (snd (create_member m s))"
  "same_alerts s (snd (save_member m n s))" "same_alerts s (snd (delete_member t p i s))"
  "same_alerts s (snd (create_task tk s))" "same_alerts s (snd (save_task tk n s))"
  by (auto simp: same_alerts_def table_step_defs split: option.split)

lemma tables_keep_inv:
  assumes "srv_inv s"
  shows "srv_inv (snd (create_watchlist w s))" "srv_inv (snd (save_watchlist w n s))"
  "srv_inv (snd (delete_watchlist t p i s))" "srv_inv (snd (create_member m s))"
  "srv_inv (snd (save_member m n s))" "srv_inv (snd (delete_member t p i s))"
  "srv_inv (snd (create_task tk s))" "srv_inv (snd (save_task tk n s))"
  using assms
  by (auto simp: srv_inv_def table_step_defs keyed_set keyed_pop keyed_filter split: option.split
      intro: alerts_linked_tables)

lemma log_read_keeps_inv: "srv_inv s \<Longrightarrow> srv_inv (snd (alert_events_after t p cursor lmt s))"
  by (auto simp: srv_inv_def alert_events_after_def Let_def dict_setdefault_def log_numbered_def map_add_Some_iff
      split: option.splits if_splits intro: alerts_linked_tables)

lemma srv_step_inv: "srv_step s s' \<Longrightarrow> srv_inv s \<Longrightarrow> srv_inv s'"
  by (induction rule: srv_step.induct)
     (auto intro: tables_keep_inv record_alert_keeps_inv triage_alert_keeps_inv log_read_keeps_inv)

lemma srv_init_inv: "srv_inv surveillance_init"
  by (simp add: srv_inv_def surveillance_init_def alerts_linked_def)

lemma srv_steps_inv: "srv_step\<^sup>*\<^sup>* s s' \<Longrightarrow> srv_inv s \<Longrightarrow> srv_inv s'"
  by (induction rule: rtranclp_induct) (auto intro: srv_step_inv)

lemma srv_reachable_inv: "srv_reachable s \<Longrightarrow> srv_inv s"
  unfolding srv_reachable_def by (rule srv_steps_inv [OF _ srv_init_inv])

section \<open>Cooldown\<close>

text \<open>The debounce key \<open>k\<close> is blocked at least until \<open>T\<close>.\<close>

definition blocked_until :: "key3 \<Rightarrow> pyfloat \<Rightarrow> srv \<Rightarrow> bool" where
  "blocked_until k T s \<longleftrightarrow> (\<exists>st. dict_get (srv_debounce s) k = Some st \<and> T \<le> dbs_cooldown_until st)"

text \<open>In a well-formed repository an alert is emitted only when its key is no longer blocked.\<close>

lemma emitted_after_cooldown:
  assumes "srv_inv s" "blocked_until (debounce_key c) T s" "cooling_alert c s = None"
  shows "T \<le> alr_triggered_at (cnd_alert c)"
proof (rule ccontr)
  assume early: "\<not> T \<le> alr_triggered_at (cnd_alert c)"
  obtain st where st: "dict_get (srv_debounce s) (debounce_key c) = Some st" "T \<le> dbs_cooldown_until st"
    using assms(2) by (auto simp: blocked_until_def)
  with assms(1) obtain i a where "dbs_last_alert_id st = Some i"
      "dict_get (srv_alerts s) (store_key (alr_tenant_id (cnd_alert c)) (alr_project_id (cnd_alert c)) i) = Some a"
    unfolding srv_inv_def alerts_linked_def debounce_key_def by blast
  with st early assms(3) show False by (simp add: cooling_alert_def)
qed

lemma record_alert_blocked:
  assumes "srv_inv s" "blocked_until k T s" "admissible c s"
  shows "blocked_until k T (snd (record_alert c s))"
  using assms(1)
proof (cases rule: record_alert_cases [where c = c])
  case (merged st existing)
  have "dict_get (srv_debounce s) (debounce_key c) = Some st" using merged(1) by (auto elim: cooling_alert_SomeD)
  with assms(2) show ?thesis unfolding merged(2) by (auto simp: blocked_until_def merged_debounce_def)
next
  case (repeated d)
  with assms(2) show ?thesis by simp
next
  case emitted
  have "T \<le> alr_triggered_at (cnd_alert c)" if "k = debounce_key c"
    using emitted_after_cooldown [OF assms(1) _ emitted(1)] assms(2) that by simp
  with assms(2,3) show ?thesis unfolding emitted(3) by (auto simp: blocked_until_def admissible_def)
qed

lemma blocked_same: "same_alerts s s' \<Longrightarrow> blocked_until k T s' = blocked_until k T s"
  by (simp add: blocked_until_def same_alerts_def)

lemma srv_step_blocked: "srv_step s s' \<Longrightarrow> srv_inv s \<Longrightarrow> blocked_until k T s \<Longrightarrow> blocked_until k T s'"
proof (induction rule: srv_step.induct)
  case (alert_recorded c s)
  then show ?case by (intro record_alert_blocked)
next
  case (alert_triaged a s ev n)
  then show ?case
    by (cases rule: triage_alert_cases [of a ev n s]) (auto simp: blocked_until_def push_event_def)
next
  case (log_read s t p cursor lmt)
  then show ?case by (simp add: blocked_until_def alert_events_after_def Let_def)
qed (simp_all add: blocked_same [OF tables_same_alerts(1)] blocked_same [OF tables_same_alerts(2)]
    blocked_same [OF tables_same_alerts(3)] blocked_same [OF tables_same_alerts(4)] blocked_same [OF tables_same_alerts(5)]
    blocked_same [OF tables_same_alerts(6)] blocked_same [OF tables_same_alerts(7)] blocked_same [OF tables_same_alerts(8)])

lemma srv_steps_blocked:
  "srv_step\<^sup>*\<^sup>* s s' \<Longrightarrow> srv_inv s \<Longrightarrow> blocked_until k T s \<Longrightarrow> blocked_until k T s'"
  by (induction rule: rtranclp_induct) (auto intro: srv_step_blocked srv_steps_inv)

section \<open>Triage\<close>

definition decided :: "key3 \<Rightarrow> alert_status \<Rightarrow> srv \<Rightarrow> bool" where
  "decided k v s \<longleftrightarrow> v \<noteq> ALERT_PENDING \<and> map_option alr_status (dict_get (srv_alerts s) k) = Some v"

lemma decided_refuses:
  assumes "decided (alert_key a) v s"
  shows "\<exists>msg. triage_alert a ev n s = (Inl (SurveillanceConflict msg), s)"
  using assms by (auto simp: decided_def triage_alert_def)

lemma record_alert_decided:
  assumes "srv_inv s" "decided k v s" "admissible c s"
  shows "decided k v (snd (record_alert c s))"
  using assms(1)
proof (cases rule: record_alert_cases [where c = c])
  case (merged st existing)
  have "dict_get (srv_alerts s) (alert_key existing) = Some existing"
    using merged(1) cooling_alert_key [of s c st existing] assms(1)
    by (elim cooling_alert_SomeD) (auto simp: srv_inv_def dest: keyed_get)
  with assms(2) show ?thesis unfolding merged(2) by (auto simp: decided_def merged_alert_def)
next
  case (repeated d)
  with assms(2) show ?thesis by simp
next
  case emitted
  with assms(2,3) show ?thesis unfolding emitted(3) by (auto simp: decided_def admissible_def)
qed

lemma decided_same: "same_alerts s s' \<Longrightarrow> decided k v s' = decided k v s"
  by (simp add: decided_def same_alerts_def)

lemma srv_step_decided: "srv_step s s' \<Longrightarrow> srv_inv s \<Longrightarrow> decided k v s \<Longrightarrow> decided k v s'"
proof (induction rule: srv_step.induct)
  case (alert_recorded c s)
  then show ?case by (intro record_alert_decided)
next
  case (alert_triaged a s ev n)
  then show ?case
    by (cases rule: triage_alert_cases [of a ev n s]) (auto simp: decided_def push_event_def)
next
  case (log_read s t p cursor lmt)
  then show ?case by (simp add: decided_def alert_events_after_def Let_def)
qed (simp_all add: decided_same [OF tables_same_alerts(1)] decided_same [OF tables_same_alerts(2)]
    decided_same [OF tables_same_alerts(3)] decided_same [OF tables_same_alerts(4)] decided_same [OF tables_same_alerts(5)]
    decided_same [OF tables_same_alerts(6)] decided_same [OF tables_same_alerts(7)] decided_same [OF tables_same_alerts(8)])

lemma srv_steps_decided: "srv_step\<^sup>*\<^sup>* s s' \<Longrightarrow> srv_inv s \<Longrightarrow> decided k v s \<Longrightarrow> decided k v s'"
  by (induction rule: rtranclp_induct) (auto intro: srv_step_decided srv_steps_inv)

end
