(* ===== verification/Surveillance_Evaluation.thy ===== *)
theory Surveillance_Evaluation
  imports Surveillance_Service Surveillance_Alerts Run_Results
begin

text \<open>
  The second half of \<open>SurveillanceService\<close>: reading observations out of the result of a run,
  evaluating them against the active tasks of its source, recording the alerts with their
  webhooks and snapshot retention, and triage. Converting a string to a float and printing a JSON
  value (\<open>float(s)\<close>, \<open>str(v)\<close>) are parameters.
\<close>

section \<open>Observations of a run\<close>

definition model_by_capability :: "json list \<Rightarrow> (string, json) dict" where
  "model_by_capability models = fold (\<lambda>m. case json_get ''capability'' m of JStr c \<Rightarrow> dict_set c m | _ \<Rightarrow> id) models []"

definition last_frame :: "result_envelope \<Rightarrow> result_artifact option" where
  "last_frame result = List.find (\<lambda>a. art_artifact_type a = ''unit_frame'') (rev (re_artifacts result))"

text \<open>What every observation of a run shares.\<close>

record observation_frame =
  ofr_run :: run_record
  ofr_camera_id :: string
  ofr_base_time :: pyfloat
  ofr_source :: string
  ofr_artifact :: "result_artifact option"
  ofr_last_unit :: "media_unit_result option"

definition new_observation ::
  "observation_frame \<Rightarrow> string \<Rightarrow> pyfloat \<Rightarrow> pyfloat \<Rightarrow> int option \<Rightarrow> observation_evidence list \<Rightarrow> string option \<Rightarrow>
    string option \<Rightarrow> observation_batch" where
  "new_observation fr track_id seen_first seen_last pts evidence identity_id segment_id =
     \<lparr>obs_run_id = run_run_id (ofr_run fr), obs_source_id = or_empty (run_source_id (ofr_run fr)),
      obs_camera_id = ofr_camera_id fr, obs_unit_id = (case ofr_last_unit fr of None \<Rightarrow> [] | Some u \<Rightarrow> mu_unit_id u),
      obs_track_id = track_id, obs_first_seen_at = seen_first, obs_last_seen_at = seen_last, obs_pts_ms = pts,
      obs_timestamp_source = ofr_source fr, obs_evidence = evidence,
      obs_snapshot_artifact_id = map_option art_artifact_id (ofr_artifact fr),
      obs_snapshot_object_key = map_option art_object_key (ofr_artifact fr),
      obs_trajectory_identity_id = identity_id, obs_trajectory_segment_id = segment_id,
      obs_trace_id = run_trace_id (ofr_run fr)\<rparr>"

definition vector_observation :: "observation_frame \<Rightarrow> index_vector \<Rightarrow> observation_batch option" where
  "vector_observation fr iv =
     (if ivc_modality iv \<noteq> ''face'' \<or> ivc_vector iv = [] then None
      else Some (new_observation fr (ivc_object_id iv) (ofr_base_time fr) (ofr_base_time fr)
        (case ofr_last_unit fr of None \<Rightarrow> None | Some u \<Rightarrow> mu_pts_ms u)
        [\<lparr>obe_modality = EVIDENCE_FACE, obe_embedding = ivc_vector iv, obe_quality = or_zero (ivc_quality iv),
          obe_model_id = ivc_model_id iv, obe_model_version = ivc_model_version iv\<rparr>] None None))"

text \<open>The evidence of one modality in a track, if it has an embedding and its model is known.\<close>

definition track_evidence ::
  "json_text \<Rightarrow> (string, json) dict \<Rightarrow> json \<Rightarrow> evidence_modality \<times> string \<times> string \<Rightarrow>
    exn + observation_evidence option" where
  "track_evidence jt models track spec = (case spec of (modality, key, capability) \<Rightarrow>
     (case (json_get ''embedding'' (json_get key track), dict_get models capability) of
        (JList (v # vs), Some model) \<Rightarrow>
          (let quality = json_get ''tracklet_quality_score'' track in
           case json_floats jt (v # vs) of
             Inl e \<Rightarrow> Inl e
           | Inr embedding \<Rightarrow> (case (if json_true quality then json_float jt quality else Inr 0) of
               Inl e \<Rightarrow> Inl e
             | Inr q \<Rightarrow> Inr (Some \<lparr>obe_modality = modality, obe_embedding = embedding, obe_quality = max 0 (min 1 q),
                 obe_model_id = text_field ''model_id'' model, obe_model_version = text_field ''version'' model\<rparr>)))
      | _ \<Rightarrow> Inr None))"

definition EVIDENCE_SPECS :: "(evidence_modality \<times> string \<times> string) list" where
  "EVIDENCE_SPECS = [(EVIDENCE_BODY, ''template'', ''body_embedding''), (EVIDENCE_FACE, ''face_template'', ''face_embedding'')]"

text \<open>A list comprehension whose items may raise or be dropped.\<close>

fun gather :: "('a \<Rightarrow> exn + 'b option) \<Rightarrow> 'a list \<Rightarrow> exn + 'b list" where
  "gather f [] = Inr []"
| "gather f (x # xs) = (case f x of
     Inl e \<Rightarrow> Inl e
   | Inr y \<Rightarrow> (case gather f xs of Inl e \<Rightarrow> Inl e | Inr ys \<Rightarrow> Inr (case y of None \<Rightarrow> ys | Some z \<Rightarrow> z # ys)))"

definition trajectory_refs :: "json_text \<Rightarrow> json \<Rightarrow> (string, json \<times> json) dict" where
  "trajectory_refs jt tracks = (case tracks of
     JList xs \<Rightarrow> fold (\<lambda>t. dict_set (str_or_empty jt (json_get ''track_id'' t))
         (json_get ''long_term_identity_id'' t, json_get ''trajectory_segment_id'' t)) (filter is_object xs) []
   | _ \<Rightarrow> [])"

text \<open>The observation of one track; \<open>pts_ms\<close> must not be negative (a validator of \<open>ObservationBatch\<close>).\<close>

definition track_observation ::
  "json_text \<Rightarrow> (string, json) dict \<Rightarrow> (string, json \<times> json) dict \<Rightarrow> observation_frame \<Rightarrow> json \<Rightarrow>
    exn + observation_batch option" where
  "track_observation jt models refs fr track =
     (if \<not> is_object track then Inr None
      else case gather (track_evidence jt models track) EVIDENCE_SPECS of
        Inl e \<Rightarrow> Inl e
      | Inr [] \<Rightarrow> Inr None
      | Inr (ev # evs) \<Rightarrow>
          let track_id = str_or_empty jt (json_get ''track_id'' track);
              (identity_id, segment_id) = (case dict_get refs track_id of None \<Rightarrow> (JNull, JNull) | Some r \<Rightarrow> r);
              base = ofr_base_time fr;
              seen_first = (case json_number (json_get ''first_pts_ms'' track) of None \<Rightarrow> base | Some q \<Rightarrow> base + q / 1000);
              last_pts = json_number (json_get ''last_pts_ms'' track);
              seen_last = (case last_pts of None \<Rightarrow> seen_first | Some q \<Rightarrow> base + q / 1000);
              pts = map_option truncated last_pts in
          if (case pts of None \<Rightarrow> False | Some i \<Rightarrow> i < 0)
          then Inl (ValueError ''Input should be greater than or equal to 0'')
          else Inr (Some (new_observation fr track_id (min seen_first seen_last) (max seen_first seen_last) pts (ev # evs)
            (str_or_none jt identity_id) (str_or_none jt segment_id))))"

definition observations ::
  "json_text \<Rightarrow> pyfloat \<Rightarrow> run_record \<Rightarrow> result_envelope \<Rightarrow> private_evidence \<Rightarrow> exn + observation_batch list" where
  "observations jt now run result pev =
     (let camera_id = (case dict_get (run_parameters run) ''camera_id'' of None \<Rightarrow> [] | Some v \<Rightarrow> str_or_empty jt v) in
      if camera_id = [] then Inr []
      else
        let started = recording_start (run_parameters run);
            fr = \<lparr>ofr_run = run, ofr_camera_id = camera_id, ofr_base_time = or_current started now,
              ofr_source = (if started = None then ''processing_time'' else ''recording''),
              ofr_artifact = last_frame result,
              ofr_last_unit = (if re_units result = [] then None else Some (last (re_units result)))\<rparr> in
        if pev_trajectory_tracks pev = [] then Inr (List.map_filter (vector_observation fr) (pev_index_vectors pev))
        else gather (track_observation jt (model_by_capability (re_models result))
          (trajectory_refs jt (case dict_get (dp_rest (re_domain_payload result)) ''tracks'' of None \<Rightarrow> JNull | Some v \<Rightarrow> v)) fr)
          (pev_trajectory_tracks pev))"

section \<open>Alerts of an observation\<close>

definition alert_event_json :: "alert_event \<Rightarrow> json_dict" where
  "alert_event_json ev = [(''event_id'', JStr (ale_event_id ev)), (''event_cursor'', JInt (ale_event_cursor ev)),
     (''event_type'', JStr (ale_event_type ev)), (''event_version'', JStr (ale_event_version ev)),
     (''occurred_at'', JStr (ale_occurred_at ev)), (''producer'', JStr (ale_producer ev)),
     (''tenant_id'', JStr (ale_tenant_id ev)), (''project_id'', JStr (ale_project_id ev)),
     (''trace_id'', nullable (ale_trace_id ev)), (''alert_id'', JStr (ale_alert_id ev)),
     (''task_id'', JStr (ale_task_id ev)), (''camera_id'', JStr (ale_camera_id ev)),
     (''portrait_identity_id'', JStr (ale_portrait_identity_id ev)), (''match_score'', JFloat (ale_match_score ev)),
     (''modality'', JStr (modality_value (ale_modality ev))),
     (''snapshot_artifact_id'', nullable (ale_snapshot_artifact_id ev)),
     (''deduplication_key'', JStr (ale_deduplication_key ev)), (''status'', JStr (alert_status_value (ale_status ev))),
     (''created_at'', JFloat (ale_created_at ev))]"

text \<open>\<open>enqueue_webhook_event\<close> of the state store, whose delivery identifiers are fresh.\<close>

definition announce_event :: "principal_context \<Rightarrow> alert_event \<Rightarrow> (surveillance_world, unit) py" where
  "announce_event ctx ev =
     on_world (\<lambda>w. store_call (\<lambda>s. (Inr (), enqueue_webhook_event (w_uuid w (w_step w)) (ctx_tenant_id ctx)
       (ctx_project_id ctx) (ale_event_id ev) (ale_event_type ev) (alert_event_json ev) (ale_created_at ev) s)) w)"

definition sighting_text :: "principal_context \<Rightarrow> surveillance_task \<Rightarrow> task_binding \<Rightarrow> watchlist_member \<Rightarrow> string" where
  "sighting_text ctx t binding m = py_join ''|'' [ctx_tenant_id ctx, ctx_project_id ctx, tsk_task_id t,
     tbd_binding_id binding, wm_watchlist_id m, wm_portrait_identity_id m]"

definition window_start :: "pyfloat \<Rightarrow> int \<Rightarrow> int" where
  "window_start seen cooldown = \<lfloor>seen / of_int cooldown\<rfloor> * cooldown"

definition new_candidate ::
  "'v service \<Rightarrow> surveillance_settings \<Rightarrow> principal_context \<Rightarrow> surveillance_task \<Rightarrow> task_binding \<Rightarrow> observation_batch \<Rightarrow>
    surveillance_match \<Rightarrow> string \<Rightarrow> pyfloat \<Rightarrow> string \<Rightarrow> string \<Rightarrow> alert_candidate" where
  "new_candidate sv st ctx t binding obs mt version now alert_id event_id =
     (let (m, score, modality, models) = mt;
          text = sighting_text ctx t binding m;
          key = sv_sha256 sv text;
          once = sv_sha256 sv (text @ ''|'' @ int_str (window_start (obs_first_seen_at obs) (tsk_cooldown_seconds t))) in
      \<lparr>cnd_alert = \<lparr>alr_alert_id = alert_id, alr_tenant_id = ctx_tenant_id ctx, alr_project_id = ctx_project_id ctx,
          alr_task_id = tsk_task_id t, alr_binding_id = tbd_binding_id binding, alr_watchlist_id = wm_watchlist_id m,
          alr_member_id = wm_member_id m, alr_portrait_identity_id = wm_portrait_identity_id m,
          alr_source_id = obs_source_id obs, alr_camera_id = obs_camera_id obs, alr_run_id = obs_run_id obs,
          alr_unit_id = obs_unit_id obs, alr_track_id = obs_track_id obs,
          alr_trajectory_identity_id = obs_trajectory_identity_id obs,
          alr_trajectory_segment_id = obs_trajectory_segment_id obs, alr_match_score = score, alr_max_score = score,
          alr_modality = modality, alr_threshold_policy_version = version, alr_model_bindings = models,
          alr_snapshot_artifact_id = obs_snapshot_artifact_id obs,
          alr_snapshot_retention_expires_at = Some (now + of_int (sst_snapshot_retention_days st) * 86400),
          alr_status = ALERT_PENDING, alr_first_seen_at = obs_first_seen_at obs, alr_last_seen_at = obs_last_seen_at obs,
          alr_triggered_at = obs_last_seen_at obs, alr_occurrence_count = 1, alr_idempotency_key = once,
          alr_created_at = now, alr_updated_at = now, alr_revision = 1, alr_triaged_by = None, alr_triaged_at = None,
          alr_triage_reason = [], alr_triage_notes = []\<rparr>,
        cnd_event = \<lparr>ale_event_id = event_id, ale_event_cursor = 0, ale_event_type = ''alert.triggered'',
          ale_event_version = ''1.0'', ale_occurred_at = sst_rfc3339 st (obs_last_seen_at obs), ale_producer = ''scenara'',
          ale_tenant_id = ctx_tenant_id ctx, ale_project_id = ctx_project_id ctx, ale_trace_id = obs_trace_id obs,
          ale_alert_id = alert_id, ale_task_id = tsk_task_id t, ale_camera_id = obs_camera_id obs,
          ale_portrait_identity_id = wm_portrait_identity_id m, ale_match_score = score, ale_modality = modality,
          ale_snapshot_artifact_id = obs_snapshot_artifact_id obs, ale_deduplication_key = once,
          ale_status = ALERT_PENDING, ale_created_at = now\<rparr>,
        cnd_debounce = \<lparr>dbs_debounce_key = key, dbs_tenant_id = ctx_tenant_id ctx, dbs_project_id = ctx_project_id ctx,
          dbs_task_id = tsk_task_id t, dbs_binding_id = tbd_binding_id binding, dbs_watchlist_id = wm_watchlist_id m,
          dbs_portrait_identity_id = wm_portrait_identity_id m, dbs_first_seen_at = obs_first_seen_at obs,
          dbs_last_seen_at = obs_last_seen_at obs, dbs_last_alert_id = None, dbs_occurrence_count = 1,
          dbs_max_score = score, dbs_modality = modality,
          dbs_cooldown_until = obs_last_seen_at obs + of_int (tsk_cooldown_seconds t), dbs_revision = 1\<rparr>\<rparr>)"

text \<open>\<open>alert.snapshot_retention_expires_at or alert.created_at\<close>\<close>

definition snapshot_expiry :: "alert_record \<Rightarrow> pyfloat" where
  "snapshot_expiry a = (case alr_snapshot_retention_expires_at a of
     None \<Rightarrow> alr_created_at a | Some x \<Rightarrow> if x = 0 then alr_created_at a else x)"

text \<open>What follows an alert that was emitted.\<close>

definition announce_alert ::
  "'v service \<Rightarrow> principal_context \<Rightarrow> surveillance_task \<Rightarrow> observation_batch \<Rightarrow> alert_modality \<Rightarrow> alert_record \<Rightarrow>
    alert_event \<Rightarrow> (surveillance_world, unit) py" where
  "announce_alert sv ctx t obs modality a ev =
     andthen (case obs_snapshot_object_key obs of
         None \<Rightarrow> ret ()
       | Some k \<Rightarrow> andthen (on_world (store_call (protect_object_for_alert (ctx_tenant_id ctx) (ctx_project_id ctx) k
           (alr_alert_id a) (snapshot_expiry a)))) (\<lambda>_. ret ())) (\<lambda>_.
     andthen (announce_event ctx ev) (\<lambda>_.
       portrait_record sv ctx ''surveillance.alert.trigger'' ''surveillance_alert'' (Some (alr_alert_id a))
         [(''task_id'', JStr (tsk_task_id t)), (''camera_id'', JStr (obs_camera_id obs)),
          (''modality'', JStr (modality_value modality))]))"

text \<open>One match. Scores outside [-1, 1] fail the validators of \<open>AlertRecord\<close>.\<close>

definition raise_alert ::
  "'v service \<Rightarrow> surveillance_settings \<Rightarrow> principal_context \<Rightarrow> surveillance_task \<Rightarrow> task_binding \<Rightarrow> observation_batch \<Rightarrow>
    surveillance_match \<Rightarrow> (surveillance_world, unit) py" where
  "raise_alert sv st ctx t binding obs mt =
     andthen (on_world time_time) (\<lambda>now.
     andthen (on_world uuid4_hex) (\<lambda>u.
     andthen (of_sum (of_attr (tsk_threshold_policy t))) (\<lambda>p.
       if fst (snd mt) < - 1 \<or> 1 < fst (snd mt)
       then throw (ValueError ''Input should be less than or equal to 1'')
       else
         andthen (on_world uuid4_hex) (\<lambda>v.
         andthen (srv_call (record_alert (new_candidate sv st ctx t binding obs mt (thp_policy_version p) now
             (''alt_'' @ u) (''alevt_'' @ v)))) (\<lambda>outcome.
           case awr_event outcome of
             None \<Rightarrow> ret ()
           | Some ev \<Rightarrow> if \<not> awr_emitted outcome then ret ()
               else announce_alert sv ctx t obs (fst (snd (snd mt))) (awr_alert outcome) ev)))))"

definition evaluate_observation ::
  "'v service \<Rightarrow> surveillance_settings \<Rightarrow> principal_context \<Rightarrow> surveillance_task \<Rightarrow> task_binding \<Rightarrow> observation_batch \<Rightarrow>
    (surveillance_world, unit) py" where
  "evaluate_observation sv st ctx t binding obs =
     andthen (srv_read (list_active_members (ctx_tenant_id ctx) (ctx_project_id ctx) (tsk_watchlist_ids t)
       (obs_last_seen_at obs))) (\<lambda>members.
       if members = [] then ret ()
       else
         andthen (match_members (sst_sqrt st) (ctx_tenant_id ctx) (ctx_project_id ctx) members obs (tsk_threshold_policy t))
           (\<lambda>matches. for_each matches (raise_alert sv st ctx t binding obs)))"

definition evaluate_task ::
  "'v service \<Rightarrow> surveillance_settings \<Rightarrow> principal_context \<Rightarrow> string \<Rightarrow> observation_batch list \<Rightarrow> surveillance_task \<Rightarrow>
    (surveillance_world, unit) py" where
  "evaluate_task sv st ctx source_id observed t =
     andthen (of_sum (of_attr (tsk_schedule t))) (\<lambda>sch.
     andthen (on_world time_time) (\<lambda>now.
     andthen (of_sum (is_active (sst_local_time st) now sch)) (\<lambda>open.
       if \<not> open \<or> tsk_match_policy t \<noteq> ALERT_ON_MATCH then ret ()
       else for_each (filter (\<lambda>b. tbd_source_id b = source_id) (tsk_bindings t)) (\<lambda>binding.
         for_each (filter (\<lambda>obs. obs_camera_id obs = tbd_camera_id binding) observed)
           (evaluate_observation sv st ctx t binding)))))"

definition evaluate_run_result ::
  "'v service \<Rightarrow> surveillance_settings \<Rightarrow> json_text \<Rightarrow> run_record \<Rightarrow> result_envelope \<Rightarrow> private_evidence \<Rightarrow>
    (surveillance_world, unit) py" where
  "evaluate_run_result sv st jt run result pev =
     (if \<not> truthy (run_source_id run) \<or> re_domain result \<noteq> ''portrait'' then ret ()
      else
        andthen (on_world time_time) (\<lambda>now.
        andthen (of_sum (observations jt now run result pev)) (\<lambda>observed.
          if observed = [] then ret ()
          else
            andthen (srv_read (list_active_tasks_for_source (run_tenant_id run) (run_project_id run)
              (or_empty (run_source_id run)))) (\<lambda>tasks.
              for_each tasks (evaluate_task sv st (creator_context (run_tenant_id run) (run_project_id run)
                (run_principal_id run)) (or_empty (run_source_id run)) observed)))))"

section \<open>Triage\<close>

definition ss_list_alerts ::
  "'v service \<Rightarrow> principal_context \<Rightarrow> alert_filter \<Rightarrow> int \<Rightarrow> int \<Rightarrow> (surveillance_world, alert_record list \<times> int) py" where
  "ss_list_alerts sv ctx f off lmt =
     andthen (portrait_allow sv ctx ''list'' ''surveillance_alert'' [])
       (\<lambda>_. srv_read (list_alerts (ctx_tenant_id ctx) (ctx_project_id ctx) f off lmt))"

definition ss_get_alert :: "'v service \<Rightarrow> principal_context \<Rightarrow> string \<Rightarrow> (surveillance_world, alert_record) py" where
  "ss_get_alert sv ctx alert_id =
     andthen (portrait_allow sv ctx ''read'' ''surveillance_alert'' [(''alert_id'', JStr alert_id)]) (\<lambda>_.
     andthen (srv_read (get_alert (ctx_tenant_id ctx) (ctx_project_id ctx) alert_id)) (\<lambda>found.
       case found of None \<Rightarrow> throw (SurveillanceNotFound ''alert not found'') | Some a \<Rightarrow> ret a))"

record triage_request =
  trq_expected_revision :: int
  trq_status :: alert_status
  trq_reason :: string
  trq_notes :: string

definition triaged_alert :: "principal_context \<Rightarrow> triage_request \<Rightarrow> pyfloat \<Rightarrow> alert_record \<Rightarrow> alert_record" where
  "triaged_alert ctx q now a = a\<lparr>alr_status := trq_status q, alr_triaged_by := Some (ctx_principal_id ctx),
     alr_triaged_at := Some now, alr_triage_reason := trq_reason q, alr_triage_notes := trq_notes q,
     alr_updated_at := now\<rparr>"

definition triage_event ::
  "surveillance_settings \<Rightarrow> principal_context \<Rightarrow> alert_record \<Rightarrow> string \<Rightarrow> pyfloat \<Rightarrow> alert_event" where
  "triage_event st ctx a event_id now = \<lparr>ale_event_id = event_id, ale_event_cursor = 0,
     ale_event_type = ''alert.triaged'', ale_event_version = ''1.0'', ale_occurred_at = sst_rfc3339 st now,
     ale_producer = ''scenara'', ale_tenant_id = ctx_tenant_id ctx, ale_project_id = ctx_project_id ctx,
     ale_trace_id = ctx_traceparent ctx, ale_alert_id = alr_alert_id a, ale_task_id = alr_task_id a,
     ale_camera_id = alr_camera_id a, ale_portrait_identity_id = alr_portrait_identity_id a,
     ale_match_score = alr_match_score a, ale_modality = alr_modality a,
     ale_snapshot_artifact_id = alr_snapshot_artifact_id a, ale_deduplication_key = alr_idempotency_key a,
     ale_status = alr_status a, ale_created_at = now\<rparr>"

definition ss_triage_alert ::
  "'v service \<Rightarrow> surveillance_settings \<Rightarrow> principal_context \<Rightarrow> string \<Rightarrow> triage_request \<Rightarrow>
    (surveillance_world, alert_record) py" where
  "ss_triage_alert sv st ctx alert_id request =
     andthen (portrait_allow sv ctx ''triage'' ''surveillance_alert'' [(''alert_id'', JStr alert_id)]) (\<lambda>_.
     andthen (ss_get_alert sv ctx alert_id) (\<lambda>current.
       if alr_status current \<noteq> ALERT_PENDING then throw (SurveillanceConflict ''alert has already been triaged'')
       else
         andthen (on_world time_time) (\<lambda>now.
         andthen (on_world uuid4_hex) (\<lambda>u.
           let updated = triaged_alert ctx request now current in
           andthen (srv_call (triage_alert updated (triage_event st ctx updated (''alevt_'' @ u) now)
             (trq_expected_revision request))) (\<lambda>outcome.
           andthen (case awr_event outcome of None \<Rightarrow> ret () | Some ev \<Rightarrow> announce_event ctx ev) (\<lambda>_.
           andthen (portrait_record sv ctx ''surveillance.alert.triage'' ''surveillance_alert'' (Some alert_id)
               [(''status'', JStr (alert_status_value (alr_status (awr_alert outcome)))),
                (''reason'', JStr (trq_reason request))])
             (\<lambda>_. ret (awr_alert outcome))))))))"

definition ss_events_after ::
  "'v service \<Rightarrow> principal_context \<Rightarrow> int \<Rightarrow> int \<Rightarrow> (surveillance_world, alert_event list) py" where
  "ss_events_after sv ctx cursor lmt =
     andthen (portrait_allow sv ctx ''read'' ''surveillance_alert'' [])
       (\<lambda>_. srv_call (alert_events_after (ctx_tenant_id ctx) (ctx_project_id ctx) cursor lmt))"

end
