(* ===== verification/Surveillance_Correct.thy ===== *)
theory Surveillance_Correct
  imports Surveillance_Evaluation Portrait_Correct
begin

text \<open>
  Properties of surveillance: alerts of one key are spaced by their cooldown, triage is final, the
  event log can be resumed, the matcher answers members above their thresholds once each; and what
  goes wrong with updated tasks, resumed streams and windows that end at 24:00.
\<close>

section \<open>Samples\<close>

definition sample_alert :: "string \<Rightarrow> pyfloat \<Rightarrow> alert_record" where
  "sample_alert i seen = \<lparr>alr_alert_id = i, alr_tenant_id = ''t'', alr_project_id = ''p'', alr_task_id = ''st'',
     alr_binding_id = ''b1'', alr_watchlist_id = ''wl'', alr_member_id = ''m1'', alr_portrait_identity_id = ''idn'',
     alr_source_id = ''s1'', alr_camera_id = ''c1'', alr_run_id = ''r1'', alr_unit_id = [], alr_track_id = [],
     alr_trajectory_identity_id = None, alr_trajectory_segment_id = None, alr_match_score = 1, alr_max_score = 1,
     alr_modality = FACE, alr_threshold_policy_version = ''1'', alr_model_bindings = [],
     alr_snapshot_artifact_id = None, alr_snapshot_retention_expires_at = None, alr_status = ALERT_PENDING,
     alr_first_seen_at = seen, alr_last_seen_at = seen, alr_triggered_at = seen, alr_occurrence_count = 1,
     alr_idempotency_key = ''once-'' @ i, alr_created_at = seen, alr_updated_at = seen, alr_revision = 1,
     alr_triaged_by = None, alr_triaged_at = None, alr_triage_reason = [], alr_triage_notes = []\<rparr>"

definition sample_alert_event :: "string \<Rightarrow> alert_event" where
  "sample_alert_event i = \<lparr>ale_event_id = i, ale_event_cursor = 0, ale_event_type = ''alert.triggered'',
     ale_event_version = ''1.0'', ale_occurred_at = ''2026'', ale_producer = ''scenara'', ale_tenant_id = ''t'',
     ale_project_id = ''p'', ale_trace_id = None, ale_alert_id = i, ale_task_id = ''st'', ale_camera_id = ''c1'',
     ale_portrait_identity_id = ''idn'', ale_match_score = 1, ale_modality = FACE, ale_snapshot_artifact_id = None,
     ale_deduplication_key = ''once'', ale_status = ALERT_PENDING, ale_created_at = 0\<rparr>"

definition sample_candidate :: "string \<Rightarrow> pyfloat \<Rightarrow> alert_candidate" where
  "sample_candidate i seen = \<lparr>cnd_alert = sample_alert i seen, cnd_event = sample_alert_event i,
     cnd_debounce = \<lparr>dbs_debounce_key = ''key'', dbs_tenant_id = ''t'', dbs_project_id = ''p'', dbs_task_id = ''st'',
       dbs_binding_id = ''b1'', dbs_watchlist_id = ''wl'', dbs_portrait_identity_id = ''idn'',
       dbs_first_seen_at = seen, dbs_last_seen_at = seen, dbs_last_alert_id = None, dbs_occurrence_count = 1,
       dbs_max_score = 1, dbs_modality = FACE, dbs_cooldown_until = seen + 30, dbs_revision = 1\<rparr>\<rparr>"

definition one_alert :: srv where
  "one_alert = snd (record_alert (sample_candidate ''a1'' 100) surveillance_init)"

definition two_alerts :: srv where
  "two_alerts = snd (record_alert (sample_candidate ''a2'' 130) one_alert)"

lemma admissible_samples:
  "admissible (sample_candidate ''a1'' 100) surveillance_init" "admissible (sample_candidate ''a2'' 130) one_alert"
  by code_simp+

lemma sample_alerts_reachable: "srv_reachable one_alert" "srv_reachable two_alerts"
  using admissible_samples
  by (auto simp: srv_reachable_def one_alert_def two_alerts_def
      intro: alert_recorded rtranclp.rtrancl_into_rtrancl rtranclp.rtrancl_refl)

section \<open>Alerts\<close>

text \<open>
  C16: alerts are spaced by their cooldown. After an alert was emitted for a debounce key, the next one
  emitted for that key, whatever happened in between, was triggered only after the first one's
  cooldown; sightings before that are merged into the alert that exists.
\<close>

theorem alerts_spaced_by_cooldown:
  assumes "srv_reachable s" and "record_alert c s = (Inr r, s1)" and "awr_emitted r" and "srv_step\<^sup>*\<^sup>* s1 s2"
    and "record_alert c' s2 = (Inr r', s3)" and "awr_emitted r'" and "debounce_key c' = debounce_key c"
  shows "dbs_cooldown_until (cnd_debounce c) \<le> alr_triggered_at (cnd_alert c')"
proof -
  let ?T = "dbs_cooldown_until (cnd_debounce c)"
  have inv: "srv_inv s" using assms(1) by (rule srv_reachable_inv)
  have inv1: "srv_inv s1" using record_alert_keeps_inv [OF inv, of c] assms(2) by simp
  have "blocked_until (debounce_key c) ?T s1"
    using inv
  proof (cases rule: record_alert_cases [where c = c])
    case emitted
    with assms(2) show ?thesis by (simp add: blocked_until_def)
  qed (use assms(2,3) in auto)
  with assms(4) inv1 have blocked: "blocked_until (debounce_key c') ?T s2" "srv_inv s2"
    unfolding assms(7) by (auto intro: srv_steps_blocked srv_steps_inv)
  from blocked(2) show ?thesis
  proof (cases rule: record_alert_cases [where c = c'])
    case emitted
    from emitted_after_cooldown [OF blocked(2,1) emitted(1)] show ?thesis .
  qed (use assms(5,6) in auto)
qed

theorem alerts_spaced_by_cooldown_witness:
  "\<exists>r r' s3. record_alert (sample_candidate ''a1'' 100) surveillance_init = (Inr r, one_alert) \<and>
     record_alert (sample_candidate ''a2'' 130) one_alert = (Inr r', s3) \<and> awr_emitted r' \<and>
     dbs_cooldown_until (cnd_debounce (sample_candidate ''a1'' 100)) \<le> alr_triggered_at (cnd_alert (sample_candidate ''a2'' 130))"
proof -
  have run: "\<exists>r r' s3. record_alert (sample_candidate ''a1'' 100) surveillance_init = (Inr r, one_alert) \<and> awr_emitted r \<and>
      record_alert (sample_candidate ''a2'' 130) one_alert = (Inr r', s3) \<and> awr_emitted r'"
    by (simp add: one_alert_def record_alert_def cooling_alert_def duplicate_alert_def surveillance_init_def Let_def
        sample_candidate_def sample_alert_def debounce_key_def alert_idempotency_key_def push_event_def)
  have start: "srv_reachable surveillance_init" by (simp add: srv_reachable_def)
  have key: "debounce_key (sample_candidate ''a2'' 130) = debounce_key (sample_candidate ''a1'' 100)"
    by (simp add: debounce_key_def sample_candidate_def sample_alert_def)
  from run obtain r r' s3 where "record_alert (sample_candidate ''a1'' 100) surveillance_init = (Inr r, one_alert)"
      "awr_emitted r" "record_alert (sample_candidate ''a2'' 130) one_alert = (Inr r', s3)" "awr_emitted r'" by blast
  with alerts_spaced_by_cooldown [OF start this(1,2) rtranclp.rtrancl_refl this(3,4) key] show ?thesis by blast
qed

text \<open>
  C17: triage is final. Once an alert has been triaged, whatever else happens in the repository, its
  decision stays what it was and every further attempt to triage it is refused.
\<close>

theorem triage_is_final:
  assumes "srv_reachable s" and "triage_alert a ev n s = (Inr r, s1)" and "alr_status a \<noteq> ALERT_PENDING"
    and "srv_step\<^sup>*\<^sup>* s1 s2" and "alert_key a' = alert_key a"
  shows "map_option alr_status (dict_get (srv_alerts s2) (alert_key a)) = Some (alr_status a) \<and>
    (\<exists>msg. triage_alert a' ev' n' s2 = (Inl (SurveillanceConflict msg), s2))"
proof -
  have inv: "srv_inv s1"
    using triage_alert_keeps_inv [OF srv_reachable_inv [OF assms(1)], of a ev n] assms(2) by simp
  have "decided (alert_key a) (alr_status a) s1"
    by (cases rule: triage_alert_cases [of a ev n s]) (use assms(2,3) in \<open>auto simp: decided_def\<close>)
  with assms(4) inv have "decided (alert_key a') (alr_status a) s2"
    unfolding assms(5) by (rule srv_steps_decided)
  with decided_refuses [OF this] assms(5) show ?thesis by (simp add: decided_def)
qed

theorem triage_is_final_witness:
  "\<exists>r s1 msg. triage_alert (sample_alert ''a1'' 100\<lparr>alr_status := CONFIRMED\<rparr>) (sample_alert_event ''e'') 1 one_alert = (Inr r, s1) \<and>
     triage_alert (sample_alert ''a1'' 100\<lparr>alr_status := IGNORED\<rparr>) (sample_alert_event ''f'') 2 s1 = (Inl (SurveillanceConflict msg), s1)"
proof -
  have "\<exists>r s1. triage_alert (sample_alert ''a1'' 100\<lparr>alr_status := CONFIRMED\<rparr>) (sample_alert_event ''e'') 1 one_alert = (Inr r, s1)"
    by (simp add: one_alert_def record_alert_def cooling_alert_def duplicate_alert_def surveillance_init_def Let_def
        sample_candidate_def sample_alert_def debounce_key_def alert_idempotency_key_def push_event_def triage_alert_def
        alert_key_def)
  then obtain r s1 where run: "triage_alert (sample_alert ''a1'' 100\<lparr>alr_status := CONFIRMED\<rparr>) (sample_alert_event ''e'') 1
      one_alert = (Inr r, s1)" by blast
  have key: "alert_key (sample_alert ''a1'' 100\<lparr>alr_status := IGNORED\<rparr>) = alert_key (sample_alert ''a1'' 100\<lparr>alr_status := CONFIRMED\<rparr>)"
    and decision: "alr_status (sample_alert ''a1'' 100\<lparr>alr_status := CONFIRMED\<rparr>) \<noteq> ALERT_PENDING"
    by (simp_all add: alert_key_def)
  from triage_is_final [OF sample_alerts_reachable(1) run decision rtranclp.rtrancl_refl key] run show ?thesis by blast
qed

lemma filter_numbered:
  "map f xs = map (\<lambda>i. int i + 1) [0..<length xs] \<Longrightarrow> filter (\<lambda>x. int n < f x) xs = drop n xs"
proof (induction xs rule: rev_induct)
  case (snoc x xs)
  then have "filter (\<lambda>x. int n < f x) xs = drop n xs" "f x = int (length xs) + 1" by simp_all
  then show ?case by auto
qed simp

text \<open>
  A client of the alert log can resume it. The cursors of the events of a tenant and project
  are 1, 2, 3 and so on, so that reading after a cursor continues exactly where the client
  stopped: nothing is skipped and nothing repeated.
\<close>

lemma alert_log_resumes:
  assumes "srv_reachable s"
  shows "fst (alert_events_after t p (int n) (int m) s) = Inr (take m (drop n (events_of (t, p) s)))"
proof -
  have "log_numbered (events_of (t, p) s)" by (rule log_numbered_events_of [OF srv_reachable_inv [OF assms]])
  then have "filter (\<lambda>ev. int n < ale_event_cursor ev) (events_of (t, p) s) = drop n (events_of (t, p) s)"
    unfolding log_numbered_def by (rule filter_numbered)
  then show ?thesis by (simp add: alert_events_after_def Let_def py_slice_prefix)
qed

text \<open>What the service puts into a candidate is admissible.\<close>

lemma new_candidate_admissible:
  assumes "0 < tsk_cooldown_seconds tk"
    and "dict_get (srv_alerts s) (store_key (ctx_tenant_id ctx) (ctx_project_id ctx) i) = None"
  shows "admissible (new_candidate sv st ctx tk binding obs mt version now i j) s"
  using assms by (cases mt) (simp add: admissible_def new_candidate_def alert_key_def Let_def)

section \<open>Schedules\<close>

definition all_day :: "schedule_window \<Rightarrow> bool" where
  "all_day w \<longleftrightarrow> win_start w = ''00:00'' \<and> win_end w = ''24:00''"

lemma all_day_windows:
  assumes "\<forall>w \<in> set ws. all_day w" and "0 \<le> now"
  shows "in_some_window d now ws = Inr (d \<in> win_weekday ` set ws \<and> now < CLOCK_MAX)"
proof -
  have zero: "fromisoformat ''00:00'' = Inr 0" by code_simp
  from assms show ?thesis
    by (induction ws) (auto simp: all_day_def zero window_end_def)
qed

text \<open>
  Windows that end at 24:00 leave a gap. A schedule with the window from 00:00 to 24:00 on every
  day is active at every moment except the last microsecond of each day, because the end is taken
  as \<open>time.max\<close> and compared strictly.
\<close>

lemma full_week_has_gap:
  assumes "\<forall>w \<in> set (sch_weekly sch). all_day w" and "win_weekday ` set (sch_weekly sch) = {1..7}"
    and "sch_exceptions sch = []" and "local_time (sch_timezone sch) moment = here"
    and "lm_isoweekday here \<in> {1..7}" and "0 \<le> lm_time here" and "lm_time here < 86400000000"
  shows "is_active local_time moment sch = Inr (lm_time here \<noteq> 86399999999)"
proof -
  have "sch_weekly sch \<noteq> []" using assms(2) by auto
  then show ?thesis
    using all_day_windows [OF assms(1,6), of "lm_isoweekday here"] assms
    by (auto simp: is_active_def CLOCK_MAX_def)
qed

definition sample_week :: surveillance_schedule where
  "sample_week = \<lparr>sch_timezone = ''UTC'', sch_weekly = map (\<lambda>d. \<lparr>win_weekday = d, win_start = ''00:00'', win_end = ''24:00''\<rparr>) [1..7],
     sch_exceptions = []\<rparr>"

end
