(* ===== verification/Surveillance_Tasks.thy ===== *)
theory Surveillance_Tasks
  imports Surveillance_Correct
begin

text \<open>
  Properties of the matcher and of the requests on tasks: matches are sound, each member is
  answered once, and three defects in updating and resuming tasks.
\<close>

section \<open>The matcher\<close>

lemma yields_call: "yields I (\<lambda>x. \<exists>s s'. m s = (Inr x, s')) (repo_call m)"
  by (auto simp: yields_def repo_call_def Let_def split: option.splits prod.splits)

lemma yields_search: "yields I (\<lambda>x. \<exists>s. f s = Inr x) (repo_call (in_features (asking f)))"
  by (auto simp: yields_def repo_call_def in_features_def asking_def Let_def split: option.splits prod.splits)

text \<open>Every score in the table reaches the threshold of its modality.\<close>

definition scores_ok :: "threshold_policy \<Rightarrow> score_table \<Rightarrow> bool" where
  "scores_ok p scores \<longleftrightarrow> dict_ok scores \<and> (\<forall>i bucket m v. dict_get scores i = Some bucket \<longrightarrow>
     dict_get bucket (evidence_value m) = Some v \<longrightarrow> (\<exists>thr. evidence_threshold p m = Some thr \<and> thr \<le> v))"

lemma evidence_value_inj [simp]: "evidence_value m = evidence_value m' \<longleftrightarrow> m = m'"
  by (cases m; cases m') simp_all

lemma search_reaches_threshold:
  assumes "search_features rt now t p i v lmt (Some thr) s = Inr ms" "m \<in> set ms"
  shows "thr \<le> fmt_score m"
proof -
  from assms(1) obtain sp found where "collect_matches rt sp v (Some thr)
        (map snd (filter (searchable now t p i) (fst_features s))) = Inr found" "0 \<le> lmt"
      "ms = py_slice (py_sorted match_order found) 0 lmt"
    by (auto simp: search_features_def Let_def split: if_splits option.splits sum.splits)
  moreover from this have "m \<in> set found"
    using assms(2) by (auto simp: py_slice_prefix dest: in_set_takeD)
  ultimately obtain f where "similar rt sp v (Some thr) f = Some m"
    by (auto dest!: collect_matches_Inr simp: List.map_filter_def)
  then show ?thesis
    by (cases "compare_embeddings rt sp v (ftr_embedding f)") (auto simp: similar_def as_match_def split: prod.splits if_splits)
qed

lemma note_match_ok:
  assumes "scores_ok p (fst tables)" "evidence_threshold p (obe_modality evd) = Some thr" "thr \<le> fmt_score m"
  shows "scores_ok p (fst (note_match evd i ids m tables))"
  using assms
  by (cases tables) (auto simp: note_match_def Let_def scores_ok_def or_empty_list_def simp del: map_of_eq_Some_iff
      split: option.splits if_splits)

lemma note_matches_ok:
  assumes "\<forall>m \<in> set ms. thr \<le> fmt_score m" "evidence_threshold p (obe_modality evd) = Some thr" "scores_ok p (fst tables)"
  shows "scores_ok p (fst (fold (note_match evd i ids) ms tables))"
  using assms(1,3)
proof (induction ms arbitrary: tables)
  case (Cons m ms)
  with note_match_ok [OF Cons.prems(2) assms(2), of m i ids] show ?case by simp
qed simp

lemma match_spaces_ok:
  assumes "evidence_threshold p (obe_modality evd) = Some thr"
  shows "scores_ok p (fst tables) \<Longrightarrow>
    yields (\<lambda>_. True) (\<lambda>tb. scores_ok p (fst tb)) (match_spaces rt t pr evd thr spaces tables)"
proof (induction spaces arbitrary: tables)
  case (Cons x spaces)
  obtain i md ids where x: "x = ((i, md), ids)" by (cases x) auto
  show ?case using Cons.prems
    by (auto simp: x intro!: Cons.IH yields_then yields_use [OF yields_search] note_matches_ok [OF _ assms]
        dest: search_reaches_threshold)
qed (simp add: yields_ret)

lemma match_evidence_ok:
  "scores_ok p (fst tables) \<Longrightarrow>
    yields (\<lambda>_. True) (\<lambda>tb. scores_ok p (fst tb)) (match_evidence rt t pr p spaces evs tables)"
proof (induction evs arbitrary: tables)
  case (Cons evd evs)
  then show ?case
    by (auto split: option.split intro!: yields_use [OF match_spaces_ok])
qed (simp add: yields_ret)

lemma members_grouped:
  "or_empty_list (dict_get (fold (\<lambda>m. dict_append (wm_portrait_identity_id m) m) ms d) i) =
     or_empty_list (dict_get d i) @ filter (\<lambda>m. wm_portrait_identity_id m = i) ms"
  by (induction ms arbitrary: d) (auto simp: dict_append_def or_empty_list_def)

lemma members_of_identity:
  "or_empty_list (dict_get (members_by_identity ms) i) = filter (\<lambda>m. wm_portrait_identity_id m = i) ms"
  using members_grouped [of ms "[]" i] by (simp add: members_by_identity_def or_empty_list_def)

text \<open>A match answers a member, with a score its thresholds allow.\<close>

fun reaches :: "threshold_policy \<Rightarrow> pyfloat \<Rightarrow> alert_modality \<Rightarrow> bool" where
  "reaches p score FACE \<longleftrightarrow> (\<exists>thr. thp_face_threshold p = Some thr \<and> thr \<le> score)"
| "reaches p score BODY \<longleftrightarrow> (\<exists>thr. thp_body_threshold p = Some thr \<and> thr \<le> score)"
| "reaches p score FUSED \<longleftrightarrow> (\<exists>a b. thp_face_threshold p = Some a \<and> thp_body_threshold p = Some b \<and> min a b \<le> score)"

lemma weighted_mean_min:
  fixes v w x y :: pyfloat
  assumes "0 \<le> v" "0 \<le> w" "0 < v + w" "a \<le> x" "b \<le> y"
  shows "min a b \<le> (v * x + w * y) / (v + w)"
proof -
  have "min a b \<le> x" "min a b \<le> y" using assms(4,5) by auto
  then have "v * min a b \<le> v * x" "w * min a b \<le> w * y" using assms(1,2) by (auto intro: mult_left_mono)
  then have "min a b * (v + w) \<le> v * x + w * y" by (simp add: algebra_simps)
  with assms(3) show ?thesis by (simp add: pos_le_divide_eq)
qed

lemma fused_score_reaches:
  assumes "scores_ok p scores" "dict_get scores i = Some bucket" "fused_score p bucket = Some (score, modality)"
    and "0 \<le> thp_face_weight p" "0 \<le> thp_body_weight p" "0 < thp_face_weight p + thp_body_weight p"
  shows "reaches p score modality"
proof -
  have face: "\<exists>thr. thp_face_threshold p = Some thr \<and> thr \<le> v" if "dict_get bucket ''face'' = Some v" for v
    using assms(1,2) that unfolding scores_ok_def
    by (metis evidence_value.simps(1) evidence_threshold_def)
  have body: "\<exists>thr. thp_body_threshold p = Some thr \<and> thr \<le> v" if "dict_get bucket ''body'' = Some v" for v
    using assms(1,2) that unfolding scores_ok_def
    by (metis evidence_value.simps(2) evidence_threshold_def evidence_modality.distinct(1))
  show ?thesis
  proof (cases modality)
    case FUSED
    with assms(3) obtain x y where xy: "dict_get bucket ''face'' = Some x" "dict_get bucket ''body'' = Some y"
        "score = (thp_face_weight p * x + thp_body_weight p * y) / (thp_face_weight p + thp_body_weight p)"
      by (auto simp: fused_score_def split: option.splits)
    from face [OF xy(1)] body [OF xy(2)] weighted_mean_min [OF assms(4-6)] FUSED xy(3) show ?thesis by auto
  qed (use assms(3) face body in \<open>auto simp: fused_score_def split: option.splits\<close>)
qed

lemma resolved_simps [simp]:
  "resolved_matches p g ([], bs) = []"
  "resolved_matches p g ((i, bucket) # scores, bs) = (case fused_score p bucket of
       None \<Rightarrow> []
     | Some (score, modality) \<Rightarrow> map (\<lambda>m. (m, score, modality, or_empty_list (dict_get bs i))) (or_empty_list (dict_get g i))) @
     resolved_matches p g (scores, bs)"
  unfolding resolved_matches_def fst_conv snd_conv by simp_all

lemma resolved_members:
  "map fst (resolved_matches p (members_by_identity members) (scores, bs)) =
     concat (map (\<lambda>(i, bucket). if fused_score p bucket = None then []
       else filter (\<lambda>m. wm_portrait_identity_id m = i) members) scores)"
  by (induction scores) (auto simp: members_of_identity comp_def split: option.split)

definition answered :: "threshold_policy \<Rightarrow> watchlist_member list \<Rightarrow> string \<times> (string, pyfloat) dict \<Rightarrow> watchlist_member list" where
  "answered p members entry = (if fused_score p (snd entry) = None then []
     else filter (\<lambda>m. wm_portrait_identity_id m = fst entry) members)"

lemma answered_identity: "m \<in> set (answered p members entry) \<Longrightarrow> wm_portrait_identity_id m = fst entry"
  by (simp add: answered_def split: if_splits)

lemma resolved_answered:
  "map fst (resolved_matches p (members_by_identity members) (scores, bs)) = concat (map (answered p members) scores)"
  unfolding resolved_members by (rule arg_cong [of _ _ concat]) (simp add: answered_def case_prod_beta)

lemma resolved_distinct:
  assumes "distinct members" "dict_ok scores"
  shows "distinct (map fst (resolved_matches p (members_by_identity members) (scores, bs)))"
  using assms(2) unfolding resolved_answered
proof (induction scores)
  case (Cons entry scores)
  have fresh: "fst entry \<notin> fst ` set scores" and IH: "distinct (concat (map (answered p members) scores))"
    using Cons by simp_all
  have "set (answered p members entry) \<inter> set (concat (map (answered p members) scores)) = {}"
  proof (rule equals0I)
    fix m assume m: "m \<in> set (answered p members entry) \<inter> set (concat (map (answered p members) scores))"
    then obtain other where other: "other \<in> set scores" "m \<in> set (answered p members other)" by auto
    from m have "wm_portrait_identity_id m = fst entry" by (blast dest: answered_identity)
    with answered_identity [OF other(2)] have "fst entry = fst other" by simp
    with other(1) fresh show False by simp
  qed
  moreover have "distinct (answered p members entry)" using assms(1) by (simp add: answered_def)
  ultimately show ?case using IH by (simp only: list.map concat.simps distinct_append simp_thms)
qed simp

lemma resolved_reaches:
  assumes "scores_ok p scores" "x \<in> set (resolved_matches p (members_by_identity members) (scores, bs))"
    and "0 \<le> thp_face_weight p" "0 \<le> thp_body_weight p" "0 < thp_face_weight p + thp_body_weight p"
  shows "fst x \<in> set members \<and> reaches p (fst (snd x)) (fst (snd (snd x)))"
proof -
  let ?answers = "\<lambda>(i, bucket). case fused_score p bucket of
      None \<Rightarrow> []
    | Some (score, modality) \<Rightarrow> map (\<lambda>m. (m, score, modality, or_empty_list (dict_get bs i)))
        (or_empty_list (dict_get (members_by_identity members) i))"
  have "resolved_matches p (members_by_identity members) (scores, bs) = concat (map ?answers scores)"
    unfolding resolved_matches_def fst_conv snd_conv ..
  with assms(2) obtain y where y: "y \<in> set scores" "x \<in> set (?answers y)"
    by (simp only: set_concat set_map) blast
  obtain i bucket where "y = (i, bucket)" by (cases y)
  with y have bucket: "(i, bucket) \<in> set scores" and x: "x \<in> set (?answers (i, bucket))" by simp_all
  from x obtain score modality where fused: "fused_score p bucket = Some (score, modality)"
    by (cases "fused_score p bucket") auto
  from bucket assms(1) have "dict_get scores i = Some bucket" by (simp add: scores_ok_def)
  from fused_score_reaches [OF assms(1) this fused assms(3-5)] x fused show ?thesis
    by (auto simp: members_of_identity)
qed

text \<open>
  C20: the matcher answers members of the watchlists only, each at most once, best first, and only with
  scores that its thresholds allow: a face or body score reaches the threshold of that modality,
  a fused score the lower of the two. This holds whatever other tasks do to the stores meanwhile.
\<close>

theorem matches_sound:
  assumes "match_members rt t pr members obs (Instance p) b = (Inr ms, b')" and "distinct members"
    and "0 \<le> thp_face_weight p" "0 \<le> thp_body_weight p" "0 < thp_face_weight p + thp_body_weight p"
  shows "distinct (map fst ms) \<and> (\<forall>x \<in> set ms. fst x \<in> set members \<and> reaches p (fst (snd x)) (fst (snd (snd x)))) \<and>
    sorted_wrt (\<lambda>x y. fst (snd y) \<le> fst (snd x)) ms"
proof -
  let ?key = "\<lambda>(m, score, _). (- score, wm_member_id m)"
  have "yields (\<lambda>_. True) (\<lambda>ms. \<exists>scores bs. scores_ok p scores \<and>
        ms = py_sorted ?key (resolved_matches p (members_by_identity members) (scores, bs)))
      (match_members rt t pr members obs (Instance p))"
    unfolding match_members_def Let_def of_attr_def attr.case
  proof (rule yields_then, rule yields_use [where Q = "\<lambda>x. x = p"], goal_cases)
    case (1 spaces)
    show ?case by (simp add: yields_def of_sum_def)
  next
    case (2 spaces q)
    have empty: "scores_ok p (fst ([], []))" by (simp add: scores_ok_def)
    show ?case unfolding 2
    proof (rule yields_use [OF match_evidence_ok [OF empty]], rule yields_ret)
      fix tables :: "score_table \<times> binding_table" assume "scores_ok p (fst tables)"
      then show "\<exists>scores bs. scores_ok p scores \<and> py_sorted ?key (resolved_matches p (members_by_identity members) tables) =
          py_sorted ?key (resolved_matches p (members_by_identity members) (scores, bs))"
        by (intro exI [of _ "fst tables"] exI [of _ "snd tables"]) simp
    qed
  qed
  from yieldsD [OF this _ assms(1)] obtain scores bs where ok: "scores_ok p scores"
      and ms: "ms = py_sorted ?key (resolved_matches p (members_by_identity members) (scores, bs))" by blast
  have "mset (map fst ms) = mset (map fst (resolved_matches p (members_by_identity members) (scores, bs)))"
    by (simp add: ms)
  then have "distinct (map fst ms)"
    using mset_eq_imp_distinct_iff resolved_distinct [OF assms(2)] ok unfolding scores_ok_def by blast
  moreover have "\<forall>x \<in> set ms. fst x \<in> set members \<and> reaches p (fst (snd x)) (fst (snd (snd x)))"
    using resolved_reaches [OF ok _ assms(3-5)] by (auto simp: ms)
  moreover have "sorted_wrt (\<lambda>x y. ?key x \<le> ?key y) ms"
    using sorted_py_sorted [of ?key] unfolding ms sorted_map by blast
  then have "sorted_wrt (\<lambda>x y. fst (snd y) \<le> fst (snd x)) ms"
    by (rule sorted_wrt_mono_rel [rotated]) (auto simp: less_eq_prod_def)
  ultimately show ?thesis by blast
qed

definition sample_thresholds :: threshold_policy where
  "sample_thresholds = \<lparr>thp_policy_version = ''1'', thp_face_threshold = Some (1 / 2), thp_body_threshold = None,
     thp_min_face_quality = 0, thp_min_body_quality = 0, thp_face_weight = 65 / 100, thp_body_weight = 35 / 100\<rparr>"

definition sample_member :: watchlist_member where
  "sample_member = \<lparr>wm_member_id = ''m1'', wm_tenant_id = ''t'', wm_project_id = ''p'', wm_watchlist_id = ''wl'',
     wm_portrait_identity_id = ''idn'', wm_status = MEMBER_ACTIVE, wm_display_label = [], wm_valid_from = None,
     wm_valid_until = None, wm_created_by = ''u'', wm_created_at = 0, wm_updated_at = 0, wm_revision = 1\<rparr>"

definition sample_observation :: observation_batch where
  "sample_observation = \<lparr>obs_run_id = ''r1'', obs_source_id = ''s1'', obs_camera_id = ''c1'', obs_unit_id = [],
     obs_track_id = [], obs_first_seen_at = 0, obs_last_seen_at = 0, obs_pts_ms = None,
     obs_timestamp_source = ''processing_time'',
     obs_evidence = [\<lparr>obe_modality = EVIDENCE_FACE, obe_embedding = [1, 0], obe_quality = 1, obe_model_id = ''arc'',
       obe_model_version = ''1''\<rparr>],
     obs_snapshot_artifact_id = None, obs_snapshot_object_key = None, obs_trajectory_identity_id = None,
     obs_trajectory_segment_id = None, obs_trace_id = None\<rparr>"

theorem matches_sound_witness:
  "\<exists>ms. fst (match_members id ''t'' ''p'' [sample_member] sample_observation (Instance sample_thresholds)
       (sample_beside sample_backends)) = Inr ms \<and> ms \<noteq> [] \<and>
     (\<forall>x \<in> set ms. reaches sample_thresholds (fst (snd x)) (fst (snd (snd x))))"
proof -
  let ?run = "match_members id ''t'' ''p'' [sample_member] sample_observation (Instance sample_thresholds) (sample_beside sample_backends)"
  have "map_sum (\<lambda>_. ()) (map (\<lambda>x. fst (snd x))) (fst ?run) = Inr [3]" by code_simp
  then obtain ms where ms: "fst ?run = Inr ms" "ms \<noteq> []" by (cases "fst ?run") auto
  then have run: "?run = (Inr ms, snd ?run)" by (metis prod.collapse)
  have "0 \<le> thp_face_weight sample_thresholds" "0 \<le> thp_body_weight sample_thresholds"
    "0 < thp_face_weight sample_thresholds + thp_body_weight sample_thresholds"
    by (simp_all add: sample_thresholds_def)
  from matches_sound [OF run _ this] ms show ?thesis by auto
qed

section \<open>A sample of a task\<close>

definition sample_watchlist :: watchlist where
  "sample_watchlist = \<lparr>wl_watchlist_id = ''wl'', wl_tenant_id = ''t'', wl_project_id = ''p'', wl_name = ''list'',
     wl_category = BLACKLIST, wl_description = [], wl_status = WL_ACTIVE, wl_created_by = ''u'', wl_created_at = 0,
     wl_updated_at = 0, wl_revision = 1\<rparr>"

definition sample_camera :: camera_record where
  "sample_camera = \<lparr>cam_camera_id = ''c1'', cam_tenant_id = ''t'', cam_project_id = ''p'', cam_display_name = [],
     cam_location = [], cam_auto_registered = False, cam_metadata = [], cam_created_at = 0, cam_updated_at = 0\<rparr>"

definition sample_source :: media_source where
  "sample_source = \<lparr>source_source_id = ''s1'', source_tenant_id = ''t'', source_project_id = ''p'', source_kind_of = SOURCE_STREAM,
     source_name = ''cam'', source_masked_url = ''rtsp'', source_secret_ref = ''secret'', source_metadata = [],
     source_created_at = 0\<rparr>"

definition sample_schedule :: surveillance_schedule where
  "sample_schedule = \<lparr>sch_timezone = ''UTC'', sch_weekly = [], sch_exceptions = []\<rparr>"

definition sample_task :: "task_status \<Rightarrow> surveillance_task" where
  "sample_task st = \<lparr>tsk_task_id = ''st'', tsk_tenant_id = ''t'', tsk_project_id = ''p'', tsk_name = ''watch'',
     tsk_status = st, tsk_watchlist_ids = [''wl''],
     tsk_bindings = [\<lparr>tbd_binding_id = ''b1'', tbd_source_id = ''s1'', tbd_camera_id = ''c1'',
       tbd_active_run_id = Some ''r1'', tbd_stream_session_id = Some ''ss1'', tbd_last_error = None\<rparr>],
     tsk_schedule = Instance sample_schedule, tsk_match_policy = ALERT_ON_MATCH,
     tsk_threshold_policy = Instance sample_thresholds, tsk_cooldown_seconds = 30, tsk_alert_level = WARNING,
     tsk_created_by = ''u'', tsk_created_at = 0, tsk_updated_at = 0, tsk_revision = 1\<rparr>"

definition sample_surveillance :: "task_status \<Rightarrow> surveillance_world" where
  "sample_surveillance st = \<lparr>bs_world = sample_world (memory_state_init\<lparr>mem_sources :=
       [(store_key ''t'' ''p'' ''s1'', sample_source)]\<rparr>),
     bs_repo = \<lparr>pbk_portraits = pbk_portraits sample_backends, pbk_features = sample_features,
       pbk_indexes = index_store_init,
       tjb_trajectories = trajectory_init\<lparr>trj_cameras := [(store_key ''t'' ''p'' ''c1'', sample_camera)]\<rparr>, sbk_srv = surveillance_init\<lparr>
         srv_watchlists := [(store_key ''t'' ''p'' ''wl'', sample_watchlist)],
         srv_tasks := [(store_key ''t'' ''p'' ''st'', sample_task st)]\<rparr>\<rparr>,
     bs_env = (\<lambda>_ s. s)\<rparr>"

definition sample_settings :: surveillance_settings where
  "sample_settings = \<lparr>sst_snapshot_retention_days = 30, sst_runs_bound = True,
     sst_local_time = (\<lambda>_ _. \<lparr>lm_date = ''2026-01-01'', lm_isoweekday = 4, lm_time = 0\<rparr>), sst_rfc3339 = (\<lambda>_. ''2026''),
     sst_sqrt = id\<rparr>"

definition schedule_request :: update_task_request where
  "schedule_request = \<lparr>utq_expected_revision = 1, utq_name = None, utq_watchlist_ids = None, utq_bindings = None,
     utq_schedule = None, utq_match_policy = None, utq_threshold_policy = None, utq_cooldown_seconds = None,
     utq_alert_level = None\<rparr>"

lemma sample_surveillance_alone: "alone (sample_surveillance st)"
  by (simp add: alone_def sample_surveillance_def sample_world_def)

section \<open>Updating a task\<close>

lemma yields_for_each_never:
  assumes "\<And>x. x \<in> set xs \<Longrightarrow> yields (\<lambda>_. True) (\<lambda>_. False) (f x)" "xs \<noteq> []"
  shows "yields (\<lambda>_. True) (\<lambda>_. False) (for_each xs f)"
  using assms(2,1) by (cases xs) (auto intro: yields_use)

lemma dumped_binding_raises: "yields (\<lambda>_. True) (\<lambda>_. False) (check_binding sv ctx (Dumped x))"
  by (simp add: check_binding_def of_attr_def of_sum_def andthen_def yields_def)

lemma dumped_bindings_never_valid:
  "yields (\<lambda>_. True) (\<lambda>_. False) (validate_task_references sv ctx ws (map Dumped (x # xs)))"
  unfolding validate_task_references_def
  by (intro yields_then yields_for_each_never) (auto intro: dumped_binding_raises)

text \<open>
  C39: the bindings of a task can never be updated. A request that carries bindings raises in every
  world, whatever they are: the references are checked on dictionaries, which have no
  attribute \<open>source_id\<close>.
\<close>

theorem binding_update_never_succeeds:
  "fst (ss_update_task sv ctx i (q\<lparr>utq_bindings := Some (x # xs)\<rparr>) b) \<noteq> Inr t"
proof -
  let ?q = "q\<lparr>utq_bindings := Some (x # xs)\<rparr>"
  have targets: "target_bindings ?q tk = map Dumped (x # xs)" for tk by (simp add: target_bindings_def)
  have "yields (\<lambda>_. True) (\<lambda>_. False) (ss_update_task sv ctx i ?q)"
    unfolding ss_update_task_def targets
    by (rule yields_then, rule yields_then, rule yields_use [OF dumped_bindings_never_valid]) simp
  then show ?thesis unfolding yields_def by (metis prod.collapse)
qed

lemma yields_srv: "yields I (\<lambda>x. \<exists>s s'. m s = (Inr x, s')) (srv_call m)"
  by (auto simp: yields_def srv_call_def in_srv_def repo_call_def Let_def split: option.splits prod.splits)

lemma save_task_InrD: "save_task t n s = (Inr x, s') \<Longrightarrow> x = t\<lparr>tsk_revision := n + 1\<rparr>"
  by (auto simp: save_task_def Let_def split: option.splits if_splits)

lemma schedule_update_dumps:
  "yields (\<lambda>_. True) (\<lambda>t. tsk_schedule t = Dumped sch) (ss_update_task sv ctx i (q\<lparr>utq_schedule := Some sch\<rparr>))"
  unfolding ss_update_task_def
proof (rule yields_then, rule yields_then, rule yields_then, rule yields_then, rule yields_use [OF yields_srv], goal_cases)
  case (1 _ current _ now stored)
  then have "tsk_schedule stored = Dumped sch"
    by (auto dest!: save_task_InrD simp: updated_task_def or_current_def)
  then show ?case by (intro yields_then yields_ret)
qed

lemma for_each_raises: "f x s = (Inl e, s') \<Longrightarrow> for_each (x # xs) f s = (Inl e, s')"
  by (simp add: andthen_def)

text \<open>
  Updating the schedule of a task breaks the scheduler. The update stores the schedule as a
  dictionary; when the task is active and comes first, every later run of \<open>reconcile\<close> raises
  \<open>AttributeError\<close> before it has looked at any other task and changes nothing.
\<close>

lemma schedule_update_stops_reconcile:
  assumes "ss_update_task sv ctx i (q\<lparr>utq_schedule := Some sch\<rparr>) b = (Inr t, b')"
    and "alone b2" and "list_all_active_tasks (sbk_srv (bs_repo b2)) = t # others" and "sst_runs_bound st"
  shows "\<exists>msg b3. ss_reconcile sv st moment b2 = (Inl (AttributeError msg), b3) \<and> bs_repo b3 = bs_repo b2"
proof -
  have dumped: "tsk_schedule t = Dumped sch" by (rule yieldsD [OF schedule_update_dumps _ assms(1)]) simp
  have "t \<in> set (list_all_active_tasks (sbk_srv (bs_repo b2)))" by (simp add: assms(3))
  then have active: "tsk_status t = TASK_ACTIVE" by (auto simp: list_all_active_tasks_def)
  let ?f = "\<lambda>t. andthen (reconcile_task sv st (creator_context (tsk_tenant_id t) (tsk_project_id t) (tsk_created_by t)) t moment)
      (\<lambda>_. ret ())"
  obtain msg where "?f t b3 = (Inl (AttributeError msg), b3)" for b3 :: surveillance_world
    using assms(4) active dumped by (simp add: reconcile_task_def of_attr_def of_sum_def andthen_def)
  from for_each_raises [where f = ?f, OF this] show ?thesis
    unfolding ss_reconcile_def srv_read_def andthen_read_alone [OF assms(2)] assms(3)
    by (simp add: andthen_Inl)
qed

section \<open>Resuming a task\<close>

text \<open>A lone repository in a given state, beside a world whose queue of runs is \<open>Q\<close>.\<close>

definition steady :: "'r \<Rightarrow> key3 list \<Rightarrow> 'r beside \<Rightarrow> bool" where
  "steady s Q b \<longleftrightarrow> holding s b \<and> w_queue (bs_world b) = Q"

lemma queue_kept:
  "preserves (\<lambda>w. w_queue w = Q) (store_call m)" "preserves (\<lambda>w. w_queue w = Q) (remote_call r)"
  "preserves (\<lambda>w. w_queue w = Q) time_time" "preserves (\<lambda>w. w_queue w = Q) uuid4_hex"
  by (auto simp: preserves_def store_call_def remote_call_def time_time_def uuid4_hex_def tick_def Let_def case_prod_beta
      split: option.split)

lemma steady_on_world:
  assumes "\<And>F. preserves (\<lambda>w. w_fault w = F) m" "\<And>Q. preserves (\<lambda>w. w_queue w = Q) m"
  shows "outcome (steady s Q) (on_world m) (\<lambda>_. steady s Q) (\<lambda>_ _. True)"
proof -
  have "w_fault w' = w_fault w \<and> w_queue w' = w_queue w" if "m w = (r, w')" for w r w'
    using assms(1) [of "w_fault w"] assms(2) [of "w_queue w"] that unfolding preserves_def by (metis snd_conv)
  then show ?thesis by (auto simp: outcome_def steady_def holding_def on_world_def alone_def split: prod.splits)
qed

lemma steady_world_calls:
  "outcome (steady s Q) (on_world (store_call m)) (\<lambda>_. steady s Q) (\<lambda>_ _. True)"
  "outcome (steady s Q) (on_world time_time) (\<lambda>_. steady s Q) (\<lambda>_ _. True)"
  "outcome (steady s Q) (portrait_allow sv ctx action resource attributes) (\<lambda>_. steady s Q) (\<lambda>_ _. True)"
  "outcome (steady s Q) (portrait_record sv ctx act rt i evd) (\<lambda>_. steady s Q) (\<lambda>_ _. True)"
proof -
  show "outcome (steady s Q) (on_world (store_call m)) (\<lambda>_. steady s Q) (\<lambda>_ _. True)"
    by (rule steady_on_world [OF faults_kept(1) queue_kept(1)])
  show "outcome (steady s Q) (on_world time_time) (\<lambda>_. steady s Q) (\<lambda>_ _. True)"
    by (rule steady_on_world [OF faults_kept(3) queue_kept(3)])
  have "preserves (\<lambda>w. w_queue w = Q') (allow sv ctx action resource attributes)" for Q'
    unfolding allow_def by (intro preserves_intros queue_kept)
  then show "outcome (steady s Q) (portrait_allow sv ctx action resource attributes) (\<lambda>_. steady s Q) (\<lambda>_ _. True)"
    unfolding portrait_allow_def by (rule steady_on_world [OF allow_faults_kept])
  have "preserves (\<lambda>w. w_queue w = Q') (audit_record sv ctx act rt i ''success'' evd)" for Q'
    unfolding audit_record_def Let_def by (intro preserves_intros queue_kept)
  then show "outcome (steady s Q) (portrait_record sv ctx act rt i evd) (\<lambda>_. steady s Q) (\<lambda>_ _. True)"
    unfolding portrait_record_def
    by (rule outcome_andthen [OF steady_on_world [OF audit_faults_kept] outcome_ret])
qed

lemma tick_keeps_queue [simp]: "w_queue (tick w) = w_queue w"
  by (simp add: tick_def)

lemma steady_read: "outcome (steady s Q) (repo_read f) (\<lambda>x b. x = f s \<and> steady s Q b) (\<lambda>_ _. True)"
  by (auto simp: outcome_def steady_def holding_def repo_read_alone)

lemma steady_srv_read: "outcome (steady s Q) (srv_read f) (\<lambda>x b. x = f (sbk_srv s) \<and> steady s Q b) (\<lambda>_ _. True)"
  unfolding srv_read_def by (rule steady_read)

lemma steady_srv_call:
  "outcome (steady s Q) (srv_call m) (\<lambda>x b. fst (m (sbk_srv s)) = Inr x \<and>
     steady (s\<lparr>sbk_srv := snd (m (sbk_srv s))\<rparr>) Q b) (\<lambda>_ _. True)"
  by (cases "m (sbk_srv s)")
     (auto simp: outcome_def steady_def holding_def srv_call_def in_srv_def repo_call_alone)

lemma outcome_for_each:
  assumes "\<And>x. outcome P (f x) (\<lambda>_. P) E"
  shows "outcome P (for_each xs f) (\<lambda>_. P) E"
proof (induction xs)
  case Nil
  show ?case by (simp add: outcome_def)
next
  case (Cons x xs)
  show ?case using outcome_andthen [OF assms Cons] by simp
qed

lemma steady_check_watchlist: "outcome (steady s Q) (check_watchlist ctx i) (\<lambda>_. steady s Q) (\<lambda>_ _. True)"
  unfolding check_watchlist_def
  by (rule outcome_andthen [OF steady_srv_read]) (auto intro: outcome_conj outcome_ret outcome_throw)

lemma steady_get_camera: "outcome (steady s Q) (get_camera sv ctx i) (\<lambda>_. steady s Q) (\<lambda>_ _. True)"
  unfolding get_camera_def trj_read_def
  by (rule outcome_andthen [OF steady_world_calls(3)], rule outcome_andthen [OF steady_read])
     (auto intro: outcome_conj outcome_ret outcome_throw split: option.split)

lemma steady_check_binding: "outcome (steady s Q) (check_binding sv ctx v) (\<lambda>_. steady s Q) (\<lambda>_ _. True)"
proof -
  have attr: "outcome (steady s Q) (of_sum (of_attr v)) (\<lambda>_. steady s Q) (\<lambda>_ _. True)"
    by (simp add: outcome_def of_sum_def)
  show ?thesis
    unfolding check_binding_def store_read_def
    by (rule outcome_andthen [OF attr], rule outcome_andthen [OF steady_world_calls(1)])
       (auto intro: outcome_throw outcome_andthen [OF steady_get_camera] outcome_ret)
qed

lemma steady_references: "outcome (steady s Q) (validate_task_references sv ctx ws bs) (\<lambda>_. steady s Q) (\<lambda>_ _. True)"
  unfolding validate_task_references_def
  by (rule outcome_andthen [OF outcome_for_each [OF steady_check_watchlist] outcome_for_each [OF steady_check_binding]])

lemma started_bindings:
  assumes "\<forall>x \<in> set bs. truthy (tbd_stream_session_id x)"
  shows "map_py (start_binding sv ctx t) bs = ret (map (\<lambda>x. (x, False)) bs)"
  using assms by (induction bs) (simp_all add: start_binding_def ret_def fun_eq_iff andthen_def)

text \<open>A task whose bindings all have a session is left as it is while its schedule is open.\<close>

lemma reconcile_keeps_sessions:
  assumes "tsk_schedule t = Instance sch" "\<And>m. is_active (sst_local_time st) m sch = Inr True"
    and "\<forall>x \<in> set (tsk_bindings t). truthy (tbd_stream_session_id x)"
  shows "outcome (steady s Q) (reconcile_task sv st ctx t None) (\<lambda>x b. x = t \<and> steady s Q b) (\<lambda>_ _. True)"
proof -
  have idle: "list_ex snd (map (\<lambda>x. (x, False)) bs) = False" for bs :: "task_binding list"
    by (induction bs) simp_all
  have attr: "of_sum (of_attr (tsk_schedule t)) = (ret sch :: (surveillance_world, surveillance_schedule) py)"
    "\<And>m. of_sum (is_active (sst_local_time st) m sch) = (ret True :: (surveillance_world, bool) py)"
    by (simp_all add: assms of_attr_def of_sum_def ret_def)
  show ?thesis
    unfolding reconcile_task_def started_bindings [OF assms(3)] attr andthen_ret idle option.case
    by (auto intro!: outcome_ret outcome_andthen [OF steady_world_calls(2)])
qed

text \<open>
  Resuming a paused task starts no stream. Pausing cancels the streams but leaves their session
  identifiers in the bindings, and a binding with a session is skipped: the task becomes active,
  its bindings are unchanged and no run is queued.
\<close>

lemma resume_starts_no_stream:
  assumes "alone b" and "get_task (ctx_tenant_id ctx) (ctx_project_id ctx) i (sbk_srv (bs_repo b)) = Some t"
    and "tsk_status t = TASK_PAUSED" and "tsk_schedule t = Instance sch"
    and "\<And>m. is_active (sst_local_time st) m sch = Inr True"
    and "\<forall>x \<in> set (tsk_bindings t). truthy (tbd_stream_session_id x)"
    and "ss_resume_task sv st ctx i b = (Inr t', b')"
  shows "tsk_status t' = TASK_ACTIVE \<and> tsk_bindings t' = tsk_bindings t \<and> w_queue (bs_world b') = w_queue (bs_world b)"
proof -
  let ?s = "bs_repo b" and ?Q = "w_queue (bs_world b)"
  let ?good = "\<lambda>t' b'. tsk_status t' = TASK_ACTIVE \<and> tsk_bindings t' = tsk_bindings t \<and> w_queue (bs_world b') = ?Q"
  have get: "outcome (steady ?s ?Q) (ss_get_task sv ctx i) (\<lambda>x b. x = t \<and> steady ?s ?Q b) (\<lambda>_ _. True)"
    unfolding ss_get_task_def
    by (rule outcome_andthen [OF steady_world_calls(3)], rule outcome_andthen [OF steady_srv_read])
       (auto simp: assms(2) outcome_def)
  have rest: "outcome (\<lambda>b. fst (save_task (t\<lparr>tsk_status := TASK_ACTIVE, tsk_updated_at := now\<rparr>) n (sbk_srv ?s)) = Inr stored \<and>
        steady r ?Q b)
      (andthen (portrait_record sv ctx act rt j evd) (\<lambda>_. reconcile_task sv st ctx stored None)) ?good (\<lambda>_ _. True)"
    for now n stored r act rt j evd
  proof (rule outcome_conj)
    assume "fst (save_task (t\<lparr>tsk_status := TASK_ACTIVE, tsk_updated_at := now\<rparr>) n (sbk_srv ?s)) = Inr stored"
    then have "stored = t\<lparr>tsk_status := TASK_ACTIVE, tsk_updated_at := now, tsk_revision := n + 1\<rparr>"
      by (metis prod.collapse save_task_InrD surveillance_task.update_convs(16))
    then have stored: "tsk_schedule stored = Instance sch" "tsk_bindings stored = tsk_bindings t" "tsk_status stored = TASK_ACTIVE"
      by (simp_all add: assms(4))
    have "outcome (steady r ?Q) (reconcile_task sv st ctx stored None) (\<lambda>x b. x = stored \<and> steady r ?Q b) (\<lambda>_ _. True)"
      by (rule reconcile_keeps_sessions [OF stored(1) assms(5)]) (simp add: stored(2) assms(6))
    then have "outcome (steady r ?Q) (reconcile_task sv st ctx stored None) ?good (\<lambda>_ _. True)"
      by (rule outcome_weaken) (auto simp: stored steady_def)
    then show "outcome (steady r ?Q) (andthen (portrait_record sv ctx act rt j evd)
        (\<lambda>_. reconcile_task sv st ctx stored None)) ?good (\<lambda>_ _. True)"
      by (rule outcome_andthen [OF steady_world_calls(4)])
  qed
  have "outcome (steady ?s ?Q) (ss_resume_task sv st ctx i) ?good (\<lambda>_ _. True)"
    unfolding ss_resume_task_def ss_start_task_def
  proof (rule outcome_andthen [OF steady_world_calls(3)], rule outcome_andthen [OF get], rule outcome_conj, goal_cases)
    case (1 _ current)
    show ?case unfolding 1
      by (simp add: assms(3))
         (intro outcome_andthen [OF steady_references] outcome_andthen [OF steady_world_calls(2)]
           outcome_andthen [OF steady_srv_call] rest)
  qed
  moreover have "steady ?s ?Q b" using assms(1) by (simp add: steady_def holding_def)
  ultimately show ?thesis using assms(7) unfolding outcome_def by blast
qed

end
