(* ===== verification/Sample_Trajectories.thy ===== *)
theory Sample_Trajectories
  imports Trajectory_Review Portrait_Correct
begin

text \<open>
  Concrete tracks, identities and segments for the witnesses of the trajectory properties. Nothing
  here models code; no property depends on it.
\<close>

definition sample_frame :: ingest_frame where
  "sample_frame = \<lparr>igf_run_id = ''r1'', igf_source_id = [], igf_asset_id = [], igf_camera_id = ''c2'', igf_has_absolute_time = True\<rparr>"

definition sample_trajectory_settings :: trajectory_settings where
  "sample_trajectory_settings = \<lparr>tjs_body_threshold = 7 / 10, tjs_face_threshold = 6 / 10, tjs_min_track_quality = 1 / 2,
     tjs_min_frame_count = 3, tjs_max_templates = 8, tjs_default_transition_seconds = 5, tjs_sqrt = id,
     tjs_text = \<lparr>jt_str = (\<lambda>v. case v of JStr x \<Rightarrow> x | _ \<Rightarrow> []), jt_float = (\<lambda>_. Inl (Failure ''none'')), jt_int = (\<lambda>_. Inl (Failure ''none''))\<rparr>,
     tjs_round6 = id\<rparr>"

definition sample_track :: "string \<Rightarrow> pyfloat \<Rightarrow> pyfloat \<Rightarrow> json" where
  "sample_track i a z = JObj [(''track_id'', JStr i), (''frame_count'', JInt 5), (''tracklet_quality_score'', JFloat 1),
     (''first_pts_ms'', JFloat a), (''last_pts_ms'', JFloat z),
     (''template'', JObj [(''embedding'', JList [JFloat 1, JFloat 0])])]"

definition sample_lti :: "string \<Rightarrow> long_term_identity" where
  "sample_lti i = \<lparr>lti_identity_id = i, lti_tenant_id = ''t'', lti_project_id = ''p'', lti_display_name = i,
     lti_status = STATUS_AUTO, lti_modalities = [''body''], lti_feature_space_ids = [], lti_camera_ids = [''c1''],
     lti_segment_count = 1, lti_first_seen_at = 0, lti_last_seen_at = 10, lti_last_camera_id = ''c1'', lti_metadata = [],
     lti_created_at = 0, lti_updated_at = 0\<rparr>"

definition sample_segment :: "string \<Rightarrow> string \<Rightarrow> pyfloat \<times> pyfloat \<Rightarrow> trajectory_segment" where
  "sample_segment sid i w = \<lparr>seg_segment_id = sid, seg_identity_id = i, seg_tenant_id = ''t'', seg_project_id = ''p'',
     seg_run_id = ''r0'', seg_source_id = [], seg_asset_id = [], seg_camera_id = ''c1'', seg_track_id = ''1'',
     seg_frame_count = 5, seg_track_quality = 1, seg_first_seen_at = fst w, seg_last_seen_at = snd w,
     seg_first_pts_ms = None, seg_last_pts_ms = None, seg_match_method = NEW_IDENTITY, seg_match_score = 1,
     seg_match_scores = [], seg_feature_ids = [], seg_metadata = [], seg_created_at = 0\<rparr>"

definition sample_trajectories :: trajectory_repository where
  "sample_trajectories = trajectory_init\<lparr>
     trj_identities := map (\<lambda>r. (lti_key r, r)) [sample_lti ''i1'', sample_lti ''i2''],
     trj_segments := map (\<lambda>r. (segment_key r, r)) [sample_segment ''s1'' ''i1'' (0, 10), sample_segment ''s2'' ''i2'' (0, 30),
       sample_segment ''s3'' ''i2'' (40, 50)]\<rparr>"

text \<open>Fresh names are needed here, so the world's identifiers grow with its steps.\<close>

definition sample_tracking :: "trajectory_repository \<Rightarrow> unit trajectory_world" where
  "sample_tracking r = \<lparr>bs_world = (sample_world memory_state_init)\<lparr>w_uuid := (\<lambda>n _. if n < 20 then ''1'' else ''2'')\<rparr>,
     bs_repo = \<lparr>pbk_portraits = \<lparr>por_identities = [], por_enrollments = []\<rparr>, pbk_features = feature_store_init,
       pbk_indexes = index_store_init, tjb_trajectories = r\<rparr>,
     bs_env = (\<lambda>_ s. s)\<rparr>"

lemma sample_tracking_alone: "alone (sample_tracking r)"
  by (simp add: alone_def sample_tracking_def sample_world_def)

lemma sample_tracking_repo: "tjb_trajectories (bs_repo (sample_tracking r)) = r"
  by (simp add: sample_tracking_def)

lemma sample_trajectories_keyed:
  "keyed segment_key (trj_segments sample_trajectories)" "keyed lti_key (trj_identities sample_trajectories)"
  by (simp_all add: sample_trajectories_def trajectory_init_def keyed_def segment_key_def lti_key_def sample_segment_def
      sample_lti_def)

end
