(* ===== verification/Trajectory_Correct.thy ===== *)
theory Trajectory_Correct
  imports Sample_Trajectories
begin

text \<open>
  Properties of trajectories: the probe of neighbouring sightings against its specification, travel
  times and simultaneous tracks are respected when an identity is reused, and what merging and
  splitting do to the assignment of segments to identities.
\<close>

section \<open>Neighbouring sightings\<close>

text \<open>A sighting by another camera at the same time, one before and one after the window.\<close>

definition clashes :: "string \<Rightarrow> pyfloat \<times> pyfloat \<Rightarrow> trajectory_segment \<Rightarrow> bool" where
  "clashes c w r \<longleftrightarrow> seg_camera_id r \<noteq> [] \<and> seg_camera_id r \<noteq> c \<and> windows_overlap (seg_window r) w"

definition before :: "pyfloat \<times> pyfloat \<Rightarrow> trajectory_segment \<Rightarrow> bool" where
  "before w r \<longleftrightarrow> seg_camera_id r \<noteq> [] \<and> \<not> windows_overlap (seg_window r) w \<and> seg_last_seen_at r \<le> fst w"

definition after :: "pyfloat \<times> pyfloat \<Rightarrow> trajectory_segment \<Rightarrow> bool" where
  "after w r \<longleftrightarrow> seg_camera_id r \<noteq> [] \<and> snd w < seg_first_seen_at r \<and> fst w < seg_last_seen_at r"

definition latest_before :: "pyfloat \<times> pyfloat \<Rightarrow> trajectory_segment set \<Rightarrow> reachability_observation option \<Rightarrow> bool" where
  "latest_before w R v \<longleftrightarrow> (case v of
     None \<Rightarrow> \<forall>r \<in> R. \<not> before w r
   | Some o1 \<Rightarrow> (\<exists>r \<in> R. before w r \<and> o1 = sighting_of r) \<and> (\<forall>r \<in> R. before w r \<longrightarrow> seg_last_seen_at r \<le> rob_last_seen_at o1))"

definition earliest_after :: "pyfloat \<times> pyfloat \<Rightarrow> trajectory_segment set \<Rightarrow> reachability_observation option \<Rightarrow> bool" where
  "earliest_after w R v \<longleftrightarrow> (case v of
     None \<Rightarrow> \<forall>r \<in> R. \<not> after w r
   | Some o1 \<Rightarrow> (\<exists>r \<in> R. after w r \<and> o1 = sighting_of r) \<and> (\<forall>r \<in> R. after w r \<longrightarrow> rob_first_seen_at o1 \<le> seg_first_seen_at r))"

lemma observed_times [simp]:
  "rob_last_seen_at (sighting_of r) = seg_last_seen_at r" "rob_first_seen_at (sighting_of r) = seg_first_seen_at r"
  "rob_camera_id (sighting_of r) = seg_camera_id r"
  by (simp_all add: sighting_of_def)

lemma after_iff: "after w r \<longleftrightarrow>
    seg_camera_id r \<noteq> [] \<and> \<not> windows_overlap (seg_window r) w \<and> \<not> seg_last_seen_at r \<le> fst w"
  by (auto simp: after_def windows_overlap_def seg_window_def)

lemma latest_before_skip: "\<not> before w r \<Longrightarrow> latest_before w R v \<Longrightarrow> latest_before w (insert r R) v"
  by (auto simp: latest_before_def split: option.splits)

lemma earliest_after_skip: "\<not> after w r \<Longrightarrow> earliest_after w R v \<Longrightarrow> earliest_after w (insert r R) v"
  by (auto simp: earliest_after_def split: option.splits)

lemma latest_before_note:
  assumes "before w r" "latest_before w R v"
  shows "latest_before w (insert r R) (if (case v of None \<Rightarrow> True | Some o1 \<Rightarrow> rob_last_seen_at o1 < seg_last_seen_at r)
    then Some (sighting_of r) else v)"
  using assms by (cases v) (force simp: latest_before_def)+

lemma earliest_after_note:
  assumes "after w r" "earliest_after w R v"
  shows "earliest_after w (insert r R) (if (case v of None \<Rightarrow> True | Some o1 \<Rightarrow> seg_first_seen_at r < rob_first_seen_at o1)
    then Some (sighting_of r) else v)"
  using assms by (cases v) (force simp: earliest_after_def)+

lemma probe_rows_spec:
  assumes "latest_before w R previous" "earliest_after w R following" "pr = probe_rows c w rs previous following"
  shows "rpr_overlapping pr \<longleftrightarrow> (\<exists>r \<in> set rs. clashes c w r)"
    and "\<not> rpr_overlapping pr \<Longrightarrow> latest_before w (R \<union> set rs) (rpr_previous pr) \<and> earliest_after w (R \<union> set rs) (rpr_following pr)"
proof -
  have "(rpr_overlapping pr \<longleftrightarrow> (\<exists>r \<in> set rs. clashes c w r)) \<and>
      (\<not> rpr_overlapping pr \<longrightarrow> latest_before w (R \<union> set rs) (rpr_previous pr) \<and> earliest_after w (R \<union> set rs) (rpr_following pr))"
    using assms
  proof (induction rs arbitrary: R previous following)
    case (Cons r rs)
    have step: ?case if "pr = probe_rows c w rs p f" "\<not> clashes c w r" "latest_before w (insert r R) p"
      "earliest_after w (insert r R) f" for p f
      using Cons.IH [OF that(3,4,1)] that(2) by simp
    consider (nowhere) "seg_camera_id r = []" | (clash) "clashes c w r" | (same) "seg_camera_id r \<noteq> []"
        "windows_overlap (seg_window r) w" "seg_camera_id r = c"
      | (earlier) "before w r" | (later) "after w r"
      by (auto simp: clashes_def before_def after_iff)
    then show ?case
    proof cases
      case nowhere
      with Cons.prems show ?thesis
        by (intro step [of previous following] latest_before_skip earliest_after_skip) (auto simp: clashes_def before_def after_def)
    next
      case clash
      with Cons.prems(3) show ?thesis by (auto simp: clashes_def)
    next
      case same
      with Cons.prems show ?thesis
        by (intro step [of previous following] latest_before_skip earliest_after_skip) (auto simp: clashes_def before_def after_iff)
    next
      case earlier
      then have "\<not> clashes c w r" "\<not> after w r" by (auto simp: clashes_def before_def after_iff)
      with earlier Cons.prems show ?thesis
        by (intro step [OF _ _ latest_before_note [OF earlier Cons.prems(1)] earliest_after_skip [of w r R following]])
           (auto simp: before_def)
    next
      case later
      then have "\<not> clashes c w r" "\<not> before w r" by (auto simp: clashes_def before_def after_iff)
      with later Cons.prems show ?thesis
        by (intro step [OF _ _ latest_before_skip [of w r R previous] earliest_after_note [OF later Cons.prems(2)]])
           (auto simp: after_iff)
    qed
  qed simp
  then show "rpr_overlapping pr \<longleftrightarrow> (\<exists>r \<in> set rs. clashes c w r)"
    and "\<not> rpr_overlapping pr \<Longrightarrow> latest_before w (R \<union> set rs) (rpr_previous pr) \<and> earliest_after w (R \<union> set rs) (rpr_following pr)"
    by blast+
qed

text \<open>The segments of an identity.\<close>

definition identity_segments :: "string \<Rightarrow> string \<Rightarrow> string \<Rightarrow> trj \<Rightarrow> trajectory_segment set" where
  "identity_segments t p i s = snd ` {kv \<in> set (trj_segments s). of_identity t p i kv}"

lemma probe_spec:
  assumes "pr = probe_reachability t p i c w s"
  shows "rpr_overlapping pr \<longleftrightarrow> (\<exists>r \<in> identity_segments t p i s. clashes c w r)"
    and "\<not> rpr_overlapping pr \<Longrightarrow> latest_before w (identity_segments t p i s) (rpr_previous pr) \<and>
      earliest_after w (identity_segments t p i s) (rpr_following pr)"
proof -
  have init: "latest_before w {} None" "earliest_after w {} None" by (simp_all add: latest_before_def earliest_after_def)
  have rows: "set (map snd (filter (of_identity t p i) (trj_segments s))) = identity_segments t p i s"
    by (auto simp: identity_segments_def)
  from probe_rows_spec [OF init assms [unfolded probe_reachability_def]]
  show "rpr_overlapping pr \<longleftrightarrow> (\<exists>r \<in> identity_segments t p i s. clashes c w r)"
    and "\<not> rpr_overlapping pr \<Longrightarrow> latest_before w (identity_segments t p i s) (rpr_previous pr) \<and>
      earliest_after w (identity_segments t p i s) (rpr_following pr)"
    unfolding rows by auto
qed

section \<open>Reusing an identity\<close>

text \<open>A world without failures and interference whose trajectory repository is \<open>s\<close>.\<close>

definition tracked :: "trj \<Rightarrow> 'z trajectory_world \<Rightarrow> bool" where
  "tracked s b \<longleftrightarrow> alone b \<and> tjb_trajectories (bs_repo b) = s"

lemma tracked_world:
  assumes "\<And>F. preserves (\<lambda>w. w_fault w = F) m"
  shows "outcome (tracked s) (on_world m) (\<lambda>_. tracked s) (\<lambda>_ _. True)"
proof -
  have "outcome (holding r) (on_world m) (\<lambda>_. tracked s) (\<lambda>_ _. True)" if "tjb_trajectories r = s" for r
    by (rule outcome_weaken [OF outcome_on_world [OF assms]]) (use that in \<open>auto simp: tracked_def holding_def\<close>)
  then show ?thesis unfolding outcome_def tracked_def holding_def by blast
qed

lemma tracked_calls:
  "outcome (tracked s) (on_world time_time) (\<lambda>_. tracked s) (\<lambda>_ _. True)"
  "outcome (tracked s) (on_world uuid4_hex) (\<lambda>_. tracked s) (\<lambda>_ _. True)"
  "outcome (tracked s) (portrait_allow sv ctx action resource attributes) (\<lambda>_. tracked s) (\<lambda>_ _. True)"
  "outcome (tracked s) (portrait_record sv ctx act rt i evd) (\<lambda>_. tracked s) (\<lambda>_ _. True)"
  unfolding portrait_allow_def portrait_record_def
  by (intro outcome_andthen [OF tracked_world] outcome_ret tracked_world faults_kept allow_faults_kept audit_faults_kept; assumption)+

lemma tracked_trj_read: "outcome (tracked s) (trj_read f) (\<lambda>x b. x = f s \<and> tracked s b) (\<lambda>_ _. True)"
  by (auto simp: outcome_def tracked_def trj_read_def repo_read_alone)

lemma tracked_trj_call:
  "outcome (tracked s) (trj_call m) (\<lambda>x b. fst (m s) = Inr x \<and> tracked (snd (m s)) b) (\<lambda>_ _. True)"
  by (auto simp: outcome_def tracked_def trj_call_def in_trajectories_def repo_call_alone split: prod.splits)

lemma tracked_feat:
  "outcome (tracked s) (feat_call m) (\<lambda>_. tracked s) (\<lambda>_ _. True)"
  "outcome (tracked s) (feat_read f) (\<lambda>_. tracked s) (\<lambda>_ _. True)"
  by (auto simp: outcome_def tracked_def feat_call_def feat_read_def in_features_def repo_call_alone repo_read_alone
      split: prod.splits)

text \<open>
  A person seen by camera \<open>c\<close> in window \<open>w\<close> can be the one of the segments \<open>R\<close>: nowhere else at the
  same time, and the travel times from the latest sighting before and to the earliest after are
  possible.
\<close>

definition reachable :: "trajectory_settings \<Rightarrow> travel_bounds \<Rightarrow> trajectory_segment set \<Rightarrow> string \<Rightarrow> pyfloat \<times> pyfloat \<Rightarrow> bool" where
  "reachable ts bounds R c w \<longleftrightarrow> (\<forall>r \<in> R. \<not> clashes c w r) \<and>
     ((\<forall>r \<in> R. \<not> before w r) \<or> (\<exists>q \<in> R. before w q \<and> (\<forall>r \<in> R. before w r \<longrightarrow> seg_last_seen_at r \<le> seg_last_seen_at q) \<and>
        (seg_camera_id q = c \<or> gap_allows ts bounds (seg_camera_id q, c) (fst w - seg_last_seen_at q)))) \<and>
     ((\<forall>r \<in> R. \<not> after w r) \<or> (\<exists>q \<in> R. after w q \<and> (\<forall>r \<in> R. after w r \<longrightarrow> seg_first_seen_at q \<le> seg_first_seen_at r) \<and>
        (seg_camera_id q = c \<or> gap_allows ts bounds (c, seg_camera_id q) (seg_first_seen_at q - snd w))))"

lemma latest_before_allowed:
  assumes "latest_before w R v" "case v of None \<Rightarrow> True | Some o1 \<Rightarrow> rob_camera_id o1 = c \<or> G (rob_camera_id o1) (rob_last_seen_at o1)"
  shows "(\<forall>r \<in> R. \<not> before w r) \<or> (\<exists>q \<in> R. before w q \<and> (\<forall>r \<in> R. before w r \<longrightarrow> seg_last_seen_at r \<le> seg_last_seen_at q) \<and>
    (seg_camera_id q = c \<or> G (seg_camera_id q) (seg_last_seen_at q)))"
proof (cases v)
  case (Some o1)
  with assms(1) obtain q where "q \<in> R" "before w q" "o1 = sighting_of q" by (auto simp: latest_before_def)
  with assms Some show ?thesis by (intro disjI2 bexI [of _ q]) (auto simp: latest_before_def)
qed (use assms in \<open>simp add: latest_before_def\<close>)

lemma earliest_after_allowed:
  assumes "earliest_after w R v" "case v of None \<Rightarrow> True | Some o1 \<Rightarrow> rob_camera_id o1 = c \<or> G (rob_camera_id o1) (rob_first_seen_at o1)"
  shows "(\<forall>r \<in> R. \<not> after w r) \<or> (\<exists>q \<in> R. after w q \<and> (\<forall>r \<in> R. after w r \<longrightarrow> seg_first_seen_at q \<le> seg_first_seen_at r) \<and>
    (seg_camera_id q = c \<or> G (seg_camera_id q) (seg_first_seen_at q)))"
proof (cases v)
  case (Some o1)
  with assms(1) obtain q where "q \<in> R" "after w q" "o1 = sighting_of q" by (auto simp: earliest_after_def)
  with assms Some show ?thesis by (intro disjI2 bexI [of _ q]) (auto simp: earliest_after_def)
qed (use assms in \<open>simp add: earliest_after_def\<close>)

lemma neighbours_reachable:
  assumes "\<forall>r \<in> R. \<not> clashes c w r" "latest_before w R (rpr_previous pr)" "earliest_after w R (rpr_following pr)"
    "neighbours_allow ts bounds c w pr"
  shows "reachable ts bounds R c w"
proof -
  have previous: "case rpr_previous pr of None \<Rightarrow> True | Some o1 \<Rightarrow> rob_camera_id o1 = c \<or>
      gap_allows ts bounds (rob_camera_id o1, c) (fst w - rob_last_seen_at o1)"
    and following: "case rpr_following pr of None \<Rightarrow> True | Some o1 \<Rightarrow> rob_camera_id o1 = c \<or>
      gap_allows ts bounds (c, rob_camera_id o1) (rob_first_seen_at o1 - snd w)"
    using assms(4) by (auto simp: neighbours_allow_def)
  show ?thesis
    unfolding reachable_def
    using assms(1) latest_before_allowed [OF assms(2), of c "\<lambda>x t. gap_allows ts bounds (x, c) (fst w - t)", OF previous]
      earliest_after_allowed [OF assms(3), of c "\<lambda>x t. gap_allows ts bounds (c, x) (t - snd w)", OF following] by blast
qed

definition travel_times :: "string \<Rightarrow> string \<Rightarrow> trj \<Rightarrow> travel_bounds" where
  "travel_times t p s = travel_bounds_of (list_transitions t p None s)"

lemma transition_allows_reachable:
  "outcome (tracked s) (transition_allows ts ctx i c w)
     (\<lambda>ok b. (ok \<longrightarrow> reachable ts (travel_times (ctx_tenant_id ctx) (ctx_project_id ctx) s)
        (identity_segments (ctx_tenant_id ctx) (ctx_project_id ctx) i s) c w) \<and> tracked s b) (\<lambda>_ _. True)"
  unfolding transition_allows_def
proof (rule outcome_andthen [OF tracked_trj_read], rule outcome_conj, goal_cases)
  case (1 pr)
  let ?R = "identity_segments (ctx_tenant_id ctx) (ctx_project_id ctx) i s"
  note spec = probe_spec [OF 1]
  show ?case
  proof (cases "rpr_overlapping pr")
    case False
    then have free: "\<forall>r \<in> ?R. \<not> clashes c w r" and near: "latest_before w ?R (rpr_previous pr)" "earliest_after w ?R (rpr_following pr)"
      using spec by auto
    have reach: "reachable ts bounds ?R c w" if "neighbours_allow ts bounds c w pr" for bounds
      by (rule neighbours_reachable [OF free near that])
    show ?thesis
    proof (cases "rpr_previous pr = None \<and> rpr_following pr = None")
      case True
      with False show ?thesis by (auto intro!: outcome_ret reach simp: neighbours_allow_def)
    next
      case near: False
      show ?thesis
        using False near by (auto intro!: outcome_andthen [OF tracked_trj_read] outcome_ret reach simp: travel_times_def)
    qed
  qed (auto intro: outcome_ret)
qed

text \<open>What is known of the identity a track is assigned to by re-identification.\<close>

definition admissible_choice ::
  "trajectory_settings \<Rightarrow> principal_context \<Rightarrow> ingest_frame \<Rightarrow> pyfloat \<times> pyfloat \<Rightarrow> claims \<Rightarrow> trj \<Rightarrow> string \<Rightarrow> bool" where
  "admissible_choice ts ctx fr w claimed s i \<longleftrightarrow>
     (\<exists>r. get_lti (ctx_tenant_id ctx) (ctx_project_id ctx) i s = Some r \<and> lti_status r \<noteq> STATUS_REJECTED) \<and>
     \<not> list_ex (windows_overlap w) (taken_windows claimed i) \<and>
     (igf_camera_id fr = [] \<or> \<not> igf_has_absolute_time fr \<or>
      reachable ts (travel_times (ctx_tenant_id ctx) (ctx_project_id ctx) s)
        (identity_segments (ctx_tenant_id ctx) (ctx_project_id ctx) i s) (igf_camera_id fr) w)"

lemma choose_rest:
  assumes "outcome P m (\<lambda>v b. (\<forall>i scores. v = Some (i, scores) \<longrightarrow> (i, scores) \<in> set rest \<and> A i) \<and> P b) E"
  shows "outcome P m (\<lambda>v b. (\<forall>i scores. v = Some (i, scores) \<longrightarrow> (i, scores) \<in> set (x # rest) \<and> A i) \<and> P b) E"
  using assms by (rule outcome_weaken) auto

lemma choose_admissible:
  "outcome (tracked s :: 'z trajectory_world \<Rightarrow> bool) (choose_identity ts ctx fr w claimed order)
     (\<lambda>v b. (\<forall>i scores. v = Some (i, scores) \<longrightarrow> (i, scores) \<in> set order \<and> admissible_choice ts ctx fr w claimed s i) \<and> tracked s b)
     (\<lambda>_ _. True)"
proof (induction ts ctx fr w claimed order rule: choose_identity.induct)
  case (2 ts ctx fr w claimed i scores rest)
  let ?Q = "\<lambda>order v b. (\<forall>i scores. v = Some (i, scores) \<longrightarrow> (i, scores) \<in> set order \<and> admissible_choice ts ctx fr w claimed s i) \<and> tracked s b"
  show ?case
    unfolding choose_identity.simps
  proof (rule outcome_andthen [OF tracked_trj_read], rule outcome_conj, goal_cases)
    case (1 found)
    show ?case
    proof (cases found)
      case None
      with choose_rest [OF 2(1), of "(i, scores)"] show ?thesis by simp
    next
      case (Some r)
      have stored: "get_lti (ctx_tenant_id ctx) (ctx_project_id ctx) i s = Some r" using 1 Some by simp
      note rejected = 2(2) [of r] and overlapping = 2(3) [of r] and unreachable = 2(4) [of r]
      show ?thesis
      proof (cases "lti_status r = STATUS_REJECTED \<or> list_ex (windows_overlap w) (taken_windows claimed i)")
        case True
        with Some choose_rest [OF rejected, of "(i, scores)"] choose_rest [OF overlapping, of "(i, scores)"] show ?thesis by auto
      next
        case fine: False
        show ?thesis
        proof (cases "igf_camera_id fr \<noteq> [] \<and> igf_has_absolute_time fr")
          case True
          have "outcome (\<lambda>b. (ok \<longrightarrow> reachable ts (travel_times (ctx_tenant_id ctx) (ctx_project_id ctx) s)
                (identity_segments (ctx_tenant_id ctx) (ctx_project_id ctx) i s) (igf_camera_id fr) w) \<and> tracked s b)
              (if ok then ret (Some (i, scores)) else choose_identity ts ctx fr w claimed rest :: ('z trajectory_world, _) py) (?Q ((i, scores) # rest)) (\<lambda>_ _. True)" for ok
          proof (rule outcome_conj)
            assume ok: "ok \<longrightarrow> reachable ts (travel_times (ctx_tenant_id ctx) (ctx_project_id ctx) s)
                (identity_segments (ctx_tenant_id ctx) (ctx_project_id ctx) i s) (igf_camera_id fr) w"
            show "outcome (tracked s) (if ok then ret (Some (i, scores)) else choose_identity ts ctx fr w claimed rest :: ('z trajectory_world, _) py)
                (?Q ((i, scores) # rest)) (\<lambda>_ _. True)"
            proof (cases ok)
              case True
              with ok fine stored show ?thesis by (auto intro!: outcome_ret simp: admissible_choice_def)
            next
              case False
              with choose_rest [OF unreachable, of ok "(i, scores)"] fine \<open>igf_camera_id fr \<noteq> [] \<and> igf_has_absolute_time fr\<close> show ?thesis by auto
            qed
          qed
          with True fine Some show ?thesis by (auto intro!: outcome_andthen [OF transition_allows_reachable])
        next
          case False
          with fine stored Some show ?thesis by (auto intro!: outcome_ret simp: admissible_choice_def)
        qed
      qed
    qed
  qed
qed (simp add: outcome_def)

text \<open>
  C22: an identity is reused only where the person can be. When a track is assigned to a known
  identity, that identity exists and is not rejected, has no simultaneous track in the run, and, for
  a camera and a recording time, was not seen elsewhere at the same time and can have travelled from
  its latest sighting before and to its earliest sighting after the track.
\<close>

theorem chosen_identity_reachable:
  assumes "alone b" and "choose_identity ts ctx fr w claimed order b = (Inr (Some (i, scores)), b')"
  shows "(i, scores) \<in> set order \<and> admissible_choice ts ctx fr w claimed (tjb_trajectories (bs_repo b)) i"
  using choose_admissible [of "tjb_trajectories (bs_repo b)" ts ctx fr w claimed order] assms
  unfolding outcome_def tracked_def by blast

theorem chosen_identity_reachable_witness:
  "\<exists>b'. choose_identity sample_trajectory_settings sample_principal sample_frame (20, 30) [] [(''i2'', []), (''i1'', [])]
       (sample_tracking sample_trajectories) = (Inr (Some (''i1'', [])), b') \<and>
     admissible_choice sample_trajectory_settings sample_principal sample_frame (20, 30) [] sample_trajectories ''i1''"
proof -
  let ?run = "choose_identity sample_trajectory_settings sample_principal sample_frame (20, 30) [] [(''i2'', []), (''i1'', [])]
       (sample_tracking sample_trajectories)"
  have "fst ?run = Inr (Some (''i1'', []))" by code_simp
  then have run: "?run = (Inr (Some (''i1'', [])), snd ?run)" by (simp add: prod_eq_iff)
  from chosen_identity_reachable [OF sample_tracking_alone run] run show ?thesis
    unfolding sample_tracking_repo by blast
qed

section \<open>Simultaneous tracks\<close>

text \<open>Every assignment by re-identification avoids the windows claimed before it.\<close>

fun apart :: "claims \<Rightarrow> trajectory_ingest_result list \<Rightarrow> bool" where
  "apart claimed [] \<longleftrightarrow> True"
| "apart claimed (r # rs) \<longleftrightarrow> (case tir_segment r of
     None \<Rightarrow> apart claimed rs
   | Some sg \<Rightarrow> (tir_created_identity r \<or> \<not> list_ex (windows_overlap (seg_window sg)) (taken_windows claimed (seg_identity_id sg))) \<and>
       apart (claim_window (seg_identity_id sg) (seg_window sg) claimed) rs)"

lemma choose_unclaimed:
  "yields (\<lambda>_. True) (\<lambda>v. \<forall>i scores. v = Some (i, scores) \<longrightarrow> \<not> list_ex (windows_overlap w) (taken_windows claimed i))
     (choose_identity ts ctx fr w claimed order :: ('z trajectory_world, _) py)"
proof (induction ts ctx fr w claimed order rule: choose_identity.induct)
  case (2 ts ctx fr w claimed i scores rest)
  note ih = 2
  show ?case
    unfolding choose_identity.simps
  proof (rule yields_andthen [OF _ yields_any], goal_cases)
    case 1
    show ?case by (simp add: preserves_def)
  next
    case (2 found)
    show ?case
      using ih by (cases found) (auto intro!: yields_ret yields_andthen [OF _ yields_any] simp: preserves_def)
  qed
qed (simp add: yields_def)

lemma new_segment_simps [simp]:
  "seg_identity_id (new_segment ctx fr track tid sid i n q w meth score scores fids now) = i"
  "seg_window (new_segment ctx fr track tid sid i n q w meth score scores fids now) = w"
  by (simp_all add: new_segment_def seg_window_def)

lemma ingest_one_claims:
  "yields (\<lambda>_. True) (\<lambda>(r, claimed'). \<exists>sg. tir_segment r = Some sg \<and> seg_window sg = w \<and>
       claimed' = claim_window (seg_identity_id sg) w claimed \<and>
       (tir_created_identity r \<or> \<not> list_ex (windows_overlap w) (taken_windows claimed (seg_identity_id sg))))
     (ingest_one sv ts ctx fr track tid embeddings w claimed)"
  unfolding ingest_one_def
proof (rule yields_then, clarify, rule yields_then, rule yields_use [OF choose_unclaimed], goal_cases)
  case (1 per_identity spaces order chosen)
  show ?case
  proof (rule yields_then, rule yields_then, goal_cases)
    case (1 now r)
    have "\<not> list_ex (windows_overlap w) (taken_windows claimed (identity_name chosen r))" if "chosen \<noteq> None"
      using that \<open>\<forall>i scores. chosen = Some (i, scores) \<longrightarrow> _\<close> by (auto simp: identity_name_def)
    then show ?case
      unfolding Let_def by (intro yields_then yields_ret) auto
  qed
qed

lemma ingest_loop_apart: "yields (\<lambda>_. True) (apart claimed) (ingest_loop sv ts ctx fr base_time tracks claimed)"
proof (induction sv ts ctx fr base_time tracks claimed rule: ingest_loop.induct)
  case (1 sv ts ctx fr base_time claimed)
  show ?case by (simp add: yields_def)
next
  case (2 sv ts ctx fr base_time track tracks claimed)
  show ?case
  proof (cases "case quality_gate ts track of Some reason \<Rightarrow> Some reason
      | None \<Rightarrow> if track_embeddings track = [] then Some ''missing_embedding'' else None")
    case None
    show ?thesis
      unfolding ingest_loop.simps Let_def None option.case
    proof (rule yields_use [OF ingest_one_claims], clarify, goal_cases)
      case (1 r claimed' sg)
      show ?case
        by (rule yields_use [OF 2(1) [OF refl refl refl None]], rule yields_ret) (use 1 in auto)
    qed
  next
    case (Some reason)
    show ?thesis
      unfolding ingest_loop.simps Let_def Some option.case
      by (rule yields_use [OF 2(2) [OF refl refl refl Some]], rule yields_ret) (simp add: skipped_def)
  qed
qed

text \<open>Two tracks of a run that were seen at the same time, the second one re-identified as the first.\<close>

definition double :: "trajectory_ingest_result \<Rightarrow> trajectory_ingest_result \<Rightarrow> bool" where
  "double r1 r2 \<longleftrightarrow> \<not> tir_created_identity r2 \<and> (\<exists>s1 s2. tir_segment r1 = Some s1 \<and> tir_segment r2 = Some s2 \<and>
     seg_identity_id s1 = seg_identity_id s2 \<and> windows_overlap (seg_window s1) (seg_window s2))"

lemma windows_overlap_sym: "windows_overlap a b = windows_overlap b a"
  by (auto simp: windows_overlap_def)

lemma taken_claim: "taken_windows (claim_window i w claimed) j = taken_windows claimed j @ (if j = i then [w] else [])"
  by (simp add: taken_windows_def claim_window_def)

lemma apart_claimed:
  assumes "apart claimed rs" "r \<in> set rs" "tir_segment r = Some sg" "\<not> tir_created_identity r"
  shows "\<not> list_ex (windows_overlap (seg_window sg)) (taken_windows claimed (seg_identity_id sg))"
  using assms
proof (induction claimed rs rule: apart.induct)
  case (2 claimed x rs)
  show ?case
  proof (cases "r = x")
    case False
    with 2 show ?thesis by (auto split: option.splits simp: taken_claim)
  qed (use 2 in auto)
qed simp

lemma apart_pairs: "apart claimed rs \<Longrightarrow> sorted_wrt (\<lambda>r1 r2. \<not> double r1 r2) rs"
proof (induction claimed rs rule: apart.induct)
  case (2 claimed r rs)
  have "\<not> double r x" if x: "x \<in> set rs" for x
  proof
    assume "double r x"
    then obtain s1 s2 where d: "tir_segment r = Some s1" "tir_segment x = Some s2" "\<not> tir_created_identity x"
        "seg_identity_id s1 = seg_identity_id s2" "windows_overlap (seg_window s1) (seg_window s2)" by (auto simp: double_def)
    with 2(3) have "apart (claim_window (seg_identity_id s1) (seg_window s1) claimed) rs" by simp
    from apart_claimed [OF this x d(2,3)] d(4,5) show False by (simp add: taken_claim windows_overlap_sym)
  qed
  moreover have "sorted_wrt (\<lambda>r1 r2. \<not> double r1 r2) rs" using 2 by (auto split: option.splits)
  ultimately show ?case by simp
qed simp

text \<open>
  C21: one person is never in two places. Among the tracks ingested from a run, none is re-identified
  as the identity that an earlier, simultaneous track of the run was assigned to, whatever happens
  to the repository and the feature store during the ingestion.
\<close>

theorem simultaneous_tracks_apart:
  assumes "ingest_run_tracks sv ts ctx run_id tracks source_id asset_id camera_id started b = (Inr rs, b')"
  shows "sorted_wrt (\<lambda>r1 r2. \<not> double r1 r2) rs"
proof -
  have "yields (\<lambda>_. True) (apart []) (ingest_run_tracks sv ts ctx run_id tracks source_id asset_id camera_id started)"
    unfolding ingest_run_tracks_def by (intro yields_then ingest_loop_apart)
  from yieldsD [OF this _ assms] show ?thesis by (simp add: apart_pairs)
qed

theorem simultaneous_tracks_apart_witness:
  "\<exists>rs. fst (ingest_run_tracks sample_service sample_trajectory_settings sample_principal ''r1''
       [JObj [(''frame_count'', JInt 1)], sample_track ''2'' 0 1000] [] [] [] (Some 0) (sample_tracking trajectory_init)) = Inr rs \<and>
     map tir_created_identity rs = [False, True] \<and> sorted_wrt (\<lambda>r1 r2. \<not> double r1 r2) rs"
proof -
  let ?run = "ingest_run_tracks sample_service sample_trajectory_settings sample_principal ''r1''
       [JObj [(''frame_count'', JInt 1)], sample_track ''2'' 0 1000] [] [] [] (Some 0) (sample_tracking trajectory_init)"
  have "map_sum (\<lambda>_. ()) (map tir_created_identity) (fst ?run) = Inr [False, True]" by code_simp
  then obtain rs where rs: "fst ?run = Inr rs" "map tir_created_identity rs = [False, True]" by (cases "fst ?run") auto
  then have run: "?run = (Inr rs, snd ?run)" by (simp add: prod_eq_iff)
  from rs simultaneous_tracks_apart [OF run] show ?thesis by (intro exI [of _ rs] conjI)
qed

end
