(* ===== verification/Trajectory_Merges.thy ===== *)
theory Trajectory_Merges
  imports Trajectory_Correct
begin

text \<open>
  What reviewers do to trajectories: merging and splitting identities refine relabellings of an
  abstract assignment of segments to identities. Merging reads at most 1000 segments of a source, so
  it is a relabelling up to that size only, and loses segments beyond.
\<close>

section \<open>The assignment of segments to identities\<close>

definition assignment :: "string \<Rightarrow> string \<Rightarrow> trj \<Rightarrow> string \<Rightarrow> string option" where
  "assignment t p s sid = map_option seg_identity_id (get_segment t p sid s)"

definition owned :: "string \<Rightarrow> string \<Rightarrow> string \<Rightarrow> trj \<Rightarrow> string set" where
  "owned t p i s = {sid. assignment t p s sid = Some i}"

text \<open>The abstract operations.\<close>

definition merge_spec :: "string \<Rightarrow> string set \<Rightarrow> (string \<Rightarrow> string option) \<Rightarrow> string \<Rightarrow> string option" where
  "merge_spec target sources a sid = map_option (\<lambda>i. if i \<in> sources then target else i) (a sid)"

definition split_spec :: "string \<Rightarrow> string set \<Rightarrow> (string \<Rightarrow> string option) \<Rightarrow> string \<Rightarrow> string option" where
  "split_spec new_id wanted a sid = (if sid \<in> wanted then Some new_id else a sid)"

section \<open>Reading the segments of an identity\<close>

lemma in_window_open [simp]: "in_window v None None"
  by (simp add: in_window_def)

lemma segments_of_rows:
  assumes "keyed segment_key (trj_segments s)"
  shows "sg \<in> set (segments_of t p (Some i) None None None s) \<longleftrightarrow>
      get_segment t p (seg_segment_id sg) s = Some sg \<and> seg_identity_id sg = i \<and> seg_tenant_id sg = t \<and> seg_project_id sg = p"
    and "distinct (map seg_segment_id (segments_of t p (Some i) None None None s))"
proof -
  let ?d = "trj_segments s"
  have ok: "dict_ok ?d" and keys: "(k, v) \<in> set ?d \<Longrightarrow> k = segment_key v" for k v
    using assms by (auto simp: keyed_def)
  show "sg \<in> set (segments_of t p (Some i) None None None s) \<longleftrightarrow>
      get_segment t p (seg_segment_id sg) s = Some sg \<and> seg_identity_id sg = i \<and> seg_tenant_id sg = t \<and> seg_project_id sg = p"
  proof -
    have "sg \<in> set (segments_of t p (Some i) None None None s) \<longleftrightarrow>
        (\<exists>k. (k, sg) \<in> set ?d \<and> in_scope t p k) \<and> seg_identity_id sg = i"
      by (force simp: segments_of_def scoped_rows_def)
    also have "(\<exists>k. (k, sg) \<in> set ?d \<and> in_scope t p k) \<longleftrightarrow> (segment_key sg, sg) \<in> set ?d \<and> in_scope t p (segment_key sg)"
      using keys by blast
    also have "\<dots> \<longleftrightarrow> get_segment t p (seg_segment_id sg) s = Some sg \<and> seg_tenant_id sg = t \<and> seg_project_id sg = p"
      using dict_get_iff_mem [OF ok, of "segment_key sg" sg]
      by (auto simp: get_segment_def in_scope_def segment_key_def store_key_def)
    finally show ?thesis by blast
  qed
  have "distinct (map (\<lambda>kv. seg_segment_id (snd kv)) (filter (\<lambda>kv. in_scope t p (fst kv)) ?d))"
  proof -
    have "seg_segment_id (snd kv) = snd (snd (fst kv)) \<and> fst kv = (t, p, snd (snd (fst kv)))"
      if "kv \<in> set (filter (\<lambda>kv. in_scope t p (fst kv)) ?d)" for kv
      using that keys [of "fst kv" "snd kv"] by (auto simp: in_scope_def segment_key_def store_key_def)
    then have "inj_on (\<lambda>kv. seg_segment_id (snd kv)) (set (filter (\<lambda>kv. in_scope t p (fst kv)) ?d))"
      using ok by (intro inj_onI) (metis (no_types, lifting) eq_key_imp_eq_value filter_is_subset prod.collapse subsetD)
    moreover have "distinct (filter (\<lambda>kv. in_scope t p (fst kv)) ?d)"
      using ok by (simp add: distinct_map)
    ultimately show ?thesis by (simp add: distinct_map)
  qed
  then have "distinct (map seg_segment_id (filter (\<lambda>r. seg_identity_id r = i) (scoped_rows t p ?d)))"
    unfolding scoped_rows_def filter_map map_map o_def using distinct_map_filter by blast
  moreover have "mset (map seg_segment_id (segments_of t p (Some i) None None None s)) =
      mset (map seg_segment_id (filter (\<lambda>r. seg_identity_id r = i) (scoped_rows t p ?d)))"
    by (simp add: segments_of_def eq_commute)
  ultimately show "distinct (map seg_segment_id (segments_of t p (Some i) None None None s))"
    using mset_eq_imp_distinct_iff by blast
qed

lemma segment_found:
  assumes "keyed segment_key (trj_segments s)" "get_segment t p sid s = Some sg"
  shows "seg_segment_id sg = sid" "seg_tenant_id sg = t" "seg_project_id sg = p"
  using keyed_get [OF assms(1) assms(2) [unfolded get_segment_def]] by (simp_all add: segment_key_def)

lemma owned_rows:
  assumes "keyed segment_key (trj_segments s)"
  shows "owned t p i s = seg_segment_id ` set (segments_of t p (Some i) None None None s)"
proof -
  have "sid \<in> seg_segment_id ` set (segments_of t p (Some i) None None None s)"
    if "get_segment t p sid s = Some sg" "seg_identity_id sg = i" for sid sg
    using that segment_found [OF assms that(1)] by (intro image_eqI [of _ _ sg]) (simp_all add: segments_of_rows [OF assms])
  then show ?thesis
    by (auto simp: owned_def assignment_def segments_of_rows [OF assms])
qed

text \<open>A correct answer for the segments of \<open>i\<close>: all of them up to 1000.\<close>

definition segments_read :: "principal_context \<Rightarrow> string \<Rightarrow> trj \<Rightarrow> trajectory_segment list \<Rightarrow> bool" where
  "segments_read ctx i s sgs \<longleftrightarrow> distinct (map seg_segment_id sgs) \<and>
     (\<forall>sg \<in> set sgs. seg_tenant_id sg = ctx_tenant_id ctx \<and> seg_project_id sg = ctx_project_id ctx) \<and>
     seg_segment_id ` set sgs \<subseteq> owned (ctx_tenant_id ctx) (ctx_project_id ctx) i s \<and>
     length sgs = min 1000 (card (owned (ctx_tenant_id ctx) (ctx_project_id ctx) i s))"

lemma own_segments_outcome:
  assumes "keyed segment_key (trj_segments s)"
  shows "outcome (tracked s) (own_segments ctx i) (\<lambda>sgs b. segments_read ctx i s sgs \<and> tracked s b) (\<lambda>_ _. True)"
proof -
  let ?rows = "segments_of (ctx_tenant_id ctx) (ctx_project_id ctx) (Some i) None None None s"
  have page: "fst (list_segments (ctx_tenant_id ctx) (ctx_project_id ctx) (Some i) None None None 0 1000 s) = take 1000 ?rows"
    using py_slice_nat [of ?rows 0 1000] by (simp add: list_segments_def Let_def)
  have "card (owned (ctx_tenant_id ctx) (ctx_project_id ctx) i s) = length ?rows"
    using distinct_card [OF segments_of_rows(2) [OF assms]] by (simp add: owned_rows [OF assms])
  moreover have "distinct (map seg_segment_id (take 1000 ?rows))"
    using segments_of_rows(2) [OF assms] by (simp add: take_map [symmetric])
  moreover have "\<forall>sg \<in> set (take 1000 ?rows). seg_tenant_id sg = ctx_tenant_id ctx \<and> seg_project_id sg = ctx_project_id ctx"
    using segments_of_rows(1) [OF assms] set_take_subset by fastforce
  moreover have "seg_segment_id ` set (take 1000 ?rows) \<subseteq> owned (ctx_tenant_id ctx) (ctx_project_id ctx) i s"
    using set_take_subset by (auto simp: owned_rows [OF assms] dest: in_set_takeD)
  ultimately have good: "segments_read ctx i s (take 1000 ?rows)" by (auto simp: segments_read_def)
  show ?thesis
    unfolding own_segments_def
  proof (rule outcome_andthen [OF tracked_trj_read], rule outcome_conj, goal_cases)
    case (1 x)
    with page have "fst x = take 1000 ?rows" by simp
    with good show ?case by (cases x) (simp add: outcome_ret)
  qed
qed

section \<open>Moving segments\<close>

text \<open>\<open>s'\<close> is \<open>s\<close> with the segments \<open>M\<close> moved to \<open>target\<close>; nothing is said of methods and templates.\<close>

definition moved :: "string \<Rightarrow> string \<Rightarrow> string \<Rightarrow> string set \<Rightarrow> trj \<Rightarrow> trj \<Rightarrow> bool" where
  "moved t p target M s s' \<longleftrightarrow> keyed segment_key (trj_segments s') \<and> trj_identities s' = trj_identities s \<and>
     assignment t p s' = split_spec target M (assignment t p s)"

lemma move_features_tracked:
  "outcome (tracked s) (move_features ctx target fids acc) (\<lambda>_. tracked s) (\<lambda>_ _. True)"
proof (induction ctx target fids acc rule: move_features.induct)
  case (1 ctx target acc)
  show ?case by (simp add: outcome_def)
next
  case (2 ctx target modality fid rest acc)
  show ?case
    unfolding move_features.simps
  proof (rule outcome_andthen [OF tracked_feat(2)], goal_cases)
    case (1 found)
    show ?case
      using 2 by (cases found) (auto intro!: outcome_andthen [OF tracked_calls(2)] outcome_andthen [OF tracked_feat(1)])
  qed
qed

lemma put_segment_moved:
  assumes "keyed segment_key (trj_segments s)" "seg_tenant_id sg = t" "seg_project_id sg = p"
  shows "moved t p (seg_identity_id sg) {seg_segment_id sg} s (snd (put_segment sg s))"
  using assms segments.put_keeps_keyed [OF assms(1), of sg]
  by (auto simp: moved_def assignment_def split_spec_def segments.get_put segment_key_def fun_eq_iff)
     (simp add: put_segment_def)

lemma moved_trans:
  assumes "moved t p target M s s'" "moved t p target N s' s''"
  shows "moved t p target (M \<union> N) s s''"
  using assms by (auto simp: moved_def split_spec_def fun_eq_iff)

lemma moved_insert: "moved t p target {x} s s' \<Longrightarrow> moved t p target N s' s'' \<Longrightarrow> moved t p target (insert x N) s s''"
  using moved_trans [of t p target "{x}"] by simp

lemma rehome_outcome:
  assumes "keyed segment_key (trj_segments s)" "seg_tenant_id sg = t" "seg_project_id sg = p"
  shows "outcome (tracked s) (rehome_segment ctx target sg)
    (\<lambda>x b. seg_segment_id x = seg_segment_id sg \<and> (\<exists>s'. moved t p target {seg_segment_id sg} s s' \<and> tracked s' b)) (\<lambda>_ _. True)"
  unfolding rehome_segment_def Let_def
proof (rule outcome_andthen [OF move_features_tracked], rule outcome_andthen [OF tracked_trj_call], goal_cases)
  case (1 fids u)
  let ?sg = "sg\<lparr>seg_identity_id := target, seg_match_method := MANUAL, seg_feature_ids := fids\<rparr>"
  have "moved t p target {seg_segment_id sg} s (snd (put_segment ?sg s))"
    using put_segment_moved [OF assms(1), of ?sg] assms(2,3) by simp
  then show ?case by (auto intro!: outcome_conj outcome_ret)
qed

lemma rehome_all_outcome:
  assumes "keyed segment_key (trj_segments s)" "\<forall>sg \<in> set sgs. seg_tenant_id sg = t \<and> seg_project_id sg = p"
  shows "outcome (tracked s) (map_py (rehome_segment ctx target) sgs)
    (\<lambda>xs b. map seg_segment_id xs = map seg_segment_id sgs \<and>
      (\<exists>s'. moved t p target (seg_segment_id ` set sgs) s s' \<and> tracked s' b)) (\<lambda>_ _. True)"
  using assms
proof (induction sgs arbitrary: s)
  case Nil
  have "moved t p target {} s s" using Nil(1) by (auto simp: moved_def split_spec_def)
  then show ?case by (auto simp: outcome_def)
next
  case (Cons sg sgs)
  have scope: "seg_tenant_id sg = t" "seg_project_id sg = p" using Cons.prems(2) by auto
  show ?case
    unfolding map_py.simps
  proof (rule outcome_andthen [OF rehome_outcome [OF Cons.prems(1) scope]], rule outcome_conj, rule outcome_ex, goal_cases)
    case (1 x s1)
    note x = 1
    show ?case
    proof (rule outcome_conj, goal_cases)
      case 1
      then have "keyed segment_key (trj_segments s1)" by (simp add: moved_def)
      note ih = Cons.IH [OF this]
      show ?case
      proof (rule outcome_andthen [OF ih])
        show "\<forall>sg \<in> set sgs. seg_tenant_id sg = t \<and> seg_project_id sg = p" using Cons.prems(2) by simp
      qed (rule outcome_ret, use x in \<open>auto dest: moved_insert [OF 1]\<close>)
    qed
  qed
qed

section \<open>Merging\<close>

text \<open>
  The state after the sources \<open>I\<close> were merged into \<open>target\<close>: of each source at most 1000 segments
  have moved, and its identity is gone.
\<close>

definition merged :: "string \<Rightarrow> string \<Rightarrow> string \<Rightarrow> string set \<Rightarrow> trj \<Rightarrow> trj \<Rightarrow> bool" where
  "merged t p target I s s' \<longleftrightarrow> keyed segment_key (trj_segments s') \<and>
     (\<exists>M. assignment t p s' = split_spec target M (assignment t p s) \<and> (\<forall>sid \<in> M. \<exists>i \<in> I. assignment t p s sid = Some i) \<and>
        (\<forall>i \<in> I. card {sid \<in> M. assignment t p s sid = Some i} = min 1000 (card (owned t p i s)))) \<and>
     (\<forall>j. get_lti t p j s' = (if j \<in> I then None else get_lti t p j s)) \<and>
     (keyed lti_key (trj_identities s) \<longrightarrow> keyed lti_key (trj_identities s'))"

lemma finite_owned:
  assumes "keyed segment_key (trj_segments s)"
  shows "finite (owned t p i s)"
  by (simp add: owned_rows [OF assms])

lemma merged_none: "keyed segment_key (trj_segments s) \<Longrightarrow> merged t p target {} s s"
  by (auto simp: merged_def split_spec_def intro: exI [of _ "{}"])

lemma merged_one:
  assumes "moved t p target M s s1" "M \<subseteq> owned t p i s" "card M = min 1000 (card (owned t p i s))"
  shows "merged t p target {i} s (snd (delete_lti t p i s1))"
proof -
  have "{sid \<in> M. assignment t p s sid = Some i} = M" using assms(2) by (auto simp: owned_def)
  with assms show ?thesis
    by (auto simp: merged_def moved_def delete_lti_def Let_def assignment_def [abs_def] get_segment_def get_lti_def owned_def
        intro!: exI [of _ M])
qed

lemma merged_insert:
  assumes "merged t p target {i} s s1" "merged t p target I s1 s2" "i \<notin> I" "target \<notin> insert i I"
  shows "merged t p target (insert i I) s s2"
proof -
  from assms(1) obtain M where M: "assignment t p s1 = split_spec target M (assignment t p s)"
      "\<forall>sid \<in> M. assignment t p s sid = Some i" "card {sid \<in> M. assignment t p s sid = Some i} = min 1000 (card (owned t p i s))"
    by (auto simp: merged_def)
  from assms(2) obtain N where N: "assignment t p s2 = split_spec target N (assignment t p s1)"
      "\<forall>sid \<in> N. \<exists>j \<in> I. assignment t p s1 sid = Some j"
      "\<forall>j \<in> I. card {sid \<in> N. assignment t p s1 sid = Some j} = min 1000 (card (owned t p j s1))"
    by (auto simp: merged_def)
  have same: "assignment t p s1 sid = Some j \<longleftrightarrow> assignment t p s sid = Some j" if "j \<in> I" for sid j
    using that assms(3,4) M(1,2) by (auto simp: split_spec_def)
  have apart: "sid \<notin> M" if "sid \<in> N" for sid
    using that N(2) same M(2) assms(3) by (metis option.inject)
  have own: "owned t p j s1 = owned t p j s" if "j \<in> I" for j using same [OF that] by (auto simp: owned_def)
  have "{sid \<in> M \<union> N. assignment t p s sid = Some i} = {sid \<in> M. assignment t p s sid = Some i}"
    using N(2) same assms(3) by (metis (lifting) UnE UnI1 option.inject)
  moreover have "{sid \<in> M \<union> N. assignment t p s sid = Some j} = {sid \<in> N. assignment t p s1 sid = Some j}" if "j \<in> I" for j
    using that M(2) same [OF that] assms(3) by fastforce
  ultimately have cards: "\<forall>j \<in> insert i I. card {sid \<in> M \<union> N. assignment t p s sid = Some j} = min 1000 (card (owned t p j s))"
    using M(3) N(3) own by auto
  have "assignment t p s2 = split_spec target (M \<union> N) (assignment t p s)"
    using M(1) N(1) by (auto simp: split_spec_def fun_eq_iff)
  moreover have "\<forall>sid \<in> M \<union> N. \<exists>j \<in> insert i I. assignment t p s sid = Some j" using M(2) N(2) same by fastforce
  ultimately show ?thesis
    using assms(1,2) cards unfolding merged_def by (intro conjI exI [of _ "M \<union> N"]) auto
qed

lemma get_identity_outcome:
  "outcome (tracked s) (ts_get_identity sv ctx i)
     (\<lambda>x b. get_lti (ctx_tenant_id ctx) (ctx_project_id ctx) i s = Some x \<and> tracked s b) (\<lambda>_ _. True)"
  unfolding ts_get_identity_def
proof (rule outcome_andthen [OF tracked_calls(3)], rule outcome_andthen [OF tracked_trj_read], rule outcome_conj, goal_cases)
  case (1 u found)
  show ?case
  proof (cases found)
    case (Some r)
    show ?thesis unfolding Some option.case by (rule outcome_ret) (use 1 Some in auto)
  qed (simp add: outcome_throw)
qed

lemma merge_sources_outcome:
  assumes "keyed segment_key (trj_segments s)" "distinct is" "lti_identity_id target \<notin> set is"
  shows "outcome (tracked s) (merge_sources sv ctx target is)
    (\<lambda>r b. lti_key r = lti_key target \<and>
      (\<exists>s'. merged (ctx_tenant_id ctx) (ctx_project_id ctx) (lti_identity_id target) (set is) s s' \<and> tracked s' b)) (\<lambda>_ _. True)"
  using assms
proof (induction "is" arbitrary: s target)
  case Nil
  then show ?case by (auto simp: outcome_def intro: merged_none)
next
  case (Cons i "is")
  let ?t = "ctx_tenant_id ctx" and ?p = "ctx_project_id ctx"
  show ?case
    unfolding merge_sources.simps
  proof (rule outcome_andthen [OF get_identity_outcome], rule outcome_conj,
      rule outcome_andthen [OF own_segments_outcome [OF Cons.prems(1)]], rule outcome_conj, goal_cases)
    case (1 source sgs)
    let ?M = "seg_segment_id ` set sgs"
    have sgs: "\<forall>sg \<in> set sgs. seg_tenant_id sg = ?t \<and> seg_project_id sg = ?p" "?M \<subseteq> owned ?t ?p i s"
        "card ?M = min 1000 (card (owned ?t ?p i s))"
      using 1(2) distinct_card [of "map seg_segment_id sgs"] by (auto simp: segments_read_def)
    show ?case
    proof (rule outcome_andthen [OF rehome_all_outcome [OF Cons.prems(1) sgs(1)]], rule outcome_conj, rule outcome_ex, rule outcome_conj,
        rule outcome_andthen [OF tracked_feat(1)], rule outcome_andthen [OF tracked_trj_call], rule outcome_conj, goal_cases)
      case (1 xs s1 u removed)
      let ?s2 = "snd (delete_lti ?t ?p i s1)"
      have one: "merged ?t ?p (lti_identity_id target) {i} s ?s2" by (rule merged_one [OF 1(2) sgs(2,3)])
      then have keyed: "keyed segment_key (trj_segments ?s2)" by (simp add: merged_def)
      show ?case
        by (rule outcome_weaken [OF Cons.IH [OF keyed]])
           (use Cons.prems(2,3) merged_insert [OF one] in \<open>auto simp: lti_key_def\<close>)
    qed
  qed
qed

lemma recomputed_key [simp]: "lti_key (recomputed r sgs now) = lti_key r"
  by (simp add: recomputed_def lti_key_def Let_def)

lemma recomputed_count [simp]: "lti_segment_count (recomputed r sgs now) = int (length sgs)"
  by (simp add: recomputed_def Let_def)

lemma put_lti_segments [simp]:
  "trj_segments (snd (put_lti r s)) = trj_segments s" "assignment t p (snd (put_lti r s)) = assignment t p s"
  by (simp_all add: put_lti_def assignment_def [abs_def] get_segment_def)

lemma put_recomputed_outcome:
  "outcome (tracked s) (put_recomputed r sgs)
     (\<lambda>x b. (lti_key x = lti_key r \<and> lti_segment_count x = int (length sgs)) \<and> tracked (snd (put_lti x s)) b) (\<lambda>_ _. True)"
  unfolding put_recomputed_def Let_def
  by (rule outcome_andthen [OF tracked_calls(1)], rule outcome_andthen [OF tracked_trj_call], rule outcome_conj) (auto intro: outcome_ret)

lemma set_first_occurrences [simp]: "set (first_occurrences xs) = set xs" "distinct (first_occurrences xs)"
  by (simp_all add: first_occurrences_def)

lemma merge_outcome:
  assumes "keyed segment_key (trj_segments s)" "keyed lti_key (trj_identities s)"
  shows "outcome (tracked s) (merge_identities sv ctx target_id source_ids)
    (\<lambda>r b. \<exists>s'. merged (ctx_tenant_id ctx) (ctx_project_id ctx) target_id (set source_ids - {target_id}) s s' \<and>
       lti_key r = store_key (ctx_tenant_id ctx) (ctx_project_id ctx) target_id \<and>
       lti_segment_count r = int (min 1000 (card (owned (ctx_tenant_id ctx) (ctx_project_id ctx) target_id s'))) \<and>
       tracked (snd (put_lti r s')) b) (\<lambda>_ _. True)"
  unfolding merge_identities_def
proof (rule outcome_andthen [OF tracked_calls(3)], rule outcome_andthen [OF get_identity_outcome], rule outcome_conj, goal_cases)
  case (1 u target)
  let ?t = "ctx_tenant_id ctx" and ?p = "ctx_project_id ctx"
  from 1 have target: "lti_key target = store_key ?t ?p target_id" using keyed_get [OF assms(2)] by (simp add: get_lti_def)
  then have name: "lti_identity_id target = target_id" by (simp add: lti_key_def)
  let ?sources = "filter (\<lambda>i. i \<noteq> target_id) (first_occurrences source_ids)"
  have sources: "set ?sources = set source_ids - {target_id}" "distinct ?sources" "lti_identity_id target \<notin> set ?sources"
    by (auto simp: name)
  show ?case
  proof (cases "?sources = []")
    case False
    show ?thesis
      unfolding Let_def name if_not_P [OF False]
    proof (rule outcome_andthen [OF merge_sources_outcome [OF assms(1) sources(2,3)]], rule outcome_conj, rule outcome_ex,
        rule outcome_conj, goal_cases)
      case (1 target' s')
      then have m: "merged ?t ?p target_id (set source_ids - {target_id}) s s'" unfolding name sources(1) by blast
      then have keyed: "keyed segment_key (trj_segments s')" by (simp add: merged_def)
      have name': "lti_identity_id target' = target_id" using 1(1) name by (simp add: lti_key_def)
      show ?case
        unfolding name'
      proof (rule outcome_andthen [OF own_segments_outcome [OF keyed]], rule outcome_conj,
          rule outcome_andthen [OF put_recomputed_outcome], rule outcome_conj,
          rule outcome_andthen [OF tracked_calls(4)], rule outcome_ret, goal_cases)
        case (1 sgs r u b)
        then show ?case using m \<open>lti_key target' = lti_key target\<close> target by (auto simp: segments_read_def)
      qed
    qed
  qed (simp add: Let_def name outcome_throw)
qed



text \<open>
  Merging a large identity loses segments. When a source has more than 1000 segments, some of
  them keep belonging to it although its identity no longer exists after the merge.
\<close>

lemma merge_orphans_segments:
  assumes "alone b" and "s = tjb_trajectories (bs_repo b)" and "t = ctx_tenant_id ctx" and "p = ctx_project_id ctx"
    and "keyed segment_key (trj_segments s)" and "keyed lti_key (trj_identities s)"
    and "i \<in> set source_ids" and "i \<noteq> target_id" and "1000 < card (owned t p i s)"
    and "merge_identities sv ctx target_id source_ids b = (Inr r, b')" and "s' = tjb_trajectories (bs_repo b')"
  shows "get_lti t p i s' = None \<and> (\<exists>sid. assignment t p s' sid = Some i)"
proof -
  let ?I = "set source_ids - {target_id}"
  have "tracked s b" using assms(1,2) by (simp add: tracked_def)
  with merge_outcome [OF assms(5,6)] assms(10) obtain s1 where s1: "merged t p target_id ?I s s1"
      "lti_key r = store_key t p target_id" "tracked (snd (put_lti r s1)) b'"
    unfolding outcome_def assms(3,4) by blast
  then have s': "s' = snd (put_lti r s1)" by (simp add: tracked_def assms(11))
  have I: "i \<in> ?I" using assms(7,8) by simp
  from s1(1) I obtain M where M: "assignment t p s1 = split_spec target_id M (assignment t p s)"
      "card {sid \<in> M. assignment t p s sid = Some i} = min 1000 (card (owned t p i s))"
    by (auto simp: merged_def)
  have "\<not> owned t p i s \<subseteq> M"
  proof
    assume "owned t p i s \<subseteq> M"
    then have "{sid \<in> M. assignment t p s sid = Some i} = owned t p i s" by (auto simp: owned_def)
    with M(2) assms(9) show False by simp
  qed
  then obtain sid where "assignment t p s sid = Some i" "sid \<notin> M" by (auto simp: owned_def)
  then have "assignment t p s' sid = Some i" by (simp add: s' M(1) split_spec_def)
  moreover have "get_lti t p i s' = None"
    using ltis.get_put [of t p i r s1] s1(1,2) I assms(8) by (auto simp: s' merged_def)
  ultimately show ?thesis by blast
qed

section \<open>Splitting\<close>

lemma filter_ids_all:
  assumes "distinct (map f xs)" "length (filter (\<lambda>x. f x \<in> set ws) xs) = length (remdups ws)"
  shows "f ` set (filter (\<lambda>x. f x \<in> set ws) xs) = set ws"
proof -
  have "card (f ` set (filter (\<lambda>x. f x \<in> set ws) xs)) = length (filter (\<lambda>x. f x \<in> set ws) xs)"
    using distinct_card [OF distinct_map_filter [OF assms(1), of "\<lambda>x. f x \<in> set ws"]] by simp
  also have "\<dots> = card (set ws)" using assms(2) by (simp add: length_remdups_card_conv)
  finally show ?thesis by (intro card_subset_eq) auto
qed

lemma split_off_name [simp]: "lti_key (split_off ctx r moving i n now) = store_key (ctx_tenant_id ctx) (ctx_project_id ctx) i"
  by (simp add: split_off_def lti_key_def)

definition split_done :: "string \<Rightarrow> string \<Rightarrow> string \<Rightarrow> string set \<Rightarrow> trj \<Rightarrow> long_term_identity \<Rightarrow> trj \<Rightarrow> bool" where
  "split_done t p i wanted s r s' \<longleftrightarrow> wanted \<subseteq> owned t p i s \<and> get_lti t p (lti_identity_id r) s' = Some r \<and>
     assignment t p s' = split_spec (lti_identity_id r) wanted (assignment t p s)"

lemma split_done_last:
  assumes "moved t p new_id wanted s s1" "wanted \<subseteq> owned t p i s" "keyed lti_key (trj_identities s)"
    and "lti_key x = store_key t p new_id" "s2 = snd (put_lti y (snd (put_lti x s1)))" "get_lti t p new_id s2 = Some r"
  shows "split_done t p i wanted s r s2"
proof -
  have "keyed lti_key (trj_identities s2)"
    using assms(1,3) unfolding assms(5) by (intro ltis.put_keeps_keyed) (simp add: moved_def)
  from keyed_get [OF this assms(6) [unfolded get_lti_def]] have "lti_identity_id r = new_id" by (simp add: lti_key_def)
  with assms show ?thesis by (simp add: split_done_def moved_def)
qed

lemma split_outcome:
  assumes "keyed segment_key (trj_segments s)" "keyed lti_key (trj_identities s)"
  shows "outcome (tracked s) (split_identity sv ctx i segment_ids display_name)
    (\<lambda>r b. \<exists>s'. split_done (ctx_tenant_id ctx) (ctx_project_id ctx) i (set segment_ids) s r s' \<and> tracked s' b) (\<lambda>_ _. True)"
  unfolding split_identity_def
proof (rule outcome_andthen [OF tracked_calls(3)], rule outcome_andthen [OF get_identity_outcome], rule outcome_conj,
    rule outcome_andthen [OF own_segments_outcome [OF assms(1)]], rule outcome_conj, goal_cases)
  case (1 u r sgs)
  let ?t = "ctx_tenant_id ctx" and ?p = "ctx_project_id ctx"
  let ?moving = "filter (\<lambda>sg. seg_segment_id sg \<in> set (remdups segment_ids)) sgs"
  show ?case
  proof (cases "length ?moving \<noteq> length (remdups segment_ids) \<or> length ?moving = length sgs")
    case False
    then have ids: "seg_segment_id ` set ?moving = set segment_ids"
      using filter_ids_all [of seg_segment_id sgs segment_ids] 1(2) by (simp add: segments_read_def)
    have scope: "\<forall>sg \<in> set ?moving. seg_tenant_id sg = ?t \<and> seg_project_id sg = ?p"
      and "seg_segment_id ` set ?moving \<subseteq> owned ?t ?p i s"
      using 1(2) by (auto simp: segments_read_def)
    then have own: "set segment_ids \<subseteq> owned ?t ?p i s" by (simp only: ids)
    from False have plain: "\<not> length ?moving \<noteq> length (remdups segment_ids)" "length ?moving \<noteq> length sgs" by simp_all
    show ?thesis
      unfolding Let_def if_not_P [OF plain(1)] if_not_P [OF plain(2)]
    proof (rule outcome_andthen [OF tracked_calls(1)], rule outcome_andthen [OF tracked_calls(2)],
        rule outcome_andthen [OF rehome_all_outcome [OF assms(1) scope]], rule outcome_conj, rule outcome_ex, rule outcome_conj,
        rule outcome_andthen [OF put_recomputed_outcome], rule outcome_conj,
        rule outcome_andthen [OF put_recomputed_outcome], rule outcome_conj,
        rule outcome_andthen [OF tracked_calls(4)], goal_cases)
      case (1 now fresh rehomed s1 x y v)
      have moved: "moved ?t ?p (''lti_'' @ fresh) (set segment_ids) s s1" using 1(2) by (simp only: ids)
      have key: "lti_key x = store_key ?t ?p (''lti_'' @ fresh)" using 1(3) by simp
      show ?case
        by (rule outcome_weaken [OF get_identity_outcome]) (blast dest: split_done_last [OF moved own assms(2) key refl])+
    qed
  qed (auto simp: Let_def outcome_throw)
qed

text \<open>
  C24: splitting relabels segments. A split of an identity that returns, with no failures and nobody
  else at work, assigns exactly the named segments to the returned identity, all of them belonged to
  the split identity, and no other segment changes hands.
\<close>

theorem split_refines_relabelling:
  assumes "alone b" and "s = tjb_trajectories (bs_repo b)" and "t = ctx_tenant_id ctx" and "p = ctx_project_id ctx"
    and "keyed segment_key (trj_segments s)" and "keyed lti_key (trj_identities s)"
    and "split_identity sv ctx i segment_ids display_name b = (Inr r, b')" and "s' = tjb_trajectories (bs_repo b')"
  shows "assignment t p s' = split_spec (lti_identity_id r) (set segment_ids) (assignment t p s) \<and>
    set segment_ids \<subseteq> owned t p i s \<and> get_lti t p (lti_identity_id r) s' = Some r"
proof -
  have "tracked s b" using assms(1,2) by (simp add: tracked_def)
  with split_outcome [OF assms(5,6)] assms(7) obtain s1 where s1: "split_done t p i (set segment_ids) s r s1" "tracked s1 b'"
    unfolding outcome_def assms(3,4) by blast
  with assms(8) show ?thesis by (auto simp: tracked_def split_done_def)
qed

theorem split_refines_relabelling_witness:
  "\<exists>r b'. split_identity sample_service sample_principal ''i2'' [''s2''] [] (sample_tracking sample_trajectories) = (Inr r, b') \<and>
     assignment ''t'' ''p'' (tjb_trajectories (bs_repo b')) =
       split_spec (lti_identity_id r) {''s2''} (assignment ''t'' ''p'' sample_trajectories)"
proof -
  let ?run = "split_identity sample_service sample_principal ''i2'' [''s2''] [] (sample_tracking sample_trajectories)"
  have "case fst ?run of Inl _ \<Rightarrow> False | Inr _ \<Rightarrow> True" by code_simp
  then obtain r where run: "?run = (Inr r, snd ?run)" by (auto simp: prod_eq_iff split: sum.splits)
  have s: "sample_trajectories = tjb_trajectories (bs_repo (sample_tracking sample_trajectories))" by (simp add: sample_tracking_repo)
  from split_refines_relabelling [OF sample_tracking_alone s refl refl sample_trajectories_keyed run refl] run show ?thesis
    by (auto simp: sample_principal_def)
qed

end
