(* ===== verification/Track_Metrics.thy ===== *)
theory Track_Metrics
  imports Py_Prelude
begin

text \<open>
  The measures of person tracking (\<open>app/portrait_tracking_metrics.py\<close>, \<open>app/vector_math.py\<close>): overlap
  of boxes, agreement of embeddings, the decision behind an association and the template of a
  track. The dictionaries of detected persons are records: a key that may be missing is an
  option, and its value is assumed to have the type that the analysis backend writes.
\<close>

text \<open>Python's \<open>round(x, n)\<close> and the square root of \<open>numpy\<close>.\<close>

record tracking_math =
  tma_round :: "nat \<Rightarrow> pyfloat \<Rightarrow> pyfloat"
  tma_sqrt :: "pyfloat \<Rightarrow> pyfloat"

definition clamp01 :: "pyfloat \<Rightarrow> pyfloat" where
  "clamp01 x = max 0 (min 1 x)"

section \<open>Vectors\<close>

definition np_dot :: "pyfloat list \<Rightarrow> pyfloat list \<Rightarrow> pyfloat" where
  "np_dot a b = sum_list (map2 (*) a b)"

definition l2_normalize_vector :: "tracking_math \<Rightarrow> pyfloat list \<Rightarrow> pyfloat list" where
  "l2_normalize_vector tm v = (let norm = tma_sqrt tm (np_dot v v) in if norm \<le> 0 then v else map (\<lambda>x. x / norm) v)"

text \<open>Called for vectors of the same length only, as \<open>embedding_score\<close> ensures.\<close>

definition cosine_similarity :: "tracking_math \<Rightarrow> pyfloat list \<Rightarrow> pyfloat list \<Rightarrow> pyfloat" where
  "cosine_similarity tm a b = np_dot (l2_normalize_vector tm a) (l2_normalize_vector tm b)"

definition embedding_score :: "tracking_math \<Rightarrow> pyfloat list option \<Rightarrow> pyfloat list option \<Rightarrow> pyfloat option" where
  "embedding_score tm a b = (case (a, b) of
     (Some x, Some y) \<Rightarrow>
       if x = [] \<or> y = [] \<or> length x \<noteq> length y then None else Some (clamp01 ((cosine_similarity tm x y + 1) / 2))
   | _ \<Rightarrow> None)"

definition normalized_agreement :: "pyfloat list \<Rightarrow> pyfloat list \<Rightarrow> pyfloat" where
  "normalized_agreement a b = clamp01 ((np_dot a b + 1) / 2)"

section \<open>Boxes\<close>

definition box_area :: "pyfloat list \<Rightarrow> pyfloat" where
  "box_area b = (if length b < 4 then 0 else max 0 (b ! 2 - b ! 0) * max 0 (b ! 3 - b ! 1))"

definition box_iou :: "pyfloat list \<Rightarrow> pyfloat list \<Rightarrow> pyfloat" where
  "box_iou a b =
     (if length a < 4 \<or> length b < 4 then 0
      else
        let x1 = max (a ! 0) (b ! 0); y1 = max (a ! 1) (b ! 1); x2 = min (a ! 2) (b ! 2); y2 = min (a ! 3) (b ! 3);
            intersection = max 0 (x2 - x1) * max 0 (y2 - y1);
            union = box_area a + box_area b - intersection
        in if 0 < union then intersection / union else 0)"

section \<open>Details of an association\<close>

record match_details =
  mdt_score :: pyfloat
  mdt_iou :: pyfloat
  mdt_last_iou :: pyfloat
  mdt_predicted_iou :: pyfloat
  mdt_predicted_box :: "pyfloat list"
  mdt_motion :: pyfloat
  mdt_appearance :: "pyfloat option"

record match_decision =
  dcn_margin :: pyfloat
  dcn_confidence :: pyfloat
  dcn_risk :: string
  dcn_risk_factors :: "string list"
  dcn_supporting_signals :: "string list"

definition appearance_below :: "match_details \<Rightarrow> pyfloat \<Rightarrow> bool" where
  "appearance_below d x = (case mdt_appearance d of None \<Rightarrow> False | Some a \<Rightarrow> a < x)"

definition appearance_from :: "match_details \<Rightarrow> pyfloat \<Rightarrow> bool" where
  "appearance_from d x = (case mdt_appearance d of None \<Rightarrow> False | Some a \<Rightarrow> x \<le> a)"

definition supporting_signals :: "match_details \<Rightarrow> string list" where
  "supporting_signals d =
     (if 35 / 100 \<le> mdt_iou d then [''geometry''] else if 8 / 100 \<le> mdt_iou d then [''weak_geometry''] else []) @
     (if appearance_from d (86 / 100) then [''appearance'']
      else if appearance_below d (45 / 100) then [''appearance_conflict''] else []) @
     (if 65 / 100 \<le> mdt_motion d then [''motion''] else [])"

definition match_risk :: "match_details \<Rightarrow> pyfloat \<Rightarrow> string" where
  "match_risk d margin =
     (if margin < 3 / 100 then ''borderline''
      else if appearance_below d (45 / 100) \<and> mdt_iou d < 1 / 2 then ''appearance_conflict''
      else if mdt_iou d < 5 / 100 \<and> appearance_from d (86 / 100) then ''appearance_rescue''
      else if mdt_iou d < 5 / 100 \<and> mdt_appearance d = None then ''motion_only''
      else if mdt_iou d < 15 / 100 \<and> (mdt_appearance d = None \<or> appearance_below d (72 / 100)) then ''weak_support''
      else ''clear'')"

definition association_decision :: "tracking_math \<Rightarrow> match_details \<Rightarrow> pyfloat \<Rightarrow> match_decision" where
  "association_decision tm d min_score =
     (let margin = mdt_score d - min_score; risk = match_risk d margin; signals = supporting_signals d;
          support = (case mdt_appearance d of None \<Rightarrow> mdt_motion d | Some a \<Rightarrow> a);
          confidence = (45 / 100 + margin / (1 / 2)) *
            (55 / 100 + 30 / 100 * min 1 (mdt_iou d / (1 / 2)) + 15 / 100 * clamp01 support) in
      \<lparr>dcn_margin = tma_round tm 6 margin, dcn_confidence = tma_round tm 6 (clamp01 confidence), dcn_risk = risk,
       dcn_risk_factors = (if risk = ''clear'' then [] else [risk]),
       dcn_supporting_signals = (if signals = [] then [''score_only''] else signals)\<rparr>)"

record match_payload = match_details +
  mpl_association_solver :: string
  mpl_solver_strategy :: "string option"
  mpl_decision :: match_decision

text \<open>What a detection records about its track: the match, or that it started the track.\<close>

datatype track_match = Matched match_payload | Started

section \<open>Persons\<close>

record person =
  psn_box :: "pyfloat list option"
  psn_score :: "pyfloat option"
  psn_quality_score :: "pyfloat option"
  psn_crop_score :: "pyfloat option"
  psn_crop_usable :: "bool option"
  psn_tracking_embedding :: "pyfloat list option"
  psn_embedding :: "pyfloat list option"
  psn_face_embedding :: "pyfloat list option"
  psn_track_id :: "string option"
  psn_track_state :: "string option"
  psn_track_match :: "track_match option"
  psn_merged_from :: "string option"
  psn_smoothed_box :: "pyfloat list option"
  psn_box_support :: "nat option"

definition or_default :: "'a option \<Rightarrow> 'a \<Rightarrow> 'a" where
  "or_default v d = (case v of None \<Rightarrow> d | Some x \<Rightarrow> x)"

definition raw_score :: "person \<Rightarrow> pyfloat" where
  "raw_score q = or_default (psn_score q) 0"

definition person_box :: "person \<Rightarrow> pyfloat list" where
  "person_box q = or_default (psn_box q) []"

definition person_quality_score :: "person \<Rightarrow> pyfloat" where
  "person_quality_score q = clamp01 (or_default (psn_quality_score q) 0)"

definition person_confidence :: "person \<Rightarrow> pyfloat" where
  "person_confidence q = clamp01 (raw_score q)"

record embedding_sample =
  esm_frame_index :: int
  esm_embedding :: "pyfloat list"
  esm_quality :: pyfloat
  esm_crop_quality :: pyfloat
  esm_crop_usable :: bool
  esm_confidence :: pyfloat

definition make_embedding_sample :: "int \<Rightarrow> person \<Rightarrow> pyfloat list option \<Rightarrow> embedding_sample option" where
  "make_embedding_sample frame_index q embedding =
     (if or_default embedding [] = [] then None
      else Some \<lparr>esm_frame_index = frame_index, esm_embedding = or_default embedding [], esm_quality = person_quality_score q,
        esm_crop_quality = or_default (psn_crop_score q) (person_quality_score q),
        esm_crop_usable = or_default (psn_crop_usable q) True, esm_confidence = person_confidence q\<rparr>)"

section \<open>Templates\<close>

definition temporal_recency_weight :: "int \<Rightarrow> int \<Rightarrow> int \<Rightarrow> pyfloat" where
  "temporal_recency_weight frame_index min_frame max_frame =
     (if max_frame \<le> min_frame then 1
      else 85 / 100 + 15 / 100 * clamp01 (of_int (frame_index - min_frame) / of_int (max_frame - min_frame)))"

definition np_mean :: "pyfloat list \<Rightarrow> pyfloat" where
  "np_mean xs = sum_list xs / of_nat (length xs)"

definition np_median :: "pyfloat list \<Rightarrow> pyfloat" where
  "np_median xs = (let s = sort xs; n = length xs in
     if odd n then s ! (n div 2) else (s ! (n div 2 - 1) + s ! (n div 2)) / 2)"

definition np_std :: "tracking_math \<Rightarrow> pyfloat list \<Rightarrow> pyfloat" where
  "np_std tm xs = tma_sqrt tm (np_mean (map (\<lambda>x. (x - np_mean xs) ^ 2) xs))"

definition np_percentile95 :: "pyfloat list \<Rightarrow> pyfloat" where
  "np_percentile95 xs = (let s = sort xs; pos = of_nat (length xs - 1) * 95 / 100 :: pyfloat; lo = nat \<lfloor>pos\<rfloor>;
       hi = min (length xs - 1) (Suc lo) in s ! lo + (pos - of_nat lo) * (s ! hi - s ! lo))"

record weighted_sample =
  wsm_vector :: "pyfloat list"
  wsm_weight :: pyfloat
  wsm_quality :: pyfloat
  wsm_confidence :: pyfloat
  wsm_recency :: pyfloat

definition weigh_sample :: "tracking_math \<Rightarrow> int \<Rightarrow> int \<Rightarrow> embedding_sample \<Rightarrow> weighted_sample" where
  "weigh_sample tm min_frame max_frame sm =
     (let quality = clamp01 (esm_quality sm); crop = clamp01 (esm_crop_quality sm);
          crop' = (if esm_crop_usable sm then crop else crop * 35 / 100); confidence = clamp01 (esm_confidence sm);
          sample_quality = quality * 58 / 100 + crop' * 42 / 100;
          recency = temporal_recency_weight (esm_frame_index sm) min_frame max_frame in
      \<lparr>wsm_vector = l2_normalize_vector tm (esm_embedding sm),
       wsm_weight = (18 / 100 + 47 / 100 * sample_quality + 35 / 100 * confidence) * recency,
       wsm_quality = sample_quality, wsm_confidence = confidence, wsm_recency = recency\<rparr>)"

text \<open>The mean agreement of the vector at \<open>i\<close> with all others.\<close>

definition consensus_at :: "pyfloat list list \<Rightarrow> nat \<Rightarrow> pyfloat" where
  "consensus_at vs i =
     (let others = map (\<lambda>j. normalized_agreement (vs ! i) (vs ! j)) (filter (\<lambda>j. j \<noteq> i) [0..<length vs]) in
      sum_list others / of_nat (max 1 (length others)))"

definition consensus_scores :: "pyfloat list list \<Rightarrow> pyfloat list" where
  "consensus_scores vs = (if length vs = 1 then [1] else map (consensus_at vs) [0..<length vs])"

definition consensus_floor :: "tracking_math \<Rightarrow> pyfloat list \<Rightarrow> pyfloat" where
  "consensus_floor tm scores =
     (if length scores = 1 then 1
      else if 3 \<le> length scores then max (1 / 2) (np_median scores - max (1 / 10) (np_std tm scores * 60 / 100))
      else max (40 / 100) (np_median scores - 12 / 100))"

definition is_outlier :: "nat \<Rightarrow> pyfloat \<Rightarrow> pyfloat \<Rightarrow> bool" where
  "is_outlier n floor_score consensus \<longleftrightarrow> 3 \<le> n \<and> consensus < floor_score"

definition refined_weights :: "pyfloat \<Rightarrow> pyfloat list \<Rightarrow> pyfloat list \<Rightarrow> pyfloat list" where
  "refined_weights floor_score weights scores =
     (let refined = (if length weights = 1 then weights
        else map2 (\<lambda>w c. w * (if is_outlier (length weights) floor_score c then 8 / 100 else 16 / 100 + 84 / 100 * c ^ 2))
          weights scores) in
      if sum_list refined \<le> 1 / 10 ^ 9 then weights else refined)"

definition weighted_sum :: "pyfloat list \<Rightarrow> pyfloat list \<Rightarrow> pyfloat" where
  "weighted_sum xs ws = sum_list (map2 (*) xs ws)"

definition weighted_vector :: "pyfloat list list \<Rightarrow> pyfloat list \<Rightarrow> pyfloat \<Rightarrow> pyfloat list" where
  "weighted_vector vs ws weight_sum =
     map (\<lambda>k. sum_list (map2 (\<lambda>v w. v ! k * w) vs ws) / weight_sum) [0..<length (hd vs)]"

record template_details =
  tpd_quality :: pyfloat
  tpd_confidence :: pyfloat
  tpd_frame_span :: "int \<times> int"
  tpd_recency_p50 :: pyfloat
  tpd_recency_p95 :: pyfloat
  tpd_consensus_score :: pyfloat
  tpd_consensus_floor :: pyfloat
  tpd_outlier_count :: nat

record track_template =
  tpl_embedding_dim :: nat
  tpl_sample_count :: nat
  tpl_details :: "template_details option"
  tpl_embedding :: "pyfloat list option"

definition empty_template :: track_template where
  "empty_template = \<lparr>tpl_embedding_dim = 0, tpl_sample_count = 0, tpl_details = None, tpl_embedding = None\<rparr>"

definition aggregate_track_template :: "tracking_math \<Rightarrow> embedding_sample list \<Rightarrow> bool \<Rightarrow> track_template" where
  "aggregate_track_template tm samples include_embedding =
     (let valid = filter (\<lambda>sm. esm_embedding sm \<noteq> []) samples in
      if valid = [] then empty_template
      else
        let frames = map esm_frame_index valid; first = Min (set frames); final = Max (set frames);
            dim = length (esm_embedding (hd valid));
            used = map (weigh_sample tm first final) (filter (\<lambda>sm. length (esm_embedding sm) = dim) valid);
            vectors = map wsm_vector used; scores = consensus_scores vectors; floor_score = consensus_floor tm scores;
            weights = refined_weights floor_score (map wsm_weight used) scores;
            weight_sum = max (1 / 10 ^ 9) (sum_list weights);
            vector = l2_normalize_vector tm (weighted_vector vectors weights weight_sum);
            recencies = map wsm_recency used in
        \<lparr>tpl_embedding_dim = length vector, tpl_sample_count = length used,
         tpl_details = Some \<lparr>tpd_quality = tma_round tm 6 (weighted_sum (map wsm_quality used) weights / weight_sum),
           tpd_confidence = tma_round tm 6 (weighted_sum (map wsm_confidence used) weights / weight_sum),
           tpd_frame_span = (first, final), tpd_recency_p50 = tma_round tm 6 (np_median recencies),
           tpd_recency_p95 = tma_round tm 6 (np_percentile95 recencies),
           tpd_consensus_score = tma_round tm 6 (weighted_sum scores weights / weight_sum),
           tpd_consensus_floor = tma_round tm 6 floor_score,
           tpd_outlier_count = (if length used = 1 then 0
             else length (filter (is_outlier (length used) floor_score) scores))\<rparr>,
         tpl_embedding = (if include_embedding then Some (map (tma_round tm 8) vector) else None)\<rparr>)"

definition tracklet_quality_score :: "tracking_math \<Rightarrow> pyfloat \<Rightarrow> pyfloat \<Rightarrow> pyfloat \<Rightarrow> nat \<Rightarrow> pyfloat" where
  "tracklet_quality_score tm average_confidence average_quality stability gap_count =
     (let gap_penalty = min (20 / 100) (of_nat gap_count * 3 / 100) in
      tma_round tm 6 (clamp01 (average_quality * 45 / 100 + average_confidence * 35 / 100 + stability * 20 / 100 - gap_penalty)))"

section \<open>Summary of the decisions of a track\<close>

record association_summary =
  asm_match_count :: nat
  asm_average_confidence :: "pyfloat option"
  asm_min_margin :: "pyfloat option"
  asm_risky_match_count :: nat
  asm_dominant_risk :: string
  asm_risk_counts :: "(string, nat) dict"

definition count_risks :: "match_decision list \<Rightarrow> (string, nat) dict" where
  "count_risks ds = fold (\<lambda>d counts. dict_set (dcn_risk d) (or_default (dict_get counts (dcn_risk d)) 0 + 1) counts) ds []"

text \<open>\<open>max(risk_counts, key=...)\<close>: the keys differ, as they contain the risk itself.\<close>

definition dominant_risk :: "(string, nat) dict \<Rightarrow> string" where
  "dominant_risk counts = snd (snd (Max (set (map (\<lambda>(risk, n). (n, risk \<noteq> ''clear'', risk)) counts))))"

definition association_quality_summary :: "tracking_math \<Rightarrow> match_decision list \<Rightarrow> association_summary" where
  "association_quality_summary tm ds =
     (if ds = [] then \<lparr>asm_match_count = 0, asm_average_confidence = None, asm_min_margin = None,
        asm_risky_match_count = 0, asm_dominant_risk = ''new_or_singleton'', asm_risk_counts = []\<rparr>
      else \<lparr>asm_match_count = length ds,
        asm_average_confidence = Some (tma_round tm 6 (np_mean (map dcn_confidence ds))),
        asm_min_margin = Some (tma_round tm 6 (Min (set (map dcn_margin ds)))),
        asm_risky_match_count = sum_list (map snd (filter (\<lambda>kv. fst kv \<noteq> ''clear'') (count_risks ds))),
        asm_dominant_risk = dominant_risk (count_risks ds), asm_risk_counts = count_risks ds\<rparr>)"

section \<open>Scores are proportions\<close>

lemma clamp01_bounds [simp]: "0 \<le> clamp01 x" "clamp01 x \<le> 1"
  by (simp_all add: clamp01_def)

lemma box_area_nonneg: "0 \<le> box_area b"
  by (simp add: box_area_def)

lemma extent_min: "max 0 (min a' b' - max a b) \<le> max 0 (a' - a)" for a b a' b' :: pyfloat
  by (auto simp: max_def min_def)

text \<open>The overlap of two boxes is at most the area of either, so the quotient is a proportion.\<close>

lemma intersection_bound:
  assumes "4 \<le> length a" "4 \<le> length b"
  shows "max 0 (min (a ! 2) (b ! 2) - max (a ! 0) (b ! 0)) * max 0 (min (a ! 3) (b ! 3) - max (a ! 1) (b ! 1)) \<le> box_area a"
  using assms by (auto simp: box_area_def intro!: mult_mono extent_min)

lemma box_iou_sym: "box_iou a b = box_iou b a"
  by (simp add: box_iou_def Let_def max.commute min.commute add.commute)

lemma box_iou_bounds: "0 \<le> box_iou a b \<and> box_iou a b \<le> 1"
proof (cases "length a < 4 \<or> length b < 4")
  case False
  let ?i = "max 0 (min (a ! 2) (b ! 2) - max (a ! 0) (b ! 0)) * max 0 (min (a ! 3) (b ! 3) - max (a ! 1) (b ! 1))"
  have "?i \<le> box_area a" using intersection_bound [of a b] False by simp
  moreover have "?i \<le> box_area b"
    using intersection_bound [of b a] False by (simp add: max.commute min.commute)
  moreover have "0 \<le> ?i" by simp
  ultimately have "0 \<le> ?i \<and> ?i \<le> box_area a + box_area b - ?i" using box_area_nonneg [of b] by linarith
  with False show ?thesis by (auto simp: box_iou_def Let_def divide_le_eq)
qed (simp add: box_iou_def)

lemma embedding_score_bounds: "embedding_score tm a b = Some x \<Longrightarrow> 0 \<le> x \<and> x \<le> 1"
  by (auto simp: embedding_score_def split: option.splits if_splits)

end
