(* ===== verification/Track_State.thy ===== *)
theory Track_State
  imports Track_Metrics
begin

text \<open>
  The state of a track (\<open>app/tracking_state.py\<close>): its observations and samples, the box predicted
  from its motion, smoothing and interpolation, and its public form. A track object is a record;
  the code that changes it in place returns the changed record. Reading a coordinate of a box
  with fewer than four entries raises an \<open>IndexError\<close>.
\<close>

section \<open>Code that may raise, or not return\<close>

text \<open>\<open>None\<close>: the code does not return; otherwise the exception or the value.\<close>

type_synonym 'a attempt = "(exn + 'a) option"

definition done_with :: "'a \<Rightarrow> 'a attempt" where
  "done_with x = Some (Inr x)"

definition raise_err :: "exn \<Rightarrow> 'a attempt" where
  "raise_err e = Some (Inl e)"

definition att_bind :: "'a attempt \<Rightarrow> ('a \<Rightarrow> 'b attempt) \<Rightarrow> 'b attempt" where
  "att_bind m f = Option.bind m (\<lambda>r. case r of Inl e \<Rightarrow> Some (Inl e) | Inr x \<Rightarrow> f x)"

fun att_map :: "('a \<Rightarrow> 'b attempt) \<Rightarrow> 'a list \<Rightarrow> 'b list attempt" where
  "att_map f [] = done_with []"
| "att_map f (x # xs) = att_bind (f x) (\<lambda>y. att_bind (att_map f xs) (\<lambda>ys. done_with (y # ys)))"

fun att_fold :: "('a \<Rightarrow> 's \<Rightarrow> 's attempt) \<Rightarrow> 'a list \<Rightarrow> 's \<Rightarrow> 's attempt" where
  "att_fold f [] s = done_with s"
| "att_fold f (x # xs) s = att_bind (f x s) (att_fold f xs)"

lemma att_bind_done [simp]: "att_bind (done_with x) f = f x"
  by (simp add: att_bind_def done_with_def)

lemma att_bind_raise [simp]: "att_bind (raise_err e) f = raise_err e"
  by (simp add: att_bind_def raise_err_def)

lemma done_with_inject [simp]: "done_with x = done_with y \<longleftrightarrow> x = y"
  by (simp add: done_with_def)

lemma raise_not_done [simp]: "raise_err e \<noteq> done_with x" "done_with x \<noteq> raise_err e"
  by (simp_all add: raise_err_def done_with_def)

lemma att_bind_doneE:
  assumes "att_bind m f = done_with y"
  obtains x where "m = done_with x" "f x = done_with y"
proof (cases m)
  case (Some r)
  with assms that show thesis by (cases r) (auto simp: att_bind_def done_with_def)
qed (use assms in \<open>simp add: att_bind_def done_with_def\<close>)

lemma att_bind_assoc: "att_bind (att_bind m f) g = att_bind m (\<lambda>x. att_bind (f x) g)"
  by (auto simp: att_bind_def fun_eq_iff bind_eq_None_conv split: sum.splits Option.bind_split)

lemma att_fold_append: "att_fold f (xs @ ys) s = att_bind (att_fold f xs s) (att_fold f ys)"
proof (induction xs arbitrary: s)
  case (Cons x xs)
  then have "att_fold f (xs @ ys) = (\<lambda>s. att_bind (att_fold f xs s) (att_fold f ys))" by (simp add: fun_eq_iff)
  then show ?case by (simp add: att_bind_assoc)
qed simp

text \<open>What a fold keeps: an invariant of the state, and that it returns.\<close>

lemma att_fold_invariant:
  assumes "att_fold f xs s = done_with s'" and "I s"
    and "\<And>x s s'. x \<in> set xs \<Longrightarrow> I s \<Longrightarrow> f x s = done_with s' \<Longrightarrow> I s'"
  shows "I s'"
  using assms
proof (induction xs arbitrary: s)
  case (Cons x xs)
  from Cons.prems(1) obtain t where t: "f x s = done_with t" "att_fold f xs t = done_with s'"
    by (auto elim: att_bind_doneE)
  from Cons.prems(3) [OF _ Cons.prems(2) t(1)] have "I t" by simp
  then show ?case by (rule Cons.IH [OF t(2)]) (use Cons.prems(3) in auto)
qed simp

lemma att_fold_returns:
  assumes "I s" and "\<And>x s. x \<in> set xs \<Longrightarrow> I s \<Longrightarrow> \<exists>s'. f x s = done_with s' \<and> I s'"
  shows "\<exists>s'. att_fold f xs s = done_with s' \<and> I s'"
  using assms
proof (induction xs arbitrary: s)
  case (Cons x xs)
  from Cons.prems(2) [OF _ Cons.prems(1)] obtain t where t: "f x s = done_with t" "I t" by auto
  from Cons.IH [OF t(2)] Cons.prems(2) t(1) show ?case by auto
qed simp

lemma att_map_done:
  assumes "\<And>x. x \<in> set xs \<Longrightarrow> f x = done_with (g x)"
  shows "att_map f xs = done_with (map g xs)"
  using assms by (induction xs) auto

lemma att_map_doneD:
  "att_map f xs = done_with ys \<Longrightarrow> list_all2 (\<lambda>x y. f x = done_with y) xs ys"
  by (induction xs arbitrary: ys) (auto elim!: att_bind_doneE)

section \<open>Tracks\<close>

record track_observation =
  obs_frame_index :: int
  obs_box :: "pyfloat list"
  obs_score :: pyfloat
  obs_quality :: pyfloat

record interpolated_box =
  ipl_frame_index :: int
  ipl_box :: "pyfloat list"

record track_decision = match_decision +
  tdc_frame_index :: int
  tdc_score :: pyfloat

record track_state =
  trs_id :: string
  trs_last_frame :: int
  trs_last_box :: "pyfloat list"
  trs_embedding :: "pyfloat list option"
  trs_hits :: nat
  trs_age :: nat
  trs_confidence_sum :: pyfloat
  trs_quality_sum :: pyfloat
  trs_frame_indexes :: "int list"
  trs_observations :: "track_observation list"
  trs_interpolated :: "interpolated_box list"
  trs_samples :: "embedding_sample list"
  trs_face_samples :: "embedding_sample list"
  trs_decisions :: "track_decision list"

definition face_embedding :: "person \<Rightarrow> pyfloat list option" where
  "face_embedding q = (case psn_face_embedding q of Some (x # xs) \<Rightarrow> Some (x # xs) | _ \<Rightarrow> None)"

definition first_frame_index :: "track_state \<Rightarrow> int" where
  "first_frame_index t = (if trs_frame_indexes t = [] then trs_last_frame t else Min (set (trs_frame_indexes t)))"

definition last_frame_index :: "track_state \<Rightarrow> int" where
  "last_frame_index t = (if trs_frame_indexes t = [] then trs_last_frame t else Max (set (trs_frame_indexes t)))"

definition option_list :: "'a option \<Rightarrow> 'a list" where
  "option_list v = (case v of None \<Rightarrow> [] | Some x \<Rightarrow> [x])"

definition smooth_embedding :: "tracking_math \<Rightarrow> pyfloat list option \<Rightarrow> pyfloat list \<Rightarrow> pyfloat list" where
  "smooth_embedding tm previous current = (case previous of
     None \<Rightarrow> current
   | Some p \<Rightarrow>
       if length p \<noteq> length current then current
       else map (tma_round tm 8) (l2_normalize_vector tm (map2 (\<lambda>x y. x * 85 / 100 + y * 15 / 100) p current)))"

definition track_update ::
  "tracking_math \<Rightarrow> int \<Rightarrow> person \<Rightarrow> pyfloat list option \<Rightarrow> match_payload option \<Rightarrow> track_state \<Rightarrow> track_state" where
  "track_update tm frame_index q embedding details t =
     (let box = or_default (psn_box q) (trs_last_box t) in
      \<lparr>trs_id = trs_id t, trs_last_frame = frame_index, trs_last_box = box,
       trs_embedding = (if or_default embedding [] = [] then trs_embedding t
         else Some (smooth_embedding tm (trs_embedding t) (or_default embedding []))),
       trs_hits = trs_hits t + 1, trs_age = trs_age t + 1,
       trs_confidence_sum = trs_confidence_sum t + person_confidence q,
       trs_quality_sum = trs_quality_sum t + person_quality_score q,
       trs_frame_indexes = trs_frame_indexes t @ [frame_index],
       trs_observations = trs_observations t @
         [\<lparr>obs_frame_index = frame_index, obs_box = box, obs_score = person_confidence q, obs_quality = person_quality_score q\<rparr>],
       trs_interpolated = trs_interpolated t,
       trs_samples = trs_samples t @ option_list (make_embedding_sample frame_index q embedding),
       trs_face_samples = trs_face_samples t @ option_list (make_embedding_sample frame_index q (face_embedding q)),
       trs_decisions = trs_decisions t @
         map (\<lambda>d. match_decision.extend (mpl_decision d) \<lparr>tdc_frame_index = frame_index, tdc_score = mdt_score d\<rparr>) (option_list details)\<rparr>)"

definition make_observation :: "int \<Rightarrow> person \<Rightarrow> track_observation" where
  "make_observation frame_index q =
     \<lparr>obs_frame_index = frame_index, obs_box = person_box q, obs_score = person_confidence q, obs_quality = person_quality_score q\<rparr>"

section \<open>Boxes of a track\<close>

definition index_error :: exn where
  "index_error = IndexError ''list index out of range''"

definition average_boxes :: "tracking_math \<Rightarrow> pyfloat list list \<Rightarrow> pyfloat list \<Rightarrow> pyfloat list attempt" where
  "average_boxes tm boxes weights =
     (if \<exists>b \<in> set boxes. length b < 4 then raise_err index_error
      else done_with (map (\<lambda>i. tma_round tm 4 (sum_list (map2 (\<lambda>b w. b ! i * w) boxes weights) / max (1 / 10 ^ 9) (sum_list weights))) [0..<4]))"

definition interpolate_box :: "tracking_math \<Rightarrow> pyfloat list \<Rightarrow> pyfloat list \<Rightarrow> pyfloat \<Rightarrow> pyfloat list" where
  "interpolate_box tm l r ratio = map2 (\<lambda>a b. tma_round tm 4 (a * (1 - ratio) + b * ratio)) l r"

text \<open>The box extrapolated from the last two observations, with the velocity between them.\<close>

definition predict_track_box :: "tracking_math \<Rightarrow> track_state \<Rightarrow> int \<Rightarrow> pyfloat list attempt" where
  "predict_track_box tm t frame_index =
     (let obs = py_sorted obs_frame_index (trs_observations t); n = length obs in
      if n < 2 then done_with (trs_last_box t)
      else
        let previous = obs ! (n - 2); current = obs ! (n - 1);
            frame_gap = max 1 (obs_frame_index current - obs_frame_index previous);
            predict_gap = max 1 (frame_index - obs_frame_index current);
            velocity = (\<lambda>i. (obs_box current ! i - obs_box previous ! i) / of_int frame_gap) in
        if length (obs_box current) < 4 \<or> length (obs_box previous) < 4 then raise_err index_error
        else done_with (map (\<lambda>i. tma_round tm 4 (obs_box current ! i + velocity i * of_int predict_gap)) [0..<4]))"

definition track_stability_score :: "tracking_math \<Rightarrow> track_observation list \<Rightarrow> pyfloat" where
  "track_stability_score tm obs =
     (if length obs < 2 then 1
      else tma_round tm 6 (np_mean (map2 (\<lambda>l r. box_iou (obs_box l) (obs_box r)) obs (tl obs))))"

definition first_observation :: "track_state \<Rightarrow> track_observation option" where
  "first_observation t = (case trs_observations t of [] \<Rightarrow> None | obs \<Rightarrow> Some (hd (py_sorted obs_frame_index obs)))"

definition last_observation :: "track_state \<Rightarrow> track_observation option" where
  "last_observation t = (case trs_observations t of [] \<Rightarrow> None | obs \<Rightarrow> Some (hd (py_sorted_desc obs_frame_index obs)))"

section \<open>The public form of a track\<close>

record public_track =
  pbt_track_id :: string
  pbt_frame_count :: nat
  pbt_first_frame_index :: int
  pbt_last_frame_index :: int
  pbt_average_confidence :: pyfloat
  pbt_average_quality :: pyfloat
  pbt_gap_count :: nat
  pbt_max_gap :: int
  pbt_interpolated_count :: nat
  pbt_stability_score :: pyfloat
  pbt_tracklet_quality_score :: pyfloat
  pbt_association_quality :: association_summary
  pbt_template :: track_template
  pbt_face_template :: track_template
  pbt_interpolated :: "interpolated_box list"

definition frame_gaps :: "int list \<Rightarrow> int list" where
  "frame_gaps frames = (let ordered = sort frames in filter (\<lambda>g. 0 < g) (map2 (\<lambda>l r. r - l - 1) ordered (tl ordered)))"

definition public_dict :: "tracking_math \<Rightarrow> bool \<Rightarrow> track_state \<Rightarrow> public_track" where
  "public_dict tm include_template_embedding t =
     (let gaps = frame_gaps (trs_frame_indexes t); stability = track_stability_score tm (trs_observations t);
          average_confidence = trs_confidence_sum t / of_nat (max 1 (trs_hits t));
          average_quality = trs_quality_sum t / of_nat (max 1 (trs_hits t)) in
      \<lparr>pbt_track_id = trs_id t, pbt_frame_count = trs_hits t, pbt_first_frame_index = first_frame_index t,
       pbt_last_frame_index = trs_last_frame t, pbt_average_confidence = tma_round tm 6 average_confidence,
       pbt_average_quality = tma_round tm 6 average_quality, pbt_gap_count = length gaps,
       pbt_max_gap = (if gaps = [] then 0 else Max (set gaps)), pbt_interpolated_count = length (trs_interpolated t),
       pbt_stability_score = stability,
       pbt_tracklet_quality_score = tracklet_quality_score tm average_confidence average_quality stability (length gaps),
       pbt_association_quality = association_quality_summary tm (map match_decision.truncate (trs_decisions t)),
       pbt_template = aggregate_track_template tm (trs_samples t) include_template_embedding,
       pbt_face_template = aggregate_track_template tm (trs_face_samples t) include_template_embedding,
       pbt_interpolated = take 20 (trs_interpolated t)\<rparr>)"

section \<open>Smoothing and interpolation\<close>

record track_frame =
  tfr_frame_index :: int
  tfr_persons :: "person list"

text \<open>\<open>frames_by_index[i]\<close>: the position of the last frame with the index, in the list of frames.\<close>

definition frame_at :: "track_frame list \<Rightarrow> int \<Rightarrow> nat option" where
  "frame_at frames i = (case filter (\<lambda>k. tfr_frame_index (frames ! k) = i) [0..<length frames] of [] \<Rightarrow> None | ks \<Rightarrow> Some (last ks))"

text \<open>\<open>find_person_by_track\<close>: the position of the frame and of the first person in it with the id.\<close>

definition find_person_by_track :: "track_frame list \<Rightarrow> int \<Rightarrow> string \<Rightarrow> (nat \<times> nat) option" where
  "find_person_by_track frames frame_index track_id = (case frame_at frames frame_index of
     None \<Rightarrow> None
   | Some k \<Rightarrow> let persons = tfr_persons (frames ! k) in
       (case filter (\<lambda>j. psn_track_id (persons ! j) = Some track_id) [0..<length persons] of [] \<Rightarrow> None | j # _ \<Rightarrow> Some (k, j)))"

definition update_person :: "(person \<Rightarrow> person) \<Rightarrow> nat \<times> nat \<Rightarrow> track_frame list \<Rightarrow> track_frame list" where
  "update_person f pos frames =
     (let frame = frames ! fst pos in
      frames[fst pos := frame\<lparr>tfr_persons := (tfr_persons frame)[snd pos := f (tfr_persons frame ! snd pos)]\<rparr>])"

text \<open>The boxes around an observation: its own, and those of neighbours close enough in time.\<close>

definition smoothing_window :: "track_observation list \<Rightarrow> int \<Rightarrow> nat \<Rightarrow> (pyfloat list \<times> pyfloat) list" where
  "smoothing_window obs max_gap i =
     [(obs_box (obs ! i), 1 / 2)] @
     (if 0 < i \<and> obs_frame_index (obs ! i) - obs_frame_index (obs ! (i - 1)) \<le> max_gap + 1
      then [(obs_box (obs ! (i - 1)), 1 / 4)] else []) @
     (if i + 1 < length obs \<and> obs_frame_index (obs ! (i + 1)) - obs_frame_index (obs ! i) \<le> max_gap + 1
      then [(obs_box (obs ! (i + 1)), 1 / 4)] else [])"

definition smooth_observation ::
  "tracking_math \<Rightarrow> int \<Rightarrow> string \<Rightarrow> track_observation list \<Rightarrow> nat \<Rightarrow> track_frame list \<Rightarrow> track_frame list attempt" where
  "smooth_observation tm max_gap track_id obs i frames =
     (case find_person_by_track frames (obs_frame_index (obs ! i)) track_id of
        None \<Rightarrow> done_with frames
      | Some pos \<Rightarrow>
          let window = smoothing_window obs max_gap i in
          att_bind (average_boxes tm (map fst window) (map snd window))
            (\<lambda>box. done_with (update_person (\<lambda>q. q\<lparr>psn_smoothed_box := Some box, psn_box_support := Some (length window)\<rparr>) pos frames)))"

definition gap_boxes :: "tracking_math \<Rightarrow> int \<Rightarrow> track_observation \<Rightarrow> track_observation \<Rightarrow> interpolated_box list" where
  "gap_boxes tm max_gap l r =
     (let gap = obs_frame_index r - obs_frame_index l - 1 in
      if gap \<le> 0 \<or> max_gap < gap then []
      else map (\<lambda>offset. \<lparr>ipl_frame_index = obs_frame_index l + offset,
          ipl_box = interpolate_box tm (obs_box l) (obs_box r) (of_int offset / of_int (gap + 1))\<rparr>) [1..gap])"

definition interpolate_track :: "tracking_math \<Rightarrow> int \<Rightarrow> track_state \<Rightarrow> track_state" where
  "interpolate_track tm max_gap t =
     (let obs = py_sorted obs_frame_index (trs_observations t) in
      t\<lparr>trs_interpolated := trs_interpolated t @ concat (map2 (gap_boxes tm max_gap) obs (tl obs))\<rparr>)"

definition postprocess_tracklets ::
  "tracking_math \<Rightarrow> int \<Rightarrow> track_frame list \<Rightarrow> track_state list \<Rightarrow> (track_frame list \<times> track_state list) attempt" where
  "postprocess_tracklets tm max_gap frames tracks =
     att_bind (att_fold (\<lambda>t fs.
         let obs = py_sorted obs_frame_index (trs_observations t) in
         att_fold (smooth_observation tm max_gap (trs_id t) obs) [0..<length obs] fs) tracks frames)
       (\<lambda>fs. done_with (fs, map (interpolate_track tm max_gap) tracks))"

end
