(* ===== verification/Track_Assignment.thy ===== *)
theory Track_Assignment
  imports Track_State
begin

unbundle bit_operations_syntax

text \<open>
  Assigning detections to tracks in one frame (\<open>app/tracking_association.py\<close>): the score of a pair,
  the greedy assignment, and the global one, which solves the assignment exactly by memoised
  recursion over tracks and sets of used detections, or, for large frames, with the Hungarian
  method. Lists updated by index stand for the arrays; \<open>None\<close> is the infinite float.
\<close>

section \<open>Scores\<close>

definition person_embedding :: "person \<Rightarrow> pyfloat list option" where
  "person_embedding q = (case psn_tracking_embedding q of Some (x # xs) \<Rightarrow> Some (x # xs) | _ \<Rightarrow> psn_embedding q)"

definition motion_score :: "int \<Rightarrow> pyfloat" where
  "motion_score gap = max 0 (1 - of_int (min (gap - 1) 6) / 6)"

definition association_score :: "tracking_math \<Rightarrow> track_state \<Rightarrow> person \<Rightarrow> int \<Rightarrow> match_details attempt" where
  "association_score tm t q frame_index =
     att_bind (predict_track_box tm t frame_index) (\<lambda>predicted_box.
       let last_iou = box_iou (trs_last_box t) (person_box q);
           predicted_iou = box_iou predicted_box (person_box q);
           geometric = max last_iou predicted_iou;
           motion = motion_score (max 1 (frame_index - trs_last_frame t));
           appearance = embedding_score tm (trs_embedding t) (person_embedding q);
           score = (case appearance of
             None \<Rightarrow> 74 / 100 * geometric + 26 / 100 * motion
           | Some a \<Rightarrow> 42 / 100 * geometric + 16 / 100 * motion + 42 / 100 * a) in
       done_with \<lparr>mdt_score = tma_round tm 6 score, mdt_iou = tma_round tm 6 geometric, mdt_last_iou = tma_round tm 6 last_iou,
         mdt_predicted_iou = tma_round tm 6 predicted_iou, mdt_predicted_box = predicted_box,
         mdt_motion = tma_round tm 6 motion, mdt_appearance = map_option (tma_round tm 6) appearance\<rparr>)"

definition make_payload :: "tracking_math \<Rightarrow> pyfloat \<Rightarrow> string \<Rightarrow> string option \<Rightarrow> match_details \<Rightarrow> match_payload" where
  "make_payload tm min_score solver strategy d =
     match_details.extend d \<lparr>mpl_association_solver = solver, mpl_solver_strategy = strategy,
       mpl_decision = association_decision tm d min_score\<rparr>"

section \<open>Greedy assignment\<close>

type_synonym track_pairing = "track_state \<times> nat \<times> match_payload"

text \<open>The candidates in descending order of their scores, each taken when its track and person are free.\<close>

definition greedy_candidates ::
  "tracking_math \<Rightarrow> track_state list \<Rightarrow> (nat \<times> person) list \<Rightarrow> int \<Rightarrow> pyfloat \<Rightarrow> (track_state \<times> nat \<times> match_details) list attempt" where
  "greedy_candidates tm tracks detections frame_index min_score =
     att_bind (att_map (\<lambda>(t, i, q). att_bind (association_score tm t q frame_index) (\<lambda>d. done_with (t, i, d)))
         (concat (map (\<lambda>t. map (\<lambda>(i, q). (t, i, q)) detections) tracks)))
       (\<lambda>cs. done_with (filter (\<lambda>(t, i, d). min_score \<le> mdt_score d) cs))"

fun greedy_take :: "string list \<Rightarrow> nat list \<Rightarrow> (track_state \<times> nat \<times> match_details) list \<Rightarrow> (track_state \<times> nat \<times> match_details) list" where
  "greedy_take used_tracks used_persons [] = []"
| "greedy_take used_tracks used_persons ((t, i, d) # cs) =
     (if trs_id t \<in> set used_tracks \<or> i \<in> set used_persons then greedy_take used_tracks used_persons cs
      else (t, i, d) # greedy_take (trs_id t # used_tracks) (i # used_persons) cs)"

definition greedy_match ::
  "tracking_math \<Rightarrow> track_state list \<Rightarrow> (nat \<times> person) list \<Rightarrow> int \<Rightarrow> pyfloat \<Rightarrow> string \<Rightarrow> track_pairing list attempt" where
  "greedy_match tm tracks detections frame_index min_score solver_name =
     att_bind (greedy_candidates tm tracks detections frame_index min_score) (\<lambda>cs.
       done_with (map (\<lambda>(t, i, d). (t, i, make_payload tm min_score solver_name None d))
         (greedy_take [] [] (py_sorted_desc (\<lambda>(t, i, d). mdt_score d) cs))))"

section \<open>Exact assignment\<close>

type_synonym pair_details = "(nat \<times> nat, match_details) dict"
type_synonym assignment = "pyfloat \<times> (nat \<times> nat) list"

definition better :: "assignment \<Rightarrow> assignment \<Rightarrow> bool" where
  "better candidate current =
     (let close = \<bar>fst candidate - fst current\<bar> \<le> 1 / 10 ^ 9 in
      if fst current + 1 / 10 ^ 9 < fst candidate then True
      else if close \<and> length (snd current) < length (snd candidate) then True
      else close \<and> length (snd candidate) = length (snd current) \<and> snd candidate < snd current)"

type_synonym solver_cache = "(nat \<times> nat, assignment) dict"

text \<open>
  The best assignment of the tracks from \<open>track_position\<close> on to detections outside the bit mask,
  with the dictionary of the subproblems solved before.
\<close>

function solve :: "pair_details \<Rightarrow> nat \<Rightarrow> nat \<Rightarrow> nat \<Rightarrow> nat \<Rightarrow> solver_cache \<Rightarrow> assignment \<times> solver_cache" where
  "solve details_by_pair tracks detections track_position used cache =
     (case dict_get cache (track_position, used) of
        Some found \<Rightarrow> (found, cache)
      | None \<Rightarrow>
          if tracks \<le> track_position then ((0, []), cache)
          else
            let (best, cache') =
              fold (\<lambda>d (best, c).
                  if used AND push_bit d 1 \<noteq> 0 then (best, c)
                  else case dict_get details_by_pair (track_position, d) of
                      None \<Rightarrow> (best, c)
                    | Some details \<Rightarrow>
                        let (next, c') = solve details_by_pair tracks detections (track_position + 1) (used OR push_bit d 1) c;
                            candidate = (mdt_score details + fst next, (track_position, d) # snd next)
                        in (if better candidate best then candidate else best, c'))
                [0..<detections] (solve details_by_pair tracks detections (track_position + 1) used cache)
            in (best, dict_set (track_position, used) best cache'))"
  by pat_completeness auto
termination
  by (relation "measure (\<lambda>(_, tracks, _, track_position, _, _). tracks - track_position)") auto

declare solve.simps [simp del]

section \<open>The Hungarian method\<close>

text \<open>Comparison of a float that may be infinite.\<close>

definition below_inf :: "pyfloat option \<Rightarrow> pyfloat option \<Rightarrow> bool" where
  "below_inf x y = (case (x, y) of (None, _) \<Rightarrow> False | (Some _, None) \<Rightarrow> True | (Some a, Some b) \<Rightarrow> a < b)"

record hungarian_state =
  hun_u :: "pyfloat list"
  hun_v :: "pyfloat list"
  hun_matching :: "nat list"
  hun_predecessor :: "nat list"
  hun_min_values :: "pyfloat option list"
  hun_used :: "bool list"

definition cost_matrix :: "pair_details \<Rightarrow> nat \<Rightarrow> pyfloat \<Rightarrow> pyfloat list list" where
  "cost_matrix details_by_pair width max_score =
     fold (\<lambda>((t, d), details) cost. cost[t := (cost ! t)[d := max_score - mdt_score details]])
       details_by_pair (replicate width (replicate width (max_score + 1)))"

text \<open>\<open>cost[row - 1][column - 1]\<close>, read for rows and columns from 1 on.\<close>

definition cost_at :: "pyfloat list list \<Rightarrow> nat \<Rightarrow> nat \<Rightarrow> pyfloat" where
  "cost_at cost row column = cost ! (row - 1) ! (column - 1)"

record column_scan =
  csc_min_values :: "pyfloat option list"
  csc_predecessor :: "nat list"
  csc_delta :: "pyfloat option"
  csc_next :: nat

definition scan_column :: "pyfloat list list \<Rightarrow> hungarian_state \<Rightarrow> nat \<Rightarrow> nat \<Rightarrow> column_scan \<Rightarrow> column_scan" where
  "scan_column cost h column candidate s =
     (if hun_used h ! candidate then s
      else
        let row = hun_matching h ! column;
            current = cost_at cost row candidate - hun_u h ! row - hun_v h ! candidate;
            s' = (if below_inf (Some current) (csc_min_values s ! candidate)
              then s\<lparr>csc_min_values := (csc_min_values s)[candidate := Some current],
                csc_predecessor := (csc_predecessor s)[candidate := column]\<rparr>
              else s)
        in if below_inf (csc_min_values s' ! candidate) (csc_delta s')
           then s'\<lparr>csc_delta := csc_min_values s' ! candidate, csc_next := candidate\<rparr>
           else s')"

definition scan_columns :: "pyfloat list list \<Rightarrow> nat \<Rightarrow> hungarian_state \<Rightarrow> nat \<Rightarrow> column_scan" where
  "scan_columns cost width h column = fold (scan_column cost h column) [1..<width + 1]
     \<lparr>csc_min_values = hun_min_values h, csc_predecessor = hun_predecessor h, csc_delta = None, csc_next = 0\<rparr>"

definition shift_column :: "pyfloat \<Rightarrow> nat \<Rightarrow> hungarian_state \<Rightarrow> hungarian_state" where
  "shift_column delta c h =
     (if hun_used h ! c
      then h\<lparr>hun_u := (hun_u h)[hun_matching h ! c := hun_u h ! (hun_matching h ! c) + delta],
             hun_v := (hun_v h)[c := hun_v h ! c - delta]\<rparr>
      else h\<lparr>hun_min_values := (hun_min_values h)[c := map_option (\<lambda>x. x - delta) (hun_min_values h ! c)]\<rparr>)"

text \<open>
  One round of the search for an augmenting path: mark the column, update the columns not used
  yet, and shift the potentials so that one of them becomes tight. When no column is left the
  source goes on with an infinite \<open>delta\<close> and column 0, whose row is never 0, so it does not return.
\<close>

definition search_round :: "pyfloat list list \<Rightarrow> nat \<Rightarrow> nat \<Rightarrow> hungarian_state \<Rightarrow> (nat \<times> hungarian_state) option" where
  "search_round cost width column h =
     (let h1 = h\<lparr>hun_used := (hun_used h)[column := True]\<rparr>; s = scan_columns cost width h1 column in
      case csc_delta s of
        None \<Rightarrow> None
      | Some delta \<Rightarrow> Some (csc_next s, fold (shift_column delta) [0..<width + 1]
          (h1\<lparr>hun_min_values := csc_min_values s, hun_predecessor := csc_predecessor s\<rparr>)))"

partial_function (option) search_path :: "pyfloat list list \<Rightarrow> nat \<Rightarrow> nat \<Rightarrow> hungarian_state \<Rightarrow> (nat \<times> hungarian_state) option" where
  "search_path cost width column h =
     (case search_round cost width column h of
        None \<Rightarrow> None
      | Some (next, h') \<Rightarrow> if hun_matching h' ! next = 0 then Some (next, h') else search_path cost width next h')"

partial_function (option) augment :: "nat list \<Rightarrow> nat \<Rightarrow> nat list \<Rightarrow> nat list option" where
  "augment predecessor column matching =
     (let previous = predecessor ! column; matching' = matching[column := matching ! previous] in
      if previous = 0 then Some matching' else augment predecessor previous matching')"

declare search_path.simps [code] augment.simps [code]

definition hungarian_row :: "pyfloat list list \<Rightarrow> nat \<Rightarrow> nat \<Rightarrow> hungarian_state \<Rightarrow> hungarian_state attempt" where
  "hungarian_row cost width row h =
     (case search_path cost width 0 (h\<lparr>hun_matching := (hun_matching h)[0 := row],
          hun_min_values := replicate (width + 1) None, hun_used := replicate (width + 1) False\<rparr>) of
        None \<Rightarrow> None
      | Some (column, h') \<Rightarrow>
          (case augment (hun_predecessor h') column (hun_matching h') of
             None \<Rightarrow> None
           | Some matching' \<Rightarrow> done_with (h'\<lparr>hun_matching := matching'\<rparr>)))"

definition hungarian_start :: "nat \<Rightarrow> hungarian_state" where
  "hungarian_start width = \<lparr>hun_u = replicate (width + 1) 0, hun_v = replicate (width + 1) 0,
     hun_matching = replicate (width + 1) 0, hun_predecessor = replicate (width + 1) 0,
     hun_min_values = replicate (width + 1) None, hun_used = replicate (width + 1) False\<rparr>"

text \<open>The pairs read off the columns; row 0 stands for \<open>row - 1 = -1\<close>, which no pair has.\<close>

definition read_pairs :: "pair_details \<Rightarrow> nat \<Rightarrow> nat \<Rightarrow> nat \<Rightarrow> nat list \<Rightarrow> (nat \<times> nat) list" where
  "read_pairs details_by_pair width track_count detection_count matching =
     sort (concat (map (\<lambda>column.
       let row = matching ! column; pair = (row - 1, column - 1) in
       if 0 < row \<and> row - 1 < track_count \<and> column - 1 < detection_count \<and> dict_get details_by_pair pair \<noteq> None
       then [pair] else []) [1..<width + 1]))"

definition hungarian_assignment_pairs :: "pair_details \<Rightarrow> nat \<Rightarrow> nat \<Rightarrow> (nat \<times> nat) list attempt" where
  "hungarian_assignment_pairs details_by_pair track_count detection_count =
     (let width = max track_count detection_count in
      if width = 0 then done_with []
      else if details_by_pair = [] then raise_err (ValueError ''max() arg is an empty sequence'')
      else
        let max_score = Max (set (map (\<lambda>kv. mdt_score (snd kv)) details_by_pair));
            cost = cost_matrix details_by_pair width max_score in
        att_bind (att_fold (hungarian_row cost width) [1..<width + 1] (hungarian_start width))
          (\<lambda>h. done_with (read_pairs details_by_pair width track_count detection_count (hun_matching h))))"

section \<open>Global assignment\<close>

definition assignment_matches ::
  "tracking_math \<Rightarrow> track_state list \<Rightarrow> (nat \<times> person) list \<Rightarrow> pair_details \<Rightarrow> (nat \<times> nat) list \<Rightarrow> pyfloat \<Rightarrow> string \<Rightarrow> track_pairing list" where
  "assignment_matches tm tracks detections details_by_pair pairs min_score solver_strategy =
     concat (map (\<lambda>(t, d). case dict_get details_by_pair (t, d) of
         None \<Rightarrow> []
       | Some details \<Rightarrow> [(tracks ! t, fst (detections ! d),
           make_payload tm min_score ''global_optimal_assignment'' (Some solver_strategy) details)]) pairs)"

definition pair_scores ::
  "tracking_math \<Rightarrow> track_state list \<Rightarrow> (nat \<times> person) list \<Rightarrow> int \<Rightarrow> pyfloat \<Rightarrow> pair_details attempt" where
  "pair_scores tm tracks detections frame_index min_score =
     att_bind (att_map (\<lambda>(t, d). att_bind (association_score tm (tracks ! t) (snd (detections ! d)) frame_index)
           (\<lambda>details. done_with ((t, d), details)))
         (List.product [0..<length tracks] [0..<length detections]))
       (\<lambda>scored. done_with (filter (\<lambda>kv. min_score \<le> mdt_score (snd kv)) scored))"

definition global_match ::
  "tracking_math \<Rightarrow> nat \<Rightarrow> track_state list \<Rightarrow> (nat \<times> person) list \<Rightarrow> int \<Rightarrow> pyfloat \<Rightarrow> track_pairing list attempt" where
  "global_match tm max_exact_size tracks detections frame_index min_score =
     (if tracks = [] \<or> detections = [] then done_with []
      else att_bind (pair_scores tm tracks detections frame_index min_score) (\<lambda>details_by_pair.
        if details_by_pair = [] then done_with []
        else if max_exact_size < length tracks \<or> max_exact_size < length detections then
          att_bind (hungarian_assignment_pairs details_by_pair (length tracks) (length detections)) (\<lambda>pairs.
            done_with (assignment_matches tm tracks detections details_by_pair pairs min_score ''hungarian_large_batch''))
        else
          done_with (assignment_matches tm tracks detections details_by_pair
            (snd (fst (solve details_by_pair (length tracks) (length detections) 0 0 []))) min_score ''exact_dynamic_programming'')))"

end
