(* ===== verification/Track_Optimal.thy ===== *)
theory Track_Optimal
  imports Track_Assignment
begin

text \<open>
  The exact assignment. The memoised solver agrees with the plain recursion whenever its cache
  holds results of that recursion; the plain recursion returns the greatest assignment in the
  order by score, number of pairs and least pairs. Scores are multiples of \<open>10\<^sup>-\<^sup>6\<close>, as they are
  rounded to six digits, so that the tolerance of the comparison never blurs two of them.
\<close>

section \<open>Matchings\<close>

text \<open>A set of scored pairs in which no track and no detection occurs twice, and its scores.\<close>

definition is_matching :: "pair_details \<Rightarrow> (nat \<times> nat) list \<Rightarrow> bool" where
  "is_matching dbp ps \<longleftrightarrow> distinct (map fst ps) \<and> distinct (map snd ps) \<and> set ps \<subseteq> fst ` set dbp"

definition pair_score :: "pair_details \<Rightarrow> nat \<times> nat \<Rightarrow> pyfloat" where
  "pair_score dbp p = (case dict_get dbp p of None \<Rightarrow> 0 | Some d \<Rightarrow> mdt_score d)"

definition total_score :: "pair_details \<Rightarrow> (nat \<times> nat) list \<Rightarrow> pyfloat" where
  "total_score dbp ps = sum_list (map (pair_score dbp) ps)"

text \<open>The keys of the dictionary are pairs of positions.\<close>

definition pairs_within :: "pair_details \<Rightarrow> nat \<Rightarrow> nat \<Rightarrow> bool" where
  "pairs_within dbp tracks detections \<longleftrightarrow> fst ` set dbp \<subseteq> {..<tracks} \<times> {..<detections}"

lemma dict_get_key: "dict_get d k \<noteq> None \<longleftrightarrow> k \<in> fst ` set d"
  by (simp add: map_of_eq_None_iff)

lemma total_score_simps [simp]:
  "total_score dbp [] = 0" "total_score dbp (p # ps) = pair_score dbp p + total_score dbp ps"
  by (simp_all add: total_score_def)

lemma total_score_mset: "mset ps = mset qs \<Longrightarrow> total_score dbp ps = total_score dbp qs"
  by (metis total_score_def mset_map sum_mset_sum_list)

lemma is_matching_mset: "mset ps = mset qs \<Longrightarrow> is_matching dbp ps = is_matching dbp qs"
  unfolding is_matching_def by (metis mset_eq_setD mset_map mset_eq_imp_distinct_iff)

section \<open>Without the cache\<close>

function best_from :: "pair_details \<Rightarrow> nat \<Rightarrow> nat \<Rightarrow> nat \<Rightarrow> nat \<Rightarrow> assignment" where
  "best_from dbp tracks detections pos used =
     (if tracks \<le> pos then (0, [])
      else fold (\<lambda>d best.
          if used AND push_bit d 1 \<noteq> 0 then best
          else case dict_get dbp (pos, d) of
              None \<Rightarrow> best
            | Some details \<Rightarrow>
                let next = best_from dbp tracks detections (pos + 1) (used OR push_bit d 1);
                    candidate = (mdt_score details + fst next, (pos, d) # snd next)
                in if better candidate best then candidate else best)
        [0..<detections] (best_from dbp tracks detections (pos + 1) used))"
  by pat_completeness auto
termination
  by (relation "measure (\<lambda>(_, tracks, _, pos, _). tracks - pos)") auto

declare best_from.simps [simp del]

definition cache_valid :: "pair_details \<Rightarrow> nat \<Rightarrow> nat \<Rightarrow> solver_cache \<Rightarrow> bool" where
  "cache_valid dbp tracks detections c \<longleftrightarrow>
     (\<forall>pos used s. dict_get c (pos, used) = Some s \<longrightarrow> s = best_from dbp tracks detections pos used)"

lemma fold_memo:
  assumes "\<And>d b c. d \<in> set ds \<Longrightarrow> V c \<Longrightarrow> fst (f d (b, c)) = g d b \<and> V (snd (f d (b, c)))" and "V c"
  shows "fst (fold f ds (b, c)) = fold g ds b \<and> V (snd (fold f ds (b, c)))"
  using assms
proof (induction ds arbitrary: b c)
  case (Cons d ds)
  obtain b' c' where f: "f d (b, c) = (b', c')" by fastforce
  with Cons.prems(1) [of d c b] Cons.prems(2) have "b' = g d b" "V c'" by auto
  with Cons.IH [of c' b'] Cons.prems(1) f show ?case by auto
qed simp

lemma solve_memo:
  assumes "cache_valid dbp tracks detections c"
  shows "fst (solve dbp tracks detections pos used c) = best_from dbp tracks detections pos used
    \<and> cache_valid dbp tracks detections (snd (solve dbp tracks detections pos used c))"
  using assms
proof (induction "tracks - pos" arbitrary: pos used c rule: less_induct)
  case less
  show ?case
  proof (cases "dict_get c (pos, used)")
    case (Some s)
    with less.prems have "s = best_from dbp tracks detections pos used" unfolding cache_valid_def by blast
    with Some less.prems show ?thesis by (simp add: solve.simps [of _ _ _ pos])
  next
    case None
    show ?thesis
    proof (cases "tracks \<le> pos")
      case True
      with None less.prems show ?thesis by (simp add: solve.simps [of _ _ _ pos] best_from.simps [of _ _ _ pos])
    next
      case False
      note IH = less.hyps [of "pos + 1"]
      let ?f = "\<lambda>d (best, c).
          if used AND push_bit d 1 \<noteq> 0 then (best, c)
          else case dict_get dbp (pos, d) of
              None \<Rightarrow> (best, c)
            | Some details \<Rightarrow>
                let (next, c') = solve dbp tracks detections (pos + 1) (used OR push_bit d 1) c;
                    candidate = (mdt_score details + fst next, (pos, d) # snd next)
                in (if better candidate best then candidate else best, c')"
      let ?g = "\<lambda>d best.
          if used AND push_bit d 1 \<noteq> 0 then best
          else case dict_get dbp (pos, d) of
              None \<Rightarrow> best
            | Some details \<Rightarrow>
                let next = best_from dbp tracks detections (pos + 1) (used OR push_bit d 1);
                    candidate = (mdt_score details + fst next, (pos, d) # snd next)
                in if better candidate best then candidate else best"
      obtain b c1 where s: "solve dbp tracks detections (pos + 1) used c = (b, c1)" by fastforce
      with IH [of c used] less.prems False have b: "b = best_from dbp tracks detections (pos + 1) used" "cache_valid dbp tracks detections c1"
        by auto
      have step: "fst (?f d (b, c)) = ?g d b \<and> cache_valid dbp tracks detections (snd (?f d (b, c)))"
        if c: "cache_valid dbp tracks detections c" for d b c
      proof -
        obtain rest c' where n: "solve dbp tracks detections (pos + 1) (used OR push_bit d 1) c = (rest, c')" by fastforce
        with IH [OF _ c, of "used OR push_bit d 1"] False
        have "rest = best_from dbp tracks detections (pos + 1) (used OR push_bit d 1)" "cache_valid dbp tracks detections c'"
          by auto
        with n c show ?thesis by (simp add: Let_def split: option.split)
      qed
      have run: "fst (fold ?f [0..<detections] (b, c1)) = fold ?g [0..<detections] b
        \<and> cache_valid dbp tracks detections (snd (fold ?f [0..<detections] (b, c1)))"
        by (rule fold_memo) (use step b(2) in blast)+
      obtain b2 c2 where r: "fold ?f [0..<detections] (b, c1) = (b2, c2)" by fastforce
      have plain: "best_from dbp tracks detections pos used = b2"
        unfolding best_from.simps [of dbp tracks detections pos used]
        using run r False b(1) by simp
      have "solve dbp tracks detections pos used c = (b2, dict_set (pos, used) b2 c2)"
        unfolding solve.simps [of dbp tracks detections pos used c]
        using None False by (simp only: s r [unfolded Let_def] if_False option.case Let_def prod.case)
      moreover have "cache_valid dbp tracks detections (dict_set (pos, used) b2 c2)"
        using run r plain unfolding cache_valid_def by simp
      ultimately show ?thesis using plain by simp
    qed
  qed
qed

lemma solve_plain: "fst (solve dbp tracks detections 0 0 []) = best_from dbp tracks detections 0 0"
  using solve_memo [of dbp tracks detections "[]"] by (simp add: cache_valid_def)

section \<open>The comparison on rounded scores\<close>

definition on_grid :: "pyfloat \<Rightarrow> bool" where
  "on_grid x \<longleftrightarrow> (\<exists>k :: int. x = of_int k / 10 ^ 6)"

definition scores_on_grid :: "pair_details \<Rightarrow> bool" where
  "scores_on_grid dbp \<longleftrightarrow> (\<forall>kv \<in> set dbp. on_grid (mdt_score (snd kv)))"

text \<open>Greater score, then more pairs, then the least pairs.\<close>

definition greater :: "assignment \<Rightarrow> assignment \<Rightarrow> bool" where
  "greater a b \<longleftrightarrow> fst b < fst a \<or> (fst a = fst b \<and> (length (snd b) < length (snd a) \<or>
     (length (snd a) = length (snd b) \<and> snd a < snd b)))"

lemma on_grid_0 [simp]: "on_grid 0"
  unfolding on_grid_def by (rule exI [of _ 0]) simp

lemma on_grid_add: "on_grid x \<Longrightarrow> on_grid y \<Longrightarrow> on_grid (x + y)"
  unfolding on_grid_def by (metis add_divide_distrib of_int_add)

lemma grid_close:
  assumes "on_grid x" "on_grid y"
  shows "\<bar>x - y\<bar> \<le> 1 / 10 ^ 9 \<longleftrightarrow> x = y" and "y + 1 / 10 ^ 9 < x \<longleftrightarrow> y < x"
proof -
  from assms obtain k l :: int where k: "x = of_int k / 10 ^ 6" "y = of_int l / 10 ^ 6" unfolding on_grid_def by blast
  have far: "a + 1 / 10 ^ 9 < b" if "a = of_int i / 10 ^ 6" "b = of_int j / 10 ^ 6" "i < j" for a b :: rat and i j :: int
  proof -
    from that(3) have "(of_int i :: rat) + 1 \<le> of_int j" by (metis add1_zle_eq of_int_1 of_int_add of_int_le_iff)
    then have "(of_int i + 1) / 10 ^ 6 \<le> (of_int j :: rat) / 10 ^ 6" by (intro divide_right_mono) simp_all
    then have "a + 1 / 10 ^ 6 \<le> b" unfolding that(1,2) by (simp add: add_divide_distrib)
    then show ?thesis by simp
  qed
  consider "k < l" | "k = l" | "l < k" by linarith
  then show "\<bar>x - y\<bar> \<le> 1 / 10 ^ 9 \<longleftrightarrow> x = y" "y + 1 / 10 ^ 9 < x \<longleftrightarrow> y < x"
    using far [OF k(1) k(2)] far [OF k(2) k(1)] k by (cases; simp)+
qed

lemma better_greater: "on_grid (fst a) \<Longrightarrow> on_grid (fst b) \<Longrightarrow> better a b \<longleftrightarrow> greater a b"
  using grid_close [of "fst a" "fst b"] unfolding better_def greater_def Let_def by auto

lemma greater_irrefl: "\<not> greater a a"
  by (simp add: greater_def)

lemma greater_trans: "greater a b \<Longrightarrow> greater b c \<Longrightarrow> greater a c"
  unfolding greater_def by (auto dest: less_trans)

lemma greater_total: "\<not> greater a b \<Longrightarrow> \<not> greater b a \<Longrightarrow> a = b"
  unfolding greater_def by (cases a, cases b) (auto simp: not_less_iff_gr_or_eq)

lemma not_greater_trans: "\<not> greater a b \<Longrightarrow> \<not> greater b c \<Longrightarrow> \<not> greater a c"
  using greater_trans greater_total by metis

lemma greater_cons: "greater (s + fst a, p # snd a) (s + fst b, p # snd b) \<longleftrightarrow> greater a b"
  by (auto simp: greater_def)

section \<open>Assignments of the remaining tracks\<close>

definition remaining :: "pair_details \<Rightarrow> nat \<Rightarrow> nat \<Rightarrow> (nat \<times> nat) list \<Rightarrow> bool" where
  "remaining dbp pos used ps \<longleftrightarrow> sorted_wrt (<) (map fst ps) \<and> distinct (map snd ps) \<and>
     (\<forall>p \<in> set ps. pos \<le> fst p \<and> \<not> bit used (snd p) \<and> p \<in> fst ` set dbp)"

lemma mask_test: "used AND 2 ^ d = 0 \<longleftrightarrow> \<not> bit (used :: nat) d"
  by (rule and_exp_eq_0_iff_not_bit)

lemma mask_add: "bit (used OR push_bit d 1) e \<longleftrightarrow> bit (used :: nat) e \<or> e = d"
  by (auto simp: bit_or_iff bit_exp_iff)

lemma remaining_Nil [simp]: "remaining dbp pos used []"
  by (simp add: remaining_def)

lemma remaining_Cons:
  "remaining dbp pos used ((pos, d) # qs) \<longleftrightarrow>
     \<not> bit used d \<and> (pos, d) \<in> fst ` set dbp \<and> remaining dbp (pos + 1) (used OR push_bit d 1) qs"
  unfolding remaining_def mask_add by (auto simp: Suc_le_eq)

lemma remaining_skip:
  assumes "remaining dbp pos used ps"
  shows "remaining dbp (pos + 1) used ps \<or> (\<exists>d qs. ps = (pos, d) # qs)"
proof (cases ps)
  case (Cons p qs)
  with assms have "pos \<le> fst p" "\<forall>q \<in> set qs. fst p < fst q" by (auto simp: remaining_def)
  with assms Cons show ?thesis by (cases p) (fastforce simp: remaining_def Suc_le_eq le_less)
qed simp

lemma remaining_step: "remaining dbp (pos + 1) used ps \<Longrightarrow> remaining dbp pos used ps"
  by (auto simp: remaining_def)

lemma remaining_matching: "remaining dbp pos used ps \<Longrightarrow> is_matching dbp ps"
  unfolding remaining_def is_matching_def by (auto simp: strict_sorted_iff)

lemma matching_sorted:
  assumes "is_matching dbp ps"
  shows "remaining dbp 0 0 (sort ps)"
proof -
  have "mset (map fst (sort ps)) = mset (map fst ps)" "mset (map snd (sort ps)) = mset (map snd ps)"
    by (simp_all only: mset_map mset_sort)
  with assms have d: "distinct (map fst (sort ps))" "distinct (map snd (sort ps))"
    unfolding is_matching_def by (metis mset_eq_imp_distinct_iff)+
  have "sorted (map fst (sort ps))"
    unfolding sorted_map by (rule sorted_wrt_mono_rel [OF _ sorted_sort [of ps]]) (auto simp: less_eq_prod_def)
  with d have "sorted_wrt (<) (map fst (sort ps))" by (simp add: strict_sorted_iff)
  with assms d(2) show ?thesis unfolding remaining_def is_matching_def by auto
qed

section \<open>Optimality\<close>

text \<open>A fold that replaces its state by greater candidates ends with a greatest one.\<close>

lemma fold_greatest:
  assumes "\<And>d b. d \<in> set ds \<Longrightarrow> f d b = (case C d of None \<Rightarrow> b | Some x \<Rightarrow> if greater x b then x else b)"
  shows "(fold f ds b = b \<or> (\<exists>d \<in> set ds. C d = Some (fold f ds b))) \<and> \<not> greater b (fold f ds b) \<and>
    (\<forall>d \<in> set ds. \<forall>x. C d = Some x \<longrightarrow> \<not> greater x (fold f ds b))"
  using assms
proof (induction ds arbitrary: b)
  case (Cons d ds)
  have IH: "(fold f ds c = c \<or> (\<exists>d \<in> set ds. C d = Some (fold f ds c))) \<and> \<not> greater c (fold f ds c) \<and>
    (\<forall>d \<in> set ds. \<forall>x. C d = Some x \<longrightarrow> \<not> greater x (fold f ds c))" for c
    by (rule Cons.IH) (use Cons.prems in simp)
  have f: "f d b = (case C d of None \<Rightarrow> b | Some x \<Rightarrow> if greater x b then x else b)" by (rule Cons.prems) simp
  show ?case
  proof (cases "\<exists>x. C d = Some x \<and> greater x b")
    case True
    then obtain x where x: "C d = Some x" "greater x b" by blast
    with f have "f d b = x" by simp
    moreover from IH [of x] x(2) have "\<not> greater b (fold f ds x)" using greater_trans by blast
    ultimately show ?thesis using IH [of x] x(1) by auto
  next
    case False
    with f have "f d b = b" by (auto split: option.split)
    moreover have "\<not> greater x (fold f ds b)" if "C d = Some x" for x
      using not_greater_trans IH [of b] False that by blast
    ultimately show ?thesis using IH [of b] by auto
  qed
qed (simp add: greater_irrefl)

lemma pair_score_some: "dict_get dbp p = Some d \<Longrightarrow> pair_score dbp p = mdt_score d"
  by (simp add: pair_score_def)

lemma total_on_grid:
  assumes "scores_on_grid dbp"
  shows "on_grid (total_score dbp ps)"
proof (induction ps)
  case (Cons p ps)
  have "on_grid (pair_score dbp p)"
    using assms by (auto simp: pair_score_def scores_on_grid_def dest!: map_of_SomeD split: option.split)
  with Cons show ?case by (simp add: on_grid_add)
qed simp

lemma best_from_optimal:
  assumes grid: "scores_on_grid dbp" and within: "pairs_within dbp tracks detections"
  defines "B \<equiv> \<lambda>pos used. best_from dbp tracks detections pos used"
  shows "remaining dbp pos used (snd (B pos used)) \<and> fst (B pos used) = total_score dbp (snd (B pos used)) \<and>
    (\<forall>qs. remaining dbp pos used qs \<longrightarrow> \<not> greater (total_score dbp qs, qs) (B pos used))"
proof (induction "tracks - pos" arbitrary: pos used rule: less_induct)
  case less
  show ?case
  proof (cases "tracks \<le> pos")
    case True
    then have "B pos used = (0, [])" by (simp add: B_def best_from.simps [of _ _ _ pos])
    moreover have empty: "qs = []" if "remaining dbp pos used qs" for qs
      using that within True by (cases qs) (fastforce simp: remaining_def pairs_within_def)+
    moreover have "\<not> greater (total_score dbp qs, qs) (0, [])" if "remaining dbp pos used qs" for qs
      using empty [OF that] by (simp add: greater_irrefl)
    ultimately show ?thesis by simp
  next
    case False
    then have IH: "remaining dbp (pos + 1) u (snd (B (pos + 1) u)) \<and> fst (B (pos + 1) u) = total_score dbp (snd (B (pos + 1) u)) \<and>
        (\<forall>qs. remaining dbp (pos + 1) u qs \<longrightarrow> \<not> greater (total_score dbp qs, qs) (B (pos + 1) u))" for u
      by (intro less.hyps) simp
    define C where "C d = (if bit used d then None else case dict_get dbp (pos, d) of
        None \<Rightarrow> None
      | Some de \<Rightarrow> Some (mdt_score de + fst (B (pos + 1) (used OR push_bit d 1)), (pos, d) # snd (B (pos + 1) (used OR push_bit d 1))))" for d
    let ?b = "B (pos + 1) used"
    have C: "remaining dbp pos used (snd x) \<and> fst x = total_score dbp (snd x)" if "C d = Some x" for d x
      using that IH [of "used OR push_bit d 1"]
      by (auto simp: C_def remaining_Cons pair_score_some dict_get_key [symmetric] split: if_splits option.splits)
    define f where "f d best = (if used AND push_bit d 1 \<noteq> 0 then best
          else case dict_get dbp (pos, d) of
              None \<Rightarrow> best
            | Some details \<Rightarrow>
                let next = B (pos + 1) (used OR push_bit d 1);
                    candidate = (mdt_score details + fst next, (pos, d) # snd next)
                in if better candidate best then candidate else best)" for d best
    define g where "g d best = (case C d of None \<Rightarrow> best | Some x \<Rightarrow> if greater x best then x else best)" for d best
    have G: "(fold g [0..<detections] ?b = ?b \<or> (\<exists>d \<in> set [0..<detections]. C d = Some (fold g [0..<detections] ?b))) \<and>
        \<not> greater ?b (fold g [0..<detections] ?b) \<and>
        (\<forall>d \<in> set [0..<detections]. \<forall>x. C d = Some x \<longrightarrow> \<not> greater x (fold g [0..<detections] ?b))"
      by (rule fold_greatest) (simp add: g_def)
    have fg: "fold f ds best = fold g ds best" if "on_grid (fst best)" for ds best
      using that
    proof (induction ds arbitrary: best)
      case (Cons d ds)
      have "f d best = g d best"
      proof (cases "C d")
        case None
        then show ?thesis by (auto simp: f_def g_def C_def mask_test split: if_splits option.splits)
      next
        case (Some x)
        then have "on_grid (fst x)" using C [OF Some] total_on_grid [OF grid] by simp
        with Some Cons.prems better_greater [of x best] show ?thesis
          by (auto simp: f_def g_def C_def mask_test Let_def split: if_splits option.splits)
      qed
      moreover have "on_grid (fst (g d best))"
        using C total_on_grid [OF grid] Cons.prems by (fastforce simp: g_def split: option.split)
      ultimately show ?case using Cons.IH by simp
    qed simp
    have "B pos used = fold f [0..<detections] ?b"
      unfolding f_def [abs_def] B_def best_from.simps [of dbp tracks detections pos used] using False by (simp only: if_False)
    with fg IH [of used] total_on_grid [OF grid] have B: "B pos used = fold g [0..<detections] ?b" by simp
    have "remaining dbp pos used (snd (B pos used)) \<and> fst (B pos used) = total_score dbp (snd (B pos used))"
      using G C IH [of used] remaining_step unfolding B by metis
    moreover have "\<not> greater (total_score dbp qs, qs) (B pos used)" if "remaining dbp pos used qs" for qs
    proof (cases "remaining dbp (pos + 1) used qs")
      case True
      with IH [of used] G show ?thesis unfolding B using not_greater_trans by blast
    next
      case False
      with remaining_skip [OF that] obtain d rs where qs: "qs = (pos, d) # rs" by blast
      with that have rs: "\<not> bit used d" "(pos, d) \<in> fst ` set dbp" "remaining dbp (pos + 1) (used OR push_bit d 1) rs"
        by (simp_all add: remaining_Cons)
      then obtain de where de: "dict_get dbp (pos, d) = Some de"
        using dict_get_key [of dbp "(pos, d)"] by fastforce
      let ?n = "B (pos + 1) (used OR push_bit d 1)"
      from rs(1) de have c: "C d = Some (mdt_score de + fst ?n, (pos, d) # snd ?n)" by (simp add: C_def)
      from rs(2) within have "d < detections" by (auto simp: pairs_within_def)
      with G c have "\<not> greater (mdt_score de + fst ?n, (pos, d) # snd ?n) (B pos used)" unfolding B by simp
      moreover have "\<not> greater (mdt_score de + total_score dbp rs, (pos, d) # rs) (mdt_score de + fst ?n, (pos, d) # snd ?n)"
        using greater_cons [of "mdt_score de" "(total_score dbp rs, rs)" "(pos, d)" ?n] IH rs(3) by simp
      ultimately have "\<not> greater (mdt_score de + total_score dbp rs, (pos, d) # rs) (B pos used)"
        by (rule not_greater_trans [rotated])
      then show ?thesis by (simp add: qs pair_score_some [OF de])
    qed
    ultimately show ?thesis by blast
  qed
qed

text \<open>
  The pairs that the exact solver returns are a matching whose total score no matching exceeds,
  and no matching with the same total has more pairs.
\<close>

lemma exact_solution:
  assumes "scores_on_grid dbp" "pairs_within dbp tracks detections"
  defines "ps \<equiv> snd (fst (solve dbp tracks detections 0 0 []))"
  shows "is_matching dbp ps"
    and "is_matching dbp qs \<Longrightarrow> total_score dbp qs \<le> total_score dbp ps"
    and "is_matching dbp qs \<Longrightarrow> total_score dbp qs = total_score dbp ps \<Longrightarrow> length qs \<le> length ps"
proof -
  have best: "best_from dbp tracks detections 0 0 = (total_score dbp ps, ps)" "remaining dbp 0 0 ps"
    using best_from_optimal [OF assms(1,2), of 0 0] by (simp_all add: ps_def solve_plain prod_eq_iff)
  show "is_matching dbp ps" using best(2) by (rule remaining_matching)
  have *: "\<not> greater (total_score dbp qs, sort qs) (total_score dbp ps, ps)" if "is_matching dbp qs"
    using best_from_optimal [OF assms(1,2), of 0 0] matching_sorted [OF that] total_score_mset [of "sort qs" qs dbp]
    unfolding best by (metis mset_sort)
  show "total_score dbp qs \<le> total_score dbp ps" if "is_matching dbp qs"
    using * [OF that] unfolding greater_def by auto
  show "length qs \<le> length ps" if "is_matching dbp qs" "total_score dbp qs = total_score dbp ps"
    using * [OF that(1)] that(2) unfolding greater_def by auto
qed

end
