(* ===== verification/Track_Hungarian.thy ===== *)
theory Track_Hungarian
  imports Track_Optimal
begin

text \<open>
  The Hungarian method: both loops of a row return, and the potentials stay below the costs and
  meet them at the matched cells. So the final matching has the least cost of all complete
  matchings, and the pairs read off it have the greatest sum of \<open>score + 1\<close> of all matchings.
\<close>

section \<open>Feasible potentials\<close>

definition hun_slack :: "pyfloat list list \<Rightarrow> hungarian_state \<Rightarrow> nat \<Rightarrow> nat \<Rightarrow> pyfloat" where
  "hun_slack cost h i j = cost_at cost i j - hun_u h ! i - hun_v h ! j"

definition hun_shaped :: "nat \<Rightarrow> hungarian_state \<Rightarrow> bool" where
  "hun_shaped n h \<longleftrightarrow> length (hun_u h) = n + 1 \<and> length (hun_v h) = n + 1 \<and> length (hun_matching h) = n + 1 \<and>
     length (hun_predecessor h) = n + 1 \<and> length (hun_min_values h) = n + 1 \<and> length (hun_used h) = n + 1"

definition hun_feasible :: "pyfloat list list \<Rightarrow> nat \<Rightarrow> hungarian_state \<Rightarrow> bool" where
  "hun_feasible cost n h \<longleftrightarrow> (\<forall>i \<in> {1..n}. \<forall>j \<in> {1..n}. 0 \<le> hun_slack cost h i j)"

text \<open>
  A matching of the rows up to \<open>r\<close> with the columns other than \<open>hole\<close>: every row once, on a
  tight cell.
\<close>

definition rows_matched :: "nat \<Rightarrow> nat \<Rightarrow> nat \<Rightarrow> nat list \<Rightarrow> bool" where
  "rows_matched n r hole m \<longleftrightarrow>
     (\<forall>j \<in> {0..n} - {hole}. m ! j \<le> r) \<and> (\<forall>i \<in> {1..r}. \<exists>j \<in> {0..n} - {hole}. m ! j = i) \<and>
     (\<forall>j \<in> {0..n} - {hole}. \<forall>j' \<in> {0..n} - {hole}. m ! j \<noteq> 0 \<longrightarrow> m ! j = m ! j' \<longrightarrow> j = j')"

definition cells_tight :: "pyfloat list list \<Rightarrow> nat \<Rightarrow> nat \<Rightarrow> hungarian_state \<Rightarrow> nat list \<Rightarrow> bool" where
  "cells_tight cost n hole h m \<longleftrightarrow> (\<forall>j \<in> {1..n} - {hole}. m ! j \<noteq> 0 \<longrightarrow> hun_slack cost h (m ! j) j = 0)"

definition row_inv :: "pyfloat list list \<Rightarrow> nat \<Rightarrow> nat \<Rightarrow> hungarian_state \<Rightarrow> bool" where
  "row_inv cost n r h \<longleftrightarrow> hun_shaped n h \<and> hun_feasible cost n h \<and> rows_matched n r 0 (hun_matching h) \<and>
     cells_tight cost n 0 h (hun_matching h)"

section \<open>The search for a path\<close>

text \<open>
  At the head of the loop: \<open>vs\<close> are the columns visited, \<open>column\<close> is the one to visit. Each came
  from an earlier one over a tight cell, and the minima are the least slacks of the visited rows.
\<close>

definition path_tight :: "pyfloat list list \<Rightarrow> hungarian_state \<Rightarrow> nat list \<Rightarrow> bool" where
  "path_tight cost h path \<longleftrightarrow> (\<forall>k. 0 < k \<longrightarrow> k < length path \<longrightarrow>
     hun_predecessor h ! (path ! k) \<in> set (take k path) \<and>
     hun_slack cost h (hun_matching h ! (hun_predecessor h ! (path ! k))) (path ! k) = 0)"

definition minima_exact :: "pyfloat list list \<Rightarrow> nat \<Rightarrow> hungarian_state \<Rightarrow> nat list \<Rightarrow> bool" where
  "minima_exact cost n h vs \<longleftrightarrow> (\<forall>j \<in> {1..n} - set vs.
     if vs = [] then hun_min_values h ! j = None
     else hun_predecessor h ! j \<in> set vs \<and>
       hun_min_values h ! j = Some (hun_slack cost h (hun_matching h ! (hun_predecessor h ! j)) j) \<and>
       (\<forall>k \<in> set vs. hun_slack cost h (hun_matching h ! (hun_predecessor h ! j)) j \<le> hun_slack cost h (hun_matching h ! k) j))"

definition path_inv :: "pyfloat list list \<Rightarrow> nat \<Rightarrow> nat \<Rightarrow> nat list \<Rightarrow> nat \<Rightarrow> hungarian_state \<Rightarrow> bool" where
  "path_inv cost n r vs column h \<longleftrightarrow>
     hun_shaped n h \<and> r < n \<and> hun_feasible cost n h \<and> rows_matched n r 0 (hun_matching h) \<and>
     cells_tight cost n 0 h (hun_matching h) \<and> hun_matching h ! 0 = r + 1 \<and>
     distinct (vs @ [column]) \<and> set (vs @ [column]) \<subseteq> {0..n} \<and> hd (vs @ [column]) = 0 \<and>
     (\<forall>j \<in> {0..n}. hun_used h ! j \<longleftrightarrow> j \<in> set vs) \<and> (\<forall>j \<in> set vs. hun_matching h ! j \<noteq> 0) \<and>
     path_tight cost h (vs @ [column]) \<and> minima_exact cost n h vs"

text \<open>The scan of the columns, by induction on the columns seen.\<close>

definition scanned_value :: "pyfloat list list \<Rightarrow> hungarian_state \<Rightarrow> nat \<Rightarrow> nat \<Rightarrow> pyfloat" where
  "scanned_value cost h column j = hun_slack cost h (hun_matching h ! column) j"

definition lowered :: "pyfloat list list \<Rightarrow> hungarian_state \<Rightarrow> nat \<Rightarrow> nat \<Rightarrow> bool" where
  "lowered cost h column j \<longleftrightarrow> 1 \<le> j \<and> \<not> hun_used h ! j \<and> below_inf (Some (scanned_value cost h column j)) (hun_min_values h ! j)"

definition scan_arrays :: "pyfloat list list \<Rightarrow> hungarian_state \<Rightarrow> nat \<Rightarrow> nat \<Rightarrow> column_scan \<Rightarrow> bool" where
  "scan_arrays cost h column k s \<longleftrightarrow>
     length (csc_min_values s) = length (hun_min_values h) \<and> length (csc_predecessor s) = length (hun_predecessor h) \<and>
     (\<forall>j. csc_min_values s ! j = (if j < k \<and> lowered cost h column j then Some (scanned_value cost h column j) else hun_min_values h ! j)) \<and>
     (\<forall>j. csc_predecessor s ! j = (if j < k \<and> lowered cost h column j then column else hun_predecessor h ! j))"

definition scan_least :: "hungarian_state \<Rightarrow> nat \<Rightarrow> column_scan \<Rightarrow> bool" where
  "scan_least h k s \<longleftrightarrow> (case csc_delta s of
        None \<Rightarrow> \<forall>j. 1 \<le> j \<longrightarrow> j < k \<longrightarrow> hun_used h ! j
      | Some d \<Rightarrow> 1 \<le> csc_next s \<and> csc_next s < k \<and> \<not> hun_used h ! csc_next s \<and> csc_min_values s ! csc_next s = Some d \<and>
          (\<forall>j x. 1 \<le> j \<longrightarrow> j < k \<longrightarrow> \<not> hun_used h ! j \<longrightarrow> csc_min_values s ! j = Some x \<longrightarrow> d \<le> x))"

definition relax_column :: "pyfloat list list \<Rightarrow> hungarian_state \<Rightarrow> nat \<Rightarrow> nat \<Rightarrow> column_scan \<Rightarrow> column_scan" where
  "relax_column cost h column k s =
     (if below_inf (Some (scanned_value cost h column k)) (csc_min_values s ! k)
      then s\<lparr>csc_min_values := (csc_min_values s)[k := Some (scanned_value cost h column k)],
        csc_predecessor := (csc_predecessor s)[k := column]\<rparr>
      else s)"

lemma scan_column_relax:
  "scan_column cost h column k s = (if hun_used h ! k then s
     else let s' = relax_column cost h column k s in
       if below_inf (csc_min_values s' ! k) (csc_delta s') then s'\<lparr>csc_delta := csc_min_values s' ! k, csc_next := k\<rparr> else s')"
  by (simp add: scan_column_def relax_column_def scanned_value_def hun_slack_def Let_def)

lemma relax_column_arrays:
  assumes "scan_arrays cost h column k s" "k < length (hun_min_values h)" "k < length (hun_predecessor h)"
    "\<not> hun_used h ! k" "1 \<le> k"
  shows "scan_arrays cost h column (Suc k) (relax_column cost h column k s)"
    and "\<exists>x. csc_min_values (relax_column cost h column k s) ! k = Some x"
proof -
  have s: "csc_min_values s ! k = hun_min_values h ! k" using assms(1) by (simp add: scan_arrays_def)
  then have low: "below_inf (Some (scanned_value cost h column k)) (csc_min_values s ! k) \<longleftrightarrow> lowered cost h column k"
    using assms(4,5) by (simp add: lowered_def)
  show "scan_arrays cost h column (Suc k) (relax_column cost h column k s)"
    using assms(1,2,3) unfolding relax_column_def low
    by (cases "lowered cost h column k") (auto simp: scan_arrays_def nth_list_update less_Suc_eq)
  show "\<exists>x. csc_min_values (relax_column cost h column k s) ! k = Some x"
    using assms(1,2) unfolding relax_column_def scan_arrays_def by (auto simp: below_inf_def split: option.splits)
qed

lemma relax_column_least:
  "scan_least h k s \<Longrightarrow> scan_least h k (relax_column cost h column k s)"
  by (auto simp: scan_least_def relax_column_def split: option.splits)

lemma scan_least_next:
  assumes "scan_least h k s" "csc_min_values s ! k = Some x" "\<not> hun_used h ! k" "1 \<le> k"
  shows "scan_least h (Suc k)
     (if below_inf (csc_min_values s ! k) (csc_delta s) then s\<lparr>csc_delta := csc_min_values s ! k, csc_next := k\<rparr> else s)"
proof (cases "csc_delta s")
  case None
  with assms show ?thesis by (auto simp: scan_least_def below_inf_def less_Suc_eq)
next
  case (Some d)
  with assms show ?thesis
    by (auto simp: scan_least_def below_inf_def less_Suc_eq dest: order_trans [OF less_imp_le])
qed

lemma scan_columns_upto:
  fixes cost :: "pyfloat list list" and column :: nat
  assumes "hun_shaped n h" "1 \<le> k" "k \<le> n + 1"
  defines "S \<equiv> \<lambda>k. fold (scan_column cost h column) [1..<k]
     \<lparr>csc_min_values = hun_min_values h, csc_predecessor = hun_predecessor h, csc_delta = None, csc_next = 0\<rparr>"
  shows "scan_arrays cost h column k (S k) \<and> scan_least h k (S k)"
  using assms(2,3)
proof (induction k rule: nat_induct_at_least)
  case base
  then show ?case by (auto simp: scan_arrays_def scan_least_def S_def lowered_def)
next
  case (Suc k)
  from Suc have IH: "scan_arrays cost h column k (S k)" "scan_least h k (S k)" by simp_all
  have k: "k < length (hun_min_values h)" "k < length (hun_predecessor h)"
    using assms(1) Suc.prems by (simp_all add: hun_shaped_def)
  from Suc.hyps have S: "S (Suc k) = scan_column cost h column k (S k)" by (simp add: S_def)
  show ?case
  proof (cases "hun_used h ! k")
    case True
    with IH show ?thesis
      unfolding S by (auto simp: scan_arrays_def scan_least_def scan_column_def less_Suc_eq lowered_def split: option.splits)
  next
    case False
    let ?s = "relax_column cost h column k (S k)"
    from relax_column_arrays [OF IH(1) k False Suc.hyps] have a: "scan_arrays cost h column (Suc k) ?s" by simp
    from relax_column_arrays [OF IH(1) k False Suc.hyps] obtain x where x: "csc_min_values ?s ! k = Some x" by blast
    from scan_least_next [OF relax_column_least [OF IH(2)] x False Suc.hyps] a False show ?thesis
      unfolding S scan_column_relax by (simp add: Let_def scan_arrays_def)
  qed
qed

lemma scan_columns_result:
  assumes "hun_shaped n h"
  shows "scan_arrays cost h column (n + 1) (scan_columns cost n h column) \<and> scan_least h (n + 1) (scan_columns cost n h column)"
  unfolding scan_columns_def by (rule scan_columns_upto [OF assms]) simp_all

section \<open>The shift of the potentials\<close>

text \<open>The rows of the columns used so far are raised, each once as they are different.\<close>

definition raised :: "hungarian_state \<Rightarrow> nat \<Rightarrow> nat \<Rightarrow> bool" where
  "raised h k i \<longleftrightarrow> (\<exists>c < k. hun_used h ! c \<and> hun_matching h ! c = i)"

definition shifted :: "pyfloat \<Rightarrow> nat \<Rightarrow> hungarian_state \<Rightarrow> nat \<Rightarrow> hungarian_state \<Rightarrow> bool" where
  "shifted d n h k h' \<longleftrightarrow>
     hun_shaped n h' \<and> hun_matching h' = hun_matching h \<and> hun_predecessor h' = hun_predecessor h \<and> hun_used h' = hun_used h \<and>
     (\<forall>i. hun_u h' ! i = hun_u h ! i + (if raised h k i then d else 0)) \<and>
     (\<forall>j. hun_v h' ! j = hun_v h ! j - (if j < k \<and> hun_used h ! j then d else 0)) \<and>
     (\<forall>j. hun_min_values h' ! j = (if j < k \<and> \<not> hun_used h ! j then map_option (\<lambda>x. x - d) (hun_min_values h ! j) else hun_min_values h ! j))"

lemma raised_Suc: "raised h (Suc k) i \<longleftrightarrow> raised h k i \<or> (hun_used h ! k \<and> hun_matching h ! k = i)"
  by (auto simp: raised_def less_Suc_eq)

lemma shift_column_used:
  assumes "shifted d n h k h'" "hun_used h ! k" "k \<le> n" "hun_matching h ! k \<le> n" "\<not> raised h k (hun_matching h ! k)"
  shows "shifted d n h (Suc k) (shift_column d k h')"
  using assms unfolding shifted_def shift_column_def hun_shaped_def
  by (auto simp: nth_list_update less_Suc_eq [of _ k] raised_Suc le_imp_less_Suc)

lemma shift_column_unused:
  assumes "shifted d n h k h'" "\<not> hun_used h ! k" "k \<le> n"
  shows "shifted d n h (Suc k) (shift_column d k h')"
  using assms unfolding shifted_def shift_column_def hun_shaped_def
  by (auto simp: nth_list_update less_Suc_eq [of _ k] raised_Suc le_imp_less_Suc)

lemma shift_columns_upto:
  assumes "hun_shaped n h" "k \<le> n + 1"
    and inj: "\<And>c c'. c \<le> n \<Longrightarrow> c' \<le> n \<Longrightarrow> hun_used h ! c \<Longrightarrow> hun_used h ! c' \<Longrightarrow> hun_matching h ! c = hun_matching h ! c' \<Longrightarrow> c = c'"
    and rows: "\<And>c. c \<le> n \<Longrightarrow> hun_matching h ! c \<le> n"
  shows "shifted d n h k (fold (shift_column d) [0..<k] h)"
  using assms(2)
proof (induction k)
  case 0
  with assms(1) show ?case by (simp add: shifted_def raised_def)
next
  case (Suc k)
  then have IH: "shifted d n h k (fold (shift_column d) [0..<k] h)" and k: "k \<le> n" by simp_all
  have "shifted d n h (Suc k) (shift_column d k (fold (shift_column d) [0..<k] h))"
  proof (cases "hun_used h ! k")
    case True
    have "\<not> raised h k (hun_matching h ! k)"
      unfolding raised_def using inj [OF _ k _ True] k by (metis less_imp_le_nat less_irrefl order_trans)
    with shift_column_used [OF IH True k rows [OF k]] show ?thesis by simp
  next
    case False
    from shift_column_unused [OF IH this k] show ?thesis .
  qed
  then show ?case by simp
qed

section \<open>One round of the search\<close>

lemma path_inv_columns:
  assumes "path_inv cost n r vs column h" "hun_matching h ! column \<noteq> 0"
  shows "\<And>j. j \<in> set (vs @ [column]) \<Longrightarrow> j \<le> n \<and> hun_matching h ! j \<in> {1..n}"
    and "inj_on (\<lambda>j. hun_matching h ! j) ({0..n} - {j. hun_matching h ! j = 0})"
    and "\<exists>j \<in> {1..n}. j \<notin> set (vs @ [column])"
proof -
  let ?M = "\<lambda>j. hun_matching h ! j"
  have rm: "rows_matched n r 0 (hun_matching h)" "?M 0 = r + 1" "r < n" "set (vs @ [column]) \<subseteq> {0..n}"
      "distinct (vs @ [column])" "\<forall>j \<in> set vs. ?M j \<noteq> 0"
    using assms(1) by (simp_all add: path_inv_def)
  have le: "?M j \<le> r" if "j \<in> {1..n}" for j using rm(1) that by (simp add: rows_matched_def)
  have top: "?M j \<le> r + 1" if "j \<le> n" for j
    using le [of j] rm(2) that by (cases "j = 0") (auto intro: le_SucI)
  show cols: "j \<le> n \<and> ?M j \<in> {1..n}" if "j \<in> set (vs @ [column])" for j
  proof -
    have "j \<le> n" using that rm(4) by auto
    moreover have "?M j \<noteq> 0" using that rm(6) assms(2) by auto
    ultimately show ?thesis using top [of j] rm(3) by simp
  qed
  show inj: "inj_on ?M ({0..n} - {j. ?M j = 0})"
  proof (rule inj_onI)
    fix j j' assume j: "j \<in> {0..n} - {j. ?M j = 0}" "j' \<in> {0..n} - {j. ?M j = 0}" "?M j = ?M j'"
    show "j = j'"
    proof (cases "j = 0 \<or> j' = 0")
      case True
      then show ?thesis using le [of j] le [of j'] rm(2) j by (cases "j = 0"; cases "j' = 0") auto
    next
      case False
      with j rm(1) show ?thesis unfolding rows_matched_def by auto
    qed
  qed
  show "\<exists>j \<in> {1..n}. j \<notin> set (vs @ [column])"
  proof (rule ccontr)
    assume "\<not> ?thesis"
    then have all: "{1..n} \<subseteq> set (vs @ [column])" by blast
    moreover have "0 \<in> set (vs @ [column])" using assms(1) unfolding path_inv_def by (metis append_is_Nil_conv hd_in_set not_Cons_self2)
    ultimately have "{0..n} \<subseteq> set (vs @ [column])" by (auto simp: Suc_le_eq subset_iff) (metis gr0I)
    then have "card {0..n} \<le> card (set (vs @ [column]))" by (rule card_mono [rotated]) (rule List.finite_set)
    also have "\<dots> = card (?M ` set (vs @ [column]))"
    proof (rule card_image [symmetric], rule inj_on_subset [OF inj])
      show "set (vs @ [column]) \<subseteq> {0..n} - {j. ?M j = 0}"
      proof
        fix j assume "j \<in> set (vs @ [column])"
        from cols [OF this] show "j \<in> {0..n} - {j. ?M j = 0}" by simp
      qed
    qed
    also have "\<dots> \<le> card {1..n}" using cols by (intro card_mono) auto
    finally show False by simp
  qed
qed

lemma scanned_minima:
  assumes inv: "path_inv cost n r vs column h" and j: "j \<in> {1..n} - set (vs @ [column])"
    and arrays: "scan_arrays cost (h\<lparr>hun_used := (hun_used h)[column := True]\<rparr>) column (n + 1) s"
  shows "csc_predecessor s ! j \<in> set (vs @ [column]) \<and>
    csc_min_values s ! j = Some (hun_slack cost h (hun_matching h ! (csc_predecessor s ! j)) j) \<and>
    (\<forall>k \<in> set (vs @ [column]). hun_slack cost h (hun_matching h ! (csc_predecessor s ! j)) j \<le> hun_slack cost h (hun_matching h ! k) j)"
proof -
  let ?h = "h\<lparr>hun_used := (hun_used h)[column := True]\<rparr>"
  have used: "\<not> hun_used ?h ! j" using inv j unfolding path_inv_def by auto
  have val: "scanned_value cost ?h column j = hun_slack cost h (hun_matching h ! column) j"
    by (simp add: scanned_value_def hun_slack_def)
  have low: "lowered cost ?h column j \<longleftrightarrow> below_inf (Some (hun_slack cost h (hun_matching h ! column) j)) (hun_min_values h ! j)"
    using used j by (simp add: lowered_def val)
  have s: "csc_min_values s ! j = (if lowered cost ?h column j then Some (hun_slack cost h (hun_matching h ! column) j) else hun_min_values h ! j)"
      "csc_predecessor s ! j = (if lowered cost ?h column j then column else hun_predecessor h ! j)"
    using arrays j by (simp_all add: scan_arrays_def val less_Suc_eq_le)
  have min: "if vs = [] then hun_min_values h ! j = None
     else hun_predecessor h ! j \<in> set vs \<and>
       hun_min_values h ! j = Some (hun_slack cost h (hun_matching h ! (hun_predecessor h ! j)) j) \<and>
       (\<forall>k \<in> set vs. hun_slack cost h (hun_matching h ! (hun_predecessor h ! j)) j \<le> hun_slack cost h (hun_matching h ! k) j)"
    using inv j unfolding path_inv_def minima_exact_def by auto
  show ?thesis
  proof (cases "vs = []")
    case True
    with min low s show ?thesis by (simp add: below_inf_def)
  next
    case False
    with min have m: "hun_predecessor h ! j \<in> set vs"
        "hun_min_values h ! j = Some (hun_slack cost h (hun_matching h ! (hun_predecessor h ! j)) j)"
        "\<And>k. k \<in> set vs \<Longrightarrow> hun_slack cost h (hun_matching h ! (hun_predecessor h ! j)) j \<le> hun_slack cost h (hun_matching h ! k) j"
      by auto
    have low': "lowered cost ?h column j \<longleftrightarrow>
        hun_slack cost h (hun_matching h ! column) j < hun_slack cost h (hun_matching h ! (hun_predecessor h ! j)) j"
      unfolding low m(2) by (simp add: below_inf_def)
    show ?thesis
    proof (cases "lowered cost ?h column j")
      case True
      with low' have "hun_slack cost h (hun_matching h ! column) j \<le> hun_slack cost h (hun_matching h ! k) j" if "k \<in> set vs" for k
        using m(3) [OF that] by simp
      with True s show ?thesis by auto
    next
      case False
      with s low' m show ?thesis by auto
    qed
  qed
qed

lemma shifted_slack:
  assumes "shifted d n h (n + 1) h'" "j \<le> n"
  shows "hun_slack cost h' i j = hun_slack cost h i j - (if raised h (n + 1) i then d else 0) + (if hun_used h ! j then d else 0)"
  using assms by (simp add: hun_slack_def shifted_def less_Suc_eq_le)

lemma search_round_step:
  assumes inv: "path_inv cost n r vs column h" and m: "hun_matching h ! column \<noteq> 0"
  shows "\<exists>next h'. search_round cost n column h = Some (next, h') \<and> path_inv cost n r (vs @ [column]) next h'"
proof -
  let ?vs = "vs @ [column]" and ?M = "hun_matching h"
  let ?h1 = "h\<lparr>hun_used := (hun_used h)[column := True]\<rparr>"
  define s where "s = scan_columns cost n ?h1 column"
  note cols = path_inv_columns(1) [OF inv m]
  from inv have shape: "hun_shaped n h" and dist: "distinct ?vs" and within: "set ?vs \<subseteq> {0..n}"
    and used: "\<forall>j \<in> {0..n}. hun_used h ! j \<longleftrightarrow> j \<in> set vs" and feas: "hun_feasible cost n h"
    and rm: "rows_matched n r 0 ?M" and tight: "cells_tight cost n 0 h ?M" and path: "path_tight cost h ?vs"
    and m0: "?M ! 0 = r + 1" and r: "r < n" and head: "hd ?vs = 0"
    by (simp_all add: path_inv_def)
  have inj: "j = j'" if "j \<le> n" "j' \<le> n" "?M ! j \<noteq> 0" "?M ! j = ?M ! j'" for j j'
    by (rule inj_onD [OF path_inv_columns(2) [OF inv m] that(4)]) (use that in simp_all)
  have shape1: "hun_shaped n ?h1" using shape by (simp add: hun_shaped_def)
  have used1: "hun_used ?h1 ! j \<longleftrightarrow> j \<in> set ?vs" if "j \<le> n" for j
    using that used shape within by (auto simp: hun_shaped_def nth_list_update)
  from scan_columns_result [OF shape1] have arrays: "scan_arrays cost ?h1 column (n + 1) s" and least: "scan_least ?h1 (n + 1) s"
    by (simp_all add: s_def)
  note minima = scanned_minima [OF inv _ arrays]
  obtain free where free: "free \<in> {1..n}" "free \<notin> set ?vs" using path_inv_columns(3) [OF inv m] by blast
  with used1 [of free] least obtain d where d: "csc_delta s = Some d"
    unfolding scan_least_def by (cases "csc_delta s") (auto simp: less_Suc_eq_le)
  let ?n = "csc_next s"
  from least d have n: "?n \<in> {1..n}" "?n \<notin> set ?vs" "csc_min_values s ! ?n = Some d"
    and least_d: "\<And>j x. j \<in> {1..n} \<Longrightarrow> j \<notin> set ?vs \<Longrightarrow> csc_min_values s ! j = Some x \<Longrightarrow> d \<le> x"
    using used1 unfolding scan_least_def by (auto simp: less_Suc_eq_le)
  have below: "d \<le> hun_slack cost h (?M ! k) j" if "j \<in> {1..n}" "j \<notin> set ?vs" "k \<in> set ?vs" for j k
    using minima [of j] that least_d [of j] order_trans by blast
  have pos: "0 \<le> d"
  proof -
    have p: "csc_predecessor s ! ?n \<in> set ?vs" "d = hun_slack cost h (?M ! (csc_predecessor s ! ?n)) ?n"
      using minima [of ?n] n by auto
    with feas cols [OF p(1)] n(1) show ?thesis unfolding hun_feasible_def by simp
  qed
  define h2 where "h2 = ?h1\<lparr>hun_min_values := csc_min_values s, hun_predecessor := csc_predecessor s\<rparr>"
  define h' where "h' = fold (shift_column d) [0..<n + 1] h2"
  have run: "search_round cost n column h = Some (?n, h')"
    using d by (simp add: search_round_def h'_def h2_def s_def Let_def)
  have h2: "hun_shaped n h2" "hun_matching h2 = ?M" "hun_used h2 = hun_used ?h1" "hun_predecessor h2 = csc_predecessor s"
      "hun_min_values h2 = csc_min_values s" "hun_slack cost h2 = hun_slack cost h"
    using shape1 arrays by (auto simp: h2_def hun_shaped_def scan_arrays_def hun_slack_def fun_eq_iff)
  have rows: "?M ! c \<le> n" if "c \<le> n" for c
    using that rm m0 r unfolding rows_matched_def by (cases "c = 0") force+
  have sh: "shifted d n h2 (n + 1) h'"
    unfolding h'_def
  proof (rule shift_columns_upto [OF h2(1)])
    show "c = c'" if "c \<le> n" "c' \<le> n" "hun_used h2 ! c" "hun_used h2 ! c'" "hun_matching h2 ! c = hun_matching h2 ! c'" for c c'
      using inj [of c c'] cols [of c] used1 [of c] that h2 by auto
  qed (use rows h2(2) in auto)
  then have h': "hun_shaped n h'" "hun_matching h' = ?M" "hun_used h' = hun_used ?h1" "hun_predecessor h' = csc_predecessor s"
      "\<And>j. hun_min_values h' ! j = (if j < n + 1 \<and> \<not> hun_used ?h1 ! j then map_option (\<lambda>x. x - d) (csc_min_values s ! j) else csc_min_values s ! j)"
    unfolding shifted_def using h2 by simp_all
  have raised: "raised h2 (n + 1) (?M ! j) \<longleftrightarrow> j \<in> set ?vs" if "j \<le> n" "?M ! j \<noteq> 0" for j
  proof
    assume "raised h2 (n + 1) (?M ! j)"
    then obtain c where c: "c \<le> n" "hun_used ?h1 ! c" "?M ! c = ?M ! j" unfolding raised_def h2(2,3) by (auto simp: less_Suc_eq_le)
    with inj [OF that(1) c(1) that(2)] used1 [OF c(1)] show "j \<in> set ?vs" by simp
  next
    assume "j \<in> set ?vs"
    with used1 [OF that(1)] that(1) show "raised h2 (n + 1) (?M ! j)" unfolding raised_def h2(2,3) by (auto simp: less_Suc_eq_le)
  qed
  have slack: "hun_slack cost h' i j = hun_slack cost h i j - (if raised h2 (n + 1) i then d else 0) + (if j \<in> set ?vs then d else 0)"
    if "j \<le> n" for i j
    unfolding shifted_slack [OF sh that] h2(3,6) used1 [OF that] ..
  have raised_row: "\<exists>k \<in> set ?vs. i = ?M ! k" if "raised h2 (n + 1) i" for i
    using that used1 unfolding raised_def h2(2,3) by (auto simp: less_Suc_eq_le)
  have feas': "hun_feasible cost n h'"
    unfolding hun_feasible_def
  proof (intro ballI)
    fix i j assume ij: "i \<in> {1..n}" "j \<in> {1..n}"
    then have "0 \<le> hun_slack cost h i j" using feas by (simp add: hun_feasible_def)
    moreover have "d \<le> hun_slack cost h i j" if "raised h2 (n + 1) i" "j \<notin> set ?vs"
      using raised_row [OF that(1)] below [OF ij(2) that(2)] by blast
    ultimately show "0 \<le> hun_slack cost h' i j" using ij slack [of j i] pos by auto
  qed
  have same: "hun_slack cost h' (?M ! k) j = hun_slack cost h (?M ! k) j" if "k \<in> set ?vs" "j \<in> set ?vs" for k j
    using slack [of j "?M ! k"] raised [of k] cols [OF that(1)] cols [OF that(2)] that by simp
  have less: "hun_slack cost h' (?M ! k) j = hun_slack cost h (?M ! k) j - d" if "k \<in> set ?vs" "j \<notin> set ?vs" "j \<le> n" for k j
    using slack [of j "?M ! k"] raised [of k] cols [OF that(1)] that by simp
  have tight': "cells_tight cost n 0 h' ?M"
    using tight slack raised unfolding cells_tight_def by auto
  have path': "path_tight cost h' (?vs @ [?n])"
    unfolding path_tight_def
  proof (intro allI impI)
    fix k assume k: "0 < k" "k < length (?vs @ [?n])"
    show "hun_predecessor h' ! ((?vs @ [?n]) ! k) \<in> set (take k (?vs @ [?n])) \<and>
      hun_slack cost h' (hun_matching h' ! (hun_predecessor h' ! ((?vs @ [?n]) ! k))) ((?vs @ [?n]) ! k) = 0"
    proof (cases "k < length ?vs")
      case True
      let ?j = "?vs ! k"
      have j: "(?vs @ [?n]) ! k = ?j" "?j \<in> set ?vs"
        using True by (simp only: nth_append if_True) (rule nth_mem [OF True])
      have p: "hun_predecessor h ! ?j \<in> set (take k ?vs)" "hun_slack cost h (?M ! (hun_predecessor h ! ?j)) ?j = 0"
        using path k True unfolding path_tight_def by blast+
      have jn: "?j \<le> n" using cols [OF j(2)] by simp
      have "csc_predecessor s ! ?j = hun_predecessor h ! ?j"
        using arrays used1 [OF jn] j(2) unfolding scan_arrays_def lowered_def by simp
      moreover from p(1) have "hun_predecessor h ! ?j \<in> set ?vs" by (rule in_set_takeD)
      moreover from p(1) True have "hun_predecessor h ! ?j \<in> set (take k (?vs @ [?n]))" by simp
      ultimately show ?thesis unfolding j(1) h' using same [OF _ j(2)] p(2) by simp
    next
      case False
      with k have k: "k = length ?vs" by simp
      then have j: "(?vs @ [?n]) ! k = ?n" by (simp only: nth_append_length)
      from k have j': "take k (?vs @ [?n]) = ?vs" by simp
      from minima [of ?n] n have p: "csc_predecessor s ! ?n \<in> set ?vs" "d = hun_slack cost h (?M ! (csc_predecessor s ! ?n)) ?n" by auto
      with less [OF p(1), of ?n] n show ?thesis unfolding j j' h' by simp
    qed
  qed
  have min': "minima_exact cost n h' ?vs"
    unfolding minima_exact_def
  proof
    fix j assume j: "j \<in> {1..n} - set ?vs"
    note mj = minima [OF j]
    have "hun_slack cost h' (?M ! k) j = hun_slack cost h (?M ! k) j - d" if "k \<in> set ?vs" for k
      using less [OF that] j by simp
    with mj j used1 [of j] show "if ?vs = [] then hun_min_values h' ! j = None
     else hun_predecessor h' ! j \<in> set ?vs \<and>
       hun_min_values h' ! j = Some (hun_slack cost h' (hun_matching h' ! (hun_predecessor h' ! j)) j) \<and>
       (\<forall>k \<in> set ?vs. hun_slack cost h' (hun_matching h' ! (hun_predecessor h' ! j)) j \<le> hun_slack cost h' (hun_matching h' ! k) j)"
      by (simp add: h')
  qed
  have "path_inv cost n r ?vs ?n h'"
    unfolding path_inv_def
  proof (intro conjI)
    show "\<forall>j \<in> {0..n}. hun_used h' ! j \<longleftrightarrow> j \<in> set ?vs" unfolding h' using used1 by auto
    show "\<forall>j \<in> set ?vs. hun_matching h' ! j \<noteq> 0" unfolding h' using cols by fastforce
    show "hd (?vs @ [?n]) = 0" using head by (metis append_is_Nil_conv hd_append2 not_Cons_self2)
  qed (use h' feas' tight' path' min' rm r m0 dist n within in auto)
  with run show ?thesis by blast
qed

lemma search_path_returns:
  assumes "path_inv cost n r vs column h" "hun_matching h ! column \<noteq> 0"
  shows "\<exists>vs' next h'. search_path cost n column h = Some (next, h') \<and> path_inv cost n r vs' next h' \<and> hun_matching h' ! next = 0"
  using assms
proof (induction "n + 1 - length vs" arbitrary: vs column h rule: less_induct)
  case less
  obtain nx h' where s: "search_round cost n column h = Some (nx, h')" "path_inv cost n r (vs @ [column]) nx h'"
    using search_round_step [OF less.prems] by blast
  show ?case
  proof (cases "hun_matching h' ! nx = 0")
    case True
    with s show ?thesis by (simp add: search_path.simps [of _ _ column] exI [of _ "vs @ [column]"])
  next
    case False
    have "length (vs @ [column]) = card (set (vs @ [column]))" "set (vs @ [column]) \<subseteq> {0..n}"
      using less.prems(1) distinct_card unfolding path_inv_def by metis+
    then have "length (vs @ [column]) \<le> n + 1" using card_mono [of "{0..n}" "set (vs @ [column])"] by simp
    then have "n + 1 - length (vs @ [column]) < n + 1 - length vs" by simp
    from less.hyps [OF this s(2) False] s(1) False show ?thesis by (simp add: search_path.simps [of _ _ column])
  qed
qed

section \<open>Augmentation\<close>

text \<open>
  Moving the rows along the path backwards: the column left free moves towards column 0, the
  rows stay matched once each, and every cell used is tight.
\<close>

definition augment_inv :: "pyfloat list list \<Rightarrow> nat \<Rightarrow> nat \<Rightarrow> hungarian_state \<Rightarrow> nat list \<Rightarrow> nat \<Rightarrow> nat list \<Rightarrow> bool" where
  "augment_inv cost n r h path k m \<longleftrightarrow>
     length m = n + 1 \<and> k < length path \<and> (\<forall>i < k. m ! (path ! i) = hun_matching h ! (path ! i)) \<and>
     rows_matched n r (path ! k) m \<and> cells_tight cost n (path ! k) h m"

lemma augment_step:
  assumes path: "path_tight cost h path" "distinct path" "set path \<subseteq> {0..n}"
    and inv: "augment_inv cost n r h path k m" and k: "0 < k"
    and nz: "hun_matching h ! (hun_predecessor h ! (path ! k)) \<noteq> 0"
  shows "\<exists>k' < k. hun_predecessor h ! (path ! k) = path ! k' \<and>
    augment_inv cost n r h path k' (m[path ! k := m ! (path ! k')])"
proof -
  from inv have len: "length m = n + 1" "k < length path" and old: "\<And>i. i < k \<Longrightarrow> m ! (path ! i) = hun_matching h ! (path ! i)"
    and rows: "rows_matched n r (path ! k) m" and tight: "cells_tight cost n (path ! k) h m"
    by (simp_all add: augment_inv_def)
  from path(1) k len(2) have p: "hun_predecessor h ! (path ! k) \<in> set (take k path)"
      "hun_slack cost h (hun_matching h ! (hun_predecessor h ! (path ! k))) (path ! k) = 0"
    unfolding path_tight_def by blast+
  then obtain k' where k': "k' < k" "hun_predecessor h ! (path ! k) = path ! k'"
    by (metis in_set_conv_nth length_take min_less_iff_conj nth_take)
  let ?a = "path ! k" and ?b = "path ! k'"
  have ab: "?a \<noteq> ?b" "?a \<le> n" "?b \<le> n"
    using path(2,3) k'(1) len(2) by (auto simp: nth_eq_iff_index_eq subset_iff)
  let ?m = "m[?a := m ! ?b]"
  have m: "?m ! j = (if j = ?a then m ! ?b else m ! j)" for j using ab(2) len(1) by (simp add: nth_list_update)
  have "rows_matched n r ?b ?m"
    unfolding rows_matched_def
  proof (intro conjI ballI impI)
    show "?m ! j \<le> r" if "j \<in> {0..n} - {?b}" for j
      using that rows ab unfolding rows_matched_def m by auto
  next
    fix i assume "i \<in> {1..r}"
    with rows obtain j where j: "j \<in> {0..n} - {?a}" "m ! j = i" unfolding rows_matched_def by blast
    show "\<exists>j \<in> {0..n} - {?b}. ?m ! j = i"
    proof (cases "j = ?b")
      case True
      with j ab show ?thesis unfolding m by (intro bexI [of _ ?a]) auto
    next
      case False
      with j show ?thesis unfolding m by (intro bexI [of _ j]) auto
    qed
  next
    fix j j' assume j: "j \<in> {0..n} - {?b}" "j' \<in> {0..n} - {?b}" "?m ! j \<noteq> 0" "?m ! j = ?m ! j'"
    have inj: "c = c'" if "c \<in> {0..n} - {?a}" "c' \<in> {0..n} - {?a}" "m ! c \<noteq> 0" "m ! c = m ! c'" for c c'
      using rows that unfolding rows_matched_def by blast
    define c where "c j = (if j = ?a then ?b else j)" for j
    have "c j = c j'" by (rule inj) (use j ab in \<open>auto simp: c_def m split: if_splits\<close>)
    with j show "j = j'" by (auto simp: c_def split: if_splits)
  qed
  moreover have "cells_tight cost n ?b h ?m"
    unfolding cells_tight_def
  proof (intro ballI impI)
    fix j assume j: "j \<in> {1..n} - {?b}" "?m ! j \<noteq> 0"
    show "hun_slack cost h (?m ! j) j = 0"
    proof (cases "j = ?a")
      case True
      show ?thesis unfolding True m using p(2) k'(2) old [OF k'(1)] by simp
    next
      case False
      with j tight show ?thesis unfolding cells_tight_def m by auto
    qed
  qed
  moreover have "?m ! (path ! i) = hun_matching h ! (path ! i)" if "i < k'" for i
  proof -
    have "path ! i \<noteq> ?a" using path(2) that k'(1) len(2) by (simp add: nth_eq_iff_index_eq)
    with old [of i] that k'(1) show ?thesis by (simp add: m)
  qed
  ultimately show ?thesis using k' len unfolding augment_inv_def by auto
qed

lemma augment_returns:
  assumes path: "path_tight cost h path" "distinct path" "set path \<subseteq> {0..n}" "path ! 0 = 0"
    and nz: "\<And>j. j \<in> set (butlast path) \<Longrightarrow> hun_matching h ! j \<noteq> 0"
    and inv: "augment_inv cost n r h path k m" and k: "0 < k"
  shows "\<exists>m'. augment (hun_predecessor h) (path ! k) m = Some m' \<and> augment_inv cost n r h path 0 m'"
  using inv k
proof (induction k arbitrary: m rule: less_induct)
  case (less k)
  have len: "k < length path" using less.prems(1) by (simp add: augment_inv_def)
  have p: "hun_predecessor h ! (path ! k) \<in> set (take k path)" using path(1) less.prems(2) len unfolding path_tight_def by blast
  have "set (take k path) \<subseteq> set (butlast path)"
    using len by (metis butlast_conv_take Suc_pred diff_Suc_1 length_greater_0_conv less_Suc_eq_le set_take_subset_set_take
        gr_implies_not0 length_0_conv list.size(3) neq0_conv)
  with p have "hun_matching h ! (hun_predecessor h ! (path ! k)) \<noteq> 0" using nz by blast
  from augment_step [OF path(1-3) less.prems this] obtain k' where k': "k' < k" "hun_predecessor h ! (path ! k) = path ! k'"
      "augment_inv cost n r h path k' (m[path ! k := m ! (path ! k')])" by blast
  have zero: "path ! k' = 0 \<longleftrightarrow> k' = 0"
    using path(2,4) k'(1) len by (metis length_greater_0_conv less_trans nth_eq_iff_index_eq list.size(3) not_less_zero)
  show ?case
  proof (cases "k' = 0")
    case True
    with k' zero show ?thesis by (simp add: augment.simps [of _ "path ! k"] Let_def)
  next
    case False
    with less.IH [OF k'(1,3)] zero k'(2) show ?thesis by (simp add: augment.simps [of _ "path ! k"] Let_def)
  qed
qed

section \<open>All rows\<close>

lemma hungarian_row_step:
  assumes inv: "row_inv cost n r h" and r: "r < n"
  shows "\<exists>h'. hungarian_row cost n (r + 1) h = done_with h' \<and> row_inv cost n (r + 1) h'"
proof -
  let ?h = "h\<lparr>hun_matching := (hun_matching h)[0 := r + 1], hun_min_values := replicate (n + 1) None, hun_used := replicate (n + 1) False\<rparr>"
  have slack: "hun_slack cost ?h = hun_slack cost h" by (simp add: hun_slack_def fun_eq_iff)
  from inv have shape: "length (hun_matching h) = n + 1" by (simp add: row_inv_def hun_shaped_def)
  then have m: "hun_matching ?h ! j = (if j = 0 then r + 1 else hun_matching h ! j)" for j by (simp add: nth_list_update)
  have "path_inv cost n r [] 0 ?h"
    unfolding path_inv_def
  proof (intro conjI)
    show "rows_matched n r 0 (hun_matching ?h)" "cells_tight cost n 0 ?h (hun_matching ?h)"
      using inv unfolding row_inv_def rows_matched_def cells_tight_def slack m by auto
    show "hun_feasible cost n ?h" using inv unfolding row_inv_def hun_feasible_def slack by simp
    show "hun_shaped n ?h" using inv by (simp add: row_inv_def hun_shaped_def)
    show "hun_matching ?h ! 0 = r + 1" unfolding m by simp
  qed (use r in \<open>simp_all add: path_tight_def minima_exact_def less_Suc_eq_le nth_append del: replicate_Suc\<close>)
  from search_path_returns [OF this] m obtain vs c h' where s: "search_path cost n 0 ?h = Some (c, h')" "path_inv cost n r vs c h'"
      "hun_matching h' ! c = 0" by auto
  let ?path = "vs @ [c]"
  from s(2) have p: "path_tight cost h' ?path" "distinct ?path" "set ?path \<subseteq> {0..n}" "hd ?path = 0" "hun_matching h' ! 0 = r + 1"
      "rows_matched n r 0 (hun_matching h')" "cells_tight cost n 0 h' (hun_matching h')" "hun_shaped n h'" "hun_feasible cost n h'"
      "\<forall>j \<in> set vs. hun_matching h' ! j \<noteq> 0"
    by (simp_all add: path_inv_def)
  have c: "c \<noteq> 0" "c \<le> n" using s(3) p(3,5) by (cases "c = 0"; simp)+
  then have vs: "vs \<noteq> []" using p(4) by auto
  have first: "?path ! 0 = 0" using p(4) by (simp add: hd_conv_nth)
  have "rows_matched n (r + 1) c (hun_matching h')"
    unfolding rows_matched_def
  proof (intro conjI ballI impI)
    show "hun_matching h' ! j \<le> r + 1" if "j \<in> {0..n} - {c}" for j
      using that p(5,6) unfolding rows_matched_def by (cases "j = 0") (auto intro: le_SucI)
  next
    fix i assume i: "i \<in> {1..r + 1}"
    show "\<exists>j \<in> {0..n} - {c}. hun_matching h' ! j = i"
    proof (cases "i = r + 1")
      case True
      with p(5) c show ?thesis by (intro bexI [of _ 0]) auto
    next
      case False
      with i have "i \<in> {1..r}" by auto
      with p(6) obtain j where "j \<in> {0..n} - {0}" "hun_matching h' ! j = i" unfolding rows_matched_def by blast
      with s(3) i show ?thesis by (intro bexI [of _ j]) auto
    qed
  next
    fix j j' assume j: "j \<in> {0..n} - {c}" "j' \<in> {0..n} - {c}" "hun_matching h' ! j \<noteq> 0" "hun_matching h' ! j = hun_matching h' ! j'"
    have le: "hun_matching h' ! j \<le> r" if "j \<in> {0..n}" "j \<noteq> 0" for j using p(6) that unfolding rows_matched_def by auto
    show "j = j'"
    proof (cases "j = 0 \<or> j' = 0")
      case True
      then show ?thesis using le [of j] le [of j'] j p(5) by (cases "j = 0"; cases "j' = 0") auto
    next
      case False
      with j p(6) show ?thesis unfolding rows_matched_def by auto
    qed
  qed
  moreover have "cells_tight cost n c h' (hun_matching h')" using p(7) unfolding cells_tight_def by auto
  moreover have "length (hun_matching h') = n + 1" using p(8) by (simp add: hun_shaped_def)
  ultimately have "augment_inv cost n (r + 1) h' ?path (length vs) (hun_matching h')"
    by (simp add: augment_inv_def)
  from augment_returns [OF p(1-3) first _ this] vs p(10)
  obtain m where m': "augment (hun_predecessor h') c (hun_matching h') = Some m" "augment_inv cost n (r + 1) h' ?path 0 m"
    by auto
  let ?r = "h'\<lparr>hun_matching := m\<rparr>"
  have slack': "hun_slack cost ?r = hun_slack cost h'" by (simp add: hun_slack_def fun_eq_iff)
  have "row_inv cost n (r + 1) ?r"
    using m'(2) p(8,9) first by (simp add: row_inv_def augment_inv_def hun_shaped_def hun_feasible_def cells_tight_def slack')
  moreover have "hungarian_row cost n (r + 1) h = done_with ?r"
    using s(1) m'(1) by (simp add: hungarian_row_def)
  ultimately show ?thesis by blast
qed

lemma hungarian_rows:
  assumes "row_inv cost n 0 h" "k \<le> n"
  shows "\<exists>h'. att_fold (hungarian_row cost n) [1..<k + 1] h = done_with h' \<and> row_inv cost n k h'"
  using assms(2)
proof (induction k)
  case 0
  with assms(1) show ?case by simp
next
  case (Suc k)
  then obtain h' where h': "att_fold (hungarian_row cost n) [1..<k + 1] h = done_with h'" "row_inv cost n k h'" by auto
  from hungarian_row_step [OF h'(2)] Suc.prems obtain h'' where "hungarian_row cost n (k + 1) h' = done_with h''" "row_inv cost n (k + 1) h''"
    by auto
  with h'(1) show ?case by (simp add: att_fold_append)
qed

section \<open>The least complete matching\<close>

lemma complete_matching:
  assumes "rows_matched n n 0 m"
  shows "bij_betw (\<lambda>j. m ! j) {1..n} {1..n}"
proof -
  have dom: "{0..n} - {0} = {1..n}" by auto
  have sur: "{1..n} \<subseteq> (\<lambda>j. m ! j) ` {1..n}" using assms unfolding rows_matched_def dom by (fastforce simp: image_iff)
  then have "card ((\<lambda>j. m ! j) ` {1..n}) = card {1..n}"
    using card_image_le [of "{1..n}" "\<lambda>j. m ! j"] card_mono [OF _ sur] by simp
  then have "inj_on (\<lambda>j. m ! j) {1..n}" by (simp add: inj_on_iff_eq_card)
  moreover from sur have "(\<lambda>j. m ! j) ` {1..n} = {1..n}"
    using card_subset_eq [OF _ sur] \<open>card ((\<lambda>j. m ! j) ` {1..n}) = card {1..n}\<close> by simp
  ultimately show ?thesis by (simp add: bij_betw_def)
qed

lemma potentials_sum:
  assumes "bij_betw f {1..n} {1..n}"
  shows "(\<Sum>j \<in> {1..n}. cost_at cost (f j) j) =
    (\<Sum>i \<in> {1..n}. hun_u h ! i) + (\<Sum>j \<in> {1..n}. hun_v h ! j) + (\<Sum>j \<in> {1..n}. hun_slack cost h (f j) j)"
proof -
  have "(\<Sum>j \<in> {1..n}. hun_u h ! f j) = (\<Sum>i \<in> {1..n}. hun_u h ! i)" by (rule sum.reindex_bij_betw [OF assms])
  moreover have "cost_at cost i j = hun_u h ! i + hun_v h ! j + hun_slack cost h i j" for i j by (simp add: hun_slack_def)
  ultimately show ?thesis by (simp add: sum.distrib)
qed

lemma least_complete:
  assumes "row_inv cost n n h" "bij_betw f {1..n} {1..n}"
  shows "(\<Sum>j \<in> {1..n}. cost_at cost (hun_matching h ! j) j) \<le> (\<Sum>j \<in> {1..n}. cost_at cost (f j) j)"
proof -
  have m: "bij_betw (\<lambda>j. hun_matching h ! j) {1..n} {1..n}"
    using assms(1) by (intro complete_matching) (simp add: row_inv_def)
  have "hun_slack cost h (hun_matching h ! j) j = 0" if "j \<in> {1..n}" for j
    using assms(1) bij_betwE [OF m] that unfolding row_inv_def cells_tight_def by fastforce
  moreover have "0 \<le> hun_slack cost h (f j) j" if "j \<in> {1..n}" for j
    using assms(1) bij_betwE [OF assms(2)] that unfolding row_inv_def hun_feasible_def by blast
  ultimately show ?thesis
    unfolding potentials_sum [OF assms(2), of cost h] potentials_sum [OF m, of cost h]
    using sum_nonneg [of "{1..n}" "\<lambda>j. hun_slack cost h (f j) j"] by simp
qed

section \<open>Costs\<close>

lemma cost_matrix_value:
  assumes "dict_ok dbp" "pairs_within dbp tracks detections" "tracks \<le> n" "detections \<le> n" "i \<in> {1..n}" "j \<in> {1..n}"
  shows "cost_at (cost_matrix dbp n mx) i j =
    (case dict_get dbp (i - 1, j - 1) of None \<Rightarrow> mx + 1 | Some d \<Rightarrow> mx - mdt_score d)"
proof -
  let ?f = "\<lambda>((t, d), details) cost. cost[t := (cost ! t)[d := mx - mdt_score details]]"
  have run: "fold ?f xs c ! a ! b = (case dict_get xs (a, b) of None \<Rightarrow> c ! a ! b | Some d \<Rightarrow> mx - mdt_score d)"
    if "length c = n" "\<And>k. k < n \<Longrightarrow> length (c ! k) = n" "a < n" "b < n" "dict_ok xs" "fst ` set xs \<subseteq> {..<n} \<times> {..<n}"
    for xs a b and c :: "pyfloat list list"
    using that
  proof (induction xs arbitrary: c)
    case (Cons x xs)
    obtain t d de where x: "x = ((t, d), de)" by (metis prod.exhaust)
    let ?c = "c[t := (c ! t)[d := mx - mdt_score de]]"
    have td: "t < n" "d < n" using Cons.prems(6) x by auto
    have IH: "fold ?f xs ?c ! a ! b = (case dict_get xs (a, b) of None \<Rightarrow> ?c ! a ! b | Some d \<Rightarrow> mx - mdt_score d)"
      by (rule Cons.IH) (use Cons.prems td in \<open>auto simp: nth_list_update\<close>)
    have "?c ! a ! b = (if (a, b) = (t, d) then mx - mdt_score de else c ! a ! b)"
      using Cons.prems(1-4) td by (auto simp: nth_list_update)
    moreover have "dict_get xs (t, d) = None" using Cons.prems(5) x by (simp add: map_of_eq_None_iff)
    ultimately show ?case using IH x by (auto split: option.split)
  qed simp
  have within: "fst ` set dbp \<subseteq> {..<n} \<times> {..<n}" using assms(2-4) by (auto simp: pairs_within_def)
  have ij: "i - 1 < n" "j - 1 < n" using assms(5,6) by auto
  show ?thesis
    unfolding cost_matrix_def cost_at_def using run [OF _ _ ij assms(1) within, of "replicate n (replicate n (mx + 1))"] ij
    by (simp split: option.split)
qed

section \<open>The greatest gain\<close>

text \<open>The method maximises the number of pairs plus their scores.\<close>

definition pair_gain :: "pair_details \<Rightarrow> nat \<times> nat \<Rightarrow> pyfloat" where
  "pair_gain dbp p = (case dict_get dbp p of None \<Rightarrow> 0 | Some d \<Rightarrow> mdt_score d + 1)"

lemma pair_gain_key: "p \<in> fst ` set dbp \<Longrightarrow> pair_gain dbp p = pair_score dbp p + 1"
  using dict_get_key [of dbp p] by (auto simp: pair_gain_def pair_score_def)

lemma matching_gain:
  "is_matching dbp ps \<Longrightarrow> (\<Sum>p \<in> set ps. pair_gain dbp p) = total_score dbp ps + of_nat (length ps)"
proof (induction ps)
  case (Cons p ps)
  then have "is_matching dbp ps" "p \<in> fst ` set dbp" "p \<notin> set ps" by (auto simp: is_matching_def rev_image_eqI)
  with Cons.IH show ?case by (simp add: pair_gain_key)
qed simp

text \<open>A matching of pairs extends to a bijection of columns and rows.\<close>

lemma matching_extends:
  assumes "is_matching dbp qs" "pairs_within dbp tracks detections" "tracks \<le> n" "detections \<le> n"
  shows "\<exists>f. bij_betw f {1..n} {1..n} \<and> (\<forall>(t, d) \<in> set qs. f (Suc d) = Suc t)"
proof -
  let ?A = "(\<lambda>p. Suc (snd p)) ` set qs" and ?B = "(\<lambda>p. Suc (fst p)) ` set qs"
  have inj: "inj_on (\<lambda>p. Suc (snd p)) (set qs)" "inj_on (\<lambda>p. Suc (fst p)) (set qs)"
    using assms(1) unfolding is_matching_def distinct_map inj_on_def by auto
  have sub: "?A \<subseteq> {1..n}" "?B \<subseteq> {1..n}"
    using assms unfolding is_matching_def pairs_within_def by (fastforce simp: Suc_le_eq)+
  define g where "g = (\<lambda>j. Suc (fst (the_inv_into (set qs) (\<lambda>p. Suc (snd p)) j)))"
  have g: "g (Suc (snd p)) = Suc (fst p)" if "p \<in> set qs" for p
    unfolding g_def using the_inv_into_f_f [OF inj(1) that] by simp
  have "g ` ?A = ?B" using g by (force simp: image_image)
  moreover have "inj_on g ?A"
    using g inj(2) unfolding inj_on_def by auto
  ultimately have gb: "bij_betw g ?A ?B" by (simp add: bij_betw_def)
  have "card ?A = card ?B" using card_image [OF inj(1)] card_image [OF inj(2)] by simp
  then have "card ({1..n} - ?A) = card ({1..n} - ?B)"
    using sub by (simp add: card_Diff_subset finite_subset)
  then obtain h where h: "bij_betw h ({1..n} - ?A) ({1..n} - ?B)"
    using finite_same_card_bij [of "{1..n} - ?A" "{1..n} - ?B"] by auto
  let ?f = "\<lambda>j. if j \<in> ?A then g j else h j"
  have "bij_betw ?f (?A \<union> ({1..n} - ?A)) (?B \<union> ({1..n} - ?B))"
    by (rule bij_betw_disjoint_Un [OF gb h]) auto
  moreover have "?A \<union> ({1..n} - ?A) = {1..n}" "?B \<union> ({1..n} - ?B) = {1..n}" using sub by auto
  ultimately have "bij_betw ?f {1..n} {1..n}" by simp
  moreover have "\<forall>(t, d) \<in> set qs. ?f (Suc d) = Suc t" using g by force
  ultimately show ?thesis by blast
qed

lemma concat_map_if: "concat (map (\<lambda>x. if P x then [F x] else []) xs) = map F (filter P xs)"
  by (induction xs) auto

lemma hungarian_solution:
  assumes ne: "dbp \<noteq> []" and ok: "dict_ok dbp" and within: "pairs_within dbp tracks detections"
    and low: "\<And>kv. kv \<in> set dbp \<Longrightarrow> -1 \<le> mdt_score (snd kv)"
  shows "\<exists>ps. hungarian_assignment_pairs dbp tracks detections = done_with ps \<and> is_matching dbp ps \<and>
    (\<forall>qs. is_matching dbp qs \<longrightarrow> total_score dbp qs + of_nat (length qs) \<le> total_score dbp ps + of_nat (length ps))"
proof -
  define n where "n = max tracks detections"
  define mx where "mx = Max (set (map (\<lambda>kv. mdt_score (snd kv)) dbp))"
  let ?cost = "cost_matrix dbp n mx"
  have n: "tracks \<le> n" "detections \<le> n" by (simp_all add: n_def)
  have "n \<noteq> 0" using ne within n by (cases dbp) (auto simp: pairs_within_def)
  have mx: "mdt_score (snd kv) \<le> mx" if "kv \<in> set dbp" for kv unfolding mx_def using that by (intro Max_ge) auto
  then have mx1: "-1 \<le> mx" using low ne by (metis list.set_intros(1) neq_Nil_conv order_trans)
  have cost: "cost_at ?cost i j = mx + 1 - pair_gain dbp (i - 1, j - 1)" if "i \<in> {1..n}" "j \<in> {1..n}" for i j
    unfolding cost_matrix_value [OF ok within n that] by (simp add: pair_gain_def split: option.split)
  have gain: "0 \<le> pair_gain dbp p \<and> pair_gain dbp p \<le> mx + 1" for p
  proof (cases "dict_get dbp p")
    case (Some d)
    then have "(p, d) \<in> set dbp" by (rule map_of_SomeD)
    with low [of "(p, d)"] mx [of "(p, d)"] Some show ?thesis by (simp add: pair_gain_def)
  qed (use mx1 in \<open>simp add: pair_gain_def\<close>)
  have "row_inv ?cost n 0 (hungarian_start n)"
    unfolding row_inv_def
  proof (intro conjI)
    show "hun_feasible ?cost n (hungarian_start n)"
      unfolding hun_feasible_def hun_slack_def using cost gain
      by (auto simp: hungarian_start_def nth_Cons' simp del: replicate_Suc)
  qed (auto simp: hun_shaped_def rows_matched_def cells_tight_def hungarian_start_def simp del: replicate_Suc)
  from hungarian_rows [OF this order_refl] obtain h where
    h: "att_fold (hungarian_row ?cost n) [1..<n + 1] (hungarian_start n) = done_with h" "row_inv ?cost n n h" by blast
  let ?m = "\<lambda>j. hun_matching h ! j"
  let ?P = "\<lambda>j. 0 < ?m j \<and> ?m j - 1 < tracks \<and> j - 1 < detections \<and> dict_get dbp (?m j - 1, j - 1) \<noteq> None"
  let ?F = "\<lambda>j. (?m j - 1, j - 1)"
  define ps where "ps = read_pairs dbp n tracks detections (hun_matching h)"
  have ps: "ps = sort (map ?F (filter ?P [1..<n + 1]))"
    unfolding ps_def read_pairs_def Let_def using concat_map_if [of ?P ?F "[1..<n + 1]"] by simp
  have run: "hungarian_assignment_pairs dbp tracks detections = done_with ps"
    unfolding hungarian_assignment_pairs_def Let_def n_def [symmetric] mx_def [symmetric] h(1) ps_def
    using \<open>n \<noteq> 0\<close> ne by simp
  have m: "bij_betw ?m {1..n} {1..n}" using h(2) by (intro complete_matching) (simp add: row_inv_def)
  then have mj: "?m j \<in> {1..n}" if "j \<in> {1..n}" for j using that by (rule bij_betwE [rule_format])
  have row_inj: "inj_on (\<lambda>j. fst (?F j)) {1..n}"
  proof (rule inj_onI)
    fix j j' assume j: "j \<in> {1..n}" "j' \<in> {1..n}" "fst (?F j) = fst (?F j')"
    with mj [OF j(1)] mj [OF j(2)] have "?m j = ?m j'" by auto
    with m j(1,2) show "j = j'" unfolding bij_betw_def by (auto dest: inj_onD)
  qed
  have inj: "inj_on ?F {1..n}" "inj_on (\<lambda>j. snd (?F j)) {1..n}"
    by (auto simp: inj_on_def)
  have P: "?P j \<longleftrightarrow> ?F j \<in> fst ` set dbp" if "j \<in> {1..n}" for j
    using mj [OF that] within dict_get_key [of dbp "?F j"] unfolding pairs_within_def by auto
  have cols: "set (filter ?P [1..<n + 1]) \<subseteq> {1..n}" by auto
  have match: "is_matching dbp ps"
  proof -
    have "is_matching dbp (map ?F (filter ?P [1..<n + 1]))"
      unfolding is_matching_def map_map comp_def
    proof (intro conjI)
      show "distinct (map (\<lambda>j. fst (?F j)) (filter ?P [1..<n + 1]))" "distinct (map (\<lambda>j. snd (?F j)) (filter ?P [1..<n + 1]))"
        unfolding distinct_map using row_inj inj cols by (auto intro: inj_on_subset)
      show "set (map ?F (filter ?P [1..<n + 1])) \<subseteq> fst ` set dbp"
      proof
        fix p assume "p \<in> set (map ?F (filter ?P [1..<n + 1]))"
        then obtain j where j: "j \<in> set (filter ?P [1..<n + 1])" "p = ?F j" unfolding set_map by blast
        then have "j \<in> {1..n}" "?P j" using cols by (blast, simp)
        with P [of j] j(2) show "p \<in> fst ` set dbp" by simp
      qed
    qed
    then show ?thesis unfolding ps is_matching_mset [OF mset_sort] .
  qed
  have total: "(\<Sum>j \<in> {1..n}. cost_at ?cost (f j) j) = of_nat n * (mx + 1) - (\<Sum>j \<in> {1..n}. pair_gain dbp (f j - 1, j - 1))"
    if "bij_betw f {1..n} {1..n}" for f
    using cost bij_betwE [OF that] by (simp add: sum_subtractf)
  have own: "(\<Sum>j \<in> {1..n}. pair_gain dbp (?F j)) = total_score dbp ps + of_nat (length ps)"
  proof -
    have "(\<Sum>j \<in> {1..n}. pair_gain dbp (?F j)) = (\<Sum>j \<in> set (filter ?P [1..<n + 1]). pair_gain dbp (?F j))"
    proof (rule sum.mono_neutral_right [OF _ cols])
      show "\<forall>j \<in> {1..n} - set (filter ?P [1..<n + 1]). pair_gain dbp (?F j) = 0"
      proof
        fix j assume "j \<in> {1..n} - set (filter ?P [1..<n + 1])"
        moreover have "set [1..<n + 1] = {1..n}" by auto
        ultimately have "j \<in> {1..n}" "\<not> ?P j" unfolding set_filter by blast+
        with P [of j] have "?F j \<notin> fst ` set dbp" by blast
        with dict_get_key [of dbp "?F j"] have "dict_get dbp (?F j) = None" by blast
        then show "pair_gain dbp (?F j) = 0" by (simp add: pair_gain_def)
      qed
    qed simp
    also have "\<dots> = (\<Sum>p \<in> ?F ` set (filter ?P [1..<n + 1]). pair_gain dbp p)"
      by (rule sum.reindex_cong [symmetric, OF inj_on_subset [OF inj(1) cols]]) simp_all
    also have "?F ` set (filter ?P [1..<n + 1]) = set ps" by (simp add: ps)
    finally show ?thesis by (simp only: matching_gain [OF match])
  qed
  have "total_score dbp qs + of_nat (length qs) \<le> total_score dbp ps + of_nat (length ps)" if qs: "is_matching dbp qs" for qs
  proof -
    obtain f where f: "bij_betw f {1..n} {1..n}" "\<forall>(t, d) \<in> set qs. f (Suc d) = Suc t"
      using matching_extends [OF qs within n] by blast
    have sub: "(\<lambda>p. Suc (snd p)) ` set qs \<subseteq> {1..n}"
      using qs within n unfolding is_matching_def pairs_within_def by (fastforce simp: Suc_le_eq)
    have "(\<Sum>p \<in> set qs. pair_gain dbp p) = (\<Sum>j \<in> (\<lambda>p. Suc (snd p)) ` set qs. pair_gain dbp (f j - 1, j - 1))"
    proof (rule sum.reindex_cong [symmetric])
      show "inj_on (\<lambda>p. Suc (snd p)) (set qs)" using qs unfolding is_matching_def distinct_map inj_on_def by auto
      show "pair_gain dbp (f (Suc (snd p)) - 1, Suc (snd p) - 1) = pair_gain dbp p" if "p \<in> set qs" for p
        using f(2) that by (cases p) auto
    qed simp
    also have "\<dots> \<le> (\<Sum>j \<in> {1..n}. pair_gain dbp (f j - 1, j - 1))"
      by (rule sum_mono2) (use sub gain in auto)
    also have "\<dots> \<le> (\<Sum>j \<in> {1..n}. pair_gain dbp (?F j))"
      using least_complete [OF h(2) f(1)] unfolding total [OF f(1)] total [OF m] by simp
    finally show ?thesis unfolding own matching_gain [OF qs] .
  qed
  with run match show ?thesis by blast
qed

end
