(* ===== verification/Track_Matching.thy ===== *)
theory Track_Matching
  imports Track_Hungarian
begin

text \<open>
  The global assignment of a frame as a whole: it returns, no track and no detection is used
  twice, and the chosen pairs are optimal, in the total of their scores for frames that are
  solved exactly and in the total of \<open>score + 1\<close> for those left to the Hungarian method.
\<close>

section \<open>Scores of pairs\<close>

text \<open>What the code relies on of \<open>round\<close>: multiples of \<open>10\<^sup>-\<^sup>n\<close>, never negative for a number that is not.\<close>

definition rounding_ok :: "tracking_math \<Rightarrow> bool" where
  "rounding_ok tm \<longleftrightarrow> (\<forall>n x. 0 \<le> x \<longrightarrow> 0 \<le> tma_round tm n x) \<and> (\<forall>n x. \<exists>k :: int. tma_round tm n x = of_int k / 10 ^ n)"

definition boxes_ok :: "track_state \<Rightarrow> bool" where
  "boxes_ok t \<longleftrightarrow> (\<forall>ob \<in> set (trs_observations t). 4 \<le> length (obs_box ob))"

lemma predict_track_box_done:
  assumes "boxes_ok t"
  shows "\<exists>b. predict_track_box tm t i = done_with b"
proof -
  let ?obs = "py_sorted obs_frame_index (trs_observations t)"
  have "4 \<le> length (obs_box (?obs ! k))" if "k < length ?obs" for k
  proof -
    from that have "?obs ! k \<in> set ?obs" by (rule nth_mem)
    with assms show ?thesis unfolding boxes_ok_def by simp
  qed
  then show ?thesis unfolding predict_track_box_def Let_def by (cases "length ?obs < 2") (auto simp: not_less)
qed

lemma motion_score_nonneg: "0 \<le> motion_score g"
  by (simp add: motion_score_def)

lemma association_score_done:
  assumes "boxes_ok t" "rounding_ok tm"
  shows "\<exists>d. association_score tm t q i = done_with d \<and> 0 \<le> mdt_score d \<and> on_grid (mdt_score d)"
proof -
  obtain b where b: "predict_track_box tm t i = done_with b" using predict_track_box_done [OF assms(1)] by blast
  have geo: "0 \<le> max (box_iou (trs_last_box t) (person_box q)) (box_iou b (person_box q))"
    using box_iou_bounds [of b "person_box q"] by (simp add: le_max_iff_disj)
  have round: "0 \<le> x \<Longrightarrow> 0 \<le> tma_round tm 6 x" "on_grid (tma_round tm 6 x)" for x
    using assms(2) unfolding rounding_ok_def on_grid_def by blast+
  show ?thesis
  proof (cases "embedding_score tm (trs_embedding t) (person_embedding q)")
    case None
    with b geo motion_score_nonneg show ?thesis by (simp add: association_score_def Let_def round)
  next
    case (Some a)
    with embedding_score_bounds [OF this] b geo motion_score_nonneg show ?thesis
      by (simp add: association_score_def Let_def round)
  qed
qed

lemma pair_scores_done:
  assumes "\<And>t. t \<in> set tracks \<Longrightarrow> boxes_ok t" "rounding_ok tm"
  shows "\<exists>dbp. pair_scores tm tracks detections i min_score = done_with dbp \<and> dict_ok dbp \<and>
    pairs_within dbp (length tracks) (length detections) \<and> scores_on_grid dbp \<and>
    (\<forall>kv \<in> set dbp. 0 \<le> mdt_score (snd kv) \<and> min_score \<le> mdt_score (snd kv))"
proof -
  let ?ps = "List.product [0..<length tracks] [0..<length detections]"
  let ?S = "\<lambda>t d. association_score tm (tracks ! t) (snd (detections ! d)) i"
  define s where "s t d = (SOME x. ?S t d = done_with x)" for t d
  have S: "?S t d = done_with (s t d) \<and> 0 \<le> mdt_score (s t d) \<and> on_grid (mdt_score (s t d))" if t: "t < length tracks" for t d
  proof -
    obtain x where x: "?S t d = done_with x" "0 \<le> mdt_score x" "on_grid (mdt_score x)"
      using association_score_done [OF assms(1) [OF nth_mem [OF t]] assms(2)] by blast
    then have "s t d = x" by (simp add: s_def)
    with x show ?thesis by simp
  qed
  have "att_map (\<lambda>(t, d). att_bind (?S t d) (\<lambda>x. done_with ((t, d), x))) ?ps = done_with (map (\<lambda>(t, d). ((t, d), s t d)) ?ps)"
    by (rule att_map_done) (use S in \<open>auto\<close>)
  then have run: "pair_scores tm tracks detections i min_score =
      done_with (filter (\<lambda>kv. min_score \<le> mdt_score (snd kv)) (map (\<lambda>(t, d). ((t, d), s t d)) ?ps))"
    by (simp add: pair_scores_def)
  let ?dbp = "filter (\<lambda>kv. min_score \<le> mdt_score (snd kv)) (map (\<lambda>(t, d). ((t, d), s t d)) ?ps)"
  have "map fst (map (\<lambda>(t, d). ((t, d), s t d)) ?ps) = ?ps" by (rule nth_equalityI) (simp_all add: split_beta)
  then have "dict_ok (map (\<lambda>(t, d). ((t, d), s t d)) ?ps)" by (simp add: distinct_product)
  then have "dict_ok ?dbp" by (rule dict_ok_filter)
  moreover have "pairs_within ?dbp (length tracks) (length detections)" by (auto simp: pairs_within_def)
  moreover have "scores_on_grid ?dbp" using S by (auto simp: scores_on_grid_def)
  moreover have "\<forall>kv \<in> set ?dbp. 0 \<le> mdt_score (snd kv) \<and> min_score \<le> mdt_score (snd kv)" using S by auto
  ultimately show ?thesis using run by blast
qed

section \<open>The chosen pairs\<close>

lemma assignment_matches_map:
  assumes "is_matching dbp ps"
  shows "assignment_matches tm tracks detections dbp ps min_score st =
    map (\<lambda>(t, d). (tracks ! t, fst (detections ! d),
      make_payload tm min_score ''global_optimal_assignment'' (Some st) (the (dict_get dbp (t, d))))) ps"
proof -
  have "concat (map (\<lambda>(t, d). case dict_get dbp (t, d) of None \<Rightarrow> [] | Some x \<Rightarrow> [F t d x]) qs) = map (\<lambda>(t, d). F t d (the (dict_get dbp (t, d)))) qs"
    if "set qs \<subseteq> fst ` set dbp" for qs and F :: "nat \<Rightarrow> nat \<Rightarrow> match_details \<Rightarrow> track_pairing"
    using that
  proof (induction qs)
    case (Cons p qs)
    then obtain x where "dict_get dbp p = Some x" using dict_get_key [of dbp p] by fastforce
    with Cons show ?case by (cases p) simp
  qed simp
  then show ?thesis using assms by (simp add: assignment_matches_def is_matching_def)
qed

text \<open>No track and no detection twice, among those given, and each above the threshold.\<close>

definition pairing_ok :: "track_state list \<Rightarrow> (nat \<times> person) list \<Rightarrow> pyfloat \<Rightarrow> track_pairing list \<Rightarrow> bool" where
  "pairing_ok tracks detections min_score ms \<longleftrightarrow>
     distinct (map (\<lambda>(t, _, _). trs_id t) ms) \<and> distinct (map (\<lambda>(_, i, _). i) ms) \<and>
     (\<forall>(t, i, p) \<in> set ms. t \<in> set tracks \<and> i \<in> fst ` set detections \<and> min_score \<le> mdt_score p)"

definition pairing_score :: "track_pairing list \<Rightarrow> pyfloat" where
  "pairing_score ms = sum_list (map (\<lambda>(_, _, p). mdt_score p) ms)"

lemma payload_score [simp]: "mdt_score (make_payload tm ms sv st d) = mdt_score d"
  by (simp add: make_payload_def match_details.defs)

lemma assignment_matches_ok:
  fixes tm :: tracking_math and st :: string
  assumes m: "is_matching dbp ps" and within: "pairs_within dbp (length tracks) (length detections)"
    and low: "\<forall>kv \<in> set dbp. min_score \<le> mdt_score (snd kv)"
    and ids: "distinct (map trs_id tracks)" "distinct (map fst detections)"
  defines "ms \<equiv> assignment_matches tm tracks detections dbp ps min_score st"
  shows "pairing_ok tracks detections min_score ms" and "pairing_score ms = total_score dbp ps" and "length ms = length ps"
proof -
  have ms: "ms = map (\<lambda>(t, d). (tracks ! t, fst (detections ! d),
      make_payload tm min_score ''global_optimal_assignment'' (Some st) (the (dict_get dbp (t, d))))) ps"
    unfolding ms_def by (rule assignment_matches_map [OF m])
  then show "length ms = length ps" by simp
  have key: "fst p < length tracks \<and> snd p < length detections \<and> (\<exists>x. dict_get dbp p = Some x \<and> min_score \<le> mdt_score x)"
    if "p \<in> set ps" for p
  proof -
    from m that have p: "p \<in> fst ` set dbp" by (auto simp: is_matching_def)
    then obtain x where "dict_get dbp p = Some x" using dict_get_key [of dbp p] by blast
    with low p within show ?thesis by (force simp: pairs_within_def dest: map_of_SomeD)
  qed
  have tid: "distinct (map (\<lambda>p. trs_id (tracks ! fst p)) ps)" and iid: "distinct (map (\<lambda>p. fst (detections ! snd p)) ps)"
  proof -
    have inj: "inj_on (\<lambda>k. trs_id (tracks ! k)) {..<length tracks}" "inj_on (\<lambda>k. fst (detections ! k)) {..<length detections}"
      using ids by (auto simp: inj_on_def distinct_conv_nth)
    have "distinct (map (\<lambda>k. trs_id (tracks ! k)) (map fst ps))" "distinct (map (\<lambda>k. fst (detections ! k)) (map snd ps))"
      unfolding distinct_map
      using m key inj unfolding is_matching_def by (force simp: distinct_map intro: inj_on_subset)+
    then show "distinct (map (\<lambda>p. trs_id (tracks ! fst p)) ps)" "distinct (map (\<lambda>p. fst (detections ! snd p)) ps)"
      by (simp_all add: comp_def)
  qed
  have "map (\<lambda>(t, _, _). trs_id t) ms = map (\<lambda>p. trs_id (tracks ! fst p)) ps"
    "map (\<lambda>(_, i, _). i) ms = map (\<lambda>p. fst (detections ! snd p)) ps"
    by (simp_all add: ms split_beta)
  moreover have "t \<in> set tracks \<and> i \<in> fst ` set detections \<and> min_score \<le> mdt_score p" if "(t, i, p) \<in> set ms" for t i p
    using that key unfolding ms by (fastforce simp: split_beta)
  ultimately show "pairing_ok tracks detections min_score ms"
    unfolding pairing_ok_def using tid iid by auto
  have "map (\<lambda>(_, _, p). mdt_score p) ms = map (pair_score dbp) ps"
    unfolding ms using key by (fastforce simp: pair_score_def)
  then show "pairing_score ms = total_score dbp ps" by (simp add: pairing_score_def total_score_def)
qed

lemma global_match_done:
  assumes tracks: "\<And>t. t \<in> set tracks \<Longrightarrow> boxes_ok t" and tm: "rounding_ok tm"
    and ids: "distinct (map trs_id tracks)" "distinct (map fst detections)"
  shows "\<exists>dbp ms. pair_scores tm tracks detections i min_score = done_with dbp \<and>
    global_match tm max_exact tracks detections i min_score = done_with ms \<and> pairing_ok tracks detections min_score ms \<and>
    (\<forall>qs. is_matching dbp qs \<longrightarrow>
       (if length tracks \<le> max_exact \<and> length detections \<le> max_exact then total_score dbp qs \<le> pairing_score ms
        else total_score dbp qs + of_nat (length qs) \<le> pairing_score ms + of_nat (length ms)))"
proof -
  obtain dbp where dbp: "pair_scores tm tracks detections i min_score = done_with dbp" "dict_ok dbp"
      "pairs_within dbp (length tracks) (length detections)" "scores_on_grid dbp"
      "\<forall>kv \<in> set dbp. 0 \<le> mdt_score (snd kv) \<and> min_score \<le> mdt_score (snd kv)"
    using pair_scores_done [OF tracks tm] by metis
  show ?thesis
  proof (cases "dbp = []")
    case True
    then have "global_match tm max_exact tracks detections i min_score = done_with []"
      using dbp(1) by (simp add: global_match_def)
    moreover have "total_score dbp qs \<le> 0 \<and> total_score dbp qs + of_nat (length qs) \<le> 0" if "is_matching dbp qs" for qs
      using that True by (simp add: is_matching_def)
    ultimately show ?thesis using dbp(1)
      by (intro exI [of _ dbp] exI [of _ "[]"]) (simp add: pairing_ok_def pairing_score_def)
  next
    case False
    with dbp(3) have ne: "tracks \<noteq> []" "detections \<noteq> []" by (cases dbp; auto simp: pairs_within_def)+
    have low: "\<forall>kv \<in> set dbp. min_score \<le> mdt_score (snd kv)" using dbp(5) by blast
    show ?thesis
    proof (cases "length tracks \<le> max_exact \<and> length detections \<le> max_exact")
      case True
      let ?ps = "snd (fst (solve dbp (length tracks) (length detections) 0 0 []))"
      note exact = exact_solution [OF dbp(4,3)]
      have "global_match tm max_exact tracks detections i min_score =
          done_with (assignment_matches tm tracks detections dbp ?ps min_score ''exact_dynamic_programming'')"
        using dbp(1) False ne True by (simp add: global_match_def)
      with dbp(1) True exact(2) assignment_matches_ok [OF exact(1) dbp(3) low ids] show ?thesis by auto
    next
      case False
      obtain ps where ps: "hungarian_assignment_pairs dbp (length tracks) (length detections) = done_with ps" "is_matching dbp ps"
          "\<And>qs. is_matching dbp qs \<Longrightarrow> total_score dbp qs + of_nat (length qs) \<le> total_score dbp ps + of_nat (length ps)"
        using hungarian_solution [OF \<open>dbp \<noteq> []\<close> dbp(2,3)] dbp(5) by (metis le_minus_one_simps(1) order_trans)
      have "global_match tm max_exact tracks detections i min_score =
          done_with (assignment_matches tm tracks detections dbp ps min_score ''hungarian_large_batch'')"
        using dbp(1) \<open>dbp \<noteq> []\<close> ne False ps(1) by (auto simp: global_match_def)
      with dbp(1) False ps(3) assignment_matches_ok [OF ps(2) dbp(3) low ids] show ?thesis by auto
    qed
  qed
qed

end
