(* ===== verification/Track_Fragments.thy ===== *)
theory Track_Fragments
  imports Track_Assignment
begin

text \<open>
  Joining the fragments of a track (\<open>app/tracking_association.py\<close>): candidate pairs that follow
  each other in time and look alike, a union-find forest over the track ids, groups that may
  only grow by tracks of disjoint time spans, and the rewriting of the ids in the frames.
\<close>

section \<open>Candidates\<close>

record merge_edge =
  mge_from :: string
  mge_to :: string
  mge_gap :: int
  mge_appearance :: pyfloat
  mge_motion_iou :: pyfloat
  mge_predicted_box :: "pyfloat list"

definition can_merge_track_fragments ::
  "tracking_math \<Rightarrow> int \<Rightarrow> pyfloat \<Rightarrow> pyfloat \<Rightarrow> track_state \<Rightarrow> track_state \<Rightarrow> merge_edge option attempt" where
  "can_merge_track_fragments tm max_gap min_appearance min_motion_iou l r =
     (let gap = first_frame_index r - last_frame_index l - 1 in
      if first_frame_index r \<le> last_frame_index l \<or> gap < 0 \<or> max_gap < gap then done_with None
      else case embedding_score tm (trs_embedding l) (trs_embedding r) of
          None \<Rightarrow> done_with None
        | Some appearance \<Rightarrow>
            if appearance < min_appearance then done_with None
            else case first_observation r of
                None \<Rightarrow> done_with None
              | Some first \<Rightarrow>
                  att_bind (predict_track_box tm l (obs_frame_index first)) (\<lambda>predicted.
                    let motion_iou = box_iou predicted (obs_box first) in
                    if motion_iou < min_motion_iou \<and> appearance < 92 / 100 then done_with None
                    else done_with (Some \<lparr>mge_from = trs_id r, mge_to = trs_id l, mge_gap = gap,
                      mge_appearance = tma_round tm 6 appearance, mge_motion_iou = tma_round tm 6 motion_iou,
                      mge_predicted_box = predicted\<rparr>)))"

text \<open>The inner loop over the later tracks, which ends at the first one that starts too late.\<close>

fun candidates_after :: "tracking_math \<Rightarrow> int \<Rightarrow> track_state \<Rightarrow> track_state list \<Rightarrow> merge_edge list attempt" where
  "candidates_after tm max_gap l [] = done_with []"
| "candidates_after tm max_gap l (r # rs) =
     (if max_gap < first_frame_index r - last_frame_index l - 1 then done_with []
      else att_bind (can_merge_track_fragments tm max_gap (86 / 100) (5 / 100) l r) (\<lambda>c.
        att_bind (candidates_after tm max_gap l rs) (\<lambda>cs. done_with (option_list c @ cs))))"

fun merge_candidates :: "tracking_math \<Rightarrow> int \<Rightarrow> track_state list \<Rightarrow> merge_edge list attempt" where
  "merge_candidates tm max_gap [] = done_with []"
| "merge_candidates tm max_gap (t # ts) =
     att_bind (candidates_after tm max_gap t ts) (\<lambda>cs.
       att_bind (merge_candidates tm max_gap ts) (\<lambda>rest. done_with (cs @ rest)))"

definition edge_key :: "merge_edge \<Rightarrow> int \<times> pyfloat \<times> pyfloat \<times> string \<times> string" where
  "edge_key e = (mge_gap e, - mge_appearance e, - mge_motion_iou e, mge_to e, mge_from e)"

section \<open>Union-find\<close>

record union_find =
  ufd_parent :: "(string, string) dict"
  ufd_rank :: "(string, nat) dict"

definition make_union_find :: "track_state list \<Rightarrow> union_find" where
  "make_union_find tracks = \<lparr>ufd_parent = fold (\<lambda>t d. dict_set (trs_id t) (trs_id t) d) tracks [],
     ufd_rank = fold (\<lambda>t d. dict_set (trs_id t) 0 d) tracks []\<rparr>"

lemma att_bind_mono [partial_function_mono]:
  assumes "mono_option m" and "\<And>y. mono_option (\<lambda>f. g y f)"
  shows "mono_option (\<lambda>f. att_bind (m f) (\<lambda>y. g y f))"
  unfolding att_bind_def
proof (rule bind_mono)
  show "mono_option m" by (rule assms(1))
  show "mono_option (\<lambda>f. case r of Inl e \<Rightarrow> Some (Inl e) | Inr y \<Rightarrow> g y f)" for r
    by (cases r) (simp_all add: assms(2) option.const_mono)
qed

text \<open>\<open>find\<close> compresses the path: every id on it becomes a child of the root.\<close>

partial_function (option) uf_find :: "string \<Rightarrow> (string, string) dict \<Rightarrow> (string \<times> (string, string) dict) attempt" where
  "uf_find track_id parents =
     (case dict_get parents track_id of
        None \<Rightarrow> raise_err KeyError
      | Some parent \<Rightarrow>
          if parent \<noteq> track_id
          then att_bind (uf_find parent parents) (\<lambda>p. done_with (fst p, dict_set track_id (fst p) (snd p)))
          else done_with (parent, parents))"

declare uf_find.simps [code]

definition rank_of :: "(string, nat) dict \<Rightarrow> string \<Rightarrow> nat attempt" where
  "rank_of ranks x = (case dict_get ranks x of None \<Rightarrow> raise_err KeyError | Some n \<Rightarrow> done_with n)"

definition uf_union :: "string \<Rightarrow> string \<Rightarrow> union_find \<Rightarrow> (bool \<times> union_find) attempt" where
  "uf_union left_id right_id u =
     att_bind (uf_find left_id (ufd_parent u)) (\<lambda>(left_root, p1).
       att_bind (uf_find right_id p1) (\<lambda>(right_root, p2).
         if left_root = right_root then done_with (False, u\<lparr>ufd_parent := p2\<rparr>)
         else
           att_bind (rank_of (ufd_rank u) left_root) (\<lambda>left_rank.
             att_bind (rank_of (ufd_rank u) right_root) (\<lambda>right_rank.
               let upper = (if left_rank < right_rank then right_root else left_root);
                   lower = (if left_rank < right_rank then left_root else right_root) in
               done_with (True, \<lparr>ufd_parent = dict_set lower upper p2,
                 ufd_rank = (if left_rank = right_rank then dict_set upper (left_rank + 1) (ufd_rank u) else ufd_rank u)\<rparr>)))))"

section \<open>Groups\<close>

definition track_time_bounds :: "track_state \<Rightarrow> int \<times> int" where
  "track_time_bounds t = (first_frame_index t, last_frame_index t)"

text \<open>Called for groups of at least one track.\<close>

definition track_groups_are_temporally_compatible :: "track_state list \<Rightarrow> track_state list \<Rightarrow> bool" where
  "track_groups_are_temporally_compatible l r =
     (let left_start = Min (set (map (\<lambda>t. fst (track_time_bounds t)) l)); left_end = Max (set (map (\<lambda>t. snd (track_time_bounds t)) l));
          right_start = Min (set (map (\<lambda>t. fst (track_time_bounds t)) r)); right_end = Max (set (map (\<lambda>t. snd (track_time_bounds t)) r))
      in left_end < right_start \<or> right_end < left_start)"

record group_state =
  gst_forest :: union_find
  gst_groups :: "(string, track_state list) dict"
  gst_accepted :: "merge_edge list"

definition group_at :: "(string, track_state list) dict \<Rightarrow> string \<Rightarrow> track_state list attempt" where
  "group_at groups x = (case dict_get groups x of None \<Rightarrow> raise_err KeyError | Some g \<Rightarrow> done_with g)"

text \<open>Joining two groups: both are popped, their members are stored under the new root.\<close>

definition join_groups :: "string \<Rightarrow> string \<Rightarrow> string \<Rightarrow> (string, track_state list) dict \<Rightarrow> (string, track_state list) dict" where
  "join_groups left_root right_root new_root groups =
     (let left_members = or_default (dict_get groups left_root) [];
          groups' = dict_pop left_root groups;
          right_members = or_default (dict_get groups' right_root) [];
          old_root = (if new_root = left_root then right_root else left_root)
      in dict_pop old_root (dict_set new_root (left_members @ right_members) (dict_pop right_root groups')))"

definition accept_candidate :: "merge_edge \<Rightarrow> group_state \<Rightarrow> group_state attempt" where
  "accept_candidate e g =
     att_bind (uf_find (mge_to e) (ufd_parent (gst_forest g))) (\<lambda>(left_root, p1).
       att_bind (uf_find (mge_from e) p1) (\<lambda>(right_root, p2).
         let forest = (gst_forest g)\<lparr>ufd_parent := p2\<rparr>; found = g\<lparr>gst_forest := forest\<rparr> in
         if left_root = right_root then done_with found
         else
           att_bind (group_at (gst_groups g) left_root) (\<lambda>left_group.
             att_bind (group_at (gst_groups g) right_root) (\<lambda>right_group.
               if \<not> track_groups_are_temporally_compatible left_group right_group then done_with found
               else
                 att_bind (uf_union (mge_to e) (mge_from e) forest) (\<lambda>(_, joined).
                   att_bind (uf_find (mge_to e) (ufd_parent joined)) (\<lambda>(new_root, p3).
                     done_with \<lparr>gst_forest = joined\<lparr>ufd_parent := p3\<rparr>,
                       gst_groups = join_groups left_root right_root new_root (gst_groups g),
                       gst_accepted = gst_accepted g @ [e]\<rparr>))))))"

definition initial_groups :: "track_state list \<Rightarrow> group_state" where
  "initial_groups tracks = \<lparr>gst_forest = make_union_find tracks,
     gst_groups = fold (\<lambda>t d. dict_set (trs_id t) [t] d) tracks [], gst_accepted = []\<rparr>"

section \<open>Merging a group\<close>

definition merge_track_state :: "tracking_math \<Rightarrow> track_state \<Rightarrow> track_state \<Rightarrow> track_state" where
  "merge_track_state tm primary secondary =
     (let joined = primary\<lparr>
        trs_hits := trs_hits primary + trs_hits secondary,
        trs_age := trs_age primary + trs_age secondary,
        trs_confidence_sum := trs_confidence_sum primary + trs_confidence_sum secondary,
        trs_quality_sum := trs_quality_sum primary + trs_quality_sum secondary,
        trs_frame_indexes := trs_frame_indexes primary @ trs_frame_indexes secondary,
        trs_observations := py_sorted obs_frame_index (trs_observations primary @ trs_observations secondary),
        trs_interpolated := trs_interpolated primary @ trs_interpolated secondary,
        trs_samples := trs_samples primary @ trs_samples secondary,
        trs_face_samples := trs_face_samples primary @ trs_face_samples secondary,
        trs_decisions := trs_decisions primary @ trs_decisions secondary\<rparr>;
        placed = (case last_observation joined of
            None \<Rightarrow> joined
          | Some latest \<Rightarrow> joined\<lparr>trs_last_frame := obs_frame_index latest, trs_last_box := obs_box latest\<rparr>)
      in case tpl_embedding (aggregate_track_template tm (trs_samples placed) True) of
           None \<Rightarrow> placed
         | Some embedding \<Rightarrow> placed\<lparr>trs_embedding := Some embedding\<rparr>)"

definition rewrite_person :: "string \<Rightarrow> string \<Rightarrow> person \<Rightarrow> person" where
  "rewrite_person from_id to_id q =
     (if psn_track_id q = Some from_id
      then q\<lparr>psn_track_id := Some to_id, psn_merged_from := Some from_id, psn_track_state := Some ''merged_fragment''\<rparr>
      else q)"

definition rewrite_merged_track_ids :: "string \<Rightarrow> string \<Rightarrow> track_frame list \<Rightarrow> track_frame list" where
  "rewrite_merged_track_ids from_id to_id frames =
     map (\<lambda>f. f\<lparr>tfr_persons := map (rewrite_person from_id to_id) (tfr_persons f)\<rparr>) frames"

text \<open>A reported merge; the details are those of the accepted edge with the same source, if any.\<close>

record track_merge =
  tmg_from :: string
  tmg_to :: string
  tmg_strategy :: string
  tmg_details :: "merge_edge option"

text \<open>\<open>{edge["from_track_id"]: edge for edge in accepted_edges}\<close>\<close>

definition edge_by_source :: "merge_edge list \<Rightarrow> (string, merge_edge) dict" where
  "edge_by_source edges = fold (\<lambda>e d. dict_set (mge_from e) e d) edges []"

record merge_state =
  mst_frames :: "track_frame list"
  mst_merges :: "track_merge list"
  mst_tracks :: "track_state list"

definition member_order :: "track_state list \<Rightarrow> track_state list" where
  "member_order g = py_sorted (\<lambda>t. (first_frame_index t, trs_id t)) g"

definition merge_group :: "tracking_math \<Rightarrow> (string, merge_edge) dict \<Rightarrow> track_state list \<Rightarrow> merge_state \<Rightarrow> merge_state" where
  "merge_group tm edges g s =
     (let members = member_order g; primary = hd members in
      \<lparr>mst_frames = fold (\<lambda>t. rewrite_merged_track_ids (trs_id t) (trs_id primary)) (tl members) (mst_frames s),
       mst_merges = mst_merges s @ map (\<lambda>t. \<lparr>tmg_from = trs_id t, tmg_to = trs_id primary, tmg_strategy = ''union_find_batch'',
         tmg_details = dict_get edges (trs_id t)\<rparr>) (tl members),
       mst_tracks = mst_tracks s @ [fold (\<lambda>t p. merge_track_state tm p t) (tl members) primary]\<rparr>)"

definition group_start :: "track_state list \<Rightarrow> int" where
  "group_start g = Min (set (map first_frame_index g))"

record fragment_merge =
  fmg_max_gap :: int
  fmg_candidate_count :: nat
  fmg_merge_count :: nat
  fmg_merges :: "track_merge list"

definition merge_track_fragments ::
  "tracking_math \<Rightarrow> int \<Rightarrow> track_frame list \<Rightarrow> track_state list \<Rightarrow> (track_frame list \<times> track_state list \<times> fragment_merge) attempt" where
  "merge_track_fragments tm max_gap frames tracks =
     (let ordered = member_order tracks in
      att_bind (merge_candidates tm max_gap ordered) (\<lambda>found.
        let candidates = py_sorted edge_key found in
        att_bind (att_fold accept_candidate candidates (initial_groups ordered)) (\<lambda>g.
          let s = fold (merge_group tm (edge_by_source (gst_accepted g)))
                (py_sorted group_start (map snd (gst_groups g)))
                \<lparr>mst_frames = frames, mst_merges = [], mst_tracks = []\<rparr> in
          done_with (mst_frames s, py_sorted trs_id (mst_tracks s),
            \<lparr>fmg_max_gap = max_gap, fmg_candidate_count = length candidates,
             fmg_merge_count = length (mst_merges s), fmg_merges = take 50 (mst_merges s)\<rparr>))))"

end
