(* ===== verification/Track_Association.thy ===== *)
theory Track_Association
  imports Track_Fragments
begin

text \<open>
  \<open>associate_person_tracks\<close> (\<open>app/tracking_association.py\<close>): for every frame the confident detections
  are matched to the active tracks, then the less confident ones to the tracks left; what remains
  of the confident ones starts new tracks; tracks not seen for too long are finished.
\<close>

record association_config =
  acf_high_confidence :: pyfloat
  acf_low_confidence :: pyfloat
  acf_min_match_score :: pyfloat
  acf_max_age :: int
  acf_max_fragment_merge_gap :: int
  acf_max_global_association_size :: nat
  acf_include_template_embeddings :: bool

record association_state =
  ass_active :: "track_state list"
  ass_finished :: "track_state list"
  ass_next_number :: nat

text \<open>\<open>enumerate(persons)\<close>\<close>

definition enumerate_persons :: "person list \<Rightarrow> (nat \<times> person) list" where
  "enumerate_persons ps = zip [0..<length ps] ps"

definition track_name :: "nat \<Rightarrow> string" where
  "track_name n = ''trk_'' @ zero_pad 4 n"

definition modify_track :: "string \<Rightarrow> (track_state \<Rightarrow> track_state) \<Rightarrow> track_state list \<Rightarrow> track_state list" where
  "modify_track x f tracks = map (\<lambda>t. if trs_id t = x then f t else t) tracks"

text \<open>The body of the loops over the matches: the track sees the person, the person names the track.\<close>

definition take_match :: "tracking_math \<Rightarrow> int \<Rightarrow> string \<Rightarrow> track_pairing \<Rightarrow> person list \<times> track_state list \<Rightarrow> person list \<times> track_state list" where
  "take_match tm frame_index state_name m s =
     (case m of (t, i, details) \<Rightarrow>
        let q = fst s ! i in
        ((fst s)[i := q\<lparr>psn_track_id := Some (trs_id t), psn_track_state := Some state_name, psn_track_match := Some (Matched details)\<rparr>],
         modify_track (trs_id t) (track_update tm frame_index q (person_embedding q) (Some details)) (snd s)))"

definition new_track :: "int \<Rightarrow> nat \<Rightarrow> person \<Rightarrow> track_state" where
  "new_track frame_index n q =
     \<lparr>trs_id = track_name n, trs_last_frame = frame_index, trs_last_box = person_box q, trs_embedding = person_embedding q,
      trs_hits = 1, trs_age = 1, trs_confidence_sum = person_confidence q, trs_quality_sum = person_quality_score q,
      trs_frame_indexes = [frame_index], trs_observations = [make_observation frame_index q], trs_interpolated = [],
      trs_samples = option_list (make_embedding_sample frame_index q (person_embedding q)),
      trs_face_samples = option_list (make_embedding_sample frame_index q (face_embedding q)), trs_decisions = []\<rparr>"

text \<open>A confident detection that no track took starts one.\<close>

definition start_track :: "int \<Rightarrow> nat \<Rightarrow> person list \<times> track_state list \<times> nat \<Rightarrow> person list \<times> track_state list \<times> nat" where
  "start_track frame_index i s =
     (case s of (persons, active, n) \<Rightarrow>
        let q = persons ! i in
        (persons[i := q\<lparr>psn_track_id := Some (track_name n), psn_track_state := Some ''new'', psn_track_match := Some Started\<rparr>],
         active @ [new_track frame_index n q], n + 1))"

definition leave_unconfirmed :: "nat list \<Rightarrow> person list \<Rightarrow> person list" where
  "leave_unconfirmed matched persons =
     map (\<lambda>(i, q). if i \<in> set matched then q else q\<lparr>psn_track_id := None, psn_track_state := Some ''unconfirmed_low_confidence''\<rparr>)
       (enumerate_persons persons)"

definition associate_frame ::
  "tracking_math \<Rightarrow> association_config \<Rightarrow> track_frame \<Rightarrow> association_state \<Rightarrow> (track_frame \<times> association_state) attempt" where
  "associate_frame tm cfg frame s =
     (let frame_index = tfr_frame_index frame; persons = tfr_persons frame;
          detections = enumerate_persons persons;
          high = filter (\<lambda>(i, q). acf_high_confidence cfg \<le> raw_score q) detections;
          low = filter (\<lambda>(i, q). acf_low_confidence cfg \<le> raw_score q \<and> raw_score q < acf_high_confidence cfg) detections;
          unmatched = filter (\<lambda>t. frame_index - trs_last_frame t \<le> acf_max_age cfg) (ass_active s) in
      att_bind (global_match tm (acf_max_global_association_size cfg) unmatched high frame_index (acf_min_match_score cfg)) (\<lambda>high_matches.
        let (persons1, active1) = fold (take_match tm frame_index ''tracked'') high_matches (persons, ass_active s);
            matched1 = map (\<lambda>(_, i, _). i) high_matches;
            remaining = filter (\<lambda>t. trs_id t \<in> trs_id ` set unmatched \<and> Some (trs_id t) \<notin> psn_track_id ` set persons1) active1 in
        att_bind (global_match tm (acf_max_global_association_size cfg) remaining
            (map (\<lambda>(i, _). (i, persons1 ! i)) (filter (\<lambda>(i, _). i \<notin> set matched1) low)) frame_index
            (max (18 / 100) (acf_min_match_score cfg - 8 / 100))) (\<lambda>low_matches.
          let (persons2, active2) = fold (take_match tm frame_index ''recovered_low_confidence'') low_matches (persons1, active1);
              matched2 = matched1 @ map (\<lambda>(_, i, _). i) low_matches;
              fresh = filter (\<lambda>i. i \<notin> set matched2) (map fst high);
              (persons3, active3, next) = fold (start_track frame_index) fresh (persons2, active2, ass_next_number s);
              persons4 = leave_unconfirmed (matched2 @ fresh) persons3 in
          done_with (frame\<lparr>tfr_persons := persons4\<rparr>,
            \<lparr>ass_active = filter (\<lambda>t. \<not> acf_max_age cfg < frame_index - trs_last_frame t) active3,
             ass_finished = ass_finished s @ filter (\<lambda>t. acf_max_age cfg < frame_index - trs_last_frame t) active3,
             ass_next_number = next\<rparr>))))"

fun associate_frames ::
  "tracking_math \<Rightarrow> association_config \<Rightarrow> track_frame list \<Rightarrow> association_state \<Rightarrow> (track_frame list \<times> association_state) attempt" where
  "associate_frames tm cfg [] s = done_with ([], s)"
| "associate_frames tm cfg (f # fs) s =
     att_bind (associate_frame tm cfg f s) (\<lambda>(f', s').
       att_bind (associate_frames tm cfg fs s') (\<lambda>(fs', s''). done_with (f' # fs', s'')))"

definition drop_embeddings :: "track_frame \<Rightarrow> track_frame" where
  "drop_embeddings f = f\<lparr>tfr_persons := map (\<lambda>q. q\<lparr>psn_tracking_embedding := None, psn_face_embedding := None\<rparr>) (tfr_persons f)\<rparr>"

record association_result =
  asr_config :: association_config
  asr_fragment_merge :: fragment_merge
  asr_tracks :: "public_track list"
  asr_track_count :: nat

definition associate_person_tracks ::
  "tracking_math \<Rightarrow> association_config \<Rightarrow> track_frame list \<Rightarrow> (track_frame list \<times> association_result) attempt" where
  "associate_person_tracks tm cfg frames =
     att_bind (associate_frames tm cfg frames \<lparr>ass_active = [], ass_finished = [], ass_next_number = 1\<rparr>) (\<lambda>(frames1, s).
       att_bind (merge_track_fragments tm (acf_max_fragment_merge_gap cfg) frames1
           (py_sorted trs_id (ass_finished s @ ass_active s))) (\<lambda>(frames2, tracks, merged).
         att_bind (postprocess_tracklets tm (acf_max_age cfg) frames2 tracks) (\<lambda>(frames3, tracks').
           done_with (map drop_embeddings frames3,
             \<lparr>asr_config = cfg, asr_fragment_merge = merged,
              asr_tracks = map (public_dict tm (acf_include_template_embeddings cfg)) tracks',
              asr_track_count = length tracks'\<rparr>))))"

end
