(* ===== verification/Track_Frames.thy ===== *)
theory Track_Frames
  imports Track_Matching Track_Association
begin

text \<open>
  The association of a frame and of a sequence of frames: it returns when every person has a box
  of four coordinates, no frame shows a track twice, and every id shown is that of a track which
  lists the frame.
\<close>

section \<open>Frames and tracks\<close>

definition persons_boxed :: "person list \<Rightarrow> bool" where
  "persons_boxed ps \<longleftrightarrow> (\<forall>q \<in> set ps. \<exists>b. psn_box q = Some b \<and> 4 \<le> length b)"

definition shows_tracks_once :: "person list \<Rightarrow> bool" where
  "shows_tracks_once ps \<longleftrightarrow> (\<forall>i < length ps. \<forall>j < length ps. \<forall>a.
     psn_track_id (ps ! i) = Some a \<longrightarrow> psn_track_id (ps ! j) = Some a \<longrightarrow> i = j)"

definition seen_in :: "track_state list \<Rightarrow> int \<Rightarrow> string \<Rightarrow> bool" where
  "seen_in ts k a \<longleftrightarrow> (\<exists>t \<in> set ts. trs_id t = a \<and> k \<in> set (trs_frame_indexes t))"

definition frame_tracked :: "track_state list \<Rightarrow> track_frame \<Rightarrow> bool" where
  "frame_tracked ts f \<longleftrightarrow> shows_tracks_once (tfr_persons f) \<and> persons_boxed (tfr_persons f) \<and>
     (\<forall>q \<in> set (tfr_persons f). \<forall>a. psn_track_id q = Some a \<longrightarrow> seen_in ts (tfr_frame_index f) a)"

definition named_below :: "nat \<Rightarrow> string \<Rightarrow> bool" where
  "named_below n a \<longleftrightarrow> (\<exists>k < n. a = track_name k)"

definition tracks_ok :: "nat \<Rightarrow> track_state list \<Rightarrow> bool" where
  "tracks_ok n ts \<longleftrightarrow> distinct (map trs_id ts) \<and>
     (\<forall>t \<in> set ts. named_below n (trs_id t) \<and> boxes_ok t \<and> trs_frame_indexes t \<noteq> [])"

definition grows :: "track_state \<Rightarrow> track_state \<Rightarrow> bool" where
  "grows t t' \<longleftrightarrow> trs_id t' = trs_id t \<and> set (trs_frame_indexes t) \<subseteq> set (trs_frame_indexes t') \<and> (boxes_ok t \<longrightarrow> boxes_ok t')"

lemma track_name_inj [simp]: "track_name m = track_name n \<longleftrightarrow> m = n"
  by (simp add: track_name_def zero_pad_inj)

lemma track_name_fresh: "n \<le> k \<Longrightarrow> \<not> named_below n (track_name k)"
  by (auto simp: named_below_def)

lemma grows_refl: "grows t t"
  by (simp add: grows_def)

lemma grows_all_refl: "list_all2 grows ts ts"
  by (simp add: list_all2_same grows_refl)

lemma grows_trans: "grows a b \<Longrightarrow> grows b c \<Longrightarrow> grows a c"
  by (auto simp: grows_def)

lemma grows_ids: "list_all2 grows ts ts' \<Longrightarrow> map trs_id ts' = map trs_id ts"
  by (induction ts ts' rule: list_all2_induct) (simp_all add: grows_def)

lemma grows_seen: "list_all2 grows ts ts' \<Longrightarrow> seen_in ts k a \<Longrightarrow> seen_in ts' k a"
  by (induction ts ts' rule: list_all2_induct) (auto simp: seen_in_def grows_def)

lemma grows_boxes:
  assumes "list_all2 grows ts ts'" "\<forall>t \<in> set ts. boxes_ok t \<and> trs_frame_indexes t \<noteq> []"
  shows "\<forall>t \<in> set ts'. boxes_ok t \<and> trs_frame_indexes t \<noteq> []"
  using assms by (induction ts ts' rule: list_all2_induct) (auto simp: grows_def)

lemma grows_tracks_ok: "list_all2 grows ts ts' \<Longrightarrow> tracks_ok n ts \<Longrightarrow> tracks_ok n ts'"
  unfolding tracks_ok_def using grows_boxes grows_ids
  by (metis (no_types, lifting) list.set_map image_iff)

section \<open>Taking matches\<close>

lemma track_update_grows:
  assumes "psn_box q = Some b" "4 \<le> length b"
  shows "grows t (track_update tm k q e d t)" "k \<in> set (trs_frame_indexes (track_update tm k q e d t))"
  using assms by (auto simp: grows_def track_update_def Let_def boxes_ok_def or_default_def)

lemma modify_track_grows:
  assumes "\<And>t. grows t (f t)"
  shows "list_all2 grows ts (modify_track x f ts)"
  using assms by (auto simp: modify_track_def list_all2_conv_all_nth grows_refl)

lemma modify_track_seen:
  assumes "x \<in> trs_id ` set ts" "\<And>t. k \<in> set (trs_frame_indexes (f t))" "\<And>t. grows t (f t)"
  shows "seen_in (modify_track x f ts) k x"
  using assms unfolding seen_in_def modify_track_def grows_def by force

text \<open>What the loop over the matches leaves: who is named, and what else stays.\<close>

lemma take_matches:
  assumes "\<And>t i p. (t, i, p) \<in> set ms \<Longrightarrow> i < length ps \<and> trs_id t \<in> trs_id ` set ts"
    and "persons_boxed ps" "distinct (map (\<lambda>(_, i, _). i) ms)"
  shows "\<exists>ps' ts'. fold (take_match tm k st) ms (ps, ts) = (ps', ts') \<and> length ps' = length ps \<and>
    list_all2 grows ts ts' \<and> persons_boxed ps' \<and>
    (\<forall>(t, i, p) \<in> set ms. psn_track_id (ps' ! i) = Some (trs_id t) \<and> seen_in ts' k (trs_id t)) \<and>
    (\<forall>i. i \<notin> (\<lambda>(_, i, _). i) ` set ms \<longrightarrow> ps' ! i = ps ! i)"
  using assms
proof (induction ms arbitrary: ps ts)
  case Nil
  then show ?case by (simp add: grows_all_refl)
next
  case (Cons m ms)
  obtain t i p where m: "m = (t, i, p)" by (cases m) auto
  from Cons.prems(1) m have i: "i < length ps" "trs_id t \<in> trs_id ` set ts" by auto
  let ?q = "ps ! i"
  obtain b where b: "psn_box ?q = Some b" "4 \<le> length b" using Cons.prems(2) nth_mem [OF i(1)] unfolding persons_boxed_def by blast
  let ?q' = "?q\<lparr>psn_track_id := Some (trs_id t), psn_track_state := Some st, psn_track_match := Some (Matched p)\<rparr>"
  let ?f = "track_update tm k ?q (person_embedding ?q) (Some p)"
  let ?ts = "modify_track (trs_id t) ?f ts"
  have g: "list_all2 grows ts ?ts" by (rule modify_track_grows) (rule track_update_grows(1) [OF b])
  have seen: "seen_in ?ts k (trs_id t)"
    by (rule modify_track_seen [OF i(2)]) (rule track_update_grows [OF b])+
  have boxed: "persons_boxed (ps[i := ?q'])"
    using Cons.prems(2) b unfolding persons_boxed_def by (auto dest!: set_update_subset_insert [THEN subsetD])
  have "\<exists>ps' ts'. fold (take_match tm k st) ms (ps[i := ?q'], ?ts) = (ps', ts') \<and> length ps' = length (ps[i := ?q']) \<and>
    list_all2 grows ?ts ts' \<and> persons_boxed ps' \<and>
    (\<forall>(t, i, p) \<in> set ms. psn_track_id (ps' ! i) = Some (trs_id t) \<and> seen_in ts' k (trs_id t)) \<and>
    (\<forall>j. j \<notin> (\<lambda>(_, i, _). i) ` set ms \<longrightarrow> ps' ! j = ps[i := ?q'] ! j)"
  proof (rule Cons.IH)
    show "j < length (ps[i := ?q']) \<and> trs_id u \<in> trs_id ` set ?ts" if "(u, j, p) \<in> set ms" for u j p
      using Cons.prems(1) [of u j p] that grows_ids [OF g] by (metis length_list_update list.set_intros(2) list.set_map)
  qed (use boxed Cons.prems(3) in auto)
  then obtain ps' ts' where IH: "fold (take_match tm k st) ms (ps[i := ?q'], ?ts) = (ps', ts')" "length ps' = length ps"
      "list_all2 grows ?ts ts'" "persons_boxed ps'"
      "\<forall>(t, i, p) \<in> set ms. psn_track_id (ps' ! i) = Some (trs_id t) \<and> seen_in ts' k (trs_id t)"
      "\<And>j. j \<notin> (\<lambda>(_, i, _). i) ` set ms \<Longrightarrow> ps' ! j = ps[i := ?q'] ! j" by auto
  have run: "fold (take_match tm k st) (m # ms) (ps, ts) = (ps', ts')" using IH(1) by (simp add: m take_match_def Let_def)
  have fresh: "i \<notin> (\<lambda>(_, i, _). i) ` set ms" using Cons.prems(3) m by auto
  have "psn_track_id (ps' ! i) = Some (trs_id t)" using IH(6) [OF fresh] i(1) by simp
  moreover have "list_all2 grows ts ts'" by (rule list_all2_trans [OF grows_trans g IH(3)])
  moreover have "seen_in ts' k (trs_id t)" by (rule grows_seen [OF IH(3) seen])
  ultimately show ?case
    using run IH(2,4,5,6) by (intro exI [of _ ps'] exI [of _ ts']) (auto simp: m nth_list_update)
qed

definition matches_taken :: "int \<Rightarrow> track_pairing list \<Rightarrow> person list \<Rightarrow> track_state list \<Rightarrow> person list \<Rightarrow> track_state list \<Rightarrow> bool" where
  "matches_taken k ms ps ts ps' ts' \<longleftrightarrow> length ps' = length ps \<and> list_all2 grows ts ts' \<and> persons_boxed ps' \<and>
    (\<forall>(t, i, p) \<in> set ms. psn_track_id (ps' ! i) = Some (trs_id t) \<and> seen_in ts' k (trs_id t)) \<and>
    (\<forall>i. i \<notin> (\<lambda>(_, i, _). i) ` set ms \<longrightarrow> ps' ! i = ps ! i)"

lemma matches_takenD:
  assumes "matches_taken k ms ps ts ps' ts'"
  shows "length ps' = length ps" "list_all2 grows ts ts'" "persons_boxed ps'"
    "\<And>t i p. (t, i, p) \<in> set ms \<Longrightarrow> psn_track_id (ps' ! i) = Some (trs_id t) \<and> seen_in ts' k (trs_id t)"
    "\<And>i. i \<notin> (\<lambda>(_, i, _). i) ` set ms \<Longrightarrow> ps' ! i = ps ! i"
  using assms unfolding matches_taken_def by blast+

lemma take_matches_taken:
  assumes "\<forall>(t, i, p) \<in> set ms. i < length ps \<and> trs_id t \<in> trs_id ` set ts"
    and "persons_boxed ps" "distinct (map (\<lambda>(_, i, _). i) ms)"
  shows "\<exists>ps' ts'. fold (take_match tm k st) ms (ps, ts) = (ps', ts') \<and> matches_taken k ms ps ts ps' ts'"
  unfolding matches_taken_def by (rule take_matches [OF _ assms(2,3)]) (use assms(1) in blast)

section \<open>Starting tracks\<close>

lemma start_tracks:
  assumes "persons_boxed ps" "distinct is" "\<And>i. i \<in> set is \<Longrightarrow> i < length ps"
  shows "\<exists>ps' news. fold (start_track k) is (ps, ts, n) = (ps', ts @ news, n + length is) \<and> length ps' = length ps \<and>
    persons_boxed ps' \<and> map trs_id news = map track_name [n..<n + length is] \<and>
    (\<forall>t \<in> set news. boxes_ok t \<and> trs_frame_indexes t = [k]) \<and>
    (\<forall>j < length is. psn_track_id (ps' ! (is ! j)) = Some (track_name (n + j))) \<and>
    (\<forall>i. i \<notin> set is \<longrightarrow> ps' ! i = ps ! i)"
  using assms
proof (induction "is" arbitrary: ps ts n)
  case Nil
  then show ?case by simp
next
  case (Cons i "is")
  let ?q = "ps ! i"
  have i: "i < length ps" using Cons.prems(3) by simp
  obtain b where b: "psn_box ?q = Some b" "4 \<le> length b" using Cons.prems(1) nth_mem [OF i] unfolding persons_boxed_def by blast
  let ?q' = "?q\<lparr>psn_track_id := Some (track_name n), psn_track_state := Some ''new'', psn_track_match := Some Started\<rparr>"
  have boxed: "persons_boxed (ps[i := ?q'])"
    using Cons.prems(1) b unfolding persons_boxed_def by (auto dest!: set_update_subset_insert [THEN subsetD])
  from Cons.IH [of "ps[i := ?q']" "ts @ [new_track k n ?q]" "n + 1"] boxed Cons.prems(2,3)
  obtain ps' news where IH: "fold (start_track k) is (ps[i := ?q'], ts @ [new_track k n ?q], n + 1) = (ps', (ts @ [new_track k n ?q]) @ news, n + 1 + length is)"
      "length ps' = length ps" "persons_boxed ps'" "map trs_id news = map track_name [n + 1..<n + 1 + length is]"
      "\<forall>t \<in> set news. boxes_ok t \<and> trs_frame_indexes t = [k]"
      "\<forall>j < length is. psn_track_id (ps' ! (is ! j)) = Some (track_name (n + 1 + j))"
      "\<And>j. j \<notin> set is \<Longrightarrow> ps' ! j = ps[i := ?q'] ! j" by auto
  have "psn_track_id (ps' ! i) = Some (track_name n)" using IH(7) [of i] i Cons.prems(2) by simp
  then have named: "\<forall>j < length (i # is). psn_track_id (ps' ! ((i # is) ! j)) = Some (track_name (n + j))"
    using IH(6) by (auto simp: less_Suc_eq_0_disj)
  have "boxes_ok (new_track k n ?q)" using b by (simp add: new_track_def boxes_ok_def make_observation_def person_box_def or_default_def)
  moreover have "map trs_id (new_track k n ?q # news) = map track_name [n..<n + length (i # is)]"
  proof -
    have "[n..<n + length (i # is)] = n # [n + 1..<n + 1 + length is]" by (simp add: upt_conv_Cons del: upt_Suc)
    with IH(4) show ?thesis by (simp add: new_track_def del: upt_Suc)
  qed
  moreover have "fold (start_track k) (i # is) (ps, ts, n) = (ps', ts @ (new_track k n ?q # news), n + length (i # is))"
    using IH(1) by (simp add: start_track_def Let_def)
  moreover have "\<forall>j. j \<notin> set (i # is) \<longrightarrow> ps' ! j = ps ! j" using IH(7) by auto
  moreover have "\<forall>t \<in> set (new_track k n ?q # news). boxes_ok t \<and> trs_frame_indexes t = [k]"
    using IH(5) calculation(1) by (auto simp: new_track_def)
  ultimately show ?case using IH(2,3) named by blast
qed

section \<open>A frame\<close>

lemma enumerate_persons_nth: "(i, q) \<in> set (enumerate_persons ps) \<longleftrightarrow> i < length ps \<and> q = ps ! i"
  by (auto simp: enumerate_persons_def set_zip intro!: exI [of _ i])

lemma enumerate_persons_fst: "map fst (enumerate_persons ps) = [0..<length ps]"
  by (simp add: enumerate_persons_def)

lemma distinct_enumerate_filter: "distinct (map fst (filter P (enumerate_persons ps)))"
  using distinct_map_filter [of fst "enumerate_persons ps" P] by (simp add: enumerate_persons_fst)

lemma leave_unconfirmed_nth:
  "i < length ps \<Longrightarrow> leave_unconfirmed matched ps ! i =
     (if i \<in> set matched then ps ! i else (ps ! i)\<lparr>psn_track_id := None, psn_track_state := Some ''unconfirmed_low_confidence''\<rparr>)"
  by (simp add: leave_unconfirmed_def enumerate_persons_def)

lemma length_leave_unconfirmed [simp]: "length (leave_unconfirmed matched ps) = length ps"
  by (simp add: leave_unconfirmed_def enumerate_persons_def)

definition all_tracks :: "association_state \<Rightarrow> track_state list" where
  "all_tracks s = ass_finished s @ ass_active s"

text \<open>Every track of the first state is in the second, with all it saw.\<close>

definition keeps_seen :: "track_state list \<Rightarrow> track_state list \<Rightarrow> bool" where
  "keeps_seen ts ts' \<longleftrightarrow> (\<forall>k a. seen_in ts k a \<longrightarrow> seen_in ts' k a)"

lemma frame_tracked_keeps: "keeps_seen ts ts' \<Longrightarrow> frame_tracked ts f \<Longrightarrow> frame_tracked ts' f"
  unfolding frame_tracked_def keeps_seen_def by blast

lemma seen_in_append: "seen_in (xs @ ys) k a \<longleftrightarrow> seen_in xs k a \<or> seen_in ys k a"
  by (auto simp: seen_in_def)

lemma seen_in_mset: "set xs = set ys \<Longrightarrow> seen_in xs = seen_in ys"
  by (auto simp: seen_in_def fun_eq_iff)

lemma tracks_ok_perm: "mset xs = mset ys \<Longrightarrow> tracks_ok n xs \<Longrightarrow> tracks_ok n ys"
  unfolding tracks_ok_def by (metis mset_eq_setD mset_map mset_eq_imp_distinct_iff)

lemma tracks_ok_append:
  assumes "tracks_ok n ts" "map trs_id news = map track_name [n..<n + l]" "\<forall>t \<in> set news. boxes_ok t \<and> trs_frame_indexes t \<noteq> []"
  shows "tracks_ok (n + l) (ts @ news)"
proof -
  have ids: "trs_id ` set news = track_name ` {n..<n + l}" using assms(2) by (metis list.set_map set_upt)
  have "distinct (map trs_id news)" unfolding assms(2) by (simp add: distinct_map inj_on_def)
  moreover have "trs_id t \<notin> trs_id ` set news" if "t \<in> set ts" for t
    using assms(1) that track_name_fresh unfolding ids tracks_ok_def by fastforce
  moreover have "named_below (n + l) (trs_id t)" if "t \<in> set (ts @ news)" for t
  proof (cases "t \<in> set ts")
    case True
    with assms(1) show ?thesis unfolding tracks_ok_def named_below_def by (meson trans_less_add1)
  next
    case False
    with that ids have "trs_id t \<in> track_name ` {n..<n + l}" by auto
    then show ?thesis by (auto simp: named_below_def)
  qed
  ultimately show ?thesis using assms(1,3) unfolding tracks_ok_def by (auto simp: image_iff)
qed

lemma global_match_pairing:
  assumes "tracks_ok n ts" "distinct (map fst ds)" "rounding_ok tm"
  shows "\<exists>ms. global_match tm mx (filter P ts) ds i m = done_with ms \<and> pairing_ok (filter P ts) ds m ms"
proof -
  from assms(1) have "boxes_ok t" if "t \<in> set (filter P ts)" for t using that by (simp add: tracks_ok_def)
  moreover from assms(1) have "distinct (map trs_id (filter P ts))" by (simp add: tracks_ok_def distinct_map_filter)
  ultimately show ?thesis using global_match_done [OF _ assms(3) _ assms(2), of "filter P ts"] by metis
qed

lemma associate_frame_done:
  assumes tm: "rounding_ok tm" and boxed: "persons_boxed (tfr_persons f)" and ok: "tracks_ok (ass_next_number s) (all_tracks s)"
  shows "\<exists>f' s'. associate_frame tm cfg f s = done_with (f', s') \<and> tracks_ok (ass_next_number s') (all_tracks s') \<and>
    keeps_seen (all_tracks s) (all_tracks s') \<and> frame_tracked (all_tracks s') f' \<and> tfr_frame_index f' = tfr_frame_index f"
proof -
  define k where "k = tfr_frame_index f"
  define persons where "persons = tfr_persons f"
  define high where "high = filter (\<lambda>(i, q). acf_high_confidence cfg \<le> raw_score q) (enumerate_persons persons)"
  define low where "low = filter (\<lambda>(i, q). acf_low_confidence cfg \<le> raw_score q \<and> raw_score q < acf_high_confidence cfg) (enumerate_persons persons)"
  define unmatched where "unmatched = filter (\<lambda>t. k - trs_last_frame t \<le> acf_max_age cfg) (ass_active s)"
  note defs = k_def persons_def high_def low_def unmatched_def
  let ?idx = "\<lambda>(_ :: track_state, i :: nat, _ :: match_payload). i"
  have active: "tracks_ok (ass_next_number s) (ass_active s)" using ok by (auto simp: tracks_ok_def all_tracks_def)
  have ids1: "distinct (map fst high)" unfolding high_def by (rule distinct_enumerate_filter)
  obtain hm where hm: "global_match tm (acf_max_global_association_size cfg) unmatched high k (acf_min_match_score cfg) = done_with hm"
      "pairing_ok unmatched high (acf_min_match_score cfg) hm"
    using global_match_pairing [OF active ids1 tm] unfolding unmatched_def by blast
  have hm_in: "i < length persons \<and> trs_id t \<in> trs_id ` set (ass_active s)" if "(t, i, p) \<in> set hm" for t i p
    using hm(2) that unfolding pairing_ok_def by (fastforce simp: unmatched_def high_def enumerate_persons_nth)
  have dist1: "distinct (map ?idx hm)" using hm(2) by (simp add: pairing_ok_def)
  have boxed1: "persons_boxed persons" using boxed by (simp add: persons_def)
  obtain ps1 ac1 where run1: "fold (take_match tm k ''tracked'') hm (persons, ass_active s) = (ps1, ac1)"
      and one: "matches_taken k hm persons (ass_active s) ps1 ac1"
    using take_matches_taken [OF _ boxed1 dist1] hm_in by blast
  note one = matches_takenD [OF one]
  define matched1 where "matched1 = map ?idx hm"
  define remaining where "remaining = filter (\<lambda>t. trs_id t \<in> trs_id ` set unmatched \<and> Some (trs_id t) \<notin> psn_track_id ` set ps1) ac1"
  define low' where "low' = map (\<lambda>(i, _). (i, ps1 ! i)) (filter (\<lambda>(i, _). i \<notin> set matched1) low)"
  have ac1: "tracks_ok (ass_next_number s) ac1" by (rule grows_tracks_ok [OF one(2) active])
  have "map fst low' = map fst (filter (\<lambda>(i, _). i \<notin> set matched1) low)" by (simp add: low'_def split_beta comp_def)
  moreover have "distinct (map fst (filter (\<lambda>(i, _). i \<notin> set matched1) low))"
    unfolding low_def filter_filter by (rule distinct_enumerate_filter)
  ultimately have ids2: "distinct (map fst low')" by simp
  define min2 where "min2 = max (18 / 100) (acf_min_match_score cfg - 8 / 100)"
  obtain lm where lm: "global_match tm (acf_max_global_association_size cfg) remaining low' k min2 = done_with lm"
      "pairing_ok remaining low' min2 lm"
    using global_match_pairing [OF ac1 ids2 tm] unfolding remaining_def by blast
  have lm_in: "i < length ps1 \<and> trs_id t \<in> trs_id ` set ac1 \<and> i \<notin> set matched1 \<and> Some (trs_id t) \<notin> psn_track_id ` set ps1"
    if "(t, i, p) \<in> set lm" for t i p
  proof -
    from lm(2) that have m: "t \<in> set remaining" "i \<in> fst ` set low'" unfolding pairing_ok_def by blast+
    from m(2) have "i < length persons \<and> i \<notin> set matched1" by (auto simp: low'_def low_def enumerate_persons_nth)
    moreover from m(1) have "trs_id t \<in> trs_id ` set ac1 \<and> Some (trs_id t) \<notin> psn_track_id ` set ps1" by (auto simp: remaining_def)
    ultimately show ?thesis using one(1) by simp
  qed
  have lm_in': "i < length ps1 \<and> trs_id t \<in> trs_id ` set ac1" if "(t, i, p) \<in> set lm" for t i p
    using lm_in [OF that] by blast
  have dist2: "distinct (map ?idx lm)" using lm(2) by (simp add: pairing_ok_def)
  obtain ps2 ac2 where run2: "fold (take_match tm k ''recovered_low_confidence'') lm (ps1, ac1) = (ps2, ac2)"
      and two: "matches_taken k lm ps1 ac1 ps2 ac2"
    using take_matches_taken [OF _ one(3) dist2] lm_in' by blast
  note two = matches_takenD [OF two]
  define matched2 where "matched2 = matched1 @ map ?idx lm"
  define fresh where "fresh = filter (\<lambda>i. i \<notin> set matched2) (map fst high)"
  have fresh: "distinct fresh" "\<And>i. i \<in> set fresh \<Longrightarrow> i < length ps2 \<and> i \<notin> set matched2"
    using ids1 one(1) two(1) by (auto simp: fresh_def high_def enumerate_persons_nth)
  define n where "n = ass_next_number s"
  from start_tracks [where ps = ps2 and ts = ac2 and k = k and n = n, OF two(3) fresh(1)] fresh(2)
  obtain ps3 news where run3: "fold (start_track k) fresh (ps2, ac2, n) = (ps3, ac2 @ news, n + length fresh)"
    and three: "length ps3 = length ps2" "persons_boxed ps3" "map trs_id news = map track_name [n..<n + length fresh]"
      "\<forall>t \<in> set news. boxes_ok t \<and> trs_frame_indexes t = [k]"
      "\<forall>j < length fresh. psn_track_id (ps3 ! (fresh ! j)) = Some (track_name (n + j))"
      "\<forall>i. i \<notin> set fresh \<longrightarrow> ps3 ! i = ps2 ! i" by blast
  define ps4 where "ps4 = leave_unconfirmed (matched2 @ fresh) ps3"
  define ac3 where "ac3 = ac2 @ news"
  let ?old = "\<lambda>t. acf_max_age cfg < k - trs_last_frame t"
  define s' where "s' = \<lparr>ass_active = filter (\<lambda>t. \<not> ?old t) ac3, ass_finished = ass_finished s @ filter ?old ac3, ass_next_number = n + length fresh\<rparr>"
  have run: "associate_frame tm cfg f s = done_with (f\<lparr>tfr_persons := ps4\<rparr>, s')"
    unfolding associate_frame_def Let_def defs [symmetric] hm(1) att_bind_done run1 prod.case
      matched1_def [symmetric] remaining_def [symmetric] low'_def [symmetric] min2_def [symmetric] lm(1) run2
      matched2_def [symmetric] fresh_def [symmetric] n_def [symmetric] run3 ps4_def [symmetric] ac3_def [symmetric] s'_def ..
  have len: "length ps4 = length persons" using three(1) two(1) one(1) by (simp add: ps4_def)
  have named: "(\<exists>t p. (t, i, p) \<in> set hm \<and> a = trs_id t) \<or> (\<exists>t p. (t, i, p) \<in> set lm \<and> a = trs_id t) \<or>
      (\<exists>j < length fresh. i = fresh ! j \<and> a = track_name (n + j))"
    if i: "i < length persons" and a: "psn_track_id (ps4 ! i) = Some a" for i a
  proof -
    have i4: "ps4 ! i = (if i \<in> set (matched2 @ fresh) then ps3 ! i else (ps3 ! i)\<lparr>psn_track_id := None, psn_track_state := Some ''unconfirmed_low_confidence''\<rparr>)"
      using leave_unconfirmed_nth [of i ps3] i three(1) two(1) one(1) by (simp add: ps4_def)
    consider "i \<in> set fresh" | "i \<in> set matched2" "i \<notin> set fresh" | "i \<notin> set (matched2 @ fresh)" by auto
    then show ?thesis
    proof cases
      case 1
      then obtain j where j: "j < length fresh" "i = fresh ! j" by (auto simp: in_set_conv_nth)
      with three(5) a i4 1 show ?thesis by auto
    next
      case 2
      with i4 a three(6) have a2: "psn_track_id (ps2 ! i) = Some a" by simp
      show ?thesis
      proof (cases "i \<in> ?idx ` set lm")
        case True
        then obtain t p where "(t, i, p) \<in> set lm" by auto
        with two(4) [OF this] a2 show ?thesis by auto
      next
        case False
        with 2(1) obtain t p where m: "(t, i, p) \<in> set hm" by (auto simp: matched2_def matched1_def)
        with one(4) [OF m] two(5) [OF False] a2 show ?thesis by auto
      qed
    next
      case 3
      with i4 a show ?thesis by simp
    qed
  qed
  have hid: "i = j" if "(t, i, p) \<in> set hm" "(u, j, q) \<in> set hm" "trs_id t = trs_id u" for t i p u j q
  proof -
    have "inj_on (\<lambda>(t, _, _). trs_id t) (set hm)" using hm(2) by (simp add: pairing_ok_def distinct_map)
    from inj_onD [OF this _ that(1,2)] that(3) show ?thesis by simp
  qed
  have lid: "i = j" if "(t, i, p) \<in> set lm" "(u, j, q) \<in> set lm" "trs_id t = trs_id u" for t i p u j q
  proof -
    have "inj_on (\<lambda>(t, _, _). trs_id t) (set lm)" using lm(2) by (simp add: pairing_ok_def distinct_map)
    from inj_onD [OF this _ that(1,2)] that(3) show ?thesis by simp
  qed
  have hl: "trs_id t \<noteq> trs_id u" if "(t, i, p) \<in> set hm" "(u, j, q) \<in> set lm" for t i p u j q
    using one(1) one(4) [OF that(1)] hm_in [OF that(1)] lm_in [OF that(2)] by (metis image_eqI nth_mem)
  have old: "named_below n (trs_id t)" if "(t, i, p) \<in> set hm \<or> (t, i, p) \<in> set lm" for t i p
  proof -
    have "trs_id t \<in> trs_id ` set (ass_active s)" using that hm_in lm_in grows_ids [OF one(2)] by (metis list.set_map)
    with active show ?thesis unfolding tracks_ok_def n_def by auto
  qed
  have once: "shows_tracks_once ps4"
    unfolding shows_tracks_once_def len
  proof (intro allI impI)
    fix i j a assume ij: "i < length persons" "j < length persons" "psn_track_id (ps4 ! i) = Some a" "psn_track_id (ps4 ! j) = Some a"
    have new: "\<not> named_below n (track_name (n + x))" for x by (rule track_name_fresh) simp
    from named [OF ij(1,3)] named [OF ij(2,4)] show "i = j"
      using hid lid hl old new by (elim disjE exE conjE) (metis add_left_cancel track_name_inj)+
  qed
  have sees: "seen_in (ac2 @ news) k a" if "i < length persons" "psn_track_id (ps4 ! i) = Some a" for i a
    using named [OF that]
  proof (elim disjE exE conjE)
    fix t p assume "(t, i, p) \<in> set hm" "a = trs_id t"
    then show ?thesis using one(4) grows_seen [OF two(2)] by (auto simp: seen_in_append)
  next
    fix t p assume "(t, i, p) \<in> set lm" "a = trs_id t"
    then show ?thesis using two(4) by (auto simp: seen_in_append)
  next
    fix j assume j: "j < length fresh" "a = track_name (n + j)"
    then have "a \<in> set (map track_name [n..<n + length fresh])" by auto
    then have "a \<in> set (map trs_id news)" by (simp only: three(3))
    then obtain t where "t \<in> set news" "trs_id t = a" by auto
    with three(4) show ?thesis by (auto simp: seen_in_def)
  qed
  have grown: "list_all2 grows (all_tracks s) (ass_finished s @ ac2)"
    unfolding all_tracks_def
    by (rule list_all2_appendI [OF grows_all_refl list_all2_trans [OF grows_trans one(2) two(2)]])
  have perm: "mset (all_tracks s') = mset ((ass_finished s @ ac2) @ news)"
  proof -
    have "mset (filter ?old ac3) + mset (filter (\<lambda>t. \<not> ?old t) ac3) = mset ac3"
      unfolding mset_filter by (rule multiset_partition [symmetric])
    moreover have "mset (all_tracks s') = mset (ass_finished s) + (mset (filter ?old ac3) + mset (filter (\<lambda>t. \<not> ?old t) ac3))"
      by (simp only: all_tracks_def s'_def association_state.simps mset_append add.assoc)
    ultimately show ?thesis by (simp add: ac3_def)
  qed
  have seen': "seen_in (all_tracks s') = seen_in ((ass_finished s @ ac2) @ news)"
    by (rule seen_in_mset) (use perm in \<open>rule mset_eq_setD\<close>)
  have "tracks_ok (n + length fresh) ((ass_finished s @ ac2) @ news)"
    by (rule tracks_ok_append [OF grows_tracks_ok [OF grown] three(3)]) (use ok three(4) in \<open>auto simp: n_def\<close>)
  then have ok': "tracks_ok (ass_next_number s') (all_tracks s')"
    using tracks_ok_perm [OF perm [symmetric]] by (simp add: s'_def)
  have keeps: "keeps_seen (all_tracks s) (all_tracks s')"
    unfolding keeps_seen_def seen' using grows_seen [OF grown] by (auto simp: seen_in_append)
  have boxed4: "persons_boxed ps4"
    using three(2) unfolding persons_boxed_def ps4_def leave_unconfirmed_def
    by (fastforce simp: enumerate_persons_nth split: prod.splits if_splits)
  have "seen_in (all_tracks s') k a" if q: "q \<in> set ps4" "psn_track_id q = Some a" for q a
  proof -
    from q(1) len obtain i where "i < length persons" "q = ps4 ! i" by (auto simp: in_set_conv_nth)
    with sees q(2) have "seen_in (ac2 @ news) k a" by blast
    then show ?thesis unfolding seen' seen_in_append by blast
  qed
  then have "frame_tracked (all_tracks s') (f\<lparr>tfr_persons := ps4\<rparr>)"
    using once boxed4 by (simp add: frame_tracked_def k_def)
  with run ok' keeps show ?thesis by (intro exI [of _ "f\<lparr>tfr_persons := ps4\<rparr>"] exI [of _ s']) simp
qed

lemma associate_frames_done:
  assumes "rounding_ok tm" "\<forall>f \<in> set fs. persons_boxed (tfr_persons f)" "tracks_ok (ass_next_number s) (all_tracks s)"
  shows "\<exists>fs' s'. associate_frames tm cfg fs s = done_with (fs', s') \<and> tracks_ok (ass_next_number s') (all_tracks s') \<and>
    keeps_seen (all_tracks s) (all_tracks s') \<and> (\<forall>f \<in> set fs'. frame_tracked (all_tracks s') f) \<and>
    map tfr_frame_index fs' = map tfr_frame_index fs"
  using assms(2,3)
proof (induction fs arbitrary: s)
  case (Cons f fs)
  then obtain f' s1 where f: "associate_frame tm cfg f s = done_with (f', s1)" "tracks_ok (ass_next_number s1) (all_tracks s1)"
      "keeps_seen (all_tracks s) (all_tracks s1)" "frame_tracked (all_tracks s1) f'" "tfr_frame_index f' = tfr_frame_index f"
    using associate_frame_done [OF assms(1), of f s cfg] by auto
  from Cons.IH [OF _ f(2)] Cons.prems(1)
  obtain fs' s2 where fs: "associate_frames tm cfg fs s1 = done_with (fs', s2)" "tracks_ok (ass_next_number s2) (all_tracks s2)"
      "keeps_seen (all_tracks s1) (all_tracks s2)" "\<forall>f \<in> set fs'. frame_tracked (all_tracks s2) f"
      "map tfr_frame_index fs' = map tfr_frame_index fs" by auto
  have "keeps_seen (all_tracks s) (all_tracks s2)" using f(3) fs(3) by (auto simp: keeps_seen_def)
  moreover have "frame_tracked (all_tracks s2) f'" by (rule frame_tracked_keeps [OF fs(3) f(4)])
  ultimately show ?case using f fs by auto
qed (simp add: keeps_seen_def)

end
