(* ===== verification/Track_Groups.thy ===== *)
theory Track_Groups
  imports Track_Fragments
begin

text \<open>
  The union-find forest and the groups of track fragments. Ranks grow strictly towards the roots,
  so \<open>find\<close> returns; a function \<open>R\<close> from ids to roots is what the forest stands for, and \<open>union\<close>
  joins two of its classes. Groups hold the tracks of one class, with disjoint time spans.
\<close>

section \<open>The forest\<close>

definition rank_at :: "union_find \<Rightarrow> string \<Rightarrow> nat" where
  "rank_at u x = or_default (dict_get (ufd_rank u) x) 0"

definition forest_ok :: "string set \<Rightarrow> (string \<Rightarrow> string) \<Rightarrow> union_find \<Rightarrow> bool" where
  "forest_ok X R u \<longleftrightarrow> (\<forall>x \<in> X.
     dict_get (ufd_rank u) x \<noteq> None \<and> R x \<in> X \<and> dict_get (ufd_parent u) (R x) = Some (R x) \<and> (x \<noteq> R x \<longrightarrow> rank_at u x < rank_at u (R x)) \<and>
     (\<exists>p \<in> X. dict_get (ufd_parent u) x = Some p \<and> R p = R x \<and> (p = x \<longrightarrow> R x = x) \<and> (p \<noteq> x \<longrightarrow> rank_at u x < rank_at u p)))"

lemma forest_okD:
  assumes "forest_ok X R u" "x \<in> X"
  shows "dict_get (ufd_rank u) x \<noteq> None" "R x \<in> X" "dict_get (ufd_parent u) (R x) = Some (R x)"
    "x \<noteq> R x \<Longrightarrow> rank_at u x < rank_at u (R x)" "R (R x) = R x"
proof -
  have D: "dict_get (ufd_rank u) y \<noteq> None" "R y \<in> X" "dict_get (ufd_parent u) (R y) = Some (R y)"
      "y \<noteq> R y \<longrightarrow> rank_at u y < rank_at u (R y)"
      "\<exists>p \<in> X. dict_get (ufd_parent u) y = Some p \<and> R p = R y \<and> (p = y \<longrightarrow> R y = y)" if "y \<in> X" for y
    using assms(1) that unfolding forest_ok_def by blast+
  show "dict_get (ufd_rank u) x \<noteq> None" "R x \<in> X" "dict_get (ufd_parent u) (R x) = Some (R x)"
      "x \<noteq> R x \<Longrightarrow> rank_at u x < rank_at u (R x)"
    using D [OF assms(2)] by blast+
  show "R (R x) = R x" using D(5) [OF D(2) [OF assms(2)]] D(3) [OF assms(2)] by auto
qed

lemma forest_parent:
  assumes "forest_ok X R u" "x \<in> X"
  obtains p where "dict_get (ufd_parent u) x = Some p" "p \<in> X" "R p = R x" "p = x \<Longrightarrow> R x = x" "p \<noteq> x \<Longrightarrow> rank_at u x < rank_at u p"
  using assms unfolding forest_ok_def by blast

lemma rank_at_parent [simp]: "rank_at (u\<lparr>ufd_parent := p\<rparr>) = rank_at u"
  by (simp add: rank_at_def fun_eq_iff)

text \<open>Pointing an id at its root keeps the forest.\<close>

lemma compress_ok:
  assumes "forest_ok X R (u\<lparr>ufd_parent := ps\<rparr>)" "x \<in> X" "R x \<noteq> x"
  shows "forest_ok X R (u\<lparr>ufd_parent := dict_set x (R x) ps\<rparr>)"
  unfolding forest_ok_def
proof
  fix y assume y: "y \<in> X"
  note D = forest_okD [OF assms(1)]
  obtain p where p: "dict_get ps y = Some p" "p \<in> X" "R p = R y" "p = y \<Longrightarrow> R y = y" "p \<noteq> y \<Longrightarrow> rank_at u y < rank_at u p"
    using forest_parent [OF assms(1) y] by auto
  have root: "dict_get (dict_set x (R x) ps) (R y) = Some (R y)"
    using D(3) [OF y] D(5) [OF assms(2)] D(5) [OF y] assms(3) by (auto simp: dict_get_set)
  have "\<exists>p \<in> X. dict_get (dict_set x (R x) ps) y = Some p \<and> R p = R y \<and> (p = y \<longrightarrow> R y = y) \<and> (p \<noteq> y \<longrightarrow> rank_at u y < rank_at u p)"
  proof (cases "y = x")
    case True
    with D(2,4,5) [OF assms(2)] assms(3) show ?thesis by (intro bexI [of _ "R x"]) auto
  next
    case False
    with p show ?thesis by (intro bexI [of _ p]) auto
  qed
  with D(1,2,4) [OF y] root
  show "dict_get (ufd_rank (u\<lparr>ufd_parent := dict_set x (R x) ps\<rparr>)) y \<noteq> None \<and> R y \<in> X \<and>
      dict_get (ufd_parent (u\<lparr>ufd_parent := dict_set x (R x) ps\<rparr>)) (R y) = Some (R y) \<and>
      (y \<noteq> R y \<longrightarrow> rank_at (u\<lparr>ufd_parent := dict_set x (R x) ps\<rparr>) y < rank_at (u\<lparr>ufd_parent := dict_set x (R x) ps\<rparr>) (R y)) \<and>
      (\<exists>p \<in> X. dict_get (ufd_parent (u\<lparr>ufd_parent := dict_set x (R x) ps\<rparr>)) y = Some p \<and> R p = R y \<and> (p = y \<longrightarrow> R y = y) \<and>
        (p \<noteq> y \<longrightarrow> rank_at (u\<lparr>ufd_parent := dict_set x (R x) ps\<rparr>) y < rank_at (u\<lparr>ufd_parent := dict_set x (R x) ps\<rparr>) p))"
    by simp
qed

lemma uf_find_done:
  assumes "finite X" "forest_ok X R u" "x \<in> X"
  shows "\<exists>ps. uf_find x (ufd_parent u) = done_with (R x, ps) \<and> forest_ok X R (u\<lparr>ufd_parent := ps\<rparr>)"
proof -
  have le: "rank_at u x \<le> Max (rank_at u ` X)" if "x \<in> X" for x
    using assms(1) that by (intro Max_ge) auto
  show ?thesis
    using assms(3)
  proof (induction "Max (rank_at u ` X) - rank_at u x" arbitrary: x rule: less_induct)
    case less
    obtain p where p: "dict_get (ufd_parent u) x = Some p" "p \<in> X" "R p = R x" "p = x \<Longrightarrow> R x = x" "p \<noteq> x \<Longrightarrow> rank_at u x < rank_at u p"
      using forest_parent [OF assms(2) less.prems] by blast
    show ?case
    proof (cases "p = x")
      case True
      with p assms(2) show ?thesis by (simp add: uf_find.simps [of x])
    next
      case False
      with p(5) le [OF p(2)] have "Max (rank_at u ` X) - rank_at u p < Max (rank_at u ` X) - rank_at u x" by simp
      from less.hyps [OF this p(2)] obtain ps where ps: "uf_find p (ufd_parent u) = done_with (R x, ps)" "forest_ok X R (u\<lparr>ufd_parent := ps\<rparr>)"
        unfolding p(3) by blast
      have "R x \<noteq> x"
      proof
        assume "R x = x"
        then have "p \<noteq> R p" using False p(3) by simp
        from forest_okD(4) [OF assms(2) p(2) this] p(3,5) False \<open>R x = x\<close> show False by simp
      qed
      from compress_ok [OF ps(2) less.prems this] ps(1) p(1) False show ?thesis by (simp add: uf_find.simps [of x])
    qed
  qed
qed

lemma fold_ids:
  "dict_get (fold (\<lambda>t d. dict_set (trs_id t) (f (trs_id t)) d) ts d0) x =
     (if x \<in> trs_id ` set ts then Some (f x) else dict_get d0 x)"
  by (induction ts arbitrary: d0) auto

lemma make_union_find_ok: "forest_ok (trs_id ` set ts) (\<lambda>x. x) (make_union_find ts)"
  using fold_ids [of "\<lambda>x. x" ts "[]"] fold_ids [of "\<lambda>_. 0 :: nat" ts "[]"]
  unfolding forest_ok_def make_union_find_def by auto

text \<open>Joining the classes of two different roots.\<close>

definition join_class :: "(string \<Rightarrow> string) \<Rightarrow> string \<Rightarrow> string \<Rightarrow> string \<Rightarrow> string" where
  "join_class R lower upper x = (if R x = lower then upper else R x)"

lemma link_ok:
  assumes ok: "forest_ok X R u" and ab: "a \<in> X" "b \<in> X" "R a = a" "R b = b" "a \<noteq> b"
    and rank: "\<And>x. x \<noteq> b \<Longrightarrow> dict_get r x = dict_get (ufd_rank u) x" "dict_get r b = Some m" "rank_at u a < m" "rank_at u b \<le> m"
  shows "forest_ok X (join_class R a b) \<lparr>ufd_parent = dict_set a b (ufd_parent u), ufd_rank = r\<rparr>"
  unfolding forest_ok_def
proof
  let ?u = "\<lparr>ufd_parent = dict_set a b (ufd_parent u), ufd_rank = r\<rparr>" and ?R = "join_class R a b"
  note D = forest_okD [OF ok]
  have rk: "rank_at ?u x = rank_at u x" if "x \<noteq> b" for x using rank(1) [OF that] by (simp add: rank_at_def)
  have rb: "rank_at ?u b = m" using rank(2) by (simp add: rank_at_def or_default_def)
  have le: "rank_at u x \<le> rank_at ?u x" for x using rk [of x] rb rank(4) by (cases "x = b") auto
  fix y assume y: "y \<in> X"
  have root: "?R y \<in> X" "?R y \<noteq> a" "dict_get (ufd_parent u) (?R y) = Some (?R y)"
    using D(2,3) [OF y] D(3) [OF ab(2)] ab by (auto simp: join_class_def)
  have up: "rank_at ?u y < rank_at ?u (?R y)" if "y \<noteq> ?R y"
  proof (cases "R y = a")
    case True
    with that have "y \<noteq> b" "?R y = b" by (auto simp: join_class_def)
    moreover have "rank_at u y \<le> rank_at u a" using D(4) [OF y] True by (cases "y = a") auto
    ultimately show ?thesis using rk [of y] rb rank(3) by simp
  next
    case False
    with that have R: "?R y = R y" "y \<noteq> R y" by (auto simp: join_class_def)
    then have "y \<noteq> b" using ab(4) by auto
    with D(4) [OF y R(2)] rk [of y] le [of "R y"] R(1) show ?thesis by simp
  qed
  obtain p where p: "dict_get (ufd_parent u) y = Some p" "p \<in> X" "R p = R y" "p = y \<Longrightarrow> R y = y" "p \<noteq> y \<Longrightarrow> rank_at u y < rank_at u p"
    using forest_parent [OF ok y] by blast
  have "\<exists>p \<in> X. dict_get (ufd_parent ?u) y = Some p \<and> ?R p = ?R y \<and> (p = y \<longrightarrow> ?R y = y) \<and> (p \<noteq> y \<longrightarrow> rank_at ?u y < rank_at ?u p)"
  proof (cases "y = a")
    case True
    then show ?thesis using ab rk [of a] rb rank(3) by (intro bexI [of _ b]) (auto simp: join_class_def)
  next
    case False
    have "rank_at ?u y < rank_at ?u p" if "p \<noteq> y"
    proof -
      have "y \<noteq> b" using that p(1) D(3) [OF ab(2)] ab(4) by auto
      with p(5) [OF that] rk [of y] le [of p] show ?thesis by simp
    qed
    with False p show ?thesis by (intro bexI [of _ p]) (auto simp: join_class_def)
  qed
  moreover have "dict_get r y \<noteq> None" using rank(1) [of y] rank(2) D(1) [OF y] by (cases "y = b") auto
  ultimately show "dict_get (ufd_rank ?u) y \<noteq> None \<and> ?R y \<in> X \<and> dict_get (ufd_parent ?u) (?R y) = Some (?R y) \<and>
      (y \<noteq> ?R y \<longrightarrow> rank_at ?u y < rank_at ?u (?R y)) \<and>
      (\<exists>p \<in> X. dict_get (ufd_parent ?u) y = Some p \<and> ?R p = ?R y \<and> (p = y \<longrightarrow> ?R y = y) \<and> (p \<noteq> y \<longrightarrow> rank_at ?u y < rank_at ?u p))"
    using root up by (simp add: dict_get_set)
qed

lemma rank_of_done: "dict_get (ufd_rank u) x \<noteq> None \<Longrightarrow> rank_of (ufd_rank u) x = done_with (rank_at u x)"
  by (auto simp: rank_of_def rank_at_def or_default_def)

lemma uf_union_done:
  assumes fin: "finite X" and ok: "forest_ok X R u" and xy: "x \<in> X" "y \<in> X" "R x \<noteq> R y"
  shows "\<exists>u' a b. uf_union x y u = done_with (True, u') \<and> {a, b} = {R x, R y} \<and> a \<noteq> b \<and> forest_ok X (join_class R a b) u'"
proof -
  obtain p1 where p1: "uf_find x (ufd_parent u) = done_with (R x, p1)" "forest_ok X R (u\<lparr>ufd_parent := p1\<rparr>)"
    using uf_find_done [OF fin ok xy(1)] by blast
  obtain p2 where p2: "uf_find y p1 = done_with (R y, p2)" "forest_ok X R (u\<lparr>ufd_parent := p2\<rparr>)"
    using uf_find_done [OF fin p1(2) xy(2)] by auto
  let ?a = "if rank_at u (R x) < rank_at u (R y) then R x else R y"
  let ?b = "if rank_at u (R x) < rank_at u (R y) then R y else R x"
  let ?r = "if rank_at u (R x) = rank_at u (R y) then dict_set ?b (rank_at u (R x) + 1) (ufd_rank u) else ufd_rank u"
  note D = forest_okD [OF ok]
  have rank: "rank_of (ufd_rank u) (R x) = done_with (rank_at u (R x))" "rank_of (ufd_rank u) (R y) = done_with (rank_at u (R y))"
    using D(1) [OF D(2)] xy by (auto intro: rank_of_done)
  have run: "uf_union x y u = done_with (True, \<lparr>ufd_parent = dict_set ?a ?b p2, ufd_rank = ?r\<rparr>)"
    using p1(1) p2(1) rank xy(3) by (simp add: uf_union_def Let_def)
  have some: "dict_get (ufd_rank u) (R x) = Some (rank_at u (R x))" "dict_get (ufd_rank u) (R y) = Some (rank_at u (R y))"
    using D(1) [OF D(2) [OF xy(1)]] D(1) [OF D(2) [OF xy(2)]] by (auto simp: rank_at_def or_default_def)
  have "forest_ok X (join_class R ?a ?b) \<lparr>ufd_parent = dict_set ?a ?b (ufd_parent (u\<lparr>ufd_parent := p2\<rparr>)), ufd_rank = ?r\<rparr>"
  proof (rule link_ok [OF p2(2), where m = "if rank_at u (R x) = rank_at u (R y) then rank_at u (R x) + 1 else rank_at u ?b"])
    show "?a \<in> X" "?b \<in> X" "R ?a = ?a" "R ?b = ?b" "?a \<noteq> ?b" using D(2,5) xy by auto
  qed (use some in auto)
  with run xy(3) show ?thesis by (intro exI [of _ "\<lparr>ufd_parent = dict_set ?a ?b p2, ufd_rank = ?r\<rparr>"] exI [of _ ?a] exI [of _ ?b]) auto
qed

section \<open>Groups\<close>

definition spans_disjoint :: "track_state \<Rightarrow> track_state \<Rightarrow> bool" where
  "spans_disjoint t u \<longleftrightarrow> last_frame_index t < first_frame_index u \<or> last_frame_index u < first_frame_index t"

definition group_ok :: "track_state list \<Rightarrow> (string \<Rightarrow> string) \<Rightarrow> string \<Rightarrow> track_state list \<Rightarrow> bool" where
  "group_ok tracks R r ts \<longleftrightarrow> r \<in> trs_id ` set tracks \<and> R r = r \<and> distinct ts \<and> set ts = {t \<in> set tracks. R (trs_id t) = r} \<and>
     (\<forall>t \<in> set ts. \<forall>u \<in> set ts. t \<noteq> u \<longrightarrow> spans_disjoint t u)"

definition groups_ok :: "track_state list \<Rightarrow> (string \<Rightarrow> string) \<Rightarrow> group_state \<Rightarrow> bool" where
  "groups_ok tracks R g \<longleftrightarrow> forest_ok (trs_id ` set tracks) R (gst_forest g) \<and> dict_ok (gst_groups g) \<and>
     (\<forall>x \<in> trs_id ` set tracks. dict_get (gst_groups g) (R x) \<noteq> None) \<and>
     (\<forall>r ts. dict_get (gst_groups g) r = Some ts \<longrightarrow> group_ok tracks R r ts)"

lemma group_nonempty: "group_ok tracks R r ts \<Longrightarrow> ts \<noteq> []"
  by (auto simp: group_ok_def)

lemma spans_disjoint_sym: "spans_disjoint t u \<Longrightarrow> spans_disjoint u t"
  by (auto simp: spans_disjoint_def)

lemma compatible_disjoint:
  assumes "track_groups_are_temporally_compatible l r" "t \<in> set l" "u \<in> set r"
  shows "spans_disjoint t u"
proof -
  let ?min = "\<lambda>g. Min (set (map (\<lambda>t. fst (track_time_bounds t)) g))" and ?max = "\<lambda>g. Max (set (map (\<lambda>t. snd (track_time_bounds t)) g))"
  have "?min l \<le> first_frame_index t" "last_frame_index t \<le> ?max l"
    using assms(2) by (auto simp: track_time_bounds_def intro!: Min_le Max_ge rev_image_eqI [of t])
  moreover have "?min r \<le> first_frame_index u" "last_frame_index u \<le> ?max r"
    using assms(3) by (auto simp: track_time_bounds_def intro!: Min_le Max_ge rev_image_eqI [of u])
  ultimately show ?thesis
    using assms(1) unfolding track_groups_are_temporally_compatible_def spans_disjoint_def Let_def by linarith
qed

lemma join_groups_get:
  assumes "l \<noteq> r" "nr = l \<or> nr = r"
  shows "dict_get (join_groups l r nr gs) k =
    (if k = nr then Some (or_default (dict_get gs l) [] @ or_default (dict_get gs r) []) else if k = l \<or> k = r then None else dict_get gs k)"
  using assms by (auto simp: join_groups_def Let_def)

lemma join_groups_dict: "dict_ok gs \<Longrightarrow> dict_ok (join_groups l r nr gs)"
  by (simp add: join_groups_def Let_def dict_ok_pop dict_ok_set)

lemma initial_groups_ok:
  assumes "distinct (map trs_id tracks)"
  shows "groups_ok tracks (\<lambda>x. x) (initial_groups tracks)"
proof -
  define pick where "pick x = hd (filter (\<lambda>t. trs_id t = x) tracks)" for x
  have pick: "pick (trs_id t) = t" if "t \<in> set tracks" for t
  proof -
    have "filter (\<lambda>u. trs_id u = trs_id t) tracks \<noteq> []" using that by (auto simp: filter_empty_conv)
    from hd_in_set [OF this] have "pick (trs_id t) \<in> set tracks" "trs_id (pick (trs_id t)) = trs_id t"
      by (auto simp: pick_def)
    with that assms show ?thesis by (auto simp: distinct_map dest: inj_onD)
  qed
  have groups: "gst_groups (initial_groups tracks) = fold (\<lambda>t d. dict_set (trs_id t) [pick (trs_id t)] d) tracks []"
    unfolding initial_groups_def group_state.simps by (rule fold_cong) (simp_all add: pick)
  have dict: "dict_ok (fold (\<lambda>t d. dict_set (trs_id t) [pick (trs_id t)] d) ts d)" if "dict_ok d" for ts d
    using that by (induction ts arbitrary: d) (simp_all add: dict_ok_set)
  have "group_ok tracks (\<lambda>x. x) (trs_id t) [t]" if "t \<in> set tracks" for t
    using assms that by (auto simp: group_ok_def distinct_map dest: inj_onD)
  note single = this
  have get: "dict_get (gst_groups (initial_groups tracks)) x = (if x \<in> trs_id ` set tracks then Some [pick x] else None)" for x
    unfolding groups using fold_ids [of "\<lambda>x. [pick x]" tracks "[]" x] by simp
  show ?thesis
    unfolding groups_ok_def
  proof (intro conjI ballI allI impI)
    show "forest_ok (trs_id ` set tracks) (\<lambda>x. x) (gst_forest (initial_groups tracks))"
      using make_union_find_ok [of tracks] by (simp add: initial_groups_def)
    show "dict_ok (gst_groups (initial_groups tracks))" unfolding groups by (rule dict) simp
    show "dict_get (gst_groups (initial_groups tracks)) x \<noteq> None" if "x \<in> trs_id ` set tracks" for x using that by (simp add: get)
    show "group_ok tracks (\<lambda>x. x) r ts" if "dict_get (gst_groups (initial_groups tracks)) r = Some ts" for r ts
      using that single pick unfolding get by (auto split: if_splits)
  qed
qed

lemma accept_candidate_done:
  assumes ok: "groups_ok tracks R g" and ids: "mge_to e \<in> trs_id ` set tracks" "mge_from e \<in> trs_id ` set tracks"
  shows "\<exists>g' R'. accept_candidate e g = done_with g' \<and> groups_ok tracks R' g'"
proof -
  let ?X = "trs_id ` set tracks"
  have fin: "finite ?X" by simp
  from ok have forest: "forest_ok ?X R (gst_forest g)" and dict: "dict_ok (gst_groups g)"
    and some: "\<And>x. x \<in> ?X \<Longrightarrow> dict_get (gst_groups g) (R x) \<noteq> None"
    and grp: "\<And>r ts. dict_get (gst_groups g) r = Some ts \<Longrightarrow> group_ok tracks R r ts"
    unfolding groups_ok_def by blast+
  obtain p1 where p1: "uf_find (mge_to e) (ufd_parent (gst_forest g)) = done_with (R (mge_to e), p1)"
      "forest_ok ?X R ((gst_forest g)\<lparr>ufd_parent := p1\<rparr>)"
    using uf_find_done [OF fin forest ids(1)] by blast
  obtain p2 where p2: "uf_find (mge_from e) p1 = done_with (R (mge_from e), p2)" "forest_ok ?X R ((gst_forest g)\<lparr>ufd_parent := p2\<rparr>)"
    using uf_find_done [OF fin p1(2) ids(2)] by auto
  let ?f = "(gst_forest g)\<lparr>ufd_parent := p2\<rparr>"
  have found: "groups_ok tracks R (g\<lparr>gst_forest := ?f\<rparr>)" using p2(2) dict some grp by (simp add: groups_ok_def)
  show ?thesis
  proof (cases "R (mge_to e) = R (mge_from e)")
    case True
    with p1(1) p2(1) found show ?thesis by (auto simp: accept_candidate_def Let_def)
  next
    case False
    obtain lg rg where gs: "dict_get (gst_groups g) (R (mge_to e)) = Some lg" "dict_get (gst_groups g) (R (mge_from e)) = Some rg"
      using some [OF ids(1)] some [OF ids(2)] by blast
    then have at: "group_at (gst_groups g) (R (mge_to e)) = done_with lg" "group_at (gst_groups g) (R (mge_from e)) = done_with rg"
      by (simp_all add: group_at_def)
    show ?thesis
    proof (cases "track_groups_are_temporally_compatible lg rg")
      case False
      with p1(1) p2(1) at \<open>R (mge_to e) \<noteq> R (mge_from e)\<close> found show ?thesis by (auto simp: accept_candidate_def Let_def)
    next
      case True
      obtain u a b where u: "uf_union (mge_to e) (mge_from e) ?f = done_with (True, u)" "{a, b} = {R (mge_to e), R (mge_from e)}"
          "a \<noteq> b" "forest_ok ?X (join_class R a b) u"
        using uf_union_done [OF fin p2(2) ids False] by blast
      let ?R = "join_class R a b"
      obtain p3 where p3: "uf_find (mge_to e) (ufd_parent u) = done_with (?R (mge_to e), p3)" "forest_ok ?X ?R (u\<lparr>ufd_parent := p3\<rparr>)"
        using uf_find_done [OF fin u(4) ids(1)] by blast
      have nr: "?R (mge_to e) = b" "?R (mge_from e) = b" using u(2,3) by (auto simp: join_class_def doubleton_eq_iff)
      let ?l = "R (mge_to e)" and ?r = "R (mge_from e)"
      let ?g = "\<lparr>gst_forest = u\<lparr>ufd_parent := p3\<rparr>, gst_groups = join_groups ?l ?r b (gst_groups g), gst_accepted = gst_accepted g @ [e]\<rparr>"
      have run: "accept_candidate e g = done_with ?g"
        using p1(1) p2(1) at False True u(1) p3(1) nr(1) by (simp add: accept_candidate_def Let_def)
      have b: "b = ?l \<or> b = ?r" "a = ?l \<or> a = ?r" using u(2) by auto
      have get: "dict_get (join_groups ?l ?r b (gst_groups g)) k = (if k = b then Some (lg @ rg) else if k = a then None else dict_get (gst_groups g) k)" for k
        using join_groups_get [OF False b(1), of "gst_groups g" k] u(2,3) gs by (auto simp: or_default_def doubleton_eq_iff)
      have lr: "group_ok tracks R ?l lg" "group_ok tracks R ?r rg" using grp gs by blast+
      have new: "group_ok tracks ?R b (lg @ rg)"
        unfolding group_ok_def
      proof (intro conjI ballI impI)
        show "b \<in> ?X" "?R b = b" using lr b u(3) by (auto simp: group_ok_def join_class_def)
        show "distinct (lg @ rg)" using lr False by (auto simp: group_ok_def)
        show "set (lg @ rg) = {t \<in> set tracks. ?R (trs_id t) = b}"
          using lr u(2,3) by (auto simp: group_ok_def join_class_def doubleton_eq_iff)
        fix t v assume t: "t \<in> set (lg @ rg)" "v \<in> set (lg @ rg)" "t \<noteq> v"
        then show "spans_disjoint t v"
          using lr compatible_disjoint [OF True] spans_disjoint_sym unfolding group_ok_def by (metis Un_iff set_append)
      qed
      have kept: "group_ok tracks ?R k ts" if "dict_get (gst_groups g) k = Some ts" "k \<noteq> a" "k \<noteq> b" for k ts
        using grp [OF that(1)] that(2,3) u(3) by (auto simp: group_ok_def join_class_def)
      have "groups_ok tracks ?R ?g"
        unfolding groups_ok_def group_state.simps
      proof (intro conjI ballI allI impI)
        show "forest_ok ?X ?R (u\<lparr>ufd_parent := p3\<rparr>)" by (rule p3(2))
        show "dict_ok (join_groups ?l ?r b (gst_groups g))" by (rule join_groups_dict [OF dict])
        show "dict_get (join_groups ?l ?r b (gst_groups g)) (?R x) \<noteq> None" if "x \<in> ?X" for x
          using some [OF that] u(3) unfolding get by (auto simp: join_class_def)
        show "group_ok tracks ?R k ts" if "dict_get (join_groups ?l ?r b (gst_groups g)) k = Some ts" for k ts
          using that new kept unfolding get by (auto split: if_splits)
      qed
      with run show ?thesis by blast
    qed
  qed
qed

end
