(* ===== verification/Track_Correct.thy ===== *)
theory Track_Correct
  imports Track_Frames Track_Groups
begin

text \<open>
  Joining fragments keeps what a frame shows: the tracks of a group never share a frame, so that
  giving them one id leaves every frame with each track at most once. From this the properties
  of \<open>associate_person_tracks\<close> as a whole.
\<close>

section \<open>Candidates\<close>

lemma can_merge_done:
  assumes "boxes_ok l"
  shows "\<exists>c. can_merge_track_fragments tm mg ma mi l r = done_with c \<and> (\<forall>e. c = Some e \<longrightarrow> mge_to e = trs_id l \<and> mge_from e = trs_id r)"
proof (cases "first_observation r")
  case (Some ob)
  obtain b where "predict_track_box tm l (obs_frame_index ob) = done_with b" using predict_track_box_done [OF assms] by blast
  with Some show ?thesis by (simp add: can_merge_track_fragments_def Let_def split: option.split)
next
  case None
  then show ?thesis by (simp add: can_merge_track_fragments_def Let_def split: option.split)
qed

lemma candidates_after_done:
  assumes "boxes_ok l"
  shows "\<exists>cs. candidates_after tm mg l rs = done_with cs \<and> (\<forall>e \<in> set cs. mge_to e = trs_id l \<and> mge_from e \<in> trs_id ` set rs)"
proof (induction rs)
  case (Cons r rs)
  then obtain cs where cs: "candidates_after tm mg l rs = done_with cs" "\<forall>e \<in> set cs. mge_to e = trs_id l \<and> mge_from e \<in> trs_id ` set rs"
    by blast
  obtain c where c: "can_merge_track_fragments tm mg (86 / 100) (5 / 100) l r = done_with c"
      "\<forall>e. c = Some e \<longrightarrow> mge_to e = trs_id l \<and> mge_from e = trs_id r"
    using can_merge_done [OF assms] by blast
  show ?case
  proof (cases "mg < first_frame_index r - last_frame_index l - 1")
    case False
    then have "candidates_after tm mg l (r # rs) = done_with (option_list c @ cs)" using cs(1) c(1) by simp
    moreover have "\<forall>e \<in> set (option_list c @ cs). mge_to e = trs_id l \<and> mge_from e \<in> trs_id ` set (r # rs)"
      using cs(2) c(2) by (auto simp: option_list_def split: option.splits)
    ultimately show ?thesis by blast
  qed simp
qed simp

lemma merge_candidates_done:
  assumes "\<forall>t \<in> set ts. boxes_ok t"
  shows "\<exists>cs. merge_candidates tm mg ts = done_with cs \<and> (\<forall>e \<in> set cs. mge_to e \<in> trs_id ` set ts \<and> mge_from e \<in> trs_id ` set ts)"
  using assms
proof (induction ts)
  case (Cons t ts)
  then obtain cs where cs: "merge_candidates tm mg ts = done_with cs"
      "\<forall>e \<in> set cs. mge_to e \<in> trs_id ` set ts \<and> mge_from e \<in> trs_id ` set ts" by auto
  obtain ds where ds: "candidates_after tm mg t ts = done_with ds"
      "\<forall>e \<in> set ds. mge_to e = trs_id t \<and> mge_from e \<in> trs_id ` set ts"
    using candidates_after_done [of t tm mg ts] Cons.prems by auto
  have "merge_candidates tm mg (t # ts) = done_with (ds @ cs)" using cs(1) ds(1) by simp
  moreover have "\<forall>e \<in> set (ds @ cs). mge_to e \<in> trs_id ` set (t # ts) \<and> mge_from e \<in> trs_id ` set (t # ts)"
    using cs(2) ds(2) by auto
  ultimately show ?case by blast
qed simp

section \<open>Renaming\<close>

definition relabel :: "(string \<times> string) list \<Rightarrow> string \<Rightarrow> string" where
  "relabel prs s = fold (\<lambda>p s. if s = fst p then snd p else s) prs s"

definition rewrite_pair :: "string \<times> string \<Rightarrow> track_frame list \<Rightarrow> track_frame list" where
  "rewrite_pair p = rewrite_merged_track_ids (fst p) (snd p)"

lemma relabel_Nil [simp]: "relabel [] s = s"
  by (simp add: relabel_def)

lemma relabel_Cons [simp]: "relabel (p # prs) s = relabel prs (if s = fst p then snd p else s)"
  by (simp add: relabel_def)

lemma relabel_class: "\<forall>p \<in> set prs. R (fst p) = R (snd p) \<Longrightarrow> R (relabel prs s) = R s"
  by (induction prs arbitrary: s) auto

lemma relabel_once:
  assumes "\<forall>p \<in> set prs. snd p \<notin> fst ` set prs"
  shows "if s \<in> fst ` set prs then (s, relabel prs s) \<in> set prs else relabel prs s = s"
proof -
  have out: "relabel ps x = x" if "x \<notin> fst ` set ps" for ps x
    using that by (induction ps) auto
  have "(s, relabel ps s) \<in> set ps" if "s \<in> fst ` set ps" "\<forall>p \<in> set ps. snd p \<notin> fst ` set ps" for ps
    using that
  proof (induction ps)
    case (Cons p ps)
    show ?case
    proof (cases "s = fst p")
      case True
      with Cons.prems(2) have "relabel ps (snd p) = snd p" by (intro out) auto
      with True show ?thesis by (cases p) auto
    next
      case False
      with Cons show ?thesis by auto
    qed
  qed simp
  with out assms show ?thesis by simp
qed

text \<open>What rewriting does to the persons of a frame.\<close>

lemma rewrite_pairs:
  "fold rewrite_pair prs frames =
     map (\<lambda>f. f\<lparr>tfr_persons := map (\<lambda>q. fold (\<lambda>p. rewrite_person (fst p) (snd p)) prs q) (tfr_persons f)\<rparr>) frames"
  by (induction prs arbitrary: frames) (simp_all add: rewrite_pair_def rewrite_merged_track_ids_def comp_def)

lemma rewrite_person_id: "psn_track_id (fold (\<lambda>p. rewrite_person (fst p) (snd p)) prs q) = map_option (relabel prs) (psn_track_id q)"
proof (induction prs arbitrary: q)
  case (Cons p prs)
  have "psn_track_id (rewrite_person (fst p) (snd p) q) = map_option (\<lambda>s. if s = fst p then snd p else s) (psn_track_id q)"
    by (cases "psn_track_id q") (auto simp: rewrite_person_def)
  with Cons show ?case by (cases "psn_track_id q") auto
next
  case Nil
  then show ?case by (cases "psn_track_id q") simp_all
qed

lemma rewrite_person_box: "psn_box (fold (\<lambda>p. rewrite_person (fst p) (snd p)) prs q) = psn_box q"
  by (induction prs arbitrary: q) (simp_all add: rewrite_person_def)

section \<open>Merging groups\<close>

definition group_primary :: "track_state list \<Rightarrow> track_state" where
  "group_primary g = hd (member_order g)"

definition group_pairs :: "track_state list \<Rightarrow> (string \<times> string) list" where
  "group_pairs g = map (\<lambda>t. (trs_id t, trs_id (group_primary g))) (tl (member_order g))"

definition merged_track :: "tracking_math \<Rightarrow> track_state list \<Rightarrow> track_state" where
  "merged_track tm g = fold (\<lambda>t p. merge_track_state tm p t) (tl (member_order g)) (group_primary g)"

lemma fold_map_arg: "fold f (map h xs) s = fold (\<lambda>x. f (h x)) xs s"
  by (induction xs arbitrary: s) auto

lemma merge_groups:
  "mst_frames (fold (merge_group tm edges) gs s) = fold rewrite_pair (concat (map group_pairs gs)) (mst_frames s) \<and>
   mst_tracks (fold (merge_group tm edges) gs s) = mst_tracks s @ map (merged_track tm) gs"
proof (induction gs arbitrary: s)
  case (Cons g gs)
  have "mst_frames (merge_group tm edges g s) = fold rewrite_pair (group_pairs g) (mst_frames s)"
    by (simp add: merge_group_def Let_def group_pairs_def group_primary_def fold_map_arg rewrite_pair_def)
  moreover have "mst_tracks (merge_group tm edges g s) = mst_tracks s @ [merged_track tm g]"
    by (simp add: merge_group_def Let_def merged_track_def group_primary_def)
  ultimately show ?case using Cons [of "merge_group tm edges g s"] by simp
qed simp

lemma member_order_set [simp]: "set (member_order g) = set g"
  by (simp add: member_order_def)

lemma distinct_member_order [simp]: "distinct (member_order g) = distinct g"
  by (simp add: member_order_def)

lemma member_order_split: "g \<noteq> [] \<Longrightarrow> member_order g = group_primary g # tl (member_order g)"
  by (metis group_primary_def list.collapse member_order_set set_empty)

lemma merge_track_state_fields:
  "trs_id (merge_track_state tm p t) = trs_id p"
  "trs_frame_indexes (merge_track_state tm p t) = trs_frame_indexes p @ trs_frame_indexes t"
  "trs_observations (merge_track_state tm p t) = py_sorted obs_frame_index (trs_observations p @ trs_observations t)"
  by (simp_all add: merge_track_state_def Let_def split: option.split)

lemma merged_fold:
  "trs_id (fold (\<lambda>t p. merge_track_state tm p t) ts p) = trs_id p \<and>
   set (trs_frame_indexes (fold (\<lambda>t p. merge_track_state tm p t) ts p)) = (\<Union>t \<in> set (p # ts). set (trs_frame_indexes t)) \<and>
   set (trs_observations (fold (\<lambda>t p. merge_track_state tm p t) ts p)) = (\<Union>t \<in> set (p # ts). set (trs_observations t))"
  by (induction ts arbitrary: p) (auto simp: merge_track_state_fields)

lemma merged_track_fields:
  assumes "g \<noteq> []"
  shows "trs_id (merged_track tm g) = trs_id (group_primary g)"
    and "set (trs_frame_indexes (merged_track tm g)) = (\<Union>t \<in> set g. set (trs_frame_indexes t))"
    and "\<forall>t \<in> set g. boxes_ok t \<Longrightarrow> boxes_ok (merged_track tm g)"
proof -
  have g: "set (group_primary g # tl (member_order g)) = set g" using member_order_split [OF assms] member_order_set by metis
  note F = merged_fold [of tm "tl (member_order g)" "group_primary g", unfolded g, folded merged_track_def]
  show "trs_id (merged_track tm g) = trs_id (group_primary g)"
    and "set (trs_frame_indexes (merged_track tm g)) = (\<Union>t \<in> set g. set (trs_frame_indexes t))"
    using F by blast+
  show "boxes_ok (merged_track tm g)" if "\<forall>t \<in> set g. boxes_ok t" using F that by (auto simp: boxes_ok_def)
qed

text \<open>The groups of a group state, as a list.\<close>

definition groups_listed :: "track_state list \<Rightarrow> (string \<Rightarrow> string) \<Rightarrow> track_state list list \<Rightarrow> bool" where
  "groups_listed tracks R gs \<longleftrightarrow> distinct gs \<and> (\<forall>g \<in> set gs. \<exists>r. group_ok tracks R r g) \<and>
     (\<forall>t \<in> set tracks. \<exists>g \<in> set gs. t \<in> set g) \<and>
     (\<forall>g \<in> set gs. \<forall>g' \<in> set gs. \<forall>t \<in> set g. \<forall>t' \<in> set g'. R (trs_id t) = R (trs_id t') \<longrightarrow> g = g')"

lemma groups_listed_values:
  assumes "groups_ok tracks R g"
  shows "groups_listed tracks R (py_sorted k (map snd (gst_groups g)))"
proof -
  from assms have dict: "dict_ok (gst_groups g)" and some: "\<forall>x \<in> trs_id ` set tracks. dict_get (gst_groups g) (R x) \<noteq> None"
    and grp: "\<And>r ts. dict_get (gst_groups g) r = Some ts \<Longrightarrow> group_ok tracks R r ts"
    unfolding groups_ok_def by blast+
  have mem: "dict_get (gst_groups g) r = Some ts" if "(r, ts) \<in> set (gst_groups g)" for r ts
    using that dict by simp
  have root: "R (trs_id t) = r" if "(r, ts) \<in> set (gst_groups g)" "t \<in> set ts" for r ts t
    using grp [OF mem [OF that(1)]] that(2) by (auto simp: group_ok_def)
  have "inj_on snd (set (gst_groups g))"
  proof (rule inj_onI)
    fix p q assume pq: "p \<in> set (gst_groups g)" "q \<in> set (gst_groups g)" "snd p = snd q"
    obtain t where "t \<in> set (snd p)"
      using group_nonempty [OF grp [OF mem [of "fst p" "snd p"]]] pq(1) by (metis last_in_set prod.collapse)
    moreover have "(fst p, snd p) \<in> set (gst_groups g)" "(fst q, snd q) \<in> set (gst_groups g)"
      using pq(1,2) by (simp_all only: prod.collapse)
    ultimately have "fst p = fst q" using root [of "fst p" "snd p" t] root [of "fst q" "snd q" t] pq(3) by simp
    with pq(3) show "p = q" by (simp add: prod_eq_iff)
  qed
  then have "distinct (map snd (gst_groups g))" using dict by (simp add: distinct_map)
  moreover have "\<forall>t \<in> set tracks. \<exists>ts \<in> snd ` set (gst_groups g). t \<in> set ts"
  proof
    fix t assume t: "t \<in> set tracks"
    with some obtain ts where ts: "dict_get (gst_groups g) (R (trs_id t)) = Some ts" by blast
    with grp [OF ts] t have "t \<in> set ts" by (simp add: group_ok_def)
    with map_of_SomeD [OF ts] show "\<exists>ts \<in> snd ` set (gst_groups g). t \<in> set ts" by force
  qed
  moreover have "\<forall>ts \<in> snd ` set (gst_groups g). \<exists>r. group_ok tracks R r ts" using grp mem by fastforce
  moreover have "ts = ts'" if "(r, ts) \<in> set (gst_groups g)" "(r', ts') \<in> set (gst_groups g)" "t \<in> set ts" "t' \<in> set ts'" "R (trs_id t) = R (trs_id t')"
    for r ts r' ts' t t'
    using root [OF that(1,3)] root [OF that(2,4)] that(5) mem [OF that(1)] mem [OF that(2)] by simp
  ultimately show ?thesis unfolding groups_listed_def by (auto simp: image_iff)
qed

lemma group_members:
  assumes "group_ok tracks R r g"
  shows "group_primary g \<in> set g" "distinct (group_primary g # tl (member_order g))" "set (group_primary g # tl (member_order g)) = set g"
    "\<And>t. t \<in> set g \<Longrightarrow> t \<in> set tracks \<and> R (trs_id t) = r"
proof -
  note ne = member_order_split [OF group_nonempty [OF assms]]
  show s: "set (group_primary g # tl (member_order g)) = set g" using ne member_order_set by metis
  then show "group_primary g \<in> set g" by auto
  show "distinct (group_primary g # tl (member_order g))"
    using assms ne distinct_member_order [of g] unfolding group_ok_def by metis
  show "t \<in> set tracks \<and> R (trs_id t) = r" if "t \<in> set g" for t using that assms by (simp add: group_ok_def)
qed

text \<open>The pairs of all groups: they rename within a class, and never to an id that they rename.\<close>

lemma all_pairs:
  assumes listed: "groups_listed tracks R gs" and ids: "distinct (map trs_id tracks)"
  defines "prs \<equiv> concat (map group_pairs gs)"
  shows "\<forall>p \<in> set prs. R (fst p) = R (snd p)" and "\<forall>p \<in> set prs. snd p \<notin> fst ` set prs"
    and "\<And>g t. g \<in> set gs \<Longrightarrow> t \<in> set g \<Longrightarrow> relabel prs (trs_id t) = trs_id (group_primary g)"
proof -
  have same: "t = u" if "t \<in> set tracks" "u \<in> set tracks" "trs_id t = trs_id u" for t u
    using ids that by (auto simp: distinct_map dest: inj_onD)
  have grp: "\<exists>r. group_ok tracks R r g" if "g \<in> set gs" for g using listed that by (auto simp: groups_listed_def)
  have one: "g = g'" if "g \<in> set gs" "g' \<in> set gs" "t \<in> set g" "t' \<in> set g'" "R (trs_id t) = R (trs_id t')" for g g' t t'
    using listed that unfolding groups_listed_def by blast
  have pair: "\<exists>g \<in> set gs. \<exists>t \<in> set (tl (member_order g)). p = (trs_id t, trs_id (group_primary g))" if "p \<in> set prs" for p
    using that by (auto simp: prs_def group_pairs_def)
  have member: "t \<in> set g \<and> t \<in> set tracks \<and> t \<noteq> group_primary g \<and> group_primary g \<in> set g \<and> group_primary g \<in> set tracks \<and>
      R (trs_id t) = R (trs_id (group_primary g))" if gt: "g \<in> set gs" "t \<in> set (tl (member_order g))" for g t
  proof -
    obtain r where r: "group_ok tracks R r g" using grp [OF gt(1)] by blast
    note M = group_members [OF r]
    have "t \<in> set g" using M(3) gt(2) by auto
    with M(1,2,4) gt(2) show ?thesis by auto
  qed
  show "\<forall>p \<in> set prs. R (fst p) = R (snd p)" using pair member by fastforce
  have prim: "trs_id (group_primary g) \<notin> fst ` set prs" if g: "g \<in> set gs" for g
  proof
    assume "trs_id (group_primary g) \<in> fst ` set prs"
    then obtain g' t where t: "g' \<in> set gs" "t \<in> set (tl (member_order g'))" "trs_id (group_primary g) = trs_id t" using pair by fastforce
    obtain r where r: "group_ok tracks R r g" using grp [OF g] by blast
    have "group_primary g = t" using same [of "group_primary g" t] group_members(1,4) [OF r] member [OF t(1,2)] t(3) by blast
    moreover from this have "g = g'" using one [OF g t(1) group_members(1) [OF r], of t] member [OF t(1,2)] t(3) by simp
    ultimately show False using member [OF t(1,2)] by simp
  qed
  show once: "\<forall>p \<in> set prs. snd p \<notin> fst ` set prs"
  proof
    fix p assume "p \<in> set prs"
    from pair [OF this] obtain g where "g \<in> set gs" "snd p = trs_id (group_primary g)" by auto
    with prim show "snd p \<notin> fst ` set prs" by simp
  qed
  fix g t assume gt: "g \<in> set gs" "t \<in> set g"
  obtain r where r: "group_ok tracks R r g" using grp [OF gt(1)] by blast
  show "relabel prs (trs_id t) = trs_id (group_primary g)"
  proof (cases "trs_id t \<in> fst ` set prs")
    case True
    with relabel_once [OF once, of "trs_id t"] have "(trs_id t, relabel prs (trs_id t)) \<in> set prs" by simp
    from pair [OF this] obtain g' t' where t': "g' \<in> set gs" "t' \<in> set (tl (member_order g'))" "trs_id t = trs_id t'"
        "relabel prs (trs_id t) = trs_id (group_primary g')" by auto
    have "g = g'" using one [OF gt(1) t'(1) gt(2), of t'] member [OF t'(1,2)] t'(3) by simp
    with t'(4) show ?thesis by simp
  next
    case False
    have "t \<in> set (group_primary g # tl (member_order g))" using group_members(3) [OF r] gt(2) by simp
    moreover have "t \<notin> set (tl (member_order g))" using False gt(1) by (force simp: prs_def group_pairs_def)
    ultimately have "t = group_primary g" by simp
    with relabel_once [OF once, of "trs_id t"] False show ?thesis by simp
  qed
qed

section \<open>Frames after merging\<close>

definition named_tracks_ok :: "track_state list \<Rightarrow> bool" where
  "named_tracks_ok ts \<longleftrightarrow> distinct (map trs_id ts) \<and> (\<forall>t \<in> set ts. boxes_ok t)"

lemma seen_span:
  "k \<in> set (trs_frame_indexes t) \<Longrightarrow> first_frame_index t \<le> k \<and> k \<le> last_frame_index t"
  by (auto simp: first_frame_index_def last_frame_index_def)

lemma merged_frame_tracked:
  assumes listed: "groups_listed tracks R gs" and ids: "distinct (map trs_id tracks)" and f: "frame_tracked tracks f"
  defines "prs \<equiv> concat (map group_pairs gs)"
  shows "frame_tracked (map (merged_track tm) gs)
    (f\<lparr>tfr_persons := map (\<lambda>q. fold (\<lambda>p. rewrite_person (fst p) (snd p)) prs q) (tfr_persons f)\<rparr>)"
proof -
  let ?k = "tfr_frame_index f" and ?ps = "tfr_persons f"
  note P = all_pairs [OF listed ids, folded prs_def]
  from f have once: "shows_tracks_once ?ps" and boxed: "persons_boxed ?ps"
    and seen: "\<And>q a. q \<in> set ?ps \<Longrightarrow> psn_track_id q = Some a \<Longrightarrow> seen_in tracks ?k a"
    by (auto simp: frame_tracked_def)
  have apart: "a = b" if a: "seen_in tracks ?k a" and b: "seen_in tracks ?k b" and r: "relabel prs a = relabel prs b" for a b
  proof (rule ccontr)
    assume ne: "a \<noteq> b"
    from a b obtain t u where t: "t \<in> set tracks" "trs_id t = a" "?k \<in> set (trs_frame_indexes t)"
      and u: "u \<in> set tracks" "trs_id u = b" "?k \<in> set (trs_frame_indexes u)" unfolding seen_in_def by blast
    have "R a = R b" using relabel_class [OF P(1), of a] relabel_class [OF P(1), of b] r by simp
    obtain g where g: "g \<in> set gs" "t \<in> set g" using listed t(1) unfolding groups_listed_def by blast
    obtain r where grp: "group_ok tracks R r g" using listed g(1) unfolding groups_listed_def by blast
    have "u \<in> set g" using grp g(2) t(2) u(1,2) \<open>R a = R b\<close> by (simp add: group_ok_def)
    moreover have "t \<noteq> u" using t(2) u(2) ne by auto
    ultimately have "spans_disjoint t u" using grp g(2) unfolding group_ok_def by blast
    with seen_span [OF t(3)] seen_span [OF u(3)] show False by (auto simp: spans_disjoint_def)
  qed
  have "shows_tracks_once (map (\<lambda>q. fold (\<lambda>p. rewrite_person (fst p) (snd p)) prs q) ?ps)"
    unfolding shows_tracks_once_def length_map
  proof (intro allI impI)
    fix i j a assume ij: "i < length ?ps" "j < length ?ps"
      "psn_track_id (map (\<lambda>q. fold (\<lambda>p. rewrite_person (fst p) (snd p)) prs q) ?ps ! i) = Some a"
      "psn_track_id (map (\<lambda>q. fold (\<lambda>p. rewrite_person (fst p) (snd p)) prs q) ?ps ! j) = Some a"
    then obtain b c where bc: "psn_track_id (?ps ! i) = Some b" "psn_track_id (?ps ! j) = Some c" "relabel prs b = a" "relabel prs c = a"
      by (auto simp: rewrite_person_id)
    have "b = c" using apart [OF seen seen, OF nth_mem [OF ij(1)] bc(1) nth_mem [OF ij(2)] bc(2)] bc(3,4) by simp
    with once ij(1,2) bc(1,2) show "i = j" unfolding shows_tracks_once_def by blast
  qed
  moreover have "persons_boxed (map (\<lambda>q. fold (\<lambda>p. rewrite_person (fst p) (snd p)) prs q) ?ps)"
    using boxed by (auto simp: persons_boxed_def rewrite_person_box)
  moreover have "seen_in (map (merged_track tm) gs) ?k (relabel prs b)" if "seen_in tracks ?k b" for b
  proof -
    from that obtain t where t: "t \<in> set tracks" "trs_id t = b" "?k \<in> set (trs_frame_indexes t)" unfolding seen_in_def by blast
    then obtain g where g: "g \<in> set gs" "t \<in> set g" using listed unfolding groups_listed_def by blast
    then have "g \<noteq> []" by auto
    have "trs_id (merged_track tm g) = relabel prs b" "?k \<in> set (trs_frame_indexes (merged_track tm g))"
      using merged_track_fields(1,2) [OF \<open>g \<noteq> []\<close>, of tm] P(3) [OF g] t(2,3) g(2) by auto
    with g(1) show ?thesis unfolding seen_in_def by auto
  qed
  ultimately show ?thesis
    unfolding frame_tracked_def using seen by (auto simp: rewrite_person_id)
qed

lemma merge_track_fragments_done:
  assumes ok: "named_tracks_ok tracks" and frames: "\<forall>f \<in> set frames. frame_tracked tracks f"
  shows "\<exists>frames' tracks' m. merge_track_fragments tm mg frames tracks = done_with (frames', tracks', m) \<and>
    named_tracks_ok tracks' \<and> (\<forall>f \<in> set frames'. frame_tracked tracks' f) \<and>
    map tfr_frame_index frames' = map tfr_frame_index frames"
proof -
  let ?o = "member_order tracks"
  have set_o: "set ?o = set tracks" by simp
  have "mset (map trs_id ?o) = mset (map trs_id tracks)" by (simp add: member_order_def)
  then have ids: "distinct (map trs_id ?o)" using ok unfolding named_tracks_ok_def by (metis mset_eq_imp_distinct_iff)
  have boxes: "\<forall>t \<in> set ?o. boxes_ok t" using ok by (simp add: named_tracks_ok_def)
  obtain cs where cs: "merge_candidates tm mg ?o = done_with cs" "\<forall>e \<in> set cs. mge_to e \<in> trs_id ` set ?o \<and> mge_from e \<in> trs_id ` set ?o"
    using merge_candidates_done [OF boxes] by blast
  have "\<exists>g. att_fold accept_candidate (py_sorted edge_key cs) (initial_groups ?o) = done_with g \<and> (\<exists>R. groups_ok ?o R g)"
  proof (rule att_fold_returns)
    show "\<exists>R. groups_ok ?o R (initial_groups ?o)" using initial_groups_ok [OF ids] by blast
    show "\<exists>g'. accept_candidate e g = done_with g' \<and> (\<exists>R. groups_ok ?o R g')"
      if "e \<in> set (py_sorted edge_key cs)" "\<exists>R. groups_ok ?o R g" for e g
      using that cs(2) accept_candidate_done [of ?o _ g e] by (simp only: set_py_sorted) blast
  qed
  then obtain g R where g: "att_fold accept_candidate (py_sorted edge_key cs) (initial_groups ?o) = done_with g" "groups_ok ?o R g" by blast
  let ?gs = "py_sorted group_start (map snd (gst_groups g))"
  have listed: "groups_listed ?o R ?gs" by (rule groups_listed_values [OF g(2)])
  let ?prs = "concat (map group_pairs ?gs)"
  have run: "\<exists>m. merge_track_fragments tm mg frames tracks =
      done_with (fold rewrite_pair ?prs frames, py_sorted trs_id (map (merged_track tm) ?gs), m)"
    using cs(1) g(1) by (simp add: merge_track_fragments_def Let_def merge_groups)
  have grp: "\<exists>r. group_ok ?o R r x" if "x \<in> set ?gs" for x using listed that unfolding groups_listed_def by blast
  have tracks': "named_tracks_ok (map (merged_track tm) ?gs)"
    unfolding named_tracks_ok_def
  proof
    have inj: "x = y" if xy: "x \<in> set ?gs" "y \<in> set ?gs" "trs_id (merged_track tm x) = trs_id (merged_track tm y)" for x y
    proof -
      obtain r r' where r: "group_ok ?o R r x" "group_ok ?o R r' y" using grp xy by blast
      have "trs_id (group_primary x) = trs_id (group_primary y)"
        using xy(3) merged_track_fields(1) [OF group_nonempty [OF r(1)]] merged_track_fields(1) [OF group_nonempty [OF r(2)]] by simp
      with listed xy(1,2) group_members(1) [OF r(1)] group_members(1) [OF r(2)] show ?thesis unfolding groups_listed_def by metis
    qed
    have "distinct ?gs" using listed by (simp add: groups_listed_def)
    then show "distinct (map trs_id (map (merged_track tm) ?gs))" using inj by (auto simp: distinct_map inj_on_def)
    show "\<forall>t \<in> set (map (merged_track tm) ?gs). boxes_ok t"
    proof
      fix t assume "t \<in> set (map (merged_track tm) ?gs)"
      then obtain x where x: "x \<in> set ?gs" "t = merged_track tm x" by auto
      obtain r where r: "group_ok ?o R r x" using grp [OF x(1)] by blast
      then have "\<forall>u \<in> set x. boxes_ok u" using boxes by (auto simp: group_ok_def)
      with merged_track_fields(3) [OF group_nonempty [OF r]] x(2) show "boxes_ok t" by simp
    qed
  qed
  have sorted: "named_tracks_ok (py_sorted trs_id (map (merged_track tm) ?gs))"
  proof -
    have "mset (map trs_id (py_sorted trs_id (map (merged_track tm) ?gs))) = mset (map trs_id (map (merged_track tm) ?gs))"
      by (simp only: mset_map mset_py_sorted)
    then have "distinct (map trs_id (py_sorted trs_id (map (merged_track tm) ?gs)))"
      using tracks' unfolding named_tracks_ok_def by (metis mset_eq_imp_distinct_iff)
    with tracks' show ?thesis by (simp add: named_tracks_ok_def)
  qed
  have seen: "seen_in (py_sorted trs_id (map (merged_track tm) ?gs)) = seen_in (map (merged_track tm) ?gs)"
    by (rule seen_in_mset) simp
  have frame: "frame_tracked (py_sorted trs_id (map (merged_track tm) ?gs)) f'" if "f' \<in> set (fold rewrite_pair ?prs frames)" for f'
  proof -
    from that obtain f where f: "f \<in> set frames"
        "f' = f\<lparr>tfr_persons := map (\<lambda>q. fold (\<lambda>p. rewrite_person (fst p) (snd p)) ?prs q) (tfr_persons f)\<rparr>"
      unfolding rewrite_pairs by auto
    have "frame_tracked ?o f" using frames f(1) seen_in_mset [OF set_o] by (simp add: frame_tracked_def)
    from merged_frame_tracked [OF listed ids this, of tm] show ?thesis unfolding f(2) frame_tracked_def seen .
  qed
  moreover have "map tfr_frame_index (fold rewrite_pair ?prs frames) = map tfr_frame_index frames"
    unfolding rewrite_pairs by (simp add: comp_def)
  ultimately show ?thesis using run sorted by blast
qed

section \<open>Smoothing\<close>

text \<open>The ids that a frame shows, in order.\<close>

definition shown_ids :: "track_frame list \<Rightarrow> (int \<times> string option list) list" where
  "shown_ids fs = map (\<lambda>f. (tfr_frame_index f, map psn_track_id (tfr_persons f))) fs"

lemma map_same_at: "f y = f (xs ! i) \<Longrightarrow> map f (xs[i := y]) = map f xs"
  by (cases "i < length xs") (auto intro!: nth_equalityI simp: nth_list_update)

lemma update_person_shown:
  assumes "\<And>q. psn_track_id (f q) = psn_track_id q"
  shows "shown_ids (update_person f pos fs) = shown_ids fs"
  unfolding shown_ids_def update_person_def Let_def by (rule map_same_at) (simp add: map_same_at assms)

lemma smoothing_window_boxes:
  assumes "\<forall>ob \<in> set obs. 4 \<le> length (obs_box ob)" "i < length obs"
  shows "\<forall>b \<in> set (map fst (smoothing_window obs mg i)). 4 \<le> length b"
  using assms by (auto simp: smoothing_window_def)

lemma smooth_observation_done:
  assumes "\<forall>ob \<in> set obs. 4 \<le> length (obs_box ob)" "i < length obs"
  shows "\<exists>fs'. smooth_observation tm mg a obs i fs = done_with fs' \<and> shown_ids fs' = shown_ids fs"
proof (cases "find_person_by_track fs (obs_frame_index (obs ! i)) a")
  case None
  then show ?thesis by (simp add: smooth_observation_def)
next
  case (Some pos)
  let ?w = "smoothing_window obs mg i"
  obtain b where "average_boxes tm (map fst ?w) (map snd ?w) = done_with b"
    using smoothing_window_boxes [OF assms, of mg] unfolding average_boxes_def by (auto simp: not_less)
  with Some show ?thesis by (simp add: smooth_observation_def Let_def update_person_shown)
qed

lemma postprocess_tracklets_done:
  assumes "\<forall>t \<in> set ts. boxes_ok t"
  shows "\<exists>fs'. postprocess_tracklets tm mg fs ts = done_with (fs', map (interpolate_track tm mg) ts) \<and> shown_ids fs' = shown_ids fs"
proof -
  let ?f = "\<lambda>t fs. let obs = py_sorted obs_frame_index (trs_observations t) in
      att_fold (smooth_observation tm mg (trs_id t) obs) [0..<length obs] fs"
  have "\<exists>fs'. att_fold ?f ts fs = done_with fs' \<and> shown_ids fs' = shown_ids fs"
  proof (rule att_fold_returns)
    fix t gs assume t: "t \<in> set ts" and gs: "shown_ids gs = shown_ids fs"
    let ?obs = "py_sorted obs_frame_index (trs_observations t)"
    have obs: "\<forall>ob \<in> set ?obs. 4 \<le> length (obs_box ob)" using assms t by (simp add: boxes_ok_def)
    have "\<exists>hs. att_fold (smooth_observation tm mg (trs_id t) ?obs) [0..<length ?obs] gs = done_with hs \<and> shown_ids hs = shown_ids fs"
    proof (rule att_fold_returns [where I = "\<lambda>hs. shown_ids hs = shown_ids fs", OF gs])
      fix i hs assume "i \<in> set [0..<length ?obs]" "shown_ids hs = shown_ids fs"
      with smooth_observation_done [OF obs, of i] show "\<exists>hs'. smooth_observation tm mg (trs_id t) ?obs i hs = done_with hs' \<and> shown_ids hs' = shown_ids fs"
        by (metis atLeastLessThan_iff set_upt)
    qed
    then show "\<exists>gs'. ?f t gs = done_with gs' \<and> shown_ids gs' = shown_ids fs" by (simp add: Let_def)
  qed simp
  then show ?thesis unfolding postprocess_tracklets_def by auto
qed

section \<open>The whole association\<close>

lemma drop_embeddings_shown: "shown_ids (map drop_embeddings fs) = shown_ids fs"
  by (simp add: shown_ids_def drop_embeddings_def comp_def)

lemma frame_tracked_shown:
  assumes "shown_ids fs' = shown_ids fs" "\<forall>f \<in> set fs. frame_tracked ts f" "f \<in> set fs'"
  shows "shows_tracks_once (tfr_persons f)"
    and "\<And>q a. q \<in> set (tfr_persons f) \<Longrightarrow> psn_track_id q = Some a \<Longrightarrow> seen_in ts (tfr_frame_index f) a"
proof -
  have len: "length fs' = length fs" using assms(1) by (metis length_map shown_ids_def)
  from assms(3) obtain i where i: "i < length fs'" "f = fs' ! i" by (auto simp: in_set_conv_nth)
  let ?g = "fs ! i"
  have g: "frame_tracked ts ?g" using assms(2) i(1) len by simp
  have eq: "tfr_frame_index f = tfr_frame_index ?g" "map psn_track_id (tfr_persons f) = map psn_track_id (tfr_persons ?g)"
    using arg_cong [OF assms(1), of "\<lambda>xs. xs ! i"] i len by (simp_all add: shown_ids_def)
  then have n: "length (tfr_persons f) = length (tfr_persons ?g)" by (metis length_map)
  have at: "psn_track_id (tfr_persons f ! j) = psn_track_id (tfr_persons ?g ! j)" if "j < length (tfr_persons f)" for j
    using arg_cong [OF eq(2), of "\<lambda>xs. xs ! j"] that n by simp
  show "shows_tracks_once (tfr_persons f)"
    using g at n unfolding frame_tracked_def shows_tracks_once_def by metis
  fix q a assume q: "q \<in> set (tfr_persons f)" "psn_track_id q = Some a"
  then have "Some a \<in> set (map psn_track_id (tfr_persons ?g))" unfolding eq(2) [symmetric] by force
  then show "seen_in ts (tfr_frame_index f) a" using g unfolding frame_tracked_def eq(1) by fastforce
qed

lemma associate_person_tracks_done:
  assumes tm: "rounding_ok tm" and boxed: "\<forall>f \<in> set frames. persons_boxed (tfr_persons f)"
  shows "\<exists>frames' r. associate_person_tracks tm cfg frames = done_with (frames', r) \<and>
    map tfr_frame_index frames' = map tfr_frame_index frames \<and>
    (\<forall>f \<in> set frames'. shows_tracks_once (tfr_persons f) \<and>
       (\<forall>q \<in> set (tfr_persons f). \<forall>a. psn_track_id q = Some a \<longrightarrow> a \<in> pbt_track_id ` set (asr_tracks r))) \<and>
    distinct (map pbt_track_id (asr_tracks r)) \<and> asr_track_count r = length (asr_tracks r)"
proof -
  let ?s0 = "\<lparr>ass_active = [], ass_finished = [], ass_next_number = 1\<rparr>"
  have "tracks_ok (ass_next_number ?s0) (all_tracks ?s0)" by (simp add: tracks_ok_def all_tracks_def)
  from associate_frames_done [OF tm boxed this, of cfg] obtain fs1 s where
    one: "associate_frames tm cfg frames ?s0 = done_with (fs1, s)" "tracks_ok (ass_next_number s) (all_tracks s)"
      "\<forall>f \<in> set fs1. frame_tracked (all_tracks s) f" "map tfr_frame_index fs1 = map tfr_frame_index frames" by blast
  let ?ts = "py_sorted trs_id (ass_finished s @ ass_active s)"
  have "tracks_ok (ass_next_number s) ?ts" by (rule tracks_ok_perm [OF _ one(2)]) (simp add: all_tracks_def)
  then have named: "named_tracks_ok ?ts" by (simp add: named_tracks_ok_def tracks_ok_def)
  have "seen_in ?ts = seen_in (all_tracks s)" by (rule seen_in_mset) (simp add: all_tracks_def)
  then have tracked: "\<forall>f \<in> set fs1. frame_tracked ?ts f" using one(3) by (simp add: frame_tracked_def)
  obtain fs2 ts m where two: "merge_track_fragments tm (acf_max_fragment_merge_gap cfg) fs1 ?ts = done_with (fs2, ts, m)"
      "named_tracks_ok ts" "\<forall>f \<in> set fs2. frame_tracked ts f" "map tfr_frame_index fs2 = map tfr_frame_index fs1"
    using merge_track_fragments_done [OF named tracked] by blast
  obtain fs3 where three: "postprocess_tracklets tm (acf_max_age cfg) fs2 ts = done_with (fs3, map (interpolate_track tm (acf_max_age cfg)) ts)"
      "shown_ids fs3 = shown_ids fs2"
    using postprocess_tracklets_done [of ts] two(2) unfolding named_tracks_ok_def by blast
  let ?frames = "map drop_embeddings fs3"
  have shown: "shown_ids ?frames = shown_ids fs2" using three(2) by (simp add: drop_embeddings_shown)
  let ?pub = "map (public_dict tm (acf_include_template_embeddings cfg)) (map (interpolate_track tm (acf_max_age cfg)) ts)"
  have ids: "map pbt_track_id ?pub = map trs_id ts"
    by (simp add: public_dict_def interpolate_track_def Let_def comp_def)
  let ?r = "\<lparr>asr_config = cfg, asr_fragment_merge = m, asr_tracks = ?pub, asr_track_count = length (map (interpolate_track tm (acf_max_age cfg)) ts)\<rparr>"
  have run: "associate_person_tracks tm cfg frames = done_with (?frames, ?r)"
    using one(1) two(1) three(1) by (simp add: associate_person_tracks_def)
  have "map tfr_frame_index ?frames = map tfr_frame_index fs2"
    using arg_cong [OF shown, of "map fst"] by (simp add: shown_ids_def comp_def)
  with two(4) one(4) have index: "map tfr_frame_index ?frames = map tfr_frame_index frames" by simp
  have ref: "a \<in> pbt_track_id ` set ?pub" if "f \<in> set ?frames" "q \<in> set (tfr_persons f)" "psn_track_id q = Some a" for f q a
  proof -
    have "seen_in ts (tfr_frame_index f) a" by (rule frame_tracked_shown(2) [OF shown two(3) that])
    then have "a \<in> set (map trs_id ts)" by (auto simp: seen_in_def)
    then show ?thesis unfolding ids [symmetric] by (simp only: set_map)
  qed
  have "distinct (map pbt_track_id ?pub)" unfolding ids using two(2) by (simp add: named_tracks_ok_def)
  with run index ref frame_tracked_shown(1) [OF shown two(3)] show ?thesis
    by (intro exI [of _ ?frames] exI [of _ ?r]) simp
qed

end
