(* ===== verification/Track_Properties.thy ===== *)
theory Track_Properties
  imports Track_Correct
begin

text \<open>
  The properties of person tracking, each with a concrete instance: a rounding function, two
  frames of detections and small tables of scores.
\<close>

section \<open>Concrete instances\<close>

text \<open>Rounding half up, and three steps of Newton's iteration.\<close>

definition round_digits :: "nat \<Rightarrow> pyfloat \<Rightarrow> pyfloat" where
  "round_digits n x = of_int \<lfloor>x * 10 ^ n + 1 / 2\<rfloor> / 10 ^ n"

definition newton_sqrt :: "pyfloat \<Rightarrow> pyfloat" where
  "newton_sqrt x = (if x \<le> 0 then 0 else let step = (\<lambda>y. (y + x / y) / 2) in step (step (step 1)))"

definition sample_math :: tracking_math where
  "sample_math = \<lparr>tma_round = round_digits, tma_sqrt = newton_sqrt\<rparr>"

lemma sample_math_ok: "rounding_ok sample_math"
  unfolding rounding_ok_def sample_math_def round_digits_def by (auto intro!: divide_nonneg_nonneg)

definition sample_person :: "pyfloat \<Rightarrow> pyfloat \<Rightarrow> person" where
  "sample_person x score = \<lparr>psn_box = Some [x, 0, x + 10, 20], psn_score = Some score, psn_quality_score = None, psn_crop_score = None,
     psn_crop_usable = None, psn_tracking_embedding = None, psn_embedding = Some [1, x], psn_face_embedding = None, psn_track_id = None,
     psn_track_state = None, psn_track_match = None, psn_merged_from = None, psn_smoothed_box = None, psn_box_support = None\<rparr>"

definition sample_frames :: "track_frame list" where
  "sample_frames = [\<lparr>tfr_frame_index = 0, tfr_persons = [sample_person 0 (9 / 10), sample_person 40 (8 / 10)]\<rparr>,
     \<lparr>tfr_frame_index = 1, tfr_persons = [sample_person 41 (2 / 10), sample_person 1 (9 / 10)]\<rparr>]"

definition sample_association_config :: association_config where
  "sample_association_config = \<lparr>acf_high_confidence = 45 / 100, acf_low_confidence = 10 / 100, acf_min_match_score = 28 / 100,
     acf_max_age = 2, acf_max_fragment_merge_gap = 4, acf_max_global_association_size = 10, acf_include_template_embeddings = False\<rparr>"

definition score_details :: "pyfloat \<Rightarrow> match_details" where
  "score_details x = \<lparr>mdt_score = x, mdt_iou = 0, mdt_last_iou = 0, mdt_predicted_iou = 0, mdt_predicted_box = [], mdt_motion = 0, mdt_appearance = None\<rparr>"

definition sample_scores :: pair_details where
  "sample_scores = [((0, 0), score_details (9 / 10)), ((0, 1), score_details (3 / 10)), ((1, 0), score_details (3 / 10))]"

section \<open>Association of tracks\<close>

text \<open>
  C27: \<open>associate_person_tracks\<close> returns, without an exception, when every person has a box of four
  coordinates: the recursive solver, the loops of the Hungarian method and \<open>find\<close> all end. In what
  it returns no frame shows a track twice, also after fragments have been joined, every id that a
  frame shows belongs to a reported track, and the reported tracks have different ids.
\<close>

theorem association_shows_tracks_once:
  assumes "rounding_ok tm" and "\<forall>f \<in> set frames. persons_boxed (tfr_persons f)"
  shows "\<exists>frames' r. associate_person_tracks tm cfg frames = done_with (frames', r) \<and>
    map tfr_frame_index frames' = map tfr_frame_index frames \<and>
    (\<forall>f \<in> set frames'. shows_tracks_once (tfr_persons f) \<and>
       (\<forall>q \<in> set (tfr_persons f). \<forall>a. psn_track_id q = Some a \<longrightarrow> a \<in> pbt_track_id ` set (asr_tracks r))) \<and>
    distinct (map pbt_track_id (asr_tracks r)) \<and> asr_track_count r = length (asr_tracks r)"
  by (rule associate_person_tracks_done [OF assms])

theorem association_shows_tracks_once_witness:
  "\<exists>frames' r. associate_person_tracks sample_math sample_association_config sample_frames = done_with (frames', r) \<and>
    map tfr_frame_index frames' = [0, 1] \<and> (\<forall>f \<in> set frames'. shows_tracks_once (tfr_persons f)) \<and>
    distinct (map pbt_track_id (asr_tracks r))"
proof -
  have "\<forall>f \<in> set sample_frames. persons_boxed (tfr_persons f)"
    by (simp add: sample_frames_def persons_boxed_def sample_person_def)
  from association_shows_tracks_once [OF sample_math_ok this, of sample_association_config]
  show ?thesis by (auto simp: sample_frames_def)
qed

text \<open>
  C28: in one frame \<open>global_match\<close> returns a pairing in which no track and no detection occurs
  twice and every pair reaches the threshold. When both sides are at most \<open>max_exact_size\<close>, no
  set of admissible pairs has a greater total score; otherwise none has a greater total of
  \<open>score + 1\<close>.
\<close>

theorem global_match_optimal:
  assumes "\<And>t. t \<in> set tracks \<Longrightarrow> boxes_ok t" and "rounding_ok tm"
    and "distinct (map trs_id tracks)" and "distinct (map fst detections)"
  shows "\<exists>dbp ms. pair_scores tm tracks detections i min_score = done_with dbp \<and>
    global_match tm max_exact tracks detections i min_score = done_with ms \<and> pairing_ok tracks detections min_score ms \<and>
    (\<forall>qs. is_matching dbp qs \<longrightarrow>
       (if length tracks \<le> max_exact \<and> length detections \<le> max_exact then total_score dbp qs \<le> pairing_score ms
        else total_score dbp qs + of_nat (length qs) \<le> pairing_score ms + of_nat (length ms)))"
  by (rule global_match_done [OF assms])

theorem global_match_optimal_witness:
  "\<exists>dbp ms. pair_scores sample_math [new_track 0 1 (sample_person 0 1), new_track 0 2 (sample_person 40 1)]
      [(0, sample_person 41 1), (1, sample_person 1 1)] 1 (28 / 100) = done_with dbp \<and>
    global_match sample_math 10 [new_track 0 1 (sample_person 0 1), new_track 0 2 (sample_person 40 1)]
      [(0, sample_person 41 1), (1, sample_person 1 1)] 1 (28 / 100) = done_with ms \<and>
    (\<forall>qs. is_matching dbp qs \<longrightarrow> total_score dbp qs \<le> pairing_score ms)"
proof -
  let ?ts = "[new_track 0 1 (sample_person 0 1), new_track 0 2 (sample_person 40 1)]"
  let ?ds = "[(0 :: nat, sample_person 41 1), (1, sample_person 1 1)]"
  have b: "boxes_ok t" if "t \<in> set ?ts" for t
    using that by (auto simp: new_track_def boxes_ok_def make_observation_def person_box_def sample_person_def or_default_def)
  have d: "distinct (map trs_id ?ts)" by (simp add: new_track_def)
  have e: "distinct (map fst ?ds)" by simp
  from global_match_optimal [OF b sample_math_ok d e, of 1 "28 / 100" 10] show ?thesis by (auto split: if_splits)
qed

text \<open>
  C30: the memoised recursion of \<open>solve\<close> computes what the recursion without its dictionary
  computes, from the empty dictionary and from any whose entries are results of that recursion.
\<close>

theorem memoised_solver_agrees:
  assumes "cache_valid dbp tracks detections c"
  shows "fst (solve dbp tracks detections pos used c) = best_from dbp tracks detections pos used
    \<and> cache_valid dbp tracks detections (snd (solve dbp tracks detections pos used c))"
  by (rule solve_memo [OF assms])

theorem memoised_solver_agrees_witness:
  "fst (solve sample_scores 2 2 0 0 [((2, 0), (0, []))]) = best_from sample_scores 2 2 0 0"
proof -
  have "best_from sample_scores 2 2 2 0 = (0, [])" by (simp add: best_from.simps)
  then have "cache_valid sample_scores 2 2 [((2, 0), (0, []))]" by (simp add: cache_valid_def)
  from memoised_solver_agrees [OF this] show ?thesis by blast
qed

text \<open>
  C29: \<open>hungarian_assignment_pairs\<close> returns: the search for an augmenting path visits every column
  at most once and always finds one, and following the predecessors back ends at column 0. The
  pairs are a matching, and none has a greater total of \<open>score + 1\<close>, that is, of scores and pairs
  together.
\<close>

theorem hungarian_returns_greatest:
  assumes "dbp \<noteq> []" and "dict_ok dbp" and "pairs_within dbp tracks detections"
    and "\<And>kv. kv \<in> set dbp \<Longrightarrow> -1 \<le> mdt_score (snd kv)"
  shows "\<exists>ps. hungarian_assignment_pairs dbp tracks detections = done_with ps \<and> is_matching dbp ps \<and>
    (\<forall>qs. is_matching dbp qs \<longrightarrow> total_score dbp qs + of_nat (length qs) \<le> total_score dbp ps + of_nat (length ps))"
  by (rule hungarian_solution [OF assms])

theorem hungarian_returns_greatest_witness:
  "\<exists>ps. hungarian_assignment_pairs sample_scores 2 2 = done_with ps \<and> total_score sample_scores [(0, 1), (1, 0)] + 2 \<le> total_score sample_scores ps + of_nat (length ps)"
proof -
  have s: "sample_scores \<noteq> []" "dict_ok sample_scores" "pairs_within sample_scores 2 2"
      "is_matching sample_scores [(0, 1), (1, 0)]"
    by (auto simp: sample_scores_def pairs_within_def is_matching_def)
  have low: "-1 \<le> mdt_score (snd kv)" if "kv \<in> set sample_scores" for kv
    using that by (auto simp: sample_scores_def score_details_def)
  from hungarian_returns_greatest [OF s(1-3) low] s(4) show ?thesis by fastforce
qed


text \<open>
  C31: \<open>union\<close> of ids \<open>x\<close> and \<open>y\<close> with different roots returns \<open>True\<close> and makes one class of the two
  classes, leaving all others as they were; \<open>find\<close> then returns, for every id, the root of its
  class. \<open>R\<close> maps each id to its root: it is what the parent dictionary stands for, before and
  after the paths are compressed.
\<close>

theorem union_joins_classes:
  assumes "finite X" and "forest_ok X R u" and "x \<in> X" and "y \<in> X" and "R x \<noteq> R y"
  shows "\<exists>u' R'. uf_union x y u = done_with (True, u') \<and> forest_ok X R' u' \<and>
    (\<forall>z \<in> X. \<forall>w \<in> X. R' z = R' w \<longleftrightarrow> R z = R w \<or> {R z, R w} = {R x, R y}) \<and>
    (\<forall>z \<in> X. \<exists>ps. uf_find z (ufd_parent u') = done_with (R' z, ps) \<and> forest_ok X R' (u'\<lparr>ufd_parent := ps\<rparr>))"
proof -
  obtain u' a b where u': "uf_union x y u = done_with (True, u')" "{a, b} = {R x, R y}" "a \<noteq> b" "forest_ok X (join_class R a b) u'"
    using uf_union_done [OF assms] by blast
  have "join_class R a b z = join_class R a b w \<longleftrightarrow> R z = R w \<or> {R z, R w} = {R x, R y}" for z w
    using u'(3) unfolding u'(2) [symmetric] by (auto simp: join_class_def doubleton_eq_iff)
  with u'(1,4) uf_find_done [OF assms(1) u'(4)] show ?thesis by blast
qed

theorem union_joins_classes_witness:
  "\<exists>u'. uf_union ''a'' ''b'' (make_union_find [new_track 0 1 (sample_person 0 1)\<lparr>trs_id := ''a''\<rparr>, new_track 0 2 (sample_person 40 1)\<lparr>trs_id := ''b''\<rparr>]) =
    done_with (True, u') \<and> (\<exists>R' ps. R' ''a'' = R' ''b'' \<and> uf_find ''b'' (ufd_parent u') = done_with (R' ''b'', ps))"
proof -
  let ?ts = "[new_track 0 1 (sample_person 0 1)\<lparr>trs_id := ''a''\<rparr>, new_track 0 2 (sample_person 40 1)\<lparr>trs_id := ''b''\<rparr>]"
  have f: "forest_ok {''a'', ''b''} (\<lambda>x. x) (make_union_find ?ts)" using make_union_find_ok [of ?ts] by simp
  have "\<exists>u' R'. uf_union ''a'' ''b'' (make_union_find ?ts) = done_with (True, u') \<and> forest_ok {''a'', ''b''} R' u' \<and>
    (\<forall>z \<in> {''a'', ''b''}. \<forall>w \<in> {''a'', ''b''}. R' z = R' w \<longleftrightarrow> z = w \<or> {z, w} = {''a'', ''b''}) \<and>
    (\<forall>z \<in> {''a'', ''b''}. \<exists>ps. uf_find z (ufd_parent u') = done_with (R' z, ps) \<and> forest_ok {''a'', ''b''} R' (u'\<lparr>ufd_parent := ps\<rparr>))"
    by (rule union_joins_classes [OF _ f]) simp_all
  then obtain u' R' where u: "uf_union ''a'' ''b'' (make_union_find ?ts) = done_with (True, u')"
      and R: "\<forall>z \<in> {''a'', ''b''}. \<forall>w \<in> {''a'', ''b''}. R' z = R' w \<longleftrightarrow> z = w \<or> {z, w} = {''a'', ''b''}"
      and F: "\<forall>z \<in> {''a'', ''b''}. \<exists>ps. uf_find z (ufd_parent u') = done_with (R' z, ps) \<and> forest_ok {''a'', ''b''} R' (u'\<lparr>ufd_parent := ps\<rparr>)"
    by (elim exE conjE)
  from R have "R' ''a'' = R' ''b''" by simp
  moreover from F obtain ps where "uf_find ''b'' (ufd_parent u') = done_with (R' ''b'', ps)" by auto
  ultimately show ?thesis using u by (intro exI [of _ u'] conjI exI [of _ R'] exI [of _ ps])
qed

end
