(* ===== verification/Spec2Isabelle.thy ===== *)
theory Spec2Isabelle
  imports Result_Storage Execution_Outcome Webhook_Service Maintenance Access_Correct Feature_Correct
    Surveillance_Tasks Trajectory_Merges Track_Properties
begin

text \<open>
  This development verifies the core of Scenara, a platform that parses media with configurable
  pipelines (\<open>src/scenara\<close>). It covers the state store and the services on it: media, runs, their
  execution and results, webhooks, retention and queue recovery, the access management beside
  them, the stores and services of portrait identities, their trajectories across cameras and
  their surveillance, and the tracking of persons within a video (\<open>src/app\<close>). The root theory holds this overview; the properties stand in the theories of
  the components they are about.

  \<^bold>\<open>The program.\<close> A client uploads media or registers a stream (\<open>RunService.create_asset\<close>,
  \<open>create_source\<close>) and creates a run of a pipeline on it (\<open>create_run\<close>). The run is stored, queued and
  taken by a worker (\<open>execute_run\<close>), which fetches the media, executes the pipeline's operators in
  topological order (\<open>PipelineRegistry.execute\<close>) and stores the result in shards (\<open>_store_result\<close>).
  Clients pause, resume and cancel runs (\<open>transition\<close>), read results page by page (\<open>result\<close>,
  \<open>result_page\<close>), read events (\<open>events_after\<close>) and subscribe to them with webhooks, whose deliveries
  wait in an outbox of the same store. Rows of every table carry tenant and project.

  \<^bold>\<open>How code is modelled.\<close> A Python function that may raise and acts on a state \<open>'s\<close> is a value of
  \<open>('s, 'a) py = 's \<Rightarrow> (exn + 'a) \<times> 's\<close> (\<open>Py_Prelude\<close>), composed by \<open>andthen\<close>, \<open>catch\<close> (\<open>except Exception\<close>,
  which does not catch \<open>CancelledError\<close>), \<open>suppress\<close>, \<open>for_each\<close> and \<open>map_py\<close>. Dictionaries are association
  lists in insertion order; floats are rationals, so rounding is not modelled; strings are lists
  of characters; bytes are strings. An operation of the in-memory store runs under a lock and is one
  atomic step on the record \<open>memory_state_store\<close>. A service method is a sequence of awaited calls on
  the record \<open>world\<close> (\<open>Service_World\<close>): before each call of the store, other tasks may act on it (\<open>w_env\<close>),
  and each call may fail (\<open>w_fault\<close>); both are arbitrary functions of the number of the call, as
  are clock readings and random identifiers. Theorems hold for all of them unless they say so.

  \<^bold>\<open>Theories.\<close>
  \<^item> \<open>Py_Prelude\<close>: exceptions, dictionaries, slices, sorting, the state-and-exception monad and its
    \<open>preserves\<close> rules. \<open>Py_Outcomes\<close>: triples for what holds after returning and after raising.
  \<^item> \<open>Platform_Models\<close>: the records and enumerations of \<open>platform/models.py\<close>, \<open>audit.py\<close>, \<open>pipeline.py\<close>,
    \<open>model_runtime.py\<close>.
  \<^item> \<open>Memory_State\<close>, \<open>Store_Media\<close>, \<open>Store_Catalog\<close>, \<open>Store_Webhooks\<close>, \<open>Store_Runs\<close>: every operation of
    \<open>infrastructure/memory_state.py\<close>, one definition each with the method's name, and the properties
    of each group. \<open>Store_Invariant\<close>: the step relation of all operations, the invariant of reachable
    stores by rule induction, tenant isolation, and what rests on the invariant.
  \<^item> \<open>Pipeline_Validation\<close>, \<open>Execution_Control\<close>, \<open>Pipeline_Registry\<close>: \<open>platform/pipeline.py\<close>: validation with
    Kahn's algorithm against the definition of a topological order, the pause clock and the
    time budget of operators, registration and execution.
  \<^item> \<open>Object_Store\<close>: \<open>LocalObjectStore\<close> and the secret stores over a file map; the locale of an
    immutable object store, interpreted on it.
  \<^item> \<open>Service_World\<close>: the calls, \<open>policy.py\<close> and \<open>AuditLogger\<close>. \<open>Run_Lifecycle\<close>: pipelines, \<open>create_run\<close>,
    \<open>transition\<close>, \<open>wait\<close> and stream sessions of \<open>services.py\<close>; the locale \<open>run_invariant\<close> states what an
    invariant of the store needs so that these requests keep it, and is interpreted for the
    well-formedness of the store, for the data of another tenant and for finished runs.
  \<^item> \<open>Run_Results\<close>, \<open>Result_Storage\<close>: \<open>_store_result\<close> and the readers, the round trip between them and
    pages as slices.
  \<^item> \<open>Run_Execution\<close>: \<open>execute_run\<close> and its helpers (\<open>services_execution.py\<close>) and the artifact sink
    (\<open>artifacts.py\<close>). \<open>Execution_Correct\<close>: the locales \<open>result_writer\<close> and \<open>execution_invariant\<close>, the
    store stays well formed, progress is monotone. \<open>Execution_Outcome\<close>: every execution ends.
  \<^item> \<open>Media_Service\<close>, \<open>Media_Uploads\<close>: assets and sources of \<open>services.py\<close>; uploads are all or nothing.
  \<^item> \<open>Webhook_Service\<close>: \<open>webhook_service.py\<close>, \<open>webhooks.py\<close>; claimed deliveries are settled.
  \<^item> \<open>Maintenance\<close>: \<open>retention.py\<close>, \<open>queue_recovery.py\<close> and \<open>rebuild_empty\<close> of \<open>infrastructure/queue.py\<close>.
  \<^item> \<open>Access_Store\<close>: the in-memory access repository of \<open>access.py\<close>, its step relation, and the locale
    of tables with rows of several tenants, interpreted on service accounts and entitlements.
    \<open>Repository_World\<close>: the calls of a service that has a repository of its own beside the state
    store. \<open>Access_Service\<close>: the requests of \<open>AccessService\<close>. \<open>Access_Correct\<close>: a key never grants more than
    its account, a created key authenticates, a revoked one never does again.
  \<^item> \<open>Feature_Store\<close> and \<open>Index_Store\<close>: the in-memory stores of \<open>platform/features.py\<close> and
    \<open>platform/index.py\<close>. \<open>Feature_Correct\<close>: a search answers the best features, the paging loops end
    and read everything. \<open>Portrait_Service\<close>: identities and enrolments (\<open>domains/portrait/service.py\<close>) on
    these stores; \<open>Portrait_Correct\<close>: deleting an identity removes its biometric data everywhere.
  \<^item> \<open>Json_Values\<close>: reading JSON values as the services do. \<open>Trajectory_Store\<close>, \<open>Trajectory_Service\<close>,
    \<open>Trajectory_Review\<close> (\<open>domains/portrait/trajectory.py\<close>): the in-memory repository of long-term
    identities, segments, cameras and travel times, the assignment of a run's tracks to identities,
    and the corrections of reviewers. \<open>Trajectory_Correct\<close>: an identity is reused only where and when
    the person can be. \<open>Trajectory_Merges\<close>: merging and splitting refine relabellings of segments.
  \<^item> \<open>Surveillance_Models\<close> (\<open>platform/surveillance.py\<close>), \<open>Surveillance_Store\<close> (\<open>infrastructure/
    memory_surveillance.py\<close>, with tables and versioned rows as interpretations of their locales),
    \<open>Surveillance_Alerts\<close> (its step relation and invariant), \<open>Surveillance_Matching\<close>,
    \<open>Surveillance_Service\<close> and \<open>Surveillance_Evaluation\<close> (\<open>domains/portrait/surveillance.py\<close>).
    \<open>Surveillance_Correct\<close>: alerts are spaced by cooldowns, triage is final, the log can be resumed.
    \<open>Surveillance_Tasks\<close>: the matcher is sound; what updating and resuming a task does.
  \<^item> Person tracking (\<open>app/tracking_association.py\<close>, \<open>tracking_state.py\<close>, \<open>portrait_tracking_metrics.py\<close>,
    \<open>vector_math.py\<close>): \<open>Track_Metrics\<close> and \<open>Track_State\<close> (boxes, templates, the state of a track; code that
    may raise or not return is an \<open>attempt\<close>), \<open>Track_Assignment\<close> (scores, the greedy, the exact and the
    Hungarian assignment), \<open>Track_Fragments\<close> (union-find and the merging of fragments),
    \<open>Track_Association\<close> (\<open>associate_person_tracks\<close>). \<open>Track_Optimal\<close>: the memoised solver agrees with the
    plain recursion, which is optimal. \<open>Track_Hungarian\<close>: the loops of the Hungarian method end and its
    result is optimal, by duality. \<open>Track_Matching\<close>, \<open>Track_Frames\<close>, \<open>Track_Groups\<close>, \<open>Track_Correct\<close>: from the
    pairing of one frame to the result of all frames. \<open>Track_Properties\<close>: the properties.
  \<^item> \<open>Sample_Data\<close>, \<open>Sample_World\<close>, \<open>Sample_Beside\<close>, \<open>Sample_Trajectories\<close>: concrete values for the witnesses.

  \<^bold>\<open>Parameters.\<close> Hash functions, JSON codecs, the text of exceptions, URL validation, an external
  policy provider, the operators of a pipeline, registrars, observation evaluators, media
  inspection, the HTTP client, the trimming of Redis streams, password hashing, random tokens,
  \<open>math.sqrt\<close>, \<open>casefold\<close>, the image encoder, the local time of a zone, the text of JSON
  values, the conversion of texts to numbers, square roots of \<open>numpy\<close> and \<open>round\<close> are arguments; what a property needs of
  them is a hypothesis with a witness. The result index (\<open>_index_result\<close>) is a remote call that
  may fail.

  \<^bold>\<open>Bounds.\<close> The retry loops of \<open>transition\<close>, \<open>_begin_execution\<close> and \<open>report_progress\<close> run four times in
  the code, and the model counts them down. \<open>wait\<close> polls until a deadline: its definition takes
  a number of polls that the deadline and the polling interval bound. \<open>checkpoint_loop\<close> polls a paused
  run as long as it stays paused, which may be for ever; it takes the number of polls after which
  the worker is cancelled, and the theorems hold for every number. An operator is the list of its
  observed polls, so its supervision ends with the list. The paging loop of the index store is a
  recursion whose termination is proved by the records left to read. Merging trajectories reads at
  most 1000 segments of an identity, as the code does; the refinement holds up to that size, and
  \<open>merge_orphans_segments\<close> shows what happens beyond it. The loops of the Hungarian method and \<open>find\<close>
  are partial functions into options; that they return is part of their properties.

  \<^bold>\<open>Not modelled.\<close> The PostgreSQL stores, S3, Qdrant and Triton back ends (SQL and network calls), the
  HTTP API, the vision domains and the inference runtime under \<open>src/app\<close> but for tracking (numeric
  code around models), the data-platform jobs, the SDK and the scripts. Still open for an extension in the same
  style: the control plane, feedback, datasets and search services, and the geometry of crops in \<open>artifacts.py\<close>.
\<close>

end
